(* ===== verification/Vault_Prelude.thy ===== *)
theory Vault_Prelude
  imports Main
begin

text \<open>
  Shared vocabulary of the development: thrown errors and results, JavaScript dates and the
  comparisons the code makes on them, a JSON value type, and the generic list lemmas the
  component theories use.

  Strings are HOL strings: a character stands for one UTF-16 code unit below 256.  All the
  literals, identifiers, digests and patterns the code handles are in that range.
\<close>

section \<open>Collections of facts\<close>

named_theorems vault_defs "definitions unfolded by the branch proofs of one component"
named_theorems frame "what an operation leaves alone"

section \<open>Errors and results\<close>

text \<open>
  A thrown JavaScript error is its \<open>name\<close> and its \<open>message\<close>; an error raised by the database
  driver is its SQLSTATE.  \<open>err_name\<close> is what the code reads back as \<open>error.name\<close>
  (the driver's errors are named \<open>error\<close>).
\<close>

datatype err = Thrown string string | PgError string

fun err_name :: "err \<Rightarrow> string" where
  "err_name (Thrown n m) = n"
| "err_name (PgError c) = ''error''"

type_synonym 'a result = "err + 'a"

abbreviation js_error :: "string \<Rightarrow> err" where
  "js_error m \<equiv> Thrown ''Error'' m"

abbreviation pg_unique_violation :: err where
  "pg_unique_violation \<equiv> PgError ''23505''"

abbreviation pg_rls_violation :: err where
  "pg_rls_violation \<equiv> PgError ''42501''"

abbreviation pg_check_violation :: err where
  "pg_check_violation \<equiv> PgError ''23514''"

definition res_bind :: "'a result \<Rightarrow> ('a \<Rightarrow> 'b result) \<Rightarrow> 'b result" where
  "res_bind m f = (case m of Inl e \<Rightarrow> Inl e | Inr x \<Rightarrow> f x)"

definition guard :: "bool \<Rightarrow> err \<Rightarrow> unit result" where
  "guard b e = (if b then Inr () else Inl e)"

lemma res_bind_simps [simp]:
  "res_bind (Inl e) f = Inl e" "res_bind (Inr x) f = f x"
  by (simp_all add: res_bind_def)

lemma res_bind_eq_Inr [simp]:
  "res_bind m f = Inr y \<longleftrightarrow> (\<exists>x. m = Inr x \<and> f x = Inr y)"
  by (cases m) auto

lemma res_bind_eq_Inl:
  "res_bind m f = Inl e \<longleftrightarrow> m = Inl e \<or> (\<exists>x. m = Inr x \<and> f x = Inl e)"
  by (cases m) auto

lemma guard_simps [simp]:
  "guard True e = Inr ()" "guard False e = Inl e"
  "guard b e = Inr u \<longleftrightarrow> b" "guard b e = Inl e' \<longleftrightarrow> \<not> b \<and> e' = e"
  by (auto simp: guard_def)

text \<open>The first element that throws ends the traversal, as an exception in a callback does.\<close>

fun res_map :: "('a \<Rightarrow> 'b result) \<Rightarrow> 'a list \<Rightarrow> 'b list result" where
  "res_map f [] = Inr []"
| "res_map f (x # xs) = (case f x of Inl e \<Rightarrow> Inl e
     | Inr y \<Rightarrow> (case res_map f xs of Inl e \<Rightarrow> Inl e | Inr ys \<Rightarrow> Inr (y # ys)))"

lemma res_map_Cons_Inr:
  "res_map f (x # xs) = Inr ys \<longleftrightarrow> (\<exists>y zs. f x = Inr y \<and> res_map f xs = Inr zs \<and> ys = y # zs)"
  by (auto split: sum.splits)

lemma res_map_in:
  "res_map f xs = Inr ys \<Longrightarrow> y \<in> set ys \<Longrightarrow> \<exists>x \<in> set xs. f x = Inr y"
  by (induction xs arbitrary: ys) (auto simp: res_map_Cons_Inr simp del: res_map.simps(2))

lemma res_map_all:
  "res_map f xs = Inr ys \<Longrightarrow> x \<in> set xs \<Longrightarrow> \<exists>y \<in> set ys. f x = Inr y"
  by (induction xs arbitrary: ys) (auto simp: res_map_Cons_Inr simp del: res_map.simps(2))

section \<open>Dates\<close>

text \<open>
  An \<open>IsoDateTime\<close> of the code is a string that is only tested for truthiness, read with
  \<open>Date.parse\<close>, or written with \<open>toISOString\<close>.  \<open>Blank\<close> is an absent or empty value (falsy),
  \<open>At t\<close> a text that \<open>Date.parse\<close> reads as \<open>t\<close> milliseconds after the epoch, \<open>Unparsable s\<close>
  a non-empty text for which it gives \<open>NaN\<close>.  A JavaScript number that may be \<open>NaN\<close> is an
  \<open>int option\<close>; a comparison with \<open>NaN\<close> is false.
\<close>

datatype iso = Blank | Unparsable string | At int

fun truthy :: "iso \<Rightarrow> bool" where
  "truthy Blank = False"
| "truthy (Unparsable s) = True"
| "truthy (At t) = True"

fun date_parse :: "iso \<Rightarrow> int option" where
  "date_parse Blank = None"
| "date_parse (Unparsable s) = None"
| "date_parse (At t) = Some t"

fun num_lt :: "int option \<Rightarrow> int option \<Rightarrow> bool" where
  "num_lt (Some a) (Some b) = (a < b)"
| "num_lt a b = False"

fun num_le :: "int option \<Rightarrow> int option \<Rightarrow> bool" where
  "num_le (Some a) (Some b) = (a \<le> b)"
| "num_le a b = False"

fun num_sub :: "int option \<Rightarrow> int option \<Rightarrow> int option" where
  "num_sub (Some a) (Some b) = Some (a - b)"
| "num_sub a b = None"

lemma num_lt_iff [simp]: "num_lt x y \<longleftrightarrow> (\<exists>a b. x = Some a \<and> y = Some b \<and> a < b)"
  by (cases x; cases y) auto

lemma num_le_iff [simp]: "num_le x y \<longleftrightarrow> (\<exists>a b. x = Some a \<and> y = Some b \<and> a \<le> b)"
  by (cases x; cases y) auto

lemma date_parse_Some [simp]: "date_parse i = Some t \<longleftrightarrow> i = At t"
  by (cases i) auto

lemma truthy_At [simp]: "date_parse i \<noteq> None \<Longrightarrow> truthy i"
  by (cases i) auto

text \<open>\<open>new Date(x)\<close> is invalid beyond 8.64e15 milliseconds from the epoch (TimeClip).\<close>

definition time_clip :: "int \<Rightarrow> int option" where
  "time_clip t = (if \<bar>t\<bar> \<le> 8640000000000000 then Some t else None)"

definition max_safe_integer :: int where
  "max_safe_integer = 9007199254740991"

definition is_safe_integer :: "int \<Rightarrow> bool" where
  "is_safe_integer n \<longleftrightarrow> \<bar>n\<bar> \<le> max_safe_integer"

section \<open>JSON values\<close>

text \<open>
  An \<open>unknown\<close> or \<open>jsonb\<close> value.  Object members keep their order; numbers are the integers
  the code stores.
\<close>

datatype json =
    JNull | JBool bool | JNum int | JStr string | JArr "json list" | JObj "(string \<times> json) list"

definition jfield :: "json \<Rightarrow> string \<Rightarrow> json option" where
  "jfield v k = (case v of JObj kvs \<Rightarrow> map_of kvs k | _ \<Rightarrow> None)"

lemma jfield_JObj [simp]: "jfield (JObj kvs) k = map_of kvs k"
  by (simp add: jfield_def)

text \<open>Truthiness.\<close>

fun js_truthy :: "json \<Rightarrow> bool" where
  "js_truthy JNull = False"
| "js_truthy (JBool b) = b"
| "js_truthy (JNum n) = (n \<noteq> 0)"
| "js_truthy (JStr s) = (s \<noteq> [])"
| "js_truthy (JArr vs) = True"
| "js_truthy (JObj kvs) = True"

section \<open>Lists\<close>

lemma filter_map_id:
  assumes "\<And>r. P (f r) = P r"
  shows "filter P (map f xs) = map f (filter P xs)"
  by (induction xs) (auto simp: assms)

lemma map_cond_other:
  "(\<And>r. r \<in> set xs \<Longrightarrow> \<not> c r) \<Longrightarrow> map (\<lambda>r. if c r then f r else r) xs = xs"
  by (induction xs) auto

lemma distinct_map_upd:
  "(\<And>r. g (f r) = g r) \<Longrightarrow> map g (map f xs) = map g xs"
  by simp

lemma find_Some_iff_filter:
  "find P xs = (case filter P xs of [] \<Rightarrow> None | x # _ \<Rightarrow> Some x)"
  by (induction xs) auto

lemma filter_hd_Some: "filter P xs = x # ys \<Longrightarrow> x \<in> set xs \<and> P x"
proof -
  assume "filter P xs = x # ys"
  then have "x \<in> set (filter P xs)" by simp
  then show ?thesis by simp
qed

lemma distinct_set_singleton: "distinct xs \<Longrightarrow> set xs = {x} \<Longrightarrow> xs = [x]"
  by (cases xs; cases "tl xs") auto

lemma distinct_map_filter_unique:
  assumes "distinct (map g xs)" and "x \<in> set xs" and "y \<in> set xs" and "g x = g y"
  shows "x = y"
  using assms by (metis distinct_map inj_on_def)

lemma filter_key_singleton:
  assumes "distinct (map g xs)" and "x \<in> set xs" and "P x"
    and "\<And>y. y \<in> set xs \<Longrightarrow> P y \<Longrightarrow> g y = g x"
  shows "filter P xs = [x]"
proof -
  have *: "y = x" if "y \<in> set (filter P xs)" for y
    using that assms(4) distinct_map_filter_unique [OF assms(1) _ assms(2)] by simp
  have "distinct (filter P xs)"
    using assms(1) by (simp add: distinct_map)
  moreover have "set (filter P xs) = {x}"
  proof
    show "set (filter P xs) \<subseteq> {x}" using * by blast
    show "{x} \<subseteq> set (filter P xs)" using assms(2,3) by simp
  qed
  ultimately show ?thesis by (rule distinct_set_singleton)
qed

section \<open>Effects on the world outside\<close>

text \<open>
  An operation of a service (object store, scanner, cache, provider) on its state \<open>'x\<close>; it may throw,
  and may have changed the state when it does.
\<close>

type_synonym ('x, 'a) world_op = "'x \<Rightarrow> 'a result \<times> 'x"

definition world_bind :: "('x, 'a) world_op \<Rightarrow> ('a \<Rightarrow> ('x, 'b) world_op) \<Rightarrow> ('x, 'b) world_op" where
  "world_bind m f x = (case m x of (Inl e, x') \<Rightarrow> (Inl e, x') | (Inr a, x') \<Rightarrow> f a x')"

definition pure_result :: "'a result \<Rightarrow> ('x, 'a) world_op" where
  "pure_result r x = (r, x)"

lemma world_bind_Inr:
  "world_bind m f x = (Inr b, x') \<longleftrightarrow> (\<exists>a x1. m x = (Inr a, x1) \<and> f a x1 = (Inr b, x'))"
  by (auto simp: world_bind_def split: prod.splits sum.splits)

end
