(* ===== verification/Domain_Model.thy ===== *)
theory Domain_Model
  imports Vault_Prelude
begin

text \<open>
  \<open>packages/domain\<close>: the entities of the vault and the pure rules on them.  Facts and their
  confirmation (\<open>facts.ts\<close>), role permissions and grants (\<open>permissions.ts\<close>), retention
  (\<open>retention.ts\<close>), consent, report claims, emergency access and workflow steps
  (\<open>workflows.ts\<close>), billing access (\<open>billing.ts\<close>).
\<close>

section \<open>Entities\<close>

datatype role = Owner | CoOwner | Editor | FamilyHelper | ProfessionalAdvisor | ReadOnlyViewer
  | EmergencyRecipient | SupportAgent | PlatformAdmin

datatype record_category = Contacts | Advisers | Dependents | Pets | Assets | Liabilities
  | Insurance | Property | EstateDocuments | MedicalSummary | DigitalAssetLocations
  | HouseholdInstructions | FuneralPreferences

datatype fact_status = Candidate | Confirmed | Rejected | Disputed

datatype sensitivity = Standard | Sensitive | HighlySensitive

datatype source_type = Manual | FromDocument | Interview | Professional

datatype permission_action = Read | Create | Update | Delete | Export | Approve

record tenant_entity =
  ent_id :: string
  ent_org :: string
  ent_hh :: string
  ent_version :: int

record permission_grant = tenant_entity +
  pg_membership :: string
  pg_categories :: "record_category list"
  pg_actions :: "permission_action list"
  pg_purpose :: string
  pg_starts :: iso
  pg_expires :: iso
  pg_revoked :: iso

record candidate_fact = tenant_entity +
  cf_field_key :: string
  cf_value :: json
  cf_status :: fact_status
  cf_source_type :: source_type
  cf_source_id :: string
  cf_evidence :: "string list"
  cf_confidence :: "int option"
  cf_sensitivity :: sensitivity
  cf_confirmed_by :: "string option"
  cf_confirmed_at :: iso
  cf_last_reviewed :: iso

datatype consent_purpose = ExternalAi | SensitiveData | DocumentProcessing | TransactionalEmail
  | Terms | PrivacyPolicy

record consent = tenant_entity +
  con_person :: string
  con_purpose :: consent_purpose
  con_policy :: string
  con_granted :: iso
  con_withdrawn :: iso

datatype claim_status = ClaimConfirmed | ClaimMissing | ClaimDisputed

record report_claim =
  rc_fact_id :: string
  rc_evidence :: "string list"
  rc_field_key :: string
  rc_value :: string
  rc_status :: claim_status

datatype report_kind = LifeInventory | FamilyEmergencyGuide | ExecutorPreparationPacket
  | BeneficiaryReviewChecklist | DocumentGapReport | HouseholdContinuityGuide | AnnualReview

record review_findings =
  rf_stale :: "string list"
  rf_expiring :: "string list"
  rf_contradictions :: "(string \<times> string list) list"

record report = tenant_entity +
  rep_kind :: report_kind
  rep_generated :: iso
  rep_claims :: "report_claim list"
  rep_versions :: "(string \<times> int) list"
  rep_missing :: "record_category list option"
  rep_notices :: "string list option"
  rep_findings :: "review_findings option"

datatype emergency_status = Requested | Approved | Denied | Delayed | Released | Revoked

record emergency_request = tenant_entity +
  er_requester :: string
  er_recipient :: string
  er_categories :: "record_category list"
  er_reason :: string
  er_status :: emergency_status
  er_requested :: iso
  er_decision :: iso
  er_release_after :: iso

datatype run_status = RunPending | RunRunning | RunBlocked | RunCompleted | RunFailed

record workflow_run = tenant_entity +
  wr_key :: string
  wr_status :: run_status
  wr_completed :: "string list"
  wr_next :: "string option"
  wr_error :: "string option"

end
