(* ===== verification/Js_Json.thy ===== *)
theory Js_Json
  imports Vault_Prelude
begin

text \<open>
  \<open>JSON.stringify\<close> and \<open>JSON.parse\<close> on the values of the model, as ECMAScript defines them, and the
  facts the components use: parsing a printed value gives it back, so printing is injective.
  The parser covers the grammar but for fractions and exponents, which no modelled value has,
  and for escapes of code units above 255, which the string type does not hold; both give \<open>None\<close>,
  as malformed text does (the source's \<open>SyntaxError\<close>).
\<close>

section \<open>Numbers\<close>

definition digit_char :: "nat \<Rightarrow> char" where
  "digit_char d = char_of (48 + d)"

definition is_digit :: "char \<Rightarrow> bool" where
  "is_digit c \<longleftrightarrow> 48 \<le> (of_char c :: nat) \<and> (of_char c :: nat) \<le> 57"

definition digit_val :: "char \<Rightarrow> nat" where
  "digit_val c = of_char c - 48"

fun dec_nat :: "nat \<Rightarrow> string" where
  "dec_nat n = (if n < 10 then [digit_char n] else dec_nat (n div 10) @ [digit_char (n mod 10)])"

declare dec_nat.simps [simp del]

definition dec_int :: "int \<Rightarrow> string" where
  "dec_int i = (if i < 0 then CHR ''-'' # dec_nat (nat (- i)) else dec_nat (nat i))"

definition read_digits :: "string \<Rightarrow> nat" where
  "read_digits s = foldl (\<lambda>acc c. 10 * acc + digit_val c) 0 s"

lemma digit_char_props [simp]:
  assumes "d < 10"
  shows "is_digit (digit_char d)" "digit_val (digit_char d) = d"
  using assms by (auto simp: is_digit_def digit_char_def digit_val_def)

lemma digit_char_0: "digit_char 0 = CHR ''0''"
  by code_simp

lemma digit_char_eq_0:
  assumes "d < 10"
  shows "digit_char d = CHR ''0'' \<longleftrightarrow> d = 0"
proof
  assume "digit_char d = CHR ''0''"
  moreover have "d = digit_val (digit_char d)" using assms by simp
  ultimately show "d = 0" by (simp add: digit_val_def)
next
  assume "d = 0"
  then show "digit_char d = CHR ''0''" by (simp add: digit_char_0)
qed

lemma read_digits_snoc: "read_digits (s @ [c]) = 10 * read_digits s + digit_val c"
  by (simp add: read_digits_def)

lemma dec_nat_digits: "\<forall>c \<in> set (dec_nat n). is_digit c"
proof (induction n rule: dec_nat.induct)
  case (1 n)
  then show ?case by (subst dec_nat.simps) auto
qed

lemma dec_nat_nonempty [simp]: "dec_nat n \<noteq> []"
  by (subst dec_nat.simps) simp

lemma read_dec_nat [simp]: "read_digits (dec_nat n) = n"
proof (induction n rule: dec_nat.induct)
  case (1 n)
  show ?case
  proof (cases "n < 10")
    case True
    then show ?thesis by (subst dec_nat.simps) (simp add: read_digits_def)
  next
    case False
    with 1 show ?thesis by (subst dec_nat.simps) (simp add: read_digits_snoc)
  qed
qed

lemma dec_nat_hd_zero: "hd (dec_nat n) = CHR ''0'' \<Longrightarrow> dec_nat n = ''0''"
proof (induction n rule: dec_nat.induct)
  case (1 n)
  show ?case
  proof (cases "n < 10")
    case True
    with 1 show ?thesis by (simp add: dec_nat.simps [of n])
  next
    case False
    with 1 have "hd (dec_nat (n div 10)) = CHR ''0''"
      by (simp add: dec_nat.simps [of n])
    with 1 False have "dec_nat (n div 10) = ''0''" by simp
    then have "read_digits (dec_nat (n div 10)) = 0"
      by (simp add: read_digits_def digit_val_def)
    with False show ?thesis by simp
  qed
qed

section \<open>Printing\<close>

definition hex_char :: "nat \<Rightarrow> char" where
  "hex_char d = (if d < 10 then char_of (48 + d) else char_of (87 + d))"

definition escape_char :: "char \<Rightarrow> string" where
  "escape_char c = (let n = (of_char c :: nat) in
     if n = 34 then [CHR 92, CHR 34]
     else if n = 92 then [CHR 92, CHR 92]
     else if n = 8 then [CHR 92, CHR ''b'']
     else if n = 9 then [CHR 92, CHR ''t'']
     else if n = 10 then [CHR 92, CHR ''n'']
     else if n = 12 then [CHR 92, CHR ''f'']
     else if n = 13 then [CHR 92, CHR ''r'']
     else if n < 32 then [CHR 92, CHR ''u'', CHR ''0'', CHR ''0'', hex_char (n div 16), hex_char (n mod 16)]
     else [c])"

definition quote_string :: "string \<Rightarrow> string" where
  "quote_string s = CHR 34 # concat (map escape_char s) @ [CHR 34]"

fun join :: "string \<Rightarrow> string list \<Rightarrow> string" where
  "join sep [] = []"
| "join sep [x] = x"
| "join sep (x # y # xs) = x @ sep @ join sep (y # xs)"

fun json_stringify :: "json \<Rightarrow> string" where
  "json_stringify JNull = ''null''"
| "json_stringify (JBool b) = (if b then ''true'' else ''false'')"
| "json_stringify (JNum i) = dec_int i"
| "json_stringify (JStr s) = quote_string s"
| "json_stringify (JArr vs) = ''['' @ join '','' (map json_stringify vs) @ '']''"
| "json_stringify (JObj kvs) =
     ''{'' @ join '','' (map (\<lambda>(k, v). quote_string k @ '':'' @ json_stringify v) kvs) @ ''}''"

section \<open>Parsing\<close>

definition is_ws :: "char \<Rightarrow> bool" where
  "is_ws c \<longleftrightarrow> (of_char c :: nat) \<in> {9, 10, 13, 32}"

abbreviation skip_ws :: "string \<Rightarrow> string" where
  "skip_ws \<equiv> dropWhile is_ws"

definition hex_val :: "char \<Rightarrow> nat option" where
  "hex_val c = (let n = (of_char c :: nat) in
     if 48 \<le> n \<and> n \<le> 57 then Some (n - 48)
     else if 97 \<le> n \<and> n \<le> 102 then Some (n - 87)
     else if 65 \<le> n \<and> n \<le> 70 then Some (n - 55)
     else None)"

fun unescape :: "string \<Rightarrow> (char \<times> string) option" where
  "unescape (c # s) = (let n = (of_char c :: nat) in
     if n = 34 \<or> n = 92 \<or> n = 47 then Some (c, s)
     else if c = CHR ''b'' then Some (char_of (8::nat), s)
     else if c = CHR ''t'' then Some (char_of (9::nat), s)
     else if c = CHR ''n'' then Some (char_of (10::nat), s)
     else if c = CHR ''f'' then Some (char_of (12::nat), s)
     else if c = CHR ''r'' then Some (char_of (13::nat), s)
     else if c = CHR ''u'' then
       (case s of
          a # b # x # y # s' \<Rightarrow>
            (if a = CHR ''0'' \<and> b = CHR ''0'' then
               (case (hex_val x, hex_val y) of
                  (Some h, Some l) \<Rightarrow> Some (char_of (16 * h + l), s')
                | _ \<Rightarrow> None)
             else None)
        | _ \<Rightarrow> None)
     else None)"
| "unescape [] = None"

text \<open>The characters of a string literal up to its closing quote; each step consumes one at least.\<close>

fun parse_chars :: "nat \<Rightarrow> string \<Rightarrow> (string \<times> string) option" where
  "parse_chars 0 s = None"
| "parse_chars (Suc n) [] = None"
| "parse_chars (Suc n) (c # s) =
     (if c = CHR 34 then Some ([], s)
      else if c = CHR 92 then
        (case unescape s of None \<Rightarrow> None
         | Some (d, s') \<Rightarrow> map_option (\<lambda>(cs, r). (d # cs, r)) (parse_chars n s'))
      else if (of_char c :: nat) < 32 then None
      else map_option (\<lambda>(cs, r). (c # cs, r)) (parse_chars n s))"

definition parse_string :: "string \<Rightarrow> (string \<times> string) option" where
  "parse_string s = (case s of c # s' \<Rightarrow> if c = CHR 34 then parse_chars (length s') s' else None | [] \<Rightarrow> None)"

definition parse_nat :: "string \<Rightarrow> (nat \<times> string) option" where
  "parse_nat s = (let ds = takeWhile is_digit s; r = dropWhile is_digit s in
     if ds = [] then None
     else if hd ds = CHR ''0'' then Some (0, tl s)
     else Some (read_digits ds, r))"

definition starts_fraction :: "string \<Rightarrow> bool" where
  "starts_fraction r \<longleftrightarrow> (case r of c # _ \<Rightarrow> c \<in> {CHR ''.'', CHR ''e'', CHR ''E''} | [] \<Rightarrow> False)"

definition parse_int :: "string \<Rightarrow> (int \<times> string) option" where
  "parse_int s = (case (case s of
       c # s' \<Rightarrow> if c = CHR ''-'' then map_option (\<lambda>(n, r). (- int n, r)) (parse_nat s')
                 else map_option (\<lambda>(n, r). (int n, r)) (parse_nat s)
     | [] \<Rightarrow> None) of
       None \<Rightarrow> None | Some (i, r) \<Rightarrow> if starts_fraction r then None else Some (i, r))"

definition strip :: "string \<Rightarrow> string \<Rightarrow> string option" where
  "strip p s = (if take (length p) s = p then Some (drop (length p) s) else None)"

definition js_put :: "(string \<times> json) list \<Rightarrow> string \<times> json \<Rightarrow> (string \<times> json) list" where
  "js_put kvs kv = (if fst kv \<in> set (map fst kvs)
     then map (\<lambda>(k, v). if k = fst kv then kv else (k, v)) kvs else kvs @ [kv])"

definition js_members :: "(string \<times> json) list \<Rightarrow> (string \<times> json) list" where
  "js_members kvs = foldl js_put [] kvs"

text \<open>
  The recursive-descent parser.  The first argument bounds the number of nested calls; the
  length of the text is enough, which \<open>json_parse\<close> supplies.  A repeated member
  name keeps its first position and its last value, as in JavaScript.
\<close>

fun parse_value :: "nat \<Rightarrow> string \<Rightarrow> (json \<times> string) option"
  and parse_items :: "nat \<Rightarrow> string \<Rightarrow> (json list \<times> string) option"
  and parse_members :: "nat \<Rightarrow> string \<Rightarrow> ((string \<times> json) list \<times> string) option"
where
  "parse_value 0 s0 = None"
| "parse_value (Suc n) s0 = (case skip_ws s0 of
     [] \<Rightarrow> None
   | c # s \<Rightarrow>
      (if c = CHR ''n'' then map_option (\<lambda>r. (JNull, r)) (strip ''ull'' s)
       else if c = CHR ''t'' then map_option (\<lambda>r. (JBool True, r)) (strip ''rue'' s)
       else if c = CHR ''f'' then map_option (\<lambda>r. (JBool False, r)) (strip ''alse'' s)
       else if c = CHR 34 then map_option (\<lambda>(t, r). (JStr t, r)) (parse_string (c # s))
       else if c = CHR ''['' then
         (case skip_ws s of
            [] \<Rightarrow> None
          | d # s' \<Rightarrow> if d = CHR '']'' then Some (JArr [], s')
                      else map_option (\<lambda>(vs, r). (JArr vs, r)) (parse_items n s))
       else if c = CHR ''{'' then
         (case skip_ws s of
            [] \<Rightarrow> None
          | d # s' \<Rightarrow> if d = CHR ''}'' then Some (JObj [], s')
                      else map_option (\<lambda>(kvs, r). (JObj (js_members kvs), r)) (parse_members n s))
       else map_option (\<lambda>(i, r). (JNum i, r)) (parse_int (c # s))))"
| "parse_items 0 s = None"
| "parse_items (Suc n) s = (case parse_value n s of
     None \<Rightarrow> None
   | Some (v, s1) \<Rightarrow> (case skip_ws s1 of
       [] \<Rightarrow> None
     | d # s2 \<Rightarrow> if d = CHR '','' then map_option (\<lambda>(vs, r). (v # vs, r)) (parse_items n s2)
                 else if d = CHR '']'' then Some ([v], s2)
                 else None))"
| "parse_members 0 s = None"
| "parse_members (Suc n) s = (case parse_string (skip_ws s) of
     None \<Rightarrow> None
   | Some (k, s1) \<Rightarrow> (case skip_ws s1 of
       [] \<Rightarrow> None
     | c # s2 \<Rightarrow> if c \<noteq> CHR '':'' then None
         else (case parse_value n s2 of
           None \<Rightarrow> None
         | Some (v, s3) \<Rightarrow> (case skip_ws s3 of
             [] \<Rightarrow> None
           | d # s4 \<Rightarrow> if d = CHR '','' then map_option (\<lambda>(kvs, r). ((k, v) # kvs, r)) (parse_members n s4)
                       else if d = CHR ''}'' then Some ([(k, v)], s4)
                       else None))))"

definition json_parse :: "string \<Rightarrow> json option" where
  "json_parse s = (case parse_value (2 * length s + 2) s of
     None \<Rightarrow> None | Some (v, r) \<Rightarrow> if skip_ws r = [] then Some v else None)"

section \<open>Parsing what was printed\<close>

fun json_wf :: "json \<Rightarrow> bool" where
  "json_wf (JArr vs) = list_all json_wf vs"
| "json_wf (JObj kvs) = (distinct (map fst kvs) \<and> list_all (\<lambda>(k, v). json_wf v) kvs)"
| "json_wf v = True"

lemma hex_val_hex_char: "d < 16 \<Longrightarrow> hex_val (hex_char d) = Some d"
  by (auto simp: hex_val_def hex_char_def Let_def)

lemma char_of_codes:
  "char_of (8::nat) = CHR 8" "char_of (9::nat) = CHR 9" "char_of (10::nat) = CHR 10"
  "char_of (12::nat) = CHR 12" "char_of (13::nat) = CHR 13" "char_of (34::nat) = CHR 34"
  "char_of (92::nat) = CHR 92"
  by code_simp+

lemma code_cases:
  "(of_char c :: nat) = n \<Longrightarrow> c = char_of n"
  by (metis char_of_char)

definition escape_ok :: "char \<Rightarrow> bool" where
  "escape_ok c \<longleftrightarrow>
     escape_char c = [c] \<and> c \<noteq> CHR 34 \<and> c \<noteq> CHR 92 \<and> 32 \<le> (of_char c :: nat)
     \<or> (\<exists>e. escape_char c = CHR 92 # e \<and> (\<forall>r. unescape (e @ r) = Some (c, r)))"

lemma escape_okI:
  "escape_char c = CHR 92 # e \<Longrightarrow> (\<And>r. unescape (e @ r) = Some (c, r)) \<Longrightarrow> escape_ok c"
  unfolding escape_ok_def by blast

lemma escape_ok_codes:
  "escape_ok (CHR 8)" "escape_ok (CHR 9)" "escape_ok (CHR 10)" "escape_ok (CHR 12)"
  "escape_ok (CHR 13)" "escape_ok (CHR 34)" "escape_ok (CHR 92)"
  by (rule escape_okI [where e = "''b''"], simp_all add: escape_char_def Let_def char_of_codes)
    (rule escape_okI [where e = "''t''"], simp_all add: escape_char_def Let_def char_of_codes,
     rule escape_okI [where e = "''n''"], simp_all add: escape_char_def Let_def char_of_codes,
     rule escape_okI [where e = "''f''"], simp_all add: escape_char_def Let_def char_of_codes,
     rule escape_okI [where e = "''r''"], simp_all add: escape_char_def Let_def char_of_codes,
     rule escape_okI [where e = "[CHR 34]"], simp_all add: escape_char_def Let_def char_of_codes,
     rule escape_okI [where e = "[CHR 92]"], simp_all add: escape_char_def Let_def char_of_codes)

lemma escape_ok_short:
  assumes "(of_char c :: nat) \<in> {8, 9, 10, 12, 13, 34, 92}"
  shows "escape_ok c"
proof -
  from assms have "c \<in> {CHR 8, CHR 9, CHR 10, CHR 12, CHR 13, CHR 34, CHR 92}"
    by (elim insertE emptyE) (auto dest!: code_cases simp: char_of_codes)
  then show ?thesis
    by (auto simp: escape_ok_codes)
qed

lemma escape_ok_control:
  assumes "(of_char c :: nat) < 32" and "(of_char c :: nat) \<notin> {8, 9, 10, 12, 13}"
  shows "escape_ok c"
proof (rule escape_okI)
  let ?n = "of_char c :: nat"
  let ?e = "[CHR ''u'', CHR ''0'', CHR ''0'', hex_char (?n div 16), hex_char (?n mod 16)]"
  from assms show "escape_char c = CHR 92 # ?e" by (simp add: escape_char_def Let_def)
  show "unescape (?e @ r) = Some (c, r)" for r
    using assms by (simp add: hex_val_hex_char Let_def)
qed

lemma escape_ok_plain:
  assumes "32 \<le> (of_char c :: nat)" and "(of_char c :: nat) \<notin> {34, 92}"
  shows "escape_ok c"
proof -
  from assms have "escape_char c = [c]" by (simp add: escape_char_def Let_def)
  moreover from assms have "c \<noteq> CHR 34" "c \<noteq> CHR 92" by auto
  ultimately show ?thesis using assms(1) by (simp add: escape_ok_def)
qed

lemma unescape_escape: "escape_ok c"
  by (cases "(of_char c :: nat) \<in> {8, 9, 10, 12, 13, 34, 92}"; cases "(of_char c :: nat) < 32")
    (auto intro: escape_ok_short escape_ok_control escape_ok_plain)

lemma parse_chars_escape:
  "length (concat (map escape_char s)) < n \<Longrightarrow>
   parse_chars n (concat (map escape_char s) @ CHR 34 # r) = Some (s, r)"
proof (induction s arbitrary: n)
  case Nil
  then show ?case by (cases n) auto
next
  case (Cons c s)
  then obtain m where n: "n = Suc m" by (cases n) auto
  from unescape_escape [of c, unfolded escape_ok_def] show ?case
  proof (elim disjE exE conjE)
    assume *: "escape_char c = [c]" "c \<noteq> CHR 34" "c \<noteq> CHR 92" "32 \<le> (of_char c :: nat)"
    with Cons n show ?thesis by simp
  next
    fix e assume *: "escape_char c = CHR 92 # e" "\<forall>r. unescape (e @ r) = Some (c, r)"
    from Cons.prems n * have "length (concat (map escape_char s)) < m" by simp
    with Cons.IH * n show ?thesis by simp
  qed
qed

lemma parse_string_quote [simp]: "parse_string (quote_string s @ r) = Some (s, r)"
  by (simp add: parse_string_def quote_string_def parse_chars_escape)


definition num_end :: "string \<Rightarrow> bool" where
  "num_end r \<longleftrightarrow> (case r of [] \<Rightarrow> True | c # _ \<Rightarrow> \<not> is_digit c) \<and> \<not> starts_fraction r"

lemma num_end_simps [simp]:
  "num_end []" "num_end (CHR '','' # r)" "num_end (CHR '']'' # r)" "num_end (CHR ''}'' # r)"
  by (simp_all add: num_end_def starts_fraction_def is_digit_def)

lemma takeWhile_digits:
  assumes "\<forall>c \<in> set ds. is_digit c" and "num_end r"
  shows "takeWhile is_digit (ds @ r) = ds" "dropWhile is_digit (ds @ r) = r"
  using assms by (induction ds) (auto simp: num_end_def split: list.splits)

lemma parse_nat_dec [simp]: "num_end r \<Longrightarrow> parse_nat (dec_nat n @ r) = Some (n, r)"
proof -
  assume r: "num_end r"
  show ?thesis
  proof (cases "hd (dec_nat n) = CHR ''0''")
    case True
    then have "dec_nat n = ''0''" by (rule dec_nat_hd_zero)
    moreover then have "n = 0"
      by (metis read_dec_nat dec_nat.simps digit_char_0 zero_less_numeral)
    ultimately show ?thesis
      using takeWhile_digits [OF dec_nat_digits [of n] r] by (simp add: parse_nat_def)
  next
    case False
    with takeWhile_digits [OF dec_nat_digits r] show ?thesis
      by (simp add: parse_nat_def Let_def)
  qed
qed

lemma dec_nat_hd_digit: "is_digit (hd (dec_nat n))"
  using dec_nat_digits [of n] by (simp add: list.set_sel(1))

lemma parse_int_dec [simp]: "num_end r \<Longrightarrow> parse_int (dec_int i @ r) = Some (i, r)"
proof -
  assume r: "num_end r"
  then have f: "\<not> starts_fraction r" by (simp add: num_end_def)
  show ?thesis
  proof (cases "i < 0")
    case True
    with r f show ?thesis by (simp add: parse_int_def dec_int_def)
  next
    case False
    obtain c s where cs: "dec_nat (nat i) = c # s" by (cases "dec_nat (nat i)") auto
    with dec_nat_hd_digit [of "nat i"] have "is_digit c" by simp
    then have "c \<noteq> CHR ''-''" by (auto simp: is_digit_def)
    with False r f parse_nat_dec [OF r, of "nat i"] cs show ?thesis
      by (simp add: parse_int_def dec_int_def)
  qed
qed

text \<open>The first character of a printed value is no blank and closes no bracket.\<close>

definition starts_value :: "char \<Rightarrow> bool" where
  "starts_value c \<longleftrightarrow> \<not> is_ws c \<and> c \<noteq> CHR '']'' \<and> c \<noteq> CHR ''}''"

lemma digit_starts_value: "is_digit c \<Longrightarrow> starts_value c"
  by (auto simp: is_digit_def starts_value_def is_ws_def)

lemma stringify_head: "\<exists>c s. json_stringify v = c # s \<and> starts_value c"
proof (cases v)
  case (JNum i)
  obtain c s where cs: "dec_nat (nat \<bar>i\<bar>) = c # s" by (cases "dec_nat (nat \<bar>i\<bar>)") auto
  with dec_nat_hd_digit [of "nat \<bar>i\<bar>"] have "starts_value c" by (simp add: digit_starts_value)
  with cs JNum show ?thesis
    by (auto simp: dec_int_def starts_value_def is_ws_def)
qed (auto simp: quote_string_def starts_value_def is_ws_def)

lemma is_ws_simps [simp]:
  "\<not> is_ws CHR '',''" "\<not> is_ws CHR '']''" "\<not> is_ws CHR ''}''" "\<not> is_ws CHR '':''"
  "\<not> is_ws CHR ''[''" "\<not> is_ws CHR ''{''" "\<not> is_ws CHR ''n''" "\<not> is_ws CHR ''t''"
  "\<not> is_ws CHR ''f''" "\<not> is_ws CHR 34"
  by (simp_all add: is_ws_def)

lemma skip_ws_stringify [simp]: "skip_ws (json_stringify v @ r) = json_stringify v @ r"
proof -
  obtain c s where "json_stringify v = c # s" "starts_value c" using stringify_head by blast
  then show ?thesis by (simp add: starts_value_def)
qed

lemma skip_ws_quote [simp]: "skip_ws (quote_string k @ r) = quote_string k @ r"
  by (simp add: quote_string_def is_ws_def)

lemma js_put_fresh: "fst kv \<notin> set (map fst kvs) \<Longrightarrow> js_put kvs kv = kvs @ [kv]"
  by (simp add: js_put_def)

lemma js_members_distinct_acc:
  "distinct (map fst (acc @ kvs)) \<Longrightarrow> foldl js_put acc kvs = acc @ kvs"
  by (induction kvs arbitrary: acc) (simp_all add: js_put_fresh)

lemma js_members_distinct [simp]: "distinct (map fst kvs) \<Longrightarrow> js_members kvs = kvs"
  using js_members_distinct_acc [of "[]" kvs] by (simp add: js_members_def)

text \<open>
  Parsing succeeds on a printed value with twice its length as the bound on nested calls:
  first the elements of an array and the members of an object, given it for each value in
  them, then every value.
\<close>

definition parses :: "json \<Rightarrow> bool" where
  "parses v \<longleftrightarrow> (\<forall>n r. num_end r \<longrightarrow> 2 * length (json_stringify v) \<le> n \<longrightarrow>
     parse_value n (json_stringify v @ r) = Some (v, r))"

lemma parsesD:
  "parses v \<Longrightarrow> num_end r \<Longrightarrow> 2 * length (json_stringify v) \<le> n \<Longrightarrow>
   parse_value n (json_stringify v @ r) = Some (v, r)"
  by (simp add: parses_def)

lemma parse_items_join:
  assumes "\<forall>v \<in> set vs. parses v" and "vs \<noteq> []"
    and "2 * length (join '','' (map json_stringify vs)) + 1 \<le> n"
  shows "parse_items n (join '','' (map json_stringify vs) @ '']'' @ r) = Some (vs, r)"
  using assms
proof (induction vs arbitrary: n)
  case Nil
  then show ?case by simp
next
  case (Cons v vs)
  from Cons.prems(3) obtain m where n: "n = Suc m" by (cases n) auto
  from Cons.prems(1) have v: "parses v" by simp
  show ?case
  proof (cases vs)
    case Nil
    with Cons.prems n show ?thesis by (simp add: parsesD [OF v])
  next
    case (Cons w ws)
    let ?rest = "join '','' (map json_stringify vs)"
    have "2 * length ?rest + 1 \<le> m"
      using Cons Cons.prems(3) n by simp
    with Cons.IH [of m] Cons.prems(1) Cons
    have "parse_items m (?rest @ '']'' @ r) = Some (vs, r)" by simp
    moreover have "parse_value m (json_stringify v @ '','' @ ?rest @ '']'' @ r)
        = Some (v, '','' @ ?rest @ '']'' @ r)"
      using Cons Cons.prems(3) n by (intro parsesD [OF v]) simp_all
    ultimately show ?thesis using Cons n by simp
  qed
qed

definition member_text :: "string \<times> json \<Rightarrow> string" where
  "member_text kv = (case kv of (k, v) \<Rightarrow> quote_string k @ '':'' @ json_stringify v)"

lemma member_text_pair: "member_text (k, v) = quote_string k @ '':'' @ json_stringify v"
  by (simp add: member_text_def)

lemma parse_members_join:
  assumes "\<forall>kv \<in> set kvs. parses (snd kv)" and "kvs \<noteq> []"
    and "2 * length (join '','' (map member_text kvs)) + 1 \<le> n"
  shows "parse_members n (join '','' (map member_text kvs) @ ''}'' @ r) = Some (kvs, r)"
  using assms
proof (induction kvs arbitrary: n)
  case Nil
  then show ?case by simp
next
  case (Cons kv kvs)
  from Cons.prems(3) obtain m where n: "n = Suc m" by (cases n) auto
  obtain k v where kv: "kv = (k, v)" by (cases kv)
  from Cons.prems(1) kv have v: "parses v" by simp
  show ?case
  proof (cases kvs)
    case Nil
    with Cons.prems n kv show ?thesis
      by (simp add: member_text_pair parsesD [OF v])
  next
    case (Cons w ws)
    let ?rest = "join '','' (map member_text kvs)"
    have "2 * length ?rest + 1 \<le> m"
      using Cons Cons.prems(3) n by simp
    with Cons.IH [of m] Cons.prems(1) Cons
    have "parse_members m (?rest @ ''}'' @ r) = Some (kvs, r)" by simp
    moreover have "parse_value m (json_stringify v @ '','' @ ?rest @ ''}'' @ r)
        = Some (v, '','' @ ?rest @ ''}'' @ r)"
      using Cons Cons.prems(3) n kv by (intro parsesD [OF v]) (simp_all add: member_text_pair)
    ultimately show ?thesis using Cons n kv by (simp add: member_text_pair)
  qed
qed

lemma join_head:
  "xs \<noteq> [] \<Longrightarrow> \<exists>r. join sep xs = hd xs @ r"
  by (cases xs; cases "tl xs") auto

lemma stringify_JObj: "json_stringify (JObj kvs) = ''{'' @ join '','' (map member_text kvs) @ ''}''"
  by (simp add: member_text_def [abs_def])

lemma parses_JArr:
  assumes "\<forall>v \<in> set vs. parses v"
  shows "parses (JArr vs)"
  unfolding parses_def
proof (intro allI impI)
  fix n r assume n: "2 * length (json_stringify (JArr vs)) \<le> n" and r: "num_end r"
  then obtain m where m: "n = Suc m" by (cases n) auto
  show "parse_value n (json_stringify (JArr vs) @ r) = Some (JArr vs, r)"
  proof (cases "vs = []")
    case True
    with m show ?thesis by simp
  next
    case False
    let ?t = "join '','' (map json_stringify vs)"
    obtain c s q where "json_stringify (hd vs) = c # s" "starts_value c" "?t = json_stringify (hd vs) @ q"
      using stringify_head join_head [of "map json_stringify vs" "'',''"] False
      by (metis hd_map list.map_disc_iff)
    then have "\<exists>u. ?t = c # u" "\<not> is_ws c" "c \<noteq> CHR '']''" by (auto simp: starts_value_def)
    moreover have "parse_items m (?t @ '']'' @ r) = Some (vs, r)"
      using assms False n m by (intro parse_items_join) simp_all
    ultimately show ?thesis using m by auto
  qed
qed

lemma parses_JObj:
  assumes "\<forall>kv \<in> set kvs. parses (snd kv)" and "distinct (map fst kvs)"
  shows "parses (JObj kvs)"
  unfolding parses_def
proof (intro allI impI)
  fix n r assume n: "2 * length (json_stringify (JObj kvs)) \<le> n" and r: "num_end r"
  then obtain m where m: "n = Suc m" by (cases n) auto
  show "parse_value n (json_stringify (JObj kvs) @ r) = Some (JObj kvs, r)"
  proof (cases "kvs = []")
    case True
    with m show ?thesis by simp
  next
    case False
    let ?t = "join '','' (map member_text kvs)"
    have "\<exists>u. ?t = CHR 34 # u"
      using join_head [of "map member_text kvs" "'',''"] False
      by (cases kvs) (auto simp: member_text_def quote_string_def)
    moreover have "parse_members m (?t @ ''}'' @ r) = Some (kvs, r)"
      using assms False n m by (intro parse_members_join) (simp_all add: stringify_JObj del: json_stringify.simps)
    ultimately show ?thesis using m assms(2)
      by (auto simp: stringify_JObj simp del: json_stringify.simps)
  qed
qed

lemma parses_atom:
  assumes "\<And>vs. v \<noteq> JArr vs" "\<And>kvs. v \<noteq> JObj kvs"
  shows "parses v"
  unfolding parses_def
proof (intro allI impI)
  fix n r assume n: "2 * length (json_stringify v) \<le> n" and r: "num_end r"
  obtain c s where "json_stringify v = c # s" using stringify_head by blast
  with n obtain m where m: "n = Suc m" by (cases n) auto
  show "parse_value n (json_stringify v @ r) = Some (v, r)"
  proof (cases v)
    case (JNum i)
    obtain a as where a: "dec_nat (nat i) = a # as" by (cases "dec_nat (nat i)") auto
    with dec_nat_hd_digit [of "nat i"] have "is_digit a" by simp
    with a obtain d ds where d: "dec_int i = d # ds" "d = CHR ''-'' \<or> is_digit d"
      by (cases "i < 0") (simp_all add: dec_int_def)
    then have "\<not> is_ws d" "d \<notin> {CHR ''n'', CHR ''t'', CHR ''f'', CHR 34, CHR ''['', CHR ''{''}"
      by (auto simp: is_digit_def is_ws_def)
    with parse_int_dec [OF r, of i] d m JNum show ?thesis by simp
  next
    case (JStr t)
    with m parse_string_quote [of t r] show ?thesis
      by (simp add: quote_string_def)
  qed (use assms m in \<open>simp_all add: strip_def\<close>)
qed

lemma json_wf_parses: "json_wf v \<Longrightarrow> parses v"
proof (induction v)
  case (JArr vs)
  then show ?case by (intro parses_JArr) (simp add: list_all_iff)
next
  case (JObj kvs)
  have "parses (snd kv)" if "kv \<in> set kvs" for kv
  proof -
    from that JObj.prems have "json_wf (snd kv)" by (auto simp: list_all_iff)
    with that JObj.IH [of kv "snd kv"] show ?thesis by (simp add: snds.intros)
  qed
  with JObj.prems show ?case by (intro parses_JObj) simp_all
qed (simp_all add: parses_atom)

theorem json_parse_stringify [simp]: "json_wf v \<Longrightarrow> json_parse (json_stringify v) = Some v"
  using parsesD [OF json_wf_parses, of v "[]" "2 * length (json_stringify v) + 2"]
  by (simp add: json_parse_def)

corollary json_stringify_inj:
  "json_wf v \<Longrightarrow> json_wf w \<Longrightarrow> json_stringify v = json_stringify w \<Longrightarrow> v = w"
  by (metis json_parse_stringify option.inject)

end
