(* ===== verification/Js_Text.thy ===== *)
theory Js_Text
  imports Js_Json
begin

text \<open>
  The string functions and the regular expressions of JavaScript the code uses: \<open>split\<close> on a
  character, \<open>trim\<close>, \<open>startsWith\<close>, \<open>slice\<close>, and a backtracking matcher for the constructs
  that occur in its patterns.  A pattern of the source is written as a term of \<open>re\<close>.
\<close>

section \<open>String functions\<close>

fun split_on :: "char \<Rightarrow> string \<Rightarrow> string list" where
  "split_on c [] = [[]]"
| "split_on c (x # xs) =
     (if x = c then [] # split_on c xs
      else (case split_on c xs of [] \<Rightarrow> [[x]] | w # ws \<Rightarrow> (x # w) # ws))"

definition js_space :: "char \<Rightarrow> bool" where
  "js_space c \<longleftrightarrow> (of_char c :: nat) \<in> {9, 10, 11, 12, 13, 32, 160}"

definition trim :: "string \<Rightarrow> string" where
  "trim s = rev (dropWhile js_space (rev (dropWhile js_space s)))"

definition starts_with :: "string \<Rightarrow> string \<Rightarrow> bool" where
  "starts_with p s \<longleftrightarrow> take (length p) s = p"

definition ends_with :: "string \<Rightarrow> string \<Rightarrow> bool" where
  "ends_with p s \<longleftrightarrow> starts_with (rev p) (rev s)"

definition ascii_lower :: "char \<Rightarrow> char" where
  "ascii_lower c = (let n = (of_char c :: nat) in if 65 \<le> n \<and> n \<le> 90 then char_of (n + 32) else c)"

definition ascii_upper :: "char \<Rightarrow> char" where
  "ascii_upper c = (let n = (of_char c :: nat) in if 97 \<le> n \<and> n \<le> 122 then char_of (n - 32) else c)"

lemma split_on_nonempty [simp]: "split_on c s \<noteq> []"
  by (induction s) (auto split: list.splits)

lemma split_on_no_sep: "c \<notin> set s \<Longrightarrow> split_on c s = [s]"
  by (induction s) auto

lemma split_on_append:
  "c \<notin> set w \<Longrightarrow> split_on c (w @ c # s) = w # split_on c s"
  by (induction w) auto

lemma split_on_parts: "w \<in> set (split_on c s) \<Longrightarrow> c \<notin> set w"
  by (induction s arbitrary: w) (auto split: list.splits if_splits)

lemma join_split_on: "join [c] (split_on c s) = s"
proof (induction s)
  case (Cons x s)
  obtain w ws where "split_on c s = w # ws" by (cases "split_on c s") auto
  with Cons show ?case by (cases ws) auto
qed simp

text \<open>Joining on a separator that occurs in no part can be undone.\<close>

lemma split_on_join:
  "ws \<noteq> [] \<Longrightarrow> \<forall>w \<in> set ws. c \<notin> set w \<Longrightarrow> split_on c (join [c] ws) = ws"
  by (induction "[c]" ws rule: join.induct) (auto simp: split_on_no_sep split_on_append)

lemma join_inj:
  assumes "join [c] xs = join [c] ys" and "xs \<noteq> []" and "ys \<noteq> []"
    and "\<forall>w \<in> set xs. c \<notin> set w" and "\<forall>w \<in> set ys. c \<notin> set w"
  shows "xs = ys"
  using assms by (metis split_on_join)

section \<open>Regular expressions\<close>

text \<open>
  \<open>Rep r lo hi\<close> is the greedy quantifier \<open>{lo,hi}\<close> (\<open>None\<close>: no upper bound), \<open>Bound\<close> is \<open>\\b\<close>,
  \<open>Bol\<close> and \<open>Eol\<close> are \<open>^\<close> and \<open>$\<close> of a pattern without the \<open>m\<close> flag.
\<close>

datatype re = Eps | Cls "char \<Rightarrow> bool" | Seq re re | Alt re re | Rep re nat "nat option"
  | Bound | Bol | Eol

text \<open>A position in the subject: the character before it, and the rest of the text.\<close>

type_synonym pos = "char option \<times> string"

definition word_char :: "char \<Rightarrow> bool" where
  "word_char c \<longleftrightarrow> (let n = (of_char c :: nat) in
     (48 \<le> n \<and> n \<le> 57) \<or> (65 \<le> n \<and> n \<le> 90) \<or> n = 95 \<or> (97 \<le> n \<and> n \<le> 122))"

definition at_bound :: "pos \<Rightarrow> bool" where
  "at_bound st \<longleftrightarrow>
     (case fst st of None \<Rightarrow> False | Some c \<Rightarrow> word_char c)
     \<noteq> (case snd st of [] \<Rightarrow> False | c # _ \<Rightarrow> word_char c)"

fun step_cls :: "(char \<Rightarrow> bool) \<Rightarrow> pos \<Rightarrow> pos list" where
  "step_cls p (q, []) = []"
| "step_cls p (q, c # s) = (if p c then [(Some c, s)] else [])"

text \<open>
  A quantifier: at most \<open>k\<close> rounds of \<open>f\<close>, at least \<open>lo\<close> of them.  Rounds beyond the minimum must
  consume a character, as in ECMAScript, so \<open>lo\<close> plus the length of the text bounds the rounds
  of an unbounded quantifier.
\<close>

fun rounds :: "nat \<Rightarrow> nat \<Rightarrow> (pos \<Rightarrow> pos list) \<Rightarrow> pos \<Rightarrow> pos list" where
  "rounds 0 lo f st = (if lo = 0 then [st] else [])"
| "rounds (Suc k) lo f st =
     (if 0 < lo then concat (map (rounds k (lo - 1) f) (f st))
      else concat (map (rounds k 0 f) (filter (\<lambda>st'. length (snd st') < length (snd st)) (f st))) @ [st])"

text \<open>The end positions of the matches from a position, in the order backtracking tries them.\<close>

fun re_match :: "re \<Rightarrow> pos \<Rightarrow> pos list" where
  "re_match Eps st = [st]"
| "re_match (Cls p) st = step_cls p st"
| "re_match (Seq a b) st = concat (map (re_match b) (re_match a st))"
| "re_match (Alt a b) st = re_match a st @ re_match b st"
| "re_match (Rep r lo hi) st =
     rounds (case hi of Some h \<Rightarrow> h | None \<Rightarrow> lo + length (snd st)) lo (re_match r) st"
| "re_match Bound st = (if at_bound st then [st] else [])"
| "re_match Bol st = (if fst st = None then [st] else [])"
| "re_match Eol st = (if snd st = [] then [st] else [])"

fun re_search :: "re \<Rightarrow> char option \<Rightarrow> string \<Rightarrow> bool" where
  "re_search r q [] = (re_match r (q, []) \<noteq> [])"
| "re_search r q (c # s) = (re_match r (q, c # s) \<noteq> [] \<or> re_search r (Some c) s)"

definition re_test :: "re \<Rightarrow> string \<Rightarrow> bool" where
  "re_test r s = re_search r None s"

text \<open>\<open>text.match(/.../g)\<close>: the matched texts, left to right, without overlap.\<close>

fun match_all :: "nat \<Rightarrow> re \<Rightarrow> pos \<Rightarrow> string list" where
  "match_all 0 r st = []"
| "match_all (Suc k) r (q, s) = (case re_match r (q, s) of
     (q', s') # _ \<Rightarrow>
       (let m = take (length s - length s') s in
        if length s' < length s then m # match_all k r (q', s')
        else (case s of [] \<Rightarrow> [m] | c # t \<Rightarrow> m # match_all k r (Some c, t)))
   | [] \<Rightarrow> (case s of [] \<Rightarrow> [] | c # t \<Rightarrow> match_all k r (Some c, t)))"

definition re_match_all :: "re \<Rightarrow> string \<Rightarrow> string list" where
  "re_match_all r s = match_all (Suc (length s)) r (None, s)"

subsection \<open>Writing patterns\<close>

definition crange :: "char \<Rightarrow> char \<Rightarrow> char \<Rightarrow> bool" where
  "crange a b c \<longleftrightarrow> (of_char a :: nat) \<le> of_char c \<and> (of_char c :: nat) \<le> of_char b"

definition cor :: "(char \<Rightarrow> bool) \<Rightarrow> (char \<Rightarrow> bool) \<Rightarrow> char \<Rightarrow> bool" where
  "cor p q c \<longleftrightarrow> p c \<or> q c"

definition one_of :: "string \<Rightarrow> char \<Rightarrow> bool" where
  "one_of s c \<longleftrightarrow> c \<in> set s"

text \<open>The \<open>i\<close> flag; the classes of the source hold ASCII letters only.\<close>

definition nocase :: "(char \<Rightarrow> bool) \<Rightarrow> char \<Rightarrow> bool" where
  "nocase p c \<longleftrightarrow> p c \<or> p (ascii_lower c) \<or> p (ascii_upper c)"

definition lit :: "string \<Rightarrow> re" where
  "lit s = foldr (\<lambda>c r. Seq (Cls (one_of [c])) r) s Eps"

definition lit_i :: "string \<Rightarrow> re" where
  "lit_i s = foldr (\<lambda>c r. Seq (Cls (nocase (one_of [c]))) r) s Eps"

definition seqs :: "re list \<Rightarrow> re" where
  "seqs rs = foldr Seq rs Eps"

definition alts :: "re list \<Rightarrow> re" where
  "alts rs = (case rs of [] \<Rightarrow> Rep Eps 1 (Some 0) | r # rs' \<Rightarrow> foldl Alt r rs')"

abbreviation times :: "nat \<Rightarrow> (char \<Rightarrow> bool) \<Rightarrow> re" where
  "times n p \<equiv> Rep (Cls p) n (Some n)"

definition whole :: "re \<Rightarrow> re" where
  "whole r = Seq Bol (Seq r Eol)"

definition hex_digit :: "char \<Rightarrow> bool" where
  "hex_digit = cor (crange CHR ''0'' CHR ''9'') (crange CHR ''a'' CHR ''f'')"

definition alnum :: "char \<Rightarrow> bool" where
  "alnum = cor (crange CHR ''A'' CHR ''Z'') (cor (crange CHR ''a'' CHR ''z'') (crange CHR ''0'' CHR ''9''))"

subsection \<open>What a match consumes\<close>

text \<open>Every character a match consumes satisfies \<open>P\<close> when every class of the pattern implies it.\<close>

fun classes_in :: "(char \<Rightarrow> bool) \<Rightarrow> re \<Rightarrow> bool" where
  "classes_in P (Cls p) \<longleftrightarrow> (\<forall>c. p c \<longrightarrow> P c)"
| "classes_in P (Seq a b) \<longleftrightarrow> classes_in P a \<and> classes_in P b"
| "classes_in P (Alt a b) \<longleftrightarrow> classes_in P a \<and> classes_in P b"
| "classes_in P (Rep r lo hi) \<longleftrightarrow> classes_in P r"
| "classes_in P r \<longleftrightarrow> True"

definition consumes :: "(char \<Rightarrow> bool) \<Rightarrow> (pos \<Rightarrow> pos list) \<Rightarrow> bool" where
  "consumes P f \<longleftrightarrow>
     (\<forall>st st'. st' \<in> set (f st) \<longrightarrow> (\<exists>w. snd st = w @ snd st' \<and> list_all P w))"

lemma consumesI:
  "(\<And>st st'. st' \<in> set (f st) \<Longrightarrow> \<exists>w. snd st = w @ snd st' \<and> list_all P w) \<Longrightarrow> consumes P f"
  unfolding consumes_def by blast

lemma consumesD:
  "consumes P f \<Longrightarrow> st' \<in> set (f st) \<Longrightarrow> \<exists>w. snd st = w @ snd st' \<and> list_all P w"
  unfolding consumes_def by blast

lemma consumes_trans:
  assumes "consumes P f" "st1 \<in> set (f st)" "\<exists>w. snd st1 = w @ snd st2 \<and> list_all P w"
  shows "\<exists>w. snd st = w @ snd st2 \<and> list_all P w"
proof -
  from assms(3) obtain v where "snd st1 = v @ snd st2" "list_all P v" by blast
  moreover from consumesD [OF assms(1,2)] obtain u where "snd st = u @ snd st1" "list_all P u" by blast
  ultimately show ?thesis by (intro exI [of _ "u @ v"]) simp
qed

lemma consumes_rounds:
  "consumes P f \<Longrightarrow> consumes P (rounds k lo f)"
proof (induction k arbitrary: lo)
  case 0
  then show ?case by (auto simp: consumes_def)
next
  case (Suc k)
  show ?case
  proof (rule consumesI)
    fix st st' assume st': "st' \<in> set (rounds (Suc k) lo f st)"
    show "\<exists>w. snd st = w @ snd st' \<and> list_all P w"
    proof (cases "lo = 0 \<and> st' = st")
      case False
      with st' obtain st1 lo' where "st1 \<in> set (f st)" "st' \<in> set (rounds k lo' f st1)"
        by (auto split: if_splits)
      from consumes_trans [OF Suc.prems this(1) consumesD [OF Suc.IH [OF Suc.prems] this(2)]]
      show ?thesis .
    qed simp
  qed
qed

lemma consumes_re_match: "classes_in P r \<Longrightarrow> consumes P (re_match r)"
proof (induction r)
  case (Cls p)
  have "st' \<in> set (step_cls p st) \<Longrightarrow> \<exists>w. snd st = w @ snd st' \<and> list_all P w" for st st'
    using Cls by (cases "(p, st)" rule: step_cls.cases)
      (auto split: if_splits intro!: exI [of _ "[_]"])
  then show ?case by (simp add: consumes_def)
next
  case (Seq a b)
  then have a: "consumes P (re_match a)" and b: "consumes P (re_match b)" by auto
  show ?case
    by (rule consumesI) (auto intro: consumes_trans [OF a] consumesD [OF b])
next
  case (Rep r lo hi)
  then have "consumes P (rounds k lo (re_match r))" for k by (simp add: consumes_rounds)
  then show ?case by (auto intro!: consumesI dest: consumesD)
qed (auto simp: consumes_def)

lemma re_search_prev: "\<not> re_search (Seq Bol r) (Some q) s"
  by (induction s arbitrary: q) auto

lemma re_test_whole:
  "re_test (whole r) s \<longleftrightarrow> (\<exists>st \<in> set (re_match r (None, s)). snd st = [])"
proof -
  have "re_test (whole r) s \<longleftrightarrow> re_match (whole r) (None, s) \<noteq> []"
    by (cases s) (simp_all only: re_test_def whole_def re_search.simps re_search_prev simp_thms)
  also have "\<dots> \<longleftrightarrow> (\<exists>st \<in> set (re_match r (None, s)). snd st = [])"
    by (auto simp: whole_def)
  finally show ?thesis .
qed

lemma re_test_whole_chars:
  assumes "re_test (whole r) s" and "classes_in P r"
  shows "list_all P s"
proof -
  from assms(1) obtain st where st: "st \<in> set (re_match r (None, s))" "snd st = []"
    by (auto simp: re_test_whole)
  from consumesD [OF consumes_re_match [OF assms(2)] st(1)] st(2) show ?thesis by auto
qed

text \<open>A bounded quantifier on a class consumes a number of characters within its bounds.\<close>

lemma step_cls_in:
  "st' \<in> set (step_cls p st) \<Longrightarrow> \<exists>c. snd st = c # snd st' \<and> p c"
  by (cases "(p, st)" rule: step_cls.cases) (auto split: if_splits)

lemma rounds_cls:
  "st' \<in> set (rounds k lo (step_cls p) st) \<Longrightarrow> lo \<le> k \<Longrightarrow>
     \<exists>w. snd st = w @ snd st' \<and> lo \<le> length w \<and> length w \<le> k \<and> list_all p w"
proof (induction k arbitrary: lo st)
  case (Suc k)
  show ?case
  proof (cases "lo = 0 \<and> st' = st")
    case False
    with Suc.prems(1) obtain st1 where s1: "st1 \<in> set (step_cls p st)"
      and "st' \<in> set (rounds k (lo - 1) (step_cls p) st1)"
      by (auto split: if_splits)
    have "lo - 1 \<le> k" using Suc.prems(2) by simp
    from Suc.IH [OF \<open>st' \<in> set (rounds k (lo - 1) (step_cls p) st1)\<close> this] step_cls_in [OF s1]
    obtain w c where "snd st1 = w @ snd st'" "lo - 1 \<le> length w" "length w \<le> k" "list_all p w"
      "snd st = c # snd st1" "p c" by blast
    then show ?thesis by (intro exI [of _ "c # w"]) auto
  qed auto
qed (auto split: if_splits)

lemma re_match_class_run:
  assumes "st' \<in> set (re_match (Rep (Cls p) lo (Some hi)) st)" and "lo \<le> hi"
  shows "\<exists>w. snd st = w @ snd st' \<and> lo \<le> length w \<and> length w \<le> hi \<and> list_all p w"
proof -
  have "re_match (Cls p) = step_cls p" by (rule ext) simp
  with assms rounds_cls [of st' hi lo p st] show ?thesis by simp
qed

end
