(* ===== verification/Domain_Rules.thy ===== *)
theory Domain_Rules
  imports Domain_Model Js_Json Js_Text
begin

text \<open>
  The pure rules of \<open>packages/domain\<close>: billing access (\<open>billing.ts\<close>), facts and their
  confirmation (\<open>facts.ts\<close>), role permissions and grants (\<open>permissions.ts\<close>), retention
  (\<open>retention.ts\<close>), consent, report claims, emergency access and workflow steps
  (\<open>workflows.ts\<close>).
\<close>

abbreviation domain_error :: "string \<Rightarrow> err" where
  "domain_error m \<equiv> Thrown ''DomainInvariantError'' m"

section \<open>Billing access\<close>

datatype subscription_status = Inactive | Incomplete | IncompleteExpired | Trialing | Active
  | PastDue | Canceled | Unpaid | Paused

datatype billing_access = FullAccess | GraceAccess | ReadOnlyAccess

record entitlements =
  vault_read :: bool
  vault_write :: bool
  document_upload :: bool
  ai_interview :: bool
  report_generation :: bool
  export_generation :: bool

record quotas =
  q_households :: int
  q_members :: "int option"
  q_storage_bytes :: "int option"
  q_ai_monthly :: "int option"

record billing_decision =
  bd_access :: billing_access
  bd_grace_until :: "int option"
  bd_entitlements :: entitlements
  bd_quotas :: quotas

definition ESSENTIAL_QUOTAS :: quotas where
  "ESSENTIAL_QUOTAS = \<lparr> q_households = 1, q_members = None, q_storage_bytes = None, q_ai_monthly = None \<rparr>"

definition BILLING_TECHNICAL_GRACE_MS :: int where
  "BILLING_TECHNICAL_GRACE_MS = 72 * 60 * 60 * 1000"

definition fullEntitlements :: entitlements where
  "fullEntitlements = \<lparr> vault_read = True, vault_write = True, document_upload = True,
     ai_interview = True, report_generation = True, export_generation = True \<rparr>"

definition readOnlyEntitlements :: entitlements where
  "readOnlyEntitlements = \<lparr> vault_read = True, vault_write = False, document_upload = False,
     ai_interview = False, report_generation = False, export_generation = False \<rparr>"

definition graceEntitlements :: entitlements where
  "graceEntitlements = fullEntitlements \<lparr> ai_interview := False \<rparr>"

text \<open>\<open>clock\<close> is the time \<open>new Date()\<close> reads when the caller passes no \<open>now\<close>.\<close>

definition deriveBillingAccess ::
  "subscription_status \<Rightarrow> string option \<Rightarrow> iso \<Rightarrow> iso option \<Rightarrow> int \<Rightarrow> billing_decision" where
  "deriveBillingAccess status plan provider_updated now_opt clock =
     (let read_only = \<lparr> bd_access = ReadOnlyAccess, bd_grace_until = None,
            bd_entitlements = readOnlyEntitlements, bd_quotas = ESSENTIAL_QUOTAS \<rparr> in
      if plan = Some ''essential'' \<and> (status = Active \<or> status = Trialing)
      then \<lparr> bd_access = FullAccess, bd_grace_until = None,
             bd_entitlements = fullEntitlements, bd_quotas = ESSENTIAL_QUOTAS \<rparr>
      else if plan = Some ''essential'' \<and> status = PastDue \<and> truthy provider_updated
      then (let grace_until = (case date_parse provider_updated of None \<Rightarrow> None
                 | Some t \<Rightarrow> time_clip (t + BILLING_TECHNICAL_GRACE_MS));
                now = date_parse (case now_opt of Some n \<Rightarrow> n | None \<Rightarrow> At clock)
            in case grace_until of
                 None \<Rightarrow> read_only
               | Some g \<Rightarrow> if num_lt now (Some g)
                   then \<lparr> bd_access = GraceAccess, bd_grace_until = Some g,
                          bd_entitlements = graceEntitlements, bd_quotas = ESSENTIAL_QUOTAS \<rparr>
                   else read_only)
      else read_only)"

lemmas billing_defs = deriveBillingAccess_def fullEntitlements_def readOnlyEntitlements_def
  graceEntitlements_def BILLING_TECHNICAL_GRACE_MS_def Let_def

text \<open>Billing access never locks anybody out of reading and writes are exactly what a paid
  plan buys: the vault is always readable; it is writable exactly when the access is not
  read-only; full access is given exactly to an active or trialing \<open>essential\<close> plan; grace is
  given only to a past-due \<open>essential\<close> plan, less than 72 hours after the provider's last update
  (\<open>grace_until\<close> being that moment plus 72 hours), and it withholds the AI interview only.\<close>

theorem deriveBillingAccess_safe:
  "let d = deriveBillingAccess status plan updated now_opt clock;
       now = date_parse (case now_opt of Some n \<Rightarrow> n | None \<Rightarrow> At clock)
   in vault_read (bd_entitlements d)
    \<and> vault_write (bd_entitlements d) = (bd_access d \<noteq> ReadOnlyAccess)
    \<and> (bd_access d = FullAccess) = (plan = Some ''essential'' \<and> status \<in> {Active, Trialing})
    \<and> (bd_access d = GraceAccess) = (plan = Some ''essential'' \<and> status = PastDue
         \<and> (\<exists>t n. updated = At t \<and> now = Some n \<and> n < t + 259200000
               \<and> time_clip (t + 259200000) = Some (t + 259200000)
               \<and> bd_grace_until d = Some (t + 259200000)
               \<and> bd_entitlements d = fullEntitlements \<lparr> ai_interview := False \<rparr>))
    \<and> (bd_access d \<noteq> GraceAccess \<longleftrightarrow> bd_grace_until d = None)
    \<and> bd_quotas d = ESSENTIAL_QUOTAS"
  by (cases updated; cases "status = PastDue"; cases "plan = Some ''essential''")
    (auto simp: billing_defs time_clip_def split: option.splits)

theorem deriveBillingAccess_safe_witness:
  "bd_access (deriveBillingAccess PastDue (Some ''essential'') (At 1000) (Some (At 2000)) 0) = GraceAccess
   \<and> bd_access (deriveBillingAccess PastDue (Some ''essential'') (At 1000) None 259201000) = ReadOnlyAccess"
  using deriveBillingAccess_safe [of PastDue "Some ''essential''" "At 1000" "Some (At 2000)" 0]
    deriveBillingAccess_safe [of PastDue "Some ''essential''" "At 1000" None 259201000]
  by (simp add: billing_defs time_clip_def)

section \<open>Facts\<close>

fun category_name :: "record_category \<Rightarrow> string" where
  "category_name Contacts = ''contacts''"
| "category_name Advisers = ''advisers''"
| "category_name Dependents = ''dependents''"
| "category_name Pets = ''pets''"
| "category_name Assets = ''assets''"
| "category_name Liabilities = ''liabilities''"
| "category_name Insurance = ''insurance''"
| "category_name Property = ''property''"
| "category_name EstateDocuments = ''estate-documents''"
| "category_name MedicalSummary = ''medical-summary''"
| "category_name DigitalAssetLocations = ''digital-asset-locations''"
| "category_name HouseholdInstructions = ''household-instructions''"
| "category_name FuneralPreferences = ''funeral-preferences''"

definition allRecordCategories :: "record_category list" where
  "allRecordCategories = [Contacts, Advisers, Dependents, Pets, Assets, Liabilities, Insurance,
     Property, EstateDocuments, MedicalSummary, DigitalAssetLocations, HouseholdInstructions,
     FuneralPreferences]"

definition recordCategoryFromFieldKey :: "string \<Rightarrow> record_category result" where
  "recordCategoryFromFieldKey key =
     (case find (\<lambda>c. category_name c = hd (split_on CHR ''.'' key)) allRecordCategories of
        Some c \<Rightarrow> Inr c
      | None \<Rightarrow> Inl (domain_error ''fact field key has no canonical category''))"

definition confirmFact :: "candidate_fact \<Rightarrow> string \<Rightarrow> iso \<Rightarrow> candidate_fact result" where
  "confirmFact cfact actor at =
     (if cf_status cfact \<noteq> Candidate \<and> cf_status cfact \<noteq> Disputed
      then Inl (domain_error ''only candidate or disputed facts can be confirmed'')
      else if cf_evidence cfact = [] \<and> cf_source_type cfact \<noteq> Manual
      then Inl (domain_error ''non-manual facts require evidence before confirmation'')
      else if actor = [] \<or> \<not> truthy at
      then Inl (domain_error ''confirmation actor and time are required'')
      else Inr (cfact \<lparr> cf_status := Confirmed, cf_confirmed_by := Some actor,
                       cf_confirmed_at := at, ent_version := ent_version cfact + 1 \<rparr>))"

definition rejectFact :: "candidate_fact \<Rightarrow> candidate_fact result" where
  "rejectFact cfact =
     (if cf_status cfact = Confirmed
      then Inl (domain_error ''confirmed facts require a dispute workflow'')
      else Inr (cfact \<lparr> cf_status := Rejected, ent_version := ent_version cfact + 1 \<rparr>))"

definition assertOptimisticVersion :: "int \<Rightarrow> int \<Rightarrow> unit result" where
  "assertOptimisticVersion actual expected = guard (actual = expected) (domain_error ''record version conflict'')"

lemma category_name_inj [simp]: "category_name c = category_name d \<longleftrightarrow> c = d"
  by (cases c; cases d) simp_all

lemma category_in_all [simp]: "c \<in> set allRecordCategories"
  by (cases c) (simp_all add: allRecordCategories_def)

lemma category_name_no_dot: "CHR ''.'' \<notin> set (category_name c)"
  by (cases c) simp_all

lemma find_category: "find (\<lambda>d. d = c) allRecordCategories = Some c"
  by (cases c) (simp_all add: allRecordCategories_def)

text \<open>The category of a field key is read from its text before the first dot and only from
  there: a key \<open>category.rest\<close> or a bare category gives that category, and any other key throws.\<close>

theorem recordCategoryFromFieldKey_iff:
  "(recordCategoryFromFieldKey key = Inr c)
   = (key = category_name c \<or> (\<exists>rest. key = category_name c @ ''.'' @ rest))"
  (is "?l = ?r")
proof
  assume ?l
  then have "category_name c = hd (split_on CHR ''.'' key)"
    by (auto simp: recordCategoryFromFieldKey_def find_Some_iff split: option.splits)
  moreover obtain w ws where ws: "split_on CHR ''.'' key = w # ws"
    by (cases "split_on CHR ''.'' key") simp_all
  moreover have "join ''.'' (split_on CHR ''.'' key) = key" by (rule join_split_on)
  ultimately show ?r by (cases ws) auto
next
  assume ?r
  then have "hd (split_on CHR ''.'' key) = category_name c"
    by (auto simp: split_on_no_sep split_on_append category_name_no_dot)
  then show ?l by (simp add: recordCategoryFromFieldKey_def find_category)
qed

text \<open>A confirmed fact carries who confirmed it and when; the other states need not.\<close>

definition fact_wf :: "candidate_fact \<Rightarrow> bool" where
  "fact_wf f \<longleftrightarrow> (cf_status f = Confirmed \<longrightarrow>
     (\<exists>a. cf_confirmed_by f = Some a \<and> a \<noteq> []) \<and> truthy (cf_confirmed_at f)
     \<and> (cf_source_type f = Manual \<or> cf_evidence f \<noteq> []))"

lemma confirmFact_Inr:
  "confirmFact f a at = Inr f' \<longleftrightarrow>
     cf_status f \<in> {Candidate, Disputed} \<and> (cf_evidence f \<noteq> [] \<or> cf_source_type f = Manual)
     \<and> a \<noteq> [] \<and> truthy at
     \<and> f' = f \<lparr> cf_status := Confirmed, cf_confirmed_by := Some a, cf_confirmed_at := at,
                 ent_version := ent_version f + 1 \<rparr>"
  by (auto simp: confirmFact_def)

lemma rejectFact_Inr:
  "rejectFact f = Inr f' \<longleftrightarrow> cf_status f \<noteq> Confirmed
     \<and> f' = f \<lparr> cf_status := Rejected, ent_version := ent_version f + 1 \<rparr>"
  by (auto simp: rejectFact_def)

section \<open>Permissions\<close>

fun roleActions :: "role \<Rightarrow> permission_action list" where
  "roleActions Owner = [Read, Create, Update, Delete, Export, Approve]"
| "roleActions CoOwner = [Read, Create, Update, Delete, Export, Approve]"
| "roleActions Editor = [Read, Create, Update]"
| "roleActions FamilyHelper = [Read, Create, Update]"
| "roleActions ProfessionalAdvisor = [Read, Create, Update]"
| "roleActions ReadOnlyViewer = [Read]"
| "roleActions EmergencyRecipient = [Read]"
| "roleActions SupportAgent = [Read]"
| "roleActions PlatformAdmin = []"

definition isGrantActive :: "permission_grant \<Rightarrow> iso \<Rightarrow> bool" where
  "isGrantActive g at = (\<not> truthy (pg_revoked g)
     \<and> num_le (date_parse (pg_starts g)) (date_parse at)
     \<and> (\<not> truthy (pg_expires g) \<or> num_lt (date_parse at) (date_parse (pg_expires g))))"

definition permits ::
  "role \<Rightarrow> permission_grant list \<Rightarrow> record_category \<Rightarrow> permission_action \<Rightarrow> iso \<Rightarrow> bool" where
  "permits r grants category action at =
     (if action \<notin> set (roleActions r) then False
      else if r = Owner \<or> r = CoOwner then True
      else list_ex (\<lambda>g. isGrantActive g at \<and> category \<in> set (pg_categories g)
                      \<and> action \<in> set (pg_actions g)) grants)"

lemma roleActions_owner [simp]: "a \<in> set (roleActions Owner)" "a \<in> set (roleActions CoOwner)"
  by (cases a; simp)+

lemma permits_iff:
  "permits r gs c a at \<longleftrightarrow> a \<in> set (roleActions r) \<and> (r \<in> {Owner, CoOwner} \<or>
     (\<exists>g \<in> set gs. isGrantActive g at \<and> c \<in> set (pg_categories g) \<and> a \<in> set (pg_actions g)))"
  by (auto simp: permits_def list_ex_iff)

lemma isGrantActive_At:
  "isGrantActive g at \<longleftrightarrow> pg_revoked g = Blank \<and> (\<exists>s t. pg_starts g = At s \<and> at = At t \<and> s \<le> t
     \<and> (pg_expires g = Blank \<or> (\<exists>e. pg_expires g = At e \<and> t < e)))"
  by (cases "pg_revoked g"; cases "pg_expires g") (auto simp: isGrantActive_def)

section \<open>Retention\<close>

datatype active_days = ActiveDays int | AccountLifetime | ActiveCounselDefined
datatype post_days = PostDays int | PostCounselDefined

datatype retention_category = ConfirmedFacts | OriginalDocuments | OcrTemporaryFiles
  | CandidateFacts | AiRequestMetadata | AuditEvents | ConsentAcceptance | BillingRecords
  | SecurityLogs | Backups | PrivacyRequestEvidence

record retention_rule =
  rr_category :: retention_category
  rr_active :: active_days
  rr_post :: post_days
  rr_hold_eligible :: bool

definition isEligibleForDeletion :: "retention_rule \<Rightarrow> int \<Rightarrow> bool \<Rightarrow> bool \<Rightarrow> bool" where
  "isEligibleForDeletion rule age closed hold =
     (if hold \<and> rr_hold_eligible rule then False
      else (let threshold =
              (if closed then (case rr_post rule of PostDays d \<Rightarrow> Some d | PostCounselDefined \<Rightarrow> None)
               else (case rr_active rule of ActiveDays d \<Rightarrow> Some d | _ \<Rightarrow> None))
            in case threshold of Some d \<Rightarrow> d \<le> age | None \<Rightarrow> False))"

text \<open>Deletion by retention is monotone in age and stopped by a legal hold: a rule eligible
  for holds deletes nothing under a hold, a rule without a numeric threshold never deletes, and
  what is deletable at some age stays deletable at every later age.\<close>

theorem isEligibleForDeletion_monotone:
  assumes "isEligibleForDeletion rule age closed hold" and "age \<le> age'"
  shows "isEligibleForDeletion rule age' closed hold \<and> \<not> (hold \<and> rr_hold_eligible rule)
    \<and> (if closed then \<exists>d. rr_post rule = PostDays d \<and> d \<le> age
       else \<exists>d. rr_active rule = ActiveDays d \<and> d \<le> age)"
  using assms by (auto simp: isEligibleForDeletion_def Let_def
      split: if_splits active_days.splits post_days.splits)

theorem isEligibleForDeletion_monotone_witness:
  "isEligibleForDeletion \<lparr> rr_category = CandidateFacts, rr_active = ActiveDays 30, rr_post = PostDays 7,
     rr_hold_eligible = True \<rparr> 45 False False"
  using isEligibleForDeletion_monotone [of "\<lparr> rr_category = CandidateFacts, rr_active = ActiveDays 30,
      rr_post = PostDays 7, rr_hold_eligible = True \<rparr>" 30 False False 45]
  by (simp add: isEligibleForDeletion_def)

section \<open>Consent and report claims\<close>

definition hasActiveConsent :: "consent list \<Rightarrow> consent_purpose \<Rightarrow> string \<Rightarrow> bool" where
  "hasActiveConsent consents purpose policy = list_ex (\<lambda>c.
     con_purpose c = purpose \<and> con_policy c = policy \<and> \<not> truthy (con_withdrawn c)) consents"

definition createReportClaims :: "candidate_fact list \<Rightarrow> report_claim list" where
  "createReportClaims facts = map (\<lambda>f. \<lparr>
     rc_fact_id = ent_id f,
     rc_evidence = cf_evidence f,
     rc_field_key = cf_field_key f,
     rc_value = (if cf_status f = Confirmed
                 then (case cf_value f of JStr s \<Rightarrow> s | v \<Rightarrow> json_stringify v) else []),
     rc_status = (if cf_status f = Confirmed then ClaimConfirmed
                  else if cf_status f = Disputed then ClaimDisputed else ClaimMissing) \<rparr>) facts"

text \<open>The \<open>in\<close> operator on a plain object also finds what every object inherits.\<close>

definition object_prototype_keys :: "string list" where
  "object_prototype_keys = [''constructor'', ''__defineGetter__'', ''__defineSetter__'',
     ''hasOwnProperty'', ''__lookupGetter__'', ''__lookupSetter__'', ''isPrototypeOf'',
     ''propertyIsEnumerable'', ''toString'', ''valueOf'', ''__proto__'', ''toLocaleString'']"

definition js_in :: "string \<Rightarrow> (string \<times> 'a) list \<Rightarrow> bool" where
  "js_in k kvs \<longleftrightarrow> k \<in> set (map fst kvs) \<or> k \<in> set object_prototype_keys"

fun assert_claims :: "(string \<times> int) list \<Rightarrow> report_claim list \<Rightarrow> unit result" where
  "assert_claims versions [] = Inr ()"
| "assert_claims versions (c # cs) =
     (if rc_status c = ClaimConfirmed \<and> rc_evidence c = []
      then Inl (domain_error ''confirmed report claim requires evidence'')
      else if \<not> js_in (rc_fact_id c) versions
      then Inl (domain_error ''report claim requires a source fact version'')
      else assert_claims versions cs)"

definition assertReportProvenance :: "report \<Rightarrow> unit result" where
  "assertReportProvenance r = assert_claims (rep_versions r) (rep_claims r)"

lemma assert_claims_ok:
  "assert_claims vs cs = Inr u \<longleftrightarrow>
     (\<forall>c \<in> set cs. (rc_status c = ClaimConfirmed \<longrightarrow> rc_evidence c \<noteq> []) \<and> js_in (rc_fact_id c) vs)"
  by (induction cs) auto

section \<open>Emergency access\<close>

fun emergency_status_name :: "emergency_status \<Rightarrow> string" where
  "emergency_status_name Requested = ''requested''"
| "emergency_status_name Approved = ''approved''"
| "emergency_status_name Denied = ''denied''"
| "emergency_status_name Delayed = ''delayed''"
| "emergency_status_name Released = ''released''"
| "emergency_status_name Revoked = ''revoked''"

fun emergencyTransitions :: "emergency_status \<Rightarrow> emergency_status list" where
  "emergencyTransitions Requested = [Approved, Denied, Delayed, Revoked]"
| "emergencyTransitions Approved = [Delayed, Released, Revoked]"
| "emergencyTransitions Denied = []"
| "emergencyTransitions Delayed = [Approved, Denied, Released, Revoked]"
| "emergencyTransitions Released = [Revoked]"
| "emergencyTransitions Revoked = []"

definition transitionEmergencyAccess ::
  "emergency_request \<Rightarrow> emergency_status \<Rightarrow> iso \<Rightarrow> emergency_request result" where
  "transitionEmergencyAccess r nxt at =
     (if nxt \<notin> set (emergencyTransitions (er_status r))
      then Inl (domain_error (''invalid emergency access transition: ''
             @ emergency_status_name (er_status r) @ '' to '' @ emergency_status_name nxt))
      else if nxt = Released \<and> truthy (er_release_after r)
              \<and> num_lt (date_parse at) (date_parse (er_release_after r))
      then Inl (domain_error ''emergency access delay has not elapsed'')
      else Inr (r \<lparr> er_status := nxt, er_decision := at, ent_version := ent_version r + 1 \<rparr>))"

text \<open>The requests a sequence of transitions can lead to, with the decisions taken.\<close>

inductive emergency_path ::
  "emergency_request \<Rightarrow> (emergency_status \<times> iso) list \<Rightarrow> emergency_request \<Rightarrow> bool" where
  start: "emergency_path r [] r"
| decide: "emergency_path r evs r1 \<Longrightarrow> transitionEmergencyAccess r1 nxt at = Inr r2 \<Longrightarrow>
     emergency_path r (evs @ [(nxt, at)]) r2"

inductive_cases emergency_path_snocE: "emergency_path r (evs @ [e]) r2"

lemma transitionEmergencyAccess_Inr:
  "transitionEmergencyAccess r nxt at = Inr r' \<longleftrightarrow>
     nxt \<in> set (emergencyTransitions (er_status r))
     \<and> \<not> (nxt = Released \<and> truthy (er_release_after r)
           \<and> num_lt (date_parse at) (date_parse (er_release_after r)))
     \<and> r' = r \<lparr> er_status := nxt, er_decision := at, ent_version := ent_version r + 1 \<rparr>"
  by (auto simp: transitionEmergencyAccess_def simp del: num_lt_iff)

lemma emergency_path_frame:
  "emergency_path r evs r' \<Longrightarrow> er_release_after r' = er_release_after r
     \<and> er_categories r' = er_categories r \<and> er_recipient r' = er_recipient r
     \<and> ent_version r' = ent_version r + int (length evs)
     \<and> er_status r' = (if evs = [] then er_status r else fst (last evs))"
  by (induction rule: emergency_path.induct) (auto simp: transitionEmergencyAccess_Inr)

lemma emergency_path_no_denied:
  "emergency_path r evs r' \<Longrightarrow> er_status r' \<in> {Released, Approved, Delayed} \<Longrightarrow>
     er_status r \<notin> {Denied, Revoked} \<and> (\<forall>e \<in> set evs. fst e \<notin> {Denied, Revoked})"
proof (induction rule: emergency_path.induct)
  case (decide r evs r1 nxt at r2)
  from decide.hyps(2) decide.prems have "er_status r1 \<noteq> Denied \<and> er_status r1 \<noteq> Revoked"
    and n: "nxt \<in> {Released, Approved, Delayed}"
    by (auto simp: transitionEmergencyAccess_Inr)
  moreover have "er_status r1 \<noteq> Released"
    using decide.hyps(2) n by (auto simp: transitionEmergencyAccess_Inr)
  ultimately have r1: "er_status r1 = Requested \<or> er_status r1 \<in> {Released, Approved, Delayed}"
    by (cases "er_status r1") auto
  show ?case
  proof (cases "er_status r1 = Requested")
    case True
    from emergency_path_frame [OF decide.hyps(1)] True
    have "evs = [] \<or> fst (last evs) = Requested" by (auto split: if_splits)
    moreover have "evs = [] \<or> fst (last evs) \<noteq> Requested"
      using decide.hyps(1)
    proof (cases rule: emergency_path.cases)
      case (decide evs1 ra nx at1)
      then show ?thesis by (cases "er_status ra") (auto simp: transitionEmergencyAccess_Inr)
    qed simp
    ultimately show ?thesis using True n emergency_path_frame [OF decide.hyps(1)] by auto
  next
    case False
    with r1 decide.IH n show ?thesis by auto
  qed
qed auto

text \<open>Emergency access is released only through the delay and never after a refusal: along
  every sequence of transitions that ends in a released request, no decision was a denial or a
  revocation, the last decision is the release, it was taken from an approved or delayed request,
  and, when the release date and the decision date are real dates, not before the release date.\<close>

theorem emergency_release_safe:
  assumes "emergency_path r evs r'" and "er_status r' = Released" and "er_status r \<noteq> Released"
  shows "\<exists>evs0 at r0. evs = evs0 @ [(Released, at)] \<and> emergency_path r evs0 r0
     \<and> er_status r0 \<in> {Approved, Delayed}
     \<and> (\<forall>e \<in> set evs. fst e \<notin> {Denied, Revoked})
     \<and> (\<forall>d t. er_release_after r = At d \<longrightarrow> at = At t \<longrightarrow> d \<le> t)
     \<and> er_categories r' = er_categories r \<and> er_recipient r' = er_recipient r
     \<and> ent_version r' = ent_version r + int (length evs)"
proof -
  from assms(1) show ?thesis
  proof (cases rule: emergency_path.cases)
    case start
    with assms(2,3) show ?thesis by simp
  next
    case (decide evs0 r1 nxt at)
    from decide(3) assms(2) have n: "nxt = Released" by (auto simp: transitionEmergencyAccess_Inr)
    from decide(3) n have "er_status r1 \<in> {Approved, Delayed}"
      by (cases "er_status r1") (auto simp: transitionEmergencyAccess_Inr)
    moreover from decide(3) n emergency_path_frame [OF decide(2)]
    have "\<forall>d t. er_release_after r = At d \<longrightarrow> at = At t \<longrightarrow> d \<le> t"
      by (auto simp: transitionEmergencyAccess_Inr)
    moreover have "\<forall>e \<in> set evs. fst e \<notin> {Denied, Revoked}"
      using emergency_path_no_denied [OF assms(1)] assms(2) by simp
    moreover note emergency_path_frame [OF assms(1)]
    ultimately show ?thesis using decide(1,2) n by blast
  qed
qed

abbreviation sample_request :: emergency_request where
  "sample_request \<equiv> \<lparr> ent_id = ''e'', ent_org = ''o'', ent_hh = ''h'', ent_version = 1,
     er_requester = ''u'', er_recipient = ''m'', er_categories = [Contacts], er_reason = ''r'',
     er_status = Requested, er_requested = At 0, er_decision = Blank, er_release_after = At 100 \<rparr>"

theorem emergency_release_safe_witness:
  "\<exists>r'. emergency_path sample_request [(Approved, At 5), (Released, At 100)] r'
     \<and> er_status r' = Released \<and> ent_version r' = 3"
proof -
  have p1: "emergency_path sample_request ([] @ [(Approved, At 5)])
      (sample_request \<lparr> er_status := Approved, er_decision := At 5, ent_version := 2 \<rparr>)"
    by (rule emergency_path.decide [OF emergency_path.start]) (simp add: transitionEmergencyAccess_def)
  have p2: "emergency_path sample_request (([] @ [(Approved, At 5)]) @ [(Released, At 100)])
      (sample_request \<lparr> er_status := Released, er_decision := At 100, ent_version := 3 \<rparr>)"
    by (rule emergency_path.decide [OF p1]) (simp add: transitionEmergencyAccess_def)
  from emergency_release_safe [OF p2] p2 show ?thesis by fastforce
qed

section \<open>Workflow steps\<close>

text \<open>\<open>nextStep\<close> counts as present only when it is a non-empty string.\<close>

definition completeWorkflowStep :: "workflow_run \<Rightarrow> string \<Rightarrow> string option \<Rightarrow> workflow_run" where
  "completeWorkflowStep w step nxt =
     (if step \<in> set (wr_completed w) then w
      else (let completed = wr_completed w @ [step] in
        if nxt \<noteq> None \<and> nxt \<noteq> Some []
        then w \<lparr> wr_completed := completed, wr_status := RunRunning, wr_next := nxt,
                 ent_version := ent_version w + 1 \<rparr>
        else w \<lparr> wr_next := None, wr_completed := completed, wr_status := RunCompleted,
                 ent_version := ent_version w + 1 \<rparr>))"

definition run_steps :: "workflow_run \<Rightarrow> (string \<times> string option) list \<Rightarrow> workflow_run" where
  "run_steps w evs = foldl (\<lambda>w (s, n). completeWorkflowStep w s n) w evs"

lemma completeWorkflowStep_completed:
  "wr_completed (completeWorkflowStep w s n) =
     (if s \<in> set (wr_completed w) then wr_completed w else wr_completed w @ [s])"
  by (simp add: completeWorkflowStep_def Let_def)

text \<open>Delivering workflow steps any number of times records each of them once: after any
  sequence of completions the completed steps are those of before followed by the new steps in
  the order of their first completion, without duplicates, the version has grown by exactly the
  number of steps recorded, and completing a recorded step again changes nothing.\<close>

theorem run_steps_once:
  assumes "distinct (wr_completed w)"
  shows "distinct (wr_completed (run_steps w evs))
     \<and> set (wr_completed (run_steps w evs)) = set (wr_completed w) \<union> fst ` set evs
     \<and> (\<exists>new. wr_completed (run_steps w evs) = wr_completed w @ new
           \<and> ent_version (run_steps w evs) = ent_version w + int (length new))
     \<and> (\<forall>s n. s \<in> fst ` set evs \<longrightarrow> completeWorkflowStep (run_steps w evs) s n = run_steps w evs)"
proof -
  have "distinct (wr_completed (run_steps w evs))
     \<and> set (wr_completed (run_steps w evs)) = set (wr_completed w) \<union> fst ` set evs
     \<and> (\<exists>new. wr_completed (run_steps w evs) = wr_completed w @ new
           \<and> ent_version (run_steps w evs) = ent_version w + int (length new))"
  proof (induction evs rule: rev_induct)
    case Nil
    with assms show ?case by (simp add: run_steps_def)
  next
    case (snoc e evs)
    obtain s n where e: "e = (s, n)" by force
    have "run_steps w (evs @ [e]) = completeWorkflowStep (run_steps w evs) s n"
      by (simp add: run_steps_def e)
    with snoc e show ?case by (auto simp: completeWorkflowStep_def Let_def)
  qed
  then show ?thesis by (auto simp: completeWorkflowStep_def)
qed

theorem run_steps_once_witness:
  "wr_completed (run_steps \<lparr> ent_id = ''w'', ent_org = ''o'', ent_hh = ''h'', ent_version = 1,
      wr_key = ''k'', wr_status = RunPending, wr_completed = [], wr_next = Some ''a'', wr_error = None \<rparr>
     [(''a'', Some ''b''), (''a'', Some ''b''), (''b'', None)]) = [''a'', ''b'']"
  using run_steps_once [of "\<lparr> ent_id = ''w'', ent_org = ''o'', ent_hh = ''h'', ent_version = 1,
      wr_key = ''k'', wr_status = RunPending, wr_completed = [], wr_next = Some ''a'', wr_error = None \<rparr>"
      "[(''a'', Some ''b''), (''a'', Some ''b''), (''b'', None)]"]
  by (simp add: run_steps_def completeWorkflowStep_def)

end
