(* ===== verification/Vault_Schema.thy ===== *)
theory Vault_Schema
  imports Domain_Rules "HOL-Library.List_Lexorder" "HOL-Library.Char_ord"
begin

text \<open>
  The database of \<open>packages/database\<close>: one row record per table of \<open>schema.ts\<close>, the state \<open>db\<close>
  with a list of rows per table, the row level security of the migrations, and the statements
  and transactions the repository runs.

  Identifiers, hashes and \<open>bytea\<close> values are strings, \<open>timestamptz\<close> values milliseconds,
  \<open>jsonb\<close> values \<open>json\<close>; a nullable column is an option.
\<close>

section \<open>Rows\<close>

record scope_row =
  row_org :: string
  row_hh :: string

record tenant_row = scope_row +
  row_id :: string

record versioned_row = tenant_row +
  row_version :: int

record organization_row =
  o_id :: string
  o_name :: string

text \<open>A household's own identifier is its tenant key: its row has \<open>row_hh = row_id\<close>.\<close>

record household_row = versioned_row +
  h_name :: string
  h_last_reviewed :: "int option"

record household_key_row = tenant_row +
  hk_key_version :: int
  hk_wrapped_key :: json
  hk_status :: string
  hk_created :: int
  hk_retired :: "int option"

record person_row = versioned_row +
  p_display_name :: string
  p_key_version :: int

record membership_row = versioned_row +
  m_person :: string
  m_role :: string
  m_auth_user :: "string option"
  m_active :: int

record account_idem_row =
  ai_user :: string
  ai_key :: string
  ai_hash :: string
  ai_response :: "json option"
  ai_expires :: int

record invitation_row = versioned_row +
  i_email_hash :: string
  i_token_hash :: string
  i_role :: string
  i_invited_by :: string
  i_expires :: int
  i_accepted :: "int option"
  i_accepted_by :: "string option"
  i_revoked :: "int option"

record grant_row = versioned_row +
  g_membership :: string
  g_categories :: json
  g_actions :: json
  g_purpose :: string
  g_starts :: int
  g_expires :: "int option"
  g_revoked :: "int option"

record approval_row = versioned_row +
  sa_membership :: string
  sa_approved_by :: string
  sa_reason :: string
  sa_categories :: json
  sa_starts :: int
  sa_expires :: int
  sa_revoked :: "int option"

record document_row = versioned_row +
  d_object_key :: string
  d_sha256 :: string
  d_media_type :: string
  d_status :: string
  d_key_version :: int
  d_wrapped_key :: "json option"
  d_maximum_bytes :: "int option"
  d_ciphertext_sha256 :: "string option"
  d_uploaded :: "int option"
  d_processed :: "int option"
  d_error :: "string option"
  d_expires :: "int option"
  d_delete_original :: bool
  d_original_deleted :: "int option"

record document_consent_row = versioned_row +
  dc_document :: string
  dc_person :: string
  dc_policy :: string
  dc_granted :: int
  dc_withdrawn :: "int option"

record evidence_row = versioned_row +
  e_source_type :: string
  e_source_id :: string
  e_locator :: string
  e_captured :: int

record derivative_row = versioned_row +
  dd_document :: string
  dd_kind :: string
  dd_object_key :: string
  dd_ciphertext_sha256 :: string
  dd_key_version :: int
  dd_created :: int

record fact_row = versioned_row +
  f_field_key :: string
  f_value_encrypted :: string
  f_key_version :: int
  f_status :: string
  f_source_type :: string
  f_source_id :: string
  f_evidence :: "string list"
  f_confidence :: "int option"
  f_sensitivity :: string
  f_confirmed_by :: "string option"
  f_confirmed_at :: "int option"
  f_last_reviewed :: "int option"

record consent_row = versioned_row +
  c_person :: string
  c_purpose :: string
  c_policy :: string
  c_granted :: int
  c_withdrawn :: "int option"

record emergency_row = versioned_row +
  er_requester_id :: string
  er_recipient_membership :: string
  er_category_json :: json
  er_reason_encrypted :: string
  er_key_version :: int
  er_row_status :: string
  er_requested_at :: int
  er_decision_at :: "int option"
  er_release_at :: "int option"

record report_row = versioned_row +
  r_kind :: string
  r_workflow :: "string option"
  r_requested_by :: "string option"
  r_status :: string
  r_generated :: int
  r_completed :: "int option"
  r_claims :: json
  r_versions :: json
  r_payload :: "string option"
  r_key_version :: "int option"

record delivery_row = versioned_row +
  n_workflow :: string
  n_recipient :: string
  n_kind :: string
  n_status :: string
  n_message_id :: "string option"
  n_attempts :: int
  n_error :: "string option"
  n_created :: int
  n_sent :: "int option"

record export_row = versioned_row +
  x_workflow :: string
  x_status :: string
  x_wrapped_key :: json
  x_key_version :: int
  x_object_key :: "string option"
  x_archive_sha256 :: "string option"
  x_signer :: "string option"
  x_created :: int
  x_completed :: "int option"

record workflow_row = versioned_row +
  w_kind :: string
  w_key :: string
  w_status :: string
  w_completed_steps :: "string list"
  w_next :: "string option"
  w_error :: "string option"
  w_subject_type :: "string option"
  w_subject_id :: "string option"

record privacy_row = versioned_row +
  pr_person :: string
  pr_kind :: string
  pr_status :: string
  pr_requested :: int
  pr_verified :: "int option"
  pr_recovery :: "int option"
  pr_completed :: "int option"

record subscription_row = versioned_row +
  s_status :: string
  s_plan :: string
  s_customer :: "string option"
  s_subscription :: "string option"
  s_updated :: "int option"
  s_trial_ends :: "int option"
  s_period_ends :: "int option"
  s_cancel_at_end :: bool
  s_canceled :: "int option"

record refund_row = versioned_row +
  br_refund :: string
  br_charge :: "string option"
  br_amount :: int
  br_currency :: string
  br_reason :: "string option"
  br_status :: string
  br_updated :: int

record idem_row = scope_row +
  k_key :: string
  k_hash :: string
  k_status :: "int option"
  k_response :: "json option"
  k_expires :: int

record billing_event_row = tenant_row +
  be_external :: string
  be_type :: string
  be_created :: int
  be_payload :: json
  be_processed :: "int option"
  be_error :: "string option"

record processor_row = tenant_row +
  dp_workflow :: string
  dp_processor :: string
  dp_external :: "string option"
  dp_status :: string
  dp_requested :: int
  dp_confirmed :: "int option"

record execution_row = versioned_row +
  de_request :: string
  de_workflow :: string
  de_person :: string
  de_status :: string
  de_recovery :: int
  de_active_completed :: "int option"
  de_backup_expires :: "int option"
  de_completed :: "int option"
  de_retained :: "string list"
  de_shared_review :: bool

record hold_row = versioned_row +
  l_category :: string
  l_subject_type :: string
  l_subject_id :: string
  l_reason :: string
  l_starts :: int
  l_expires :: "int option"
  l_released :: "int option"
  l_created_by :: string

record audit_row = tenant_row +
  a_sequence :: int
  a_occurred :: int
  a_actor :: string
  a_action :: string
  a_outcome :: string
  a_metadata :: json
  a_previous :: string
  a_hash :: string

section \<open>The database\<close>

record db =
  organizations :: "organization_row list"
  households :: "household_row list"
  household_keys :: "household_key_row list"
  people :: "person_row list"
  memberships :: "membership_row list"
  account_idem :: "account_idem_row list"
  invitations :: "invitation_row list"
  grants :: "grant_row list"
  approvals :: "approval_row list"
  documents :: "document_row list"
  document_consents :: "document_consent_row list"
  evidence :: "evidence_row list"
  derivatives :: "derivative_row list"
  facts :: "fact_row list"
  consents :: "consent_row list"
  emergencies :: "emergency_row list"
  reports :: "report_row list"
  deliveries :: "delivery_row list"
  exports :: "export_row list"
  workflows :: "workflow_row list"
  privacy_requests :: "privacy_row list"
  subscriptions :: "subscription_row list"
  refunds :: "refund_row list"
  idem :: "idem_row list"
  billing_events :: "billing_event_row list"
  processors :: "processor_row list"
  executions :: "execution_row list"
  holds :: "hold_row list"
  audit :: "audit_row list"

definition empty_db :: db where
  "empty_db = \<lparr> organizations = [], households = [], household_keys = [], people = [],
     memberships = [], account_idem = [], invitations = [], grants = [], approvals = [],
     documents = [], document_consents = [], evidence = [], derivatives = [], facts = [],
     consents = [], emergencies = [], reports = [], deliveries = [], exports = [],
     workflows = [], privacy_requests = [], subscriptions = [], refunds = [], idem = [],
     billing_events = [], processors = [], executions = [], holds = [], audit = [] \<rparr>"

section \<open>Sessions and row level security\<close>

text \<open>
  The settings a transaction makes with \<open>set_config(..., true)\<close>: the tenant, the account and
  the invitation token.  A setting that was not made is \<open>None\<close>.
\<close>

record session =
  ss_org :: "string option"
  ss_hh :: "string option"
  ss_user :: "string option"
  ss_token :: "string option"

record tenant_context =
  tc_org :: string
  tc_hh :: string
  tc_actor :: string

definition tenant_session :: "tenant_context \<Rightarrow> session" where
  "tenant_session ctx = \<lparr> ss_org = Some (tc_org ctx), ss_hh = Some (tc_hh ctx),
     ss_user = None, ss_token = None \<rparr>"

definition account_session :: "string \<Rightarrow> session" where
  "account_session user = \<lparr> ss_org = None, ss_hh = None, ss_user = Some user, ss_token = None \<rparr>"

definition tenant_visible :: "session \<Rightarrow> 'a scope_row_scheme \<Rightarrow> bool" where
  "tenant_visible s r \<longleftrightarrow> ss_org s = Some (row_org r) \<and> ss_hh s = Some (row_hh r)"

definition membership_visible :: "session \<Rightarrow> membership_row \<Rightarrow> bool" where
  "membership_visible s m \<longleftrightarrow> tenant_visible s m \<or> (m_auth_user m \<noteq> None \<and> m_auth_user m = ss_user s)"

definition household_visible :: "session \<Rightarrow> db \<Rightarrow> household_row \<Rightarrow> bool" where
  "household_visible s d h \<longleftrightarrow> tenant_visible s h \<or>
     list_ex (\<lambda>m. row_hh m = row_id h \<and> row_org m = row_org h \<and> m_active m = 1
       \<and> m_auth_user m \<noteq> None \<and> m_auth_user m = ss_user s) (memberships d)"

definition invitation_visible :: "session \<Rightarrow> invitation_row \<Rightarrow> bool" where
  "invitation_visible s i \<longleftrightarrow> tenant_visible s i \<or> ss_token s = Some (i_token_hash i)"

section \<open>Statements\<close>

definition sql_select :: "session \<Rightarrow> ('a scope_row_scheme \<Rightarrow> bool) \<Rightarrow> 'a scope_row_scheme list
    \<Rightarrow> 'a scope_row_scheme list" where
  "sql_select s p t = filter (\<lambda>r. tenant_visible s r \<and> p r) t"

definition sql_update :: "session \<Rightarrow> ('a scope_row_scheme \<Rightarrow> bool)
    \<Rightarrow> ('a scope_row_scheme \<Rightarrow> 'a scope_row_scheme) \<Rightarrow> 'a scope_row_scheme list
    \<Rightarrow> 'a scope_row_scheme list" where
  "sql_update s p f t = map (\<lambda>r. if tenant_visible s r \<and> p r then f r else r) t"

definition sql_delete :: "session \<Rightarrow> ('a scope_row_scheme \<Rightarrow> bool) \<Rightarrow> 'a scope_row_scheme list
    \<Rightarrow> 'a scope_row_scheme list" where
  "sql_delete s p t = filter (\<lambda>r. \<not> (tenant_visible s r \<and> p r)) t"

text \<open>An insert fails the policy's \<open>WITH CHECK\<close>, or a unique constraint, or appends the row.\<close>

definition sql_insert :: "session \<Rightarrow> ('a scope_row_scheme \<Rightarrow> 'a scope_row_scheme \<Rightarrow> bool)
    \<Rightarrow> 'a scope_row_scheme \<Rightarrow> 'a scope_row_scheme list \<Rightarrow> 'a scope_row_scheme list result" where
  "sql_insert s same r t =
     (if \<not> tenant_visible s r then Inl pg_rls_violation
      else if list_ex (same r) t then Inl pg_unique_violation
      else Inr (t @ [r]))"

definition same_id :: "'a tenant_row_scheme \<Rightarrow> 'a tenant_row_scheme \<Rightarrow> bool" where
  "same_id r r' \<longleftrightarrow> row_id r = row_id r'"

text \<open>\<open>ORDER BY a, b\<close> on rows: sorting is stable, so the least significant key is sorted first.\<close>

definition order_by :: "('a \<Rightarrow> 'k::linorder) \<Rightarrow> 'a list \<Rightarrow> 'a list" where
  "order_by k t = sort_key k t"

lemma set_order_by [simp]: "set (order_by k t) = set t"
  by (simp add: order_by_def)

section \<open>Transactions\<close>

type_synonym 'a op = "db \<Rightarrow> ('a \<times> db) result"

text \<open>\<open>begin\<close>, the operation, then \<open>commit\<close>, or \<open>rollback\<close> when it threw.\<close>

definition transaction :: "'a op \<Rightarrow> db \<Rightarrow> 'a result \<times> db" where
  "transaction operation d = (case operation d of Inl e \<Rightarrow> (Inl e, d) | Inr (x, d') \<Rightarrow> (Inr x, d'))"

definition withTenant :: "tenant_context \<Rightarrow> (session \<Rightarrow> 'a op) \<Rightarrow> db \<Rightarrow> 'a result \<times> db" where
  "withTenant ctx operation d = transaction (operation (tenant_session ctx)) d"

definition withAccount :: "string \<Rightarrow> (session \<Rightarrow> 'a op) \<Rightarrow> db \<Rightarrow> 'a result \<times> db" where
  "withAccount user operation d = transaction (operation (account_session user)) d"

lemma transaction_Inr [simp]:
  "transaction operation d = (Inr x, d') \<longleftrightarrow> operation d = Inr (x, d')"
  by (auto simp: transaction_def split: sum.splits)

lemma transaction_Inl [simp]:
  "transaction operation d = (Inl e, d') \<longleftrightarrow> operation d = Inl e \<and> d' = d"
  by (auto simp: transaction_def split: sum.splits)

lemma transaction_cases:
  obtains (committed) x d' where "operation d = Inr (x, d')" "transaction operation d = (Inr x, d')"
  | (aborted) e where "operation d = Inl e" "transaction operation d = (Inl e, d)"
  by (cases "operation d") (auto simp: transaction_def)

end
