(* ===== verification/Vault_Tenancy.thy ===== *)
theory Vault_Tenancy
  imports Vault_Schema
begin

text \<open>
  What row level security gives the repository: \<open>foreign s d\<close> is the part of the database a
  session can neither change nor, but for the account policies, read.  The locale \<open>tenant_table\<close>
  states once what a statement on a table under the tenant policy leaves alone; it is
  interpreted on every such table of the schema, and the operations of the component theories
  get their frame from it.
\<close>

section \<open>The rows of the other tenants\<close>

definition hidden :: "session \<Rightarrow> 'a scope_row_scheme list \<Rightarrow> 'a scope_row_scheme list" where
  "hidden s t = filter (\<lambda>r. \<not> tenant_visible s r) t"

definition foreign :: "session \<Rightarrow> db \<Rightarrow> db" where
  "foreign s d = \<lparr> organizations = filter (\<lambda>r. ss_org s \<noteq> Some (o_id r)) (organizations d),
     households = hidden s (households d),
     household_keys = hidden s (household_keys d),
     people = hidden s (people d),
     memberships = hidden s (memberships d),
     account_idem = filter (\<lambda>r. ss_user s \<noteq> Some (ai_user r)) (account_idem d),
     invitations = hidden s (invitations d),
     grants = hidden s (grants d),
     approvals = hidden s (approvals d),
     documents = hidden s (documents d),
     document_consents = hidden s (document_consents d),
     evidence = hidden s (evidence d),
     derivatives = hidden s (derivatives d),
     facts = hidden s (facts d),
     consents = hidden s (consents d),
     emergencies = hidden s (emergencies d),
     reports = hidden s (reports d),
     deliveries = hidden s (deliveries d),
     exports = hidden s (exports d),
     workflows = hidden s (workflows d),
     privacy_requests = hidden s (privacy_requests d),
     subscriptions = hidden s (subscriptions d),
     refunds = hidden s (refunds d),
     idem = hidden s (idem d),
     billing_events = hidden s (billing_events d),
     processors = hidden s (processors d),
     executions = hidden s (executions d),
     holds = hidden s (holds d),
     audit = hidden s (audit d) \<rparr>"

lemma tenant_visible_cong:
  "row_org r = row_org r' \<Longrightarrow> row_hh r = row_hh r' \<Longrightarrow> tenant_visible s r = tenant_visible s r'"
  by (simp add: tenant_visible_def)

lemma hidden_sql_update [simp]:
  assumes "\<And>r. row_org (f r) = row_org r" and "\<And>r. row_hh (f r) = row_hh r"
  shows "hidden s (sql_update s p f t) = hidden s t"
proof -
  have "tenant_visible s (f r) = tenant_visible s r" for r
    using assms by (intro tenant_visible_cong)
  then show ?thesis by (induction t) (simp_all add: hidden_def sql_update_def)
qed

lemma hidden_sql_delete [simp]: "hidden s (sql_delete s p t) = hidden s t"
  by (induction t) (auto simp: hidden_def sql_delete_def)

lemma hidden_sql_insert:
  "sql_insert s same r t = Inr t' \<Longrightarrow> hidden s t' = hidden s t"
  by (auto simp: hidden_def sql_insert_def split: if_splits)

lemma hidden_append_visible [simp]: "tenant_visible s r \<Longrightarrow> hidden s (t @ [r]) = hidden s t"
  by (simp add: hidden_def)

lemma sql_insert_Inr:
  "sql_insert s same r t = Inr t' \<longleftrightarrow>
     tenant_visible s r \<and> \<not> list_ex (same r) t \<and> t' = t @ [r]"
  by (auto simp: sql_insert_def)

lemma sql_insert_Inl:
  "sql_insert s same r t = Inl e \<longleftrightarrow>
     (\<not> tenant_visible s r \<and> e = pg_rls_violation)
     \<or> (tenant_visible s r \<and> list_ex (same r) t \<and> e = pg_unique_violation)"
  by (auto simp: sql_insert_def)

lemma tenant_visible_session [simp]:
  "tenant_visible (tenant_session ctx) r \<longleftrightarrow> row_org r = tc_org ctx \<and> row_hh r = tc_hh ctx"
  by (auto simp: tenant_visible_def tenant_session_def)

lemma tenant_session_simps [simp]:
  "ss_org (tenant_session ctx) = Some (tc_org ctx)" "ss_hh (tenant_session ctx) = Some (tc_hh ctx)"
  "ss_user (tenant_session ctx) = None" "ss_token (tenant_session ctx) = None"
  by (simp_all add: tenant_session_def)

lemma in_sql_select [simp]:
  "r \<in> set (sql_select s p t) \<longleftrightarrow> r \<in> set t \<and> tenant_visible s r \<and> p r"
  by (auto simp: sql_select_def)

lemma sql_select_hd: "sql_select s p t = r # rs \<Longrightarrow> r \<in> set t \<and> tenant_visible s r \<and> p r"
  using in_sql_select [of r s p t] by simp

lemma in_sql_update:
  "r \<in> set (sql_update s p f t) \<longleftrightarrow>
     (\<exists>q \<in> set t. r = (if tenant_visible s q \<and> p q then f q else q))"
  by (auto simp: sql_update_def)

lemma map_sql_update: "(\<And>r. g (f r) = g r) \<Longrightarrow> map g (sql_update s p f t) = map g t"
  by (simp add: sql_update_def)

lemma length_sql_update [simp]: "length (sql_update s p f t) = length t"
  by (simp add: sql_update_def)

text \<open>A statement that selects no row changes nothing.\<close>

lemma sql_update_none: "sql_select s p t = [] \<Longrightarrow> sql_update s p f t = t"
  unfolding sql_select_def sql_update_def
  by (rule map_cond_other) (auto simp: filter_empty_conv)

text \<open>With distinct identifiers, a statement that asks for one identifier selects at most one row.\<close>

lemma sql_select_one:
  assumes "distinct (map row_id t)" and "\<And>r. p r \<Longrightarrow> row_id r = i"
    and "sql_select s p t = r # rs"
  shows "sql_select s p t = [r]"
proof -
  have r: "r \<in> set t" "tenant_visible s r" "p r" using sql_select_hd [OF assms(3)] by auto
  have "filter (\<lambda>r. tenant_visible s r \<and> p r) t = [r]"
    by (rule filter_key_singleton [OF assms(1)]) (use r assms(2) in auto)
  then show ?thesis by (simp add: sql_select_def)
qed

section \<open>Tables under the tenant policy\<close>

text \<open>
  The statement most methods are made of: \<open>update ... where ... returning ...\<close> on one table,
  with an error when no row came back.
\<close>

definition update_returning :: "(db \<Rightarrow> 'r scope_row_scheme list)
    \<Rightarrow> (('r scope_row_scheme list \<Rightarrow> 'r scope_row_scheme list) \<Rightarrow> db \<Rightarrow> db)
    \<Rightarrow> ('r scope_row_scheme \<Rightarrow> bool) \<Rightarrow> ('r scope_row_scheme \<Rightarrow> 'r scope_row_scheme)
    \<Rightarrow> string \<Rightarrow> session \<Rightarrow> 'r scope_row_scheme op" where
  "update_returning tab upd p f message s d = (case sql_select s p (tab d) of
       [] \<Rightarrow> Inl (js_error message)
     | r # _ \<Rightarrow> Inr (f r, upd (\<lambda>_. sql_update s p f (tab d)) d))"

text \<open>\<open>insert ... returning\<close>: the inserted row.\<close>

definition insert_returning :: "(db \<Rightarrow> 'r scope_row_scheme list)
    \<Rightarrow> (('r scope_row_scheme list \<Rightarrow> 'r scope_row_scheme list) \<Rightarrow> db \<Rightarrow> db)
    \<Rightarrow> ('r scope_row_scheme \<Rightarrow> 'r scope_row_scheme \<Rightarrow> bool) \<Rightarrow> 'r scope_row_scheme \<Rightarrow> session
    \<Rightarrow> 'r scope_row_scheme op" where
  "insert_returning tab upd same r s d = (case sql_insert s same r (tab d) of
       Inl e \<Rightarrow> Inl e | Inr t \<Rightarrow> Inr (r, upd (\<lambda>_. t) d))"

locale tenant_table =
  fixes tab :: "db \<Rightarrow> 'r scope_row_scheme list"
    and upd :: "('r scope_row_scheme list \<Rightarrow> 'r scope_row_scheme list) \<Rightarrow> db \<Rightarrow> db"
  assumes tab_upd: "tab (upd f d) = f (tab d)"
    and upd_same: "upd (\<lambda>_. tab d) d = d"
    and upd_upd: "upd f (upd g d) = upd (\<lambda>t. f (g t)) d"
    and tab_foreign: "tab (foreign s d) = hidden s (tab d)"
    and foreign_upd: "hidden s (f (tab d)) = hidden s (tab d) \<Longrightarrow> foreign s (upd f d) = foreign s d"
begin

lemma update_foreign:
  assumes "\<And>r. row_org (f r) = row_org r" and "\<And>r. row_hh (f r) = row_hh r"
  shows "foreign s (upd (sql_update s p f) d) = foreign s d"
  by (rule foreign_upd) (simp add: assms)

lemma insert_foreign:
  "sql_insert s same r (tab d) = Inr t \<Longrightarrow> foreign s (upd (\<lambda>_. t) d) = foreign s d"
  by (rule foreign_upd) (rule hidden_sql_insert)

lemma delete_foreign: "foreign s (upd (sql_delete s p) d) = foreign s d"
  by (rule foreign_upd) simp

lemma update_returning_Inr:
  assumes "update_returning tab upd p f message s d = Inr (x, d')"
  obtains r where "r \<in> set (tab d)" "tenant_visible s r" "p r" "x = f r"
    "d' = upd (\<lambda>_. sql_update s p f (tab d)) d"
proof (cases "sql_select s p (tab d)")
  case (Cons r rs)
  from assms have "x = f r" "d' = upd (\<lambda>_. sql_update s p f (tab d)) d"
    unfolding update_returning_def Cons list.case by (simp_all only: sum.inject prod.inject)
  with sql_select_hd [OF Cons] that [of r] show thesis by blast
qed (use assms in \<open>simp add: update_returning_def\<close>)

lemma update_returning_Inl:
  "update_returning tab upd p f message s d = Inl e \<longleftrightarrow>
     e = js_error message \<and> (\<forall>r \<in> set (tab d). tenant_visible s r \<longrightarrow> \<not> p r)"
  by (auto simp: update_returning_def sql_select_def filter_empty_conv dest!: filter_hd_Some split: list.splits)

lemma update_returning_foreign:
  assumes "update_returning tab upd p f message s d = Inr (x, d')"
    and "\<And>r. row_org (f r) = row_org r" and "\<And>r. row_hh (f r) = row_hh r"
  shows "foreign s d' = foreign s d"
proof -
  have d': "d' = upd (\<lambda>_. sql_update s p f (tab d)) d" by (rule update_returning_Inr [OF assms(1)])
  show ?thesis unfolding d' by (rule foreign_upd) (simp add: assms(2,3))
qed

lemma update_returning_all:
  assumes "update_returning tab upd p f message s d = Inr (x, d')"
    and "\<And>r. p r \<Longrightarrow> ok r \<Longrightarrow> ok (f r)" and "\<forall>r \<in> set (tab d). ok r"
  shows "\<forall>r \<in> set (tab d'). ok r"
proof -
  have d': "d' = upd (\<lambda>_. sql_update s p f (tab d)) d" by (rule update_returning_Inr [OF assms(1)])
  show ?thesis unfolding d' tab_upd using assms(2,3) by (auto simp: in_sql_update)
qed

lemma insert_returning_Inr:
  "insert_returning tab upd same r s d = Inr (x, d') \<longleftrightarrow>
     tenant_visible s r \<and> \<not> list_ex (same r) (tab d) \<and> x = r \<and> d' = upd (\<lambda>_. tab d @ [r]) d"
  by (auto simp: insert_returning_def sql_insert_def)

lemma insert_returning_foreign:
  "insert_returning tab upd same r s d = Inr (x, d') \<Longrightarrow> foreign s d' = foreign s d"
  by (auto simp: insert_returning_Inr intro: foreign_upd)

text \<open>A row of another tenant is in the table afterwards exactly when it was before.\<close>

lemma foreign_rows:
  assumes "foreign s d' = foreign s d" and "\<not> tenant_visible s r"
  shows "r \<in> set (tab d') \<longleftrightarrow> r \<in> set (tab d)"
proof -
  from assms(1) have "hidden s (tab d') = hidden s (tab d)" by (metis tab_foreign)
  then have "r \<in> set (hidden s (tab d')) \<longleftrightarrow> r \<in> set (hidden s (tab d))" by simp
  with assms(2) show ?thesis by (simp add: hidden_def)
qed

text \<open>An update that selects no row is no update at all.\<close>

lemma update_none: "sql_select s p (tab d) = [] \<Longrightarrow> upd (\<lambda>_. sql_update s p f (tab d)) d = d"
  by (simp add: sql_update_none upd_same)

end

interpretation households_t: tenant_table households households_update
  by unfold_locales (simp_all add: foreign_def)

interpretation household_keys_t: tenant_table household_keys household_keys_update
  by unfold_locales (simp_all add: foreign_def)

interpretation people_t: tenant_table people people_update
  by unfold_locales (simp_all add: foreign_def)

interpretation memberships_t: tenant_table memberships memberships_update
  by unfold_locales (simp_all add: foreign_def)

interpretation invitations_t: tenant_table invitations invitations_update
  by unfold_locales (simp_all add: foreign_def)

interpretation grants_t: tenant_table grants grants_update
  by unfold_locales (simp_all add: foreign_def)

interpretation approvals_t: tenant_table approvals approvals_update
  by unfold_locales (simp_all add: foreign_def)

interpretation documents_t: tenant_table documents documents_update
  by unfold_locales (simp_all add: foreign_def)

interpretation document_consents_t: tenant_table document_consents document_consents_update
  by unfold_locales (simp_all add: foreign_def)

interpretation evidence_t: tenant_table evidence evidence_update
  by unfold_locales (simp_all add: foreign_def)

interpretation derivatives_t: tenant_table derivatives derivatives_update
  by unfold_locales (simp_all add: foreign_def)

interpretation facts_t: tenant_table facts facts_update
  by unfold_locales (simp_all add: foreign_def)

interpretation consents_t: tenant_table consents consents_update
  by unfold_locales (simp_all add: foreign_def)

interpretation emergencies_t: tenant_table emergencies emergencies_update
  by unfold_locales (simp_all add: foreign_def)

interpretation reports_t: tenant_table reports reports_update
  by unfold_locales (simp_all add: foreign_def)

interpretation deliveries_t: tenant_table deliveries deliveries_update
  by unfold_locales (simp_all add: foreign_def)

interpretation exports_t: tenant_table exports exports_update
  by unfold_locales (simp_all add: foreign_def)

interpretation workflows_t: tenant_table workflows workflows_update
  by unfold_locales (simp_all add: foreign_def)

interpretation privacy_requests_t: tenant_table privacy_requests privacy_requests_update
  by unfold_locales (simp_all add: foreign_def)

interpretation subscriptions_t: tenant_table subscriptions subscriptions_update
  by unfold_locales (simp_all add: foreign_def)

interpretation refunds_t: tenant_table refunds refunds_update
  by unfold_locales (simp_all add: foreign_def)

interpretation idem_t: tenant_table idem idem_update
  by unfold_locales (simp_all add: foreign_def)

interpretation billing_events_t: tenant_table billing_events billing_events_update
  by unfold_locales (simp_all add: foreign_def)

interpretation processors_t: tenant_table processors processors_update
  by unfold_locales (simp_all add: foreign_def)

interpretation executions_t: tenant_table executions executions_update
  by unfold_locales (simp_all add: foreign_def)

interpretation holds_t: tenant_table holds holds_update
  by unfold_locales (simp_all add: foreign_def)

interpretation audit_t: tenant_table audit audit_update
  by unfold_locales (simp_all add: foreign_def)

lemmas foreign_frames [simp] =
  households_t.foreign_upd household_keys_t.foreign_upd people_t.foreign_upd memberships_t.foreign_upd invitations_t.foreign_upd grants_t.foreign_upd approvals_t.foreign_upd documents_t.foreign_upd document_consents_t.foreign_upd evidence_t.foreign_upd derivatives_t.foreign_upd facts_t.foreign_upd consents_t.foreign_upd emergencies_t.foreign_upd reports_t.foreign_upd deliveries_t.foreign_upd exports_t.foreign_upd workflows_t.foreign_upd privacy_requests_t.foreign_upd subscriptions_t.foreign_upd refunds_t.foreign_upd idem_t.foreign_upd billing_events_t.foreign_upd processors_t.foreign_upd executions_t.foreign_upd holds_t.foreign_upd audit_t.foreign_upd

text \<open>What the policies and the account tables leave of \<open>foreign\<close>.\<close>

lemma foreign_organizations:
  "ss_org s = Some (o_id r) \<Longrightarrow>
     foreign s (d \<lparr> organizations := organizations d @ [r] \<rparr>) = foreign s d"
  by (simp add: foreign_def)

end
