(* ===== verification/Access_Policy.thy ===== *)
theory Access_Policy
  imports Vault_Tenancy
begin

text \<open>
  \<open>packages/auth\<close>: the decision on a request (\<open>policy.ts\<close>), the identity a session resolves to
  (\<open>identity.ts\<close>) and the bounded support approvals (\<open>access.ts\<close>).  The session reader and the
  authorizer callback are parameters; the clock of the database is \<open>db_now\<close>.
\<close>

section \<open>The policy\<close>

record support_approval =
  sp_owner :: string
  sp_reason :: string
  sp_categories :: "record_category list"
  sp_starts :: iso
  sp_expires :: iso
  sp_revoked :: iso

record auth_request =
  ar_role :: role
  ar_grants :: "permission_grant list"
  ar_category :: record_category
  ar_action :: permission_action
  ar_purpose :: string
  ar_now :: iso
  ar_issued :: iso
  ar_mfa :: iso
  ar_support :: "support_approval list"
  ar_release :: "record_category list"

datatype auth_reason = Allow | InvalidPurpose | SessionExpired | MfaRequired | PermissionDenied
  | SupportApprovalRequired | EmergencyReleaseRequired

record auth_decision =
  ad_allowed :: bool
  ad_reason :: auth_reason

definition mfaRoles :: "role list" where
  "mfaRoles = [Owner, CoOwner, SupportAgent, PlatformAdmin]"

definition staffRoles :: "role list" where
  "staffRoles = [SupportAgent, PlatformAdmin]"

definition max_session_age :: "role \<Rightarrow> int" where
  "max_session_age r = (if r \<in> set staffRoles then 15 * 60 * 1000 else 7 * 24 * 60 * 60 * 1000)"

text \<open>\<open>stale now t limit\<close>: the tests on a time read as \<open>t\<close>: not finite, in the future, or too old.\<close>

definition stale :: "int option \<Rightarrow> int option \<Rightarrow> int \<Rightarrow> bool" where
  "stale now t limit = (t = None \<or> num_lt now t \<or> num_lt (Some limit) (num_sub now t))"

definition approval_live :: "int option \<Rightarrow> record_category \<Rightarrow> support_approval \<Rightarrow> bool" where
  "approval_live now category a =
     (let starts = date_parse (sp_starts a); expires = date_parse (sp_expires a) in
      \<not> truthy (sp_revoked a) \<and> trim (sp_reason a) \<noteq> [] \<and> category \<in> set (sp_categories a)
      \<and> starts \<noteq> None \<and> expires \<noteq> None \<and> num_le starts now \<and> num_lt now expires
      \<and> num_le (num_sub expires starts) (Some (4 * 60 * 60 * 1000)))"

definition authorize :: "auth_request \<Rightarrow> auth_decision" where
  "authorize q =
     (let deny = (\<lambda>r. \<lparr> ad_allowed = False, ad_reason = r \<rparr>);
          allow = \<lparr> ad_allowed = True, ad_reason = Allow \<rparr>;
          now = date_parse (ar_now q) in
      if trim (ar_purpose q) = [] then deny InvalidPurpose
      else if now = None \<or> stale now (date_parse (ar_issued q)) (max_session_age (ar_role q))
      then deny SessionExpired
      else if ar_role q \<in> set mfaRoles
              \<and> stale now (if truthy (ar_mfa q) then date_parse (ar_mfa q) else None) (12 * 60 * 60 * 1000)
      then deny MfaRequired
      else if ar_role q = PlatformAdmin then deny PermissionDenied
      else if ar_role q = SupportAgent \<and> \<not> list_ex (approval_live now (ar_category q)) (ar_support q)
      then deny SupportApprovalRequired
      else if ar_role q = EmergencyRecipient \<and> ar_purpose q = ''vault.emergency-access.request''
              \<and> ar_action q = Create
      then allow
      else if ar_role q = EmergencyRecipient \<and> ar_category q \<notin> set (ar_release q)
      then deny EmergencyReleaseRequired
      else if permits (ar_role q) (filter (\<lambda>g. pg_purpose g = ar_purpose q) (ar_grants q))
                (ar_category q) (ar_action q) (ar_now q)
      then allow
      else deny PermissionDenied)"

definition requireAuthorization :: "auth_request \<Rightarrow> unit result" where
  "requireAuthorization q = guard (ad_allowed (authorize q)) (Thrown ''AuthorizationDeniedError'' ''access denied'')"

text \<open>What the policy promises, clause by clause, over real times.\<close>

definition within :: "int \<Rightarrow> int \<Rightarrow> iso \<Rightarrow> bool" where
  "within now limit i \<longleftrightarrow> (\<exists>t. i = At t \<and> t \<le> now \<and> now - t \<le> limit)"

definition may_access :: "int \<Rightarrow> auth_request \<Rightarrow> bool" where
  "may_access n q \<longleftrightarrow>
     trim (ar_purpose q) \<noteq> []
     \<and> within n (max_session_age (ar_role q)) (ar_issued q)
     \<and> (ar_role q \<in> set mfaRoles \<longrightarrow> within n 43200000 (ar_mfa q))
     \<and> ar_role q \<noteq> PlatformAdmin
     \<and> (ar_role q = SupportAgent \<longrightarrow>
          (\<exists>a \<in> set (ar_support q). sp_revoked a = Blank \<and> trim (sp_reason a) \<noteq> []
             \<and> ar_category q \<in> set (sp_categories a)
             \<and> (\<exists>s e. sp_starts a = At s \<and> sp_expires a = At e \<and> s \<le> n \<and> n < e \<and> e - s \<le> 14400000)))
     \<and> ((ar_role q = EmergencyRecipient \<and> ar_purpose q = ''vault.emergency-access.request''
           \<and> ar_action q = Create)
        \<or> ((ar_role q = EmergencyRecipient \<longrightarrow> ar_category q \<in> set (ar_release q))
           \<and> ar_action q \<in> set (roleActions (ar_role q))
           \<and> (ar_role q \<in> {Owner, CoOwner} \<or>
              (\<exists>g \<in> set (ar_grants q). pg_purpose g = ar_purpose q \<and> isGrantActive g (At n)
                 \<and> ar_category q \<in> set (pg_categories g) \<and> ar_action q \<in> set (pg_actions g)))))"

lemma stale_iff: "\<not> stale (Some n) (date_parse i) limit \<longleftrightarrow> within n limit i"
  by (cases i) (auto simp: stale_def within_def)

lemma stale_None [simp]: "stale now None limit"
  by (simp add: stale_def)

lemma stale_opt:
  "\<not> stale (Some n) (if truthy i then date_parse i else None) limit \<longleftrightarrow> within n limit i"
  by (cases i) (auto simp: stale_def within_def)

lemma approval_live_iff:
  "approval_live (Some n) c a \<longleftrightarrow> sp_revoked a = Blank \<and> trim (sp_reason a) \<noteq> []
     \<and> c \<in> set (sp_categories a)
     \<and> (\<exists>s e. sp_starts a = At s \<and> sp_expires a = At e \<and> s \<le> n \<and> n < e \<and> e - s \<le> 14400000)"
  by (cases "sp_revoked a"; cases "sp_starts a"; cases "sp_expires a")
    (auto simp: approval_live_def Let_def)

lemma authorize_no_time: "date_parse (ar_now q) = None \<Longrightarrow> \<not> ad_allowed (authorize q)"
  by (simp add: authorize_def Let_def)

lemma authorize_allowed:
  "ad_allowed (authorize q) \<longleftrightarrow>
     trim (ar_purpose q) \<noteq> []
     \<and> \<not> (date_parse (ar_now q) = None
          \<or> stale (date_parse (ar_now q)) (date_parse (ar_issued q)) (max_session_age (ar_role q)))
     \<and> \<not> (ar_role q \<in> set mfaRoles \<and> stale (date_parse (ar_now q))
            (if truthy (ar_mfa q) then date_parse (ar_mfa q) else None) (12 * 60 * 60 * 1000))
     \<and> ar_role q \<noteq> PlatformAdmin
     \<and> (ar_role q = SupportAgent \<longrightarrow>
          list_ex (approval_live (date_parse (ar_now q)) (ar_category q)) (ar_support q))
     \<and> ((ar_role q = EmergencyRecipient \<and> ar_purpose q = ''vault.emergency-access.request''
            \<and> ar_action q = Create)
        \<or> ((ar_role q = EmergencyRecipient \<longrightarrow> ar_category q \<in> set (ar_release q))
           \<and> permits (ar_role q) (filter (\<lambda>g. pg_purpose g = ar_purpose q) (ar_grants q))
                (ar_category q) (ar_action q) (ar_now q)))"
  unfolding authorize_def Let_def by (simp only: if_distrib [of ad_allowed] auth_decision.simps) argo

lemma authorize_At:
  assumes "ar_now q = At n"
  shows "ad_allowed (authorize q) \<longleftrightarrow> may_access n q"
proof -
  have now: "date_parse (ar_now q) = Some n" using assms by simp
  have issued: "(\<not> (date_parse (ar_now q) = None
        \<or> stale (date_parse (ar_now q)) (date_parse (ar_issued q)) (max_session_age (ar_role q))))
      = within n (max_session_age (ar_role q)) (ar_issued q)"
    by (simp add: now stale_iff)
  have mfa: "(\<not> (ar_role q \<in> set mfaRoles \<and> stale (date_parse (ar_now q))
        (if truthy (ar_mfa q) then date_parse (ar_mfa q) else None) (12 * 60 * 60 * 1000)))
      = (ar_role q \<in> set mfaRoles \<longrightarrow> within n 43200000 (ar_mfa q))"
    unfolding now using stale_opt [of n "ar_mfa q" 43200000] by auto
  have live: "list_ex (approval_live (date_parse (ar_now q)) (ar_category q)) (ar_support q)
      \<longleftrightarrow> (\<exists>a \<in> set (ar_support q). approval_live (Some n) (ar_category q) a)"
    unfolding now by (simp add: list_ex_iff)
  have perm: "permits (ar_role q) (filter (\<lambda>g. pg_purpose g = ar_purpose q) (ar_grants q))
        (ar_category q) (ar_action q) (ar_now q)
      \<longleftrightarrow> ar_action q \<in> set (roleActions (ar_role q)) \<and> (ar_role q \<in> {Owner, CoOwner} \<or>
              (\<exists>g \<in> set (ar_grants q). pg_purpose g = ar_purpose q \<and> isGrantActive g (At n)
                 \<and> ar_category q \<in> set (pg_categories g) \<and> ar_action q \<in> set (pg_actions g)))"
    unfolding permits_iff assms by auto
  show ?thesis
    unfolding authorize_allowed may_access_def issued mfa live approval_live_iff perm by (rule refl)
qed


section \<open>Identities\<close>

record tenant_identity =
  ti_org :: string
  ti_hh :: string
  ti_actor :: string
  ti_membership :: string
  ti_role :: role
  ti_grants :: "permission_grant list"
  ti_support :: "support_approval list"
  ti_release :: "record_category list"
  ti_issued :: iso
  ti_mfa :: iso

fun role_name :: "role \<Rightarrow> string" where
  "role_name Owner = ''Owner''"
| "role_name CoOwner = ''CoOwner''"
| "role_name Editor = ''Editor''"
| "role_name FamilyHelper = ''FamilyHelper''"
| "role_name ProfessionalAdvisor = ''ProfessionalAdvisor''"
| "role_name ReadOnlyViewer = ''ReadOnlyViewer''"
| "role_name EmergencyRecipient = ''EmergencyRecipient''"
| "role_name SupportAgent = ''SupportAgent''"
| "role_name PlatformAdmin = ''PlatformAdmin''"

definition all_roles :: "role list" where
  "all_roles = [Owner, CoOwner, Editor, FamilyHelper, ProfessionalAdvisor, ReadOnlyViewer,
     EmergencyRecipient, SupportAgent, PlatformAdmin]"

fun action_name :: "permission_action \<Rightarrow> string" where
  "action_name Read = ''read''"
| "action_name Create = ''create''"
| "action_name Update = ''update''"
| "action_name Delete = ''delete''"
| "action_name Export = ''export''"
| "action_name Approve = ''approve''"

definition all_actions :: "permission_action list" where
  "all_actions = [Read, Create, Update, Delete, Export, Approve]"

abbreviation auth_required :: "string \<Rightarrow> err" where
  "auth_required m \<equiv> Thrown ''AuthenticationRequiredError'' m"

abbreviation selection_required :: "string \<Rightarrow> err" where
  "selection_required m \<equiv> Thrown ''HouseholdSelectionRequiredError'' m"

text \<open>A stored array is accepted when every item is one of the allowed texts.\<close>

fun enum_item :: "('a \<Rightarrow> string) \<Rightarrow> 'a list \<Rightarrow> string \<Rightarrow> json \<Rightarrow> 'a result" where
  "enum_item name allowed field (JStr s) = (case find (\<lambda>x. name x = s) allowed of
      Some x \<Rightarrow> Inr x | None \<Rightarrow> Inl (auth_required (''invalid '' @ field)))"
| "enum_item name allowed field _ = Inl (auth_required (''invalid '' @ field))"

fun enumArray :: "('a \<Rightarrow> string) \<Rightarrow> 'a list \<Rightarrow> string \<Rightarrow> json \<Rightarrow> 'a list result" where
  "enumArray name allowed field (JArr items) = res_map (enum_item name allowed field) items"
| "enumArray name allowed field _ = Inl (auth_required (''invalid '' @ field))"

fun opt_iso :: "int option \<Rightarrow> iso" where
  "opt_iso None = Blank"
| "opt_iso (Some t) = At t"

definition read_grant :: "grant_row \<Rightarrow> permission_grant result" where
  "read_grant r =
     res_bind (enumArray category_name allRecordCategories ''grant categories'' (g_categories r)) (\<lambda>cs.
     res_bind (enumArray action_name all_actions ''grant actions'' (g_actions r)) (\<lambda>acts.
     Inr \<lparr> ent_id = row_id r, ent_org = row_org r, ent_hh = row_hh r, ent_version = row_version r,
       pg_membership = g_membership r, pg_categories = cs, pg_actions = acts, pg_purpose = g_purpose r,
       pg_starts = At (g_starts r), pg_expires = opt_iso (g_expires r), pg_revoked = opt_iso (g_revoked r) \<rparr>))"

definition read_approval :: "approval_row \<Rightarrow> support_approval result" where
  "read_approval r =
     res_bind (enumArray category_name allRecordCategories ''support approval categories'' (sa_categories r)) (\<lambda>cs.
     Inr \<lparr> sp_owner = sa_approved_by r, sp_reason = sa_reason r, sp_categories = cs,
       sp_starts = At (sa_starts r), sp_expires = At (sa_expires r), sp_revoked = opt_iso (sa_revoked r) \<rparr>)"

text \<open>The rows \<open>resolve\<close> reads, once the membership's tenant is set.\<close>

definition grant_rows :: "session \<Rightarrow> db \<Rightarrow> string \<Rightarrow> grant_row list" where
  "grant_rows s d m = order_by g_starts (order_by row_id
     (sql_select s (\<lambda>r. g_membership r = m) (grants d)))"

definition support_rows :: "session \<Rightarrow> db \<Rightarrow> int \<Rightarrow> string \<Rightarrow> approval_row list" where
  "support_rows s d db_now m = order_by sa_expires (order_by row_id
     (sql_select s (\<lambda>r. sa_membership r = m \<and> sa_revoked r = None \<and> sa_starts r \<le> db_now
        \<and> db_now < sa_expires r) (approvals d)))"

definition release_rows :: "session \<Rightarrow> db \<Rightarrow> int \<Rightarrow> string \<Rightarrow> emergency_row list" where
  "release_rows s d db_now m = order_by (\<lambda>r. the (er_release_at r)) (order_by row_id
     (sql_select s (\<lambda>r. er_recipient_membership r = m \<and> er_row_status r = ''released''
        \<and> (case er_release_at r of Some t \<Rightarrow> t \<le> db_now | None \<Rightarrow> False)) (emergencies d)))"

text \<open>
  \<open>MembershipIdentityStore.resolve\<close>; the times of the session are filled in by the caller.  An
  empty household identifier is not a \<open>uuid\<close>: the cast in the query fails.
\<close>

definition resolve_membership ::
  "string \<Rightarrow> string option \<Rightarrow> int \<Rightarrow> db \<Rightarrow> tenant_identity result" where
  "resolve_membership user requested db_now d =
     (let s0 = account_session user;
          rows = take 2 (order_by row_id (filter (\<lambda>m. membership_visible s0 m \<and> m_active m = 1
              \<and> (requested = None \<or> requested = Some (row_hh m)) \<and> m_auth_user m = Some user) (memberships d)))
      in if requested = Some [] then Inl (PgError ''22P02'')
      else case rows of [] \<Rightarrow> Inl (auth_required ''membership unavailable'')
       | row # others \<Rightarrow>
      if requested = None \<and> others \<noteq> [] then Inl (selection_required ''household selection required'')
      else case find (\<lambda>r. role_name r = m_role row) all_roles of
        None \<Rightarrow> Inl (auth_required ''membership role invalid'')
      | Some rl \<Rightarrow>
      (let s = s0 \<lparr> ss_org := Some (row_org row), ss_hh := Some (row_hh row) \<rparr> in
       res_bind (res_map read_grant (grant_rows s d (row_id row))) (\<lambda>gs.
       res_bind (res_map read_approval
         (if rl = SupportAgent then support_rows s d db_now (row_id row) else [])) (\<lambda>sas.
       res_bind (res_map (\<lambda>r. enumArray category_name allRecordCategories ''emergency release categories''
           (er_category_json r))
         (if rl = EmergencyRecipient then release_rows s d db_now (row_id row) else [])) (\<lambda>rel.
       Inr \<lparr> ti_org = row_org row, ti_hh = row_hh row, ti_actor = m_person row,
         ti_membership = row_id row, ti_role = rl, ti_grants = gs, ti_support = sas,
         ti_release = rev (remdups (rev (concat rel))), ti_issued = Blank, ti_mfa = Blank \<rparr>)))))"

definition requireIdentityAuthorization ::
  "tenant_identity \<Rightarrow> record_category \<Rightarrow> permission_action \<Rightarrow> string \<Rightarrow> iso option \<Rightarrow> int \<Rightarrow> unit result" where
  "requireIdentityAuthorization idn category action purpose now_opt clock =
     requireAuthorization \<lparr> ar_role = ti_role idn, ar_grants = ti_grants idn, ar_category = category,
       ar_action = action, ar_purpose = purpose,
       ar_now = (case now_opt of Some n \<Rightarrow> n | None \<Rightarrow> At clock),
       ar_issued = ti_issued idn, ar_mfa = ti_mfa idn,
       ar_support = ti_support idn, ar_release = ti_release idn \<rparr>"

record auth_session =
  as_user :: string
  as_email :: "string option"
  as_email_verified :: bool
  as_two_factor :: bool
  as_created :: iso

datatype header = NoHeader | OneHeader string | ManyHeaders "string list"

definition uuid_pattern :: re where
  "uuid_pattern = (let hex = nocase hex_digit in whole (seqs
     [times 8 hex, lit ''-'', times 4 hex, lit ''-'', Cls (crange CHR ''1'' CHR ''8''), times 3 hex,
      lit ''-'', Cls (nocase (one_of ''89ab'')), times 3 hex, lit ''-'', times 12 hex]))"

text \<open>\<open>new Date(x).toISOString()\<close> throws on an invalid date.\<close>

definition to_iso_string :: "iso \<Rightarrow> iso result" where
  "to_iso_string i = (case date_parse i of
      Some t \<Rightarrow> (case time_clip t of Some t' \<Rightarrow> Inr (At t') | None \<Rightarrow> Inl (Thrown ''RangeError'' ''Invalid time value''))
    | None \<Rightarrow> Inl (Thrown ''RangeError'' ''Invalid time value''))"

definition resolveRequestAccount :: "auth_session option \<Rightarrow> (string \<times> string) result" where
  "resolveRequestAccount sess = (case sess of
      None \<Rightarrow> Inl (auth_required ''authentication required'')
    | Some u \<Rightarrow> (case as_email u of
        Some e \<Rightarrow> if as_email_verified u \<and> \<not> length e < 3 then Inr (as_user u, e)
                  else Inl (auth_required ''verified email required'')
      | None \<Rightarrow> Inl (auth_required ''verified email required'')))"

definition resolveRequestIdentity ::
  "auth_session option \<Rightarrow> header \<Rightarrow> int \<Rightarrow> db \<Rightarrow> tenant_identity result" where
  "resolveRequestIdentity sess selected db_now d = (case sess of
      None \<Rightarrow> Inl (auth_required ''authentication required'')
    | Some u \<Rightarrow>
      (let go = (\<lambda>requested.
         res_bind (resolve_membership (as_user u) requested db_now d) (\<lambda>idn.
         res_bind (to_iso_string (as_created u)) (\<lambda>issued.
         Inr (idn \<lparr> ti_issued := issued, ti_mfa := (if as_two_factor u then issued else Blank) \<rparr>))))
       in case selected of
           NoHeader \<Rightarrow> go None
         | ManyHeaders _ \<Rightarrow> Inl (selection_required ''household selection invalid'')
         | OneHeader h \<Rightarrow> if h \<noteq> [] \<and> \<not> re_test uuid_pattern h
             then Inl (selection_required ''household selection invalid'') else go (Some h)))"

section \<open>What an identity is made of\<close>


lemma enum_item_Inr: "enum_item name allowed field v = Inr x \<Longrightarrow> v = JStr (name x)"
  by (cases v) (auto simp: find_Some_iff split: option.splits)

lemma enumArray_Inr:
  assumes "enumArray name allowed field v = Inr xs" and "x \<in> set xs"
  shows "\<exists>items. v = JArr items \<and> JStr (name x) \<in> set items"
proof -
  from assms(1) obtain items where v: "v = JArr items" and m: "res_map (enum_item name allowed field) items = Inr xs"
    by (cases v) auto
  from res_map_in [OF m assms(2)] v show ?thesis by (auto dest: enum_item_Inr)
qed

text \<open>The text of a category occurs in a stored array.\<close>

definition names_category :: "json \<Rightarrow> record_category \<Rightarrow> bool" where
  "names_category v c \<longleftrightarrow> (\<exists>items. v = JArr items \<and> JStr (category_name c) \<in> set items)"

lemma resolve_membership_Inr:
  assumes "resolve_membership user requested db_now d = Inr idn"
  obtains row s where
    "row \<in> set (memberships d)" "m_active row = 1" "m_auth_user row = Some user"
    "requested = None \<or> requested = Some (row_hh row)"
    "ti_membership idn = row_id row" "ti_org idn = row_org row" "ti_hh idn = row_hh row"
    "role_name (ti_role idn) = m_role row"
    "s = account_session user \<lparr> ss_org := Some (row_org row), ss_hh := Some (row_hh row) \<rparr>"
    "res_map read_approval
       (if ti_role idn = SupportAgent then support_rows s d db_now (row_id row) else []) = Inr (ti_support idn)"
    "\<exists>rel. res_map (\<lambda>r. enumArray category_name allRecordCategories ''emergency release categories''
           (er_category_json r))
         (if ti_role idn = EmergencyRecipient then release_rows s d db_now (row_id row) else []) = Inr rel
       \<and> set (ti_release idn) = set (concat rel)"
    "res_map read_grant (grant_rows s d (row_id row)) = Inr (ti_grants idn)"
proof -
  let ?rows = "take 2 (order_by row_id (filter (\<lambda>m. membership_visible (account_session user) m \<and> m_active m = 1
              \<and> (requested = None \<or> requested = Some (row_hh m)) \<and> m_auth_user m = Some user) (memberships d)))"
  from assms obtain row more where rows: "?rows = row # more"
    by (cases ?rows) (auto simp: resolve_membership_def Let_def split: if_splits)
  have "row \<in> set ?rows" using rows by simp
  then have "row \<in> set (order_by row_id (filter (\<lambda>m. membership_visible (account_session user) m \<and> m_active m = 1
              \<and> (requested = None \<or> requested = Some (row_hh m)) \<and> m_auth_user m = Some user) (memberships d)))"
    by (rule in_set_takeD)
  then have row: "row \<in> set (memberships d)" "m_active row = 1" "m_auth_user row = Some user"
    "requested = None \<or> requested = Some (row_hh row)" by auto
  show thesis
    by (rule that [OF row])
      (use assms in \<open>auto simp: resolve_membership_def Let_def rows find_Some_iff
        simp del: res_map.simps take_Suc_Cons split: if_splits option.splits\<close>)
qed

lemma read_approval_Inr:
  "read_approval r = Inr a \<Longrightarrow> sp_starts a = At (sa_starts r) \<and> sp_expires a = At (sa_expires r)
     \<and> sp_owner a = sa_approved_by r
     \<and> (\<forall>c \<in> set (sp_categories a). names_category (sa_categories r) c)"
  by (auto simp: read_approval_def names_category_def dest: enumArray_Inr)

section \<open>Support approvals\<close>

record support_input =
  si_membership :: string
  si_reason :: string
  si_categories :: "record_category list"
  si_starts :: iso
  si_expires :: iso

text \<open>The authorizer callback gets the category as the text the caller holds.\<close>

type_synonym authorizer = "tenant_identity \<Rightarrow> string \<Rightarrow> permission_action \<Rightarrow> string \<Rightarrow> unit result"

abbreviation approval_error :: "string \<Rightarrow> err" where
  "approval_error m \<equiv> Thrown ''AccessApprovalValidationError'' m"

definition reason_pattern :: re where
  "reason_pattern = whole (seqs [Cls alnum, Rep (Cls (cor alnum (one_of ''._:-''))) 2 (Some 119)])"

definition categories_json :: "record_category list \<Rightarrow> json" where
  "categories_json cs = JArr (map (\<lambda>c. JStr (category_name c)) cs)"

fun for_each :: "('a \<Rightarrow> unit result) \<Rightarrow> 'a list \<Rightarrow> unit result" where
  "for_each f [] = Inr ()"
| "for_each f (x # xs) = (case f x of Inl e \<Rightarrow> Inl e | Inr _ \<Rightarrow> for_each f xs)"

definition identity_context :: "tenant_identity \<Rightarrow> tenant_context" where
  "identity_context idn = \<lparr> tc_org = ti_org idn, tc_hh = ti_hh idn, tc_actor = ti_actor idn \<rparr>"

definition approval_period_ok :: "int option \<Rightarrow> int option \<Rightarrow> bool" where
  "approval_period_ok starts expires = (starts \<noteq> None \<and> expires \<noteq> None
     \<and> \<not> num_le expires starts \<and> \<not> num_lt (Some (4 * 60 * 60 * 1000)) (num_sub expires starts))"

definition approveSupportAccess ::
  "authorizer \<Rightarrow> tenant_identity \<Rightarrow> support_input \<Rightarrow> string \<Rightarrow> db \<Rightarrow> (string \<times> int) result \<times> db" where
  "approveSupportAccess authz owner input fresh_id d =
     (let starts = date_parse (si_starts input); expires = date_parse (si_expires input) in
      if \<not> re_test reason_pattern (si_reason input)
      then (Inl (approval_error ''reason code is invalid''), d)
      else if si_categories input = [] \<or> \<not> distinct (si_categories input)
      then (Inl (approval_error ''categories are invalid''), d)
      else if \<not> approval_period_ok starts expires
      then (Inl (approval_error ''approval period is invalid''), d)
      else case for_each (\<lambda>c. authz owner (category_name c) Approve ''vault.support-access.approve'')
                  (si_categories input) of
        Inl e \<Rightarrow> (Inl e, d)
      | Inr _ \<Rightarrow> withTenant (identity_context owner) (\<lambda>s d.
          case sql_select s (\<lambda>m. row_id m = si_membership input) (memberships d) of
            [] \<Rightarrow> Inl (approval_error ''support membership is unavailable'')
          | m # _ \<Rightarrow>
            if m_role m \<noteq> ''SupportAgent'' \<or> m_active m \<noteq> 1
            then Inl (approval_error ''support membership is unavailable'')
            else res_bind (sql_insert s same_id \<lparr> row_org = ti_org owner, row_hh = ti_hh owner,
                row_id = fresh_id, row_version = 1, sa_membership = si_membership input,
                sa_approved_by = ti_actor owner, sa_reason = si_reason input,
                sa_categories = categories_json (si_categories input),
                sa_starts = the starts, sa_expires = the expires, sa_revoked = None \<rparr> (approvals d))
              (\<lambda>t. Inr ((fresh_id, 1), d \<lparr> approvals := t \<rparr>))) d)"

definition revokeSupportAccess ::
  "authorizer \<Rightarrow> tenant_identity \<Rightarrow> string \<Rightarrow> int \<Rightarrow> int \<Rightarrow> db \<Rightarrow> (string \<times> int \<times> int) result \<times> db" where
  "revokeSupportAccess authz owner approval_id expected_version db_now d =
     withTenant (identity_context owner) (\<lambda>s d.
       case sql_select s (\<lambda>a. row_id a = approval_id \<and> sa_revoked a = None) (approvals d) of
         [] \<Rightarrow> Inl (approval_error ''approval is unavailable'')
       | a # _ \<Rightarrow> (case sa_categories a of
           JArr items \<Rightarrow>
             if \<not> list_all (\<lambda>v. case v of JStr _ \<Rightarrow> True | _ \<Rightarrow> False) items
             then Inl (approval_error ''approval is unavailable'')
             else (case for_each (\<lambda>v. case v of JStr c \<Rightarrow> authz owner c Approve ''vault.support-access.revoke''
                      | _ \<Rightarrow> Inr ()) items of
               Inl e \<Rightarrow> Inl e
             | Inr _ \<Rightarrow>
               (let p = (\<lambda>a. row_id a = approval_id \<and> row_version a = expected_version \<and> sa_revoked a = None);
                    f = (\<lambda>a. a \<lparr> sa_revoked := Some db_now, row_version := row_version a + 1 \<rparr>)
                in case sql_select s p (approvals d) of
                     [] \<Rightarrow> Inl (approval_error ''approval revocation conflict or unavailable'')
                   | a # _ \<Rightarrow> Inr ((row_id a, row_version a + 1, db_now),
                       d \<lparr> approvals := sql_update s p f (approvals d) \<rparr>)))
         | _ \<Rightarrow> Inl (approval_error ''approval is unavailable''))) d"

text \<open>The checks the table states on every approval (\<open>0007\<close>), over its stored values.\<close>

definition approval_row_ok :: "approval_row \<Rightarrow> bool" where
  "approval_row_ok a \<longleftrightarrow> 0 < row_version a \<and> 3 \<le> length (sa_reason a) \<and> length (sa_reason a) \<le> 120
     \<and> sa_starts a < sa_expires a \<and> sa_expires a \<le> sa_starts a + 14400000"

lemma approval_period_iff:
  "approval_period_ok s e \<longleftrightarrow> (\<exists>a b. s = Some a \<and> e = Some b \<and> a < b \<and> b - a \<le> 14400000)"
  by (cases s; cases e) (auto simp: approval_period_ok_def)

lemma reason_length:
  assumes "re_test reason_pattern r"
  shows "3 \<le> length r \<and> length r \<le> 120"
proof -
  from assms obtain st0 st where st0: "st0 \<in> set (step_cls alnum (None, r))"
    and st: "st \<in> set (re_match (Rep (Cls (cor alnum (one_of ''._:-''))) 2 (Some 119)) st0)"
    and "snd st = []"
    by (auto simp: reason_pattern_def re_test_whole seqs_def simp del: re_match.simps(5))
  from re_match_class_run [OF st] step_cls_in [OF st0] \<open>snd st = []\<close> show ?thesis by auto
qed

lemma for_each_Inr: "for_each f xs = Inr u \<longleftrightarrow> (\<forall>x \<in> set xs. f x = Inr ())"
  by (induction xs) (auto split: sum.splits)

lemma identity_context_simps [simp]:
  "tc_org (identity_context o1) = ti_org o1" "tc_hh (identity_context o1) = ti_hh o1"
  "tc_actor (identity_context o1) = ti_actor o1"
  by (simp_all add: identity_context_def)

lemma names_categories_json [simp]: "names_category (categories_json cs) c \<longleftrightarrow> c \<in> set cs"
  by (auto simp: names_category_def categories_json_def)

text \<open>A stored support approval was authorized and is bounded: when \<open>approveSupportAccess\<close>
  returns, the owner was authorized to approve for every category of the input, exactly one row
  was added, to the owner's own tenant, it satisfies every check of the table (a reason of 3 to
  120 characters, a positive duration of at most four hours), it is for an active support agent
  of the same household and names exactly the input's categories, and no other tenant's rows
  changed; when it throws, nothing changed.\<close>

theorem approveSupportAccess_bounded:
  "case approveSupportAccess authz owner input fresh_id d of
     (Inr (i, v), d') \<Rightarrow>
       i = fresh_id \<and> v = 1 \<and> (\<forall>c \<in> set (si_categories input).
          authz owner (category_name c) Approve ''vault.support-access.approve'' = Inr ())
       \<and> (\<exists>a. d' = d \<lparr> approvals := approvals d @ [a] \<rparr> \<and> approval_row_ok a
            \<and> row_org a = ti_org owner \<and> row_hh a = ti_hh owner \<and> sa_revoked a = None
            \<and> sa_approved_by a = ti_actor owner
            \<and> {c. names_category (sa_categories a) c} = set (si_categories input)
            \<and> (\<exists>m \<in> set (memberships d). row_id m = sa_membership a \<and> row_hh m = row_hh a
                 \<and> row_org m = row_org a \<and> m_role m = ''SupportAgent'' \<and> m_active m = 1))
       \<and> foreign (tenant_session (identity_context owner)) d'
         = foreign (tenant_session (identity_context owner)) d
   | (Inl e, d') \<Rightarrow> d' = d"
proof (cases "approveSupportAccess authz owner input fresh_id d")
  case (Pair r d')
  show ?thesis
  proof (cases r)
    case (Inl e)
    with Pair show ?thesis
      by (auto simp: approveSupportAccess_def Let_def withTenant_def transaction_def
          split: if_splits sum.splits prod.splits)
  next
    case (Inr iv)
    from Pair Inr have res: "approveSupportAccess authz owner input fresh_id d = (Inr iv, d')" by simp
    from res obtain m ms where
      reason: "re_test reason_pattern (si_reason input)"
      and period: "approval_period_ok (date_parse (si_starts input)) (date_parse (si_expires input))"
      and auth: "\<forall>c \<in> set (si_categories input).
          authz owner (category_name c) Approve ''vault.support-access.approve'' = Inr ()"
      and m: "sql_select (tenant_session (identity_context owner))
          (\<lambda>m. row_id m = si_membership input) (memberships d) = m # ms"
        "m_role m = ''SupportAgent''" "m_active m = 1"
      and ins: "iv = (fresh_id, 1)" "d' = d \<lparr> approvals := approvals d @ [\<lparr> row_org = ti_org owner,
          row_hh = ti_hh owner, row_id = fresh_id, row_version = 1, sa_membership = si_membership input,
          sa_approved_by = ti_actor owner, sa_reason = si_reason input,
          sa_categories = categories_json (si_categories input),
          sa_starts = the (date_parse (si_starts input)),
          sa_expires = the (date_parse (si_expires input)), sa_revoked = None \<rparr>] \<rparr>"
      by (auto simp: approveSupportAccess_def Let_def withTenant_def sql_insert_Inr for_each_Inr
          split: if_splits sum.splits list.splits)
    from sql_select_hd [OF m(1)] have "m \<in> set (memberships d)" "row_id m = si_membership input"
      "row_org m = ti_org owner" "row_hh m = ti_hh owner" by auto
    with m(2,3) have "\<exists>m \<in> set (memberships d). row_id m = si_membership input \<and> row_hh m = ti_hh owner
        \<and> row_org m = ti_org owner \<and> m_role m = ''SupportAgent'' \<and> m_active m = 1" by blast
    moreover from reason_length [OF reason] period
    have "3 \<le> length (si_reason input) \<and> length (si_reason input) \<le> 120
       \<and> the (date_parse (si_starts input)) < the (date_parse (si_expires input))
       \<and> the (date_parse (si_expires input)) \<le> the (date_parse (si_starts input)) + 14400000"
      by (auto simp: approval_period_iff)
    ultimately have "\<exists>a. d' = d \<lparr> approvals := approvals d @ [a] \<rparr> \<and> approval_row_ok a
        \<and> row_org a = ti_org owner \<and> row_hh a = ti_hh owner \<and> sa_revoked a = None
        \<and> sa_approved_by a = ti_actor owner
        \<and> {c. names_category (sa_categories a) c} = set (si_categories input)
        \<and> (\<exists>m \<in> set (memberships d). row_id m = sa_membership a \<and> row_hh m = row_hh a
             \<and> row_org m = row_org a \<and> m_role m = ''SupportAgent'' \<and> m_active m = 1)"
      unfolding ins by - (intro exI conjI, rule refl, simp_all add: approval_row_ok_def)
    with auth show ?thesis unfolding res ins(1) by (simp add: ins(2))
  qed
qed

lemma resolveRequestIdentity_Inr:
  assumes "resolveRequestIdentity sess selected db_now d = Inr idn"
  obtains u requested idn0 issued where "sess = Some u"
    "resolve_membership (as_user u) requested db_now d = Inr idn0"
    "idn = idn0 \<lparr> ti_issued := issued, ti_mfa := (if as_two_factor u then issued else Blank) \<rparr>"
    "to_iso_string (as_created u) = Inr issued"
proof -
  from assms obtain u where u: "sess = Some u"
    by (cases sess) (auto simp: resolveRequestIdentity_def)
  with assms obtain requested where "res_bind (resolve_membership (as_user u) requested db_now d) (\<lambda>idn.
      res_bind (to_iso_string (as_created u)) (\<lambda>issued.
      Inr (idn \<lparr> ti_issued := issued, ti_mfa := (if as_two_factor u then issued else Blank) \<rparr>))) = Inr idn"
    by (cases selected) (auto simp: resolveRequestIdentity_def Let_def simp del: res_bind_eq_Inr
        split: if_splits)
  then obtain idn0 issued where "resolve_membership (as_user u) requested db_now d = Inr idn0"
    "to_iso_string (as_created u) = Inr issued"
    "idn = idn0 \<lparr> ti_issued := issued, ti_mfa := (if as_two_factor u then issued else Blank) \<rparr>"
    by (simp only: res_bind_eq_Inr sum.inject) blast
  with u that show thesis by blast
qed

text \<open>C14: Support staff reach a household only through a live approval by an owner: when a request
  whose session resolves to a support agent is authorized, the database holds an unrevoked
  approval for that membership in that household, naming the category, running at the time of
  the request and (by the table's checks) lasting at most four hours, the session is at most
  fifteen minutes old with a verified second factor, and the action is reading.\<close>

theorem support_access_needs_approval:
  assumes "resolveRequestIdentity sess selected db_now d = Inr idn" and "ti_role idn = SupportAgent"
    and "requireIdentityAuthorization idn c action purpose (Some (At n)) clock = Inr ()"
  shows "action = Read \<and> (\<exists>t. ti_issued idn = At t \<and> t \<le> n \<and> n - t \<le> 900000 \<and> ti_mfa idn = At t)
    \<and> (\<exists>a \<in> set (approvals d). sa_membership a = ti_membership idn \<and> row_org a = ti_org idn
         \<and> row_hh a = ti_hh idn \<and> sa_revoked a = None \<and> names_category (sa_categories a) c
         \<and> sa_starts a \<le> n \<and> n < sa_expires a \<and> sa_expires a - sa_starts a \<le> 14400000)"
proof -
  from assms(1) obtain u :: auth_session and requested idn0 issued where
    idn0: "resolve_membership (as_user u) requested db_now d = Inr idn0"
    and idn: "idn = idn0 \<lparr> ti_issued := issued, ti_mfa := (if as_two_factor u then issued else Blank) \<rparr>"
    by (rule resolveRequestIdentity_Inr) blast
  from idn0 obtain row :: membership_row and s :: session where ids: "ti_membership idn0 = row_id row" "ti_org idn0 = row_org row"
      "ti_hh idn0 = row_hh row"
    and s: "s = account_session (as_user u) \<lparr> ss_org := Some (row_org row), ss_hh := Some (row_hh row) \<rparr>"
    and sup: "res_map read_approval (if ti_role idn0 = SupportAgent
        then support_rows s d db_now (row_id row) else []) = Inr (ti_support idn0)"
    by (rule resolve_membership_Inr) blast
  from assms(3) have may: "may_access n \<lparr> ar_role = ti_role idn, ar_grants = ti_grants idn,
      ar_category = c, ar_action = action, ar_purpose = purpose, ar_now = At n,
      ar_issued = ti_issued idn, ar_mfa = ti_mfa idn, ar_support = ti_support idn,
      ar_release = ti_release idn \<rparr>" (is "may_access n ?q")
    by (simp add: requireIdentityAuthorization_def requireAuthorization_def authorize_At)
  from may assms(2) have read: "action = Read"
    by (simp add: may_access_def)
  from may assms(2) have issued: "within n 900000 (ti_issued idn)" "within n 43200000 (ti_mfa idn)"
    by (simp_all add: may_access_def max_session_age_def staffRoles_def mfaRoles_def)
  from may assms(2) obtain a where a: "a \<in> set (ti_support idn0)" "c \<in> set (sp_categories a)"
    and per: "\<exists>s e. sp_starts a = At s \<and> sp_expires a = At e \<and> s \<le> n \<and> n < e \<and> e - s \<le> 14400000"
    using idn by (auto simp: may_access_def)
  from assms(2) idn have "ti_role idn0 = SupportAgent" by auto
  with res_map_in [OF sup a(1)] obtain r where r: "r \<in> set (support_rows s d db_now (row_id row))"
    "read_approval r = Inr a" by auto
  from r(1) s have "r \<in> set (approvals d)" "sa_membership r = row_id row" "sa_revoked r = None"
    "row_org r = row_org row" "row_hh r = row_hh row"
    by (auto simp: support_rows_def tenant_visible_def)
  moreover from read_approval_Inr [OF r(2)] a(2) per
  have "names_category (sa_categories r) c" "sa_starts r \<le> n" "n < sa_expires r"
    "sa_expires r - sa_starts r \<le> 14400000" by auto
  moreover from issued idn have "\<exists>t. ti_issued idn = At t \<and> t \<le> n \<and> n - t \<le> 900000 \<and> ti_mfa idn = At t"
    by (auto simp: within_def split: if_splits)
  ultimately show ?thesis using read ids idn by (intro conjI) auto
qed

abbreviation support_db :: db where
  "support_db \<equiv> empty_db \<lparr> memberships := [\<lparr> row_org = ''o'', row_hh = ''h'', row_id = ''m'',
        row_version = 1, m_person = ''p'', m_role = ''SupportAgent'', m_auth_user = Some ''u'', m_active = 1 \<rparr>],
      approvals := [\<lparr> row_org = ''o'', row_hh = ''h'', row_id = ''a'', row_version = 1,
        sa_membership = ''m'', sa_approved_by = ''own'', sa_reason = ''case-1'',
        sa_categories = JArr [JStr ''contacts''], sa_starts = 0, sa_expires = 1000, sa_revoked = None \<rparr>],
      grants := [\<lparr> row_org = ''o'', row_hh = ''h'', row_id = ''g'', row_version = 1, g_membership = ''m'',
        g_categories = JArr [JStr ''contacts''], g_actions = JArr [JStr ''read''], g_purpose = ''support'',
        g_starts = 0, g_expires = None, g_revoked = None \<rparr>] \<rparr>"

abbreviation support_session :: "auth_session option" where
  "support_session \<equiv> Some \<lparr> as_user = ''u'', as_email = Some ''a@b'', as_email_verified = True,
     as_two_factor = True, as_created = At 10 \<rparr>"

definition support_identity :: tenant_identity where
  "support_identity = \<lparr> ti_org = ''o'', ti_hh = ''h'', ti_actor = ''p'', ti_membership = ''m'',
     ti_role = SupportAgent,
     ti_grants = [\<lparr> ent_id = ''g'', ent_org = ''o'', ent_hh = ''h'', ent_version = 1,
       pg_membership = ''m'', pg_categories = [Contacts], pg_actions = [Read], pg_purpose = ''support'',
       pg_starts = At 0, pg_expires = Blank, pg_revoked = Blank \<rparr>],
     ti_support = [\<lparr> sp_owner = ''own'', sp_reason = ''case-1'', sp_categories = [Contacts],
       sp_starts = At 0, sp_expires = At 1000, sp_revoked = Blank \<rparr>],
     ti_release = [], ti_issued = At 10, ti_mfa = At 10 \<rparr>"

lemma support_resolves:
  "resolveRequestIdentity support_session NoHeader 20 support_db = Inr support_identity"
  by (simp add: resolveRequestIdentity_def resolve_membership_def Let_def order_by_def
      membership_visible_def account_session_def empty_db_def all_roles_def grant_rows_def
      support_rows_def sql_select_def tenant_visible_def read_grant_def read_approval_def
      allRecordCategories_def all_actions_def to_iso_string_def time_clip_def support_identity_def)

lemma support_allowed:
  "requireIdentityAuthorization support_identity Contacts Read ''support'' (Some (At 30)) 0 = Inr ()"
  by (simp add: requireIdentityAuthorization_def requireAuthorization_def authorize_At may_access_def
      support_identity_def within_def max_session_age_def staffRoles_def mfaRoles_def
      isGrantActive_At trim_def js_space_def)

theorem support_access_needs_approval_witness:
  "\<exists>a \<in> set (approvals support_db). names_category (sa_categories a) Contacts \<and> sa_expires a \<le> 14400000"
proof -
  have "ti_role support_identity = SupportAgent" by (simp add: support_identity_def)
  from support_access_needs_approval [OF support_resolves this support_allowed]
  show ?thesis by auto
qed

text \<open>C15: An emergency recipient reads nothing before a release: when a request whose session
  resolves to an emergency recipient is authorized for anything but filing a request, the
  database holds a released emergency request for that membership in that household, naming the
  category, whose release date had passed when the identity was resolved.\<close>

theorem emergency_access_needs_release:
  assumes "resolveRequestIdentity sess selected db_now d = Inr idn" and "ti_role idn = EmergencyRecipient"
    and "requireIdentityAuthorization idn c action purpose (Some (At n)) clock = Inr ()"
    and "action \<noteq> Create"
  shows "action = Read \<and> (\<exists>r \<in> set (emergencies d). er_recipient_membership r = ti_membership idn
      \<and> row_org r = ti_org idn \<and> row_hh r = ti_hh idn \<and> er_row_status r = ''released''
      \<and> (\<exists>t. er_release_at r = Some t \<and> t \<le> db_now) \<and> names_category (er_category_json r) c)"
proof -
  from assms(1) obtain u :: auth_session and requested idn0 issued where
    idn0: "resolve_membership (as_user u) requested db_now d = Inr idn0"
    and idn: "idn = idn0 \<lparr> ti_issued := issued, ti_mfa := (if as_two_factor u then issued else Blank) \<rparr>"
    by (rule resolveRequestIdentity_Inr) blast
  from idn0 obtain row :: membership_row and s :: session and rel where
    ids: "ti_membership idn0 = row_id row" "ti_org idn0 = row_org row" "ti_hh idn0 = row_hh row"
    and s: "s = account_session (as_user u) \<lparr> ss_org := Some (row_org row), ss_hh := Some (row_hh row) \<rparr>"
    and rel: "res_map (\<lambda>r. enumArray category_name allRecordCategories ''emergency release categories''
           (er_category_json r))
         (if ti_role idn0 = EmergencyRecipient then release_rows s d db_now (row_id row) else []) = Inr rel"
      "set (ti_release idn0) = set (concat rel)"
    by (rule resolve_membership_Inr) blast
  from assms(3) have may: "may_access n \<lparr> ar_role = ti_role idn, ar_grants = ti_grants idn,
      ar_category = c, ar_action = action, ar_purpose = purpose, ar_now = At n,
      ar_issued = ti_issued idn, ar_mfa = ti_mfa idn, ar_support = ti_support idn,
      ar_release = ti_release idn \<rparr>"
    by (simp add: requireIdentityAuthorization_def requireAuthorization_def authorize_At)
  with assms(2,4) have read: "action = Read" and c: "c \<in> set (ti_release idn0)"
    using idn by (simp_all add: may_access_def)
  from c rel(2) obtain cs where cs: "cs \<in> set rel" "c \<in> set cs" by auto
  have "ti_role idn0 = EmergencyRecipient" using assms(2) idn by simp
  with res_map_in [OF rel(1) cs(1)] obtain r where r: "r \<in> set (release_rows s d db_now (row_id row))"
    "enumArray category_name allRecordCategories ''emergency release categories'' (er_category_json r) = Inr cs"
    by auto
  from enumArray_Inr [OF r(2) cs(2)] have "names_category (er_category_json r) c"
    by (simp add: names_category_def)
  moreover from r(1) s have "r \<in> set (emergencies d)" "er_recipient_membership r = row_id row"
    "row_org r = row_org row" "row_hh r = row_hh row" "er_row_status r = ''released''"
    "\<exists>t. er_release_at r = Some t \<and> t \<le> db_now"
    by (auto simp: release_rows_def tenant_visible_def split: option.splits)
  ultimately show ?thesis using read ids idn by (intro conjI) auto
qed

abbreviation release_db :: db where
  "release_db \<equiv> empty_db \<lparr> memberships := [\<lparr> row_org = ''o'', row_hh = ''h'', row_id = ''m'',
        row_version = 1, m_person = ''p'', m_role = ''EmergencyRecipient'', m_auth_user = Some ''u'', m_active = 1 \<rparr>],
      emergencies := [\<lparr> row_org = ''o'', row_hh = ''h'', row_id = ''e'', row_version = 3,
        er_requester_id = ''p'', er_recipient_membership = ''m'', er_category_json = JArr [JStr ''contacts''],
        er_reason_encrypted = ''x'', er_key_version = 1, er_row_status = ''released'', er_requested_at = 0,
        er_decision_at = Some 1, er_release_at = Some 5 \<rparr>],
      grants := [\<lparr> row_org = ''o'', row_hh = ''h'', row_id = ''g'', row_version = 1, g_membership = ''m'',
        g_categories = JArr [JStr ''contacts''], g_actions = JArr [JStr ''read''], g_purpose = ''vault'',
        g_starts = 0, g_expires = None, g_revoked = None \<rparr>] \<rparr>"

definition release_identity :: tenant_identity where
  "release_identity = \<lparr> ti_org = ''o'', ti_hh = ''h'', ti_actor = ''p'', ti_membership = ''m'',
     ti_role = EmergencyRecipient,
     ti_grants = [\<lparr> ent_id = ''g'', ent_org = ''o'', ent_hh = ''h'', ent_version = 1,
       pg_membership = ''m'', pg_categories = [Contacts], pg_actions = [Read], pg_purpose = ''vault'',
       pg_starts = At 0, pg_expires = Blank, pg_revoked = Blank \<rparr>],
     ti_support = [], ti_release = [Contacts], ti_issued = At 10, ti_mfa = At 10 \<rparr>"

lemma release_resolves:
  "resolveRequestIdentity support_session NoHeader 20 release_db = Inr release_identity"
  by (simp add: resolveRequestIdentity_def resolve_membership_def Let_def order_by_def
      membership_visible_def account_session_def empty_db_def all_roles_def grant_rows_def
      release_rows_def sql_select_def tenant_visible_def read_grant_def
      allRecordCategories_def all_actions_def to_iso_string_def time_clip_def release_identity_def)

lemma release_allowed:
  "requireIdentityAuthorization release_identity Contacts Read ''vault'' (Some (At 30)) 0 = Inr ()"
  by (simp add: requireIdentityAuthorization_def requireAuthorization_def authorize_At may_access_def
      release_identity_def within_def max_session_age_def staffRoles_def mfaRoles_def
      isGrantActive_At trim_def js_space_def)

theorem emergency_access_needs_release_witness:
  "\<exists>r \<in> set (emergencies release_db). er_row_status r = ''released'' \<and> names_category (er_category_json r) Contacts"
proof -
  have "ti_role release_identity = EmergencyRecipient" by (simp add: release_identity_def)
  from emergency_access_needs_release [OF release_resolves this release_allowed]
  show ?thesis by auto
qed

abbreviation owner_identity :: tenant_identity where
  "owner_identity \<equiv> \<lparr> ti_org = ''o'', ti_hh = ''h'', ti_actor = ''own'', ti_membership = ''om'',
     ti_role = Owner, ti_grants = [], ti_support = [], ti_release = [], ti_issued = At 0, ti_mfa = At 0 \<rparr>"

abbreviation approval_input :: support_input where
  "approval_input \<equiv> \<lparr> si_membership = ''m'', si_reason = ''case-1'', si_categories = [Contacts, Pets],
     si_starts = At 0, si_expires = At 14400000 \<rparr>"

lemma sample_reason: "re_test reason_pattern ''case-1''"
  by code_simp

lemma sample_approval_stored:
  "fst (approveSupportAccess (\<lambda>_ _ _ _. Inr ()) owner_identity approval_input ''new'' support_db) = Inr (''new'', 1)"
  by (simp add: approveSupportAccess_def Let_def sample_reason approval_period_iff withTenant_def
      transaction_def sql_select_def sql_insert_def empty_db_def same_id_def)

theorem approveSupportAccess_bounded_witness:
  "\<exists>a. approvals (snd (approveSupportAccess (\<lambda>_ _ _ _. Inr ()) owner_identity approval_input ''new'' support_db))
        = approvals support_db @ [a] \<and> approval_row_ok a \<and> names_category (sa_categories a) Pets"
proof -
  obtain d' where eq: "approveSupportAccess (\<lambda>_ _ _ _. Inr ()) owner_identity approval_input ''new'' support_db
      = (Inr (''new'', 1), d')"
    using sample_approval_stored by (metis prod.collapse)
  from approveSupportAccess_bounded [where authz = "\<lambda>_ _ _ _. Inr ()" and owner = owner_identity
      and input = approval_input and fresh_id = "''new''" and d = support_db, unfolded eq prod.case sum.case]
  obtain a where a: "d' = support_db \<lparr> approvals := approvals support_db @ [a] \<rparr>" "approval_row_ok a"
    "{c. names_category (sa_categories a) c} = set (si_categories approval_input)" by blast
  have "Pets \<in> {c. names_category (sa_categories a) c}" unfolding a(3) by simp
  then have "names_category (sa_categories a) Pets" by simp
  moreover have "approvals d' = approvals support_db @ [a]" unfolding a(1) by simp
  ultimately show ?thesis using a(2) unfolding eq snd_conv by blast
qed

end
