(* ===== verification/Fact_Store.thy ===== *)
theory Fact_Store
  imports Vault_Tenancy "HOL-Library.Multiset"
begin

text \<open>
  The fact methods of \<open>repository.ts\<close> (\<open>createCandidateFact\<close> to \<open>listVaultFacts\<close>), the checks the
  \<open>facts\<close> table states, and their refinement of the confirmation rules of \<open>domain/facts.ts\<close>.
  Texts are compared by the database's collation, a parameter \<open>collate\<close>.
\<close>

section \<open>Writing\<close>

record fact_write =
  fw_id :: string
  fw_field_key :: string
  fw_ciphertext :: string
  fw_key_version :: int
  fw_source_type :: string
  fw_source_id :: string
  fw_evidence :: "string list"
  fw_confidence :: "int option"
  fw_sensitivity :: string

text \<open>The checks of the table (\<open>0001_core.sql\<close>); a confidence is counted in units of 1/10000.\<close>

definition fact_status_texts :: "string list" where
  "fact_status_texts = [''candidate'', ''confirmed'', ''rejected'', ''disputed'']"

definition fact_row_ok :: "fact_row \<Rightarrow> bool" where
  "fact_row_ok r \<longleftrightarrow> 0 < f_key_version r \<and> 0 < row_version r
     \<and> f_status r \<in> set fact_status_texts
     \<and> (case f_confidence r of None \<Rightarrow> True | Some c \<Rightarrow> 0 \<le> c \<and> c \<le> 10000)
     \<and> (f_status r = ''confirmed'') = (f_confirmed_by r \<noteq> None \<and> f_confirmed_at r \<noteq> None)"

definition createCandidateFact ::
  "tenant_context \<Rightarrow> fact_write \<Rightarrow> db \<Rightarrow> (string \<times> string \<times> int) result \<times> db" where
  "createCandidateFact ctx input = withTenant ctx (\<lambda>s d.
     let r = \<lparr> row_org = tc_org ctx, row_hh = tc_hh ctx, row_id = fw_id input, row_version = 1,
           f_field_key = fw_field_key input, f_value_encrypted = fw_ciphertext input,
           f_key_version = fw_key_version input, f_status = ''candidate'',
           f_source_type = fw_source_type input, f_source_id = fw_source_id input,
           f_evidence = fw_evidence input, f_confidence = fw_confidence input,
           f_sensitivity = fw_sensitivity input, f_confirmed_by = None, f_confirmed_at = None,
           f_last_reviewed = None \<rparr> in
     if \<not> fact_row_ok r then Inl pg_check_violation
     else res_bind (sql_insert s same_id r (facts d)) (\<lambda>t.
       Inr ((row_id r, f_status r, row_version r), d \<lparr> facts := t \<rparr>)))"

text \<open>One conditional \<open>update ... returning id,status,version\<close> on the facts.\<close>

definition update_fact ::
  "(fact_row \<Rightarrow> bool) \<Rightarrow> (fact_row \<Rightarrow> fact_row) \<Rightarrow> string \<Rightarrow> session \<Rightarrow> (string \<times> string \<times> int) op" where
  "update_fact p f message s d = (case sql_select s p (facts d) of
       [] \<Rightarrow> Inl (js_error message)
     | r # _ \<Rightarrow> Inr ((row_id (f r), f_status (f r), row_version (f r)),
                 d \<lparr> facts := sql_update s p f (facts d) \<rparr>))"

definition confirm_pred :: "string \<Rightarrow> int \<Rightarrow> fact_row \<Rightarrow> bool" where
  "confirm_pred fact_id version r \<longleftrightarrow> row_id r = fact_id \<and> row_version r = version
     \<and> f_status r \<in> {''candidate'', ''disputed''}
     \<and> (f_source_type r = ''manual'' \<or> 0 < length (f_evidence r))"

definition confirm_set :: "string \<Rightarrow> int \<Rightarrow> fact_row \<Rightarrow> fact_row" where
  "confirm_set actor at r = r \<lparr> f_status := ''confirmed'', f_confirmed_by := Some actor,
     f_confirmed_at := Some at, row_version := row_version r + 1 \<rparr>"

definition confirm_fact_row ::
  "tenant_context \<Rightarrow> string \<Rightarrow> int \<Rightarrow> int \<Rightarrow> db \<Rightarrow> (string \<times> string \<times> int) result \<times> db" where
  "confirm_fact_row ctx fact_id expected_version confirmed_at = withTenant ctx
     (update_fact (confirm_pred fact_id expected_version) (confirm_set (tc_actor ctx) confirmed_at)
        ''fact confirmation conflict or policy denial'')"

definition reject_pred :: "string \<Rightarrow> int \<Rightarrow> fact_row \<Rightarrow> bool" where
  "reject_pred fact_id version r \<longleftrightarrow> row_id r = fact_id \<and> row_version r = version
     \<and> f_status r = ''candidate''"

definition reject_set :: "fact_row \<Rightarrow> fact_row" where
  "reject_set r = r \<lparr> f_status := ''rejected'', row_version := row_version r + 1 \<rparr>"

definition reject_fact_row ::
  "tenant_context \<Rightarrow> string \<Rightarrow> int \<Rightarrow> db \<Rightarrow> (string \<times> string \<times> int) result \<times> db" where
  "reject_fact_row ctx fact_id expected_version = withTenant ctx
     (update_fact (reject_pred fact_id expected_version) reject_set
        ''fact rejection conflict or policy denial'')"

definition dispute_pred :: "string \<Rightarrow> int \<Rightarrow> fact_row \<Rightarrow> bool" where
  "dispute_pred fact_id version r \<longleftrightarrow> row_id r = fact_id \<and> row_version r = version
     \<and> f_status r = ''confirmed''"

definition dispute_set :: "fact_row \<Rightarrow> fact_row" where
  "dispute_set r = r \<lparr> f_status := ''disputed'', f_confirmed_by := None, f_confirmed_at := None,
     row_version := row_version r + 1 \<rparr>"

definition disputeFact ::
  "tenant_context \<Rightarrow> string \<Rightarrow> int \<Rightarrow> db \<Rightarrow> (string \<times> string \<times> int) result \<times> db" where
  "disputeFact ctx fact_id expected_version = withTenant ctx
     (update_fact (dispute_pred fact_id expected_version) dispute_set
        ''fact dispute conflict or policy denial'')"

section \<open>Reading\<close>

record fact_read =
  fr_id :: string
  fr_field_key :: string
  fr_ciphertext :: string
  fr_key_version :: int
  fr_source_type :: string
  fr_source_id :: string
  fr_evidence :: "string list"
  fr_confidence :: "int option"
  fr_sensitivity :: string
  fr_status :: string
  fr_confirmed_by :: "string option"
  fr_confirmed_at :: "int option"
  fr_last_reviewed :: "int option"
  fr_version :: int

definition read_fact :: "fact_row \<Rightarrow> fact_read" where
  "read_fact r = \<lparr> fr_id = row_id r, fr_field_key = f_field_key r, fr_ciphertext = f_value_encrypted r,
     fr_key_version = f_key_version r, fr_source_type = f_source_type r, fr_source_id = f_source_id r,
     fr_evidence = f_evidence r, fr_confidence = f_confidence r, fr_sensitivity = f_sensitivity r,
     fr_status = f_status r,
     fr_confirmed_by = (if f_confirmed_by r = Some [] then None else f_confirmed_by r),
     fr_confirmed_at = f_confirmed_at r, fr_last_reviewed = f_last_reviewed r,
     fr_version = row_version r \<rparr>"

definition getFactFieldKey :: "tenant_context \<Rightarrow> string \<Rightarrow> db \<Rightarrow> string result \<times> db" where
  "getFactFieldKey ctx fact_id = withTenant ctx (\<lambda>s d.
     case sql_select s (\<lambda>r. row_id r = fact_id) (facts d) of
       [] \<Rightarrow> Inl (js_error ''fact unavailable'')
     | r # _ \<Rightarrow> Inr (f_field_key r, d))"

text \<open>\<open>split_part(field_key,'.',1)\<close> is the text before the first dot.\<close>

definition field_prefix :: "string \<Rightarrow> string" where
  "field_prefix key = hd (split_on CHR ''.'' key)"

definition listVaultFacts ::
  "(string \<Rightarrow> 'k::linorder) \<Rightarrow> tenant_context \<Rightarrow> string list \<Rightarrow> db \<Rightarrow> fact_read list result \<times> db" where
  "listVaultFacts collate ctx categories = withTenant ctx (\<lambda>s d.
     Inr (map read_fact (order_by (\<lambda>r. collate (f_field_key r)) (order_by row_id
       (sql_select s (\<lambda>r. f_status r \<noteq> ''rejected'' \<and> field_prefix (f_field_key r) \<in> set categories)
         (facts d)))), d))"

section \<open>What one update does\<close>

lemmas fact_sets = confirm_set_def reject_set_def dispute_set_def
lemmas fact_preds = confirm_pred_def reject_pred_def dispute_pred_def

lemma fact_sets_frame [simp]:
  "row_org (confirm_set a t r) = row_org r" "row_hh (confirm_set a t r) = row_hh r"
  "row_id (confirm_set a t r) = row_id r"
  "row_org (reject_set r) = row_org r" "row_hh (reject_set r) = row_hh r" "row_id (reject_set r) = row_id r"
  "row_org (dispute_set r) = row_org r" "row_hh (dispute_set r) = row_hh r" "row_id (dispute_set r) = row_id r"
  by (simp_all add: fact_sets)

lemma update_fact_Inr:
  assumes "update_fact p f message s d = Inr (x, d')"
  obtains r where "r \<in> set (facts d)" "tenant_visible s r" "p r"
    "x = (row_id (f r), f_status (f r), row_version (f r))"
    "d' = d \<lparr> facts := sql_update s p f (facts d) \<rparr>"
proof (cases "sql_select s p (facts d)")
  case (Cons r rs)
  from assms have "x = (row_id (f r), f_status (f r), row_version (f r))"
    "d' = d \<lparr> facts := sql_update s p f (facts d) \<rparr>"
    unfolding update_fact_def Cons list.case by (simp_all only: sum.inject prod.inject)
  with sql_select_hd [OF Cons] that [of r] show ?thesis by blast
qed (use assms in \<open>simp add: update_fact_def\<close>)

lemma update_fact_frame:
  assumes "update_fact p f message s d = Inr (x, d')"
    and "\<And>r. row_org (f r) = row_org r" and "\<And>r. row_hh (f r) = row_hh r"
  shows "foreign s d' = foreign s d"
proof -
  have "d' = d \<lparr> facts := sql_update s p f (facts d) \<rparr>"
    by (rule update_fact_Inr [OF assms(1)])
  then show ?thesis by (simp add: assms(2,3))
qed

lemma update_fact_rows:
  assumes "update_fact p f message s d = Inr (x, d')" and "\<And>r. p r \<Longrightarrow> ok r \<Longrightarrow> ok (f r)"
    and "\<forall>r \<in> set (facts d). ok r"
  shows "\<forall>r \<in> set (facts d'). ok r"
proof -
  have "d' = d \<lparr> facts := sql_update s p f (facts d) \<rparr>"
    by (rule update_fact_Inr [OF assms(1)])
  with assms(2,3) show ?thesis by (auto simp: in_sql_update)
qed

lemma confirm_ok: "confirm_pred i v r \<Longrightarrow> fact_row_ok r \<Longrightarrow> fact_row_ok (confirm_set a t r)"
  by (simp add: fact_row_ok_def fact_sets fact_status_texts_def)

lemma reject_ok: "reject_pred i v r \<Longrightarrow> fact_row_ok r \<Longrightarrow> fact_row_ok (reject_set r)"
  by (auto simp: fact_row_ok_def fact_sets fact_preds fact_status_texts_def)

lemma dispute_ok: "dispute_pred i v r \<Longrightarrow> fact_row_ok r \<Longrightarrow> fact_row_ok (dispute_set r)"
  by (simp add: fact_row_ok_def fact_sets fact_status_texts_def)

section \<open>Refinement of the confirmation rules\<close>

text \<open>The entity a row stands for; \<open>decrypt\<close> reads the stored value.\<close>

definition status_of :: "string \<Rightarrow> fact_status" where
  "status_of s = (if s = ''confirmed'' then Confirmed else if s = ''rejected'' then Rejected
     else if s = ''disputed'' then Disputed else Candidate)"

definition source_of :: "string \<Rightarrow> source_type" where
  "source_of s = (if s = ''manual'' then Manual else if s = ''interview'' then Interview
     else if s = ''professional'' then Professional else FromDocument)"

definition sensitivity_of :: "string \<Rightarrow> sensitivity" where
  "sensitivity_of s = (if s = ''standard'' then Standard else if s = ''sensitive'' then Sensitive
     else HighlySensitive)"

fun iso_of :: "int option \<Rightarrow> iso" where
  "iso_of None = Blank"
| "iso_of (Some t) = At t"

definition entity_of :: "(string \<Rightarrow> json) \<Rightarrow> fact_row \<Rightarrow> candidate_fact" where
  "entity_of decrypt r = \<lparr> ent_id = row_id r, ent_org = row_org r, ent_hh = row_hh r,
     ent_version = row_version r, cf_field_key = f_field_key r,
     cf_value = decrypt (f_value_encrypted r), cf_status = status_of (f_status r),
     cf_source_type = source_of (f_source_type r), cf_source_id = f_source_id r,
     cf_evidence = f_evidence r, cf_confidence = f_confidence r,
     cf_sensitivity = sensitivity_of (f_sensitivity r), cf_confirmed_by = f_confirmed_by r,
     cf_confirmed_at = iso_of (f_confirmed_at r), cf_last_reviewed = iso_of (f_last_reviewed r) \<rparr>"

lemma confirm_result:
  "confirmFact (entity_of dec r) actor (At t) = Inr f \<Longrightarrow> f = entity_of dec (confirm_set actor t r)"
  by (simp add: confirmFact_Inr entity_of_def confirm_set_def status_of_def)

lemma confirm_refines:
  assumes "fact_row_ok r" and "actor \<noteq> []"
  shows "confirm_pred (row_id r) (row_version r) r \<longleftrightarrow>
     confirmFact (entity_of dec r) actor (At t) = Inr (entity_of dec (confirm_set actor t r))"
  using assms by (auto simp: confirm_pred_def confirmFact_Inr entity_of_def status_of_def source_of_def
      fact_row_ok_def fact_status_texts_def confirm_set_def split: if_splits)

lemma reject_refines:
  "reject_pred i v r \<Longrightarrow> rejectFact (entity_of dec r) = Inr (entity_of dec (reject_set r))"
  by (simp add: reject_pred_def rejectFact_Inr entity_of_def status_of_def reject_set_def)

text \<open>The stored confirmation implements the domain's rule: for an actor and a table that
  satisfies its checks, \<open>confirmFact\<close> of the repository succeeds on a fact exactly when the fact
  is the tenant's own, has the expected version and the domain's \<open>confirmFact\<close> accepts it; the
  rows it then writes are those of before with that fact replaced by what the domain's function
  returns, every row keeps satisfying the table's checks, no other tenant's rows change, and when
  it throws the database is as before.\<close>

theorem confirm_fact_row_refines:
  assumes "\<forall>r \<in> set (facts d). fact_row_ok r" and "tc_actor ctx \<noteq> []"
  shows "case confirm_fact_row ctx i v t d of
      (Inr (i', st, v'), d') \<Rightarrow>
        i' = i \<and> st = ''confirmed'' \<and> v' = v + 1
        \<and> (\<exists>r \<in> set (facts d). tenant_visible (tenant_session ctx) r \<and> row_id r = i \<and> row_version r = v)
        \<and> map (entity_of dec) (facts d') = map (\<lambda>r.
             if tenant_visible (tenant_session ctx) r \<and> row_id r = i \<and> row_version r = v
             then (case confirmFact (entity_of dec r) (tc_actor ctx) (At t) of
                     Inr f \<Rightarrow> f | Inl _ \<Rightarrow> entity_of dec r)
             else entity_of dec r) (facts d)
        \<and> (\<forall>r \<in> set (facts d'). fact_row_ok r)
        \<and> foreign (tenant_session ctx) d' = foreign (tenant_session ctx) d
    | (Inl e, d') \<Rightarrow> d' = d \<and> (\<forall>r \<in> set (facts d).
        tenant_visible (tenant_session ctx) r \<and> row_id r = i \<and> row_version r = v \<longrightarrow>
        (\<exists>e'. confirmFact (entity_of dec r) (tc_actor ctx) (At t) = Inl e'))"
proof -
  let ?s = "tenant_session ctx" and ?p = "confirm_pred i v" and ?f = "confirm_set (tc_actor ctx) t"
  have step: "(case confirmFact (entity_of dec r) (tc_actor ctx) (At t) of Inr f \<Rightarrow> f | Inl _ \<Rightarrow> entity_of dec r)
      = entity_of dec (if ?p r then ?f r else r)
      \<and> ((\<exists>e'. confirmFact (entity_of dec r) (tc_actor ctx) (At t) = Inl e') \<longleftrightarrow> \<not> ?p r)"
    if "r \<in> set (facts d)" "row_id r = i" "row_version r = v" for r
  proof (cases "confirmFact (entity_of dec r) (tc_actor ctx) (At t)")
    case (Inl e)
    with confirm_refines [of r "tc_actor ctx" dec t] that assms show ?thesis by simp
  next
    case (Inr f)
    with confirm_result [OF Inr] confirm_refines [of r "tc_actor ctx" dec t] that assms
    show ?thesis by simp
  qed
  show ?thesis
  proof (cases rule: transaction_cases [of "update_fact ?p ?f ''fact confirmation conflict or policy denial'' ?s" d])
    case (committed x d')
    from committed(1) obtain q where q: "q \<in> set (facts d)" "tenant_visible ?s q" "?p q"
        "x = (row_id (?f q), f_status (?f q), row_version (?f q))"
      and d': "d' = d \<lparr> facts := sql_update ?s ?p ?f (facts d) \<rparr>"
      by (rule update_fact_Inr)
    have x: "x = (i, ''confirmed'', v + 1)" using q(3,4) by (simp add: confirm_pred_def confirm_set_def)
    have rows: "map (entity_of dec) (facts d') = map (\<lambda>r. if tenant_visible ?s r \<and> row_id r = i \<and> row_version r = v
        then (case confirmFact (entity_of dec r) (tc_actor ctx) (At t) of Inr f \<Rightarrow> f | Inl _ \<Rightarrow> entity_of dec r)
        else entity_of dec r) (facts d)"
      unfolding d' using step by (auto simp: sql_update_def confirm_pred_def)
    have ok: "\<forall>r \<in> set (facts d'). fact_row_ok r"
      by (rule update_fact_rows [OF committed(1)]) (use confirm_ok assms(1) in auto)
    have fr: "foreign ?s d' = foreign ?s d"
      by (rule update_fact_frame [OF committed(1)]) simp_all
    have own: "\<exists>r \<in> set (facts d). tenant_visible ?s r \<and> row_id r = i \<and> row_version r = v"
      using q(1-3) by (auto simp: confirm_pred_def)
    have res: "confirm_fact_row ctx i v t d = (Inr (i, ''confirmed'', v + 1), d')"
      using committed(2) x by (simp add: confirm_fact_row_def withTenant_def)
    show ?thesis unfolding res prod.case sum.case using own rows ok fr by blast
  next
    case (aborted e)
    then have "sql_select ?s ?p (facts d) = []"
      by (auto simp: update_fact_def split: list.splits)
    then have "\<not> ?p r" if "r \<in> set (facts d)" "tenant_visible ?s r" for r
      using that by (auto simp: sql_select_def filter_empty_conv)
    with step have "\<forall>r \<in> set (facts d). tenant_visible ?s r \<and> row_id r = i \<and> row_version r = v \<longrightarrow>
        (\<exists>e'. confirmFact (entity_of dec r) (tc_actor ctx) (At t) = Inl e')" by blast
    moreover have "confirm_fact_row ctx i v t d = (Inl e, d)"
      using aborted(2) by (simp add: confirm_fact_row_def withTenant_def)
    ultimately show ?thesis by simp
  qed
qed

abbreviation sample_ctx :: tenant_context where
  "sample_ctx \<equiv> \<lparr> tc_org = ''o'', tc_hh = ''h'', tc_actor = ''p'' \<rparr>"

abbreviation sample_fact :: fact_row where
  "sample_fact \<equiv> \<lparr> row_org = ''o'', row_hh = ''h'', row_id = ''f'', row_version = 1,
     f_field_key = ''pets.name'', f_value_encrypted = ''c'', f_key_version = 1, f_status = ''candidate'',
     f_source_type = ''manual'', f_source_id = ''m'', f_evidence = [], f_confidence = None,
     f_sensitivity = ''standard'', f_confirmed_by = None, f_confirmed_at = None, f_last_reviewed = None \<rparr>"

theorem confirm_fact_row_refines_witness:
  "\<exists>d'. confirm_fact_row sample_ctx ''f'' 1 5 (empty_db \<lparr> facts := [sample_fact] \<rparr>)
      = (Inr (''f'', ''confirmed'', 2), d') \<and> list_all fact_row_ok (facts d')"
proof -
  let ?d = "empty_db \<lparr> facts := [sample_fact] \<rparr>"
  have "\<forall>r \<in> set (facts ?d). fact_row_ok r" by (simp add: fact_row_ok_def fact_status_texts_def)
  moreover have "tc_actor sample_ctx \<noteq> []" by simp
  moreover obtain d' where d': "confirm_fact_row sample_ctx ''f'' 1 5 ?d = (Inr (''f'', ''confirmed'', 2), d')"
    by (simp add: confirm_fact_row_def withTenant_def update_fact_def sql_select_def confirm_pred_def confirm_set_def)
  ultimately have "\<forall>r \<in> set (facts d'). fact_row_ok r"
    using confirm_fact_row_refines [where d = ?d and ctx = sample_ctx and i = "''f''" and v = 1 and t = 5, unfolded d' prod.case sum.case] by blast
  with d' show ?thesis by (auto simp: list_all_iff)
qed

text \<open>
  The repository's \<open>rejectFact\<close> is narrower than the domain's rule: a disputed fact that the rule
  lets be rejected is refused by the statement.
\<close>

lemma reject_narrower:
  assumes "f_status r = ''disputed''"
  shows "rejectFact (entity_of dec r) \<noteq> Inl e \<and> \<not> reject_pred i v r"
  using assms by (simp add: rejectFact_def entity_of_def status_of_def reject_pred_def)

lemma reject_fact_row_Inr:
  assumes "reject_fact_row ctx i v d = (Inr x, d')"
  shows "\<exists>r \<in> set (facts d). tenant_visible (tenant_session ctx) r \<and> row_id r = i \<and> row_version r = v
     \<and> rejectFact (entity_of dec r) = Inr (entity_of dec (reject_set r))"
proof -
  from assms have "update_fact (reject_pred i v) reject_set ''fact rejection conflict or policy denial''
      (tenant_session ctx) d = Inr (x, d')" by (simp add: reject_fact_row_def withTenant_def)
  then obtain r where "r \<in> set (facts d)" "tenant_visible (tenant_session ctx) r" "reject_pred i v r"
    by (rule update_fact_Inr)
  with reject_refines [of i v r dec] show ?thesis by (auto simp: reject_pred_def)
qed

text \<open>The list of facts is exactly what the tenant may see of the categories asked for: it
  never throws and changes nothing, its entries are the reads of the tenant's own facts that are
  not rejected and whose key's category is asked for, each row once, ordered by key, and another
  database that differs only in other tenants' facts gives the same list.\<close>

theorem listVaultFacts_exact:
  "\<exists>rs. listVaultFacts collate ctx categories d = (Inr (map read_fact rs), d)
     \<and> mset rs = filter_mset (\<lambda>r. row_org r = tc_org ctx \<and> row_hh r = tc_hh ctx
          \<and> f_status r \<noteq> ''rejected'' \<and> field_prefix (f_field_key r) \<in> set categories) (mset (facts d))
     \<and> sorted (map (\<lambda>r. collate (f_field_key r)) rs)
     \<and> listVaultFacts collate ctx categories (empty_db \<lparr> facts := filter (tenant_visible (tenant_session ctx)) (facts d) \<rparr>)
       = (Inr (map read_fact rs), empty_db \<lparr> facts := filter (tenant_visible (tenant_session ctx)) (facts d) \<rparr>)"
proof -
  let ?p = "\<lambda>r. row_org r = tc_org ctx \<and> row_hh r = tc_hh ctx
          \<and> f_status r \<noteq> ''rejected'' \<and> field_prefix (f_field_key r) \<in> set categories"
  let ?rs = "sort_key (\<lambda>r. collate (f_field_key r)) (sort_key row_id (filter ?p (facts d)))"
  have "filter (\<lambda>r. tenant_visible (tenant_session ctx) r \<and> f_status r \<noteq> ''rejected''
          \<and> field_prefix (f_field_key r) \<in> set categories) t = filter ?p t" for t :: "fact_row list"
    by (rule filter_cong) auto
  moreover have "filter ?p (filter (tenant_visible (tenant_session ctx)) t) = filter ?p t" for t :: "fact_row list"
    by (simp add: conj_assoc) (rule filter_cong, auto)
  ultimately show ?thesis
    by (intro exI [of _ ?rs])
      (simp add: listVaultFacts_def withTenant_def transaction_def order_by_def sql_select_def empty_db_def)
qed

end
