(* ===== verification/Js_Date.thy ===== *)
theory Js_Date
  imports Js_Text
begin

text \<open>
  \<open>Date.prototype.toISOString\<close>: the text of a time value, by the proleptic Gregorian calendar.
\<close>

text \<open>\<open>n\<close> decimal digits of a non-negative number, padded with zeros.\<close>

fun digits :: "nat \<Rightarrow> int \<Rightarrow> string" where
  "digits 0 v = []"
| "digits (Suc n) v = digits n (v div 10) @ [char_of (nat (48 + v mod 10))]"

text \<open>Year, month and day of a number of days after 1970-01-01, counting eras of 400 years from March.\<close>

definition civil_from_days :: "int \<Rightarrow> int \<times> int \<times> int" where
  "civil_from_days z0 =
     (let z = z0 + 719468; era = z div 146097; doe = z mod 146097;
          yoe = (doe - doe div 1460 + doe div 36524 - doe div 146096) div 365;
          doy = doe - (365 * yoe + yoe div 4 - yoe div 100);
          mp = (5 * doy + 2) div 153;
          dy = doy - (153 * mp + 2) div 5 + 1;
          mo = (if mp < 10 then mp + 3 else mp - 9)
      in (yoe + era * 400 + (if mo \<le> 2 then 1 else 0), mo, dy))"

definition iso_year :: "int \<Rightarrow> string" where
  "iso_year y = (if 0 \<le> y \<and> y \<le> 9999 then digits 4 y
     else if 0 < y then ''+'' @ digits 6 y else ''-'' @ digits 6 (- y))"

definition toISOString :: "int \<Rightarrow> string" where
  "toISOString t =
     (let (y, mo, dy) = civil_from_days (t div 86400000); r = t mod 86400000 in
      iso_year y @ ''-'' @ digits 2 mo @ ''-'' @ digits 2 dy @ ''T''
      @ digits 2 (r div 3600000) @ '':'' @ digits 2 (r div 60000 mod 60) @ '':''
      @ digits 2 (r div 1000 mod 60) @ ''.'' @ digits 3 (r mod 1000) @ ''Z'')"

lemma toISOString_examples:
  "toISOString 0 = ''1970-01-01T00:00:00.000Z''"
  "toISOString 951782400000 = ''2000-02-29T00:00:00.000Z''"
  "toISOString 1767225599999 = ''2025-12-31T23:59:59.999Z''"
  by code_simp+

end
