(* ===== verification/Idempotency.thy ===== *)
theory Idempotency
  imports Vault_Tenancy Js_Date
begin

text \<open>
  The idempotency records of the repository.  Every method that takes an \<open>Idempotency-Key\<close>
  reserves a record for the key with the hash of its request, does its work, and stores its
  response in the record, all in one transaction; a second call finds the record and returns the
  stored response, or throws when the hash differs.  \<open>idempotent_call\<close> is that protocol, over
  the two stores the code has: \<open>idempotency_records\<close> per household and
  \<open>account_idempotency_records\<close> per account.
\<close>

section \<open>The protocol\<close>

type_synonym idem_entry = "string \<times> json option"

definition idempotent_call ::
  "(db \<Rightarrow> idem_entry option) \<Rightarrow> (string \<Rightarrow> db \<Rightarrow> db option) \<Rightarrow> (json \<Rightarrow> db \<Rightarrow> db)
   \<Rightarrow> string \<Rightarrow> string \<Rightarrow> string \<Rightarrow> json op \<Rightarrow> json op" where
  "idempotent_call lookup reserve complete request_hash conflict pending body d =
     (case reserve request_hash d of
        None \<Rightarrow> (case lookup d of
            None \<Rightarrow> Inl (js_error conflict)
          | Some (h, response) \<Rightarrow>
              if h \<noteq> request_hash then Inl (js_error conflict)
              else (case response of
                  None \<Rightarrow> Inl (js_error pending)
                | Some v \<Rightarrow> if js_truthy v then Inr (v, d) else Inl (js_error pending)))
      | Some d1 \<Rightarrow> (case body d1 of
            Inl e \<Rightarrow> Inl e
          | Inr (v, d2) \<Rightarrow> Inr (v, complete v d2)))"

text \<open>What the two stores promise, and what the protocol gives on top of it.\<close>

locale idempotency_store =
  fixes lookup :: "db \<Rightarrow> idem_entry option"
    and reserve :: "string \<Rightarrow> db \<Rightarrow> db option"
    and complete :: "json \<Rightarrow> db \<Rightarrow> db"
  assumes reserve_taken: "reserve h d = None \<longleftrightarrow> lookup d \<noteq> None"
    and reserve_new: "reserve h d = Some d1 \<Longrightarrow> lookup d1 = Some (h, None)"
    and complete_lookup: "lookup d = Some (h, r) \<Longrightarrow> lookup (complete v d) = Some (h, Some v)"
begin

abbreviation call where
  "call \<equiv> idempotent_call lookup reserve complete"

lemma call_known:
  assumes "lookup d = Some (h', r)"
  shows "call h conflict pending body d =
     (if h' \<noteq> h then Inl (js_error conflict)
      else (case r of None \<Rightarrow> Inl (js_error pending)
        | Some v \<Rightarrow> if js_truthy v then Inr (v, d) else Inl (js_error pending)))"
proof -
  have "reserve h d = None" using assms by (simp add: reserve_taken)
  then show ?thesis by (simp add: idempotent_call_def assms)
qed

lemma call_new:
  assumes "lookup d = None"
  obtains d1 where "reserve h d = Some d1" "lookup d1 = Some (h, None)"
    "call h conflict pending body d =
      (case body d1 of Inl e \<Rightarrow> Inl e | Inr (v, d2) \<Rightarrow> Inr (v, complete v d2))"
proof -
  obtain d1 where "reserve h d = Some d1" using assms reserve_taken by (cases "reserve h d") auto
  with reserve_new that show thesis by (simp add: idempotent_call_def)
qed

text \<open>A call that returns leaves its response in the store.\<close>

lemma call_stored:
  assumes "call h conflict pending body d = Inr (v, d')"
    and body: "\<And>d1 v d2. body d1 = Inr (v, d2) \<Longrightarrow> lookup d2 = lookup d1"
  shows "lookup d' = Some (h, Some v)"
proof (cases "lookup d")
  case None
  then obtain d1 where d1: "lookup d1 = Some (h, None)"
    and call: "call h conflict pending body d =
      (case body d1 of Inl e \<Rightarrow> Inl e | Inr (v, d2) \<Rightarrow> Inr (v, complete v d2))"
    by (rule call_new [of d h conflict pending body])
  from assms(1) call obtain d2 where "body d1 = Inr (v, d2)" "d' = complete v d2"
    by (auto split: sum.splits)
  with body [of d1 v d2] d1 show ?thesis by (simp add: complete_lookup)
next
  case (Some e)
  obtain h' r where "e = (h', r)" by force
  with assms(1) call_known [of d h' r h conflict pending body] Some show ?thesis
    by (auto split: if_splits option.splits)
qed

text \<open>Repeating a call returns the same response and changes nothing, whatever it would do.\<close>

lemma call_replay:
  assumes "lookup d = Some (h, Some v)" and "js_truthy v"
  shows "call h conflict pending body d = Inr (v, d)"
  using assms by (simp add: call_known)

text \<open>A key used with another request throws and changes nothing.\<close>

lemma call_conflict:
  assumes "lookup d = Some (h', r)" and "h' \<noteq> h"
  shows "call h conflict pending body d = Inl (js_error conflict)"
  using assms by (simp add: call_known)

end

section \<open>The household's records\<close>

definition tenant_key :: "tenant_context \<Rightarrow> string \<Rightarrow> idem_row \<Rightarrow> bool" where
  "tenant_key ctx key r \<longleftrightarrow> row_org r = tc_org ctx \<and> row_hh r = tc_hh ctx \<and> k_key r = key"

definition tenant_lookup :: "tenant_context \<Rightarrow> string \<Rightarrow> db \<Rightarrow> idem_entry option" where
  "tenant_lookup ctx key d =
     (case sql_select (tenant_session ctx) (tenant_key ctx key) (idem d) of
        [] \<Rightarrow> None | r # _ \<Rightarrow> Some (k_hash r, k_response r))"

text \<open>\<open>insert ... on conflict do nothing\<close>; \<open>None\<close> when no row was inserted.\<close>

definition tenant_reserve :: "tenant_context \<Rightarrow> string \<Rightarrow> int \<Rightarrow> string \<Rightarrow> db \<Rightarrow> db option" where
  "tenant_reserve ctx key now h d =
     (if list_ex (tenant_key ctx key) (idem d) then None
      else Some (d \<lparr> idem := idem d @ [\<lparr> row_org = tc_org ctx, row_hh = tc_hh ctx, k_key = key,
         k_hash = h, k_status = None, k_response = None, k_expires = now + 86400000 \<rparr>] \<rparr>))"

definition tenant_complete :: "tenant_context \<Rightarrow> string \<Rightarrow> int \<Rightarrow> json \<Rightarrow> db \<Rightarrow> db" where
  "tenant_complete ctx key status v d = d \<lparr> idem := sql_update (tenant_session ctx) (tenant_key ctx key)
     (\<lambda>r. r \<lparr> k_status := Some status, k_response := Some v \<rparr>) (idem d) \<rparr>"

lemma tenant_key_visible: "tenant_key ctx key r \<Longrightarrow> tenant_visible (tenant_session ctx) r"
  by (simp add: tenant_key_def)

lemma tenant_lookup_filter:
  "tenant_lookup ctx key d = (case filter (tenant_key ctx key) (idem d) of
     [] \<Rightarrow> None | r # _ \<Rightarrow> Some (k_hash r, k_response r))"
proof -
  have "(\<lambda>r. tenant_visible (tenant_session ctx) r \<and> tenant_key ctx key r) = tenant_key ctx key"
    by (rule ext) (auto simp: tenant_key_def)
  then show ?thesis by (simp add: tenant_lookup_def sql_select_def)
qed

lemma tenant_lookup_None: "tenant_lookup ctx key d = None \<longleftrightarrow> (\<forall>r \<in> set (idem d). \<not> tenant_key ctx key r)"
  by (auto simp: tenant_lookup_filter filter_empty_conv dest: filter_hd_Some split: list.splits)

lemma tenant_key_frame [simp]:
  "tenant_key ctx key (r \<lparr> k_status := st, k_response := v \<rparr>) = tenant_key ctx key r"
  by (simp add: tenant_key_def)

lemma filter_tenant_update:
  "filter (tenant_key ctx key) (sql_update (tenant_session ctx) (tenant_key ctx key)
      (\<lambda>r. r \<lparr> k_status := Some st, k_response := Some v \<rparr>) t)
   = map (\<lambda>r. r \<lparr> k_status := Some st, k_response := Some v \<rparr>) (filter (tenant_key ctx key) t)"
  by (induction t) (auto simp: sql_update_def dest: tenant_key_visible)

interpretation tenant_idem: idempotency_store "tenant_lookup ctx key" "tenant_reserve ctx key now"
  "tenant_complete ctx key status" for ctx key now status
proof
  fix h d
  show "(tenant_reserve ctx key now h d = None) = (tenant_lookup ctx key d \<noteq> None)"
    by (auto simp: tenant_reserve_def tenant_lookup_None list_ex_iff)
next
  fix h d d1 assume "tenant_reserve ctx key now h d = Some d1"
  then show "tenant_lookup ctx key d1 = Some (h, None)"
    by (auto simp: tenant_reserve_def tenant_lookup_filter list_ex_iff tenant_key_def filter_empty_conv
        split: if_splits list.splits)
next
  fix d h r v assume "tenant_lookup ctx key d = Some (h, r)"
  then show "tenant_lookup ctx key (tenant_complete ctx key status v d) = Some (h, Some v)"
    by (auto simp: tenant_lookup_filter tenant_complete_def filter_tenant_update split: list.splits)
qed

section \<open>The account's records\<close>

definition account_key :: "string \<Rightarrow> string \<Rightarrow> account_idem_row \<Rightarrow> bool" where
  "account_key user key r \<longleftrightarrow> ai_user r = user \<and> ai_key r = key"

definition account_lookup :: "string \<Rightarrow> string \<Rightarrow> db \<Rightarrow> idem_entry option" where
  "account_lookup user key d = (case filter (account_key user key) (account_idem d) of
     [] \<Rightarrow> None | r # _ \<Rightarrow> Some (ai_hash r, ai_response r))"

definition account_reserve :: "string \<Rightarrow> string \<Rightarrow> int \<Rightarrow> string \<Rightarrow> db \<Rightarrow> db option" where
  "account_reserve user key now h d =
     (if list_ex (account_key user key) (account_idem d) then None
      else Some (d \<lparr> account_idem := account_idem d @ [\<lparr> ai_user = user, ai_key = key, ai_hash = h,
         ai_response = None, ai_expires = now + 86400000 \<rparr>] \<rparr>))"

definition account_complete :: "string \<Rightarrow> string \<Rightarrow> json \<Rightarrow> db \<Rightarrow> db" where
  "account_complete user key v d = d \<lparr> account_idem :=
     map (\<lambda>r. if account_key user key r then r \<lparr> ai_response := Some v \<rparr> else r) (account_idem d) \<rparr>"

lemma filter_account_update:
  "filter (account_key user key) (map (\<lambda>r. if account_key user key r then r \<lparr> ai_response := v \<rparr> else r) t)
   = map (\<lambda>r. r \<lparr> ai_response := v \<rparr>) (filter (account_key user key) t)"
  by (induction t) (auto simp: account_key_def)

interpretation account_idem: idempotency_store "account_lookup user key" "account_reserve user key now"
  "account_complete user key" for user key now
proof
  fix h d
  show "(account_reserve user key now h d = None) = (account_lookup user key d \<noteq> None)"
    by (auto simp: account_reserve_def account_lookup_def list_ex_iff filter_empty_conv split: list.splits)
next
  fix h d d1 assume "account_reserve user key now h d = Some d1"
  then show "account_lookup user key d1 = Some (h, None)"
    by (auto simp: account_reserve_def account_lookup_def list_ex_iff account_key_def filter_empty_conv
        split: if_splits list.splits)
next
  fix d h r v assume "account_lookup user key d = Some (h, r)"
  then show "account_lookup user key (account_complete user key v d) = Some (h, Some v)"
    by (auto simp: account_lookup_def account_complete_def filter_account_update split: list.splits)
qed

section \<open>Frames\<close>

lemma tenant_reserve_frame:
  "tenant_reserve ctx key now h d = Some d1 \<Longrightarrow>
     foreign (tenant_session ctx) d1 = foreign (tenant_session ctx) d \<and> (\<exists>t. d1 = d \<lparr> idem := t \<rparr>)"
  by (auto simp: tenant_reserve_def split: if_splits)

lemma tenant_complete_frame [simp]:
  "foreign (tenant_session ctx) (tenant_complete ctx key status v d) = foreign (tenant_session ctx) d"
  by (simp add: tenant_complete_def)

text \<open>What an idempotent call of a household leaves alone, when its body does.\<close>

lemma idempotent_call_foreign:
  assumes "idempotent_call (tenant_lookup ctx key) (tenant_reserve ctx key now) (tenant_complete ctx key st)
      h conflict pending body d = Inr (v, d')"
    and "\<And>d1 v d2. body d1 = Inr (v, d2) \<Longrightarrow> foreign (tenant_session ctx) d2 = foreign (tenant_session ctx) d1"
  shows "foreign (tenant_session ctx) d' = foreign (tenant_session ctx) d"
proof (cases "tenant_reserve ctx key now h d")
  case (Some d1)
  with assms(1) obtain d2 where "body d1 = Inr (v, d2)" "d' = tenant_complete ctx key st v d2"
    by (auto simp: idempotent_call_def split: sum.splits)
  with assms(2) tenant_reserve_frame [OF Some] show ?thesis by simp
qed (use assms(1) in \<open>auto simp: idempotent_call_def split: option.splits if_splits\<close>)

text \<open>
  A call that returns either replayed a stored response, or ran its body between the reservation
  and the completion of its record.
\<close>

lemma tenant_call_cases:
  assumes "idempotent_call (tenant_lookup ctx key) (tenant_reserve ctx key now) (tenant_complete ctx key st)
      h conflict pending body d = Inr (v, d')"
  obtains (replayed) "d' = d" "js_truthy v" "tenant_lookup ctx key d = Some (h, Some v)"
  | (ran) t d2 t' where "tenant_lookup ctx key d = None" "body (d \<lparr> idem := t \<rparr>) = Inr (v, d2)"
      "d' = d2 \<lparr> idem := t' \<rparr>"
proof (cases "tenant_reserve ctx key now h d")
  case None
  with assms have "tenant_lookup ctx key d = Some (h, Some v)" "js_truthy v" "d' = d"
    by (auto simp: idempotent_call_def split: option.splits if_splits)
  then show thesis by (intro replayed)
next
  case (Some d1)
  with assms obtain d2 where b: "body d1 = Inr (v, d2)" "d' = tenant_complete ctx key st v d2"
    by (auto simp: idempotent_call_def split: sum.splits)
  from tenant_reserve_frame [OF Some] obtain t where t: "d1 = d \<lparr> idem := t \<rparr>" by blast
  have "tenant_lookup ctx key d = None"
    using tenant_idem.reserve_taken [of ctx key now h d] Some by (metis option.discI)
  then show thesis by (rule ran) (use b t in \<open>simp_all add: tenant_complete_def\<close>)
qed

lemma account_call_cases:
  assumes "idempotent_call (account_lookup user key) (account_reserve user key now) (account_complete user key)
      h conflict pending body d = Inr (v, d')"
  obtains (replayed) "d' = d" "js_truthy v" "account_lookup user key d = Some (h, Some v)"
  | (ran) t d2 t' where "account_lookup user key d = None" "body (d \<lparr> account_idem := t \<rparr>) = Inr (v, d2)"
      "d' = d2 \<lparr> account_idem := t' \<rparr>"
proof (cases "account_reserve user key now h d")
  case None
  with assms have "account_lookup user key d = Some (h, Some v)" "js_truthy v" "d' = d"
    by (auto simp: idempotent_call_def split: option.splits if_splits)
  then show thesis by (intro replayed)
next
  case (Some d1)
  with assms obtain d2 where b: "body d1 = Inr (v, d2)" "d' = account_complete user key v d2"
    by (auto simp: idempotent_call_def split: sum.splits)
  from Some obtain t where t: "d1 = d \<lparr> account_idem := t \<rparr>"
    by (auto simp: account_reserve_def split: if_splits)
  have "account_lookup user key d = None"
    using account_idem.reserve_taken [of user key now h d] Some by (metis option.discI)
  then show thesis by (rule ran) (use b t in \<open>simp_all add: account_complete_def\<close>)
qed

lemma tenant_lookup_cong: "idem d2 = idem d1 \<Longrightarrow> tenant_lookup ctx key d2 = tenant_lookup ctx key d1"
  by (simp add: tenant_lookup_def)

lemma account_lookup_cong:
  "account_idem d2 = account_idem d1 \<Longrightarrow> account_lookup user key d2 = account_lookup user key d1"
  by (simp add: account_lookup_def)

text \<open>A fresh key is reserved, whatever the hash.\<close>

lemma account_reserve_fresh:
  assumes "account_lookup user key d = None"
  shows "\<exists>t. account_reserve user key now h d = Some (d \<lparr> account_idem := t \<rparr>)"
proof -
  have "\<not> list_ex (account_key user key) (account_idem d)"
    using assms by (auto simp: account_lookup_def list_ex_iff filter_empty_conv split: list.splits)
  then show ?thesis unfolding account_reserve_def by (simp only: if_False) blast
qed

lemma tenant_reserve_fresh:
  assumes "tenant_lookup ctx key d = None"
  shows "\<exists>t. tenant_reserve ctx key now h d = Some (d \<lparr> idem := t \<rparr>)"
proof -
  have "\<not> list_ex (tenant_key ctx key) (idem d)"
    using assms by (auto simp: tenant_lookup_None list_ex_iff)
  then show ?thesis unfolding tenant_reserve_def by (simp only: if_False) blast
qed

end
