(* ===== verification/Membership_Store.thy ===== *)
theory Membership_Store
  imports Idempotency Access_Policy
begin

text \<open>
  The household, invitation and membership methods of \<open>repository.ts\<close>
  (\<open>createHouseholdForAccount\<close> to \<open>acceptMembershipInvitation\<close>).  \<open>H\<close> is the hexadecimal SHA-256
  of a text, \<open>now\<close> the database's clock; identifiers and ciphertexts come in with the input, as
  the routes pass them.
\<close>

section \<open>Shared statements\<close>

definition assignableHouseholdRoles :: "role list" where
  "assignableHouseholdRoles = [CoOwner, Editor, FamilyHelper, ProfessionalAdvisor, ReadOnlyViewer,
     EmergencyRecipient]"

definition requireAssignableHouseholdRole :: "role \<Rightarrow> unit result" where
  "requireAssignableHouseholdRole r =
     guard (r \<in> set assignableHouseholdRoles) (js_error ''membership role is not assignable'')"

text \<open>\<open>update households set version=version+1 where ... returning\<close>: the updated row.\<close>

definition bump_household ::
  "session \<Rightarrow> (household_row \<Rightarrow> bool) \<Rightarrow> db \<Rightarrow> (household_row \<times> db) option" where
  "bump_household s p d =
     (let f = (\<lambda>h. h \<lparr> row_version := row_version h + 1 \<rparr>) in
      case sql_select s p (households d) of
        [] \<Rightarrow> None
      | h # _ \<Rightarrow> Some (f h, d \<lparr> households := sql_update s p f (households d) \<rparr>))"

text \<open>The unique indexes of \<open>memberships\<close>, \<open>household_keys\<close> and \<open>membership_invitations\<close>.\<close>

definition same_membership :: "membership_row \<Rightarrow> membership_row \<Rightarrow> bool" where
  "same_membership r r' \<longleftrightarrow> same_id r r' \<or> (row_org r = row_org r' \<and> row_hh r = row_hh r'
     \<and> m_auth_user r \<noteq> None \<and> m_auth_user r = m_auth_user r')"

definition same_household_key :: "household_key_row \<Rightarrow> household_key_row \<Rightarrow> bool" where
  "same_household_key r r' \<longleftrightarrow> same_id r r'
     \<or> (row_hh r = row_hh r' \<and> hk_key_version r = hk_key_version r')
     \<or> (row_hh r = row_hh r' \<and> hk_status r = ''active'' \<and> hk_status r' = ''active'')"

definition same_invitation :: "invitation_row \<Rightarrow> invitation_row \<Rightarrow> bool" where
  "same_invitation r r' \<longleftrightarrow> same_id r r' \<or> i_token_hash r = i_token_hash r'
     \<or> (row_org r = row_org r' \<and> row_hh r = row_hh r' \<and> i_email_hash r = i_email_hash r'
        \<and> i_accepted r = None \<and> i_revoked r = None \<and> i_accepted r' = None \<and> i_revoked r' = None)"

definition membership_json :: "membership_row \<Rightarrow> json" where
  "membership_json m = JObj [(''id'', JStr (row_id m)), (''role'', JStr (m_role m)),
     (''version'', JNum (row_version m))]"

definition household_json :: "household_row \<Rightarrow> json" where
  "household_json h = JObj [(''id'', JStr (row_id h)), (''name'', JStr (h_name h)),
     (''version'', JNum (row_version h))]"

definition new_person :: "string \<Rightarrow> string \<Rightarrow> string \<Rightarrow> string \<Rightarrow> int \<Rightarrow> person_row" where
  "new_person org hh i ciphertext key_version = \<lparr> row_org = org, row_hh = hh, row_id = i,
     row_version = 1, p_display_name = ciphertext, p_key_version = key_version \<rparr>"

definition new_membership :: "string \<Rightarrow> string \<Rightarrow> string \<Rightarrow> string \<Rightarrow> string \<Rightarrow> string \<Rightarrow> membership_row" where
  "new_membership org hh i person rolename user = \<lparr> row_org = org, row_hh = hh, row_id = i,
     row_version = 1, m_person = person, m_role = rolename, m_auth_user = Some user, m_active = 1 \<rparr>"

section \<open>Households\<close>

record household_input =
  hi_key :: string
  hi_org :: string
  hi_org_name :: string
  hi_household :: string
  hi_household_name :: string
  hi_person :: string
  hi_membership :: string
  hi_display_name :: string
  hi_key_version :: int
  hi_household_key :: string
  hi_wrapped_key :: json

definition create_household_body ::
  "string \<Rightarrow> household_input \<Rightarrow> int \<Rightarrow> session \<Rightarrow> json op" where
  "create_household_body user input now s0 d =
     (let s = s0 \<lparr> ss_org := Some (hi_org input), ss_hh := Some (hi_household input) \<rparr>;
          h = \<lparr> row_org = hi_org input, row_hh = hi_household input, row_id = hi_household input,
             row_version = 1, h_name = hi_household_name input, h_last_reviewed = None \<rparr>;
          m = new_membership (hi_org input) (hi_household input) (hi_membership input)
             (hi_person input) (role_name Owner) user
      in if list_ex (\<lambda>o'. o_id o' = hi_org input) (organizations d) then Inl pg_unique_violation
      else if hi_key_version input \<le> 0 then Inl pg_check_violation
      else
       res_bind (sql_insert s same_id h (households d)) (\<lambda>hs.
       res_bind (sql_insert s same_household_key \<lparr> row_org = hi_org input, row_hh = hi_household input,
           row_id = hi_household_key input, hk_key_version = hi_key_version input,
           hk_wrapped_key = hi_wrapped_key input, hk_status = ''active'', hk_created = now,
           hk_retired = None \<rparr> (household_keys d)) (\<lambda>ks.
       res_bind (sql_insert s same_id (new_person (hi_org input) (hi_household input) (hi_person input)
           (hi_display_name input) (hi_key_version input)) (people d)) (\<lambda>ps.
       res_bind (sql_insert s same_membership m (memberships d)) (\<lambda>ms.
       Inr (JObj [(''household'', household_json h), (''membership'', membership_json m)],
            d \<lparr> organizations := organizations d @ [\<lparr> o_id = hi_org input, o_name = hi_org_name input \<rparr>],
               households := hs, household_keys := ks, people := ps, memberships := ms \<rparr>))))))"

definition household_request_hash :: "(string \<Rightarrow> string) \<Rightarrow> household_input \<Rightarrow> string" where
  "household_request_hash H input = H (json_stringify (JObj
     [(''organizationName'', JStr (hi_org_name input)), (''householdName'', JStr (hi_household_name input)),
      (''expectedVersion'', JNum 0)]))"

definition createHouseholdForAccount ::
  "(string \<Rightarrow> string) \<Rightarrow> string \<Rightarrow> household_input \<Rightarrow> int \<Rightarrow> db \<Rightarrow> json result \<times> db" where
  "createHouseholdForAccount H user input now = withAccount user (\<lambda>s.
     idempotent_call (account_lookup user (hi_key input)) (account_reserve user (hi_key input) now)
       (account_complete user (hi_key input)) (household_request_hash H input)
       ''account idempotency key conflict'' ''household creation is still processing''
       (create_household_body user input now s))"

record household_summary =
  hs_id :: string
  hs_org :: string
  hs_name :: string
  hs_version :: int
  hs_membership :: string
  hs_person :: string
  hs_role :: string

definition listHouseholdsForAccount ::
  "(string \<Rightarrow> 'k::linorder) \<Rightarrow> string \<Rightarrow> db \<Rightarrow> household_summary list result \<times> db" where
  "listHouseholdsForAccount collate user = withAccount user (\<lambda>s d.
     (let rows = concat (map (\<lambda>m. map (\<lambda>h. (m, h))
              (filter (\<lambda>h. household_visible s d h \<and> row_id h = row_hh m \<and> row_org h = row_org m) (households d)))
            (filter (\<lambda>m. membership_visible s m \<and> m_auth_user m = Some user \<and> m_active m = 1) (memberships d)))
      in Inr (map (\<lambda>(m, h). \<lparr> hs_id = row_id h, hs_org = row_org h, hs_name = h_name h,
           hs_version = row_version h, hs_membership = row_id m, hs_person = m_person m,
           hs_role = m_role m \<rparr>)
         (order_by (\<lambda>(m, h). collate (h_name h)) (order_by (\<lambda>(m, h). row_id h) rows)), d)))"

record member_summary =
  ms_id :: string
  ms_person :: string
  ms_role :: string
  ms_active :: bool
  ms_version :: int
  ms_display_name :: string
  ms_key_version :: int

definition listHouseholdMembers :: "tenant_context \<Rightarrow> db \<Rightarrow> member_summary list result \<times> db" where
  "listHouseholdMembers ctx = withTenant ctx (\<lambda>s d.
     (let rows = concat (map (\<lambda>m. map (\<lambda>p. (m, p)) (sql_select s (\<lambda>p. row_id p = m_person m) (people d)))
              (sql_select s (\<lambda>_. True) (memberships d)))
      in Inr (map (\<lambda>(m, p). \<lparr> ms_id = row_id m, ms_person = m_person m, ms_role = m_role m,
           ms_active = (m_active m = 1), ms_version = row_version m,
           ms_display_name = p_display_name p, ms_key_version = p_key_version p \<rparr>)
         (order_by (\<lambda>(m, p). row_id m) rows), d)))"

section \<open>Invitations\<close>

record invitation_input =
  ii_key :: string
  ii_household_version :: int
  ii_id :: string
  ii_email_hash :: string
  ii_token_hash :: string
  ii_role :: role
  ii_invited_by :: string
  ii_expires :: int

definition create_invitation_body :: "tenant_context \<Rightarrow> invitation_input \<Rightarrow> session \<Rightarrow> json op" where
  "create_invitation_body ctx input s d =
     (case bump_household s (\<lambda>h. row_id h = tc_hh ctx \<and> row_version h = ii_household_version input) d of
        None \<Rightarrow> Inl (js_error ''membership invitation version conflict'')
      | Some (h, d1) \<Rightarrow>
        if row_version h = 0 then Inl (js_error ''membership invitation version conflict'')
        else (case sql_insert s same_invitation \<lparr> row_org = tc_org ctx, row_hh = tc_hh ctx,
                 row_id = ii_id input, row_version = 1, i_email_hash = ii_email_hash input,
                 i_token_hash = ii_token_hash input, i_role = role_name (ii_role input),
                 i_invited_by = ii_invited_by input, i_expires = ii_expires input, i_accepted = None,
                 i_accepted_by = None, i_revoked = None \<rparr> (invitations d1) of
            Inl e \<Rightarrow> Inl (if e = pg_unique_violation then js_error ''membership invitation conflict'' else e)
          | Inr t \<Rightarrow> Inr (JObj [(''invitation'', JObj [(''id'', JStr (ii_id input)),
                (''role'', JStr (role_name (ii_role input))),
                (''expiresAt'', JStr (toISOString (ii_expires input))), (''version'', JNum 1)]),
              (''householdVersion'', JNum (row_version h))], d1 \<lparr> invitations := t \<rparr>)))"

definition invitation_request_hash :: "(string \<Rightarrow> string) \<Rightarrow> invitation_input \<Rightarrow> string" where
  "invitation_request_hash H input = H (json_stringify (JObj
     [(''emailHash'', JStr (ii_email_hash input)), (''role'', JStr (role_name (ii_role input))),
      (''expectedHouseholdVersion'', JNum (ii_household_version input))]))"

definition createMembershipInvitation ::
  "(string \<Rightarrow> string) \<Rightarrow> tenant_context \<Rightarrow> invitation_input \<Rightarrow> int \<Rightarrow> db \<Rightarrow> json result \<times> db" where
  "createMembershipInvitation H ctx input now d =
     (case requireAssignableHouseholdRole (ii_role input) of
        Inl e \<Rightarrow> (Inl e, d)
      | Inr _ \<Rightarrow> withTenant ctx (\<lambda>s.
          idempotent_call (tenant_lookup ctx (ii_key input)) (tenant_reserve ctx (ii_key input) now)
            (tenant_complete ctx (ii_key input) 201) (invitation_request_hash H input)
            ''membership invitation idempotency conflict'' ''membership invitation is still processing''
            (create_invitation_body ctx input s)) d)"

record invitation_context =
  ic_id :: string
  ic_org :: string
  ic_hh :: string
  ic_role :: string
  ic_version :: int
  ic_expires :: int

definition getMembershipInvitationForAcceptance ::
  "string \<Rightarrow> string \<Rightarrow> string \<Rightarrow> iso \<Rightarrow> db \<Rightarrow> invitation_context option result \<times> db" where
  "getMembershipInvitationForAcceptance user token_hash email_hash now = withAccount user (\<lambda>s0 d.
     (let s = s0 \<lparr> ss_token := Some token_hash \<rparr> in
      Inr (case filter (\<lambda>i. invitation_visible s i \<and> i_token_hash i = token_hash) (invitations d) of
          [] \<Rightarrow> None
        | r # _ \<Rightarrow>
          (let by_this = (i_accepted r \<noteq> None \<and> i_accepted_by r = Some user) in
           if i_email_hash r \<noteq> email_hash \<or> i_revoked r \<noteq> None
              \<or> (\<not> by_this \<and> (i_accepted r \<noteq> None \<or> num_le (Some (i_expires r)) (date_parse now)))
           then None
           else Some \<lparr> ic_id = row_id r, ic_org = row_org r, ic_hh = row_hh r, ic_role = i_role r,
                 ic_version = row_version r, ic_expires = i_expires r \<rparr>), d)))"

definition revoke_invitation_body ::
  "tenant_context \<Rightarrow> string \<Rightarrow> int \<Rightarrow> int \<Rightarrow> session \<Rightarrow> json op" where
  "revoke_invitation_body ctx invitation_id expected_version revoked_at s d =
     (let p = (\<lambda>i. row_id i = invitation_id \<and> row_version i = expected_version
                 \<and> i_accepted i = None \<and> i_revoked i = None);
          f = (\<lambda>i. i \<lparr> i_revoked := Some revoked_at, row_version := row_version i + 1 \<rparr>)
      in case sql_select s p (invitations d) of
           [] \<Rightarrow> Inl (js_error ''membership invitation revocation conflict'')
         | r # _ \<Rightarrow>
           (case bump_household s (\<lambda>h. row_id h = tc_hh ctx) (d \<lparr> invitations := sql_update s p f (invitations d) \<rparr>) of
              None \<Rightarrow> Inl (js_error ''membership invitation household update failed'')
            | Some (h, d2) \<Rightarrow>
              if row_version h = 0 then Inl (js_error ''membership invitation household update failed'')
              else Inr (JObj [(''invitation'', JObj [(''id'', JStr (row_id r)), (''status'', JStr ''revoked''),
                    (''version'', JNum (row_version r + 1))]), (''householdVersion'', JNum (row_version h))], d2)))"

definition revokeMembershipInvitation ::
  "(string \<Rightarrow> string) \<Rightarrow> tenant_context \<Rightarrow> string \<Rightarrow> int \<Rightarrow> string \<Rightarrow> int \<Rightarrow> int \<Rightarrow> db \<Rightarrow> json result \<times> db" where
  "revokeMembershipInvitation H ctx invitation_id expected_version key revoked_at now = withTenant ctx (\<lambda>s.
     idempotent_call (tenant_lookup ctx key) (tenant_reserve ctx key now) (tenant_complete ctx key 200)
       (H (json_stringify (JObj [(''invitationId'', JStr invitation_id), (''expectedVersion'', JNum expected_version)])))
       ''invitation revocation idempotency conflict'' ''invitation revocation is still processing''
       (revoke_invitation_body ctx invitation_id expected_version revoked_at s))"

section \<open>Memberships\<close>

definition update_role_body ::
  "tenant_context \<Rightarrow> string \<Rightarrow> role \<Rightarrow> int \<Rightarrow> session \<Rightarrow> json op" where
  "update_role_body ctx membership_id new_role expected_version s d =
     (let p = (\<lambda>m. row_id m = membership_id \<and> row_version m = expected_version \<and> m_active m = 1
                 \<and> m_role m \<noteq> ''Owner'');
          f = (\<lambda>m. m \<lparr> m_role := role_name new_role, row_version := row_version m + 1 \<rparr>)
      in case sql_select s p (memberships d) of
           [] \<Rightarrow> Inl (js_error ''membership role update conflict'')
         | m # _ \<Rightarrow>
           (case bump_household s (\<lambda>h. row_id h = tc_hh ctx) (d \<lparr> memberships := sql_update s p f (memberships d) \<rparr>) of
              None \<Rightarrow> Inl (js_error ''membership household update failed'')
            | Some (h, d2) \<Rightarrow>
              if row_version h = 0 then Inl (js_error ''membership household update failed'')
              else Inr (JObj [(''membership'', membership_json (f m)), (''householdVersion'', JNum (row_version h))], d2)))"

definition updateMembershipRole ::
  "(string \<Rightarrow> string) \<Rightarrow> tenant_context \<Rightarrow> string \<Rightarrow> role \<Rightarrow> int \<Rightarrow> string \<Rightarrow> int \<Rightarrow> db \<Rightarrow> json result \<times> db" where
  "updateMembershipRole H ctx membership_id new_role expected_version key now d =
     (case requireAssignableHouseholdRole new_role of
        Inl e \<Rightarrow> (Inl e, d)
      | Inr _ \<Rightarrow> withTenant ctx (\<lambda>s.
          idempotent_call (tenant_lookup ctx key) (tenant_reserve ctx key now) (tenant_complete ctx key 200)
            (H (json_stringify (JObj [(''membershipId'', JStr membership_id),
              (''role'', JStr (role_name new_role)), (''expectedVersion'', JNum expected_version)])))
            ''membership role idempotency conflict'' ''membership role update is still processing''
            (update_role_body ctx membership_id new_role expected_version s)) d)"

record accept_input =
  acc_key :: string
  acc_token_hash :: string
  acc_email_hash :: string
  acc_name_hash :: string
  acc_version :: int
  acc_person :: string
  acc_membership :: string
  acc_display_name :: string
  acc_key_version :: int
  acc_at :: int

text \<open>The tests made on the invitation before and after its tenant is set.\<close>

definition invitation_open :: "accept_input \<Rightarrow> invitation_row \<Rightarrow> bool" where
  "invitation_open input i \<longleftrightarrow> i_email_hash i = acc_email_hash input \<and> i_accepted i = None
     \<and> i_revoked i = None \<and> acc_at input < i_expires i"

definition accept_invitation_body :: "string \<Rightarrow> accept_input \<Rightarrow> session \<Rightarrow> json op" where
  "accept_invitation_body user input s0 d =
     (let s1 = s0 \<lparr> ss_token := Some (acc_token_hash input) \<rparr> in
      case filter (\<lambda>i. invitation_visible s1 i \<and> i_token_hash i = acc_token_hash input) (invitations d) of
        [] \<Rightarrow> Inl (js_error ''membership invitation unavailable'')
      | v # _ \<Rightarrow>
        if \<not> invitation_open input v then Inl (js_error ''membership invitation unavailable'')
        else
        (let s = s1 \<lparr> ss_org := Some (row_org v), ss_hh := Some (row_hh v) \<rparr> in
         case filter (\<lambda>i. invitation_visible s i \<and> row_id i = row_id v) (invitations d) of
           [] \<Rightarrow> Inl (js_error ''membership invitation unavailable'')
         | i # _ \<Rightarrow>
           if \<not> invitation_open input i then Inl (js_error ''membership invitation unavailable'')
           else if row_version i \<noteq> acc_version input then Inl (js_error ''membership invitation version conflict'')
           else if acc_key_version input \<le> 0 then Inl pg_check_violation
           else
             (let m = new_membership (row_org i) (row_hh i) (acc_membership input) (acc_person input) (i_role i) user;
                  p = (\<lambda>r. row_id r = row_id i \<and> row_version r = acc_version input
                          \<and> i_accepted r = None \<and> i_revoked r = None);
                  f = (\<lambda>r. r \<lparr> i_accepted := Some (acc_at input), i_accepted_by := Some user,
                          row_version := row_version r + 1 \<rparr>)
              in
              res_bind (sql_insert s same_id (new_person (row_org i) (row_hh i) (acc_person input)
                  (acc_display_name input) (acc_key_version input)) (people d)) (\<lambda>ps.
              res_bind (sql_insert s same_membership m (memberships d)) (\<lambda>ms.
              if length (sql_select s p (invitations d)) \<noteq> 1
              then Inl (js_error ''membership invitation version conflict'')
              else (case bump_household s (\<lambda>h. row_id h = row_hh i)
                       (d \<lparr> people := ps, memberships := ms, invitations := sql_update s p f (invitations d) \<rparr>) of
                  None \<Rightarrow> Inl (js_error ''membership acceptance returned no row'')
                | Some (h, d2) \<Rightarrow>
                  Inr (JObj [(''household'', household_json h), (''membership'', membership_json m)], d2)))))))"

definition acceptMembershipInvitation ::
  "(string \<Rightarrow> string) \<Rightarrow> string \<Rightarrow> accept_input \<Rightarrow> int \<Rightarrow> db \<Rightarrow> json result \<times> db" where
  "acceptMembershipInvitation H user input now = withAccount user (\<lambda>s.
     idempotent_call (account_lookup user (acc_key input)) (account_reserve user (acc_key input) now)
       (account_complete user (acc_key input))
       (H (json_stringify (JObj [(''tokenHash'', JStr (acc_token_hash input)),
          (''emailHash'', JStr (acc_email_hash input)), (''displayNameHash'', JStr (acc_name_hash input)),
          (''expectedInvitationVersion'', JNum (acc_version input))])))
       ''invitation acceptance idempotency conflict'' ''invitation acceptance is still processing''
       (accept_invitation_body user input s))"

section \<open>What the bodies do\<close>

lemma bump_household_Some:
  assumes "bump_household s p d = Some (h, d')"
  shows "\<exists>h0 \<in> set (households d). tenant_visible s h0 \<and> p h0 \<and> h = h0 \<lparr> row_version := row_version h0 + 1 \<rparr>
    \<and> d' = d \<lparr> households := sql_update s p (\<lambda>h. h \<lparr> row_version := row_version h + 1 \<rparr>) (households d) \<rparr>"
proof (cases "sql_select s p (households d)")
  case (Cons r rs)
  from sql_select_hd [OF Cons] assms show ?thesis
    unfolding bump_household_def Let_def Cons list.case by (intro bexI [of _ r]) auto
qed (use assms in \<open>simp add: bump_household_def\<close>)

lemma bump_household_frame:
  assumes "bump_household s p d = Some (h, d')"
  obtains hs where "d' = d \<lparr> households := hs \<rparr>" "hidden s hs = hidden s (households d)"
  using bump_household_Some [OF assms] by (auto intro: that)

text \<open>How the invitations of the database can evolve in one operation.\<close>

definition keeps_invitation :: "(invitation_row \<Rightarrow> invitation_row) \<Rightarrow> bool" where
  "keeps_invitation g \<longleftrightarrow> (\<forall>r. row_id (g r) = row_id r \<and> i_token_hash (g r) = i_token_hash r
     \<and> i_role (g r) = i_role r \<and> (i_accepted r \<noteq> None \<longrightarrow> i_accepted (g r) = i_accepted r))"

definition assignable_names :: "string set" where
  "assignable_names = role_name ` set assignableHouseholdRoles"

definition invitations_evolve :: "invitation_row list \<Rightarrow> invitation_row list \<Rightarrow> bool" where
  "invitations_evolve t t' \<longleftrightarrow> (\<exists>g. keeps_invitation g \<and> t' = map g t)
     \<or> (\<exists>r. t' = t @ [r] \<and> i_role r \<in> assignable_names \<and> \<not> list_ex (same_invitation r) t)"

definition invitations_ok :: "invitation_row list \<Rightarrow> bool" where
  "invitations_ok t \<longleftrightarrow> distinct (map row_id t) \<and> distinct (map i_token_hash t)
     \<and> (\<forall>i \<in> set t. i_role i \<in> assignable_names)"

definition token_used :: "string \<Rightarrow> invitation_row list \<Rightarrow> bool" where
  "token_used token t \<longleftrightarrow> (\<exists>i \<in> set t. i_token_hash i = token \<and> i_accepted i \<noteq> None)"

definition owner_rows :: "db \<Rightarrow> membership_row list" where
  "owner_rows d = filter (\<lambda>m. m_role m = ''Owner'') (memberships d)"

lemma owner_not_assignable [simp]: "''Owner'' \<notin> assignable_names"
  by (simp add: assignable_names_def assignableHouseholdRoles_def)

lemma assignable_name: "requireAssignableHouseholdRole r = Inr u \<Longrightarrow> role_name r \<in> assignable_names"
  by (auto simp: requireAssignableHouseholdRole_def assignable_names_def)

lemma evolve_refl [simp]: "invitations_evolve t t"
  unfolding invitations_evolve_def keeps_invitation_def by (rule disjI1, rule exI [of _ id]) simp

lemma evolve_update:
  assumes "\<And>r. row_id (f r) = row_id r" "\<And>r. i_token_hash (f r) = i_token_hash r"
    and "\<And>r. i_role (f r) = i_role r" "\<And>r. p r \<Longrightarrow> i_accepted r = None"
  shows "invitations_evolve t (sql_update s p f t)"
  unfolding invitations_evolve_def keeps_invitation_def sql_update_def
  by (rule disjI1, rule exI [of _ "\<lambda>r. if tenant_visible s r \<and> p r then f r else r"]) (use assms in auto)

lemma evolve_ok: "invitations_evolve t t' \<Longrightarrow> invitations_ok t \<Longrightarrow> invitations_ok t'"
  unfolding invitations_evolve_def
proof (elim disjE exE conjE)
  fix g assume g: "keeps_invitation g" "t' = map g t" and ok: "invitations_ok t"
  have "map row_id t' = map row_id t" "map i_token_hash t' = map i_token_hash t" "map i_role t' = map i_role t"
    using g(1) unfolding g(2) keeps_invitation_def map_map comp_def by simp_all
  moreover have "\<forall>i \<in> set t'. i_role i \<in> assignable_names"
    using g ok by (auto simp: invitations_ok_def keeps_invitation_def)
  ultimately show ?thesis using ok by (simp add: invitations_ok_def)
next
  fix r assume r: "t' = t @ [r]" "i_role r \<in> assignable_names" "\<not> list_ex (same_invitation r) t"
    and ok: "invitations_ok t"
  from r(3) have "row_id r \<notin> row_id ` set t \<and> i_token_hash r \<notin> i_token_hash ` set t"
    by (auto simp: list_ex_iff same_invitation_def same_id_def)
  with r ok show ?thesis by (auto simp: invitations_ok_def)
qed

lemma evolve_used:
  assumes "invitations_evolve t t'" and "token_used token t"
  shows "token_used token t'"
proof -
  from assms(2) obtain i where i: "i \<in> set t" "i_token_hash i = token" "i_accepted i \<noteq> None"
    by (auto simp: token_used_def)
  from assms(1) consider g where "keeps_invitation g" "t' = map g t" | r where "t' = t @ [r]"
    unfolding invitations_evolve_def by blast
  then show ?thesis
  proof cases
    case 1
    with i have "g i \<in> set t'" "i_token_hash (g i) = token" "i_accepted (g i) \<noteq> None"
      by (simp_all add: keeps_invitation_def)
    then show ?thesis unfolding token_used_def by blast
  next
    case 2
    with i show ?thesis by (auto simp: token_used_def)
  qed
qed

lemma create_invitation_effect:
  assumes "create_invitation_body ctx input (tenant_session ctx) d = Inr (v, d')"
    and "role_name (ii_role input) \<in> assignable_names"
  shows "invitations_evolve (invitations d) (invitations d') \<and> memberships d' = memberships d
    \<and> foreign (tenant_session ctx) d' = foreign (tenant_session ctx) d \<and> idem d' = idem d
    \<and> js_truthy v"
proof -
  from assms(1) obtain h d1 t where b: "bump_household (tenant_session ctx)
      (\<lambda>h. row_id h = tc_hh ctx \<and> row_version h = ii_household_version input) d = Some (h, d1)"
    and t: "sql_insert (tenant_session ctx) same_invitation \<lparr> row_org = tc_org ctx, row_hh = tc_hh ctx,
                 row_id = ii_id input, row_version = 1, i_email_hash = ii_email_hash input,
                 i_token_hash = ii_token_hash input, i_role = role_name (ii_role input),
                 i_invited_by = ii_invited_by input, i_expires = ii_expires input, i_accepted = None,
                 i_accepted_by = None, i_revoked = None \<rparr> (invitations d1) = Inr t"
      "d' = d1 \<lparr> invitations := t \<rparr>" "js_truthy v"
    by (auto simp: create_invitation_body_def split: option.splits sum.splits if_splits)
  obtain hs where hs: "d1 = d \<lparr> households := hs \<rparr>"
    "hidden (tenant_session ctx) hs = hidden (tenant_session ctx) (households d)"
    by (rule bump_household_frame [OF b])
  from t(1) assms(2) hs(1) have "invitations_evolve (invitations d) t"
    by (auto simp: sql_insert_Inr invitations_evolve_def)
  with t hs show ?thesis by (simp add: hidden_sql_insert [OF t(1)])
qed

lemma revoke_invitation_effect:
  assumes "revoke_invitation_body ctx i v0 t0 (tenant_session ctx) d = Inr (v, d')"
  shows "invitations_evolve (invitations d) (invitations d') \<and> memberships d' = memberships d
    \<and> foreign (tenant_session ctx) d' = foreign (tenant_session ctx) d \<and> idem d' = idem d
    \<and> js_truthy v"
proof -
  let ?p = "\<lambda>r. row_id r = i \<and> row_version r = v0 \<and> i_accepted r = None \<and> i_revoked r = None"
  let ?f = "\<lambda>r. r \<lparr> i_revoked := Some t0, row_version := row_version r + 1 \<rparr>"
  from assms obtain h where b: "bump_household (tenant_session ctx) (\<lambda>h. row_id h = tc_hh ctx)
      (d \<lparr> invitations := sql_update (tenant_session ctx) ?p ?f (invitations d) \<rparr>) = Some (h, d')"
      "js_truthy v"
    by (auto simp: revoke_invitation_body_def Let_def split: option.splits list.splits if_splits)
  obtain hs where hs: "d' = d \<lparr> invitations := sql_update (tenant_session ctx) ?p ?f (invitations d) \<rparr>
      \<lparr> households := hs \<rparr>" "hidden (tenant_session ctx) hs = hidden (tenant_session ctx) (households d)"
    by (rule bump_household_frame [OF b(1)]) simp
  have "invitations_evolve (invitations d) (sql_update (tenant_session ctx) ?p ?f (invitations d))"
    by (rule evolve_update) auto
  with hs b(2) show ?thesis by simp
qed

lemma owners_sql_update:
  assumes "\<And>m. p m \<Longrightarrow> m_role m \<noteq> ''Owner''" and "\<And>m. m_role (f m) \<noteq> ''Owner''"
  shows "filter (\<lambda>m. m_role m = ''Owner'') (sql_update s p f t) = filter (\<lambda>m. m_role m = ''Owner'') t"
  using assms by (induction t) (auto simp: sql_update_def)

lemma update_role_effect:
  assumes "update_role_body ctx i new v0 (tenant_session ctx) d = Inr (v, d')"
    and "role_name new \<in> assignable_names"
  shows "invitations d' = invitations d \<and> owner_rows d' = owner_rows d
    \<and> foreign (tenant_session ctx) d' = foreign (tenant_session ctx) d \<and> idem d' = idem d
    \<and> js_truthy v"
proof -
  let ?p = "\<lambda>m. row_id m = i \<and> row_version m = v0 \<and> m_active m = 1 \<and> m_role m \<noteq> ''Owner''"
  let ?f = "\<lambda>m. m \<lparr> m_role := role_name new, row_version := row_version m + 1 \<rparr>"
  from assms obtain h where b: "bump_household (tenant_session ctx) (\<lambda>h. row_id h = tc_hh ctx)
      (d \<lparr> memberships := sql_update (tenant_session ctx) ?p ?f (memberships d) \<rparr>) = Some (h, d')"
      "js_truthy v"
    by (auto simp: update_role_body_def Let_def split: option.splits list.splits if_splits)
  obtain hs where hs: "d' = d \<lparr> memberships := sql_update (tenant_session ctx) ?p ?f (memberships d) \<rparr>
      \<lparr> households := hs \<rparr>" "hidden (tenant_session ctx) hs = hidden (tenant_session ctx) (households d)"
    by (rule bump_household_frame [OF b(1)]) simp
  have "role_name new \<noteq> ''Owner''" using assms(2) owner_not_assignable by metis
  then have "owner_rows d' = owner_rows d"
    unfolding hs(1) owner_rows_def by (simp, intro owners_sql_update) auto
  with hs b(2) show ?thesis by simp
qed

text \<open>The session in which an acceptance writes.\<close>

abbreviation accept_session :: "string \<Rightarrow> accept_input \<Rightarrow> invitation_row \<Rightarrow> session" where
  "accept_session user input i \<equiv> \<lparr> ss_org = Some (row_org i), ss_hh = Some (row_hh i),
     ss_user = Some user, ss_token = Some (acc_token_hash input) \<rparr>"

definition accept_pred :: "accept_input \<Rightarrow> invitation_row \<Rightarrow> invitation_row \<Rightarrow> bool" where
  "accept_pred input i r \<longleftrightarrow> row_id r = row_id i \<and> row_version r = acc_version input
     \<and> i_accepted r = None \<and> i_revoked r = None"

definition accept_set :: "string \<Rightarrow> accept_input \<Rightarrow> invitation_row \<Rightarrow> invitation_row" where
  "accept_set user input r = r \<lparr> i_accepted := Some (acc_at input), i_accepted_by := Some user,
     row_version := row_version r + 1 \<rparr>"

lemma accept_body_Inr:
  assumes "accept_invitation_body user input (account_session user) d = Inr (v, d')"
  obtains w i ps ms h where
    "w \<in> set (invitations d)" "i_token_hash w = acc_token_hash input" "invitation_open input w"
    "i \<in> set (invitations d)" "row_id i = row_id w" "invitation_open input i"
    "row_version i = acc_version input"
    "sql_insert (accept_session user input w) same_id (new_person (row_org i) (row_hh i) (acc_person input)
        (acc_display_name input) (acc_key_version input)) (people d) = Inr ps"
    "sql_insert (accept_session user input w) same_membership (new_membership (row_org i) (row_hh i)
        (acc_membership input) (acc_person input) (i_role i) user) (memberships d) = Inr ms"
    "length (sql_select (accept_session user input w) (accept_pred input i) (invitations d)) = 1"
    "bump_household (accept_session user input w) (\<lambda>h. row_id h = row_hh i)
       (d \<lparr> people := ps, memberships := ms, invitations := sql_update (accept_session user input w)
          (accept_pred input i) (accept_set user input) (invitations d) \<rparr>) = Some (h, d')"
    "js_truthy v"
proof -
  let ?s1 = "account_session user \<lparr> ss_token := Some (acc_token_hash input) \<rparr>"
  let ?vis = "filter (\<lambda>i. invitation_visible ?s1 i \<and> i_token_hash i = acc_token_hash input) (invitations d)"
  obtain w ws where w: "?vis = w # ws"
    using assms by (cases ?vis) (simp_all add: accept_invitation_body_def Let_def)
  let ?s = "accept_session user input w"
  have s: "?s1 \<lparr> ss_org := Some (row_org w), ss_hh := Some (row_hh w) \<rparr> = ?s"
    by (simp add: account_session_def)
  let ?lock = "filter (\<lambda>i. invitation_visible ?s i \<and> row_id i = row_id w) (invitations d)"
  have w_open: "invitation_open input w"
    using assms by (simp add: accept_invitation_body_def Let_def w split: if_splits)
  obtain i rest where i: "?lock = i # rest"
    using assms by (cases ?lock) (simp_all add: accept_invitation_body_def Let_def w s w_open)
  note unf = accept_invitation_body_def Let_def w s w_open i
  have p: "accept_pred input i = (\<lambda>r. row_id r = row_id i \<and> row_version r = acc_version input
      \<and> i_accepted r = None \<and> i_revoked r = None)"
    by (rule ext) (simp add: accept_pred_def)
  have f: "accept_set user input = (\<lambda>r. r \<lparr> i_accepted := Some (acc_at input), i_accepted_by := Some user,
     row_version := row_version r + 1 \<rparr>)"
    by (rule ext) (simp add: accept_set_def)
  from assms obtain ps ms h where
    "invitation_open input i" "row_version i = acc_version input"
    "sql_insert ?s same_id (new_person (row_org i) (row_hh i) (acc_person input)
        (acc_display_name input) (acc_key_version input)) (people d) = Inr ps"
    "sql_insert ?s same_membership (new_membership (row_org i) (row_hh i)
        (acc_membership input) (acc_person input) (i_role i) user) (memberships d) = Inr ms"
    "length (sql_select ?s (accept_pred input i) (invitations d)) = 1"
    "bump_household ?s (\<lambda>h. row_id h = row_hh i)
       (d \<lparr> people := ps, memberships := ms,
          invitations := sql_update ?s (accept_pred input i) (accept_set user input) (invitations d) \<rparr>) = Some (h, d')"
    "js_truthy v"
    unfolding p f by (auto simp: unf split: if_splits option.splits)
  moreover from filter_hd_Some [OF w] filter_hd_Some [OF i]
  have "w \<in> set (invitations d)" "i_token_hash w = acc_token_hash input" "i \<in> set (invitations d)"
    "row_id i = row_id w" by auto
  ultimately show thesis using w_open that by blast
qed

lemma accept_effect:
  assumes "accept_invitation_body user input (account_session user) d = Inr (v, d')"
    and ok: "invitations_ok (invitations d)"
  shows "\<exists>i \<in> set (invitations d). i_token_hash i = acc_token_hash input \<and> invitation_open input i
     \<and> row_version i = acc_version input
     \<and> memberships d' = memberships d @ [new_membership (row_org i) (row_hh i) (acc_membership input)
          (acc_person input) (i_role i) user]
     \<and> invitations_evolve (invitations d) (invitations d')
     \<and> token_used (acc_token_hash input) (invitations d')
     \<and> foreign (accept_session user input i) d' = foreign (accept_session user input i) d
     \<and> account_idem d' = account_idem d \<and> js_truthy v"
proof -
  from assms(1) obtain w i ps ms h where
    w: "w \<in> set (invitations d)" "i_token_hash w = acc_token_hash input" "invitation_open input w"
    and i: "i \<in> set (invitations d)" "row_id i = row_id w" "invitation_open input i"
      "row_version i = acc_version input"
    and ps: "sql_insert (accept_session user input w) same_id (new_person (row_org i) (row_hh i) (acc_person input)
        (acc_display_name input) (acc_key_version input)) (people d) = Inr ps"
    and ms: "sql_insert (accept_session user input w) same_membership (new_membership (row_org i) (row_hh i)
        (acc_membership input) (acc_person input) (i_role i) user) (memberships d) = Inr ms"
    and one: "length (sql_select (accept_session user input w) (accept_pred input i) (invitations d)) = 1"
    and b: "bump_household (accept_session user input w) (\<lambda>h. row_id h = row_hh i)
       (d \<lparr> people := ps, memberships := ms, invitations := sql_update (accept_session user input w)
          (accept_pred input i) (accept_set user input) (invitations d) \<rparr>) = Some (h, d')"
    and v: "js_truthy v"
    by (rule accept_body_Inr)
  have iw: "i = w"
    using ok i(1,2) w(1) distinct_map_filter_unique [of row_id "invitations d" i w]
    by (simp add: invitations_ok_def)
  let ?s = "accept_session user input w"
  let ?t = "sql_update ?s (accept_pred input i) (accept_set user input) (invitations d)"
  obtain hs where d': "d' = d \<lparr> people := ps, memberships := ms, invitations := ?t \<rparr> \<lparr> households := hs \<rparr>"
    "hidden ?s hs = hidden ?s (households (d \<lparr> people := ps, memberships := ms, invitations := ?t \<rparr>))"
    by (rule bump_household_frame [OF b])
  have evolve: "invitations_evolve (invitations d) ?t"
    by (rule evolve_update) (auto simp: accept_set_def accept_pred_def)
  have "accept_pred input i w" "tenant_visible ?s w"
    using iw i(3,4) by (auto simp: accept_pred_def invitation_open_def tenant_visible_def)
  then have "accept_set user input w \<in> set ?t"
    using w(1) by (auto simp: in_sql_update intro!: bexI [of _ w])
  then have used: "token_used (acc_token_hash input) ?t"
    using w(2) unfolding token_used_def by (intro bexI [of _ "accept_set user input w"]) (auto simp: accept_set_def)
  have "memberships d' = memberships d @ [new_membership (row_org w) (row_hh w)
        (acc_membership input) (acc_person input) (i_role w) user]"
    using ms d'(1) iw by (simp add: sql_insert_Inr)
  moreover have "foreign ?s d' = foreign ?s d"
    using d' hidden_sql_insert [OF ps] hidden_sql_insert [OF ms] by (simp add: accept_set_def)
  ultimately show ?thesis
    using w iw i(4) v d'(1) evolve used by (intro bexI [of _ w]) simp_all
qed

lemma create_household_effect:
  assumes "create_household_body user input now (account_session user) d = Inr (v, d')"
  shows "households d' = households d @ [\<lparr> row_org = hi_org input, row_hh = hi_household input,
        row_id = hi_household input, row_version = 1, h_name = hi_household_name input, h_last_reviewed = None \<rparr>]
    \<and> memberships d' = memberships d @ [new_membership (hi_org input) (hi_household input)
        (hi_membership input) (hi_person input) ''Owner'' user]
    \<and> length (household_keys d') = Suc (length (household_keys d))
    \<and> hi_household input \<notin> row_id ` set (households d)
    \<and> account_idem d' = account_idem d \<and> js_truthy v"
  using assms by (auto simp: create_household_body_def Let_def sql_insert_Inr list_ex_iff same_id_def
      split: if_splits)

section \<open>Sequences of operations\<close>

text \<open>One successful operation on invitations and memberships, of any household or account.\<close>

inductive membership_step :: "(string \<Rightarrow> string) \<Rightarrow> db \<Rightarrow> db \<Rightarrow> bool" for H where
  invite: "createMembershipInvitation H ctx input now d = (Inr v, d') \<Longrightarrow> membership_step H d d'"
| revoke: "revokeMembershipInvitation H ctx i v0 key t now d = (Inr v, d') \<Longrightarrow> membership_step H d d'"
| set_role: "updateMembershipRole H ctx i r v0 key now d = (Inr v, d') \<Longrightarrow> membership_step H d d'"
| accept: "acceptMembershipInvitation H user input2 now d = (Inr v, d') \<Longrightarrow> membership_step H d d'"

definition privileged :: "db \<Rightarrow> membership_row set" where
  "privileged d = {m \<in> set (memberships d). m_role m \<notin> assignable_names}"

definition step_safe :: "db \<Rightarrow> db \<Rightarrow> bool" where
  "step_safe d d' \<longleftrightarrow> owner_rows d' = owner_rows d \<and> privileged d' \<subseteq> privileged d
     \<and> invitations_evolve (invitations d) (invitations d')"

lemma step_safe_same: "memberships d' = memberships d \<Longrightarrow>
    invitations_evolve (invitations d) (invitations d') \<Longrightarrow> step_safe d d'"
  by (simp add: step_safe_def owner_rows_def privileged_def)

lemma invite_safe:
  assumes "createMembershipInvitation H ctx input now d = (Inr v, d')"
  shows "step_safe d d'"
proof -
  from assms have role: "role_name (ii_role input) \<in> assignable_names"
    and call: "idempotent_call (tenant_lookup ctx (ii_key input)) (tenant_reserve ctx (ii_key input) now)
            (tenant_complete ctx (ii_key input) 201) (invitation_request_hash H input)
            ''membership invitation idempotency conflict'' ''membership invitation is still processing''
            (create_invitation_body ctx input (tenant_session ctx)) d = Inr (v, d')"
    by (auto simp: createMembershipInvitation_def withTenant_def assignable_name split: sum.splits)
  from call show ?thesis
  proof (cases rule: tenant_call_cases)
    case replayed
    then show ?thesis by (simp add: step_safe_same)
  next
    case (ran t d2 t')
    from create_invitation_effect [OF ran(2) role] ran(3) show ?thesis
      by (intro step_safe_same) simp_all
  qed
qed

lemma revoke_safe:
  assumes "revokeMembershipInvitation H ctx i v0 key t0 now d = (Inr v, d')"
  shows "step_safe d d'"
proof -
  from assms show ?thesis
    unfolding revokeMembershipInvitation_def withTenant_def transaction_Inr
  proof (cases rule: tenant_call_cases)
    case replayed
    then show ?thesis by (simp add: step_safe_same)
  next
    case (ran t d2 t')
    from revoke_invitation_effect [OF ran(2)] ran(3) show ?thesis
      by (intro step_safe_same) simp_all
  qed
qed

lemma set_role_safe:
  assumes "updateMembershipRole H ctx i r v0 key now d = (Inr v, d')"
  shows "step_safe d d'"
proof -
  let ?body = "update_role_body ctx i r v0 (tenant_session ctx)"
  from assms have role: "role_name r \<in> assignable_names"
    and call: "idempotent_call (tenant_lookup ctx key) (tenant_reserve ctx key now) (tenant_complete ctx key 200)
            (H (json_stringify (JObj [(''membershipId'', JStr i),
              (''role'', JStr (role_name r)), (''expectedVersion'', JNum v0)])))
            ''membership role idempotency conflict'' ''membership role update is still processing''
            ?body d = Inr (v, d')"
    by (auto simp: updateMembershipRole_def withTenant_def assignable_name split: sum.splits)
  from call show ?thesis
  proof (cases rule: tenant_call_cases)
    case replayed
    then show ?thesis by (simp add: step_safe_same)
  next
    case (ran t d2 t')
    from update_role_effect [OF ran(2) role] ran(3) have own: "owner_rows d' = owner_rows d"
      and inv: "invitations d' = invitations d" by (simp_all add: owner_rows_def)
    have "memberships d' = sql_update (tenant_session ctx) (\<lambda>m. row_id m = i \<and> row_version m = v0
        \<and> m_active m = 1 \<and> m_role m \<noteq> ''Owner'')
        (\<lambda>m. m \<lparr> m_role := role_name r, row_version := row_version m + 1 \<rparr>) (memberships d)"
      using ran(2,3) bump_household_Some
      by (fastforce simp: update_role_body_def Let_def split: list.splits option.splits if_splits)
    then have "privileged d' \<subseteq> privileged d"
      using role by (auto simp: privileged_def in_sql_update split: if_splits)
    with own inv show ?thesis by (simp add: step_safe_def)
  qed
qed

lemma accept_safe:
  assumes "acceptMembershipInvitation H user input now d = (Inr v, d')" and "invitations_ok (invitations d)"
  shows "step_safe d d'"
proof -
  from assms(1) show ?thesis
    unfolding acceptMembershipInvitation_def withAccount_def transaction_Inr
  proof (cases rule: account_call_cases)
    case replayed
    then show ?thesis by (simp add: step_safe_same)
  next
    case (ran t d2 t')
    from accept_effect [OF ran(2)] assms(2) obtain i where i: "i \<in> set (invitations d)"
      "memberships d2 = memberships d @ [new_membership (row_org i) (row_hh i) (acc_membership input)
          (acc_person input) (i_role i) user]"
      "invitations_evolve (invitations d) (invitations d2)" by auto
    from i(1) assms(2) have role: "i_role i \<in> assignable_names" by (auto simp: invitations_ok_def)
    then have "i_role i \<noteq> ''Owner''" using owner_not_assignable by metis
    with i role ran(3) show ?thesis
      by (auto simp: step_safe_def owner_rows_def privileged_def new_membership_def)
  qed
qed

lemma membership_step_safe:
  "membership_step H d d' \<Longrightarrow> invitations_ok (invitations d) \<Longrightarrow> step_safe d d'"
  by (induction rule: membership_step.induct) (auto intro: invite_safe revoke_safe set_role_safe accept_safe)

lemma membership_steps_keep:
  assumes "(membership_step H)\<^sup>*\<^sup>* d d'" and "invitations_ok (invitations d)"
  shows "owner_rows d' = owner_rows d \<and> privileged d' \<subseteq> privileged d
    \<and> invitations_ok (invitations d')
    \<and> (\<forall>token. token_used token (invitations d) \<longrightarrow> token_used token (invitations d'))"
  using assms(1)
proof (induction rule: rtranclp_induct)
  case (step d1 d2)
  from membership_step_safe [OF step.hyps(2)] step.IH assms(2)
  have "step_safe d1 d2" by simp
  with step.IH assms(2) show ?case
    by (auto simp: step_safe_def intro: evolve_ok evolve_used)
qed (use assms(2) in simp)

text \<open>C16: No sequence of invitation and membership operations, by any households and accounts, ever
  makes an owner: the owners' rows stay exactly as they were, no member gets a role outside the
  assignable ones (owner, support agent, platform admin), every stored invitation keeps an
  assignable role and a token of its own, and an accepted invitation stays accepted.\<close>

theorem membership_steps_safe:
  assumes "(membership_step H)\<^sup>*\<^sup>* d d'" and "invitations_ok (invitations d)"
  shows "owner_rows d' = owner_rows d \<and> privileged d' \<subseteq> privileged d
    \<and> invitations_ok (invitations d')
    \<and> (\<forall>token. token_used token (invitations d) \<longrightarrow> token_used token (invitations d'))"
  using membership_steps_keep [OF assms] .

lemma accept_used_fails:
  assumes "token_used (acc_token_hash input) (invitations d)" and "invitations_ok (invitations d)"
    and "account_lookup user (acc_key input) d = None"
  shows "acceptMembershipInvitation H user input now d = (Inl (js_error ''membership invitation unavailable''), d)"
proof -
  from assms(1) obtain i where i: "i \<in> set (invitations d)" "i_token_hash i = acc_token_hash input"
    "i_accepted i \<noteq> None" by (auto simp: token_used_def)
  have uniq: "w = i" if "w \<in> set (invitations d)" "i_token_hash w = acc_token_hash input" for w
    using distinct_map_filter_unique [of i_token_hash "invitations d" w i] that i assms(2)
    by (simp add: invitations_ok_def)
  obtain t where t: "account_reserve user (acc_key input) now h d = Some (d \<lparr> account_idem := t h \<rparr>)" for h
    using account_reserve_fresh [OF assms(3)] by metis
  have "accept_invitation_body user input (account_session user) (d \<lparr> account_idem := t h \<rparr>)
      = Inl (js_error ''membership invitation unavailable'')" for h
  proof -
    let ?vis = "filter (\<lambda>i. invitation_visible (account_session user \<lparr> ss_token := Some (acc_token_hash input) \<rparr>) i
        \<and> i_token_hash i = acc_token_hash input) (invitations d)"
    show ?thesis
    proof (cases ?vis)
      case (Cons w ws)
      from filter_hd_Some [OF Cons] uniq [of w] i(3) have "\<not> invitation_open input w"
        by (auto simp: invitation_open_def)
      then show ?thesis using Cons by (simp add: accept_invitation_body_def Let_def)
    qed (simp add: accept_invitation_body_def Let_def)
  qed
  then show ?thesis
    by (simp add: acceptMembershipInvitation_def withAccount_def transaction_def idempotent_call_def t)
qed

text \<open>C35: An invitation is accepted once: after an acceptance that was not a replay, the member
  it added has the invitation's role and account, and whatever invitation and membership
  operations follow, every further acceptance with the same token by any account, under a key
  that account has not used, throws and changes nothing.\<close>

theorem invitation_single_use:
  assumes "acceptMembershipInvitation H user input now d = (Inr v, d1)"
    and "account_lookup user (acc_key input) d = None" and "invitations_ok (invitations d)"
    and "(membership_step H)\<^sup>*\<^sup>* d1 d2"
    and "acc_token_hash input' = acc_token_hash input"
    and "account_lookup user' (acc_key input') d2 = None"
  shows "(\<exists>i \<in> set (invitations d). i_token_hash i = acc_token_hash input \<and> acc_at input < i_expires i
      \<and> memberships d1 = memberships d @ [new_membership (row_org i) (row_hh i) (acc_membership input)
           (acc_person input) (i_role i) user])
    \<and> acceptMembershipInvitation H user' input' now' d2
      = (Inl (js_error ''membership invitation unavailable''), d2)"
proof -
  from accept_safe [OF assms(1,3)] assms(3) have d1: "invitations_ok (invitations d1)"
    by (auto simp: step_safe_def intro: evolve_ok)
  have eff: "(\<exists>i \<in> set (invitations d). i_token_hash i = acc_token_hash input \<and> acc_at input < i_expires i
      \<and> memberships d1 = memberships d @ [new_membership (row_org i) (row_hh i) (acc_membership input)
           (acc_person input) (i_role i) user])
    \<and> token_used (acc_token_hash input) (invitations d1)"
    using assms(1) unfolding acceptMembershipInvitation_def withAccount_def transaction_Inr
  proof (cases rule: account_call_cases)
    case replayed
    with assms(2) show ?thesis by simp
  next
    case (ran t e t')
    from accept_effect [OF ran(2)] assms(3) ran(3) show ?thesis
      by (auto simp: invitation_open_def)
  qed
  with membership_steps_keep [OF assms(4) d1] assms(5)
  have "token_used (acc_token_hash input') (invitations d2)" "invitations_ok (invitations d2)" by auto
  from accept_used_fails [OF this assms(6)] eff show ?thesis by simp
qed

section \<open>Creating a household\<close>

lemma create_household_stored:
  assumes "createHouseholdForAccount H user input now d = (Inr v, d1)"
  shows "account_lookup user (hi_key input) d1 = Some (household_request_hash H input, Some v) \<and> js_truthy v"
proof -
  from assms have call: "idempotent_call (account_lookup user (hi_key input)) (account_reserve user (hi_key input) now)
       (account_complete user (hi_key input)) (household_request_hash H input)
       ''account idempotency key conflict'' ''household creation is still processing''
       (create_household_body user input now (account_session user)) d = Inr (v, d1)"
    by (simp add: createHouseholdForAccount_def withAccount_def)
  have "account_lookup user (hi_key input) d1 = Some (household_request_hash H input, Some v)"
    by (rule account_idem.call_stored [OF call])
      (use create_household_effect in \<open>blast intro: account_lookup_cong\<close>)
  moreover from call have "js_truthy v"
  proof (cases rule: account_call_cases)
    case (ran t d2 t')
    from create_household_effect [OF ran(2)] show ?thesis by simp
  qed
  ultimately show ?thesis by simp
qed

text \<open>Creating a household happens once per key: the first call adds exactly one household, one
  active key and one membership, the caller's, as owner; any later call with the same key and the
  same names returns the same response and changes nothing, whatever fresh identifiers it brings;
  a call with the same key for another request throws and changes nothing.\<close>

theorem createHouseholdForAccount_once:
  assumes "createHouseholdForAccount H user input now d = (Inr v, d1)"
  shows "(account_lookup user (hi_key input) d = None \<longrightarrow>
       map row_id (households d1) = map row_id (households d) @ [hi_household input]
       \<and> memberships d1 = memberships d @ [new_membership (hi_org input) (hi_household input)
            (hi_membership input) (hi_person input) ''Owner'' user]
       \<and> length (household_keys d1) = Suc (length (household_keys d)))
    \<and> (hi_key input' = hi_key input \<and> hi_org_name input' = hi_org_name input
         \<and> hi_household_name input' = hi_household_name input \<longrightarrow>
       createHouseholdForAccount H user input' now' d1 = (Inr v, d1))
    \<and> (hi_key input' = hi_key input \<and> household_request_hash H input' \<noteq> household_request_hash H input \<longrightarrow>
       createHouseholdForAccount H user input' now' d1
         = (Inl (js_error ''account idempotency key conflict''), d1))"
proof (intro conjI impI)
  note stored = create_household_stored [OF assms]
  assume "account_lookup user (hi_key input) d = None"
  moreover from assms have "idempotent_call (account_lookup user (hi_key input)) (account_reserve user (hi_key input) now)
       (account_complete user (hi_key input)) (household_request_hash H input)
       ''account idempotency key conflict'' ''household creation is still processing''
       (create_household_body user input now (account_session user)) d = Inr (v, d1)"
    by (simp add: createHouseholdForAccount_def withAccount_def)
  ultimately obtain t d2 t' where b: "create_household_body user input now (account_session user)
      (d \<lparr> account_idem := t \<rparr>) = Inr (v, d2)" "d1 = d2 \<lparr> account_idem := t' \<rparr>"
    by (auto elim: account_call_cases)
  show "map row_id (households d1) = map row_id (households d) @ [hi_household input]"
    "memberships d1 = memberships d @ [new_membership (hi_org input) (hi_household input)
            (hi_membership input) (hi_person input) ''Owner'' user]"
    "length (household_keys d1) = Suc (length (household_keys d))"
    using create_household_effect [OF b(1)] b(2) by simp_all
next
  assume same: "hi_key input' = hi_key input \<and> hi_org_name input' = hi_org_name input
         \<and> hi_household_name input' = hi_household_name input"
  then have "household_request_hash H input' = household_request_hash H input"
    by (simp add: household_request_hash_def)
  then show "createHouseholdForAccount H user input' now' d1 = (Inr v, d1)"
    using account_idem.call_replay [of user "hi_key input" d1 "household_request_hash H input" v]
      create_household_stored [OF assms] same
    by (simp add: createHouseholdForAccount_def withAccount_def)
next
  assume other: "hi_key input' = hi_key input \<and> household_request_hash H input' \<noteq> household_request_hash H input"
  then have "household_request_hash H input \<noteq> household_request_hash H input'" by auto
  with other show "createHouseholdForAccount H user input' now' d1
         = (Inl (js_error ''account idempotency key conflict''), d1)"
    using account_idem.call_conflict [of user "hi_key input" d1 "household_request_hash H input" "Some v"]
      create_household_stored [OF assms]
    by (simp add: createHouseholdForAccount_def withAccount_def)
qed

section \<open>Concrete runs\<close>

abbreviation sample_household :: household_input where
  "sample_household \<equiv> \<lparr> hi_key = ''k'', hi_org = ''o'', hi_org_name = ''Org'', hi_household = ''h'',
     hi_household_name = ''Home'', hi_person = ''p'', hi_membership = ''m'', hi_display_name = ''c'',
     hi_key_version = 1, hi_household_key = ''hk'', hi_wrapped_key = JNull \<rparr>"

abbreviation sample_invitation :: invitation_row where
  "sample_invitation \<equiv> \<lparr> row_org = ''o'', row_hh = ''h'', row_id = ''i'', row_version = 1,
     i_email_hash = ''e'', i_token_hash = ''t'', i_role = ''Editor'', i_invited_by = ''p'', i_expires = 100,
     i_accepted = None, i_accepted_by = None, i_revoked = None \<rparr>"

abbreviation invited_db :: db where
  "invited_db \<equiv> empty_db \<lparr> households := [\<lparr> row_org = ''o'', row_hh = ''h'', row_id = ''h'', row_version = 1,
      h_name = ''Home'', h_last_reviewed = None \<rparr>], invitations := [sample_invitation] \<rparr>"

abbreviation sample_accept :: accept_input where
  "sample_accept \<equiv> \<lparr> acc_key = ''k'', acc_token_hash = ''t'', acc_email_hash = ''e'', acc_name_hash = ''n'',
     acc_version = 1, acc_person = ''p2'', acc_membership = ''m2'', acc_display_name = ''c'',
     acc_key_version = 1, acc_at = 50 \<rparr>"

lemma sample_created:
  "\<exists>v d1. createHouseholdForAccount id ''u'' sample_household 0 empty_db = (Inr v, d1)"
  by (simp add: createHouseholdForAccount_def withAccount_def transaction_def idempotent_call_def
      account_reserve_def empty_db_def create_household_body_def Let_def sql_insert_def tenant_visible_def
      account_session_def new_person_def new_membership_def)

theorem createHouseholdForAccount_once_witness:
  "\<exists>v d1. createHouseholdForAccount id ''u'' sample_household 0 empty_db = (Inr v, d1)
     \<and> map row_id (households d1) = [''h'']
     \<and> createHouseholdForAccount id ''u'' (sample_household \<lparr> hi_household := ''h2'' \<rparr>) 9 d1 = (Inr v, d1)"
proof -
  obtain v d1 where run: "createHouseholdForAccount id ''u'' sample_household 0 empty_db = (Inr v, d1)"
    using sample_created by blast
  have "account_lookup ''u'' (hi_key sample_household) empty_db = None"
    by (simp add: account_lookup_def empty_db_def)
  with run createHouseholdForAccount_once [OF run, where input' = "sample_household \<lparr> hi_household := ''h2'' \<rparr>" and now' = 9]
  show ?thesis by (auto simp: empty_db_def)
qed

lemma sample_accepted:
  "\<exists>v d1. acceptMembershipInvitation id ''u'' sample_accept 0 invited_db = (Inr v, d1)"
  by (simp add: acceptMembershipInvitation_def withAccount_def transaction_def idempotent_call_def
      account_reserve_def empty_db_def accept_invitation_body_def Let_def sql_insert_def tenant_visible_def
      account_session_def new_person_def new_membership_def invitation_visible_def invitation_open_def
      sql_select_def bump_household_def)

lemma invited_ok: "invitations_ok (invitations invited_db)"
  by (simp add: invitations_ok_def assignable_names_def assignableHouseholdRoles_def)

theorem invitation_single_use_witness:
  "\<exists>v d1. acceptMembershipInvitation id ''u'' sample_accept 0 invited_db = (Inr v, d1)
     \<and> acceptMembershipInvitation id ''u'' (sample_accept \<lparr> acc_key := ''k2'' \<rparr>) 0 d1
       = (Inl (js_error ''membership invitation unavailable''), d1)"
proof -
  obtain v d1 where run: "acceptMembershipInvitation id ''u'' sample_accept 0 invited_db = (Inr v, d1)"
    using sample_accepted by blast
  have none: "account_lookup ''u'' (acc_key sample_accept) invited_db = None"
    by (simp add: account_lookup_def empty_db_def)
  have "account_lookup ''u'' (acc_key (sample_accept \<lparr> acc_key := ''k2'' \<rparr>)) d1 = None"
    using run by (auto simp: acceptMembershipInvitation_def withAccount_def transaction_def idempotent_call_def
      account_reserve_def empty_db_def accept_invitation_body_def Let_def sql_insert_def tenant_visible_def
      account_session_def new_person_def new_membership_def invitation_visible_def invitation_open_def
      sql_select_def bump_household_def account_complete_def account_lookup_def account_key_def)
  from invitation_single_use [OF run none invited_ok rtranclp.rtrancl_refl _ this] run
  show ?thesis by auto
qed

theorem membership_steps_safe_witness:
  "\<exists>d1. (membership_step id)\<^sup>*\<^sup>* invited_db d1 \<and> owner_rows d1 = [] \<and> memberships d1 \<noteq> []"
proof -
  obtain v d1 where run: "acceptMembershipInvitation id ''u'' sample_accept 0 invited_db = (Inr v, d1)"
    using sample_accepted by blast
  then have step: "(membership_step id)\<^sup>*\<^sup>* invited_db d1" by (blast intro: membership_step.accept)
  have "memberships d1 \<noteq> []"
    using run by (auto simp: acceptMembershipInvitation_def withAccount_def transaction_def idempotent_call_def
      account_reserve_def empty_db_def accept_invitation_body_def Let_def sql_insert_def tenant_visible_def
      account_session_def new_person_def new_membership_def invitation_visible_def invitation_open_def
      sql_select_def bump_household_def account_complete_def)
  with step membership_steps_safe [OF step invited_ok] show ?thesis
    by (auto simp: owner_rows_def empty_db_def)
qed

end
