(* ===== verification/Emergency_Store.thy ===== *)
theory Emergency_Store
  imports Access_Policy
begin

text \<open>
  The emergency access methods of \<open>repository.ts\<close> (\<open>createEmergencyAccessRequest\<close> to
  \<open>releaseEmergencyAccess\<close>) and their refinement of the transition table of
  \<open>domain/workflows.ts\<close>.
\<close>

section \<open>Operations\<close>

record emergency_input =
  ei_id :: string
  ei_recipient :: string
  ei_categories :: "string list"
  ei_reason :: string
  ei_key_version :: int
  ei_requested :: int

definition new_emergency :: "tenant_context \<Rightarrow> emergency_input \<Rightarrow> emergency_row" where
  "new_emergency ctx input = \<lparr> row_org = tc_org ctx, row_hh = tc_hh ctx, row_id = ei_id input,
     row_version = 1, er_requester_id = tc_actor ctx, er_recipient_membership = ei_recipient input,
     er_category_json = JArr (map JStr (ei_categories input)), er_reason_encrypted = ei_reason input,
     er_key_version = ei_key_version input, er_row_status = ''requested'',
     er_requested_at = ei_requested input, er_decision_at = None, er_release_at = None \<rparr>"

definition createEmergencyAccessRequest ::
  "tenant_context \<Rightarrow> emergency_input \<Rightarrow> db \<Rightarrow> emergency_row result \<times> db" where
  "createEmergencyAccessRequest ctx input = withTenant ctx (\<lambda>s d.
     if length (sql_select s (\<lambda>m. row_id m = ei_recipient input \<and> m_person m = tc_actor ctx
          \<and> m_active m = 1 \<and> m_role m = ''EmergencyRecipient'') (memberships d)) \<noteq> 1
     then Inl (js_error ''emergency recipient membership is invalid'')
     else if ei_key_version input \<le> 0 then Inl pg_check_violation
     else insert_returning emergencies emergencies_update same_id (new_emergency ctx input) s d)"

definition getEmergencyAccessCategories :: "tenant_context \<Rightarrow> string \<Rightarrow> db \<Rightarrow> json result \<times> db" where
  "getEmergencyAccessCategories ctx request_id = withTenant ctx (\<lambda>s d.
     case sql_select s (\<lambda>r. row_id r = request_id) (emergencies d) of
       [] \<Rightarrow> Inl (js_error ''emergency access request is unavailable'')
     | r # _ \<Rightarrow> Inr (er_category_json r, d))"

datatype emergency_decision = Deny | Delay

definition decide_pred :: "string \<Rightarrow> int \<Rightarrow> emergency_row \<Rightarrow> bool" where
  "decide_pred request_id version r \<longleftrightarrow> row_id r = request_id \<and> row_version r = version
     \<and> er_row_status r = ''requested''"

definition decide_set :: "emergency_decision \<Rightarrow> int \<Rightarrow> int option \<Rightarrow> emergency_row \<Rightarrow> emergency_row" where
  "decide_set decision at release_after r = r \<lparr>
     er_row_status := (case decision of Deny \<Rightarrow> ''denied'' | Delay \<Rightarrow> ''delayed''),
     er_decision_at := Some at, er_release_at := release_after, row_version := row_version r + 1 \<rparr>"

definition decideEmergencyAccess ::
  "tenant_context \<Rightarrow> string \<Rightarrow> int \<Rightarrow> emergency_decision \<Rightarrow> int \<Rightarrow> int option \<Rightarrow> db
     \<Rightarrow> emergency_row result \<times> db" where
  "decideEmergencyAccess ctx request_id version decision at release_after = withTenant ctx
     (update_returning emergencies emergencies_update (decide_pred request_id version)
        (decide_set decision at release_after) ''emergency access decision conflict'')"

text \<open>In SQL \<open>release_after<=$3\<close> is not true when the release date is null.\<close>

definition release_pred :: "string \<Rightarrow> int \<Rightarrow> int \<Rightarrow> emergency_row \<Rightarrow> bool" where
  "release_pred request_id version at r \<longleftrightarrow> row_id r = request_id \<and> row_version r = version
     \<and> er_row_status r = ''delayed''
     \<and> (case er_release_at r of Some t \<Rightarrow> t \<le> at | None \<Rightarrow> False)"

definition release_set :: "emergency_row \<Rightarrow> emergency_row" where
  "release_set r = r \<lparr> er_row_status := ''released'', row_version := row_version r + 1 \<rparr>"

definition releaseEmergencyAccess ::
  "tenant_context \<Rightarrow> string \<Rightarrow> int \<Rightarrow> int \<Rightarrow> db \<Rightarrow> emergency_row result \<times> db" where
  "releaseEmergencyAccess ctx request_id version at = withTenant ctx
     (update_returning emergencies emergencies_update (release_pred request_id version at)
        release_set ''emergency access release conflict or delay active'')"

section \<open>The domain's request\<close>

definition emergency_status_of :: "string \<Rightarrow> emergency_status" where
  "emergency_status_of s = (if s = ''approved'' then Approved else if s = ''denied'' then Denied
     else if s = ''delayed'' then Delayed else if s = ''released'' then Released
     else if s = ''revoked'' then Revoked else Requested)"

fun iso_at :: "int option \<Rightarrow> iso" where
  "iso_at None = Blank"
| "iso_at (Some t) = At t"

definition request_of :: "(string \<Rightarrow> string) \<Rightarrow> (json \<Rightarrow> record_category list) \<Rightarrow> emergency_row \<Rightarrow> emergency_request" where
  "request_of decrypt cats r = \<lparr> ent_id = row_id r, ent_org = row_org r, ent_hh = row_hh r,
     ent_version = row_version r, er_requester = er_requester_id r,
     er_recipient = er_recipient_membership r, er_categories = cats (er_category_json r),
     er_reason = decrypt (er_reason_encrypted r), er_status = emergency_status_of (er_row_status r),
     er_requested = At (er_requested_at r), er_decision = iso_at (er_decision_at r),
     er_release_after = iso_at (er_release_at r) \<rparr>"

text \<open>
  The decision writes what the transition does and sets the release date; the release writes what
  the transition does but keeps the date of the decision.
\<close>

lemma decide_refines:
  assumes "decide_pred i v r"
  shows "\<exists>q. transitionEmergencyAccess (request_of dec cats r)
       (case decision of Deny \<Rightarrow> Denied | Delay \<Rightarrow> Delayed) (At t) = Inr q
     \<and> request_of dec cats (decide_set decision t rel r) = q \<lparr> er_release_after := iso_at rel \<rparr>"
  using assms by (cases decision)
    (auto simp: decide_pred_def transitionEmergencyAccess_Inr request_of_def decide_set_def emergency_status_of_def)

lemma release_refines:
  assumes "release_pred i v t r"
  shows "\<exists>q. transitionEmergencyAccess (request_of dec cats r) Released (At t) = Inr q
     \<and> request_of dec cats (release_set r) = q \<lparr> er_decision := iso_at (er_decision_at r) \<rparr>"
  using assms by (auto simp: release_pred_def transitionEmergencyAccess_Inr request_of_def release_set_def
      emergency_status_of_def split: option.splits)

section \<open>Histories\<close>

text \<open>What the operations did to the table, with the times they were given.\<close>

datatype emergency_event =
    Filed string | Decided string emergency_decision int "int option" | ReleasedAt string int

inductive emergency_step :: "db \<Rightarrow> emergency_event \<Rightarrow> db \<Rightarrow> bool" where
  filing: "createEmergencyAccessRequest ctx input d = (Inr r, d') \<Longrightarrow> emergency_step d (Filed (ei_id input)) d'"
| decision: "decideEmergencyAccess ctx i v dec t rel d = (Inr r, d') \<Longrightarrow>
     emergency_step d (Decided i dec t rel) d'"
| releasing: "releaseEmergencyAccess ctx i v t d = (Inr r, d') \<Longrightarrow> emergency_step d (ReleasedAt i t) d'"

inductive emergency_history :: "db \<Rightarrow> emergency_event list \<Rightarrow> db \<Rightarrow> bool" where
  none: "emergency_history d [] d"
| more: "emergency_history d evs d1 \<Longrightarrow> emergency_step d1 e d2 \<Longrightarrow> emergency_history d (evs @ [e]) d2"

text \<open>What the history must contain for a request to be in its status.\<close>

definition justified :: "emergency_event list \<Rightarrow> emergency_row \<Rightarrow> bool" where
  "justified evs r \<longleftrightarrow>
     (er_row_status r = ''requested'' \<and> row_version r = 1)
     \<or> (er_row_status r = ''denied'' \<and> (\<exists>t rel. Decided (row_id r) Deny t rel \<in> set evs))
     \<or> (er_row_status r = ''delayed'' \<and> (\<exists>t. Decided (row_id r) Delay t (er_release_at r) \<in> set evs))
     \<or> (er_row_status r = ''released'' \<and> (\<exists>t rel t'. er_release_at r = Some rel
          \<and> Decided (row_id r) Delay t (Some rel) \<in> set evs \<and> ReleasedAt (row_id r) t' \<in> set evs \<and> rel \<le> t'))"

lemma justified_mono: "justified evs r \<Longrightarrow> justified (evs @ [e]) r"
  by (auto simp: justified_def)

lemma step_justified:
  assumes "emergency_step d e d'" and "\<forall>r \<in> set (emergencies d). justified evs r"
  shows "\<forall>r \<in> set (emergencies d'). justified (evs @ [e]) r"
  using assms(1)
proof (cases rule: emergency_step.cases)
  case (filing ctx input r)
  then have "emergencies d' = emergencies d @ [new_emergency ctx input]"
    by (auto simp: createEmergencyAccessRequest_def withTenant_def emergencies_t.insert_returning_Inr split: if_splits)
  moreover have "justified (evs @ [e]) (new_emergency ctx input)"
    by (simp add: justified_def new_emergency_def)
  ultimately show ?thesis using assms(2) justified_mono [of evs _ e] by auto
next
  case (decision ctx i v dec t rel r)
  then have "update_returning emergencies emergencies_update (decide_pred i v) (decide_set dec t rel)
      ''emergency access decision conflict'' (tenant_session ctx) d = Inr (r, d')"
    by (simp add: decideEmergencyAccess_def withTenant_def)
  then show ?thesis
  proof (rule emergencies_t.update_returning_all)
    fix q assume "decide_pred i v q" and "justified (evs @ [e]) q"
    with decision show "justified (evs @ [e]) (decide_set dec t rel q)"
      by (cases dec) (auto simp: justified_def decide_pred_def decide_set_def)
  next
    show "\<forall>q \<in> set (emergencies d). justified (evs @ [e]) q"
      using assms(2) by (blast intro: justified_mono)
  qed
next
  case (releasing ctx i v t r)
  then have "update_returning emergencies emergencies_update (release_pred i v t) release_set
      ''emergency access release conflict or delay active'' (tenant_session ctx) d = Inr (r, d')"
    by (simp add: releaseEmergencyAccess_def withTenant_def)
  then show ?thesis
  proof (rule emergencies_t.update_returning_all)
    fix q assume "release_pred i v t q" and "justified (evs @ [e]) q"
    with releasing show "justified (evs @ [e]) (release_set q)"
      by (auto simp: justified_def release_pred_def release_set_def split: option.splits)
  next
    show "\<forall>q \<in> set (emergencies d). justified (evs @ [e]) q"
      using assms(2) by (blast intro: justified_mono)
  qed
qed

text \<open>C17: In every history of the stored requests a release went through the delay: whatever
  sequence of filings, decisions and releases the repository performed, by whatever tenants, on a
  database without requests, a released request has a release date, an owner's decision to delay
  with exactly this date is in the history, and so is a release of it at that date or later; a
  denied request was denied, and no request is in another status than those the table allows.\<close>

theorem emergency_history_justified:
  assumes "emergency_history d evs d'" and "emergencies d = []"
  shows "\<forall>r \<in> set (emergencies d'). justified evs r
     \<and> (er_row_status r = ''released'' \<longrightarrow> (\<exists>t rel t'. er_release_at r = Some rel
          \<and> Decided (row_id r) Delay t (Some rel) \<in> set evs
          \<and> ReleasedAt (row_id r) t' \<in> set evs \<and> rel \<le> t'))"
proof -
  from assms have "\<forall>r \<in> set (emergencies d'). justified evs r"
  proof (induction rule: emergency_history.induct)
    case (more d evs d1 e d2)
    then show ?case by (intro step_justified) auto
  qed simp
  then show ?thesis by (auto simp: justified_def)
qed

text \<open>C34: The stored decisions and releases implement the domain's transitions: when the repository
  decides or releases, some request of the tenant was in a state from which
  \<open>transitionEmergencyAccess\<close> allows that status at that time, and the row returned is the
  request it gives, up to the release date a decision sets and the decision date a release
  keeps; other tenants' rows do not change.\<close>

theorem emergency_store_refines:
  "(\<forall>r d'. decideEmergencyAccess ctx i v decision t rel d = (Inr r, d') \<longrightarrow>
      (\<exists>q \<in> set (emergencies d). row_id q = i \<and> row_version q = v \<and> tenant_visible (tenant_session ctx) q
        \<and> (\<exists>e. transitionEmergencyAccess (request_of dec cats q)
               (case decision of Deny \<Rightarrow> Denied | Delay \<Rightarrow> Delayed) (At t) = Inr e
             \<and> request_of dec cats r = e \<lparr> er_release_after := iso_at rel \<rparr>))
      \<and> foreign (tenant_session ctx) d' = foreign (tenant_session ctx) d)
   \<and> (\<forall>r d'. releaseEmergencyAccess ctx i v t d = (Inr r, d') \<longrightarrow>
      (\<exists>q \<in> set (emergencies d). row_id q = i \<and> row_version q = v \<and> tenant_visible (tenant_session ctx) q
        \<and> (\<exists>e. transitionEmergencyAccess (request_of dec cats q) Released (At t) = Inr e
             \<and> request_of dec cats r = e \<lparr> er_decision := iso_at (er_decision_at q) \<rparr>))
      \<and> foreign (tenant_session ctx) d' = foreign (tenant_session ctx) d)"
proof (intro conjI allI impI)
  fix r d' assume "decideEmergencyAccess ctx i v decision t rel d = (Inr r, d')"
  then have u: "update_returning emergencies emergencies_update (decide_pred i v) (decide_set decision t rel)
      ''emergency access decision conflict'' (tenant_session ctx) d = Inr (r, d')"
    by (simp add: decideEmergencyAccess_def withTenant_def)
  from u obtain q where q: "q \<in> set (emergencies d)" "tenant_visible (tenant_session ctx) q"
    "decide_pred i v q" "r = decide_set decision t rel q" by (rule emergencies_t.update_returning_Inr)
  from decide_refines [OF q(3)] q(4) obtain e where
    "transitionEmergencyAccess (request_of dec cats q) (case decision of Deny \<Rightarrow> Denied | Delay \<Rightarrow> Delayed) (At t) = Inr e"
    "request_of dec cats r = e \<lparr> er_release_after := iso_at rel \<rparr>" by blast
  with q show "\<exists>q \<in> set (emergencies d). row_id q = i \<and> row_version q = v \<and> tenant_visible (tenant_session ctx) q
        \<and> (\<exists>e. transitionEmergencyAccess (request_of dec cats q)
               (case decision of Deny \<Rightarrow> Denied | Delay \<Rightarrow> Delayed) (At t) = Inr e
             \<and> request_of dec cats r = e \<lparr> er_release_after := iso_at rel \<rparr>)"
    by (intro bexI [of _ q]) (simp_all add: decide_pred_def)
  show "foreign (tenant_session ctx) d' = foreign (tenant_session ctx) d"
    by (rule emergencies_t.update_returning_foreign [OF u]) (simp_all add: decide_set_def)
next
  fix r d' assume "releaseEmergencyAccess ctx i v t d = (Inr r, d')"
  then have u: "update_returning emergencies emergencies_update (release_pred i v t) release_set
      ''emergency access release conflict or delay active'' (tenant_session ctx) d = Inr (r, d')"
    by (simp add: releaseEmergencyAccess_def withTenant_def)
  from u obtain q where q: "q \<in> set (emergencies d)" "tenant_visible (tenant_session ctx) q"
    "release_pred i v t q" "r = release_set q" by (rule emergencies_t.update_returning_Inr)
  from release_refines [OF q(3)] q(4) obtain e where
    "transitionEmergencyAccess (request_of dec cats q) Released (At t) = Inr e"
    "request_of dec cats r = e \<lparr> er_decision := iso_at (er_decision_at q) \<rparr>" by blast
  with q show "\<exists>q \<in> set (emergencies d). row_id q = i \<and> row_version q = v \<and> tenant_visible (tenant_session ctx) q
        \<and> (\<exists>e. transitionEmergencyAccess (request_of dec cats q) Released (At t) = Inr e
             \<and> request_of dec cats r = e \<lparr> er_decision := iso_at (er_decision_at q) \<rparr>)"
    by (intro bexI [of _ q]) (simp_all add: release_pred_def)
  show "foreign (tenant_session ctx) d' = foreign (tenant_session ctx) d"
    by (rule emergencies_t.update_returning_foreign [OF u]) (simp_all add: release_set_def)
qed

text \<open>A run: a request is filed, delayed until 100 and released at 120.\<close>

abbreviation recipient_db :: db where
  "recipient_db \<equiv> empty_db \<lparr> memberships := [\<lparr> row_org = ''o'', row_hh = ''h'', row_id = ''m'',
     row_version = 1, m_person = ''p'', m_role = ''EmergencyRecipient'', m_auth_user = Some ''u'',
     m_active = 1 \<rparr>] \<rparr>"

abbreviation recipient_ctx :: tenant_context where
  "recipient_ctx \<equiv> \<lparr> tc_org = ''o'', tc_hh = ''h'', tc_actor = ''p'' \<rparr>"

abbreviation sample_emergency :: emergency_input where
  "sample_emergency \<equiv> \<lparr> ei_id = ''e'', ei_recipient = ''m'', ei_categories = [''contacts''],
     ei_reason = ''x'', ei_key_version = 1, ei_requested = 0 \<rparr>"

theorem emergency_history_justified_witness:
  "\<exists>d' r. emergency_history recipient_db
        [Filed ''e'', Decided ''e'' Delay 5 (Some 100), ReleasedAt ''e'' 120] d'
     \<and> r \<in> set (emergencies d') \<and> er_row_status r = ''released'' \<and> er_release_at r = Some 100"
proof -
  let ?r = "new_emergency recipient_ctx sample_emergency"
  let ?d1 = "recipient_db \<lparr> emergencies := [?r] \<rparr>"
  let ?d2 = "recipient_db \<lparr> emergencies := [decide_set Delay 5 (Some 100) ?r] \<rparr>"
  let ?d3 = "recipient_db \<lparr> emergencies := [release_set (decide_set Delay 5 (Some 100) ?r)] \<rparr>"
  have s1: "emergency_step recipient_db (Filed (ei_id sample_emergency)) ?d1"
    by (rule emergency_step.filing [where ctx = recipient_ctx and r = ?r])
      (simp add: createEmergencyAccessRequest_def withTenant_def transaction_def sql_select_def
        insert_returning_def sql_insert_def new_emergency_def empty_db_def)
  have s2: "emergency_step ?d1 (Decided ''e'' Delay 5 (Some 100)) ?d2"
    by (rule emergency_step.decision [where ctx = recipient_ctx and v = 1
          and r = "decide_set Delay 5 (Some 100) ?r"])
      (simp add: decideEmergencyAccess_def withTenant_def transaction_def update_returning_def sql_select_def
        sql_update_def new_emergency_def decide_pred_def empty_db_def)
  have s3: "emergency_step ?d2 (ReleasedAt ''e'' 120) ?d3"
    by (rule emergency_step.releasing [where ctx = recipient_ctx and v = 2
          and r = "release_set (decide_set Delay 5 (Some 100) ?r)"])
      (simp add: releaseEmergencyAccess_def withTenant_def transaction_def update_returning_def sql_select_def
        sql_update_def new_emergency_def release_pred_def decide_set_def empty_db_def)
  have run: "emergency_history recipient_db
      ((([] @ [Filed (ei_id sample_emergency)]) @ [Decided ''e'' Delay 5 (Some 100)]) @ [ReleasedAt ''e'' 120]) ?d3"
    by (intro emergency_history.more [OF _ s3] emergency_history.more [OF _ s2]
        emergency_history.more [OF _ s1] emergency_history.none)
  have "emergencies recipient_db = []" by (simp add: empty_db_def)
  from emergency_history_justified [OF run this] run show ?thesis
    by (intro exI [of _ ?d3] exI [of _ "release_set (decide_set Delay 5 (Some 100) ?r)"])
      (simp add: release_set_def decide_set_def)
qed

theorem emergency_store_refines_witness:
  "\<exists>r d' e. releaseEmergencyAccess recipient_ctx ''e'' 2 120 (recipient_db \<lparr> emergencies :=
       [decide_set Delay 5 (Some 100) (new_emergency recipient_ctx sample_emergency)] \<rparr>) = (Inr r, d')
     \<and> request_of id (\<lambda>_. []) r = e \<lparr> er_decision := At 5 \<rparr> \<and> er_status e = Released"
proof -
  let ?q = "decide_set Delay 5 (Some 100) (new_emergency recipient_ctx sample_emergency)"
  let ?d = "recipient_db \<lparr> emergencies := [?q] \<rparr>"
  obtain d' where run: "releaseEmergencyAccess recipient_ctx ''e'' 2 120 ?d = (Inr (release_set ?q), d')"
    by (simp add: releaseEmergencyAccess_def withTenant_def transaction_def update_returning_def sql_select_def
        sql_update_def new_emergency_def release_pred_def decide_set_def empty_db_def)
  with emergency_store_refines [where ctx = recipient_ctx and i = "''e''" and v = 2 and t = 120 and d = ?d
      and decision = Delay and rel = None and dec = id and cats = "\<lambda>_. []"]
  obtain q e where "q \<in> set (emergencies ?d)"
    "transitionEmergencyAccess (request_of id (\<lambda>_. []) q) Released (At 120) = Inr e"
    "request_of id (\<lambda>_. []) (release_set ?q) = e \<lparr> er_decision := iso_at (er_decision_at q) \<rparr>" by blast
  moreover from this(1) have "er_decision_at q = Some 5" by (simp add: decide_set_def)
  ultimately show ?thesis using run
    by (intro exI [of _ "release_set ?q"] exI [of _ d'] exI [of _ e]) (simp add: transitionEmergencyAccess_Inr)
qed

end
