(* ===== verification/Workflow_Store.thy ===== *)
theory Workflow_Store
  imports Vault_Tenancy
begin

text \<open>
  Persisted workflows: the \<open>workflow_runs\<close> methods of \<open>repository.ts\<close> (\<open>beginWorkflow\<close> to
  \<open>recordWorkflowFailure\<close>) and the worker's \<open>createPersistedWorkflowHandler\<close>, which runs a list
  of named steps against a \<open>WorkflowStateStore\<close>.  The locale \<open>workflow_store\<close> is that
  interface's contract; it is interpreted on the repository.
\<close>

section \<open>Workflow runs of the repository\<close>

record persisted =
  pw_id :: string
  pw_kind :: string
  pw_status :: string
  pw_completed :: "string list"
  pw_next :: "string option"
  pw_version :: int

definition read_workflow :: "workflow_row \<Rightarrow> persisted" where
  "read_workflow r = \<lparr> pw_id = row_id r, pw_kind = w_kind r, pw_status = w_status r,
     pw_completed = w_completed_steps r, pw_next = w_next r, pw_version = row_version r \<rparr>"

text \<open>The table's unique index and \<open>completed_steps || step\<close> guarded by \<open>completed_steps ? step\<close>.\<close>

definition same_workflow :: "workflow_row \<Rightarrow> workflow_row \<Rightarrow> bool" where
  "same_workflow r r' \<longleftrightarrow> same_id r r' \<or> (row_org r = row_org r' \<and> row_hh r = row_hh r' \<and> w_key r = w_key r')"

definition add_step :: "string \<Rightarrow> string list \<Rightarrow> string list" where
  "add_step step steps = (if step \<in> set steps then steps else steps @ [step])"

definition new_workflow ::
  "tenant_context \<Rightarrow> string \<Rightarrow> string \<Rightarrow> string \<Rightarrow> string \<Rightarrow> (string \<times> string) option \<Rightarrow> workflow_row" where
  "new_workflow ctx i kind key first_step subject = \<lparr> row_org = tc_org ctx, row_hh = tc_hh ctx, row_id = i,
     row_version = 1, w_kind = kind, w_key = key, w_status = ''pending'', w_completed_steps = [],
     w_next = Some first_step, w_error = None, w_subject_type = map_option fst subject,
     w_subject_id = map_option snd subject \<rparr>"

text \<open>\<open>on conflict (organization, household, key) do update\<close> returns the row that is there.\<close>

definition beginWorkflow ::
  "tenant_context \<Rightarrow> string \<Rightarrow> string \<Rightarrow> string \<Rightarrow> string \<Rightarrow> db \<Rightarrow> workflow_row result \<times> db" where
  "beginWorkflow ctx fresh_id kind key first_step = withTenant ctx (\<lambda>s d.
     case sql_select s (\<lambda>r. w_key r = key) (workflows d) of
       r # _ \<Rightarrow> Inr (r, d)
     | [] \<Rightarrow> insert_returning workflows workflows_update same_workflow
               (new_workflow ctx fresh_id kind key first_step None) s d)"

definition getWorkflow :: "tenant_context \<Rightarrow> string \<Rightarrow> db \<Rightarrow> persisted result \<times> db" where
  "getWorkflow ctx workflow_id = withTenant ctx (\<lambda>s d.
     case sql_select s (\<lambda>r. row_id r = workflow_id) (workflows d) of
       [] \<Rightarrow> Inl (js_error ''workflow unavailable'')
     | r # _ \<Rightarrow> Inr (read_workflow r, d))"

definition complete_pred :: "string \<Rightarrow> int \<Rightarrow> workflow_row \<Rightarrow> bool" where
  "complete_pred workflow_id version r \<longleftrightarrow> row_id r = workflow_id \<and> row_version r = version
     \<and> w_status r \<noteq> ''completed''"

definition complete_set :: "string \<Rightarrow> string option \<Rightarrow> workflow_row \<Rightarrow> workflow_row" where
  "complete_set step nxt r = r \<lparr> w_completed_steps := add_step step (w_completed_steps r), w_next := nxt,
     w_status := (if nxt = None then ''completed'' else ''running''), w_error := None,
     row_version := row_version r + 1 \<rparr>"

definition complete_workflow_step ::
  "tenant_context \<Rightarrow> string \<Rightarrow> int \<Rightarrow> string \<Rightarrow> string option \<Rightarrow> db \<Rightarrow> persisted result \<times> db" where
  "complete_workflow_step ctx workflow_id version step nxt = withTenant ctx (\<lambda>s d.
     case update_returning workflows workflows_update (complete_pred workflow_id version)
            (complete_set step nxt) ''workflow version conflict'' s d of
       Inl e \<Rightarrow> Inl e | Inr (r, d') \<Rightarrow> Inr (read_workflow r, d'))"

definition failure_set :: "string \<Rightarrow> workflow_row \<Rightarrow> workflow_row" where
  "failure_set error_class r = r \<lparr> w_status := ''failed'', w_error := Some (take 120 error_class),
     row_version := row_version r + 1 \<rparr>"

definition recordWorkflowFailure ::
  "tenant_context \<Rightarrow> string \<Rightarrow> string \<Rightarrow> db \<Rightarrow> unit result \<times> db" where
  "recordWorkflowFailure ctx workflow_id error_class = withTenant ctx (\<lambda>s d.
     Inr ((), d \<lparr> workflows := sql_update s (\<lambda>r. row_id r = workflow_id \<and> w_status r \<noteq> ''completed'')
        (failure_set error_class) (workflows d) \<rparr>))"

section \<open>The persisted handler\<close>

text \<open>
  \<open>exec\<close> runs one step on the rest of the world \<open>'x\<close>; the store's state is \<open>'st\<close>.  The handler's
  parameters are the three methods of \<open>WorkflowStateStore\<close>, bound to one job.
\<close>

type_synonym ('st, 'a) store_op = "'st \<Rightarrow> 'a result \<times> 'st"

fun steps_loop ::
  "(int \<Rightarrow> string \<Rightarrow> string option \<Rightarrow> ('st, persisted) store_op) \<Rightarrow> (string \<Rightarrow> ('x, unit) store_op)
   \<Rightarrow> string list \<Rightarrow> persisted \<Rightarrow> 'st \<Rightarrow> 'x \<Rightarrow> unit result \<times> 'st \<times> 'x" where
  "steps_loop complete exec [] p st x = (Inr (), st, x)"
| "steps_loop complete exec (step # rest) p st x =
     (if step \<in> set (pw_completed p) then steps_loop complete exec rest p st x
      else if pw_next p \<noteq> None \<and> pw_next p \<noteq> Some step
      then (Inl (js_error ''persisted workflow next step does not match its definition''), st, x)
      else (case exec step x of
              (Inl e, x1) \<Rightarrow> (Inl e, st, x1)
            | (Inr _, x1) \<Rightarrow>
                (case complete (pw_version p) step (case rest of [] \<Rightarrow> None | n # _ \<Rightarrow> Some n) st of
                   (Inl e, st1) \<Rightarrow> (Inl e, st1, x1)
                 | (Inr q, st1) \<Rightarrow> steps_loop complete exec rest q st1 x1)))"

definition persisted_handler ::
  "('st, persisted) store_op \<Rightarrow> (int \<Rightarrow> string \<Rightarrow> string option \<Rightarrow> ('st, persisted) store_op)
   \<Rightarrow> (string \<Rightarrow> ('st, unit) store_op) \<Rightarrow> (string \<Rightarrow> ('x, unit) store_op) \<Rightarrow> string list
   \<Rightarrow> 'st \<Rightarrow> 'x \<Rightarrow> unit result \<times> 'st \<times> 'x" where
  "persisted_handler get complete fail exec steps st x =
     (case (case get st of
              (Inl e, st1) \<Rightarrow> (Inl e, st1, x)
            | (Inr p, st1) \<Rightarrow>
                if pw_status p = ''completed'' then (Inr (), st1, x)
                else steps_loop complete exec steps p st1 x) of
        (Inr u, st2, x2) \<Rightarrow> (Inr u, st2, x2)
      | (Inl e, st2, x2) \<Rightarrow>
          (case fail (err_name e) st2 of
             (Inl e2, st3) \<Rightarrow> (Inl e2, st3, x2)
           | (Inr _, st3) \<Rightarrow> (Inl e, st3, x2)))"

definition createPersistedWorkflowHandler ::
  "('st, persisted) store_op \<Rightarrow> (int \<Rightarrow> string \<Rightarrow> string option \<Rightarrow> ('st, persisted) store_op)
   \<Rightarrow> (string \<Rightarrow> ('st, unit) store_op) \<Rightarrow> (string \<Rightarrow> ('x, unit) store_op) \<Rightarrow> string list
   \<Rightarrow> ('st \<Rightarrow> 'x \<Rightarrow> unit result \<times> 'st \<times> 'x) result" where
  "createPersistedWorkflowHandler get complete fail exec steps =
     (if steps = [] \<or> \<not> distinct steps
      then Inl (js_error ''workflow steps must be non-empty and uniquely named'')
      else Inr (persisted_handler get complete fail exec steps))"

section \<open>The store's contract\<close>

text \<open>\<open>k\<close> steps are recorded, in the order of the definition, and the next one is the pointer.\<close>

definition resumable :: "string list \<Rightarrow> nat \<Rightarrow> persisted \<Rightarrow> bool" where
  "resumable steps k p \<longleftrightarrow> k \<le> length steps \<and> pw_completed p = take k steps
     \<and> pw_next p = (if k < length steps then Some (steps ! k) else None)
     \<and> (pw_status p = ''completed'') = (k = length steps)"

locale workflow_store =
  fixes view :: "'st \<Rightarrow> persisted option"
    and get :: "'st \<Rightarrow> persisted result \<times> 'st"
    and complete :: "int \<Rightarrow> string \<Rightarrow> string option \<Rightarrow> 'st \<Rightarrow> persisted result \<times> 'st"
    and fail :: "string \<Rightarrow> 'st \<Rightarrow> unit result \<times> 'st"
  assumes get_view: "view st = Some p \<Longrightarrow> get st = (Inr p, st)"
    and complete_view: "view st = Some p \<Longrightarrow> pw_status p \<noteq> ''completed'' \<Longrightarrow>
      \<exists>st' p'. complete (pw_version p) step nxt st = (Inr p', st') \<and> view st' = Some p'
        \<and> pw_completed p' = add_step step (pw_completed p) \<and> pw_next p' = nxt
        \<and> pw_status p' = (if nxt = None then ''completed'' else ''running'')
        \<and> pw_version p' = pw_version p + 1"
    and complete_stale: "view st = Some p \<Longrightarrow> v \<noteq> pw_version p \<Longrightarrow>
      \<exists>e. complete v step nxt st = (Inl e, st)"
    and fail_view: "view st = Some p \<Longrightarrow>
      \<exists>st' p'. fail c st = (Inr (), st') \<and> view st' = Some p'
        \<and> pw_completed p' = pw_completed p \<and> pw_next p' = pw_next p
        \<and> pw_status p' = (if pw_status p = ''completed'' then ''completed'' else ''failed'')"
begin

lemma loop_resumes:
  assumes "view st = Some p" and "resumable steps k p" and "distinct steps" and "k < length steps"
    and "steps_loop complete exec (drop k steps) p st x = (r, st', x')"
  shows "\<exists>p' k'. view st' = Some p' \<and> resumable steps k' p' \<and> k \<le> k'
     \<and> (r = Inr () \<longrightarrow> k' = length steps)
     \<and> (\<forall>e. r = Inl e \<longrightarrow> k' < length steps)
     \<and> (\<exists>xs. xs k = x \<and> (\<forall>j. k \<le> j \<and> j < k' \<longrightarrow> exec (steps ! j) (xs j) = (Inr (), xs (Suc j)))
          \<and> (case r of Inr _ \<Rightarrow> x' = xs k'
             | Inl e \<Rightarrow> exec (steps ! k') (xs k') = (Inl e, x')))"
  using assms
proof (induction "length steps - k" arbitrary: k p st x)
  case (Suc n)
  let ?s = "steps ! k"
  have drop: "drop k steps = ?s # drop (Suc k) steps"
    using Suc.prems(4) by (simp add: Cons_nth_drop_Suc)
  have fresh: "?s \<notin> set (pw_completed p)"
    using Suc.prems(2,3,4) by (auto simp: resumable_def in_set_conv_nth nth_eq_iff_index_eq)
  have nxt: "pw_next p = Some ?s" and running: "pw_status p \<noteq> ''completed''"
    using Suc.prems(2,4) by (auto simp: resumable_def)
  let ?n = "if Suc k < length steps then Some (steps ! Suc k) else None"
  have rest: "(case drop (Suc k) steps of [] \<Rightarrow> None | n # _ \<Rightarrow> Some n) = ?n"
    by (cases "drop (Suc k) steps") (auto simp: hd_drop_conv_nth dest: arg_cong [of _ _ hd] arg_cong [of _ _ length])
  show ?case
  proof (cases "exec ?s x")
    case (Pair er x1)
    show ?thesis
    proof (cases er)
      case (Inl e)
      with Suc.prems Pair fresh nxt have "r = Inl e" "st' = st" "x' = x1"
        by (auto simp: drop)
      with Suc.prems(1,2,4) Pair Inl show ?thesis
        by (intro exI [of _ p] exI [of _ k] conjI exI [of _ "\<lambda>_. x"]) auto
    next
      case (Inr u)
      obtain st1 p1 where p1: "complete (pw_version p) ?s ?n st = (Inr p1, st1)" "view st1 = Some p1"
        "pw_completed p1 = add_step ?s (pw_completed p)" "pw_next p1 = ?n"
        "pw_status p1 = (if ?n = None then ''completed'' else ''running'')"
        using complete_view [OF Suc.prems(1) running, of ?s ?n] by blast
      have comp: "pw_completed p1 = take (Suc k) steps"
        using p1(3) fresh Suc.prems(2,4) by (simp add: add_step_def resumable_def take_Suc_conv_app_nth)
      have res1: "resumable steps (Suc k) p1"
        using comp p1(4,5) Suc.prems(4) by (auto simp: resumable_def)
      have loop: "steps_loop complete exec (drop (Suc k) steps) p1 st1 x1 = (r, st', x')"
        using Suc.prems(5) Pair Inr fresh nxt p1(1) by (simp add: drop rest)
      show ?thesis
      proof (cases "Suc k < length steps")
        case True
        have "n = length steps - Suc k" using Suc.hyps(2) by simp
        from Suc.hyps(1) [OF this p1(2) res1 Suc.prems(3) True loop]
        obtain p' k' xs where *: "view st' = Some p'" "resumable steps k' p'" "Suc k \<le> k'"
          "r = Inr () \<longrightarrow> k' = length steps" "\<forall>e. r = Inl e \<longrightarrow> k' < length steps"
          "xs (Suc k) = x1" "\<forall>j. Suc k \<le> j \<and> j < k' \<longrightarrow> exec (steps ! j) (xs j) = (Inr (), xs (Suc j))"
          "case r of Inr _ \<Rightarrow> x' = xs k' | Inl e \<Rightarrow> exec (steps ! k') (xs k') = (Inl e, x')"
          by blast
        let ?xs = "xs (k := x)"
        have "\<forall>j. k \<le> j \<and> j < k' \<longrightarrow> exec (steps ! j) (?xs j) = (Inr (), ?xs (Suc j))"
          using *(6,7) Pair Inr by (auto simp: le_Suc_eq dest: le_neq_implies_less)
        moreover have "case r of Inr _ \<Rightarrow> x' = ?xs k' | Inl e \<Rightarrow> exec (steps ! k') (?xs k') = (Inl e, x')"
        proof -
          have "?xs k' = xs k'" using *(3) by simp
          with *(8) show ?thesis by (simp only:)
        qed
        ultimately show ?thesis using *(1-5)
          by (intro exI [of _ p'] exI [of _ k'] conjI exI [of _ ?xs]) auto
      next
        case False
        with loop Suc.prems(4) have fin: "r = Inr ()" "st' = st1" "x' = x1" "Suc k = length steps" by auto
        let ?xs = "\<lambda>j. if j = k then x else x1"
        have one: "\<forall>j. k \<le> j \<and> j < Suc k \<longrightarrow> exec (steps ! j) (?xs j) = (Inr (), ?xs (Suc j))"
        proof (intro allI impI)
          fix j assume "k \<le> j \<and> j < Suc k"
          then have "j = k" by simp
          then show "exec (steps ! j) (?xs j) = (Inr (), ?xs (Suc j))" using Pair Inr by simp
        qed
        show ?thesis
          by (intro exI [of _ p1] exI [of _ "Suc k"] conjI exI [of _ ?xs])
            (use fin p1(2) res1 one in simp_all)
      qed
    qed
  qed
qed simp

lemma loop_skip:
  "\<forall>s \<in> set done. s \<in> set (pw_completed p) \<Longrightarrow>
     steps_loop complete exec (done @ rest) p st x = steps_loop complete exec rest p st x"
  by (induction "done") auto

text \<open>
  One run of the handler on a workflow of which \<open>k\<close> steps are recorded: it executes the next
  steps in order, each on the world the one before left, records every step that succeeds, and
  stops at the first that throws with the workflow still resumable.
\<close>

lemma handler_resumes:
  assumes "view st = Some p" and "resumable steps k p" and "distinct steps"
    and "persisted_handler get complete fail exec steps st x = (r, st', x')"
  shows "\<exists>p' k'. view st' = Some p' \<and> resumable steps k' p' \<and> k \<le> k'
     \<and> (r = Inr () \<longleftrightarrow> k' = length steps)
     \<and> (\<exists>xs. xs k = x \<and> (\<forall>j. k \<le> j \<and> j < k' \<longrightarrow> exec (steps ! j) (xs j) = (Inr (), xs (Suc j)))
          \<and> (case r of Inr _ \<Rightarrow> x' = xs k' | Inl e \<Rightarrow> exec (steps ! k') (xs k') = (Inl e, x')))"
proof (cases "k = length steps")
  case True
  with assms(2) have "pw_status p = ''completed''" by (simp add: resumable_def)
  with assms(4) get_view [OF assms(1)] have "r = Inr ()" "st' = st" "x' = x"
    by (simp_all add: persisted_handler_def)
  with assms(1,2) True show ?thesis
    by (intro exI [of _ p] exI [of _ k] conjI exI [of _ "\<lambda>_. x"]) auto
next
  case False
  with assms(2) have k: "k < length steps" and running: "pw_status p \<noteq> ''completed''"
    by (auto simp: resumable_def)
  obtain r1 st1 x1 where loop: "steps_loop complete exec steps p st x = (r1, st1, x1)"
    by (cases "steps_loop complete exec steps p st x") auto
  have "steps_loop complete exec (drop k steps) p st x = (r1, st1, x1)"
    using loop loop_skip [of "take k steps" p exec "drop k steps" st x] assms(2)
    by (simp add: resumable_def)
  from loop_resumes [OF assms(1,2,3) k this] obtain p' k' xs where
    *: "view st1 = Some p'" "resumable steps k' p'" "k \<le> k'" "r1 = Inr () \<longrightarrow> k' = length steps"
      "\<forall>e. r1 = Inl e \<longrightarrow> k' < length steps" "xs k = x"
      "\<forall>j. k \<le> j \<and> j < k' \<longrightarrow> exec (steps ! j) (xs j) = (Inr (), xs (Suc j))"
      "case r1 of Inr _ \<Rightarrow> x1 = xs k' | Inl e \<Rightarrow> exec (steps ! k') (xs k') = (Inl e, x1)" by blast
  show ?thesis
  proof (cases r1)
    case (Inr u)
    with assms(4) get_view [OF assms(1)] running loop have "r = Inr ()" "st' = st1" "x' = x1"
      by (simp_all add: persisted_handler_def)
    with * Inr show ?thesis by (intro exI [of _ p'] exI [of _ k'] conjI exI [of _ xs]) auto
  next
    case (Inl e)
    obtain st2 p2 where f: "fail (err_name e) st1 = (Inr (), st2)" "view st2 = Some p2"
      "pw_completed p2 = pw_completed p'" "pw_next p2 = pw_next p'"
      "pw_status p2 = (if pw_status p' = ''completed'' then ''completed'' else ''failed'')"
      using fail_view [OF *(1)] by blast
    have "r = Inl e" "st' = st2" "x' = x1"
      using assms(4) get_view [OF assms(1)] running loop Inl f(1) by (simp_all add: persisted_handler_def)
    moreover have "resumable steps k' p2" using *(2) f(3-5) by (auto simp: resumable_def)
    ultimately show ?thesis using * f(2) Inl
      by (intro exI [of _ p2] exI [of _ k'] conjI exI [of _ xs]) auto
  qed
qed

text \<open>A run whose steps all succeed completes the workflow.\<close>

lemma handler_completes:
  assumes "view st = Some p" and "resumable steps k p" and "distinct steps"
    and "\<And>s x. s \<in> set steps \<Longrightarrow> fst (exec s x) = Inr ()"
  shows "fst (persisted_handler get complete fail exec steps st x) = Inr ()"
proof (rule ccontr)
  obtain r st' x' where run: "persisted_handler get complete fail exec steps st x = (r, st', x')"
    by (cases "persisted_handler get complete fail exec steps st x") auto
  assume "fst (persisted_handler get complete fail exec steps st x) \<noteq> Inr ()"
  with run obtain e where r: "r = Inl e" by (cases r) auto
  from handler_resumes [OF assms(1,2,3) run] r obtain p' k' xs where
    "resumable steps k' p'" "k' \<noteq> length steps" "exec (steps ! k') (xs k') = (Inl e, x')" by auto
  moreover from this(1,2) have "steps ! k' \<in> set steps" by (simp add: resumable_def)
  ultimately show False using assms(4) [of "steps ! k'" "xs k'"] by simp
qed

end

section \<open>The repository keeps the contract\<close>

lemma select_update:
  assumes "\<And>r. row_org (f r) = row_org r" and "\<And>r. row_hh (f r) = row_hh r" and "\<And>r. q (f r) = q r"
  shows "sql_select s q (sql_update s p f t) = map (\<lambda>r. if p r then f r else r) (sql_select s q t)"
proof -
  have "tenant_visible s (f r) = tenant_visible s r" for r
    using assms by (intro tenant_visible_cong)
  then show ?thesis by (induction t) (auto simp: sql_select_def sql_update_def assms(3))
qed

definition workflow_view :: "tenant_context \<Rightarrow> string \<Rightarrow> db \<Rightarrow> persisted option" where
  "workflow_view ctx i d = (if distinct (map row_id (workflows d))
     then (case sql_select (tenant_session ctx) (\<lambda>r. row_id r = i) (workflows d) of
             [] \<Rightarrow> None | r # _ \<Rightarrow> Some (read_workflow r))
     else None)"

lemma workflow_view_Some:
  assumes "workflow_view ctx i d = Some p"
  obtains r where "sql_select (tenant_session ctx) (\<lambda>r. row_id r = i) (workflows d) = [r]"
    "p = read_workflow r" "row_id r = i" "distinct (map row_id (workflows d))"
proof -
  from assms obtain r rs where sel: "sql_select (tenant_session ctx) (\<lambda>r. row_id r = i) (workflows d) = r # rs"
    and "p = read_workflow r" and dist: "distinct (map row_id (workflows d))"
    by (auto simp: workflow_view_def split: list.splits if_splits)
  moreover from sql_select_one [OF dist _ sel]
  have "sql_select (tenant_session ctx) (\<lambda>r. row_id r = i) (workflows d) = [r]" by simp
  moreover from sql_select_hd [OF sel] have "row_id r = i" by simp
  ultimately show thesis using that by blast
qed

lemma select_refine:
  assumes "sql_select s q t = [r]" and "\<And>x. p x \<Longrightarrow> q x"
  shows "sql_select s p t = (if p r then [r] else [])"
proof -
  have "sql_select s p t = filter p (sql_select s q t)"
    using assms(2) by (auto simp: sql_select_def intro: filter_cong)
  with assms(1) show ?thesis by simp
qed

lemma view_after_update:
  assumes "workflow_view ctx i d = Some (read_workflow r)"
    and "sql_select (tenant_session ctx) (\<lambda>r. row_id r = i) (workflows d) = [r]"
    and "\<And>r. row_org (f r) = row_org r" "\<And>r. row_hh (f r) = row_hh r" "\<And>r. row_id (f r) = row_id r"
  shows "workflow_view ctx i (d \<lparr> workflows := sql_update (tenant_session ctx) p f (workflows d) \<rparr>)
     = Some (read_workflow (if p r then f r else r))"
proof -
  have "distinct (map row_id (workflows d))"
    using assms(1) by (auto simp: workflow_view_def split: if_splits)
  then show ?thesis
    using select_update [of f "\<lambda>r. row_id r = i" "tenant_session ctx" p "workflows d"] assms(2-5)
    by (simp add: workflow_view_def map_sql_update)
qed

interpretation repo_workflows: workflow_store "workflow_view ctx i" "getWorkflow ctx i"
  "complete_workflow_step ctx i" "recordWorkflowFailure ctx i" for ctx i
proof
  fix st p assume v: "workflow_view ctx i st = Some p"
  from v obtain r where r: "sql_select (tenant_session ctx) (\<lambda>r. row_id r = i) (workflows st) = [r]"
    "p = read_workflow r" "row_id r = i" by (rule workflow_view_Some)
  show "getWorkflow ctx i st = (Inr p, st)"
    using r by (simp add: getWorkflow_def withTenant_def)
  have sel: "sql_select (tenant_session ctx) (complete_pred i vs) (workflows st)
      = (if complete_pred i vs r then [r] else [])" for vs
    by (rule select_refine [OF r(1)]) (simp add: complete_pred_def)
  show "\<exists>st' p'. complete_workflow_step ctx i (pw_version p) step nxt st = (Inr p', st')
        \<and> workflow_view ctx i st' = Some p'
        \<and> pw_completed p' = add_step step (pw_completed p) \<and> pw_next p' = nxt
        \<and> pw_status p' = (if nxt = None then ''completed'' else ''running'')
        \<and> pw_version p' = pw_version p + 1"
    if "pw_status p \<noteq> ''completed''" for step nxt
  proof -
    let ?d = "st \<lparr> workflows := sql_update (tenant_session ctx) (complete_pred i (row_version r))
        (complete_set step nxt) (workflows st) \<rparr>"
    have pr: "complete_pred i (row_version r) r"
      using that r(2,3) by (simp add: complete_pred_def read_workflow_def)
    then have "complete_workflow_step ctx i (pw_version p) step nxt st
        = (Inr (read_workflow (complete_set step nxt r)), ?d)"
      using r(2) by (simp add: complete_workflow_step_def withTenant_def update_returning_def sel
          read_workflow_def)
    moreover have "workflow_view ctx i ?d = Some (read_workflow (complete_set step nxt r))"
      using view_after_update [where f = "complete_set step nxt" and p = "complete_pred i (row_version r)"]
        v r pr by (simp add: complete_set_def)
    ultimately show ?thesis using r(2)
      by (intro exI conjI) (auto simp: read_workflow_def complete_set_def)
  qed
  show "\<exists>e. complete_workflow_step ctx i vs step nxt st = (Inl e, st)" if "vs \<noteq> pw_version p" for vs step nxt
  proof -
    have "\<not> complete_pred i vs r" using that r(2) by (simp add: complete_pred_def read_workflow_def)
    then show ?thesis
      by (simp add: complete_workflow_step_def withTenant_def transaction_def update_returning_def sel)
  qed
  show "\<exists>st' p'. recordWorkflowFailure ctx i c st = (Inr (), st') \<and> workflow_view ctx i st' = Some p'
        \<and> pw_completed p' = pw_completed p \<and> pw_next p' = pw_next p
        \<and> pw_status p' = (if pw_status p = ''completed'' then ''completed'' else ''failed'')" for c
  proof -
    let ?p = "\<lambda>r. row_id r = i \<and> w_status r \<noteq> ''completed''"
    let ?d = "st \<lparr> workflows := sql_update (tenant_session ctx) ?p (failure_set c) (workflows st) \<rparr>"
    have "recordWorkflowFailure ctx i c st = (Inr (), ?d)"
      by (simp add: recordWorkflowFailure_def withTenant_def)
    moreover have "workflow_view ctx i ?d = Some (read_workflow (if ?p r then failure_set c r else r))"
      by (rule view_after_update) (use v r in \<open>simp_all add: failure_set_def\<close>)
    ultimately show ?thesis using r(2,3)
      by (intro exI conjI) (auto simp: read_workflow_def failure_set_def)
  qed
qed

section \<open>Attempts\<close>

text \<open>A queue delivers a job several times; \<open>attempts n\<close> runs the handler \<open>n\<close> times.\<close>

fun attempts :: "nat \<Rightarrow> ('st \<Rightarrow> 'x \<Rightarrow> unit result \<times> 'st \<times> 'x) \<Rightarrow> 'st \<Rightarrow> 'x \<Rightarrow> 'st \<times> 'x" where
  "attempts 0 h st x = (st, x)"
| "attempts (Suc n) h st x = (case h st x of (r, st1, x1) \<Rightarrow> attempts n h st1 x1)"

text \<open>The steps with a record of those that returned.\<close>

definition logged :: "(string \<Rightarrow> ('x, unit) store_op) \<Rightarrow> string \<Rightarrow> ('x \<times> string list, unit) store_op" where
  "logged exec step w = (case exec step (fst w) of
      (Inr u, x1) \<Rightarrow> (Inr u, (x1, snd w @ [step]))
    | (Inl e, x1) \<Rightarrow> (Inl e, (x1, snd w)))"

abbreviation repo_handler where
  "repo_handler ctx i exec steps \<equiv> persisted_handler (getWorkflow ctx i) (complete_workflow_step ctx i)
     (recordWorkflowFailure ctx i) exec steps"

lemma logged_Inr: "logged exec s w = (Inr u, w') \<Longrightarrow> snd w' = snd w @ [s]"
  by (auto simp: logged_def split: prod.splits sum.splits)

lemma logged_Inl: "logged exec s w = (Inl e, w') \<Longrightarrow> snd w' = snd w"
  by (auto simp: logged_def split: prod.splits sum.splits)

lemma run_logs:
  assumes "workflow_view ctx i d = Some p" and "resumable steps k p" and "distinct steps"
    and "repo_handler ctx i (logged exec) steps d (x, take k steps) = (r, d', w)"
  shows "\<exists>p' k'. workflow_view ctx i d' = Some p' \<and> resumable steps k' p' \<and> k \<le> k'
     \<and> snd w = take k' steps \<and> (r = Inr () \<longleftrightarrow> k' = length steps)"
proof -
  from repo_workflows.handler_resumes [OF assms] obtain p' k' xs where
    *: "workflow_view ctx i d' = Some p'" "resumable steps k' p'" "k \<le> k'" "r = Inr () \<longleftrightarrow> k' = length steps"
      "xs k = (x, take k steps)"
      "\<forall>j. k \<le> j \<and> j < k' \<longrightarrow> logged exec (steps ! j) (xs j) = (Inr (), xs (Suc j))"
      "case r of Inr _ \<Rightarrow> w = xs k' | Inl e \<Rightarrow> logged exec (steps ! k') (xs k') = (Inl e, w)" by blast
  have k': "k' \<le> length steps" using *(2) by (simp add: resumable_def)
  have log: "k \<le> j \<Longrightarrow> j \<le> k' \<Longrightarrow> snd (xs j) = take j steps" for j
  proof (induction j rule: dec_induct)
    case base
    then show ?case using *(5) by simp
  next
    case (step j)
    with *(6) have "logged exec (steps ! j) (xs j) = (Inr (), xs (Suc j))" by simp
    from logged_Inr [OF this] step k' show ?case by (simp add: take_Suc_conv_app_nth)
  qed
  have "snd w = take k' steps"
  proof (cases r)
    case (Inr u)
    with *(3,7) log [of k'] show ?thesis by simp
  next
    case (Inl e)
    with *(7) logged_Inl have "snd w = snd (xs k')" by fastforce
    with *(3) log [of k'] show ?thesis by simp
  qed
  with *(1-4) show ?thesis by blast
qed

text \<open>C18: However often a persisted job is delivered and whichever steps throw, each step of the
  workflow returns at most once and the steps return in the order of their definition: after any
  number of attempts on a workflow of which the first \<open>k\<close> steps are recorded, the steps that
  returned are a prefix of the definition, at least those \<open>k\<close>, and the stored run records exactly
  this prefix, points to the step after it, and is completed exactly when all have returned.\<close>

theorem persisted_steps_once:
  assumes "workflow_view ctx i d = Some p" and "resumable steps k p" and "distinct steps"
    and "attempts n (repo_handler ctx i (logged exec) steps) d (x, take k steps) = (d', x', log)"
  shows "\<exists>p'. workflow_view ctx i d' = Some p' \<and> resumable steps (length log) p'
     \<and> log = take (length log) steps \<and> k \<le> length log \<and> pw_completed p' = log
     \<and> (pw_status p' = ''completed'') = (log = steps)"
  using assms
proof (induction n arbitrary: d p k x)
  case 0
  then have "log = take k steps" "d' = d" "k \<le> length steps" by (auto simp: resumable_def)
  with 0(1,2) show ?case by (intro exI [of _ p]) (auto simp: resumable_def)
next
  case (Suc n)
  obtain r d1 w where run: "repo_handler ctx i (logged exec) steps d (x, take k steps) = (r, d1, w)"
    by (cases "repo_handler ctx i (logged exec) steps d (x, take k steps)") auto
  from run_logs [OF Suc.prems(1-3) run] obtain p1 k1 where
    1: "workflow_view ctx i d1 = Some p1" "resumable steps k1 p1" "k \<le> k1" "snd w = take k1 steps" by blast
  have "attempts n (repo_handler ctx i (logged exec) steps) d1 (fst w, take k1 steps) = (d', x', log)"
    using Suc.prems(4) run 1(4) by (simp add: surjective_pairing [of w, symmetric])
      (metis prod.collapse)
  from Suc.IH [OF 1(1,2) Suc.prems(3) this] 1(3) show ?case by force
qed

text \<open>C33: A delivery whose steps do not throw finishes the workflow: on any resumable run of the
  repository the handler returns, the stored run is completed and all steps are recorded.\<close>

theorem persisted_handler_completes:
  assumes "workflow_view ctx i d = Some p" and "resumable steps k p" and "distinct steps"
    and "\<And>s y. s \<in> set steps \<Longrightarrow> fst (exec s y) = Inr ()"
  shows "\<exists>d' x' p'. repo_handler ctx i exec steps d x = (Inr (), d', x')
     \<and> workflow_view ctx i d' = Some p' \<and> pw_status p' = ''completed'' \<and> pw_completed p' = steps"
proof -
  obtain r d' x' where run: "repo_handler ctx i exec steps d x = (r, d', x')"
    by (cases "repo_handler ctx i exec steps d x") auto
  have "r = Inr ()"
    using repo_workflows.handler_completes [OF assms(1-3), of exec x] assms(4) run by simp
  with repo_workflows.handler_resumes [OF assms(1-3) run] run show ?thesis
    by (auto simp: resumable_def)
qed

abbreviation sample_run :: workflow_row where
  "sample_run \<equiv> new_workflow \<lparr> tc_org = ''o'', tc_hh = ''h'', tc_actor = ''p'' \<rparr> ''w'' ''deletion'' ''k'' ''a'' None"

abbreviation run_ctx :: tenant_context where
  "run_ctx \<equiv> \<lparr> tc_org = ''o'', tc_hh = ''h'', tc_actor = ''p'' \<rparr>"

abbreviation run_db :: db where
  "run_db \<equiv> empty_db \<lparr> workflows := [sample_run] \<rparr>"

lemma sample_view: "workflow_view run_ctx ''w'' run_db = Some (read_workflow sample_run)"
  by (simp add: workflow_view_def sql_select_def new_workflow_def)

lemma sample_resumable: "resumable [''a'', ''b''] 0 (read_workflow sample_run)"
  by (simp add: resumable_def read_workflow_def new_workflow_def)

theorem persisted_handler_completes_witness:
  "\<exists>d' x' p'. repo_handler run_ctx ''w'' (\<lambda>s n. (Inr (), Suc n)) [''a'', ''b''] run_db 0 = (Inr (), d', x')
     \<and> workflow_view run_ctx ''w'' d' = Some p' \<and> pw_completed p' = [''a'', ''b'']"
  using persisted_handler_completes [OF sample_view sample_resumable, of "\<lambda>s n. (Inr (), Suc n)" 0] by fastforce

text \<open>A step \<open>b\<close> that throws the first time it runs: two attempts complete the workflow.\<close>

definition flaky :: "string \<Rightarrow> (nat, unit) store_op" where
  "flaky step n = (if step = ''b'' \<and> n < 2 then (Inl (js_error ''down''), n + 1) else (Inr (), n + 1))"

theorem persisted_steps_once_witness:
  "\<exists>d' x' p'. attempts 2 (repo_handler run_ctx ''w'' (logged flaky) [''a'', ''b'']) run_db (0, []) = (d', x', [''a'', ''b''])
     \<and> workflow_view run_ctx ''w'' d' = Some p' \<and> pw_status p' = ''completed''"
proof -
  obtain d' x' where run: "attempts 2 (repo_handler run_ctx ''w'' (logged flaky) [''a'', ''b'']) run_db
      (0, take 0 [''a'', ''b'']) = (d', x', [''a'', ''b''])"
    by (simp add: numeral_2_eq_2 persisted_handler_def getWorkflow_def withTenant_def transaction_def
        sql_select_def sql_update_def new_workflow_def read_workflow_def logged_def flaky_def
        complete_workflow_step_def update_returning_def complete_pred_def complete_set_def add_step_def
        recordWorkflowFailure_def failure_set_def)
  from persisted_steps_once [OF sample_view sample_resumable _ run] run show ?thesis by force
qed

end
