(* ===== verification/Billing_Store.thy ===== *)
theory Billing_Store
  imports Vault_Tenancy Js_Date
begin

text \<open>
  The billing methods of \<open>repository.ts\<close> (\<open>processBillingEvent\<close> to \<open>listBillingRefunds\<close>): the
  provider's events are recorded once by their identifier and applied in the order of the
  provider's clock, whatever the order of their delivery.
\<close>

section \<open>Subscription events\<close>

record billing_event =
  ev_external :: string
  ev_type :: string
  ev_created :: int
  ev_customer :: string
  ev_subscription :: string
  ev_status :: string
  ev_plan :: string
  ev_trial_ends :: "int option"
  ev_period_ends :: "int option"
  ev_cancel_at_end :: bool
  ev_canceled :: "int option"

datatype event_outcome = Applied | Duplicate | Stale

definition date_json :: "int option \<Rightarrow> json" where
  "date_json t = (case t of None \<Rightarrow> JNull | Some t \<Rightarrow> JStr (toISOString t))"

definition text_json :: "string option \<Rightarrow> json" where
  "text_json t = (case t of None \<Rightarrow> JNull | Some s \<Rightarrow> JStr s)"

text \<open>
  \<open>insert into billing_events ... on conflict (external_event_id) do nothing\<close>: the identifier is
  unique over all tenants, also where row level security hides the other row.
\<close>

definition record_event ::
  "tenant_context \<Rightarrow> string \<Rightarrow> string \<Rightarrow> string \<Rightarrow> int \<Rightarrow> json \<Rightarrow> session \<Rightarrow> bool op" where
  "record_event ctx fresh_id external etype created payload s d =
     (let r = \<lparr> row_org = tc_org ctx, row_hh = tc_hh ctx, row_id = fresh_id, be_external = external,
          be_type = etype, be_created = created, be_payload = payload, be_processed = None, be_error = None \<rparr> in
      if list_ex (\<lambda>e. be_external e = external) (billing_events d) then Inr (False, d)
      else res_bind (sql_insert s same_id r (billing_events d)) (\<lambda>t. Inr (True, d \<lparr> billing_events := t \<rparr>)))"

definition mark_processed :: "string \<Rightarrow> int \<Rightarrow> session \<Rightarrow> db \<Rightarrow> db" where
  "mark_processed external now s d = d \<lparr> billing_events := sql_update s (\<lambda>e. be_external e = external)
     (\<lambda>e. e \<lparr> be_processed := Some now \<rparr>) (billing_events d) \<rparr>"

definition new_subscription :: "tenant_context \<Rightarrow> string \<Rightarrow> billing_event \<Rightarrow> subscription_row" where
  "new_subscription ctx fresh_id e = \<lparr> row_org = tc_org ctx, row_hh = tc_hh ctx, row_id = fresh_id,
     row_version = 1, s_status = ev_status e, s_plan = ev_plan e, s_customer = Some (ev_customer e),
     s_subscription = Some (ev_subscription e), s_updated = Some (ev_created e),
     s_trial_ends = ev_trial_ends e, s_period_ends = ev_period_ends e,
     s_cancel_at_end = ev_cancel_at_end e, s_canceled = ev_canceled e \<rparr>"

definition apply_event :: "billing_event \<Rightarrow> subscription_row \<Rightarrow> subscription_row" where
  "apply_event e r = r \<lparr> s_status := ev_status e, s_plan := ev_plan e, s_customer := Some (ev_customer e),
     s_subscription := Some (ev_subscription e), s_updated := Some (ev_created e),
     s_trial_ends := ev_trial_ends e, s_period_ends := ev_period_ends e,
     s_cancel_at_end := ev_cancel_at_end e, s_canceled := ev_canceled e,
     row_version := row_version r + 1 \<rparr>"

text \<open>The partial unique indexes on the provider's identifiers (\<open>0003_billing_ordering.sql\<close>).\<close>

definition provider_clash :: "tenant_context \<Rightarrow> billing_event \<Rightarrow> subscription_row \<Rightarrow> bool" where
  "provider_clash ctx e r \<longleftrightarrow> \<not> tenant_visible (tenant_session ctx) r
     \<and> (s_customer r = Some (ev_customer e) \<or> s_subscription r = Some (ev_subscription e))"

text \<open>\<open>on conflict (organization_id,household_id) do update ... where\<close>; the rows returned.\<close>

definition upsert_subscription ::
  "tenant_context \<Rightarrow> string \<Rightarrow> billing_event \<Rightarrow> session \<Rightarrow> nat op" where
  "upsert_subscription ctx fresh_id e s d =
     (case sql_select s (\<lambda>_. True) (subscriptions d) of
        [] \<Rightarrow> if list_ex (provider_clash ctx e) (subscriptions d) then Inl pg_unique_violation
              else res_bind (sql_insert s same_id (new_subscription ctx fresh_id e) (subscriptions d))
                 (\<lambda>t. Inr (1, d \<lparr> subscriptions := t \<rparr>))
      | r # _ \<Rightarrow>
          if s_updated r = None \<or> num_le (s_updated r) (Some (ev_created e))
          then (if list_ex (provider_clash ctx e) (subscriptions d) then Inl pg_unique_violation
                else Inr (1, d \<lparr> subscriptions := sql_update s (\<lambda>_. True) (apply_event e) (subscriptions d) \<rparr>))
          else Inr (0, d))"

definition event_payload :: "billing_event \<Rightarrow> json" where
  "event_payload e = JObj [(''providerCustomerId'', JStr (ev_customer e)),
     (''providerSubscriptionId'', JStr (ev_subscription e)), (''status'', JStr (ev_status e)),
     (''plan'', JStr (ev_plan e)), (''trialEndsAt'', date_json (ev_trial_ends e)),
     (''currentPeriodEndsAt'', date_json (ev_period_ends e)),
     (''cancelAtPeriodEnd'', JBool (ev_cancel_at_end e)), (''canceledAt'', date_json (ev_canceled e))]"

definition processBillingEvent ::
  "tenant_context \<Rightarrow> string \<Rightarrow> string \<Rightarrow> int \<Rightarrow> billing_event \<Rightarrow> db \<Rightarrow> event_outcome result \<times> db" where
  "processBillingEvent ctx fresh_event fresh_subscription now e = withTenant ctx (\<lambda>s d.
     case record_event ctx fresh_event (ev_external e) (ev_type e) (ev_created e) (event_payload e) s d of
       Inl err \<Rightarrow> Inl err
     | Inr (inserted, d1) \<Rightarrow>
         if \<not> inserted then Inr (Duplicate, d1)
         else (case upsert_subscription ctx fresh_subscription e s d1 of
             Inl err \<Rightarrow> Inl err
           | Inr (n, d2) \<Rightarrow> Inr (if n = 1 then Applied else Stale, mark_processed (ev_external e) now s d2)))"

section \<open>The read models\<close>

definition subscription_status_of :: "string \<Rightarrow> subscription_status" where
  "subscription_status_of t = (if t = ''incomplete'' then Incomplete
     else if t = ''incomplete_expired'' then IncompleteExpired else if t = ''trialing'' then Trialing
     else if t = ''active'' then Active else if t = ''past_due'' then PastDue
     else if t = ''canceled'' then Canceled else if t = ''unpaid'' then Unpaid
     else if t = ''paused'' then Paused else Inactive)"

record subscription_read =
  sr_status :: string
  sr_plan :: "string option"
  sr_updated :: "int option"
  sr_trial_ends :: "int option"
  sr_period_ends :: "int option"
  sr_cancel_at_end :: bool
  sr_canceled :: "int option"
  sr_version :: int
  sr_billing :: billing_decision

text \<open>\<open>order by version desc limit 1\<close>.\<close>

definition latest_subscription :: "session \<Rightarrow> db \<Rightarrow> subscription_row option" where
  "latest_subscription s d = (case rev (order_by row_version (sql_select s (\<lambda>_. True) (subscriptions d))) of
     [] \<Rightarrow> None | r # _ \<Rightarrow> Some r)"

definition getSubscription :: "tenant_context \<Rightarrow> int \<Rightarrow> db \<Rightarrow> subscription_read result \<times> db" where
  "getSubscription ctx clock = withTenant ctx (\<lambda>s d. Inr (case latest_subscription s d of
       None \<Rightarrow> \<lparr> sr_status = ''inactive'', sr_plan = None, sr_updated = None, sr_trial_ends = None,
          sr_period_ends = None, sr_cancel_at_end = False, sr_canceled = None, sr_version = 0,
          sr_billing = deriveBillingAccess Inactive None Blank None clock \<rparr>
     | Some r \<Rightarrow> \<lparr> sr_status = s_status r, sr_plan = Some (s_plan r), sr_updated = s_updated r,
          sr_trial_ends = s_trial_ends r, sr_period_ends = s_period_ends r,
          sr_cancel_at_end = s_cancel_at_end r, sr_canceled = s_canceled r, sr_version = row_version r,
          sr_billing = deriveBillingAccess (subscription_status_of (s_status r)) (Some (s_plan r))
            (case s_updated r of None \<Rightarrow> Blank | Some t \<Rightarrow> At t) None clock \<rparr>, d))"

definition getBillingProviderCustomerId :: "tenant_context \<Rightarrow> db \<Rightarrow> string option result \<times> db" where
  "getBillingProviderCustomerId ctx = withTenant ctx (\<lambda>s d.
     Inr (case latest_subscription s d of None \<Rightarrow> None | Some r \<Rightarrow> s_customer r, d))"

section \<open>Refunds\<close>

record refund_event =
  rv_external :: string
  rv_type :: string
  rv_updated :: int
  rv_refund :: string
  rv_charge :: "string option"
  rv_amount :: int
  rv_currency :: string
  rv_reason :: "string option"
  rv_status :: string

definition refund_row_ok :: "refund_row \<Rightarrow> bool" where
  "refund_row_ok r \<longleftrightarrow> 0 < br_amount r \<and> re_test (whole (times 3 (crange CHR ''a'' CHR ''z''))) (br_currency r)
     \<and> br_status r \<in> {''pending'', ''requires_action'', ''succeeded'', ''failed'', ''canceled''}"

definition apply_refund :: "refund_event \<Rightarrow> refund_row \<Rightarrow> refund_row" where
  "apply_refund e r = r \<lparr> br_charge := rv_charge e, br_amount := rv_amount e, br_currency := rv_currency e,
     br_reason := rv_reason e, br_status := rv_status e, br_updated := rv_updated e,
     row_version := row_version r + 1 \<rparr>"

definition new_refund :: "tenant_context \<Rightarrow> string \<Rightarrow> refund_event \<Rightarrow> refund_row" where
  "new_refund ctx fresh_id e = \<lparr> row_org = tc_org ctx, row_hh = tc_hh ctx, row_id = fresh_id,
     row_version = 1, br_refund = rv_refund e, br_charge = rv_charge e, br_amount = rv_amount e,
     br_currency = rv_currency e, br_reason = rv_reason e, br_status = rv_status e, br_updated = rv_updated e \<rparr>"

text \<open>
  \<open>on conflict (provider_refund_id) do update\<close>: the identifier is unique over all tenants; when
  the conflicting row belongs to another one, the policy refuses the update.
\<close>

definition upsert_refund :: "tenant_context \<Rightarrow> string \<Rightarrow> refund_event \<Rightarrow> session \<Rightarrow> nat op" where
  "upsert_refund ctx fresh_id e s d =
     (if \<not> refund_row_ok (new_refund ctx fresh_id e) then Inl pg_check_violation
      else case filter (\<lambda>r. br_refund r = rv_refund e) (refunds d) of
        [] \<Rightarrow> res_bind (sql_insert s same_id (new_refund ctx fresh_id e) (refunds d))
                (\<lambda>t. Inr (1, d \<lparr> refunds := t \<rparr>))
      | r # _ \<Rightarrow>
          if \<not> tenant_visible s r then Inl pg_rls_violation
          else if br_updated r \<le> rv_updated e
          then Inr (1, d \<lparr> refunds := sql_update s (\<lambda>r. br_refund r = rv_refund e) (apply_refund e) (refunds d) \<rparr>)
          else Inr (0, d))"

definition processRefundEvent ::
  "tenant_context \<Rightarrow> string \<Rightarrow> string \<Rightarrow> int \<Rightarrow> refund_event \<Rightarrow> db \<Rightarrow> event_outcome result \<times> db" where
  "processRefundEvent ctx fresh_event fresh_refund now e = withTenant ctx (\<lambda>s d.
     case record_event ctx fresh_event (rv_external e) (rv_type e) (rv_updated e)
            (JObj [(''providerRefundId'', JStr (rv_refund e)), (''providerChargeId'', text_json (rv_charge e)),
              (''amount'', JNum (rv_amount e)), (''currency'', JStr (rv_currency e)),
              (''reason'', text_json (rv_reason e)), (''status'', JStr (rv_status e))]) s d of
       Inl err \<Rightarrow> Inl err
     | Inr (inserted, d1) \<Rightarrow>
         if \<not> inserted then Inr (Duplicate, d1)
         else (case upsert_refund ctx fresh_refund e s d1 of
             Inl err \<Rightarrow> Inl err
           | Inr (n, d2) \<Rightarrow> Inr (if n = 1 then Applied else Stale, mark_processed (rv_external e) now s d2)))"

definition listBillingRefunds :: "tenant_context \<Rightarrow> db \<Rightarrow> refund_row list result \<times> db" where
  "listBillingRefunds ctx = withTenant ctx (\<lambda>s d.
     Inr (take 100 (rev (order_by br_updated (order_by row_id (sql_select s (\<lambda>_. True) (refunds d))))), d))"

section \<open>Delivering events\<close>

text \<open>The deliveries that the repository accepted, with the events in their order of delivery.\<close>

inductive billing_run :: "tenant_context \<Rightarrow> db \<Rightarrow> billing_event list \<Rightarrow> db \<Rightarrow> bool" for ctx where
  none: "billing_run ctx d [] d"
| deliver: "billing_run ctx d evs d1 \<Longrightarrow>
    processBillingEvent ctx fe fs now e d1 = (Inr outcome, d2) \<Longrightarrow> billing_run ctx d (evs @ [e]) d2"

text \<open>What a subscription row takes over from an event.\<close>

definition reflects :: "billing_event \<Rightarrow> subscription_row \<Rightarrow> bool" where
  "reflects e r \<longleftrightarrow> s_status r = ev_status e \<and> s_plan r = ev_plan e \<and> s_customer r = Some (ev_customer e)
     \<and> s_subscription r = Some (ev_subscription e) \<and> s_updated r = Some (ev_created e)
     \<and> s_trial_ends r = ev_trial_ends e \<and> s_period_ends r = ev_period_ends e
     \<and> s_cancel_at_end r = ev_cancel_at_end e \<and> s_canceled r = ev_canceled e"

abbreviation own_subscriptions :: "tenant_context \<Rightarrow> db \<Rightarrow> subscription_row list" where
  "own_subscriptions ctx d \<equiv> sql_select (tenant_session ctx) (\<lambda>_. True) (subscriptions d)"

lemma reflects_new: "reflects e (new_subscription ctx i e)"
  by (simp add: reflects_def new_subscription_def)

lemma reflects_apply: "reflects e (apply_event e r)"
  by (simp add: reflects_def apply_event_def)

lemma own_after_insert:
  "tenant_visible s r \<Longrightarrow> sql_select s (\<lambda>_. True) (t @ [r]) = sql_select s (\<lambda>_. True) t @ [r]"
  by (simp add: sql_select_def)

lemma own_after_update:
  assumes "\<And>r. row_org (f r) = row_org r" and "\<And>r. row_hh (f r) = row_hh r"
  shows "sql_select s (\<lambda>_. True) (sql_update s (\<lambda>_. True) f t) = map f (sql_select s (\<lambda>_. True) t)"
proof -
  have "tenant_visible s (f r) = tenant_visible s r" for r
    using assms by (intro tenant_visible_cong)
  then show ?thesis by (induction t) (auto simp: sql_select_def sql_update_def)
qed

lemma upsert_effect:
  assumes "upsert_subscription ctx i e (tenant_session ctx) d = Inr (n, d')"
  shows "billing_events d' = billing_events d \<and> foreign (tenant_session ctx) d' = foreign (tenant_session ctx) d
    \<and> (case own_subscriptions ctx d of
         [] \<Rightarrow> n = 1 \<and> own_subscriptions ctx d' = [new_subscription ctx i e]
       | r # rs \<Rightarrow> if s_updated r = None \<or> num_le (s_updated r) (Some (ev_created e))
           then n = 1 \<and> own_subscriptions ctx d' = map (apply_event e) (r # rs)
           else n = 0 \<and> d' = d)"
proof (cases "own_subscriptions ctx d")
  case Nil
  with assms show ?thesis
    by (auto simp: upsert_subscription_def sql_insert_Inr own_after_insert new_subscription_def split: if_splits)
next
  case (Cons r rs)
  have "own_subscriptions ctx (d \<lparr> subscriptions := sql_update (tenant_session ctx) (\<lambda>_. True) (apply_event e)
      (subscriptions d) \<rparr>) = map (apply_event e) (r # rs)"
    using own_after_update [of "apply_event e" "tenant_session ctx" "subscriptions d"] Cons
    by (simp add: apply_event_def)
  with Cons assms show ?thesis
    by (auto simp: upsert_subscription_def apply_event_def split: if_splits)
qed

lemma process_effect:
  assumes "processBillingEvent ctx fe fs now e d = (Inr outcome, d')"
  shows "foreign (tenant_session ctx) d' = foreign (tenant_session ctx) d
    \<and> be_external ` set (billing_events d') = insert (ev_external e) (be_external ` set (billing_events d))
    \<and> (if ev_external e \<in> be_external ` set (billing_events d) then outcome = Duplicate \<and> d' = d
       else (case own_subscriptions ctx d of
         [] \<Rightarrow> outcome = Applied \<and> own_subscriptions ctx d' = [new_subscription ctx fs e]
       | r # rs \<Rightarrow> if s_updated r = None \<or> num_le (s_updated r) (Some (ev_created e))
           then outcome = Applied \<and> own_subscriptions ctx d' = map (apply_event e) (r # rs)
           else outcome = Stale \<and> own_subscriptions ctx d' = own_subscriptions ctx d))"
proof (cases "ev_external e \<in> be_external ` set (billing_events d)")
  case True
  then have "list_ex (\<lambda>b. be_external b = ev_external e) (billing_events d)" by (auto simp: list_ex_iff)
  with assms True show ?thesis
    by (auto simp: processBillingEvent_def withTenant_def record_event_def)
next
  case False
  then have "\<not> list_ex (\<lambda>b. be_external b = ev_external e) (billing_events d)"
    by (force simp: list_ex_iff image_iff)
  with assms obtain t n d2 where t: "sql_insert (tenant_session ctx) same_id \<lparr> row_org = tc_org ctx,
        row_hh = tc_hh ctx, row_id = fe, be_external = ev_external e, be_type = ev_type e,
        be_created = ev_created e, be_payload = event_payload e, be_processed = None, be_error = None \<rparr>
        (billing_events d) = Inr t"
    and u: "upsert_subscription ctx fs e (tenant_session ctx) (d \<lparr> billing_events := t \<rparr>) = Inr (n, d2)"
    and r: "outcome = (if n = 1 then Applied else Stale)"
      "d' = mark_processed (ev_external e) now (tenant_session ctx) d2"
    by (auto simp: processBillingEvent_def withTenant_def record_event_def split: sum.splits)
  have ext: "be_external ` set (billing_events d') = insert (ev_external e) (be_external ` set (billing_events d))"
  proof -
    have "map be_external (billing_events d') = map be_external t"
      using upsert_effect [OF u] r(2) by (simp add: mark_processed_def map_sql_update)
    then have "be_external ` set (billing_events d') = be_external ` set t" by (metis set_map)
    with t show ?thesis by (auto simp: sql_insert_Inr)
  qed
  have fr: "foreign (tenant_session ctx) d' = foreign (tenant_session ctx) d"
    using upsert_effect [OF u] r(2) hidden_sql_insert [OF t] by (simp add: mark_processed_def)
  show ?thesis
    using ext fr upsert_effect [OF u] r False
    by (auto simp: mark_processed_def split: list.splits if_splits)
qed

text \<open>The invariant of a run: one subscription that reflects a latest event delivered.\<close>

definition run_state :: "tenant_context \<Rightarrow> billing_event set \<Rightarrow> db \<Rightarrow> bool" where
  "run_state ctx es d \<longleftrightarrow> (if es = {} then own_subscriptions ctx d = []
     else (\<exists>r e. own_subscriptions ctx d = [r] \<and> e \<in> es \<and> reflects e r \<and> (\<forall>e' \<in> es. ev_created e' \<le> ev_created e)))"

lemma run_step:
  assumes "processBillingEvent ctx fe fs now e d = (Inr outcome, d')" and "run_state ctx es d"
    and "e \<in> es \<longleftrightarrow> ev_external e \<in> be_external ` set (billing_events d)"
  shows "run_state ctx (insert e es) d'"
proof (cases "e \<in> es")
  case True
  with assms(3) process_effect [OF assms(1)] have "d' = d" by simp
  with assms(2) True show ?thesis by (simp add: insert_absorb)
next
  case False
  note eff = process_effect [OF assms(1)]
  show ?thesis
  proof (cases "es = {}")
    case True
    with assms(2,3) False eff show ?thesis by (simp add: run_state_def reflects_new)
  next
    case ne: False
    with assms(2) obtain r e0 where r: "own_subscriptions ctx d = [r]" "e0 \<in> es" "reflects e0 r"
      "\<forall>e' \<in> es. ev_created e' \<le> ev_created e0" by (auto simp: run_state_def)
    then have upd: "s_updated r = Some (ev_created e0)" by (simp add: reflects_def)
    show ?thesis
    proof (cases "ev_created e0 \<le> ev_created e")
      case True
      with eff assms(3) False r(1) upd have "own_subscriptions ctx d' = [apply_event e r]" by simp
      with True r(4) show ?thesis
        by (auto simp: run_state_def intro!: exI [of _ e] reflects_apply)
    next
      case older: False
      with eff assms(3) False r(1) upd have "own_subscriptions ctx d' = [r]" by simp
      with older r(2-4) show ?thesis by (auto simp: run_state_def)
    qed
  qed
qed

text \<open>C19: The subscription does not depend on the order in which the provider's events arrive:
  after any sequence of accepted deliveries to a household without a subscription (repetitions
  included, and no identifier seen before), if one event is strictly later than all the others
  by the provider's clock, the household has exactly one subscription and it carries that event's
  status, plan, identifiers and dates; no other household's rows change.\<close>

theorem billing_order_independent:
  assumes "billing_run ctx d evs d'" and "own_subscriptions ctx d = []"
    and "inj_on ev_external (set evs)"
    and "\<forall>e \<in> set evs. ev_external e \<notin> be_external ` set (billing_events d)"
    and "e \<in> set evs" and "\<forall>e' \<in> set evs. e' \<noteq> e \<longrightarrow> ev_created e' < ev_created e"
  shows "(\<exists>r. own_subscriptions ctx d' = [r] \<and> reflects e r)
    \<and> foreign (tenant_session ctx) d' = foreign (tenant_session ctx) d"
proof -
  have "run_state ctx (set evs) d' \<and> foreign (tenant_session ctx) d' = foreign (tenant_session ctx) d
     \<and> be_external ` set (billing_events d') = be_external ` set (billing_events d) \<union> ev_external ` set evs"
    using assms(1-4)
  proof (induction rule: billing_run.induct)
    case (deliver d evs d1 fe fs now e outcome d2)
    from deliver.prems(2) have inj: "inj_on ev_external (set evs)" by (simp add: inj_on_def)
    with deliver.IH deliver.prems have ih: "run_state ctx (set evs) d1"
      "foreign (tenant_session ctx) d1 = foreign (tenant_session ctx) d"
      "be_external ` set (billing_events d1) = be_external ` set (billing_events d) \<union> ev_external ` set evs"
      by auto
    have "e \<in> set evs \<longleftrightarrow> ev_external e \<in> be_external ` set (billing_events d1)"
      using deliver.prems(2,3) ih(3) by (auto simp: inj_on_def)
    from run_step [OF deliver.hyps(2) ih(1) this] process_effect [OF deliver.hyps(2)] ih
    show ?case by auto
  qed (simp add: run_state_def)
  then have st: "run_state ctx (set evs) d'" and fr: "foreign (tenant_session ctx) d' = foreign (tenant_session ctx) d"
    by auto
  from assms(5) have "set evs \<noteq> {}" by auto
  with st obtain r e0 where r: "own_subscriptions ctx d' = [r]" "e0 \<in> set evs" "reflects e0 r"
    "\<forall>e' \<in> set evs. ev_created e' \<le> ev_created e0" unfolding run_state_def by auto
  have "e0 = e"
  proof (rule ccontr)
    assume "e0 \<noteq> e"
    with assms(6) r(2) have "ev_created e0 < ev_created e" by blast
    moreover from r(4) assms(5) have "ev_created e \<le> ev_created e0" by blast
    ultimately show False by simp
  qed
  with r fr show ?thesis by auto
qed

text \<open>A cancellation that overtakes the activation it follows: the later event stays applied.\<close>

definition sample_event :: "string \<Rightarrow> int \<Rightarrow> string \<Rightarrow> billing_event" where
  "sample_event i t st = \<lparr> ev_external = i, ev_type = ''customer.subscription.updated'', ev_created = t,
     ev_customer = ''cus'', ev_subscription = ''sub'', ev_status = st, ev_plan = ''monthly'',
     ev_trial_ends = None, ev_period_ends = None, ev_cancel_at_end = False, ev_canceled = None \<rparr>"

abbreviation billing_ctx :: tenant_context where
  "billing_ctx \<equiv> \<lparr> tc_org = ''o'', tc_hh = ''h'', tc_actor = ''p'' \<rparr>"

lemma overtaking_run:
  "\<exists>d. billing_run billing_ctx empty_db [sample_event ''b'' 2 ''canceled'', sample_event ''a'' 1 ''active''] d"
proof -
  let ?p = "processBillingEvent billing_ctx"
  let ?d1 = "snd (?p ''1'' ''s'' 5 (sample_event ''b'' 2 ''canceled'') empty_db)"
  have 1: "?p ''1'' ''s'' 5 (sample_event ''b'' 2 ''canceled'') empty_db = (Inr Applied, ?d1)"
    by (simp add: processBillingEvent_def withTenant_def transaction_def record_event_def Let_def sql_insert_def
        upsert_subscription_def sql_select_def empty_db_def new_subscription_def mark_processed_def tenant_visible_def tenant_session_def)
  have 2: "fst (?p ''2'' ''t'' 6 (sample_event ''a'' 1 ''active'') ?d1) = Inr Stale"
    by (simp add: processBillingEvent_def withTenant_def transaction_def record_event_def Let_def sql_insert_def
        upsert_subscription_def sql_select_def empty_db_def new_subscription_def mark_processed_def tenant_visible_def
        tenant_session_def sql_update_def same_id_def sample_event_def)
  from billing_run.deliver [OF billing_run.deliver [OF billing_run.none 1]] 2 show ?thesis
    by (metis append_Cons append_Nil prod.collapse)
qed

theorem billing_order_independent_witness:
  "\<exists>d r. billing_run billing_ctx empty_db [sample_event ''b'' 2 ''canceled'', sample_event ''a'' 1 ''active''] d
     \<and> own_subscriptions billing_ctx d = [r] \<and> s_status r = ''canceled''"
proof -
  from overtaking_run obtain d where run: "billing_run billing_ctx empty_db
      [sample_event ''b'' 2 ''canceled'', sample_event ''a'' 1 ''active''] d" by blast
  have "(\<exists>r. own_subscriptions billing_ctx d = [r] \<and> reflects (sample_event ''b'' 2 ''canceled'') r)
      \<and> foreign (tenant_session billing_ctx) d = foreign (tenant_session billing_ctx) empty_db"
    by (rule billing_order_independent [OF run])
      (auto simp: sql_select_def empty_db_def sample_event_def)
  with run show ?thesis by (auto simp: reflects_def sample_event_def)
qed

end
