(* ===== verification/Js_Bytes.thy ===== *)
theory Js_Bytes
  imports Js_Json
begin

text \<open>
  Node's buffers as lists of bytes, a byte being a character, and the encodings the source uses:
  base64, UTF-8 and lower case hexadecimal digests.
\<close>

section \<open>base64\<close>

definition sextet_char :: "nat \<Rightarrow> char" where
  "sextet_char n = (if n < 26 then char_of (65 + n) else if n < 52 then char_of (71 + n)
     else if n < 62 then char_of (n - 4) else if n = 62 then CHR ''+'' else CHR ''/'')"

text \<open>Decoding also accepts the URL alphabet.\<close>

definition sextet_val :: "char \<Rightarrow> nat option" where
  "sextet_val c = (let n = of_char c :: nat in
     if 65 \<le> n \<and> n \<le> 90 then Some (n - 65) else if 97 \<le> n \<and> n \<le> 122 then Some (n - 71)
     else if 48 \<le> n \<and> n \<le> 57 then Some (n + 4) else if c = CHR ''+'' \<or> c = CHR ''-'' then Some 62
     else if c = CHR ''/'' \<or> c = CHR ''_'' then Some 63 else None)"

abbreviation byte_val :: "char \<Rightarrow> nat" where
  "byte_val c \<equiv> of_char c"

fun base64 :: "string \<Rightarrow> string" where
  "base64 [] = []"
| "base64 [a] = [sextet_char (byte_val a div 4), sextet_char (byte_val a mod 4 * 16), CHR ''='', CHR ''='']"
| "base64 [a, b] = [sextet_char (byte_val a div 4), sextet_char (byte_val a mod 4 * 16 + byte_val b div 16),
     sextet_char (byte_val b mod 16 * 4), CHR ''='']"
| "base64 (a # b # c # r) = sextet_char (byte_val a div 4) # sextet_char (byte_val a mod 4 * 16 + byte_val b div 16)
     # sextet_char (byte_val b mod 16 * 4 + byte_val c div 64) # sextet_char (byte_val c mod 64) # base64 r"

fun join_sextets :: "nat list \<Rightarrow> string" where
  "join_sextets (p # q # r # s # rest) = char_of (p * 4 + q div 16) # char_of (q mod 16 * 16 + r div 4)
     # char_of (r mod 4 * 64 + s) # join_sextets rest"
| "join_sextets [p, q, r] = [char_of (p * 4 + q div 16), char_of (q mod 16 * 16 + r div 4)]"
| "join_sextets [p, q] = [char_of (p * 4 + q div 16)]"
| "join_sextets _ = []"

text \<open>\<open>Buffer.from(text, "base64")\<close> skips other characters and ends at the padding.\<close>

definition base64_bytes :: "string \<Rightarrow> string" where
  "base64_bytes t = join_sextets (List.map_filter sextet_val (takeWhile (\<lambda>c. c \<noteq> CHR ''='') t))"

lemma byte_val_less [simp]: "byte_val c < 256"
  using of_char_mod_256 [of c] by (metis mod_less_divisor zero_less_numeral)

lemma sextet_char_val [simp]: "n < 64 \<Longrightarrow> sextet_val (sextet_char n) = Some n"
  by (auto simp: sextet_char_def sextet_val_def Let_def)

lemma sextet_char_not_pad [simp]: "n < 64 \<Longrightarrow> sextet_char n \<noteq> CHR ''=''"
proof
  assume "n < 64" and "sextet_char n = CHR ''=''"
  then have "sextet_val (CHR ''='') = Some n" by (metis sextet_char_val)
  then show False by (simp add: sextet_val_def)
qed

lemma pack_div: "r < k \<Longrightarrow> (m * k + r) div k = (m::nat)"
  by simp

lemma pack_mod: "r < k \<Longrightarrow> (m * k + r) mod k = (r::nat)"
  by simp

lemma pack_less: "m < j \<Longrightarrow> r < k \<Longrightarrow> m * k + r < j * (k::nat)"
proof -
  assume "m < j" "r < k"
  then have "m * k + r < m * k + k" by simp
  also have "\<dots> = Suc m * k" by simp
  also have "\<dots> \<le> j * k" using \<open>m < j\<close> by (intro mult_le_mono1) simp
  finally show ?thesis .
qed

lemma byte_parts [simp]:
  "byte_val a div 4 < 64" "byte_val a div 16 < 16" "byte_val a div 64 < 4" "byte_val a mod 4 < 4"
  using byte_val_less [of a] by (simp_all add: less_mult_imp_div_less)

lemma sextet_bounds [simp]:
  "byte_val a mod 4 * 16 < 64" "byte_val a mod 16 * 4 < 64"
  "byte_val a mod 4 * 16 + byte_val b div 16 < 64" "byte_val a mod 16 * 4 + byte_val b div 64 < 64"
  using pack_less [of "byte_val a mod 4" 4 0 16] pack_less [of "byte_val a mod 16" 16 0 4]
    pack_less [of "byte_val a mod 4" 4 "byte_val b div 16" 16]
    pack_less [of "byte_val a mod 16" 16 "byte_val b div 64" 4] by simp_all

lemma unpack [simp]:
  "(byte_val a mod 4 * 16 + byte_val b div 16) div 16 = byte_val a mod 4"
  "(byte_val a mod 4 * 16 + byte_val b div 16) mod 16 = byte_val b div 16"
  "(byte_val a mod 16 * 4 + byte_val b div 64) div 4 = byte_val a mod 16"
  "(byte_val a mod 16 * 4 + byte_val b div 64) mod 4 = byte_val b div 64"
  by (rule pack_div pack_mod, simp)+

lemma base64_inverse [simp]: "base64_bytes (base64 bs) = bs"
  by (induction bs rule: base64.induct)
    (simp_all add: base64_bytes_def List.map_filter_def del: div_mult_mod_eq add: div_mult_mod_eq)

section \<open>UTF-8\<close>

definition utf8_bytes :: "string \<Rightarrow> string" where
  "utf8_bytes t = concat (map (\<lambda>c. let n = byte_val c in
     if n < 128 then [c] else [char_of (192 + n div 64), char_of (128 + n mod 64)]) t)"

text \<open>\<open>None\<close> where the text has a character beyond the model's range.\<close>

fun utf8_text :: "string \<Rightarrow> string option" where
  "utf8_text [] = Some []"
| "utf8_text (a # r) =
     (if byte_val a < 128 then map_option ((#) a) (utf8_text r)
      else if byte_val a = 194 \<or> byte_val a = 195
      then (case r of
              b # r' \<Rightarrow> if 128 \<le> byte_val b \<and> byte_val b < 192
                then map_option ((#) (char_of ((byte_val a - 192) * 64 + byte_val b - 128))) (utf8_text r')
                else None
            | [] \<Rightarrow> None)
      else None)"

lemma utf8_inverse [simp]: "utf8_text (utf8_bytes t) = Some t"
proof (induction t)
  case (Cons c t)
  show ?case
  proof (cases "byte_val c < 128")
    case False
    have n: "byte_val c div 64 * 64 + byte_val c mod 64 = byte_val c" by (rule div_mult_mod_eq)
    have times: "2 * 64 = (128::nat)" "3 * 64 = (192::nat)" by simp_all
    have m: "byte_val c mod 64 < 64" by simp
    from False have "2 \<le> byte_val c div 64" by simp
    with byte_parts(3) [of c] have "byte_val c div 64 = 2 \<or> byte_val c div 64 = 3" by linarith
    then show ?thesis
    proof
      assume d: "byte_val c div 64 = 2"
      with n have "char_of (128 + byte_val c mod 64) = c" by (metis char_of_char times)
      with d m show ?thesis using Cons False by (simp add: utf8_bytes_def Let_def)
    next
      assume d: "byte_val c div 64 = 3"
      with n have "char_of (192 + byte_val c mod 64) = c" by (metis char_of_char times)
      with d m show ?thesis using Cons False by (simp add: utf8_bytes_def Let_def)
    qed
  qed (use Cons in \<open>simp add: utf8_bytes_def Let_def\<close>)
qed (simp add: utf8_bytes_def)

lemma utf8_inj [simp]: "utf8_bytes s = utf8_bytes t \<longleftrightarrow> s = t"
  by (metis utf8_inverse option.inject)

lemma utf8_ascii: "list_all (\<lambda>c. byte_val c < 128) t \<Longrightarrow> utf8_bytes t = t"
  by (induction t) (auto simp: utf8_bytes_def Let_def)

section \<open>Hexadecimal digests\<close>

definition hex_text :: "string \<Rightarrow> string" where
  "hex_text bs = concat (map (\<lambda>b. [hex_char (byte_val b div 16), hex_char (byte_val b mod 16)]) bs)"

text \<open>\<open>Buffer.from(text, "hex")\<close> ends at the first pair that is not two digits.\<close>

fun hex_bytes :: "string \<Rightarrow> string" where
  "hex_bytes (a # b # r) = (case (hex_val a, hex_val b) of
     (Some h, Some l) \<Rightarrow> char_of (16 * h + l) # hex_bytes r | _ \<Rightarrow> [])"
| "hex_bytes _ = []"

lemma hex_inverse [simp]: "hex_bytes (hex_text bs) = bs"
  by (induction bs) (simp_all add: hex_text_def hex_val_hex_char)

end
