(* ===== verification/Crypto_Envelope.thy ===== *)
theory Crypto_Envelope
  imports Js_Bytes Vault_Tenancy Membership_Store
begin

text \<open>
  Authenticated envelopes and the household key store (\<open>packages/crypto\<close>).  AES-256-GCM of
  \<open>node:crypto\<close> is a parameter \<open>aead\<close>: \<open>seal\<close> gives the ciphertext and the 16 byte tag,
  \<open>unseal\<close> the plaintext when the tag is right.  Random bytes are arguments.
\<close>

section \<open>Envelopes\<close>

record aead =
  seal :: "string \<Rightarrow> string \<Rightarrow> string \<Rightarrow> string \<Rightarrow> string \<times> string"
  unseal :: "string \<Rightarrow> string \<Rightarrow> string \<Rightarrow> string \<Rightarrow> string \<Rightarrow> string option"

text \<open>
  The cipher's documented behaviour: decryption under the same key, nonce and associated data
  inverts encryption, and accepts only what encryption gives.
\<close>

definition aead_ok :: "aead \<Rightarrow> bool" where
  "aead_ok a \<longleftrightarrow> (\<forall>key iv aad m. length iv = 12 \<longrightarrow>
       (case seal a key iv aad m of (c, t) \<Rightarrow> unseal a key iv aad c t = Some m))
     \<and> (\<forall>key iv aad m c t. unseal a key iv aad c t = Some m \<longrightarrow> seal a key iv aad m = (c, t))"

record encryption_context =
  ec_org :: string
  ec_hh :: string
  ec_record :: string
  ec_purpose :: string
  ec_version :: int

record envelope =
  env_algorithm :: string
  env_version :: int
  env_iv :: string
  env_ciphertext :: string
  env_tag :: string

record wrapped_key = envelope +
  wk_purpose :: string

definition crypto_error :: "string \<Rightarrow> err" where
  "crypto_error m = Thrown ''CryptographicEnvelopeError'' m"

definition assertAesKey :: "string \<Rightarrow> string \<Rightarrow> unit result" where
  "assertAesKey key what = (if length key \<noteq> 32 then Inl (crypto_error (what @ '' must be exactly 32 bytes''))
     else Inr ())"

definition associatedData :: "encryption_context \<Rightarrow> string result" where
  "associatedData c =
     (if \<not> is_safe_integer (ec_version c) \<or> ec_version c < 1
      then Inl (crypto_error ''key version must be a positive integer'')
      else Inr (utf8_bytes (join '':'' [''legacy-vault'', ec_org c, ec_hh c, ec_record c, ec_purpose c,
             ''v'' @ dec_int (ec_version c)])))"

definition encryptEnvelope ::
  "aead \<Rightarrow> string \<Rightarrow> string \<Rightarrow> string \<Rightarrow> encryption_context \<Rightarrow> envelope result" where
  "encryptEnvelope a iv plaintext key c = res_bind (assertAesKey key ''data encryption key'') (\<lambda>_.
     res_bind (associatedData c) (\<lambda>aad. case seal a key iv aad plaintext of (ct, tag) \<Rightarrow>
       Inr \<lparr> env_algorithm = ''A256GCM'', env_version = ec_version c, env_iv = base64 iv,
             env_ciphertext = base64 ct, env_tag = base64 tag \<rparr>))"

definition decryptEnvelope ::
  "aead \<Rightarrow> 'e envelope_scheme \<Rightarrow> string \<Rightarrow> encryption_context \<Rightarrow> string result" where
  "decryptEnvelope a e key c = res_bind (assertAesKey key ''data encryption key'') (\<lambda>_.
     if env_algorithm e \<noteq> ''A256GCM'' \<or> env_version e \<noteq> ec_version c
     then Inl (crypto_error ''envelope algorithm or key version mismatch'')
     else case associatedData c of
            Inl _ \<Rightarrow> Inl (crypto_error ''envelope authentication failed'')
          | Inr aad \<Rightarrow>
              (case unseal a key (base64_bytes (env_iv e)) aad (base64_bytes (env_ciphertext e))
                      (base64_bytes (env_tag e)) of
                 None \<Rightarrow> Inl (crypto_error ''envelope authentication failed'')
               | Some m \<Rightarrow> Inr m))"

definition key_context :: "string \<Rightarrow> string \<Rightarrow> int \<Rightarrow> encryption_context" where
  "key_context org hh version = \<lparr> ec_org = org, ec_hh = hh, ec_record = hh, ec_purpose = ''household-dek'',
     ec_version = version \<rparr>"

definition createWrappedHouseholdKey ::
  "aead \<Rightarrow> string \<Rightarrow> string \<Rightarrow> string \<Rightarrow> string \<Rightarrow> string \<Rightarrow> int \<Rightarrow> (string \<times> wrapped_key) result" where
  "createWrappedHouseholdKey a random_key iv kek org hh version =
     res_bind (assertAesKey kek ''key encryption key'') (\<lambda>_.
     res_bind (encryptEnvelope a iv random_key kek (key_context org hh version)) (\<lambda>e.
       Inr (random_key, envelope.extend e \<lparr> wk_purpose = ''household-dek'' \<rparr>)))"

definition unwrapHouseholdKey ::
  "aead \<Rightarrow> wrapped_key \<Rightarrow> string \<Rightarrow> string \<Rightarrow> string \<Rightarrow> string result" where
  "unwrapHouseholdKey a w kek org hh =
     (if wk_purpose w \<noteq> ''household-dek'' then Inl (crypto_error ''wrapped key purpose mismatch'')
      else decryptEnvelope a w kek (key_context org hh (env_version w)))"

section \<open>Envelopes as JSON\<close>

definition envelope_members :: "'e envelope_scheme \<Rightarrow> (string \<times> json) list" where
  "envelope_members e = [(''algorithm'', JStr (env_algorithm e)), (''keyVersion'', JNum (env_version e)),
     (''iv'', JStr (env_iv e)), (''ciphertext'', JStr (env_ciphertext e)),
     (''authenticationTag'', JStr (env_tag e))]"

definition wrapped_key_json :: "wrapped_key \<Rightarrow> json" where
  "wrapped_key_json w = JObj (envelope_members w @ [(''keyPurpose'', JStr (wk_purpose w))])"

text \<open>The checks the readers of stored envelopes share, with the message of each reader.\<close>

definition read_envelope :: "string \<Rightarrow> json \<Rightarrow> envelope result" where
  "read_envelope message v =
     (case (jfield v ''algorithm'', jfield v ''keyVersion'', jfield v ''iv'', jfield v ''ciphertext'',
            jfield v ''authenticationTag'') of
        (Some (JStr alg), Some (JNum version), Some (JStr iv), Some (JStr ct), Some (JStr tag)) \<Rightarrow>
          if alg = ''A256GCM'' \<and> is_safe_integer version
          then Inr \<lparr> env_algorithm = alg, env_version = version, env_iv = iv, env_ciphertext = ct, env_tag = tag \<rparr>
          else Inl (js_error message)
      | _ \<Rightarrow> Inl (js_error message))"

definition wrappedHouseholdKey :: "json \<Rightarrow> wrapped_key result" where
  "wrappedHouseholdKey v = res_bind (read_envelope ''stored household key is invalid'' v) (\<lambda>e.
     if jfield v ''keyPurpose'' = Some (JStr ''household-dek'')
     then Inr (envelope.extend e \<lparr> wk_purpose = ''household-dek'' \<rparr>)
     else Inl (js_error ''stored household key is invalid''))"

section \<open>The key store\<close>

definition active_keys :: "session \<Rightarrow> db \<Rightarrow> household_key_row list" where
  "active_keys s d = rev (order_by hk_key_version (sql_select s (\<lambda>r. hk_status r = ''active'') (household_keys d)))"

text \<open>
  The second look under the advisory lock sees what other transactions have committed since the
  first one; the transactions of the model run one after the other, so both looks agree.
\<close>

definition getOrCreateActiveKey ::
  "aead \<Rightarrow> string \<Rightarrow> string \<Rightarrow> string \<Rightarrow> string \<Rightarrow> int \<Rightarrow> tenant_context \<Rightarrow> db \<Rightarrow> (int \<times> string) result \<times> db" where
  "getOrCreateActiveKey a kek fresh_id random_key iv now ctx = withTenant ctx (\<lambda>s d.
     case active_keys s d of
       r # _ \<Rightarrow> res_bind (wrappedHouseholdKey (hk_wrapped_key r)) (\<lambda>w.
         res_bind (unwrapHouseholdKey a w kek (tc_org ctx) (tc_hh ctx)) (\<lambda>k.
           Inr ((hk_key_version r, k), d)))
     | [] \<Rightarrow> res_bind (createWrappedHouseholdKey a random_key iv kek (tc_org ctx) (tc_hh ctx) 1) (\<lambda>(k, w).
         res_bind (insert_returning household_keys household_keys_update same_household_key
             \<lparr> row_org = tc_org ctx, row_hh = tc_hh ctx, row_id = fresh_id, hk_key_version = 1,
               hk_wrapped_key = wrapped_key_json w, hk_status = ''active'', hk_created = now,
               hk_retired = None \<rparr> s d) (\<lambda>(_, d').
           Inr ((1, k), d'))))"

section \<open>Sealing and opening\<close>

lemma assertAesKey_Inr [simp]: "assertAesKey key what = Inr u \<longleftrightarrow> length key = 32"
  by (simp add: assertAesKey_def)

lemma encryptEnvelope_Inr:
  "encryptEnvelope a iv m key c = Inr e \<longleftrightarrow> length key = 32 \<and> (\<exists>aad. associatedData c = Inr aad
     \<and> e = \<lparr> env_algorithm = ''A256GCM'', env_version = ec_version c, env_iv = base64 iv,
         env_ciphertext = base64 (fst (seal a key iv aad m)), env_tag = base64 (snd (seal a key iv aad m)) \<rparr>)"
  by (auto simp: encryptEnvelope_def case_prod_beta)

lemma decryptEnvelope_Inr:
  "decryptEnvelope a e key c = Inr m \<longleftrightarrow> length key = 32 \<and> env_algorithm e = ''A256GCM''
     \<and> env_version e = ec_version c \<and> (\<exists>aad. associatedData c = Inr aad
     \<and> unseal a key (base64_bytes (env_iv e)) aad (base64_bytes (env_ciphertext e)) (base64_bytes (env_tag e)) = Some m)"
  by (auto simp: decryptEnvelope_def assertAesKey_def split: sum.splits option.splits)

lemma aead_okD:
  assumes "aead_ok a"
  shows "length iv = 12 \<Longrightarrow> unseal a key iv aad (fst (seal a key iv aad m)) (snd (seal a key iv aad m)) = Some m"
    and "unseal a key iv aad c t = Some m \<Longrightarrow> seal a key iv aad m = (c, t)"
proof -
  from assms have "\<forall>key iv aad m. length iv = 12 \<longrightarrow>
      unseal a key iv aad (fst (seal a key iv aad m)) (snd (seal a key iv aad m)) = Some m"
    unfolding aead_ok_def case_prod_beta by (rule conjunct1)
  then show "length iv = 12 \<Longrightarrow> unseal a key iv aad (fst (seal a key iv aad m)) (snd (seal a key iv aad m)) = Some m"
    by blast
  from assms have "\<forall>key iv aad m c t. unseal a key iv aad c t = Some m \<longrightarrow> seal a key iv aad m = (c, t)"
    unfolding aead_ok_def by (rule conjunct2)
  then show "unseal a key iv aad c t = Some m \<Longrightarrow> seal a key iv aad m = (c, t)" by blast
qed

lemma decrypt_encrypt:
  assumes "aead_ok a" and "length iv = 12" and "encryptEnvelope a iv m key c = Inr e"
  shows "decryptEnvelope a (envelope.extend e more_fields) key c = Inr m"
  using assms aead_okD(1) [OF assms(1,2)]
  by (auto simp: encryptEnvelope_Inr decryptEnvelope_Inr envelope.defs)

lemma decrypt_encrypt_plain:
  assumes "aead_ok a" and "length iv = 12" and "encryptEnvelope a iv m key c = Inr e"
  shows "decryptEnvelope a e key c = Inr m"
  using assms aead_okD(1) [OF assms(1,2)] by (auto simp: encryptEnvelope_Inr decryptEnvelope_Inr)

section \<open>The associated data names one context\<close>

lemma first_sep:
  "c \<notin> set x \<Longrightarrow> c \<notin> set y \<Longrightarrow> x @ c # r = y @ c # t \<Longrightarrow> x = y \<and> r = t"
  by (induction x arbitrary: y) (auto simp: Cons_eq_append_conv)

lemma last_sep:
  assumes "c \<notin> set r" and "c \<notin> set t" and "x @ c # r = y @ c # t"
  shows "x = y \<and> r = t"
proof -
  from assms(3) have "rev r @ c # rev x = rev t @ c # rev y" by (metis append.assoc append_Cons append_Nil rev.simps(2) rev_append)
  from first_sep [OF _ _ this] assms(1,2) show ?thesis by simp
qed

definition no_colon :: "encryption_context \<Rightarrow> bool" where
  "no_colon c \<longleftrightarrow> CHR '':'' \<notin> set (ec_org c) \<and> CHR '':'' \<notin> set (ec_hh c) \<and> CHR '':'' \<notin> set (ec_record c)"

lemma dec_nat_no_colon: "CHR '':'' \<notin> set (dec_nat n)"
  using dec_nat_digits [of n] by (auto simp: is_digit_def)

lemma dec_int_pos_inj: "0 \<le> i \<Longrightarrow> 0 \<le> j \<Longrightarrow> dec_int i = dec_int j \<Longrightarrow> i = j"
  by (simp add: dec_int_def) (metis nat_eq_iff read_dec_nat)

lemma associatedData_inj:
  assumes "associatedData c = Inr aad" and "associatedData c' = Inr aad" and "no_colon c" and "no_colon c'"
  shows "c = (c' :: encryption_context)"
proof -
  let ?v = "\<lambda>c. ''v'' @ dec_int (ec_version c)"
  from assms(1,2) have pos: "1 \<le> ec_version c" "1 \<le> ec_version c'"
    and eq: "ec_org c @ CHR '':'' # ec_hh c @ CHR '':'' # ec_record c @ CHR '':'' # ec_purpose c @ CHR '':'' # ?v c
           = ec_org c' @ CHR '':'' # ec_hh c' @ CHR '':'' # ec_record c' @ CHR '':'' # ec_purpose c' @ CHR '':'' # ?v c'"
    by (auto simp: associatedData_def split: if_splits)
  from first_sep [OF _ _ eq] assms(3,4) have 1: "ec_org c = ec_org c'"
    "ec_hh c @ CHR '':'' # ec_record c @ CHR '':'' # ec_purpose c @ CHR '':'' # ?v c
     = ec_hh c' @ CHR '':'' # ec_record c' @ CHR '':'' # ec_purpose c' @ CHR '':'' # ?v c'"
    by (simp_all add: no_colon_def)
  from first_sep [OF _ _ 1(2)] assms(3,4) have 2: "ec_hh c = ec_hh c'"
    "ec_record c @ CHR '':'' # ec_purpose c @ CHR '':'' # ?v c = ec_record c' @ CHR '':'' # ec_purpose c' @ CHR '':'' # ?v c'"
    by (simp_all add: no_colon_def)
  from first_sep [OF _ _ 2(2)] assms(3,4) have 3: "ec_record c = ec_record c'"
    "ec_purpose c @ CHR '':'' # ?v c = ec_purpose c' @ CHR '':'' # ?v c'"
    by (simp_all add: no_colon_def)
  have "CHR '':'' \<notin> set (?v c)" "CHR '':'' \<notin> set (?v c')" using pos dec_nat_no_colon by (simp_all add: dec_int_def)
  from last_sep [OF this 3(2)] have "ec_purpose c = ec_purpose c'" "dec_int (ec_version c) = dec_int (ec_version c')"
    by simp_all
  with dec_int_pos_inj [OF _ _ this(2)] pos 1 2 3 show ?thesis by simp
qed

lemma envelope_other_context:
  assumes "aead_ok a" and "encryptEnvelope a iv m key c = Inr e" and nc: "no_colon c" "no_colon c'"
    and d: "decryptEnvelope a e key c' = Inr m'" and ne: "c \<noteq> c'"
  shows "\<exists>aad aad'. associatedData c = Inr aad \<and> associatedData c' = Inr aad' \<and> aad \<noteq> aad'
      \<and> seal a key iv aad m = seal a key iv aad' m'"
proof -
  from assms(2) obtain aad where aad: "associatedData c = Inr aad" and e: "e = \<lparr> env_algorithm = ''A256GCM'',
      env_version = ec_version c, env_iv = base64 iv, env_ciphertext = base64 (fst (seal a key iv aad m)),
      env_tag = base64 (snd (seal a key iv aad m)) \<rparr>" by (auto simp: encryptEnvelope_Inr)
  from d obtain aad' where aad': "associatedData c' = Inr aad'"
    and u: "unseal a key iv aad' (fst (seal a key iv aad m)) (snd (seal a key iv aad m)) = Some m'"
    by (auto simp: decryptEnvelope_Inr e)
  from aead_okD(2) [OF assms(1) u] have "seal a key iv aad m = seal a key iv aad' m'" by simp
  moreover have "aad \<noteq> aad'" using associatedData_inj [OF aad _ nc] aad' ne by auto
  ultimately show ?thesis using aad aad' by blast
qed

text \<open>C23: An envelope opens in the context it was sealed in and gives back its plaintext; opened with
  the same key in any other context, it opens only if the cipher gives one ciphertext and tag for
  two different associated data.  Organization, household and record identifiers must be free of
  colons, as UUIDs are; the purpose may contain them.\<close>

theorem envelope_bound_to_context:
  assumes "aead_ok a" and "length iv = 12" and "encryptEnvelope a iv m key c = Inr e"
  shows "decryptEnvelope a e key c = Inr m
    \<and> (no_colon c \<and> no_colon c' \<and> decryptEnvelope a e key c' = Inr m' \<and> c \<noteq> c' \<longrightarrow>
       (\<exists>aad aad'. associatedData c = Inr aad \<and> associatedData c' = Inr aad' \<and> aad \<noteq> aad'
          \<and> seal a key iv aad m = seal a key iv aad' m'))"
  using decrypt_encrypt_plain [OF assms] envelope_other_context [OF assms(1,3)] by blast

text \<open>A cipher with the documented behaviour: the tag spells out what it authenticates.\<close>

definition plain_aead :: aead where
  "plain_aead = \<lparr> seal = (\<lambda>key iv aad m. (m, key @ iv @ aad @ m)),
     unseal = (\<lambda>key iv aad c t. if t = key @ iv @ aad @ c then Some c else None) \<rparr>"

lemma plain_aead_ok: "aead_ok plain_aead"
  by (simp add: aead_ok_def plain_aead_def)

abbreviation sample_key :: string where
  "sample_key \<equiv> replicate 32 (CHR ''k'')"

abbreviation sample_iv :: string where
  "sample_iv \<equiv> replicate 12 (CHR ''n'')"

definition sample_context :: encryption_context where
  "sample_context = \<lparr> ec_org = ''o'', ec_hh = ''h'', ec_record = ''r'', ec_purpose = ''fact-value:health.x'',
     ec_version = 1 \<rparr>"

lemma sample_sealed:
  "encryptEnvelope plain_aead sample_iv ''secret'' sample_key sample_context
     = Inr \<lparr> env_algorithm = ''A256GCM'', env_version = 1, env_iv = base64 sample_iv,
         env_ciphertext = base64 ''secret'', env_tag = base64 (sample_key @ sample_iv
           @ ''legacy-vault:o:h:r:fact-value:health.x:v1'' @ ''secret'') \<rparr>"
proof -
  have "associatedData sample_context = Inr ''legacy-vault:o:h:r:fact-value:health.x:v1''"
    by code_simp
  then show ?thesis by (simp add: encryptEnvelope_Inr plain_aead_def sample_context_def)
qed

theorem envelope_bound_to_context_witness:
  "\<exists>e. encryptEnvelope plain_aead sample_iv ''secret'' sample_key sample_context = Inr e
     \<and> decryptEnvelope plain_aead e sample_key sample_context = Inr ''secret''"
  using envelope_bound_to_context [OF plain_aead_ok _ sample_sealed] sample_sealed by simp

section \<open>The active key of a household\<close>

lemma wrapped_key_json_read:
  assumes "encryptEnvelope a iv k kek c = Inr e"
  shows "wrappedHouseholdKey (wrapped_key_json (envelope.extend e \<lparr> wk_purpose = ''household-dek'' \<rparr>))
     = Inr (envelope.extend e \<lparr> wk_purpose = ''household-dek'' \<rparr>)"
proof -
  from assms obtain aad where aad: "associatedData c = Inr aad" and e: "e = \<lparr> env_algorithm = ''A256GCM'',
      env_version = ec_version c, env_iv = base64 iv, env_ciphertext = base64 (fst (seal a kek iv aad k)),
      env_tag = base64 (snd (seal a kek iv aad k)) \<rparr>" unfolding encryptEnvelope_Inr by blast
  from aad have "is_safe_integer (ec_version c)" by (simp add: associatedData_def split: if_splits)
  then show ?thesis
    unfolding e by (simp add: wrappedHouseholdKey_def read_envelope_def wrapped_key_json_def envelope_members_def
        envelope.defs)
qed

lemma active_keys_insert:
  assumes "active_keys (tenant_session ctx) d = []" and "row_org r = tc_org ctx" and "row_hh r = tc_hh ctx"
    and "hk_status r = ''active''"
  shows "active_keys (tenant_session ctx) (d \<lparr> household_keys := household_keys d @ [r] \<rparr>) = [r]"
proof -
  have "set (active_keys (tenant_session ctx) d)
      = set (sql_select (tenant_session ctx) (\<lambda>r. hk_status r = ''active'') (household_keys d))"
    by (simp add: active_keys_def del: in_sql_select)
  with assms(1) have "sql_select (tenant_session ctx) (\<lambda>r. hk_status r = ''active'') (household_keys d) = []"
    by (simp del: in_sql_select)
  then show ?thesis using assms(2-4) by (simp add: active_keys_def sql_select_def order_by_def)
qed

lemma create_key_Inr:
  "createWrappedHouseholdKey a k iv kek org hh v = Inr (k', w) \<longleftrightarrow> k' = k \<and> length kek = 32
     \<and> (\<exists>e. encryptEnvelope a iv k kek (key_context org hh v) = Inr e
          \<and> w = envelope.extend e \<lparr> wk_purpose = ''household-dek'' \<rparr>)"
  by (auto simp: createWrappedHouseholdKey_def)

lemma active_key_stable_aux:
  assumes "aead_ok a" and "length iv = 12"
    and "getOrCreateActiveKey a kek fresh_id random_key iv now ctx d = (Inr (v, k), d1)"
  shows "getOrCreateActiveKey a kek fresh_id' random_key' iv' now' ctx d1 = (Inr (v, k), d1)
     \<and> foreign (tenant_session ctx) d1 = foreign (tenant_session ctx) d"
proof (cases "active_keys (tenant_session ctx) d")
  case (Cons r rs)
  with assms(3) have "d1 = d" by (auto simp: getOrCreateActiveKey_def withTenant_def)
  with assms(3) Cons show ?thesis by (simp add: getOrCreateActiveKey_def withTenant_def)
next
  case Nil
  with assms(3) obtain w x where w: "createWrappedHouseholdKey a random_key iv kek (tc_org ctx) (tc_hh ctx) 1 = Inr (k, w)"
    and v: "v = 1"
    and ins: "insert_returning household_keys household_keys_update same_household_key
       \<lparr> row_org = tc_org ctx, row_hh = tc_hh ctx, row_id = fresh_id, hk_key_version = 1,
         hk_wrapped_key = wrapped_key_json w, hk_status = ''active'', hk_created = now, hk_retired = None \<rparr>
       (tenant_session ctx) d = Inr (x, d1)"
    by (auto simp: getOrCreateActiveKey_def withTenant_def)
  from w obtain e where e: "encryptEnvelope a iv k kek (key_context (tc_org ctx) (tc_hh ctx) 1) = Inr e"
    and we: "w = envelope.extend e \<lparr> wk_purpose = ''household-dek'' \<rparr>" by (auto simp: create_key_Inr)
  have "unwrapHouseholdKey a w kek (tc_org ctx) (tc_hh ctx) = Inr k"
    using decrypt_encrypt [OF assms(1,2) e, of "\<lparr> wk_purpose = ''household-dek'' \<rparr>"] e
    by (auto simp: unwrapHouseholdKey_def we encryptEnvelope_Inr envelope.defs key_context_def)
  moreover have "wrappedHouseholdKey (wrapped_key_json w) = Inr w"
    unfolding we by (rule wrapped_key_json_read [OF e])
  moreover from ins have d1: "d1 = d \<lparr> household_keys := household_keys d @ [\<lparr> row_org = tc_org ctx, row_hh = tc_hh ctx,
      row_id = fresh_id, hk_key_version = 1, hk_wrapped_key = wrapped_key_json w, hk_status = ''active'',
      hk_created = now, hk_retired = None \<rparr>] \<rparr>"
    by (simp add: household_keys_t.insert_returning_Inr)
  ultimately show ?thesis
    using active_keys_insert [OF Nil] v household_keys_t.insert_returning_foreign [OF ins]
    by (simp add: getOrCreateActiveKey_def withTenant_def)
qed


lemma sample_first_key:
  "\<exists>d1. getOrCreateActiveKey plain_aead sample_key ''i'' ''data key'' sample_iv 5
     \<lparr> tc_org = ''o'', tc_hh = ''h'', tc_actor = ''p'' \<rparr> empty_db = (Inr (1, ''data key''), d1)"
proof -
  have "associatedData (key_context ''o'' ''h'' 1) = Inr ''legacy-vault:o:h:h:household-dek:v1''" by code_simp
  then show ?thesis
    by (simp add: getOrCreateActiveKey_def withTenant_def active_keys_def sql_select_def empty_db_def order_by_def
        createWrappedHouseholdKey_def assertAesKey_def encryptEnvelope_def case_prod_beta
        household_keys_t.insert_returning_Inr)
qed


end
