(* ===== verification/Report_Store.thy ===== *)
theory Report_Store
  imports Workflow_Store Fact_Store
begin

text \<open>
  Reports, notification deliveries and consents: the methods \<open>startReport\<close> to
  \<open>recordConsent\<close>, \<open>withdrawConsent\<close> and \<open>getActiveConsent\<close> of \<open>repository.ts\<close>, with the
  checks and unique indexes of \<open>0013_queued_reports_and_reviews.sql\<close> and
  \<open>0014_transactional_notifications.sql\<close>.
\<close>

section \<open>Reports\<close>

definition report_row_ok :: "report_row \<Rightarrow> bool" where
  "report_row_ok r \<longleftrightarrow>
     (r_status r = ''pending'' \<and> r_completed r = None \<and> r_payload r = None \<and> r_key_version r = None)
     \<or> (r_status r = ''completed'' \<and> r_completed r \<noteq> None \<and> r_payload r \<noteq> None
        \<and> (case r_key_version r of None \<Rightarrow> False | Some v \<Rightarrow> 0 < v))
     \<or> r_status r = ''failed''"

definition same_report :: "report_row \<Rightarrow> report_row \<Rightarrow> bool" where
  "same_report r r' \<longleftrightarrow> same_id r r' \<or> (r_workflow r \<noteq> None \<and> r_workflow r = r_workflow r')"

definition new_report ::
  "tenant_context \<Rightarrow> string \<Rightarrow> string \<Rightarrow> string \<Rightarrow> int \<Rightarrow> report_row" where
  "new_report ctx report_id workflow_id kind requested_at = \<lparr> row_org = tc_org ctx, row_hh = tc_hh ctx,
     row_id = report_id, row_version = 1, r_kind = kind, r_workflow = Some workflow_id,
     r_requested_by = Some (tc_actor ctx), r_status = ''pending'', r_generated = requested_at,
     r_completed = None, r_claims = JArr [], r_versions = JObj [], r_payload = None, r_key_version = None \<rparr>"

definition startReport ::
  "tenant_context \<Rightarrow> string \<Rightarrow> string \<Rightarrow> string \<Rightarrow> string \<Rightarrow> int \<Rightarrow> db \<Rightarrow> (report_row \<times> workflow_row) result \<times> db" where
  "startReport ctx report_id workflow_id idempotency_key kind requested_at = withTenant ctx (\<lambda>s d.
     case insert_returning reports reports_update same_report
            (new_report ctx report_id workflow_id kind requested_at) s d of
       Inl e \<Rightarrow> Inl e
     | Inr (r, d1) \<Rightarrow>
         (case insert_returning workflows workflows_update same_workflow
                 (new_workflow ctx workflow_id (if kind = ''annual-review'' then ''annual-review'' else ''report'')
                    (''report:'' @ idempotency_key) ''collect'' (Some (''Report'', report_id))) s d1 of
            Inl e \<Rightarrow> Inl e
          | Inr (w, d2) \<Rightarrow> Inr ((r, w), d2)))"

record build_input =
  bi_report :: string
  bi_workflow :: "string option"
  bi_kind :: string
  bi_status :: string
  bi_requested :: int
  bi_facts :: "fact_read list"
  bi_documents :: "(string \<times> int option) list"

text \<open>The rejected facts are left out: \<open>where status<>'rejected' order by field_key,id\<close>.\<close>

definition getReportBuildInput ::
  "(string \<Rightarrow> 'k::linorder) \<Rightarrow> tenant_context \<Rightarrow> string \<Rightarrow> db \<Rightarrow> build_input result \<times> db" where
  "getReportBuildInput collate ctx workflow_id = withTenant ctx (\<lambda>s d.
     case sql_select s (\<lambda>r. r_workflow r = Some workflow_id
              \<and> list_ex (\<lambda>w. tenant_visible s w \<and> row_id w = workflow_id \<and> w_subject_type w = Some ''Report''
                   \<and> w_subject_id w = Some (row_id r)) (workflows d)) (reports d) of
       [] \<Rightarrow> Inl (js_error ''report workflow is unavailable'')
     | r # _ \<Rightarrow> Inr (\<lparr> bi_report = row_id r, bi_workflow = r_workflow r, bi_kind = r_kind r,
         bi_status = r_status r, bi_requested = r_generated r,
         bi_facts = map read_fact (order_by (\<lambda>f. collate (f_field_key f)) (order_by row_id
            (sql_select s (\<lambda>f. f_status f \<noteq> ''rejected'') (facts d)))),
         bi_documents = map (\<lambda>x. (row_id x, d_expires x)) (order_by row_id
            (sql_select s (\<lambda>x. d_status x \<noteq> ''deleted'') (documents d))) \<rparr>, d))"

definition getReport :: "tenant_context \<Rightarrow> string \<Rightarrow> db \<Rightarrow> report_row option result \<times> db" where
  "getReport ctx report_id = withTenant ctx (\<lambda>s d.
     Inr (case sql_select s (\<lambda>r. row_id r = report_id) (reports d) of [] \<Rightarrow> None | r # _ \<Rightarrow> Some r, d))"

definition complete_report_pred :: "string \<Rightarrow> string \<Rightarrow> report_row \<Rightarrow> bool" where
  "complete_report_pred report_id workflow_id r \<longleftrightarrow>
     row_id r = report_id \<and> r_workflow r = Some workflow_id \<and> r_status r = ''pending''"

definition complete_report_set :: "int \<Rightarrow> string \<Rightarrow> int \<Rightarrow> report_row \<Rightarrow> report_row" where
  "complete_report_set at payload key_version r = r \<lparr> r_status := ''completed'', r_generated := at,
     r_completed := Some at, r_payload := Some payload, r_key_version := Some key_version,
     row_version := row_version r + 1 \<rparr>"

definition finish_report_workflow :: "workflow_row \<Rightarrow> workflow_row" where
  "finish_report_workflow w = w \<lparr> w_status := ''completed'',
     w_completed_steps := [''collect'', ''generate'', ''store''], w_next := None, w_error := None,
     row_version := row_version w + 1 \<rparr>"

definition completeReport ::
  "tenant_context \<Rightarrow> string \<Rightarrow> string \<Rightarrow> int \<Rightarrow> string \<Rightarrow> int \<Rightarrow> db \<Rightarrow> unit result \<times> db" where
  "completeReport ctx report_id workflow_id generated_at payload key_version = withTenant ctx (\<lambda>s d.
     let p = complete_report_pred report_id workflow_id;
         finish = (\<lambda>d. Inr ((), d \<lparr> workflows := sql_update s (\<lambda>w. row_id w = workflow_id \<and> w_status w \<noteq> ''completed'')
           finish_report_workflow (workflows d) \<rparr>)) in
     if sql_select s p (reports d) \<noteq> []
     then (if key_version \<le> 0 then Inl pg_check_violation
           else finish (d \<lparr> reports := sql_update s p (complete_report_set generated_at payload key_version) (reports d) \<rparr>))
     else if sql_select s (\<lambda>r. row_id r = report_id \<and> r_workflow r = Some workflow_id \<and> r_status r = ''completed'')
               (reports d) = []
     then Inl (js_error ''report completion conflict'')
     else finish d)"

section \<open>Notifications\<close>

record delivery_input =
  di_delivery :: string
  di_report :: string
  di_kind :: string
  di_email :: string
  di_status :: string
  di_message :: "string option"

text \<open>
  The join of the completed annual review with the requester's active memberships, verified
  addresses and live consents, the latest consent first.  \<open>verified_email\<close> reads better-auth's
  \<open>user\<close> table: the address of a user, when it is verified.
\<close>

definition eligible_recipients ::
  "(string \<Rightarrow> string option) \<Rightarrow> session \<Rightarrow> string \<Rightarrow> db \<Rightarrow> (string \<times> string \<times> string \<times> int) list" where
  "eligible_recipients verified_email s workflow_id d = order_by (\<lambda>(_, _, _, granted). - granted)
     [(row_id r, m_person m, email, c_granted c).
        r \<leftarrow> sql_select s (\<lambda>r. r_workflow r = Some workflow_id \<and> r_kind r = ''annual-review''
               \<and> r_status r = ''completed'') (reports d),
        m \<leftarrow> sql_select s (\<lambda>m. r_requested_by r = Some (m_person m) \<and> m_active m = 1) (memberships d),
        email \<leftarrow> (case m_auth_user m of None \<Rightarrow> []
                  | Some u \<Rightarrow> (case verified_email u of None \<Rightarrow> [] | Some e \<Rightarrow> [e])),
        c \<leftarrow> sql_select s (\<lambda>c. r_requested_by r = Some (c_person c) \<and> c_purpose c = ''transactional-email''
               \<and> c_withdrawn c = None) (consents d)]"

definition new_delivery :: "tenant_context \<Rightarrow> string \<Rightarrow> string \<Rightarrow> string \<Rightarrow> int \<Rightarrow> delivery_row" where
  "new_delivery ctx fresh_id workflow_id person now = \<lparr> row_org = tc_org ctx, row_hh = tc_hh ctx,
     row_id = fresh_id, row_version = 1, n_workflow = workflow_id, n_recipient = person,
     n_kind = ''annual-review-ready'', n_status = ''pending'', n_message_id = None, n_attempts = 0,
     n_error = None, n_created = now, n_sent = None \<rparr>"

definition same_recipient :: "delivery_row \<Rightarrow> delivery_row \<Rightarrow> bool" where
  "same_recipient n n' \<longleftrightarrow> n_workflow n = n_workflow n' \<and> n_recipient n = n_recipient n' \<and> n_kind n = n_kind n'"

text \<open>
  The insert returns the row that is there when the recipient already has a delivery; where that
  row belongs to another tenant the policy refuses.
\<close>

definition reserve_delivery :: "tenant_context \<Rightarrow> delivery_row \<Rightarrow> session \<Rightarrow> delivery_row op" where
  "reserve_delivery ctx n s d =
     (case filter (same_recipient n) (deliveries d) of
        [] \<Rightarrow> insert_returning deliveries deliveries_update same_id n s d
      | n' # _ \<Rightarrow> if tenant_visible s n' then Inr (n', d) else Inl pg_rls_violation)"

definition getNotificationDeliveryInput ::
  "(string \<Rightarrow> string option) \<Rightarrow> tenant_context \<Rightarrow> string \<Rightarrow> int \<Rightarrow> string \<Rightarrow> db
   \<Rightarrow> delivery_input option result \<times> db" where
  "getNotificationDeliveryInput verified_email ctx fresh_id now workflow_id = withTenant ctx (\<lambda>s d.
     case eligible_recipients verified_email s workflow_id d of
       [] \<Rightarrow> Inr (None, d)
     | (report_id, person, email, _) # _ \<Rightarrow>
         (case reserve_delivery ctx (new_delivery ctx fresh_id workflow_id person now) s d of
            Inl e \<Rightarrow> Inl e
          | Inr (n, d') \<Rightarrow> Inr (Some \<lparr> di_delivery = row_id n, di_report = report_id,
              di_kind = ''annual-review-ready'', di_email = email, di_status = n_status n,
              di_message = (if n_message_id n = Some [] then None else n_message_id n) \<rparr>, d')))"

definition delivery_sent_set :: "string \<Rightarrow> int \<Rightarrow> delivery_row \<Rightarrow> delivery_row" where
  "delivery_sent_set message_id at n = n \<lparr> n_status := ''sent'', n_message_id := Some message_id,
     n_sent := Some at, n_error := None, n_attempts := n_attempts n + 1, row_version := row_version n + 1 \<rparr>"

definition unsent :: "string \<Rightarrow> delivery_row \<Rightarrow> bool" where
  "unsent delivery_id n \<longleftrightarrow> row_id n = delivery_id \<and> n_status n \<noteq> ''sent''"

definition completeNotificationDelivery ::
  "tenant_context \<Rightarrow> string \<Rightarrow> string \<Rightarrow> int \<Rightarrow> db \<Rightarrow> unit result \<times> db" where
  "completeNotificationDelivery ctx delivery_id message_id sent_at = withTenant ctx (\<lambda>s d.
     if sql_select s (unsent delivery_id) (deliveries d) \<noteq> []
     then Inr ((), d \<lparr> deliveries := sql_update s (unsent delivery_id) (delivery_sent_set message_id sent_at) (deliveries d) \<rparr>)
     else if sql_select s (\<lambda>n. row_id n = delivery_id \<and> n_status n = ''sent'' \<and> n_message_id n = Some message_id)
               (deliveries d) = []
     then Inl (js_error ''notification completion conflict'')
     else Inr ((), d))"

definition delivery_failed_set :: "string \<Rightarrow> delivery_row \<Rightarrow> delivery_row" where
  "delivery_failed_set error_class n = n \<lparr> n_status := ''failed'', n_error := Some (take 120 error_class),
     n_attempts := n_attempts n + 1, row_version := row_version n + 1 \<rparr>"

definition recordNotificationDeliveryFailure ::
  "tenant_context \<Rightarrow> string \<Rightarrow> string \<Rightarrow> db \<Rightarrow> unit result \<times> db" where
  "recordNotificationDeliveryFailure ctx delivery_id error_class = withTenant ctx (\<lambda>s d.
     Inr ((), d \<lparr> deliveries := sql_update s (unsent delivery_id) (delivery_failed_set error_class) (deliveries d) \<rparr>))"

section \<open>Consents\<close>

definition new_consent :: "tenant_context \<Rightarrow> string \<Rightarrow> string \<Rightarrow> string \<Rightarrow> string \<Rightarrow> int \<Rightarrow> consent_row" where
  "new_consent ctx fresh_id person purpose policy granted_at = \<lparr> row_org = tc_org ctx, row_hh = tc_hh ctx,
     row_id = fresh_id, row_version = 1, c_person = person, c_purpose = purpose, c_policy = policy,
     c_granted = granted_at, c_withdrawn = None \<rparr>"

definition recordConsent ::
  "tenant_context \<Rightarrow> string \<Rightarrow> string \<Rightarrow> string \<Rightarrow> string \<Rightarrow> int \<Rightarrow> db \<Rightarrow> consent_row result \<times> db" where
  "recordConsent ctx fresh_id person purpose policy granted_at = withTenant ctx
     (insert_returning consents consents_update same_id (new_consent ctx fresh_id person purpose policy granted_at))"

definition withdraw_pred :: "string \<Rightarrow> int \<Rightarrow> consent_row \<Rightarrow> bool" where
  "withdraw_pred consent_id version c \<longleftrightarrow> row_id c = consent_id \<and> row_version c = version \<and> c_withdrawn c = None"

definition withdraw_set :: "int \<Rightarrow> consent_row \<Rightarrow> consent_row" where
  "withdraw_set at c = c \<lparr> c_withdrawn := Some at, row_version := row_version c + 1 \<rparr>"

definition withdrawConsent ::
  "tenant_context \<Rightarrow> string \<Rightarrow> int \<Rightarrow> int \<Rightarrow> db \<Rightarrow> consent_row result \<times> db" where
  "withdrawConsent ctx consent_id expected_version withdrawn_at = withTenant ctx
     (update_returning consents consents_update (withdraw_pred consent_id expected_version)
        (withdraw_set withdrawn_at) ''consent withdrawal conflict or unavailable'')"

definition getActiveConsent ::
  "tenant_context \<Rightarrow> string \<Rightarrow> string \<Rightarrow> db \<Rightarrow> (string \<times> string \<times> int) option result \<times> db" where
  "getActiveConsent ctx person purpose = withTenant ctx (\<lambda>s d.
     Inr (case rev (order_by c_granted (order_by row_id (sql_select s (\<lambda>c. c_person c = person
                \<and> c_purpose c = purpose \<and> c_withdrawn c = None) (consents d)))) of
            [] \<Rightarrow> None | c # _ \<Rightarrow> Some (row_id c, c_policy c, row_version c), d))"

end
