(* ===== verification/Canonical_Json.thy ===== *)
theory Canonical_Json
  imports Js_Json "HOL-Library.List_Lexorder" "HOL-Library.Char_ord" "HOL-Library.Multiset"
begin

text \<open>
  Canonical JSON text: \<open>canonicalReportValue\<close> of \<open>packages/reports\<close> prints the members of every
  object in the order of their keys.  \<open>localeCompare\<close> is a parameter: the sort key \<open>collate\<close> of
  a text in the locale's order.
\<close>

fun canonicalReportValue :: "(string \<Rightarrow> 'k::linorder) \<Rightarrow> json \<Rightarrow> string" where
  "canonicalReportValue collate (JArr vs) = ''['' @ join '','' (map (canonicalReportValue collate) vs) @ '']''"
| "canonicalReportValue collate (JObj kvs) = ''{'' @ join '','' (map (\<lambda>(k, t). quote_string k @ '':'' @ t)
     (sort_key (\<lambda>(k, t). collate k) (map (\<lambda>(k, v). (k, canonicalReportValue collate v)) kvs))) @ ''}''"
| "canonicalReportValue collate v = json_stringify v"

text \<open>The value that the canonical text denotes: the same one with its members sorted.\<close>

fun canon_sort :: "(string \<Rightarrow> 'k::linorder) \<Rightarrow> json \<Rightarrow> json" where
  "canon_sort collate (JArr vs) = JArr (map (canon_sort collate) vs)"
| "canon_sort collate (JObj kvs) =
     JObj (sort_key (\<lambda>(k, v). collate k) (map (\<lambda>(k, v). (k, canon_sort collate v)) kvs))"
| "canon_sort collate v = v"

lemma canon_sort_JObj_not_null [simp]: "canon_sort collate (JObj kvs) \<noteq> JNull"
  by simp

section \<open>Sorting members\<close>

lemma insort_key_map: "insort_key f (g x) (map g xs) = map g (insort_key (f \<circ> g) x xs)"
  by (induction xs) simp_all

lemma sort_key_map: "sort_key f (map g xs) = map g (sort_key (f \<circ> g) xs)"
  by (induction xs) (simp_all add: insort_key_map comp_def)

abbreviation by_key :: "(string \<Rightarrow> 'k::linorder) \<Rightarrow> (string \<times> 'a) list \<Rightarrow> (string \<times> 'a) list" where
  "by_key collate \<equiv> sort_key (\<lambda>(k, v). collate k)"

lemma distinct_by_key [simp]: "distinct (map fst (by_key collate kvs)) \<longleftrightarrow> distinct (map fst kvs)"
proof -
  have "mset (map fst (by_key collate kvs)) = mset (map fst kvs)" by simp
  then show ?thesis by (rule mset_eq_imp_distinct_iff)
qed

lemma map_of_by_key: "distinct (map fst kvs) \<Longrightarrow> map_of (by_key collate kvs) = map_of kvs"
  by (subst map_of_inject_set) simp_all

lemma by_key_values:
  "by_key collate (map (\<lambda>(k, v). (k, g v)) kvs) = map (\<lambda>(k, v). (k, g v)) (by_key collate kvs)"
proof -
  have "(\<lambda>(k, v). collate k) \<circ> (\<lambda>(k, v). (k, g v)) = (\<lambda>(k, v). collate k)" by auto
  then show ?thesis by (simp only: sort_key_map)
qed

lemma canonical_is_stringify: "canonicalReportValue collate v = json_stringify (canon_sort collate v)"
proof (induction v)
  case (JObj kvs)
  then have "map (\<lambda>(k, v). (k, canonicalReportValue collate v)) kvs
      = map (\<lambda>(k, v). (k, json_stringify (canon_sort collate v))) kvs"
    by (auto simp: snds.intros)
  then show ?case
    unfolding canonicalReportValue.simps canon_sort.simps json_stringify.simps
    by (simp only: by_key_values) (simp add: comp_def case_prod_beta)
next
  case (JArr vs)
  then have "map (canonicalReportValue collate) vs = map (\<lambda>v. json_stringify (canon_sort collate v)) vs"
    by simp
  then show ?case unfolding canonicalReportValue.simps canon_sort.simps json_stringify.simps
    by (simp only: map_map comp_def)
qed simp_all

lemma json_wf_canon_sort: "json_wf v \<Longrightarrow> json_wf (canon_sort collate v)"
proof (induction v)
  case (JObj kvs)
  then show ?case by (fastforce simp: list_all_iff by_key_values comp_def case_prod_beta snds.intros)
qed (auto simp: list_all_iff)

lemma canonical_parses [simp]:
  "json_wf v \<Longrightarrow> json_parse (canonicalReportValue collate v) = Some (canon_sort collate v)"
  by (simp add: canonical_is_stringify json_wf_canon_sort)

lemma jfield_canon_sort:
  "distinct (map fst kvs) \<Longrightarrow>
     jfield (canon_sort collate (JObj kvs)) k = map_option (canon_sort collate) (map_of kvs k)"
proof -
  assume d: "distinct (map fst kvs)"
  have "map fst (map (\<lambda>(k, v). (k, canon_sort collate v)) kvs) = map fst kvs" by auto
  then have "distinct (map fst (map (\<lambda>(k, v). (k, canon_sort collate v)) kvs))" using d by (simp only:)
  then have "map_of (by_key collate (map (\<lambda>(k, v). (k, canon_sort collate v)) kvs))
      = map_of (map (\<lambda>(k, v). (k, canon_sort collate v)) kvs)" by (rule map_of_by_key)
  then show ?thesis by (simp add: map_of_map)
qed

text \<open>Sorting the members of a sorted value changes nothing.\<close>

lemma canon_sort_idem [simp]: "canon_sort collate (canon_sort collate v) = canon_sort collate v"
proof (induction v)
  case (JObj kvs)
  then have eq: "map (\<lambda>(k, v). (k, canon_sort collate (canon_sort collate v))) kvs
      = map (\<lambda>(k, v). (k, canon_sort collate v)) kvs"
    by (auto simp: snds.intros)
  have "canon_sort collate (canon_sort collate (JObj kvs))
      = JObj (by_key collate (map (\<lambda>(k, v). (k, canon_sort collate v)) (by_key collate (map (\<lambda>(k, v). (k, canon_sort collate v)) kvs))))"
    by simp
  also have "\<dots> = JObj (by_key collate (by_key collate (map (\<lambda>(k, v). (k, canon_sort collate (canon_sort collate v))) kvs)))"
    by (simp only: by_key_values [symmetric] map_map) (simp add: comp_def case_prod_unfold)
  also have "\<dots> = canon_sort collate (JObj kvs)" by (simp add: eq sort_key_id_if_sorted)
  finally show ?case .
qed auto

lemma canonical_canon_sort [simp]:
  "canonicalReportValue collate (canon_sort collate v) = canonicalReportValue collate v"
  by (simp add: canonical_is_stringify)

end
