(* ===== verification/Audit_Chain.thy ===== *)
theory Audit_Chain
  imports Canonical_Json Js_Bytes Js_Text Js_Date Vault_Tenancy
begin

text \<open>
  The audit log (\<open>packages/audit\<close>): events chained by an HMAC over their canonical text
  (\<open>index.ts\<close>) and the store that appends and verifies them (\<open>store.ts\<close>).  HMAC-SHA-256 is a
  parameter \<open>hmac key bytes\<close> that gives the bytes of the digest.
\<close>

section \<open>Events\<close>

record audit_event =
  au_org :: string
  au_hh :: string
  au_sequence :: int
  au_occurred :: string
  au_actor :: string
  au_action :: string
  au_outcome :: string
  au_metadata :: "(string \<times> json) list"
  au_previous :: string

record chained_event = audit_event +
  au_hash :: string

definition audit_error :: "string \<Rightarrow> err" where
  "audit_error m = Thrown ''AuditIntegrityError'' m"

definition forbiddenMetadataKey :: re where
  "forbiddenMetadataKey = alts (map lit_i [''payload'', ''document'', ''fact'', ''prompt'', ''output'', ''email'',
     ''name'', ''token'', ''secret'', ''password'', ''cookie'', ''authorization''])"

definition audit_canonicalize :: "(string \<Rightarrow> 'k::linorder) \<Rightarrow> json \<Rightarrow> string" where
  "audit_canonicalize = canonicalReportValue"

fun assertMetadata :: "(string \<times> json) list \<Rightarrow> unit result" where
  "assertMetadata [] = Inr ()"
| "assertMetadata ((key, v) # r) =
     (if re_test forbiddenMetadataKey key then Inl (audit_error (''audit metadata key is forbidden: '' @ key))
      else case v of
        JStr s \<Rightarrow> if 120 < length s then Inl (audit_error ''audit metadata string exceeds safe bound'')
                 else assertMetadata r
      | _ \<Rightarrow> assertMetadata r)"

definition event_json :: "'a audit_event_scheme \<Rightarrow> json" where
  "event_json e = JObj [(''organizationId'', JStr (au_org e)), (''householdId'', JStr (au_hh e)),
     (''sequence'', JNum (au_sequence e)), (''occurredAt'', JStr (au_occurred e)),
     (''actorPseudonym'', JStr (au_actor e)), (''action'', JStr (au_action e)),
     (''outcome'', JStr (au_outcome e)), (''metadata'', JObj (au_metadata e)),
     (''previousHash'', JStr (au_previous e))]"

definition eventDigest ::
  "(string \<Rightarrow> 'k::linorder) \<Rightarrow> (string \<Rightarrow> string \<Rightarrow> string) \<Rightarrow> 'a audit_event_scheme \<Rightarrow> string \<Rightarrow> string result" where
  "eventDigest collate hmac e key =
     (if length key < 32 then Inl (audit_error ''audit key must be at least 32 bytes'')
      else res_bind (assertMetadata (au_metadata e)) (\<lambda>_.
        Inr (hex_text (hmac key (utf8_bytes (audit_canonicalize collate (event_json e)))))))"

definition createAuditEvent ::
  "(string \<Rightarrow> 'k::linorder) \<Rightarrow> (string \<Rightarrow> string \<Rightarrow> string) \<Rightarrow> audit_event \<Rightarrow> string \<Rightarrow> chained_event result" where
  "createAuditEvent collate hmac e key =
     (if \<not> is_safe_integer (au_sequence e) \<or> au_sequence e < 1
      then Inl (audit_error ''audit sequence must be positive'')
      else res_bind (eventDigest collate hmac e key) (\<lambda>h. Inr (audit_event.extend e \<lparr> au_hash = h \<rparr>)))"

fun verify_from ::
  "(string \<Rightarrow> 'k::linorder) \<Rightarrow> (string \<Rightarrow> string \<Rightarrow> string) \<Rightarrow> string \<Rightarrow> int \<Rightarrow> string \<Rightarrow> chained_event list \<Rightarrow> bool result" where
  "verify_from collate hmac key index previous [] = Inr True"
| "verify_from collate hmac key index previous (e # es) =
     (if au_sequence e \<noteq> index + 1 \<or> au_previous e \<noteq> previous then Inr False
      else res_bind (eventDigest collate hmac e key) (\<lambda>h.
        if hex_bytes (au_hash e) \<noteq> hex_bytes h then Inr False
        else verify_from collate hmac key (index + 1) (au_hash e) es))"

definition verifyAuditChain ::
  "(string \<Rightarrow> 'k::linorder) \<Rightarrow> (string \<Rightarrow> string \<Rightarrow> string) \<Rightarrow> chained_event list \<Rightarrow> string \<Rightarrow> bool result" where
  "verifyAuditChain collate hmac es key = verify_from collate hmac key 0 ''GENESIS'' es"

text \<open>Two calls of \<open>update\<close> feed the concatenation of their texts.\<close>

definition pseudonymizeIdentifier :: "(string \<Rightarrow> string \<Rightarrow> string) \<Rightarrow> string \<Rightarrow> string \<Rightarrow> string result" where
  "pseudonymizeIdentifier hmac identifier key =
     (if length key < 32 then Inl (audit_error ''audit key must be at least 32 bytes'')
      else Inr (take 32 (hex_text (hmac key (utf8_bytes (''legacy-vault:audit-pseudonym:'' @ identifier))))))"

section \<open>The store\<close>

definition same_audit :: "audit_row \<Rightarrow> audit_row \<Rightarrow> bool" where
  "same_audit r r' \<longleftrightarrow> same_id r r' \<or> (row_hh r = row_hh r' \<and> a_sequence r = a_sequence r')
     \<or> a_hash r = a_hash r'"

record append_input =
  ap_id :: string
  ap_occurred :: int
  ap_actor :: string
  ap_action :: string
  ap_outcome :: string
  ap_metadata :: "(string \<times> json) list"

definition audit_rows :: "session \<Rightarrow> db \<Rightarrow> audit_row list" where
  "audit_rows s d = order_by a_sequence (sql_select s (\<lambda>_. True) (audit d))"

text \<open>The callers pass \<open>occurredAt\<close> as \<open>new Date().toISOString()\<close>: the argument is that time.\<close>

definition next_event :: "(string \<Rightarrow> string \<Rightarrow> string) \<Rightarrow> string \<Rightarrow> tenant_context \<Rightarrow> append_input \<Rightarrow> session \<Rightarrow> db
    \<Rightarrow> audit_event result" where
  "next_event hmac key ctx i s d = res_bind (pseudonymizeIdentifier hmac (ap_actor i) key) (\<lambda>actor.
     let previous = rev (audit_rows s d) in
     Inr \<lparr> au_org = tc_org ctx, au_hh = tc_hh ctx,
       au_sequence = (case previous of [] \<Rightarrow> 0 | r # _ \<Rightarrow> a_sequence r) + 1,
       au_occurred = toISOString (ap_occurred i), au_actor = actor, au_action = ap_action i,
       au_outcome = ap_outcome i, au_metadata = ap_metadata i,
       au_previous = (case previous of [] \<Rightarrow> ''GENESIS'' | r # _ \<Rightarrow> a_hash r) \<rparr>)"

definition audit_row_of :: "string \<Rightarrow> int \<Rightarrow> chained_event \<Rightarrow> audit_row" where
  "audit_row_of i occurred e = \<lparr> row_org = au_org e, row_hh = au_hh e, row_id = i, a_sequence = au_sequence e,
     a_occurred = occurred, a_actor = au_actor e, a_action = au_action e, a_outcome = au_outcome e,
     a_metadata = JObj (au_metadata e), a_previous = au_previous e, a_hash = au_hash e \<rparr>"

definition audit_append ::
  "(string \<Rightarrow> 'k::linorder) \<Rightarrow> (string \<Rightarrow> string \<Rightarrow> string) \<Rightarrow> string \<Rightarrow> tenant_context \<Rightarrow> append_input \<Rightarrow> db
   \<Rightarrow> chained_event result \<times> db" where
  "audit_append collate hmac key ctx i = withTenant ctx (\<lambda>s d.
     res_bind (next_event hmac key ctx i s d) (\<lambda>input.
     res_bind (createAuditEvent collate hmac input key) (\<lambda>e.
     res_bind (sql_insert s same_audit (audit_row_of (ap_id i) (ap_occurred i) e) (audit d)) (\<lambda>t.
       Inr (e, d \<lparr> audit := t \<rparr>)))))"

definition read_audit :: "audit_row \<Rightarrow> chained_event" where
  "read_audit r = \<lparr> au_org = row_org r, au_hh = row_hh r, au_sequence = a_sequence r,
     au_occurred = toISOString (a_occurred r), au_actor = a_actor r, au_action = a_action r,
     au_outcome = a_outcome r, au_metadata = (case a_metadata r of JObj kvs \<Rightarrow> kvs | _ \<Rightarrow> []),
     au_previous = a_previous r, au_hash = a_hash r \<rparr>"

definition audit_verify ::
  "(string \<Rightarrow> 'k::linorder) \<Rightarrow> (string \<Rightarrow> string \<Rightarrow> string) \<Rightarrow> string \<Rightarrow> tenant_context \<Rightarrow> db \<Rightarrow> bool result \<times> db" where
  "audit_verify collate hmac key ctx = withTenant ctx (\<lambda>s d.
     res_bind (verifyAuditChain collate hmac (map read_audit (audit_rows s d)) key) (\<lambda>b. Inr (b, d)))"

definition readVerified ::
  "(string \<Rightarrow> 'k::linorder) \<Rightarrow> (string \<Rightarrow> string \<Rightarrow> string) \<Rightarrow> string \<Rightarrow> tenant_context \<Rightarrow> int \<Rightarrow> int \<Rightarrow> db
   \<Rightarrow> (chained_event list \<times> int option) result \<times> db" where
  "readVerified collate hmac key ctx after_sequence limit d =
     (if \<not> is_safe_integer after_sequence \<or> after_sequence < 0 then (Inl (js_error ''audit sequence is invalid''), d)
      else if \<not> is_safe_integer limit \<or> limit < 1 \<or> 100 < limit
      then (Inl (js_error ''audit page limit is invalid''), d)
      else withTenant ctx (\<lambda>s d.
        let events = map read_audit (audit_rows s d) in
        res_bind (verifyAuditChain collate hmac events key) (\<lambda>b.
          if \<not> b then Inl (js_error ''audit chain verification failed'')
          else (let available = filter (\<lambda>e. after_sequence < au_sequence e) events;
                    page = take (nat limit) available in
            Inr ((page, if length page < length available
                        then (case rev page of [] \<Rightarrow> None | e # _ \<Rightarrow> Some (au_sequence e)) else None), d)))) d)"

section \<open>Chains\<close>

lemma event_json_extend [simp]: "event_json (audit_event.extend e m) = event_json e"
  by (simp add: event_json_def audit_event.defs)

lemma eventDigest_extend [simp]:
  "eventDigest collate hmac (audit_event.extend e m) key = eventDigest collate hmac e key"
  by (simp add: eventDigest_def) (simp add: audit_event.defs)

lemma verify_from_snoc:
  "verify_from collate hmac key i p (es @ [e]) = Inr True \<longleftrightarrow> verify_from collate hmac key i p es = Inr True
     \<and> au_sequence e = i + int (length es) + 1 \<and> au_previous e = (if es = [] then p else au_hash (last es))
     \<and> (\<exists>h. eventDigest collate hmac e key = Inr h \<and> hex_bytes (au_hash e) = hex_bytes h)"
  by (induction es arbitrary: i p) auto

lemma verify_from_sequences:
  "verify_from collate hmac key i p es = Inr True \<Longrightarrow> k < length es \<Longrightarrow> au_sequence (es ! k) = i + int k + 1"
  by (induction es arbitrary: i p k) (auto simp: nth_Cons split: if_splits nat.splits)

lemma insort_key_snoc: "f y \<le> f x \<Longrightarrow> insort_key f y (zs @ [x]) = insort_key f y zs @ [x]"
  by (induction zs) auto

lemma order_by_snoc: "(\<And>y. y \<in> set ys \<Longrightarrow> k y \<le> k x) \<Longrightarrow> order_by k (ys @ [x]) = order_by k ys @ [x]"
  by (induction ys) (auto simp: order_by_def insort_key_snoc)

lemma next_event_Inr:
  "next_event hmac key ctx i s d = Inr x \<longleftrightarrow> (\<exists>actor. pseudonymizeIdentifier hmac (ap_actor i) key = Inr actor
     \<and> x = \<lparr> au_org = tc_org ctx, au_hh = tc_hh ctx,
       au_sequence = (if audit_rows s d = [] then 0 else a_sequence (last (audit_rows s d))) + 1,
       au_occurred = toISOString (ap_occurred i), au_actor = actor, au_action = ap_action i,
       au_outcome = ap_outcome i, au_metadata = ap_metadata i,
       au_previous = (if audit_rows s d = [] then ''GENESIS'' else a_hash (last (audit_rows s d))) \<rparr>)"
  by (cases "audit_rows s d" rule: rev_cases) (auto simp: next_event_def Let_def)

lemma read_audit_row_of:
  "au_occurred e = toISOString t \<Longrightarrow> read_audit (audit_row_of i t e) = e"
  by (simp add: read_audit_def audit_row_of_def)

lemma append_Inr:
  assumes "audit_append collate hmac key ctx i d = (Inr e, d')"
  shows "\<exists>input h. next_event hmac key ctx i (tenant_session ctx) d = Inr input
    \<and> eventDigest collate hmac input key = Inr h \<and> e = audit_event.extend input \<lparr> au_hash = h \<rparr>
    \<and> d' = d \<lparr> audit := audit d @ [audit_row_of (ap_id i) (ap_occurred i) e] \<rparr>"
  using assms
  by (auto simp: audit_append_def withTenant_def createAuditEvent_def sql_insert_Inr split: if_splits)

lemma audit_rows_other:
  assumes "\<not> tenant_visible s r"
  shows "audit_rows s (d \<lparr> audit := audit d @ [r] \<rparr>) = audit_rows s d"
  using assms by (simp add: audit_rows_def sql_select_def)

lemma append_verifies:
  assumes "audit_append collate hmac key ctx i d = (Inr e, d')"
    and "verifyAuditChain collate hmac (map read_audit (audit_rows (tenant_session c) d)) key = Inr True"
  shows "verifyAuditChain collate hmac (map read_audit (audit_rows (tenant_session c) d')) key = Inr True
    \<and> (\<exists>rs. audit_rows (tenant_session c) d' = audit_rows (tenant_session c) d @ rs)"
proof -
  from append_Inr [OF assms(1)] obtain input h where input: "next_event hmac key ctx i (tenant_session ctx) d = Inr input"
    and h: "eventDigest collate hmac input key = Inr h" and e: "e = audit_event.extend input \<lparr> au_hash = h \<rparr>"
    and d': "d' = d \<lparr> audit := audit d @ [audit_row_of (ap_id i) (ap_occurred i) e] \<rparr>" by blast
  let ?r = "audit_row_of (ap_id i) (ap_occurred i) e"
  from input e have org: "row_org ?r = tc_org ctx" "row_hh ?r = tc_hh ctx"
    and seq: "a_sequence ?r = (if audit_rows (tenant_session ctx) d = [] then 0 else a_sequence (last (audit_rows (tenant_session ctx) d))) + 1"
    and prev: "au_previous e = (if audit_rows (tenant_session ctx) d = [] then ''GENESIS'' else a_hash (last (audit_rows (tenant_session ctx) d)))"
    and read: "read_audit ?r = e"
    by (auto simp: next_event_Inr audit_row_of_def audit_event.defs read_audit_def)
  show ?thesis
  proof (cases "tc_org c = tc_org ctx \<and> tc_hh c = tc_hh ctx")
    case False
    then have "\<not> tenant_visible (tenant_session c) ?r" using org by auto
    from audit_rows_other [OF this] assms(2) show ?thesis by (simp add: d')
  next
    case True
    then have same: "tenant_session c = tenant_session ctx" by (simp add: tenant_session_def)
    let ?rs = "audit_rows (tenant_session ctx) d"
    have ver: "verify_from collate hmac key 0 ''GENESIS'' (map read_audit ?rs) = Inr True"
      using assms(2) by (simp add: same verifyAuditChain_def)
    have nth: "a_sequence (?rs ! k) = int k + 1" if "k < length ?rs" for k
      using verify_from_sequences [OF ver, of k] that by (simp add: read_audit_def)
    have seq': "a_sequence ?r = int (length ?rs) + 1"
      using seq nth [of "length ?rs - 1"] by (cases "?rs = []") (auto simp: last_conv_nth of_nat_diff Suc_leI)
    have "a_sequence r \<le> a_sequence ?r" if "r \<in> set ?rs" for r
    proof -
      from that obtain k where "k < length ?rs" "r = ?rs ! k" by (metis in_set_conv_nth)
      with nth seq' show ?thesis by simp
    qed
    then have "a_sequence r \<le> a_sequence ?r"
      if "r \<in> set (sql_select (tenant_session ctx) (\<lambda>_. True) (audit d))" for r
      using that by (simp add: audit_rows_def)
    note snoc = order_by_snoc [where k = a_sequence, OF this]
    have "sql_select (tenant_session ctx) (\<lambda>_. True) (audit d')
        = sql_select (tenant_session ctx) (\<lambda>_. True) (audit d) @ [?r]"
      using org by (simp add: d' sql_select_def)
    then have "audit_rows (tenant_session ctx) d' = ?rs @ [?r]" using snoc by (simp only: audit_rows_def)
    moreover have "verify_from collate hmac key 0 ''GENESIS'' (map read_audit ?rs @ [e]) = Inr True"
    proof -
      have "eventDigest collate hmac e key = Inr h" "au_hash e = h"
        using h by (simp add: e, simp add: e audit_event.defs)
      moreover have "au_sequence e = int (length ?rs) + 1" using seq' by (simp add: audit_row_of_def)
      moreover have "?rs \<noteq> [] \<Longrightarrow> au_hash (last (map read_audit ?rs)) = a_hash (last ?rs)"
        by (simp add: last_map read_audit_def)
      ultimately show ?thesis using ver prev by (simp add: verify_from_snoc)
    qed
    ultimately show ?thesis by (simp add: same verifyAuditChain_def read)
  qed
qed

text \<open>Any sequence of accepted appends, by any tenants.\<close>

inductive audit_run :: "(string \<Rightarrow> 'k::linorder) \<Rightarrow> (string \<Rightarrow> string \<Rightarrow> string) \<Rightarrow> string \<Rightarrow> db \<Rightarrow> db \<Rightarrow> bool"
  for collate hmac key where
  no_append: "audit_run collate hmac key d d"
| one_append: "audit_run collate hmac key d d1 \<Longrightarrow> audit_append collate hmac key ctx i d1 = (Inr e, d2) \<Longrightarrow>
    audit_run collate hmac key d d2"

lemma audit_verify_True:
  "audit_verify collate hmac key ctx d = (Inr True, d') \<longleftrightarrow> d' = d
     \<and> verifyAuditChain collate hmac (map read_audit (audit_rows (tenant_session ctx) d)) key = Inr True"
  by (auto simp: audit_verify_def withTenant_def)

text \<open>C24: A household's audit log that verifies still verifies after any sequence of appends by any
  households, and the appends only add to it.\<close>

theorem audit_log_verifies:
  assumes "audit_run collate hmac key d d'" and "audit_verify collate hmac key ctx d = (Inr True, d)"
  shows "audit_verify collate hmac key ctx d' = (Inr True, d')
    \<and> (\<exists>rs. audit_rows (tenant_session ctx) d' = audit_rows (tenant_session ctx) d @ rs)"
  using assms
proof (induction rule: audit_run.induct)
  case (one_append d d1 ctx' i e d2)
  then show ?case using append_verifies [OF one_append.hyps(2), of ctx] by (auto simp: audit_verify_True)
qed simp

lemma sample_append:
  "\<exists>e d1. audit_append (\<lambda>k. k) (\<lambda>k b. b) (replicate 32 CHR ''k'') \<lparr> tc_org = ''o'', tc_hh = ''h'', tc_actor = ''p'' \<rparr>
     \<lparr> ap_id = ''i'', ap_occurred = 0, ap_actor = ''p'', ap_action = ''read'', ap_outcome = ''allowed'', ap_metadata = [] \<rparr>
     empty_db = (Inr e, d1)"
  by (simp add: audit_append_def withTenant_def next_event_Inr audit_rows_def empty_db_def sql_select_def order_by_def
      pseudonymizeIdentifier_def createAuditEvent_def is_safe_integer_def max_safe_integer_def eventDigest_def
      sql_insert_Inr audit_row_of_def audit_event.defs)

theorem audit_log_verifies_witness:
  "\<exists>d1. audit_run (\<lambda>k. k) (\<lambda>k b. b) (replicate 32 CHR ''k'') empty_db d1
     \<and> audit_verify (\<lambda>k. k) (\<lambda>k b. b) (replicate 32 CHR ''k'') \<lparr> tc_org = ''o'', tc_hh = ''h'', tc_actor = ''p'' \<rparr> d1
        = (Inr True, d1)"
proof -
  from sample_append obtain e d1 where "audit_append (\<lambda>k. k) (\<lambda>k b. b) (replicate 32 CHR ''k'')
      \<lparr> tc_org = ''o'', tc_hh = ''h'', tc_actor = ''p'' \<rparr> \<lparr> ap_id = ''i'', ap_occurred = 0, ap_actor = ''p'',
        ap_action = ''read'', ap_outcome = ''allowed'', ap_metadata = [] \<rparr> empty_db = (Inr e, d1)" by blast
  from one_append [OF no_append this]
  have run: "audit_run (\<lambda>k. k) (\<lambda>k b. b) (replicate 32 CHR ''k'') empty_db d1" .
  have "audit_verify (\<lambda>k. k) (\<lambda>k b. b) (replicate 32 CHR ''k'') \<lparr> tc_org = ''o'', tc_hh = ''h'', tc_actor = ''p'' \<rparr> empty_db
      = (Inr True, empty_db)"
    by (simp add: audit_verify_True audit_rows_def empty_db_def sql_select_def order_by_def verifyAuditChain_def)
  from audit_log_verifies [OF run this] run show ?thesis by blast
qed

section \<open>Tampering\<close>

text \<open>Equal but for the order of the metadata's members and the spelling of the event's own hash.\<close>

definition same_event :: "(string \<Rightarrow> 'k::linorder) \<Rightarrow> chained_event \<Rightarrow> chained_event \<Rightarrow> bool" where
  "same_event collate e f \<longleftrightarrow> au_org e = au_org f \<and> au_hh e = au_hh f \<and> au_sequence e = au_sequence f
     \<and> au_occurred e = au_occurred f \<and> au_actor e = au_actor f \<and> au_action e = au_action f
     \<and> au_outcome e = au_outcome f \<and> au_previous e = au_previous f
     \<and> canon_sort collate (JObj (au_metadata e)) = canon_sort collate (JObj (au_metadata f))"

definition metadata_wf :: "chained_event \<Rightarrow> bool" where
  "metadata_wf e \<longleftrightarrow> json_wf (JObj (au_metadata e))"

lemma canonical_event_inj:
  assumes "audit_canonicalize collate (event_json e) = audit_canonicalize collate (event_json f)"
    and "metadata_wf e" and "metadata_wf f"
  shows "same_event collate e f"
proof -
  have wf: "json_wf (event_json e)" "json_wf (event_json f)"
    using assms(2,3) by (simp_all add: event_json_def metadata_wf_def)
  have eq: "canon_sort collate (event_json e) = canon_sort collate (event_json f)"
    using assms(1) json_stringify_inj [OF json_wf_canon_sort [OF wf(1)] json_wf_canon_sort [OF wf(2)]]
    by (simp add: audit_canonicalize_def canonical_is_stringify)
  have "jfield (canon_sort collate (event_json e)) k = jfield (canon_sort collate (event_json f)) k" for k
    by (simp only: eq)
  note field = this [unfolded event_json_def]
  show ?thesis unfolding same_event_def
    using field [of "''organizationId''"] field [of "''householdId''"] field [of "''sequence''"] field [of "''occurredAt''"]
      field [of "''actorPseudonym''"] field [of "''action''"] field [of "''outcome''"] field [of "''metadata''"]
      field [of "''previousHash''"]
    by (simp add: jfield_canon_sort del: canon_sort.simps(2))
qed

lemma eventDigest_bytes:
  "eventDigest collate hmac e key = Inr h \<Longrightarrow>
     hex_bytes h = hmac key (utf8_bytes (audit_canonicalize collate (event_json e)))"
  by (auto simp: eventDigest_def split: if_splits)

lemma tamper_evident_aux:
  assumes "verify_from collate hmac key 0 p es = Inr True" and "verify_from collate hmac key 0 p fs = Inr True"
    and "es \<noteq> []" and "fs \<noteq> []" and "hex_bytes (au_hash (last es)) = hex_bytes (au_hash (last fs))"
    and "list_all metadata_wf es" and "list_all metadata_wf fs"
    and "\<And>x y. hmac key x = hmac key y \<Longrightarrow> x = y"
  shows "list_all2 (same_event collate) es fs"
  using assms(1-7)
proof (induction es arbitrary: fs rule: rev_induct)
  case (snoc e es)
  from snoc.prems(4) obtain gs f where fs: "fs = gs @ [f]" by (cases fs rule: rev_cases) auto
  from snoc.prems(1) obtain h where e: "verify_from collate hmac key 0 p es = Inr True" "au_sequence e = int (length es) + 1"
    "au_previous e = (if es = [] then p else au_hash (last es))" "eventDigest collate hmac e key = Inr h"
    "hex_bytes (au_hash e) = hex_bytes h" by (auto simp: verify_from_snoc)
  from snoc.prems(2) obtain h' where f: "verify_from collate hmac key 0 p gs = Inr True" "au_sequence f = int (length gs) + 1"
    "au_previous f = (if gs = [] then p else au_hash (last gs))" "eventDigest collate hmac f key = Inr h'"
    "hex_bytes (au_hash f) = hex_bytes h'" by (auto simp: fs verify_from_snoc)
  have "hmac key (utf8_bytes (audit_canonicalize collate (event_json e)))
      = hmac key (utf8_bytes (audit_canonicalize collate (event_json f)))"
    using snoc.prems(5) e(5) f(5) eventDigest_bytes [OF e(4)] eventDigest_bytes [OF f(4)] by (simp add: fs)
  from assms(8) [OF this] have "audit_canonicalize collate (event_json e) = audit_canonicalize collate (event_json f)" by simp
  from canonical_event_inj [OF this] have same: "same_event collate e f" using snoc.prems(6,7) by (simp add: fs)
  then have len: "length es = length gs" and prev: "au_previous e = au_previous f"
    using e(2) f(2) by (simp_all add: same_event_def)
  have "list_all2 (same_event collate) es gs"
  proof (cases "es = []")
    case False
    with len have gs: "gs \<noteq> []" by auto
    with False prev e(3) f(3) have "hex_bytes (au_hash (last es)) = hex_bytes (au_hash (last gs))" by simp
    from snoc.IH [OF e(1) f(1) False gs this] snoc.prems(6,7) show ?thesis by (simp add: fs)
  qed (use len in simp)
  with same show ?case by (simp add: fs list_all2_appendI)
qed simp

text \<open>C25: The hash of the last event pins the whole log: two logs that verify under one key and end
  in the same hash hold the same events in the same order (up to the order of metadata members and
  the spelling of the last hash), unless the HMAC has a collision; so no event can be changed,
  dropped, inserted or reordered without changing the last hash.\<close>

theorem audit_chain_tamper_evident:
  assumes "verifyAuditChain collate hmac es key = Inr True" and "verifyAuditChain collate hmac fs key = Inr True"
    and "es \<noteq> []" and "fs \<noteq> []" and "hex_bytes (au_hash (last es)) = hex_bytes (au_hash (last fs))"
    and "list_all metadata_wf es" and "list_all metadata_wf fs"
  shows "list_all2 (same_event collate) es fs \<or> (\<exists>x y. x \<noteq> y \<and> hmac key x = hmac key y)"
  using tamper_evident_aux [OF assms(1,2) [unfolded verifyAuditChain_def] assms(3-7)] by blast

definition sample_event :: chained_event where
  "sample_event = \<lparr> au_org = ''o'', au_hh = ''h'', au_sequence = 1, au_occurred = ''t'', au_actor = ''p'',
     au_action = ''read'', au_outcome = ''allowed'', au_metadata = [], au_previous = ''GENESIS'', au_hash = ''00'' \<rparr>"

definition sample_chain :: "chained_event list" where
  "sample_chain = [sample_event \<lparr> au_hash := hex_text (utf8_bytes (audit_canonicalize (\<lambda>k. k) (event_json sample_event))) \<rparr>]"

lemma sample_chain_verifies:
  "verifyAuditChain (\<lambda>k. k) (\<lambda>k b. b) sample_chain (replicate 32 CHR ''k'') = Inr True"
proof -
  have "event_json (sample_event \<lparr> au_hash := h \<rparr>) = event_json sample_event" for h by (simp add: event_json_def)
  then show ?thesis by (simp add: verifyAuditChain_def sample_chain_def eventDigest_def) (simp add: sample_event_def)
qed

theorem audit_chain_tamper_evident_witness:
  "sample_chain \<noteq> [] \<and> (list_all2 (same_event (\<lambda>k. k)) sample_chain sample_chain \<or> (\<exists>x y :: string. x \<noteq> y \<and> x = y))"
proof -
  have ne: "sample_chain \<noteq> []" and wf: "list_all metadata_wf sample_chain"
    by (simp_all add: sample_chain_def metadata_wf_def sample_event_def)
  from audit_chain_tamper_evident [OF sample_chain_verifies sample_chain_verifies ne ne refl wf wf] ne show ?thesis
    by auto
qed

end
