(* ===== verification/Portable_Export.thy ===== *)
theory Portable_Export
  imports Crypto_Envelope Canonical_Json
begin

text \<open>
  Portable exports (\<open>packages/reports/src/index.ts\<close> and the signer of \<open>packages/crypto\<close>): an
  archive of entries, encrypted, with a signed manifest.  SHA-256 (\<open>sha256\<close>, giving the bytes),
  Ed25519 and \<open>localeCompare\<close> (\<open>collate\<close>) are parameters.  Values read back from JSON are taken
  at their declared types: a member of another type is refused.
\<close>

section \<open>The signer\<close>

text \<open>\<open>public_of\<close> gives the public key of a private one, and nothing when that is no Ed25519 key.\<close>

record ed25519 =
  public_of :: "string \<Rightarrow> string option"
  sign_with :: "string \<Rightarrow> string \<Rightarrow> string"
  verify_with :: "string \<Rightarrow> string \<Rightarrow> string \<Rightarrow> bool"

definition ed25519_ok :: "ed25519 \<Rightarrow> bool" where
  "ed25519_ok s \<longleftrightarrow> (\<forall>key pub m. public_of s key = Some pub \<longrightarrow> verify_with s pub m (sign_with s key m))"

definition signer_public_key :: "ed25519 \<Rightarrow> string \<Rightarrow> string result" where
  "signer_public_key s key = (case public_of s key of
     None \<Rightarrow> Inl (crypto_error ''export signing key must be an Ed25519 PKCS8 DER value encoded as base64'')
   | Some pub \<Rightarrow> Inr pub)"

definition signer_sign :: "ed25519 \<Rightarrow> string \<Rightarrow> string \<Rightarrow> string" where
  "signer_sign s key manifest = base64 (sign_with s key manifest)"

definition signer_verify :: "ed25519 \<Rightarrow> string \<Rightarrow> string \<Rightarrow> string \<Rightarrow> bool" where
  "signer_verify s manifest signature pub = verify_with s pub manifest (base64_bytes signature)"

section \<open>Entries and manifests\<close>

definition export_error :: "string \<Rightarrow> err" where
  "export_error m = Thrown ''PortableExportError'' m"

definition type_error :: err where
  "type_error = Thrown ''TypeError'' ''value is not of its declared type''"

record export_entry =
  xe_path :: string
  xe_media :: string
  xe_bytes :: string

record inner_entry =
  ie_path :: string
  ie_media :: string
  ie_sha256 :: string
  ie_size :: int
  ie_content :: string

record inner_manifest =
  im_archive :: string
  im_org :: string
  im_hh :: string
  im_created :: string
  im_entries :: "inner_entry list"

definition digest :: "(string \<Rightarrow> string) \<Rightarrow> string \<Rightarrow> string" where
  "digest sha256 bs = hex_text (sha256 bs)"

definition exportContext :: "string \<Rightarrow> int \<Rightarrow> encryption_context" where
  "exportContext archive version = \<lparr> ec_org = ''portable-export'', ec_hh = ''portable-export'',
     ec_record = archive, ec_purpose = ''portable-export'', ec_version = version \<rparr>"

definition safe_path :: "string \<Rightarrow> bool" where
  "safe_path p \<longleftrightarrow> p \<noteq> [] \<and> \<not> starts_with ''/'' p \<and> CHR 92 \<notin> set p
     \<and> \<not> list_ex (\<lambda>segment. segment = [] \<or> segment = ''.'' \<or> segment = ''..'') (split_on CHR ''/'' p)"

definition media_type :: re where
  "media_type = (let first = Cls (nocase (cor (crange CHR ''a'' CHR ''z'') (crange CHR ''0'' CHR ''9'')));
       other = Rep (Cls (nocase (cor (cor (crange CHR ''a'' CHR ''z'') (crange CHR ''0'' CHR ''9'')) (one_of ''.+-'')))) 1 None in
     whole (seqs [first, other, lit ''/'', first, other]))"

definition assertEntry :: "string \<Rightarrow> string \<Rightarrow> unit result" where
  "assertEntry path media =
     (if \<not> safe_path path then Inl (export_error ''export entry path is unsafe'')
      else if \<not> re_test media_type media then Inl (export_error ''export entry media type is invalid'')
      else Inr ())"

section \<open>Creating\<close>

fun inner_entries :: "(string \<Rightarrow> string) \<Rightarrow> string list \<Rightarrow> export_entry list \<Rightarrow> inner_entry list result" where
  "inner_entries sha256 paths [] = Inr []"
| "inner_entries sha256 paths (e # es) = res_bind (assertEntry (xe_path e) (xe_media e)) (\<lambda>_.
     if xe_path e \<in> set paths then Inl (export_error ''export entry path is duplicated'')
     else res_bind (inner_entries sha256 (xe_path e # paths) es) (\<lambda>r.
       Inr (\<lparr> ie_path = xe_path e, ie_media = xe_media e, ie_sha256 = digest sha256 (xe_bytes e),
              ie_size = int (length (xe_bytes e)), ie_content = base64 (xe_bytes e) \<rparr> # r)))"

definition entry_json :: "inner_entry \<Rightarrow> json" where
  "entry_json e = JObj [(''path'', JStr (ie_path e)), (''mediaType'', JStr (ie_media e)),
     (''sha256'', JStr (ie_sha256 e)), (''size'', JNum (ie_size e)), (''contentBase64'', JStr (ie_content e))]"

definition inner_json :: "inner_manifest \<Rightarrow> json" where
  "inner_json m = JObj [(''format'', JStr ''legacy-vault-portable-export/v1''), (''archiveId'', JStr (im_archive m)),
     (''organizationId'', JStr (im_org m)), (''householdId'', JStr (im_hh m)),
     (''createdAt'', JStr (im_created m)), (''entries'', JArr (map entry_json (im_entries m)))]"

definition manifest_json :: "string \<Rightarrow> string \<Rightarrow> int \<Rightarrow> string \<Rightarrow> json" where
  "manifest_json archive created version envelope_sha256 = JObj [(''format'', JStr ''legacy-vault-encrypted-export/v1''),
     (''archiveId'', JStr archive), (''createdAt'', JStr created), (''encryption'', JStr ''A256GCM''),
     (''keyVersion'', JNum version), (''envelopeSha256'', JStr envelope_sha256)]"

definition sealed_manifest ::
  "(string \<Rightarrow> 'k::linorder) \<Rightarrow> (string \<Rightarrow> string) \<Rightarrow> string \<Rightarrow> string \<Rightarrow> int \<Rightarrow> envelope \<Rightarrow> json" where
  "sealed_manifest collate sha256 archive created version e = manifest_json archive created version
     (digest sha256 (utf8_bytes (canonicalReportValue collate (JObj (envelope_members e)))))"

definition container_json ::
  "(string \<Rightarrow> 'k::linorder) \<Rightarrow> ed25519 \<Rightarrow> string \<Rightarrow> string \<Rightarrow> json \<Rightarrow> envelope \<Rightarrow> json" where
  "container_json collate s signing_key pub manifest e = JObj [(''manifest'', manifest),
     (''envelope'', JObj (envelope_members e)),
     (''signature'', JStr (signer_sign s signing_key (utf8_bytes (canonicalReportValue collate manifest)))),
     (''signerPublicKey'', JStr pub)]"

record export_input =
  xi_archive :: string
  xi_org :: string
  xi_hh :: string
  xi_created :: string
  xi_version :: int
  xi_key :: string
  xi_signing_key :: string
  xi_entries :: "export_entry list"

text \<open>\<open>date_ok\<close> tells the texts that \<open>Date.parse\<close> reads.\<close>

definition inner_of :: "(string \<Rightarrow> 'k::linorder) \<Rightarrow> export_input \<Rightarrow> inner_entry list \<Rightarrow> inner_manifest" where
  "inner_of collate i es = \<lparr> im_archive = xi_archive i, im_org = xi_org i, im_hh = xi_hh i, im_created = xi_created i,
     im_entries = sort_key (\<lambda>e. collate (ie_path e)) es \<rparr>"

definition createPortableExport ::
  "(string \<Rightarrow> bool) \<Rightarrow> (string \<Rightarrow> 'k::linorder) \<Rightarrow> (string \<Rightarrow> string) \<Rightarrow> aead \<Rightarrow> ed25519 \<Rightarrow> string \<Rightarrow> export_input
   \<Rightarrow> string result" where
  "createPortableExport date_ok collate sha256 a s iv i =
     (if xi_archive i = [] \<or> xi_org i = [] \<or> xi_hh i = [] then Inl (export_error ''export identity is incomplete'')
      else if \<not> date_ok (xi_created i) then Inl (export_error ''export creation time is invalid'')
      else res_bind (inner_entries sha256 [] (xi_entries i)) (\<lambda>es.
        res_bind (encryptEnvelope a iv (utf8_bytes (canonicalReportValue collate (inner_json (inner_of collate i es))))
          (xi_key i) (exportContext (xi_archive i) (xi_version i))) (\<lambda>e.
        res_bind (signer_public_key s (xi_signing_key i)) (\<lambda>pub.
          Inr (utf8_bytes (canonicalReportValue collate (container_json collate s (xi_signing_key i) pub
            (sealed_manifest collate sha256 (xi_archive i) (xi_created i) (xi_version i) e) e)))))))"

section \<open>Opening\<close>

definition parseContainer :: "string \<Rightarrow> json result" where
  "parseContainer bs = (case utf8_text bs of None \<Rightarrow> Inl (export_error ''export container is invalid'')
     | Some t \<Rightarrow> (case json_parse t of None \<Rightarrow> Inl (export_error ''export container is invalid'')
        | Some v \<Rightarrow> Inr v))"

text \<open>\<open>v?.k\<close>, and \<open>===\<close> on what it gives: two objects or arrays are never the same one.\<close>

definition opt_field :: "json option \<Rightarrow> string \<Rightarrow> json option" where
  "opt_field v k = (case v of None \<Rightarrow> None | Some j \<Rightarrow> jfield j k)"

fun js_same :: "json option \<Rightarrow> json option \<Rightarrow> bool" where
  "js_same (Some (JArr v)) w = False"
| "js_same (Some (JObj v)) w = False"
| "js_same v w = (v = w)"

definition metadata_ok :: "json \<Rightarrow> string \<Rightarrow> bool" where
  "metadata_ok c trusted \<longleftrightarrow>
     opt_field (jfield c ''manifest'') ''format'' = Some (JStr ''legacy-vault-encrypted-export/v1'')
     \<and> opt_field (jfield c ''envelope'') ''algorithm'' = Some (JStr ''A256GCM'')
     \<and> opt_field (jfield c ''manifest'') ''encryption'' = Some (JStr ''A256GCM'')
     \<and> js_same (opt_field (jfield c ''manifest'') ''keyVersion'') (opt_field (jfield c ''envelope'') ''keyVersion'')
     \<and> jfield c ''signerPublicKey'' = Some (JStr trusted)"

definition decrypt_inner :: "aead \<Rightarrow> json \<Rightarrow> json \<Rightarrow> string \<Rightarrow> json option" where
  "decrypt_inner a manifest envelope key =
     (case (read_envelope [] envelope, jfield manifest ''archiveId'', jfield manifest ''keyVersion'') of
        (Inr e, Some (JStr archive), Some (JNum version)) \<Rightarrow>
          (case decryptEnvelope a e key (exportContext archive version) of
             Inl _ \<Rightarrow> None
           | Inr m \<Rightarrow> (case utf8_text m of None \<Rightarrow> None | Some t \<Rightarrow> json_parse t))
      | _ \<Rightarrow> None)"

definition read_entry :: "json \<Rightarrow> inner_entry result" where
  "read_entry v = (case (jfield v ''path'', jfield v ''mediaType'', jfield v ''sha256'', jfield v ''size'',
        jfield v ''contentBase64'') of
      (Some (JStr path), Some (JStr media), Some (JStr sha), Some (JNum sz), Some (JStr content)) \<Rightarrow>
        Inr \<lparr> ie_path = path, ie_media = media, ie_sha256 = sha, ie_size = sz, ie_content = content \<rparr>
    | _ \<Rightarrow> Inl type_error)"

fun check_entries :: "(string \<Rightarrow> string) \<Rightarrow> string list \<Rightarrow> json list \<Rightarrow> inner_entry list result" where
  "check_entries sha256 seen [] = Inr []"
| "check_entries sha256 seen (v # vs) = res_bind (read_entry v) (\<lambda>e.
     res_bind (assertEntry (ie_path e) (ie_media e)) (\<lambda>_.
     if ie_path e \<in> set seen then Inl (export_error ''export payload path is duplicated'')
     else (let content = base64_bytes (ie_content e) in
       if int (length content) \<noteq> ie_size e \<or> digest sha256 content \<noteq> ie_sha256 e
       then Inl (export_error ''export entry digest is invalid'')
       else res_bind (check_entries sha256 (ie_path e # seen) vs) (\<lambda>r. Inr (e # r)))))"

definition typed_manifest :: "json \<Rightarrow> inner_entry list \<Rightarrow> inner_manifest result" where
  "typed_manifest inner es =
     (case (jfield inner ''archiveId'', jfield inner ''organizationId'', jfield inner ''householdId'',
            jfield inner ''createdAt'') of
        (Some (JStr archive), Some (JStr org), Some (JStr hh), Some (JStr created)) \<Rightarrow>
          Inr \<lparr> im_archive = archive, im_org = org, im_hh = hh, im_created = created, im_entries = es \<rparr>
      | _ \<Rightarrow> Inl type_error)"

definition read_inner :: "(string \<Rightarrow> string) \<Rightarrow> json \<Rightarrow> json \<Rightarrow> inner_manifest result" where
  "read_inner sha256 manifest inner =
     (if inner = JNull then Inl type_error
      else if jfield inner ''format'' \<noteq> Some (JStr ''legacy-vault-portable-export/v1'')
        \<or> \<not> js_same (jfield inner ''archiveId'') (jfield manifest ''archiveId'')
        \<or> \<not> js_same (jfield inner ''createdAt'') (jfield manifest ''createdAt'')
      then Inl (export_error ''export payload manifest is invalid'')
      else case jfield inner ''entries'' of
        Some (JArr vs) \<Rightarrow> res_bind (check_entries sha256 [] vs) (typed_manifest inner)
      | _ \<Rightarrow> Inl (export_error ''export payload manifest is invalid''))"

definition verifyAndOpenPortableExport ::
  "(string \<Rightarrow> 'k::linorder) \<Rightarrow> (string \<Rightarrow> string) \<Rightarrow> aead \<Rightarrow> ed25519 \<Rightarrow> string \<Rightarrow> string \<Rightarrow> string
   \<Rightarrow> inner_manifest result" where
  "verifyAndOpenPortableExport collate sha256 a s container key trusted =
     res_bind (parseContainer container) (\<lambda>c.
       if c = JNull then Inl type_error
       else if \<not> metadata_ok c trusted then Inl (export_error ''export container metadata is invalid'')
       else (let envelope = the (jfield c ''envelope''); manifest = the (jfield c ''manifest'') in
         if jfield manifest ''envelopeSha256''
              \<noteq> Some (JStr (digest sha256 (utf8_bytes (canonicalReportValue collate envelope))))
         then Inl (export_error ''export envelope digest is invalid'')
         else if \<not> (case jfield c ''signature'' of Some (JStr sig) \<Rightarrow>
                signer_verify s (utf8_bytes (canonicalReportValue collate manifest)) sig trusted | _ \<Rightarrow> False)
         then Inl (export_error ''export manifest signature is invalid'')
         else (case decrypt_inner a manifest envelope key of
             None \<Rightarrow> Inl (export_error ''export decryption failed'')
           | Some inner \<Rightarrow> read_inner sha256 manifest inner)))"

section \<open>What was sealed is what is opened\<close>

definition entry_ok :: "(string \<Rightarrow> string) \<Rightarrow> inner_entry \<Rightarrow> bool" where
  "entry_ok sha256 e \<longleftrightarrow> safe_path (ie_path e) \<and> re_test media_type (ie_media e)
     \<and> ie_size e = int (length (base64_bytes (ie_content e)))
     \<and> ie_sha256 e = digest sha256 (base64_bytes (ie_content e))"

lemma assertEntry_Inr [simp]: "assertEntry p m = Inr u \<longleftrightarrow> safe_path p \<and> re_test media_type m"
  by (simp add: assertEntry_def)

definition sealed_entry :: "export_entry \<Rightarrow> string \<times> string \<times> string" where
  "sealed_entry x = (xe_path x, xe_media x, xe_bytes x)"

definition opened_entry :: "inner_entry \<Rightarrow> string \<times> string \<times> string" where
  "opened_entry e = (ie_path e, ie_media e, base64_bytes (ie_content e))"

lemma inner_entries_ok:
  "inner_entries sha256 paths xs = Inr es \<Longrightarrow>
     map opened_entry es = map sealed_entry xs \<and> list_all (entry_ok sha256) es
     \<and> distinct (map ie_path es) \<and> set (map ie_path es) \<inter> set paths = {}"
proof (induction xs arbitrary: paths es)
  case (Cons x xs)
  from Cons.prems obtain r where r: "inner_entries sha256 (xe_path x # paths) xs = Inr r" "xe_path x \<notin> set paths"
    "safe_path (xe_path x)" "re_test media_type (xe_media x)"
    and es: "es = \<lparr> ie_path = xe_path x, ie_media = xe_media x, ie_sha256 = digest sha256 (xe_bytes x),
              ie_size = int (length (xe_bytes x)), ie_content = base64 (xe_bytes x) \<rparr> # r"
    by (auto split: if_splits)
  from Cons.IH [OF r(1)] r(2-4) show ?case by (auto simp: es opened_entry_def sealed_entry_def entry_ok_def)
qed simp

lemma read_entry_canon [simp]: "read_entry (canon_sort collate (entry_json e)) = Inr e"
  by (simp add: read_entry_def entry_json_def jfield_canon_sort del: canon_sort.simps(2))

lemma check_entries_ok:
  "list_all (entry_ok sha256) es \<Longrightarrow> distinct (map ie_path es) \<Longrightarrow> set (map ie_path es) \<inter> set seen = {} \<Longrightarrow>
     check_entries sha256 seen (map (\<lambda>e. canon_sort collate (entry_json e)) es) = Inr es"
  by (induction es arbitrary: seen) (auto simp: entry_ok_def Let_def assertEntry_def)

lemma read_envelope_members:
  assumes "env_algorithm e = ''A256GCM''" and "is_safe_integer (env_version e)"
  shows "read_envelope message (canon_sort collate (JObj (envelope_members (e :: envelope)))) = Inr e"
  using assms by (simp add: read_envelope_def envelope_members_def jfield_canon_sort del: canon_sort.simps(2))

lemma json_wf_inner: "json_wf (inner_json m)"
  by (auto simp: inner_json_def entry_json_def list_all_iff)

lemma read_inner_canon:
  assumes "list_all (entry_ok sha256) (im_entries m)" and "distinct (map ie_path (im_entries m))"
    and "jfield manifest ''archiveId'' = Some (JStr (im_archive m))" and "jfield manifest ''createdAt'' = Some (JStr (im_created m))"
  shows "read_inner sha256 manifest (canon_sort collate (inner_json m)) = Inr m"
  using assms check_entries_ok [OF assms(1,2), of "[]" collate]
  by (simp add: read_inner_def typed_manifest_def inner_json_def jfield_canon_sort comp_def del: canon_sort.simps(2))

text \<open>What a successful creation has made.\<close>

lemma createPortableExport_Inr:
  assumes "createPortableExport date_ok collate sha256 a s iv i = Inr bs" and "public_of s (xi_signing_key i) = Some pub"
  obtains es e where "inner_entries sha256 [] (xi_entries i) = Inr es"
    "encryptEnvelope a iv (utf8_bytes (canonicalReportValue collate (inner_json (inner_of collate i es))))
       (xi_key i) (exportContext (xi_archive i) (xi_version i)) = Inr e"
    "bs = utf8_bytes (canonicalReportValue collate (container_json collate s (xi_signing_key i) pub
       (sealed_manifest collate sha256 (xi_archive i) (xi_created i) (xi_version i) e) e))"
  using assms by (auto simp: createPortableExport_def signer_public_key_def Let_def split: if_splits)

lemma inner_of_simps [simp]:
  "im_archive (inner_of collate i es) = xi_archive i" "im_org (inner_of collate i es) = xi_org i"
  "im_hh (inner_of collate i es) = xi_hh i" "im_created (inner_of collate i es) = xi_created i"
  "im_entries (inner_of collate i es) = sort_key (\<lambda>e. collate (ie_path e)) es"
  by (simp_all add: inner_of_def)

lemma inner_of_ok:
  assumes "inner_entries sha256 [] xs = Inr es"
  shows "list_all (entry_ok sha256) (sort_key (\<lambda>e. collate (ie_path e)) es)"
    and "distinct (map ie_path (sort_key (\<lambda>e. collate (ie_path e)) es))"
    and "map opened_entry (sort_key (\<lambda>e. collate (ie_path e)) es)
       = sort_key (\<lambda>(p, m, b). collate p) (map sealed_entry xs)"
proof -
  from inner_entries_ok [OF assms] have es: "map opened_entry es = map sealed_entry xs" "list_all (entry_ok sha256) es"
    "distinct (map ie_path es)" by simp_all
  from es(2) show "list_all (entry_ok sha256) (sort_key (\<lambda>e. collate (ie_path e)) es)" by (simp add: list_all_iff)
  have "mset (map ie_path (sort_key (\<lambda>e. collate (ie_path e)) es)) = mset (map ie_path es)" by simp
  then show "distinct (map ie_path (sort_key (\<lambda>e. collate (ie_path e)) es))"
    using es(3) mset_eq_imp_distinct_iff by blast
  have "(\<lambda>(p, m, b). collate p) \<circ> opened_entry = (\<lambda>e. collate (ie_path e))" by (auto simp: opened_entry_def)
  then show "map opened_entry (sort_key (\<lambda>e. collate (ie_path e)) es)
      = sort_key (\<lambda>(p, m, b). collate p) (map sealed_entry xs)"
    by (simp only: es(1) [symmetric] sort_key_map)
qed

lemma open_created:
  assumes "createPortableExport date_ok collate sha256 a s iv i = Inr bs" and "public_of s (xi_signing_key i) = Some pub"
    and "aead_ok a" and "ed25519_ok s" and "length iv = 12"
  shows "\<exists>m. verifyAndOpenPortableExport collate sha256 a s bs (xi_key i) pub = Inr m
    \<and> im_archive m = xi_archive i \<and> im_org m = xi_org i \<and> im_hh m = xi_hh i \<and> im_created m = xi_created i
    \<and> map opened_entry (im_entries m) = sort_key (\<lambda>(p, m, b). collate p) (map sealed_entry (xi_entries i))"
proof -
  from assms(1,2) obtain es e where es: "inner_entries sha256 [] (xi_entries i) = Inr es"
    and e: "encryptEnvelope a iv (utf8_bytes (canonicalReportValue collate (inner_json (inner_of collate i es))))
       (xi_key i) (exportContext (xi_archive i) (xi_version i)) = Inr e"
    and bs: "bs = utf8_bytes (canonicalReportValue collate (container_json collate s (xi_signing_key i) pub
       (sealed_manifest collate sha256 (xi_archive i) (xi_created i) (xi_version i) e) e))"
    by (rule createPortableExport_Inr) blast
  let ?env = "JObj (envelope_members e)"
  let ?man = "sealed_manifest collate sha256 (xi_archive i) (xi_created i) (xi_version i) e"
  let ?m = "inner_of collate i es"
  define c where "c = canon_sort collate (container_json collate s (xi_signing_key i) pub ?man e)"
  have env: "env_algorithm e = ''A256GCM''" "env_version e = xi_version i" "is_safe_integer (xi_version i)"
    using e by (auto simp: encryptEnvelope_Inr exportContext_def associatedData_def split: if_splits)
  have fields: "jfield c ''manifest'' = Some (canon_sort collate ?man)" "jfield c ''envelope'' = Some (canon_sort collate ?env)"
    "jfield c ''signature'' = Some (JStr (signer_sign s (xi_signing_key i) (utf8_bytes (canonicalReportValue collate ?man))))"
    "jfield c ''signerPublicKey'' = Some (JStr pub)"
    by (simp_all add: c_def container_json_def jfield_canon_sort del: canon_sort.simps(2))
  have man: "jfield (canon_sort collate ?man) ''format'' = Some (JStr ''legacy-vault-encrypted-export/v1'')"
    "jfield (canon_sort collate ?man) ''encryption'' = Some (JStr ''A256GCM'')"
    "jfield (canon_sort collate ?man) ''keyVersion'' = Some (JNum (xi_version i))"
    "jfield (canon_sort collate ?man) ''archiveId'' = Some (JStr (xi_archive i))"
    "jfield (canon_sort collate ?man) ''createdAt'' = Some (JStr (xi_created i))"
    "jfield (canon_sort collate ?man) ''envelopeSha256''
       = Some (JStr (digest sha256 (utf8_bytes (canonicalReportValue collate ?env))))"
    by (simp_all add: sealed_manifest_def manifest_json_def jfield_canon_sort del: canon_sort.simps(2))
  have env_fields: "jfield (canon_sort collate ?env) ''algorithm'' = Some (JStr ''A256GCM'')"
    "jfield (canon_sort collate ?env) ''keyVersion'' = Some (JNum (xi_version i))"
    using env by (simp_all add: envelope_members_def jfield_canon_sort del: canon_sort.simps(2))
  have "json_wf (container_json collate s (xi_signing_key i) pub ?man e)"
    by (simp add: container_json_def sealed_manifest_def manifest_json_def envelope_members_def)
  then have parse: "parseContainer bs = Inr c" by (simp add: parseContainer_def bs c_def)
  have meta: "metadata_ok c pub" using fields man env_fields by (simp add: metadata_ok_def opt_field_def)
  have sig: "signer_verify s (utf8_bytes (canonicalReportValue collate ?man))
      (signer_sign s (xi_signing_key i) (utf8_bytes (canonicalReportValue collate ?man))) pub"
    using assms(2,4) by (simp add: signer_verify_def signer_sign_def ed25519_ok_def)
  have "read_envelope [] (canon_sort collate ?env) = Inr e"
    by (rule read_envelope_members) (use env in simp_all)
  moreover have "decryptEnvelope a e (xi_key i) (exportContext (xi_archive i) (xi_version i))
      = Inr (utf8_bytes (canonicalReportValue collate (inner_json ?m)))"
    by (rule decrypt_encrypt_plain [OF assms(3,5) e])
  ultimately have inner: "decrypt_inner a (canon_sort collate ?man) (canon_sort collate ?env) (xi_key i)
      = Some (canon_sort collate (inner_json ?m))"
    using man by (simp add: decrypt_inner_def json_wf_inner)
  have read: "read_inner sha256 (canon_sort collate ?man) (canon_sort collate (inner_json ?m)) = Inr ?m"
    using man inner_of_ok [OF es, of collate] by (intro read_inner_canon) simp_all
  have "c \<noteq> JNull" by (simp add: c_def container_json_def del: canon_sort.simps(2))
  with parse meta fields man sig inner read have "verifyAndOpenPortableExport collate sha256 a s bs (xi_key i) pub = Inr ?m"
    by (simp add: verifyAndOpenPortableExport_def del: canon_sort.simps canonicalReportValue.simps)
  with inner_of_ok(3) [OF es, of collate] show ?thesis by auto
qed

text \<open>C21: An export that was created opens again: with the export's key and the signer's public key
  the container gives back the archive's identity and exactly the entries that were put in, with
  their paths, media types and bytes, in the order of their paths.\<close>

theorem portable_export_round_trip:
  assumes "createPortableExport date_ok collate sha256 a s iv i = Inr bs" and "public_of s (xi_signing_key i) = Some pub"
    and "aead_ok a" and "ed25519_ok s" and "length iv = 12"
  shows "\<exists>m. verifyAndOpenPortableExport collate sha256 a s bs (xi_key i) pub = Inr m
    \<and> im_archive m = xi_archive i \<and> im_org m = xi_org i \<and> im_hh m = xi_hh i \<and> im_created m = xi_created i
    \<and> map opened_entry (im_entries m) = sort_key (\<lambda>(p, m, b). collate p) (map sealed_entry (xi_entries i))"
  using assms by (rule open_created)

text \<open>Opening checks what it returns, whoever made the container.\<close>

lemma check_entries_Inr:
  "check_entries sha256 seen vs = Inr es \<Longrightarrow> list_all (entry_ok sha256) es \<and> distinct (map ie_path es)
     \<and> set (map ie_path es) \<inter> set seen = {}"
proof (induction vs arbitrary: seen es)
  case (Cons v vs)
  from Cons.prems obtain e r where e: "safe_path (ie_path e)" "re_test media_type (ie_media e)" "ie_path e \<notin> set seen"
    "int (length (base64_bytes (ie_content e))) = ie_size e" "digest sha256 (base64_bytes (ie_content e)) = ie_sha256 e"
    and r: "check_entries sha256 (ie_path e # seen) vs = Inr r" and es: "es = e # r"
    by (auto simp: Let_def split: if_splits)
  from Cons.IH [OF r] e show ?case by (auto simp: es entry_ok_def)
qed simp

lemma typed_manifest_Inr:
  "typed_manifest inner es = Inr m \<Longrightarrow> im_entries m = es \<and> jfield inner ''archiveId'' = Some (JStr (im_archive m))"
  by (auto simp: typed_manifest_def split: option.splits json.splits)

lemma js_same_JStr [simp]: "js_same (Some (JStr x)) w \<longleftrightarrow> w = Some (JStr x)"
  by auto

lemma read_inner_Inr:
  assumes "read_inner sha256 manifest inner = Inr m"
  shows "list_all (entry_ok sha256) (im_entries m) \<and> distinct (map ie_path (im_entries m))
     \<and> jfield manifest ''archiveId'' = Some (JStr (im_archive m))"
proof -
  from assms have same: "js_same (jfield inner ''archiveId'') (jfield manifest ''archiveId'')"
    by (simp add: read_inner_def split: if_splits)
  from assms obtain vs where "res_bind (check_entries sha256 [] vs) (typed_manifest inner) = Inr m"
    by (simp add: read_inner_def split: if_splits option.splits json.splits)
  then obtain es where es: "check_entries sha256 [] vs = Inr es" "typed_manifest inner es = Inr m" by auto
  from typed_manifest_Inr [OF es(2)] check_entries_Inr [OF es(1)] same show ?thesis by simp
qed

text \<open>C22: Whatever bytes are opened as an export: when opening succeeds, the container holds a manifest
  whose signature verifies under the trusted public key and which names the digest of the envelope
  that was decrypted; the archive is the one the manifest names; and every entry has a path that
  stays inside the archive (relative, no empty, \<open>.\<close> or \<open>..\<close> segment, no backslash), no path occurs
  twice, and each content has its recorded length and digest.\<close>

theorem portable_export_opens_only_signed:
  assumes "verifyAndOpenPortableExport collate sha256 a s container key trusted = Inr m"
  shows "\<exists>c manifest envelope signature. parseContainer container = Inr c
      \<and> jfield c ''manifest'' = Some manifest \<and> jfield c ''envelope'' = Some envelope
      \<and> jfield c ''signature'' = Some (JStr signature)
      \<and> signer_verify s (utf8_bytes (canonicalReportValue collate manifest)) signature trusted
      \<and> jfield manifest ''envelopeSha256''
          = Some (JStr (digest sha256 (utf8_bytes (canonicalReportValue collate envelope))))
      \<and> jfield manifest ''archiveId'' = Some (JStr (im_archive m))
      \<and> (\<exists>inner. decrypt_inner a manifest envelope key = Some inner \<and> read_inner sha256 manifest inner = Inr m)
    \<and> distinct (map ie_path (im_entries m)) \<and> list_all (entry_ok sha256) (im_entries m)"
proof -
  from assms obtain c where c: "parseContainer container = Inr c" "metadata_ok c trusted"
    by (auto simp: verifyAndOpenPortableExport_def split: if_splits)
  then obtain manifest envelope where f: "jfield c ''manifest'' = Some manifest" "jfield c ''envelope'' = Some envelope"
    by (auto simp: metadata_ok_def opt_field_def split: option.splits)
  from assms c f obtain signature inner where r: "jfield c ''signature'' = Some (JStr signature)"
    "signer_verify s (utf8_bytes (canonicalReportValue collate manifest)) signature trusted"
    "jfield manifest ''envelopeSha256'' = Some (JStr (digest sha256 (utf8_bytes (canonicalReportValue collate envelope))))"
    "decrypt_inner a manifest envelope key = Some inner" "read_inner sha256 manifest inner = Inr m"
    by (auto simp: verifyAndOpenPortableExport_def Let_def split: if_splits option.splits json.splits)
  from read_inner_Inr [OF r(5)] c f r show ?thesis by blast
qed

text \<open>An export of one small text file.\<close>

definition plain_signer :: ed25519 where
  "plain_signer = \<lparr> public_of = Some, sign_with = (\<lambda>key m. key @ m), verify_with = (\<lambda>pub m sig. sig = pub @ m) \<rparr>"

lemma plain_signer_ok: "ed25519_ok plain_signer"
  by (simp add: ed25519_ok_def plain_signer_def)

definition sample_export :: export_input where
  "sample_export = \<lparr> xi_archive = ''a1'', xi_org = ''o'', xi_hh = ''h'', xi_created = ''2026-01-01T00:00:00.000Z'',
     xi_version = 1, xi_key = sample_key, xi_signing_key = ''s'',
     xi_entries = [\<lparr> xe_path = ''notes/readme.txt'', xe_media = ''text/plain'', xe_bytes = ''hello'' \<rparr>] \<rparr>"

lemma sample_entry_ok: "safe_path ''notes/readme.txt''" "re_test media_type ''text/plain''"
  by code_simp+

lemma sample_exported:
  "\<exists>bs. createPortableExport (\<lambda>_. True) (\<lambda>k. k) (\<lambda>b. b) plain_aead plain_signer sample_iv sample_export = Inr bs"
proof -
  have "\<exists>x. associatedData (exportContext ''a1'' 1) = Inr x"
    by (simp add: associatedData_def exportContext_def is_safe_integer_def max_safe_integer_def)
  then show ?thesis
    using sample_entry_ok
    by (auto simp: createPortableExport_def sample_export_def signer_public_key_def plain_signer_def
        encryptEnvelope_def assertAesKey_def assertEntry_def Let_def case_prod_beta)
qed

theorem portable_export_round_trip_witness:
  "\<exists>bs m. verifyAndOpenPortableExport (\<lambda>k. k) (\<lambda>b. b) plain_aead plain_signer bs sample_key ''s'' = Inr m
     \<and> map opened_entry (im_entries m) = [(''notes/readme.txt'', ''text/plain'', ''hello'')]"
proof -
  from sample_exported obtain bs where
    "createPortableExport (\<lambda>_. True) (\<lambda>k. k) (\<lambda>b. b) plain_aead plain_signer sample_iv sample_export = Inr bs" by blast
  from portable_export_round_trip [OF this _ plain_aead_ok plain_signer_ok, of "''s''"] obtain m where
    m: "verifyAndOpenPortableExport (\<lambda>k. k) (\<lambda>b. b) plain_aead plain_signer bs (xi_key sample_export) ''s'' = Inr m"
      "map opened_entry (im_entries m) = sort_key (\<lambda>(p, m, b). p) (map sealed_entry (xi_entries sample_export))"
    by (auto simp: plain_signer_def sample_export_def)
  show ?thesis
    by (rule exI [of _ bs], rule exI [of _ m]) (use m in \<open>simp add: sample_export_def sealed_entry_def\<close>)
qed

lemma sample_opens:
  "\<exists>bs m. verifyAndOpenPortableExport (\<lambda>k. k) (\<lambda>b. b) plain_aead plain_signer bs sample_key ''s'' = Inr m"
  using sample_exported open_created [OF _ _ plain_aead_ok plain_signer_ok, of _ _ _ sample_iv sample_export _ "''s''"]
  by (fastforce simp: sample_export_def plain_signer_def)

theorem portable_export_opens_only_signed_witness:
  "\<exists>bs m. verifyAndOpenPortableExport (\<lambda>k. k) (\<lambda>b. b) plain_aead plain_signer bs sample_key ''s'' = Inr m
     \<and> list_all (entry_ok (\<lambda>b. b)) (im_entries m)"
  using sample_opens portable_export_opens_only_signed by blast

end
