(* ===== verification/Report_Worker.thy ===== *)
theory Report_Worker
  imports Report_Store Crypto_Envelope Canonical_Json
begin

text \<open>
  The worker's report and notification workflows (\<open>apps/worker/src/index.ts\<close>,
  \<open>createReportGenerationWorkflowHandler\<close> and \<open>createNotificationWorkflowHandler\<close>) with
  \<open>generateReport\<close> of \<open>packages/reports\<close>: a report is generated from the decrypted facts,
  checked, encrypted and stored; the requester of an annual review is told by mail.

  \<open>'x\<close> is the state of the queue and of the mail provider, which are parameters.
\<close>

section \<open>Generating a report\<close>

fun report_kind_name :: "report_kind \<Rightarrow> string" where
  "report_kind_name LifeInventory = ''life-inventory''"
| "report_kind_name FamilyEmergencyGuide = ''family-emergency-guide''"
| "report_kind_name ExecutorPreparationPacket = ''executor-preparation-packet''"
| "report_kind_name BeneficiaryReviewChecklist = ''beneficiary-review-checklist''"
| "report_kind_name DocumentGapReport = ''document-gap-report''"
| "report_kind_name HouseholdContinuityGuide = ''household-continuity-guide''"
| "report_kind_name AnnualReview = ''annual-review''"

text \<open>The column holds the names of the kinds.\<close>

definition report_kind_of :: "string \<Rightarrow> report_kind" where
  "report_kind_of t = (case find (\<lambda>k. report_kind_name k = t) [LifeInventory, FamilyEmergencyGuide,
       ExecutorPreparationPacket, BeneficiaryReviewChecklist, DocumentGapReport, HouseholdContinuityGuide]
     of Some k \<Rightarrow> k | None \<Rightarrow> AnnualReview)"

text \<open>\<open>Object.fromEntries\<close>: a repeated key keeps its place and takes the last value.\<close>

definition from_entries :: "(string \<times> 'a) list \<Rightarrow> (string \<times> 'a) list" where
  "from_entries kvs = foldl (\<lambda>acc (k, v).
     if k \<in> set (map fst acc) then map (\<lambda>(k', v'). if k' = k then (k, v) else (k', v')) acc else acc @ [(k, v)]) [] kvs"

definition generateReport ::
  "string \<Rightarrow> string \<Rightarrow> string \<Rightarrow> report_kind \<Rightarrow> iso \<Rightarrow> candidate_fact list \<Rightarrow> record_category list option
   \<Rightarrow> string list option \<Rightarrow> review_findings option \<Rightarrow> report result" where
  "generateReport i org hh kind generated_at fs missing notices findings =
     (let r = \<lparr> ent_id = i, ent_org = org, ent_hh = hh, ent_version = 1, rep_kind = kind,
          rep_generated = generated_at, rep_claims = createReportClaims fs,
          rep_versions = from_entries (map (\<lambda>f. (ent_id f, ent_version f)) fs),
          rep_missing = missing, rep_notices = notices, rep_findings = findings \<rparr> in
      res_bind (assertReportProvenance r) (\<lambda>_. Inr r))"

fun claim_status_name :: "claim_status \<Rightarrow> string" where
  "claim_status_name ClaimConfirmed = ''confirmed''"
| "claim_status_name ClaimMissing = ''missing''"
| "claim_status_name ClaimDisputed = ''disputed''"

definition claim_json :: "report_claim \<Rightarrow> json" where
  "claim_json c = JObj [(''factId'', JStr (rc_fact_id c)), (''evidenceIds'', JArr (map JStr (rc_evidence c))),
     (''fieldKey'', JStr (rc_field_key c)), (''renderedValue'', JStr (rc_value c)),
     (''status'', JStr (claim_status_name (rc_status c)))]"

definition findings_json :: "review_findings \<Rightarrow> json" where
  "findings_json f = JObj [(''staleFactIds'', JArr (map JStr (rf_stale f))),
     (''expiringDocumentIds'', JArr (map JStr (rf_expiring f))),
     (''contradictions'', JArr (map (\<lambda>(k, ids). JObj [(''fieldKey'', JStr k), (''factIds'', JArr (map JStr ids))])
        (rf_contradictions f)))]"

definition iso_text :: "iso \<Rightarrow> string" where
  "iso_text i = (case i of Blank \<Rightarrow> [] | Unparsable s \<Rightarrow> s | At t \<Rightarrow> toISOString t)"

definition optional_member :: "string \<Rightarrow> json option \<Rightarrow> (string \<times> json) list" where
  "optional_member k v = (case v of None \<Rightarrow> [] | Some j \<Rightarrow> [(k, j)])"

definition report_json :: "report \<Rightarrow> json" where
  "report_json r = JObj ([(''id'', JStr (ent_id r)), (''organizationId'', JStr (ent_org r)),
     (''householdId'', JStr (ent_hh r)), (''kind'', JStr (report_kind_name (rep_kind r))),
     (''generatedAt'', JStr (iso_text (rep_generated r))), (''claims'', JArr (map claim_json (rep_claims r))),
     (''sourceFactVersions'', JObj (map (\<lambda>(k, v). (k, JNum v)) (rep_versions r)))]
     @ optional_member ''missingCategories'' (map_option (\<lambda>cs. JArr (map (\<lambda>c. JStr (category_name c)) cs)) (rep_missing r))
     @ optional_member ''notices'' (map_option (\<lambda>ns. JArr (map JStr ns)) (rep_notices r))
     @ optional_member ''reviewFindings'' (map_option findings_json (rep_findings r))
     @ [(''version'', JNum (ent_version r))])"

section \<open>The facts of a report\<close>

definition syntax_error :: err where
  "syntax_error = Thrown ''SyntaxError'' ''invalid JSON''"

definition parse_bytes :: "string \<Rightarrow> json result" where
  "parse_bytes bs = (case utf8_text bs of None \<Rightarrow> Inl syntax_error
     | Some t \<Rightarrow> (case json_parse t of None \<Rightarrow> Inl syntax_error | Some v \<Rightarrow> Inr v))"

abbreviation storedEnvelope :: "json \<Rightarrow> envelope result" where
  "storedEnvelope \<equiv> read_envelope ''wrapped export key is invalid''"

definition open_fact :: "aead \<Rightarrow> string \<Rightarrow> tenant_context \<Rightarrow> fact_read \<Rightarrow> candidate_fact result" where
  "open_fact a key ctx f =
     res_bind (parse_bytes (fr_ciphertext f)) (\<lambda>v.
     res_bind (storedEnvelope v) (\<lambda>e.
     res_bind (decryptEnvelope a e key \<lparr> ec_org = tc_org ctx, ec_hh = tc_hh ctx, ec_record = fr_id f,
         ec_purpose = ''fact-value:'' @ fr_field_key f, ec_version = fr_key_version f \<rparr>) (\<lambda>opened.
     res_bind (parse_bytes opened) (\<lambda>value.
       Inr \<lparr> ent_id = fr_id f, ent_org = tc_org ctx, ent_hh = tc_hh ctx, ent_version = fr_version f,
         cf_field_key = fr_field_key f, cf_value = value, cf_status = status_of (fr_status f),
         cf_source_type = source_of (fr_source_type f), cf_source_id = fr_source_id f,
         cf_evidence = fr_evidence f, cf_confidence = fr_confidence f,
         cf_sensitivity = sensitivity_of (fr_sensitivity f), cf_confirmed_by = fr_confirmed_by f,
         cf_confirmed_at = iso_of (fr_confirmed_at f), cf_last_reviewed = iso_of (fr_last_reviewed f) \<rparr>))))"

definition confirmed_facts :: "candidate_fact list \<Rightarrow> candidate_fact list" where
  "confirmed_facts fs = filter (\<lambda>f. cf_status f = Confirmed) fs"

definition missing_categories :: "candidate_fact list \<Rightarrow> record_category list result" where
  "missing_categories fs =
     res_bind (res_map (\<lambda>f. recordCategoryFromFieldKey (cf_field_key f)) (confirmed_facts fs)) (\<lambda>cs.
       Inr (filter (\<lambda>c. c \<notin> set cs) allRecordCategories))"

definition report_notices :: "candidate_fact list \<Rightarrow> record_category list \<Rightarrow> string list" where
  "report_notices fs missing =
     (if list_ex (\<lambda>f. cf_status f \<noteq> Confirmed) fs then [''unconfirmed-information-present''] else [])
     @ (if missing \<noteq> [] then [''missing-information-present''] else [])"

text \<open>The confirmed facts by field key, the keys in the order of their first fact.\<close>

definition report_contradictions ::
  "(string \<Rightarrow> 'k::linorder) \<Rightarrow> candidate_fact list \<Rightarrow> (string \<times> string list) list" where
  "report_contradictions collate fs =
     concat (map (\<lambda>key. let group = filter (\<lambda>f. cf_field_key f = key) (confirmed_facts fs) in
         if 1 < length (remdups (map (\<lambda>f. canonicalReportValue collate (cf_value f)) group))
         then [(key, map ent_id group)] else [])
       (rev (remdups (rev (map cf_field_key (confirmed_facts fs))))))"

definition stale_fact :: "int \<Rightarrow> candidate_fact \<Rightarrow> bool" where
  "stale_fact threshold f \<longleftrightarrow> cf_status f = Confirmed \<and>
     (let reviewed = (if cf_last_reviewed f = Blank then cf_confirmed_at f else cf_last_reviewed f) in
      if truthy reviewed then num_le (date_parse reviewed) (Some threshold) else True)"

definition review_findings_of ::
  "(string \<Rightarrow> 'k::linorder) \<Rightarrow> int \<Rightarrow> candidate_fact list \<Rightarrow> (string \<times> int option) list \<Rightarrow> review_findings" where
  "review_findings_of collate now fs docs = \<lparr>
     rf_stale = map ent_id (filter (stale_fact (now - 365 * 86400000)) fs),
     rf_expiring = map fst (filter (\<lambda>(_, expires). num_le expires (Some (now + 90 * 86400000))) docs),
     rf_contradictions = report_contradictions collate fs \<rparr>"

definition build_report ::
  "(string \<Rightarrow> 'k::linorder) \<Rightarrow> tenant_context \<Rightarrow> int \<Rightarrow> build_input \<Rightarrow> candidate_fact list
   \<Rightarrow> report result" where
  "build_report collate ctx now b fs =
     res_bind (missing_categories fs) (\<lambda>missing.
       generateReport (bi_report b) (tc_org ctx) (tc_hh ctx) (report_kind_of (bi_kind b)) (At now) fs (Some missing)
         (Some (report_notices fs missing))
         (if bi_kind b = ''annual-review'' then Some (review_findings_of collate now fs (bi_documents b)) else None))"

section \<open>The report workflow\<close>

text \<open>The random bytes, new identifier and clock of one run.\<close>

record run_inputs =
  ri_key_id :: string
  ri_random_key :: string
  ri_key_iv :: string
  ri_iv :: string
  ri_now :: int

definition report_payload_context :: "tenant_context \<Rightarrow> string \<Rightarrow> string \<Rightarrow> int \<Rightarrow> encryption_context" where
  "report_payload_context ctx report_id kind version = \<lparr> ec_org = tc_org ctx, ec_hh = tc_hh ctx,
     ec_record = report_id, ec_purpose = ''report-payload:'' @ kind, ec_version = version \<rparr>"

definition report_payload ::
  "(string \<Rightarrow> 'k::linorder) \<Rightarrow> aead \<Rightarrow> run_inputs \<Rightarrow> tenant_context \<Rightarrow> build_input \<Rightarrow> int \<times> string
   \<Rightarrow> string result" where
  "report_payload collate a ri ctx b version_key = (case version_key of (version, key) \<Rightarrow>
     res_bind (res_map (open_fact a key ctx) (bi_facts b)) (\<lambda>fs.
     res_bind (build_report collate ctx (ri_now ri) b fs) (\<lambda>r.
     res_bind (encryptEnvelope a (ri_iv ri) (utf8_bytes (canonicalReportValue collate (report_json r))) key
         (report_payload_context ctx (bi_report b) (bi_kind b) version)) (\<lambda>e.
       Inr (utf8_bytes (json_stringify (JObj (envelope_members e))))))))"

text \<open>\<open>collate\<close> is the database's collation and \<open>locale\<close> the order of \<open>localeCompare\<close>.\<close>

definition report_handler ::
  "(string \<Rightarrow> 'k::linorder) \<Rightarrow> (string \<Rightarrow> 'l::linorder) \<Rightarrow> aead \<Rightarrow> string \<Rightarrow> ('x \<Rightarrow> unit result \<times> 'x) \<Rightarrow> run_inputs
   \<Rightarrow> tenant_context \<Rightarrow> string \<Rightarrow> db \<Rightarrow> 'x \<Rightarrow> unit result \<times> db \<times> 'x" where
  "report_handler collate locale a kek enqueue ri ctx workflow_id d x =
     (case getReportBuildInput collate ctx workflow_id d of
        (Inl e, d1) \<Rightarrow> (Inl e, d1, x)
      | (Inr b, d1) \<Rightarrow>
          let notify = (\<lambda>d. if bi_kind b = ''annual-review'' then (case enqueue x of (r, x') \<Rightarrow> (r, d, x')) else (Inr (), d, x)) in
          if bi_status b = ''completed'' then notify d1
          else (case getOrCreateActiveKey a kek (ri_key_id ri) (ri_random_key ri) (ri_key_iv ri) (ri_now ri) ctx d1 of
              (Inl e, d2) \<Rightarrow> (Inl e, d2, x)
            | (Inr vk, d2) \<Rightarrow>
                (case report_payload locale a ri ctx b vk of
                   Inl e \<Rightarrow> (Inl e, d2, x)
                 | Inr payload \<Rightarrow>
                     (case completeReport ctx (bi_report b) (the (bi_workflow b)) (ri_now ri) payload (fst vk) d2 of
                        (Inl e, d3) \<Rightarrow> (Inl e, d3, x)
                      | (Inr _, d3) \<Rightarrow> notify d3))))"

section \<open>The notification workflow\<close>

record email_message =
  em_to :: string
  em_subject :: string
  em_text :: string
  em_html :: string
  em_idempotency_key :: string

text \<open>\<open>origin\<close> is the origin of the application's base URL.\<close>

definition review_mail :: "string \<Rightarrow> delivery_input \<Rightarrow> email_message" where
  "review_mail origin n = (let url = origin @ ''/reports/'' @ di_report n in \<lparr>
     em_to = di_email n, em_subject = ''Your Legacy Vault annual review is ready'',
     em_text = ''Your annual review is ready. Sign in to review it: '' @ url,
     em_html = ''<p>Your annual review is ready.</p><p><a href='' @ [CHR 34] @ url @ [CHR 34] @ ''>Sign in to review it</a></p>'',
     em_idempotency_key = di_delivery n \<rparr>)"

definition notification_handler ::
  "(string \<Rightarrow> string option) \<Rightarrow> string \<Rightarrow> (email_message \<Rightarrow> 'x \<Rightarrow> string result \<times> 'x) \<Rightarrow> tenant_context \<Rightarrow> string \<Rightarrow> int
   \<Rightarrow> string \<Rightarrow> db \<Rightarrow> 'x \<Rightarrow> unit result \<times> db \<times> 'x" where
  "notification_handler verified_email origin send ctx fresh_id now workflow_id d x =
     (case getNotificationDeliveryInput verified_email ctx fresh_id now workflow_id d of
        (Inl e, d1) \<Rightarrow> (Inl e, d1, x)
      | (Inr None, d1) \<Rightarrow> (Inr (), d1, x)
      | (Inr (Some n), d1) \<Rightarrow>
          if di_status n = ''sent'' then (Inr (), d1, x)
          else (case send (review_mail origin n) x of (sent, x1) \<Rightarrow>
            (case (case sent of Inl e \<Rightarrow> (Inl e, d1)
                   | Inr message_id \<Rightarrow> completeNotificationDelivery ctx (di_delivery n) message_id now d1) of
               (Inr _, d2) \<Rightarrow> (Inr (), d2, x1)
             | (Inl e, d2) \<Rightarrow>
                 (case recordNotificationDeliveryFailure ctx (di_delivery n) (err_name e) d2 of
                    (Inl e', d3) \<Rightarrow> (Inl e', d3, x1)
                  | (Inr _, d3) \<Rightarrow> (Inl e, d3, x1)))))"

section \<open>What a generated report says\<close>

lemma generateReport_Inr:
  "generateReport i org hh kind t fs missing notices findings = Inr r \<Longrightarrow>
     rep_claims r = createReportClaims fs
     \<and> (\<forall>c \<in> set (rep_claims r). rc_status c = ClaimConfirmed \<longrightarrow> rc_evidence c \<noteq> [])"
  by (auto simp: generateReport_def Let_def assertReportProvenance_def assert_claims_ok)

lemma build_report_Inr:
  "build_report collate ctx now b fs = Inr r \<Longrightarrow>
     rep_claims r = createReportClaims fs
     \<and> (\<forall>c \<in> set (rep_claims r). rc_status c = ClaimConfirmed \<longrightarrow> rc_evidence c \<noteq> [])"
  unfolding build_report_def res_bind_eq_Inr using generateReport_Inr by blast

lemma claims_of_unconfirmed:
  "c \<in> set (createReportClaims fs) \<Longrightarrow> rc_status c \<noteq> ClaimConfirmed \<Longrightarrow> rc_value c = []"
  by (auto simp: createReportClaims_def split: if_splits)

lemma open_fact_Inr:
  "open_fact a key ctx f = Inr cf \<Longrightarrow> ent_id cf = fr_id f \<and> cf_status cf = status_of (fr_status f)
     \<and> cf_evidence cf = fr_evidence f"
  by (auto simp: open_fact_def)

lemma res_map_ids:
  "res_map (open_fact a key ctx) xs = Inr fs \<Longrightarrow> map ent_id fs = map fr_id xs"
  by (induction xs arbitrary: fs) (auto simp: res_map_Cons_Inr simp del: res_map.simps(2) dest: open_fact_Inr)

lemma report_payload_Inr:
  assumes "report_payload collate a ri ctx b (v, key) = Inr p"
  obtains fs r e where "res_map (open_fact a key ctx) (bi_facts b) = Inr fs" "build_report collate ctx (ri_now ri) b fs = Inr r"
    "encryptEnvelope a (ri_iv ri) (utf8_bytes (canonicalReportValue collate (report_json r))) key
       (report_payload_context ctx (bi_report b) (bi_kind b) v) = Inr e"
    "p = utf8_bytes (json_stringify (JObj (envelope_members e)))"
  using assms by (auto simp: report_payload_def)

lemma build_input_Inr:
  assumes "getReportBuildInput collate ctx workflow_id d = (Inr b, d1)"
  obtains r where "d1 = d" "r \<in> set (reports d)" "tenant_visible (tenant_session ctx) r" "row_id r = bi_report b"
    "r_workflow r = Some workflow_id" "bi_workflow b = Some workflow_id" "bi_status b = r_status r" "bi_kind b = r_kind r"
proof -
  from assms obtain r rs where "sql_select (tenant_session ctx) (\<lambda>r. r_workflow r = Some workflow_id
              \<and> list_ex (\<lambda>w. tenant_visible (tenant_session ctx) w \<and> row_id w = workflow_id \<and> w_subject_type w = Some ''Report''
                   \<and> w_subject_id w = Some (row_id r)) (workflows d)) (reports d) = r # rs"
    and b: "d1 = d" "bi_report b = row_id r" "bi_workflow b = r_workflow r" "bi_kind b = r_kind r" "bi_status b = r_status r"
    by (auto simp: getReportBuildInput_def withTenant_def split: list.splits)
  from sql_select_hd [OF this(1)] b that [of r] show thesis by auto
qed

lemma active_key_frame:
  "getOrCreateActiveKey a kek i k iv now ctx d = (res, d1) \<Longrightarrow> \<exists>ks. d1 = d \<lparr> household_keys := ks \<rparr>"
proof (cases res)
  case (Inl e)
  assume "getOrCreateActiveKey a kek i k iv now ctx d = (res, d1)"
  with Inl have "d1 = d" by (simp add: getOrCreateActiveKey_def withTenant_def)
  then have "d1 = d \<lparr> household_keys := household_keys d \<rparr>" by simp
  then show ?thesis ..
next
  case (Inr vk)
  assume r: "getOrCreateActiveKey a kek i k iv now ctx d = (res, d1)"
  show ?thesis
  proof (cases "active_keys (tenant_session ctx) d")
    case Nil
    with r Inr show ?thesis
      by (auto simp: getOrCreateActiveKey_def withTenant_def household_keys_t.insert_returning_Inr)
  next
    case (Cons x xs)
    with r Inr have "d1 = d" by (auto simp: getOrCreateActiveKey_def withTenant_def)
    then have "d1 = d \<lparr> household_keys := household_keys d \<rparr>" by simp
    then show ?thesis ..
  qed
qed

lemma report_handler_pending:
  assumes "getReportBuildInput collate ctx workflow_id d = (Inr b, d1)" and "bi_status b \<noteq> ''completed''"
    and "report_handler collate locale a kek enqueue ri ctx workflow_id d x = (Inr (), d', x')"
  obtains v key d2 payload where
    "getOrCreateActiveKey a kek (ri_key_id ri) (ri_random_key ri) (ri_key_iv ri) (ri_now ri) ctx d = (Inr (v, key), d2)"
    "report_payload locale a ri ctx b (v, key) = Inr payload"
    "completeReport ctx (bi_report b) workflow_id (ri_now ri) payload v d2 = (Inr (), d')"
proof -
  from assms(1) have d1: "d1 = d" "bi_workflow b = Some workflow_id" by (rule build_input_Inr, simp)+
  show thesis
  proof (cases "getOrCreateActiveKey a kek (ri_key_id ri) (ri_random_key ri) (ri_key_iv ri) (ri_now ri) ctx d")
    case k: (Pair res d2)
    with assms d1 obtain v key where vk: "res = Inr (v, key)"
      by (cases res) (auto simp: report_handler_def Let_def)
    with k assms d1 obtain payload where p: "report_payload locale a ri ctx b (v, key) = Inr payload"
      by (cases "report_payload locale a ri ctx b (v, key)") (auto simp: report_handler_def Let_def)
    obtain out d3 where c: "completeReport ctx (bi_report b) workflow_id (ri_now ri) payload v d2 = (out, d3)"
      by (cases "completeReport ctx (bi_report b) workflow_id (ri_now ri) payload v d2")
    with k vk p assms d1 have "out = Inr () \<and> d3 = d'"
      by (cases out; cases "enqueue x") (auto simp: report_handler_def Let_def split: if_splits)
    with that k vk p c show thesis by blast
  qed
qed

lemma completeReport_effect:
  assumes "completeReport ctx report_id workflow_id at payload v d = (Inr (), d')"
    and "r \<in> set (reports d)" and "tenant_visible (tenant_session ctx) r" and "row_id r = report_id"
    and "r_workflow r = Some workflow_id" and "r_status r = ''pending''"
  shows "complete_report_set at payload v r \<in> set (reports d')"
proof -
  let ?p = "complete_report_pred report_id workflow_id"
  have p: "?p r" using assms(4-6) by (simp add: complete_report_pred_def)
  with assms(2,3) have "sql_select (tenant_session ctx) ?p (reports d) \<noteq> []"
    by (metis in_sql_select list.set_intros(1) list.set_cases empty_iff empty_set)
  with assms(1) have "reports d' = sql_update (tenant_session ctx) ?p (complete_report_set at payload v) (reports d)"
    by (auto simp: completeReport_def withTenant_def Let_def split: if_splits)
  then show ?thesis using assms(2,3) p by (auto simp: in_sql_update)
qed

lemma claims_sound:
  assumes "rep_claims r = createReportClaims fs" and "\<forall>c \<in> set (rep_claims r). rc_status c = ClaimConfirmed \<longrightarrow> rc_evidence c \<noteq> []"
  shows "list_all (\<lambda>c. if rc_status c = ClaimConfirmed then rc_evidence c \<noteq> [] else rc_value c = []) (rep_claims r)"
  using assms claims_of_unconfirmed by (auto simp: list_all_iff)

lemma getReportBuildInput_same: "getReportBuildInput collate ctx workflow_id d = (Inr b, d1) \<Longrightarrow> d1 = d"
  by (rule build_input_Inr)

lemma stored_payload_opens:
  assumes "aead_ok a" and "length iv = 12" and "encryptEnvelope a iv m key c = Inr e"
  shows "\<exists>v e'. parse_bytes (utf8_bytes (json_stringify (JObj (envelope_members e)))) = Inr v
    \<and> storedEnvelope v = Inr e' \<and> decryptEnvelope a e' key c = Inr m"
proof -
  have wf: "json_wf (JObj (envelope_members e))" by (simp add: envelope_members_def)
  have "env_algorithm e = ''A256GCM''" "is_safe_integer (env_version e)"
    using assms(3) by (auto simp: encryptEnvelope_Inr associatedData_def split: if_splits)
  then have "storedEnvelope (JObj (envelope_members e)) = Inr e"
    by (simp add: read_envelope_def envelope_members_def)
  with decrypt_encrypt_plain [OF assms] wf show ?thesis by (simp add: parse_bytes_def del: json_stringify.simps json_wf.simps)
qed


section \<open>A report that can never be completed\<close>

lemma build_report_unproven:
  assumes "f \<in> set fs" and "cf_status f = Confirmed" and "cf_evidence f = []"
  shows "\<exists>e. build_report collate ctx now b fs = Inl e"
proof (cases "build_report collate ctx now b fs")
  case (Inr r)
  from build_report_Inr [OF this] assms show ?thesis by (fastforce simp: createReportClaims_def)
qed blast

lemma res_map_member:
  "res_map g xs = Inr ys \<Longrightarrow> x \<in> set xs \<Longrightarrow> \<exists>y \<in> set ys. g x = Inr y"
  by (rule res_map_all)

text \<open>One confirmed fact without evidence blocks every report of its household: whatever the run
  is given, the handler throws, stores no report and enqueues nothing.  The repository and the
  domain let a manual fact be confirmed without evidence, so such facts occur.\<close>

theorem unproven_fact_blocks_reports:
  assumes "getReportBuildInput collate ctx workflow_id d = (Inr b, d)" and "bi_status b \<noteq> ''completed''"
    and "f \<in> set (bi_facts b)" and "fr_status f = ''confirmed''" and "fr_evidence f = []"
  shows "\<exists>e d'. report_handler collate locale a kek enqueue ri ctx workflow_id d x = (Inl e, d', x) \<and> reports d' = reports d"
proof -
  obtain res d2 where k: "getOrCreateActiveKey a kek (ri_key_id ri) (ri_random_key ri) (ri_key_iv ri) (ri_now ri) ctx d = (res, d2)"
    by (cases "getOrCreateActiveKey a kek (ri_key_id ri) (ri_random_key ri) (ri_key_iv ri) (ri_now ri) ctx d")
  from active_key_frame [OF k] have d2: "reports d2 = reports d" by auto
  show ?thesis
  proof (cases res)
    case (Inl e)
    with k d2 assms(1,2) show ?thesis by (auto simp: report_handler_def Let_def)
  next
    case (Inr vk)
    obtain v key where vk: "vk = (v, key)" by (cases vk)
    have "\<exists>e. report_payload locale a ri ctx b (v, key) = Inl e"
    proof (cases "res_map (open_fact a key ctx) (bi_facts b)")
      case (Inr fs)
      from res_map_all [OF Inr assms(3)] obtain cf where cf: "cf \<in> set fs" "open_fact a key ctx f = Inr cf" by blast
      from open_fact_Inr [OF cf(2)] assms(4,5) have "cf_status cf = Confirmed" "cf_evidence cf = []"
        by (simp_all add: status_of_def)
      from build_report_unproven [OF cf(1) this] obtain e where "build_report locale ctx (ri_now ri) b fs = Inl e" by blast
      with Inr show ?thesis by (simp add: report_payload_def)
    qed (simp add: report_payload_def)
    with k d2 Inr vk assms(1,2) show ?thesis by (auto simp: report_handler_def Let_def)
  qed
qed

text \<open>A pending life inventory of a household without facts, and of one with a fact confirmed by hand.\<close>

abbreviation report_ctx :: tenant_context where
  "report_ctx \<equiv> \<lparr> tc_org = ''o'', tc_hh = ''h'', tc_actor = ''p'' \<rparr>"

definition report_db :: db where
  "report_db = empty_db \<lparr> reports := [new_report report_ctx ''r'' ''w'' ''life-inventory'' 0],
     workflows := [new_workflow report_ctx ''w'' ''report'' ''report:k'' ''collect'' (Some (''Report'', ''r''))] \<rparr>"

definition manual_fact :: fact_row where
  "manual_fact = \<lparr> row_org = ''o'', row_hh = ''h'', row_id = ''f'', row_version = 2,
     f_field_key = ''pets.name'', f_value_encrypted = ''c'', f_key_version = 1, f_status = ''confirmed'',
     f_source_type = ''manual'', f_source_id = ''m'', f_evidence = [], f_confidence = None,
     f_sensitivity = ''standard'', f_confirmed_by = Some ''p'', f_confirmed_at = Some 1, f_last_reviewed = None \<rparr>"

definition sample_run_inputs :: run_inputs where
  "sample_run_inputs = \<lparr> ri_key_id = ''k'', ri_random_key = sample_key, ri_key_iv = sample_iv, ri_iv = sample_iv,
     ri_now = 5 \<rparr>"

definition report_input :: build_input where
  "report_input = \<lparr> bi_report = ''r'', bi_workflow = Some ''w'', bi_kind = ''life-inventory'',
     bi_status = ''pending'', bi_requested = 0, bi_facts = [], bi_documents = [] \<rparr>"

lemma report_db_input: "getReportBuildInput (\<lambda>k. k) report_ctx ''w'' report_db = (Inr report_input, report_db)"
  by (simp add: getReportBuildInput_def withTenant_def report_db_def empty_db_def sql_select_def new_report_def
      new_workflow_def order_by_def report_input_def)

lemma assoc_ok: "1 \<le> ec_version c \<Longrightarrow> ec_version c \<le> 2 \<Longrightarrow> \<exists>aad. associatedData c = Inr aad"
  by (simp add: associatedData_def is_safe_integer_def max_safe_integer_def)

lemma report_db_key:
  "\<exists>d2. getOrCreateActiveKey plain_aead sample_key ''k'' sample_key sample_iv 5 report_ctx report_db = (Inr (1, sample_key), d2)
     \<and> (\<exists>ks. d2 = report_db \<lparr> household_keys := ks \<rparr>)"
proof -
  obtain aad where "associatedData (key_context ''o'' ''h'' 1) = Inr aad"
    using assoc_ok [of "key_context ''o'' ''h'' 1"] by (auto simp: key_context_def)
  then have "\<exists>d2. getOrCreateActiveKey plain_aead sample_key ''k'' sample_key sample_iv 5 report_ctx report_db
      = (Inr (1, sample_key), d2)"
    by (simp add: getOrCreateActiveKey_def withTenant_def active_keys_def sql_select_def report_db_def empty_db_def
        order_by_def createWrappedHouseholdKey_def assertAesKey_def encryptEnvelope_def case_prod_beta
        household_keys_t.insert_returning_Inr)
  then show ?thesis using active_key_frame by blast
qed

lemma empty_report_payload:
  "\<exists>p. report_payload (\<lambda>k. k) plain_aead sample_run_inputs report_ctx report_input (1, sample_key) = Inr p"
proof -
  obtain aad where "associatedData (report_payload_context report_ctx ''r'' ''life-inventory'' 1) = Inr aad"
    using assoc_ok [of "report_payload_context report_ctx ''r'' ''life-inventory'' 1"] by (auto simp: report_payload_context_def)
  moreover have "\<exists>r. build_report (\<lambda>k. k) report_ctx 5 report_input [] = Inr r"
    by (simp add: build_report_def missing_categories_def confirmed_facts_def generateReport_def Let_def
        assertReportProvenance_def createReportClaims_def)
  ultimately show ?thesis
    by (auto simp: report_payload_def report_input_def sample_run_inputs_def encryptEnvelope_def assertAesKey_def case_prod_beta)
qed

lemma sample_report_run:
  "\<exists>d'. report_handler (\<lambda>k. k) (\<lambda>k. k) plain_aead sample_key (\<lambda>x. (Inr (), Suc x)) sample_run_inputs report_ctx ''w'' report_db 0
     = (Inr (), d', 0)"
proof -
  from report_db_key obtain d2 ks where k: "getOrCreateActiveKey plain_aead sample_key ''k'' sample_key sample_iv 5 report_ctx report_db
      = (Inr (1, sample_key), d2)" "d2 = report_db \<lparr> household_keys := ks \<rparr>" by blast
  from empty_report_payload obtain p where
    p: "report_payload (\<lambda>k. k) plain_aead sample_run_inputs report_ctx report_input (1, sample_key) = Inr p" by blast
  have "\<exists>d'. completeReport report_ctx ''r'' ''w'' 5 p 1 d2 = (Inr (), d')"
    by (simp add: completeReport_def withTenant_def Let_def k(2) report_db_def empty_db_def sql_select_def new_report_def
        complete_report_pred_def)
  with k(1) p show ?thesis
    by (auto simp: report_handler_def Let_def report_db_input report_input_def sample_run_inputs_def)
qed


lemma manual_fact_input:
  "\<exists>b. getReportBuildInput (\<lambda>k. k) report_ctx ''w'' (report_db \<lparr> facts := [manual_fact] \<rparr>)
     = (Inr b, report_db \<lparr> facts := [manual_fact] \<rparr>) \<and> bi_status b = ''pending'' \<and> bi_facts b = [read_fact manual_fact]"
  by (simp add: getReportBuildInput_def withTenant_def report_db_def empty_db_def sql_select_def new_report_def
      new_workflow_def order_by_def manual_fact_def)

theorem unproven_fact_blocks_reports_witness:
  "\<exists>e d'. report_handler (\<lambda>k. k) (\<lambda>k. k) plain_aead sample_key (\<lambda>x. (Inr (), Suc x)) sample_run_inputs report_ctx ''w''
     (report_db \<lparr> facts := [manual_fact] \<rparr>) 0 = (Inl e, d', 0)"
proof -
  from manual_fact_input obtain b where b: "getReportBuildInput (\<lambda>k. k) report_ctx ''w'' (report_db \<lparr> facts := [manual_fact] \<rparr>)
      = (Inr b, report_db \<lparr> facts := [manual_fact] \<rparr>)" "bi_status b = ''pending''" "bi_facts b = [read_fact manual_fact]" by blast
  have f: "read_fact manual_fact \<in> set (bi_facts b)" "fr_status (read_fact manual_fact) = ''confirmed''"
    "fr_evidence (read_fact manual_fact) = []" by (simp_all add: b(3) read_fact_def manual_fact_def)
  have "bi_status b \<noteq> ''completed''" using b(2) by simp
  from unproven_fact_blocks_reports [OF b(1) this f, of "\<lambda>k. k" plain_aead sample_key
      "\<lambda>x. (Inr (), Suc x)" sample_run_inputs 0] show ?thesis by blast
qed

section \<open>Notifications\<close>

lemma recipients_cong:
  "reports d' = reports d \<Longrightarrow> memberships d' = memberships d \<Longrightarrow> consents d' = consents d \<Longrightarrow>
     eligible_recipients verified s workflow_id d' = eligible_recipients verified s workflow_id d"
  by (simp add: eligible_recipients_def)

lemma eligible_recipient:
  assumes "(report_id, person, email, granted) \<in> set (eligible_recipients verified s workflow_id d)"
  obtains r m c u where "r \<in> set (reports d)" "tenant_visible s r" "r_workflow r = Some workflow_id"
    "r_kind r = ''annual-review''" "r_status r = ''completed''" "row_id r = report_id" "r_requested_by r = Some person"
    "m \<in> set (memberships d)" "tenant_visible s m" "m_person m = person" "m_active m = 1" "m_auth_user m = Some u"
    "verified u = Some email" "c \<in> set (consents d)" "tenant_visible s c" "c_person c = person"
    "c_purpose c = ''transactional-email''" "c_withdrawn c = None"
proof -
  from assms obtain r m c where *: "r \<in> set (sql_select s (\<lambda>r. r_workflow r = Some workflow_id \<and> r_kind r = ''annual-review''
               \<and> r_status r = ''completed'') (reports d))"
    "m \<in> set (sql_select s (\<lambda>m. r_requested_by r = Some (m_person m) \<and> m_active m = 1) (memberships d))"
    "email \<in> set (case m_auth_user m of None \<Rightarrow> [] | Some u \<Rightarrow> (case verified u of None \<Rightarrow> [] | Some e \<Rightarrow> [e]))"
    "c \<in> set (sql_select s (\<lambda>c. r_requested_by r = Some (c_person c) \<and> c_purpose c = ''transactional-email''
               \<and> c_withdrawn c = None) (consents d))"
    "report_id = row_id r" "person = m_person m"
    unfolding eligible_recipients_def set_order_by by (auto simp del: in_sql_select)
  from *(3) obtain u where u: "m_auth_user m = Some u" "verified u = Some email"
    by (cases "m_auth_user m") (auto split: option.splits)
  note r = in_sql_select [THEN iffD1, OF *(1)] and m = in_sql_select [THEN iffD1, OF *(2)]
    and c = in_sql_select [THEN iffD1, OF *(4)]
  from m c have "c_person c = m_person m" by simp
  with r m c u *(5,6) show thesis by (intro that [of r m u c]) simp_all
qed

lemma reserve_delivery_Inr:
  assumes "reserve_delivery ctx n s d = Inr (n', d')"
  shows "same_recipient n n' \<and> tenant_visible s n' \<and> (\<exists>pre post. deliveries d' = pre @ n' # post
     \<and> list_all (\<lambda>q. \<not> same_recipient n q) pre) \<and> (\<exists>t. d' = d \<lparr> deliveries := t \<rparr>)"
proof (cases "filter (same_recipient n) (deliveries d)")
  case Nil
  with assms have "tenant_visible s n" "n' = n" "d' = d \<lparr> deliveries := deliveries d @ [n] \<rparr>"
    by (auto simp: reserve_delivery_def deliveries_t.insert_returning_Inr)
  moreover from Nil have "list_all (\<lambda>q. \<not> same_recipient n q) (deliveries d)" by (simp add: filter_empty_conv list_all_iff)
  moreover have "same_recipient n n" by (simp add: same_recipient_def)
  ultimately show ?thesis by auto
next
  case (Cons q qs)
  with assms have q: "n' = q" "tenant_visible s q" "d' = d" by (auto simp: reserve_delivery_def split: if_splits)
  from Cons obtain pre post where "deliveries d = pre @ q # post" "\<forall>u \<in> set pre. \<not> same_recipient n u" "same_recipient n q"
    by (auto simp: filter_eq_Cons_iff)
  moreover have "d = d \<lparr> deliveries := deliveries d \<rparr>" by simp
  ultimately show ?thesis unfolding q list_all_iff using q(2) by blast
qed

lemma filter_same_first:
  assumes "ns = pre @ n' # post" and "list_all (\<lambda>q. \<not> same_recipient n q) pre" and "same_recipient n n'"
  shows "\<exists>qs. filter (same_recipient n) ns = n' # qs"
proof -
  from assms(2) have "filter (same_recipient n) pre = []" by (simp add: filter_empty_conv list_all_iff)
  with assms(1,3) show ?thesis by simp
qed

lemma delivery_input_Inr:
  assumes "getNotificationDeliveryInput verified ctx fresh_id now workflow_id d = (Inr (Some n), d1)"
  obtains report_id person email granted rest q pre post t where
    "eligible_recipients verified (tenant_session ctx) workflow_id d = (report_id, person, email, granted) # rest"
    "same_recipient (new_delivery ctx fresh_id workflow_id person now) q" "tenant_visible (tenant_session ctx) q"
    "deliveries d1 = pre @ q # post" "list_all (\<lambda>u. \<not> same_recipient (new_delivery ctx fresh_id workflow_id person now) u) pre"
    "d1 = d \<lparr> deliveries := t \<rparr>" "di_delivery n = row_id q" "di_report n = report_id" "di_email n = email"
    "di_status n = n_status q"
proof -
  from assms obtain report_id person email granted rest q where
    e: "eligible_recipients verified (tenant_session ctx) workflow_id d = (report_id, person, email, granted) # rest"
    and r: "reserve_delivery ctx (new_delivery ctx fresh_id workflow_id person now) (tenant_session ctx) d = Inr (q, d1)"
    and n: "di_delivery n = row_id q" "di_report n = report_id" "di_email n = email" "di_status n = n_status q"
    by (auto simp: getNotificationDeliveryInput_def withTenant_def split: list.splits sum.splits)
  from reserve_delivery_Inr [OF r] e n that show thesis by blast
qed

lemma same_new_delivery:
  "same_recipient (new_delivery ctx i w p t) n \<longleftrightarrow> n_workflow n = w \<and> n_recipient n = p \<and> n_kind n = ''annual-review-ready''"
  by (auto simp: same_recipient_def new_delivery_def)

text \<open>A delivery that is there is found again, whatever fresh identifier the run brings.\<close>

lemma delivery_input_again:
  assumes "eligible_recipients verified (tenant_session ctx) workflow_id d = (report_id, person, email, granted) # rest"
    and "deliveries d = pre @ q # post" and "list_all (\<lambda>u. \<not> same_recipient (new_delivery ctx i workflow_id person t) u) pre"
    and "same_recipient (new_delivery ctx i workflow_id person t) q" and "tenant_visible (tenant_session ctx) q"
  shows "\<exists>n. getNotificationDeliveryInput verified ctx i' t' workflow_id d = (Inr (Some n), d) \<and> di_status n = n_status q"
proof -
  from assms(3,4) have "list_all (\<lambda>u. \<not> same_recipient (new_delivery ctx i' workflow_id person t') u) pre"
    "same_recipient (new_delivery ctx i' workflow_id person t') q" by (simp_all add: same_new_delivery)
  from filter_same_first [OF assms(2) this] obtain qs where
    "filter (same_recipient (new_delivery ctx i' workflow_id person t')) (deliveries d) = q # qs" by blast
  with assms(1,5) show ?thesis
    by (simp add: getNotificationDeliveryInput_def withTenant_def reserve_delivery_def)
qed

lemma complete_delivery_effect:
  assumes "completeNotificationDelivery ctx i message_id now d = (Inr (), d')"
    and "deliveries d = pre @ q # post" and "tenant_visible (tenant_session ctx) q" and "row_id q = i" and "n_status q \<noteq> ''sent''"
  shows "d' = d \<lparr> deliveries := sql_update (tenant_session ctx) (unsent i) (delivery_sent_set message_id now) (deliveries d) \<rparr>"
proof -
  have "q \<in> set (sql_select (tenant_session ctx) (unsent i) (deliveries d))"
    using assms(2-5) by (simp add: unsent_def)
  then have "sql_select (tenant_session ctx) (unsent i) (deliveries d) \<noteq> []" by (metis list.set(1) emptyE)
  with assms(1) show ?thesis by (simp add: completeNotificationDelivery_def withTenant_def)
qed

lemma no_recipient:
  "eligible_recipients verified (tenant_session ctx) workflow_id d = [] \<Longrightarrow>
     getNotificationDeliveryInput verified ctx i t workflow_id d = (Inr None, d)"
  by (simp add: getNotificationDeliveryInput_def withTenant_def)

lemma notification_handler_again:
  assumes "notification_handler verified origin send ctx i t workflow_id d x = (Inr (), d', x')"
  shows "notification_handler verified origin send' ctx i' t' workflow_id d' y = (Inr (), d', y)"
proof -
  obtain res d1 where g: "getNotificationDeliveryInput verified ctx i t workflow_id d = (res, d1)"
    by (cases "getNotificationDeliveryInput verified ctx i t workflow_id d")
  show ?thesis
  proof (cases res)
    case (Inl e)
    with g assms show ?thesis by (simp add: notification_handler_def)
  next
    case res: (Inr opt)
    show ?thesis
    proof (cases opt)
      case None
      with g res have "eligible_recipients verified (tenant_session ctx) workflow_id d = [] \<and> d1 = d"
        by (auto simp: getNotificationDeliveryInput_def withTenant_def split: list.splits sum.splits)
      moreover from g res None assms have "d' = d1" by (simp add: notification_handler_def)
      ultimately show ?thesis using no_recipient by (simp add: notification_handler_def)
    next
      case (Some n)
      with g res have "getNotificationDeliveryInput verified ctx i t workflow_id d = (Inr (Some n), d1)" by simp
      then obtain report_id person email granted rest q pre post tab where
        e: "eligible_recipients verified (tenant_session ctx) workflow_id d = (report_id, person, email, granted) # rest"
        and q: "same_recipient (new_delivery ctx i workflow_id person t) q" "tenant_visible (tenant_session ctx) q"
          "deliveries d1 = pre @ q # post" "list_all (\<lambda>u. \<not> same_recipient (new_delivery ctx i workflow_id person t) u) pre"
        and d1: "d1 = d \<lparr> deliveries := tab \<rparr>" and n: "di_delivery n = row_id q" "di_status n = n_status q"
        by (rule delivery_input_Inr)
      have e1: "eligible_recipients verified (tenant_session ctx) workflow_id d1 = (report_id, person, email, granted) # rest"
        using e d1 by (subst recipients_cong [of d1 d]) simp_all
      show ?thesis
      proof (cases "n_status q = ''sent''")
        case True
        with g res Some n assms have d': "d' = d1" by (simp add: notification_handler_def)
        from delivery_input_again [OF e1 q(3,4,1,2), of i' t'] True show ?thesis
          unfolding d' by (auto simp: notification_handler_def)
      next
        case False
        obtain r x1 where s: "send (review_mail origin n) x = (r, x1)" by (cases "send (review_mail origin n) x")
        obtain message_id where m: "r = Inr message_id"
          using assms g res Some n False s
          by (cases r) (auto simp: notification_handler_def recordNotificationDeliveryFailure_def withTenant_def split: prod.splits sum.splits)
        obtain r2 d2 where c: "completeNotificationDelivery ctx (di_delivery n) message_id t d1 = (r2, d2)"
          by (cases "completeNotificationDelivery ctx (di_delivery n) message_id t d1")
        have ok: "r2 = Inr () \<and> d' = d2"
          using assms g res Some n False s m c
          by (cases r2) (auto simp: notification_handler_def recordNotificationDeliveryFailure_def withTenant_def split: prod.splits sum.splits)
        with c have "completeNotificationDelivery ctx (row_id q) message_id t d1 = (Inr (), d')" using n by simp
        from complete_delivery_effect [OF this q(3,2) refl False]
        have d': "d' = d1 \<lparr> deliveries := sql_update (tenant_session ctx) (unsent (row_id q)) (delivery_sent_set message_id t) (deliveries d1) \<rparr>" .
        let ?f = "\<lambda>u. if tenant_visible (tenant_session ctx) u \<and> unsent (row_id q) u then delivery_sent_set message_id t u else u"
        have f: "same_recipient n' (?f u) = same_recipient n' u" "row_org (?f u) = row_org u" "row_hh (?f u) = row_hh u" for n' u
          by (simp_all add: same_recipient_def delivery_sent_set_def)
        have "deliveries d' = map ?f pre @ ?f q # map ?f post" by (simp add: d' sql_update_def q(3))
        moreover have "list_all (\<lambda>u. \<not> same_recipient (new_delivery ctx i workflow_id person t) u) (map ?f pre)"
          using q(4) by (simp only: list_all_iff set_map ball_simps f)
        moreover have "same_recipient (new_delivery ctx i workflow_id person t) (?f q)" using q(1) by (simp only: f)
        moreover have "tenant_visible (tenant_session ctx) (?f q)"
          using q(2) by (subst tenant_visible_cong [where r' = q]) (rule f | assumption)+
        moreover have "eligible_recipients verified (tenant_session ctx) workflow_id d' = (report_id, person, email, granted) # rest"
          using e1 d' by (subst recipients_cong [of d' d1]) simp_all
        moreover have "n_status (?f q) = ''sent''" using q(2) False by (simp add: unsent_def delivery_sent_set_def)
        ultimately obtain n' where "getNotificationDeliveryInput verified ctx i' t' workflow_id d' = (Inr (Some n'), d')"
          "di_status n' = ''sent''"
          using delivery_input_again [of verified ctx workflow_id d' report_id person email granted rest "map ?f pre" "?f q" "map ?f post" i t i' t']
          by metis
        then show ?thesis by (simp add: notification_handler_def)
      qed
    qed
  qed
qed

text \<open>C27: An annual review is announced at most once: after a run of the notification workflow that
  returned, every further run of the same job leaves the database and the mail provider as they
  are, whatever the provider would answer now and whatever identifiers and clock the run brings.\<close>

theorem notification_sent_once:
  assumes "notification_handler verified origin send ctx i t workflow_id d x = (Inr (), d', x')"
  shows "notification_handler verified origin send' ctx i' t' workflow_id d' y = (Inr (), d', y)"
  using assms by (rule notification_handler_again)

text \<open>C28: The notification workflow calls the mail provider only for a completed annual review of that
  job, with the verified address of an active member who requested the review and has a live
  consent to transactional mail; the message links to that report and carries the identifier of a
  delivery row of the tenant as its idempotency key.\<close>

theorem notification_needs_consent:
  assumes "notification_handler verified origin send ctx i t workflow_id d x = (res, d', x')" and "x' \<noteq> x"
  shows "\<exists>n r m c u. x' = snd (send (review_mail origin n) x) \<and> em_to (review_mail origin n) = di_email n
    \<and> em_idempotency_key (review_mail origin n) = di_delivery n
    \<and> r \<in> set (reports d) \<and> tenant_visible (tenant_session ctx) r \<and> r_workflow r = Some workflow_id
    \<and> r_kind r = ''annual-review'' \<and> r_status r = ''completed'' \<and> row_id r = di_report n
    \<and> m \<in> set (memberships d) \<and> tenant_visible (tenant_session ctx) m \<and> m_active m = 1
    \<and> r_requested_by r = Some (m_person m) \<and> m_auth_user m = Some u \<and> verified u = Some (di_email n)
    \<and> c \<in> set (consents d) \<and> tenant_visible (tenant_session ctx) c \<and> c_person c = m_person m
    \<and> c_purpose c = ''transactional-email'' \<and> c_withdrawn c = None"
proof -
  obtain g d1 where g: "getNotificationDeliveryInput verified ctx i t workflow_id d = (g, d1)"
    by (cases "getNotificationDeliveryInput verified ctx i t workflow_id d")
  from assms g obtain n where n: "g = Inr (Some n)"
    by (cases g; cases "projr g") (auto simp: notification_handler_def)
  obtain sent x1 where s: "send (review_mail origin n) x = (sent, x1)" by (cases "send (review_mail origin n) x")
  have x': "x' = snd (send (review_mail origin n) x)"
    using assms g n s by (auto simp: notification_handler_def split: if_splits prod.splits sum.splits)
  from g n have "getNotificationDeliveryInput verified ctx i t workflow_id d = (Inr (Some n), d1)" by simp
  then obtain report_id person email granted rest where
    e: "eligible_recipients verified (tenant_session ctx) workflow_id d = (report_id, person, email, granted) # rest"
    and n: "di_report n = report_id" "di_email n = email" by (rule delivery_input_Inr)
  have "(report_id, person, email, granted) \<in> set (eligible_recipients verified (tenant_session ctx) workflow_id d)"
    by (simp add: e)
  then obtain r m c u where rows: "r \<in> set (reports d)" "tenant_visible (tenant_session ctx) r" "r_workflow r = Some workflow_id"
    "r_kind r = ''annual-review''" "r_status r = ''completed''" "row_id r = report_id" "r_requested_by r = Some person"
    "m \<in> set (memberships d)" "tenant_visible (tenant_session ctx) m" "m_person m = person" "m_active m = 1" "m_auth_user m = Some u"
    "verified u = Some email" "c \<in> set (consents d)" "tenant_visible (tenant_session ctx) c" "c_person c = person"
    "c_purpose c = ''transactional-email''" "c_withdrawn c = None" by (rule eligible_recipient)
  have mail: "em_to (review_mail origin n) = di_email n" "em_idempotency_key (review_mail origin n) = di_delivery n"
    by (simp_all add: review_mail_def Let_def)
  show ?thesis
    by (intro exI [of _ n] exI [of _ r] exI [of _ m] exI [of _ c] exI [of _ u]) (use x' mail rows n in simp)
qed

text \<open>A completed annual review of a member who consented; the provider counts what it is given.\<close>

definition review_db :: db where
  "review_db = empty_db \<lparr>
     reports := [complete_report_set 5 ''x'' 1 (new_report report_ctx ''r'' ''w'' ''annual-review'' 0)],
     memberships := [\<lparr> row_org = ''o'', row_hh = ''h'', row_id = ''m'', row_version = 1, m_person = ''p'',
       m_role = ''owner'', m_auth_user = Some ''u'', m_active = 1 \<rparr>],
     consents := [new_consent report_ctx ''c'' ''p'' ''transactional-email'' ''v1'' 1] \<rparr>"

abbreviation counting_send :: "email_message \<Rightarrow> nat \<Rightarrow> string result \<times> nat" where
  "counting_send m n \<equiv> (Inr ''mid'', Suc n)"

lemma review_notified:
  "\<exists>d'. notification_handler (\<lambda>u. Some ''p@example.org'') ''https://vault'' counting_send report_ctx ''n'' 7 ''w'' review_db 0
     = (Inr (), d', 1)"
  by (simp add: notification_handler_def getNotificationDeliveryInput_def withTenant_def eligible_recipients_def review_db_def
      empty_db_def sql_select_def complete_report_set_def new_report_def new_consent_def order_by_def reserve_delivery_def
      new_delivery_def deliveries_t.insert_returning_Inr completeNotificationDelivery_def unsent_def insert_returning_def sql_insert_def
      transaction_def)

theorem notification_sent_once_witness:
  "\<exists>d'. notification_handler (\<lambda>u. Some ''p@example.org'') ''https://vault'' counting_send report_ctx ''n'' 7 ''w'' review_db 0
       = (Inr (), d', 1)
     \<and> notification_handler (\<lambda>u. Some ''p@example.org'') ''https://vault'' counting_send report_ctx ''n2'' 9 ''w'' d' 1
       = (Inr (), d', 1)"
proof -
  from review_notified obtain d' where run: "notification_handler (\<lambda>u. Some ''p@example.org'') ''https://vault'' counting_send
      report_ctx ''n'' 7 ''w'' review_db 0 = (Inr (), d', 1)" by blast
  show ?thesis by (rule exI [of _ d']) (rule conjI [OF run notification_sent_once [OF run]])
qed

theorem notification_needs_consent_witness:
  "\<exists>d' r. notification_handler (\<lambda>u. Some ''p@example.org'') ''https://vault'' counting_send report_ctx ''n'' 7 ''w'' review_db 0
       = (Inr (), d', 1) \<and> r \<in> set (reports review_db) \<and> r_status r = ''completed''"
proof -
  from review_notified obtain d' where run: "notification_handler (\<lambda>u. Some ''p@example.org'') ''https://vault'' counting_send
      report_ctx ''n'' 7 ''w'' review_db 0 = (Inr (), d', 1)" by blast
  have "(1::nat) \<noteq> 0" by simp
  from notification_needs_consent [OF run this] run show ?thesis by blast
qed

end
