(* ===== verification/Document_Store.thy ===== *)
theory Document_Store
  imports Workflow_Store Fact_Store Idempotency Js_Bytes
begin

text \<open>
  Uploaded documents in the repository: \<open>listVaultDocuments\<close>, \<open>getDocumentDownloadMaterial\<close> and
  \<open>startDocumentUpload\<close> to \<open>completeManualDocumentExtraction\<close> of \<open>repository.ts\<close>, with the
  constraints of the \<open>documents\<close>, \<open>document_derivatives\<close>, \<open>document_consents\<close> and \<open>evidence\<close>
  tables.  SHA-256 is a parameter that gives the bytes of the digest.
\<close>

section \<open>Constraints of the tables\<close>

definition sha256_text :: "string \<Rightarrow> bool" where
  "sha256_text s \<longleftrightarrow> length s = 64 \<and> list_all (\<lambda>c. c \<in> set ''0123456789abcdef'') s"

definition document_statuses :: "string list" where
  "document_statuses = [''pending'', ''quarantined'', ''clean'', ''rejected'', ''deleted'']"

definition document_state_ok :: "document_row \<Rightarrow> bool" where
  "document_state_ok r \<longleftrightarrow> d_status r = ''deleted''
     \<or> d_wrapped_key r \<noteq> None \<and> d_maximum_bytes r \<noteq> None
       \<and> (d_status r = ''pending'' \<and> d_ciphertext_sha256 r = None \<and> d_uploaded r = None
          \<or> d_status r \<in> {''quarantined'', ''clean'', ''rejected''} \<and> d_ciphertext_sha256 r \<noteq> None
            \<and> d_uploaded r \<noteq> None)"

definition document_row_ok :: "document_row \<Rightarrow> bool" where
  "document_row_ok r \<longleftrightarrow> sha256_text (d_sha256 r) \<and> d_status r \<in> set document_statuses
     \<and> 0 < d_key_version r \<and> 0 < row_version r
     \<and> (case d_maximum_bytes r of None \<Rightarrow> True | Some n \<Rightarrow> 1 \<le> n \<and> n \<le> 104857600)
     \<and> (case d_ciphertext_sha256 r of None \<Rightarrow> True | Some h \<Rightarrow> sha256_text h)
     \<and> document_state_ok r"

definition same_document :: "document_row \<Rightarrow> document_row \<Rightarrow> bool" where
  "same_document r r' \<longleftrightarrow> same_id r r' \<or> d_object_key r = d_object_key r'"

definition same_document_consent :: "document_consent_row \<Rightarrow> document_consent_row \<Rightarrow> bool" where
  "same_document_consent r r' \<longleftrightarrow> same_id r r' \<or> dc_document r = dc_document r'"

definition derivative_row_ok :: "derivative_row \<Rightarrow> bool" where
  "derivative_row_ok r \<longleftrightarrow> dd_kind r = ''searchable-pdf'' \<and> sha256_text (dd_ciphertext_sha256 r)
     \<and> 0 < dd_key_version r"

definition same_derivative :: "derivative_row \<Rightarrow> derivative_row \<Rightarrow> bool" where
  "same_derivative r r' \<longleftrightarrow> same_id r r' \<or> dd_object_key r = dd_object_key r'"

text \<open>\<open>update documents set ... where ...\<close>: the new rows, which must meet the constraints.\<close>

definition update_documents ::
  "(document_row \<Rightarrow> bool) \<Rightarrow> (document_row \<Rightarrow> document_row) \<Rightarrow> session \<Rightarrow> document_row list op" where
  "update_documents p f s d = (let rs = map f (sql_select s p (documents d)) in
     if list_all document_row_ok rs then Inr (rs, d \<lparr> documents := sql_update s p f (documents d) \<rparr>)
     else Inl pg_check_violation)"

definition update_workflows ::
  "(workflow_row \<Rightarrow> bool) \<Rightarrow> (workflow_row \<Rightarrow> workflow_row) \<Rightarrow> string \<Rightarrow> session \<Rightarrow> unit op" where
  "update_workflows p f message s d =
     (if length (sql_select s p (workflows d)) \<noteq> 1 then Inl (js_error message)
      else Inr ((), d \<lparr> workflows := sql_update s p f (workflows d) \<rparr>))"

section \<open>Starting an upload\<close>

record upload_input =
  ui_id :: string
  ui_object_key :: string
  ui_sha256 :: string
  ui_media_type :: string
  ui_wrapped_key :: json
  ui_key_version :: int
  ui_maximum_bytes :: int
  ui_idempotency_key :: string
  ui_expires :: "int option"
  ui_consent_policy :: string
  ui_delete_original :: bool
  ui_consented :: int

record upload_record =
  ur_id :: string
  ur_object_key :: string
  ur_sha256 :: string
  ur_media_type :: string
  ur_status :: string
  ur_key_version :: int
  ur_wrapped_key :: json
  ur_maximum_bytes :: int
  ur_version :: int
  ur_delete_original :: bool
  ur_original_deleted :: "string option"

definition request_hash :: "(string \<Rightarrow> string) \<Rightarrow> json \<Rightarrow> string" where
  "request_hash sha256 v = hex_text (sha256 (utf8_bytes (json_stringify v)))"

text \<open>\<open>expires_text\<close> is the text of the expiry in the request.\<close>

definition upload_request :: "string option \<Rightarrow> upload_input \<Rightarrow> json" where
  "upload_request expires_text i = JObj [(''originalSha256'', JStr (ui_sha256 i)),
     (''mediaType'', JStr (ui_media_type i)), (''maximumBytes'', JNum (ui_maximum_bytes i)),
     (''expiresAt'', case expires_text of None \<Rightarrow> JNull | Some t \<Rightarrow> JStr t),
     (''documentConsentPolicyVersion'', JStr (ui_consent_policy i)),
     (''deleteOriginalAfterProcessing'', JBool (ui_delete_original i))]"

definition new_document :: "tenant_context \<Rightarrow> upload_input \<Rightarrow> document_row" where
  "new_document ctx i = \<lparr> row_org = tc_org ctx, row_hh = tc_hh ctx, row_id = ui_id i, row_version = 1,
     d_object_key = ui_object_key i, d_sha256 = ui_sha256 i, d_media_type = ui_media_type i,
     d_status = ''pending'', d_key_version = ui_key_version i, d_wrapped_key = Some (ui_wrapped_key i),
     d_maximum_bytes = Some (ui_maximum_bytes i), d_ciphertext_sha256 = None, d_uploaded = None,
     d_processed = None, d_error = None, d_expires = ui_expires i,
     d_delete_original = ui_delete_original i, d_original_deleted = None \<rparr>"

definition new_document_consent :: "tenant_context \<Rightarrow> string \<Rightarrow> upload_input \<Rightarrow> document_consent_row" where
  "new_document_consent ctx consent_id i = \<lparr> row_org = tc_org ctx, row_hh = tc_hh ctx, row_id = consent_id,
     row_version = 1, dc_document = ui_id i, dc_person = tc_actor ctx, dc_policy = ui_consent_policy i,
     dc_granted = ui_consented i, dc_withdrawn = None \<rparr>"

text \<open>A \<open>jsonb\<close> null is read as \<open>null\<close>, which is falsy, as a missing key is.\<close>

definition key_present :: "document_row \<Rightarrow> bool" where
  "key_present r \<longleftrightarrow> (case d_wrapped_key r of None \<Rightarrow> False | Some v \<Rightarrow> js_truthy v)"

definition read_upload :: "document_row \<Rightarrow> upload_record" where
  "read_upload r = \<lparr> ur_id = row_id r, ur_object_key = d_object_key r, ur_sha256 = d_sha256 r,
     ur_media_type = d_media_type r, ur_status = d_status r, ur_key_version = d_key_version r,
     ur_wrapped_key = (case d_wrapped_key r of None \<Rightarrow> JNull | Some v \<Rightarrow> v),
     ur_maximum_bytes = (case d_maximum_bytes r of None \<Rightarrow> 0 | Some n \<Rightarrow> n), ur_version = row_version r,
     ur_delete_original = d_delete_original r,
     ur_original_deleted = map_option toISOString (d_original_deleted r) \<rparr>"

definition insert_upload :: "tenant_context \<Rightarrow> string \<Rightarrow> upload_input \<Rightarrow> session \<Rightarrow> unit op" where
  "insert_upload ctx consent_id i s d =
     (if \<not> document_row_ok (new_document ctx i) then Inl pg_check_violation
      else res_bind (insert_returning documents documents_update same_document (new_document ctx i) s d) (\<lambda>(_, d1).
        res_bind (insert_returning document_consents document_consents_update same_document_consent
                    (new_document_consent ctx consent_id i) s d1) (\<lambda>(_, d2). Inr ((), d2))))"

text \<open>The identifier a stored response names, \<open>response_body?.document?.id\<close>.\<close>

definition replay_id :: "json option \<Rightarrow> string option" where
  "replay_id v = (case v of None \<Rightarrow> None | Some b \<Rightarrow> (case jfield b ''document'' of None \<Rightarrow> None
     | Some x \<Rightarrow> (case jfield x ''id'' of Some (JStr i) \<Rightarrow> if i = [] then None else Some i | _ \<Rightarrow> None)))"

definition reserve_upload ::
  "string \<Rightarrow> tenant_context \<Rightarrow> string \<Rightarrow> int \<Rightarrow> upload_input \<Rightarrow> session \<Rightarrow> string op" where
  "reserve_upload h ctx consent_id now i s d =
     (case tenant_reserve ctx (ui_idempotency_key i) now h d of
        None \<Rightarrow> (case tenant_lookup ctx (ui_idempotency_key i) d of
            None \<Rightarrow> Inl (js_error ''document upload idempotency conflict'')
          | Some (h', response) \<Rightarrow> (case replay_id response of
              None \<Rightarrow> Inl (js_error ''document upload idempotency conflict'')
            | Some i' \<Rightarrow> if h' \<noteq> h then Inl (js_error ''document upload idempotency conflict'') else Inr (i', d)))
      | Some d1 \<Rightarrow> res_bind (insert_upload ctx consent_id i s d1) (\<lambda>(_, d2).
          Inr (ui_id i, tenant_complete ctx (ui_idempotency_key i) 201
                 (JObj [(''document'', JObj [(''id'', JStr (ui_id i))])]) d2)))"

definition pending_upload :: "string \<Rightarrow> session \<Rightarrow> upload_record op" where
  "pending_upload document_id s d = (case sql_select s (\<lambda>r. row_id r = document_id) (documents d) of
       [] \<Rightarrow> Inl (js_error ''document upload is unavailable'')
     | r # _ \<Rightarrow> if d_status r \<noteq> ''pending'' \<or> \<not> key_present r
                then Inl (js_error ''document upload is unavailable'') else Inr (read_upload r, d))"

definition startDocumentUpload ::
  "(string \<Rightarrow> string) \<Rightarrow> tenant_context \<Rightarrow> string \<Rightarrow> int \<Rightarrow> string option \<Rightarrow> upload_input \<Rightarrow> db
   \<Rightarrow> upload_record result \<times> db" where
  "startDocumentUpload sha256 ctx consent_id now expires_text i = withTenant ctx (\<lambda>s d.
     res_bind (reserve_upload (request_hash sha256 (upload_request expires_text i)) ctx consent_id now i s d)
       (\<lambda>(document_id, d'). pending_upload document_id s d'))"

definition getPendingDocumentUpload :: "tenant_context \<Rightarrow> string \<Rightarrow> db \<Rightarrow> upload_record result \<times> db" where
  "getPendingDocumentUpload ctx document_id = withTenant ctx (\<lambda>s d.
     case sql_select s (\<lambda>r. row_id r = document_id \<and> d_status r = ''pending'') (documents d) of
       [] \<Rightarrow> Inl (js_error ''document upload is unavailable'')
     | r # _ \<Rightarrow> if key_present r then Inr (read_upload r, d)
                else Inl (js_error ''document upload is unavailable''))"

section \<open>Completing an upload\<close>

definition row_json :: "string \<Rightarrow> string \<Rightarrow> int \<Rightarrow> json" where
  "row_json i status version = JObj [(''id'', JStr i), (''status'', JStr status), (''version'', JNum version)]"

definition uploaded_pred :: "string \<Rightarrow> int \<Rightarrow> document_row \<Rightarrow> bool" where
  "uploaded_pred document_id version r \<longleftrightarrow> row_id r = document_id \<and> d_status r = ''pending'' \<and> row_version r = version"

definition uploaded_set :: "string \<Rightarrow> int \<Rightarrow> document_row \<Rightarrow> document_row" where
  "uploaded_set ciphertext_sha256 at r = r \<lparr> d_status := ''quarantined'',
     d_ciphertext_sha256 := Some ciphertext_sha256, d_uploaded := Some at, row_version := row_version r + 1 \<rparr>"

definition complete_upload_body ::
  "tenant_context \<Rightarrow> string \<Rightarrow> string \<Rightarrow> int \<Rightarrow> string \<Rightarrow> int \<Rightarrow> session \<Rightarrow> json op" where
  "complete_upload_body ctx workflow_id document_id version ciphertext_sha256 at s d =
     res_bind (update_documents (uploaded_pred document_id version) (uploaded_set ciphertext_sha256 at) s d)
       (\<lambda>(rs, d1). case rs of
          [] \<Rightarrow> Inl (js_error ''document upload version conflict'')
        | r # _ \<Rightarrow> res_bind (insert_returning workflows workflows_update same_workflow
              (new_workflow ctx workflow_id ''document-processing'' (''document:'' @ document_id) ''scan''
                 (Some (''Document'', document_id))) s d1) (\<lambda>(w, d2).
            Inr (JObj [(''document'', row_json (row_id r) (d_status r) (row_version r)),
                       (''workflow'', row_json (row_id w) (w_status w) (row_version w))], d2)))"

definition completion_request :: "string \<Rightarrow> int \<Rightarrow> string \<Rightarrow> json" where
  "completion_request document_id version ciphertext_sha256 = JObj [(''documentId'', JStr document_id),
     (''expectedVersion'', JNum version), (''ciphertextSha256'', JStr ciphertext_sha256)]"

definition completeDocumentUpload ::
  "(string \<Rightarrow> string) \<Rightarrow> tenant_context \<Rightarrow> string \<Rightarrow> int \<Rightarrow> string \<Rightarrow> int \<Rightarrow> string \<Rightarrow> string \<Rightarrow> int
   \<Rightarrow> db \<Rightarrow> json result \<times> db" where
  "completeDocumentUpload sha256 ctx workflow_id now document_id version ciphertext_sha256 key at =
     withTenant ctx (\<lambda>s. idempotent_call (tenant_lookup ctx key) (tenant_reserve ctx key now)
       (tenant_complete ctx key 202) (request_hash sha256 (completion_request document_id version ciphertext_sha256))
       ''document completion idempotency conflict'' ''document completion idempotency conflict''
       (complete_upload_body ctx workflow_id document_id version ciphertext_sha256 at s))"

section \<open>Processing\<close>

record processing_input = upload_record +
  pi_workflow :: string
  pi_workflow_status :: string
  pi_workflow_version :: int
  pi_next :: "string option"

definition read_processing :: "document_row \<Rightarrow> workflow_row \<Rightarrow> processing_input" where
  "read_processing r w = upload_record.extend (read_upload r) \<lparr> pi_workflow = row_id w,
     pi_workflow_status = w_status w, pi_workflow_version = row_version w, pi_next = w_next w \<rparr>"

definition document_of :: "workflow_row \<Rightarrow> document_row \<Rightarrow> bool" where
  "document_of w r \<longleftrightarrow> w_subject_type w = Some ''Document'' \<and> w_subject_id w = Some (row_id r)"

definition getDocumentProcessingInput :: "tenant_context \<Rightarrow> string \<Rightarrow> db \<Rightarrow> processing_input result \<times> db" where
  "getDocumentProcessingInput ctx workflow_id = withTenant ctx (\<lambda>s d.
     case concat (map (\<lambda>w. map (\<lambda>r. (r, w)) (sql_select s (document_of w) (documents d)))
            (sql_select s (\<lambda>w. row_id w = workflow_id) (workflows d))) of
       [] \<Rightarrow> Inl (js_error ''document processing input is unavailable'')
     | (r, w) # _ \<Rightarrow> if key_present r then Inr (read_processing r w, d)
                     else Inl (js_error ''document processing input is unavailable''))"

definition scanned_pred :: "string \<Rightarrow> int \<Rightarrow> document_row \<Rightarrow> bool" where
  "scanned_pred document_id version r \<longleftrightarrow>
     row_id r = document_id \<and> d_status r = ''quarantined'' \<and> row_version r = version"

definition scanned_set :: "string \<Rightarrow> int \<Rightarrow> document_row \<Rightarrow> document_row" where
  "scanned_set outcome at r = r \<lparr> d_status := outcome, d_processed := Some at, d_error := None,
     row_version := row_version r + 1 \<rparr>"

definition scan_workflow_set :: "string \<Rightarrow> workflow_row \<Rightarrow> workflow_row" where
  "scan_workflow_set outcome w = w \<lparr> w_status := (if outcome = ''rejected'' then ''completed'' else ''running''),
     w_completed_steps := add_step ''scan'' (w_completed_steps w),
     w_next := (if outcome = ''rejected'' then None else Some ''ocr''), w_error := None,
     row_version := row_version w + 1 \<rparr>"

definition at_step :: "string \<Rightarrow> int \<Rightarrow> string \<Rightarrow> workflow_row \<Rightarrow> bool" where
  "at_step workflow_id version step w \<longleftrightarrow>
     row_id w = workflow_id \<and> row_version w = version \<and> w_next w = Some step"

definition completeDocumentScan ::
  "tenant_context \<Rightarrow> string \<Rightarrow> string \<Rightarrow> int \<Rightarrow> int \<Rightarrow> string \<Rightarrow> int \<Rightarrow> db \<Rightarrow> unit result \<times> db" where
  "completeDocumentScan ctx document_id workflow_id document_version workflow_version outcome at =
     withTenant ctx (\<lambda>s d.
       res_bind (update_documents (scanned_pred document_id document_version) (scanned_set outcome at) s d)
         (\<lambda>(rs, d1). if length rs \<noteq> 1 then Inl (js_error ''document scan completion conflict'')
            else update_workflows (at_step workflow_id workflow_version ''scan'') (scan_workflow_set outcome)
                   ''document scan workflow conflict'' s d1))"

definition scan_failed_set :: "string \<Rightarrow> document_row \<Rightarrow> document_row" where
  "scan_failed_set error_class r = r \<lparr> d_error := Some (take 120 error_class), row_version := row_version r + 1 \<rparr>"

definition recordDocumentScanFailure ::
  "tenant_context \<Rightarrow> string \<Rightarrow> string \<Rightarrow> string \<Rightarrow> db \<Rightarrow> unit result \<times> db" where
  "recordDocumentScanFailure ctx document_id workflow_id error_class = withTenant ctx (\<lambda>s d.
     res_bind (update_documents (\<lambda>r. row_id r = document_id \<and> d_status r = ''quarantined'')
         (scan_failed_set error_class) s d) (\<lambda>(_, d1).
       Inr ((), d1 \<lparr> workflows := sql_update s (\<lambda>w. row_id w = workflow_id \<and> w_status w \<noteq> ''completed'')
          (failure_set error_class) (workflows d1) \<rparr>)))"

definition new_derivative ::
  "tenant_context \<Rightarrow> string \<Rightarrow> string \<Rightarrow> string \<Rightarrow> string \<Rightarrow> int \<Rightarrow> int \<Rightarrow> derivative_row" where
  "new_derivative ctx derivative_id document_id object_key sha key_version at = \<lparr> row_org = tc_org ctx,
     row_hh = tc_hh ctx, row_id = derivative_id, row_version = 1, dd_document = document_id,
     dd_kind = ''searchable-pdf'', dd_object_key = object_key, dd_ciphertext_sha256 = sha,
     dd_key_version = key_version, dd_created = at \<rparr>"

text \<open>\<open>on conflict (document_id,kind) do nothing\<close>; the other constraints still throw.\<close>

definition insert_derivative :: "derivative_row \<Rightarrow> session \<Rightarrow> unit op" where
  "insert_derivative r s d =
     (if \<not> derivative_row_ok r then Inl pg_check_violation
      else if list_ex (\<lambda>q. dd_document q = dd_document r \<and> dd_kind q = dd_kind r) (derivatives d) then Inr ((), d)
      else res_bind (insert_returning derivatives derivatives_update same_derivative r s d) (\<lambda>(_, d'). Inr ((), d')))"

definition derivative_is :: "string \<Rightarrow> string \<Rightarrow> string \<Rightarrow> int \<Rightarrow> derivative_row \<Rightarrow> bool" where
  "derivative_is document_id object_key sha key_version r \<longleftrightarrow> dd_document r = document_id
     \<and> dd_kind r = ''searchable-pdf'' \<and> dd_object_key r = object_key \<and> dd_ciphertext_sha256 r = sha
     \<and> dd_key_version r = key_version"

definition ocr_workflow_set :: "bool \<Rightarrow> workflow_row \<Rightarrow> workflow_row" where
  "ocr_workflow_set delete_original w = w \<lparr> w_status := ''running'',
     w_completed_steps := add_step ''ocr'' (w_completed_steps w),
     w_next := Some (if delete_original then ''delete-original'' else ''classification''), w_error := None,
     row_version := row_version w + 1 \<rparr>"

definition completeDocumentOcr ::
  "tenant_context \<Rightarrow> string \<Rightarrow> string \<Rightarrow> int \<Rightarrow> string \<Rightarrow> string \<Rightarrow> string \<Rightarrow> int \<Rightarrow> int \<Rightarrow> db
   \<Rightarrow> unit result \<times> db" where
  "completeDocumentOcr ctx document_id workflow_id workflow_version derivative_id object_key sha key_version at =
     withTenant ctx (\<lambda>s d.
       res_bind (insert_derivative (new_derivative ctx derivative_id document_id object_key sha key_version at) s d)
         (\<lambda>(_, d1).
            if length (sql_select s (derivative_is document_id object_key sha key_version) (derivatives d1)) \<noteq> 1
            then Inl (js_error ''document OCR derivative conflict'')
            else update_workflows (at_step workflow_id workflow_version ''ocr'')
                   (ocr_workflow_set (list_ex (\<lambda>r. d_delete_original r)
                      (sql_select s (\<lambda>r. row_id r = document_id) (documents d1))))
                   ''document OCR workflow conflict'' s d1))"

definition original_deleted_set :: "int \<Rightarrow> document_row \<Rightarrow> document_row" where
  "original_deleted_set at r = r \<lparr> d_original_deleted := Some (case d_original_deleted r of None \<Rightarrow> at | Some t \<Rightarrow> t),
     row_version := (if d_original_deleted r = None then row_version r + 1 else row_version r) \<rparr>"

definition deletion_workflow_set :: "workflow_row \<Rightarrow> workflow_row" where
  "deletion_workflow_set w = w \<lparr> w_status := ''running'',
     w_completed_steps := add_step ''delete-original'' (w_completed_steps w),
     w_next := Some ''classification'', w_error := None, row_version := row_version w + 1 \<rparr>"

definition completeDocumentOriginalDeletion ::
  "tenant_context \<Rightarrow> string \<Rightarrow> string \<Rightarrow> int \<Rightarrow> db \<Rightarrow> unit result \<times> db" where
  "completeDocumentOriginalDeletion ctx document_id workflow_id at = withTenant ctx (\<lambda>s d.
     res_bind (update_documents (\<lambda>r. row_id r = document_id \<and> d_delete_original r) (original_deleted_set at) s d)
       (\<lambda>(_, d1). let p = (\<lambda>w. row_id w = workflow_id \<and> w_next w = Some ''delete-original'') in
          if length (sql_select s p (workflows d1)) \<noteq> 1
             \<and> length (sql_select s (\<lambda>w. row_id w = workflow_id \<and> ''delete-original'' \<in> set (w_completed_steps w))
                        (workflows d1)) \<noteq> 1
          then Inl (js_error ''document original deletion conflict'')
          else Inr ((), d1 \<lparr> workflows := sql_update s p deletion_workflow_set (workflows d1) \<rparr>)))"

section \<open>Manual extraction\<close>

record manual_candidate = fact_write +
  mc_evidence :: string
  mc_locator :: string

definition new_evidence :: "tenant_context \<Rightarrow> string \<Rightarrow> int \<Rightarrow> manual_candidate \<Rightarrow> evidence_row" where
  "new_evidence ctx document_id captured c = \<lparr> row_org = tc_org ctx, row_hh = tc_hh ctx, row_id = mc_evidence c,
     row_version = 1, e_source_type = ''document'', e_source_id = document_id, e_locator = mc_locator c,
     e_captured = captured \<rparr>"

definition document_fact :: "tenant_context \<Rightarrow> string \<Rightarrow> manual_candidate \<Rightarrow> fact_row" where
  "document_fact ctx document_id c = \<lparr> row_org = tc_org ctx, row_hh = tc_hh ctx, row_id = fw_id c, row_version = 1,
     f_field_key = fw_field_key c, f_value_encrypted = fw_ciphertext c, f_key_version = fw_key_version c,
     f_status = ''candidate'', f_source_type = ''document'', f_source_id = document_id,
     f_evidence = [mc_evidence c], f_confidence = fw_confidence c, f_sensitivity = fw_sensitivity c,
     f_confirmed_by = None, f_confirmed_at = None, f_last_reviewed = None \<rparr>"

fun insert_candidates ::
  "tenant_context \<Rightarrow> string \<Rightarrow> int \<Rightarrow> manual_candidate list \<Rightarrow> session \<Rightarrow> json list op" where
  "insert_candidates ctx document_id captured [] s d = Inr ([], d)"
| "insert_candidates ctx document_id captured (c # cs) s d =
     res_bind (insert_returning evidence evidence_update same_id (new_evidence ctx document_id captured c) s d) (\<lambda>(_, d1).
     if \<not> fact_row_ok (document_fact ctx document_id c) then Inl pg_check_violation
     else res_bind (insert_returning facts facts_update same_id (document_fact ctx document_id c) s d1) (\<lambda>(r, d2).
     res_bind (insert_candidates ctx document_id captured cs s d2) (\<lambda>(rs, d3).
       Inr (row_json (row_id r) (f_status r) (row_version r) # rs, d3))))"

definition extracted_set :: "workflow_row \<Rightarrow> workflow_row" where
  "extracted_set w = w \<lparr> w_status := ''completed'',
     w_completed_steps := w_completed_steps w @ [''classification'', ''manual-extraction''],
     w_next := None, w_error := None, row_version := row_version w + 1 \<rparr>"

definition extraction_pred :: "string \<Rightarrow> string \<Rightarrow> int \<Rightarrow> session \<Rightarrow> db \<Rightarrow> workflow_row \<Rightarrow> bool" where
  "extraction_pred document_id workflow_id version s d w \<longleftrightarrow> at_step workflow_id version ''classification'' w
     \<and> list_ex (\<lambda>r. document_of w r \<and> row_id r = document_id \<and> d_status r = ''clean'')
         (sql_select s (\<lambda>_. True) (documents d))"

definition extraction_body ::
  "tenant_context \<Rightarrow> string \<Rightarrow> string \<Rightarrow> int \<Rightarrow> int \<Rightarrow> manual_candidate list \<Rightarrow> session \<Rightarrow> json op" where
  "extraction_body ctx document_id workflow_id version captured cs s d =
     (if length (sql_select s (extraction_pred document_id workflow_id version s d) (workflows d)) \<noteq> 1
      then Inl (js_error ''manual extraction workflow conflict'')
      else res_bind (insert_candidates ctx document_id captured cs s d) (\<lambda>(rs, d1).
        res_bind (update_workflows (at_step workflow_id version ''classification'') extracted_set
            ''manual extraction completion conflict'' s d1) (\<lambda>(_, d2).
          Inr (JObj [(''documentId'', JStr document_id), (''workflowId'', JStr workflow_id),
                     (''status'', JStr ''completed''), (''candidates'', JArr rs)], d2))))"

definition completeManualDocumentExtraction ::
  "tenant_context \<Rightarrow> int \<Rightarrow> string \<Rightarrow> string \<Rightarrow> int \<Rightarrow> string \<Rightarrow> string \<Rightarrow> int \<Rightarrow> manual_candidate list \<Rightarrow> db
   \<Rightarrow> json result \<times> db" where
  "completeManualDocumentExtraction ctx now document_id workflow_id version key fingerprint captured cs =
     withTenant ctx (\<lambda>s. idempotent_call (tenant_lookup ctx key) (tenant_reserve ctx key now)
       (tenant_complete ctx key 201) fingerprint
       ''manual extraction idempotency conflict'' ''manual extraction idempotency conflict''
       (extraction_body ctx document_id workflow_id version captured cs s))"

section \<open>Reading\<close>

record document_summary =
  ds_id :: string
  ds_media_type :: string
  ds_status :: string
  ds_expires :: "string option"
  ds_uploaded :: "string option"
  ds_processed :: "string option"
  ds_delete_original :: bool
  ds_original_deleted :: "string option"
  ds_version :: int

definition read_summary :: "document_row \<Rightarrow> document_summary" where
  "read_summary r = \<lparr> ds_id = row_id r, ds_media_type = d_media_type r, ds_status = d_status r,
     ds_expires = map_option toISOString (d_expires r), ds_uploaded = map_option toISOString (d_uploaded r),
     ds_processed = map_option toISOString (d_processed r), ds_delete_original = d_delete_original r,
     ds_original_deleted = map_option toISOString (d_original_deleted r), ds_version = row_version r \<rparr>"

text \<open>\<open>order by uploaded_at desc nulls last,id\<close>.\<close>

definition listVaultDocuments :: "tenant_context \<Rightarrow> db \<Rightarrow> document_summary list result \<times> db" where
  "listVaultDocuments ctx = withTenant ctx (\<lambda>s d.
     let rs = order_by row_id (sql_select s (\<lambda>r. d_status r \<noteq> ''deleted'') (documents d)) in
     Inr (map read_summary (order_by (\<lambda>r. - the (d_uploaded r)) (filter (\<lambda>r. d_uploaded r \<noteq> None) rs)
            @ filter (\<lambda>r. d_uploaded r = None) rs), d))"

record download_material =
  dm_id :: string
  dm_object_key :: string
  dm_media_type :: string
  dm_ciphertext_sha256 :: string
  dm_wrapped_key :: json
  dm_key_version :: int
  dm_version :: int

definition downloadable :: "string \<Rightarrow> document_row \<Rightarrow> bool" where
  "downloadable document_id r \<longleftrightarrow> row_id r = document_id \<and> d_status r = ''clean'' \<and> d_original_deleted r = None"

definition read_material :: "document_row \<Rightarrow> download_material option" where
  "read_material r = (case d_ciphertext_sha256 r of
       None \<Rightarrow> None
     | Some h \<Rightarrow> if h = [] \<or> \<not> key_present r then None
         else Some \<lparr> dm_id = row_id r, dm_object_key = d_object_key r, dm_media_type = d_media_type r,
           dm_ciphertext_sha256 = h, dm_wrapped_key = the (d_wrapped_key r), dm_key_version = d_key_version r,
           dm_version = row_version r \<rparr>)"

definition getDocumentDownloadMaterial ::
  "tenant_context \<Rightarrow> string \<Rightarrow> db \<Rightarrow> download_material option result \<times> db" where
  "getDocumentDownloadMaterial ctx document_id = withTenant ctx (\<lambda>s d.
     Inr (case sql_select s (downloadable document_id) (documents d) of
            [] \<Rightarrow> None | r # _ \<Rightarrow> read_material r, d))"

section \<open>What the operations do\<close>

lemma update_documents_Inr:
  "update_documents p f s d = Inr (rs, d') \<longleftrightarrow> rs = map f (sql_select s p (documents d))
     \<and> list_all document_row_ok rs \<and> d' = d \<lparr> documents := sql_update s p f (documents d) \<rparr>"
  by (auto simp: update_documents_def Let_def)

lemma update_workflows_Inr:
  "update_workflows p f m s d = Inr (u, d') \<longleftrightarrow> length (sql_select s p (workflows d)) = 1
     \<and> d' = d \<lparr> workflows := sql_update s p f (workflows d) \<rparr>"
  by (auto simp: update_workflows_def)

text \<open>A statement that selects one row selects any row it can select.\<close>

lemma sql_select_single:
  assumes "length (sql_select s p t) = 1" and "q \<in> set t" and "tenant_visible s q" and "p q"
  shows "sql_select s p t = [q]"
proof -
  from assms(1) obtain r where r: "sql_select s p t = [r]" by (auto simp: length_Suc_conv)
  from assms(2-4) have "q \<in> set (sql_select s p t)" by simp
  then have "q \<in> set [r]" unfolding r .
  then show ?thesis using r by simp
qed

lemma processing_Inr:
  assumes "getDocumentProcessingInput ctx workflow_id d = (Inr p, d')"
  obtains r w where "d' = d" "r \<in> set (documents d)" "tenant_visible (tenant_session ctx) r"
    "w \<in> set (workflows d)" "tenant_visible (tenant_session ctx) w" "row_id w = workflow_id"
    "document_of w r" "key_present r" "p = read_processing r w"
proof -
  let ?s = "tenant_session ctx"
  let ?l = "concat (map (\<lambda>w. map (\<lambda>r. (r, w)) (sql_select ?s (document_of w) (documents d)))
            (sql_select ?s (\<lambda>w. row_id w = workflow_id) (workflows d)))"
  from assms obtain r w rest where l: "?l = (r, w) # rest" and k: "key_present r" "p = read_processing r w" "d' = d"
    by (auto simp: getDocumentProcessingInput_def withTenant_def split: list.splits if_splits)
  have "(r, w) \<in> set ?l" unfolding l by simp
  then have "w \<in> set (sql_select ?s (\<lambda>w. row_id w = workflow_id) (workflows d))"
    and "r \<in> set (sql_select ?s (document_of w) (documents d))" by auto
  with k that [of r w] show thesis unfolding in_sql_select by blast
qed

lemma processing_same: "getDocumentProcessingInput ctx workflow_id d = (res, d') \<Longrightarrow> d' = d"
proof (cases res)
  case (Inl e)
  assume "getDocumentProcessingInput ctx workflow_id d = (res, d')"
  with Inl show ?thesis by (simp add: getDocumentProcessingInput_def withTenant_def)
next
  case (Inr p)
  assume "getDocumentProcessingInput ctx workflow_id d = (res, d')"
  with Inr show ?thesis by (auto elim: processing_Inr)
qed

text \<open>An update keeps of each row what its function keeps.\<close>

lemma update_keeps:
  assumes "q \<in> set (sql_update s p f t)" and "\<And>r. g (f r) = g r"
  shows "\<exists>q0 \<in> set t. g q0 = g q"
proof -
  from assms(1) obtain q0 where "q0 \<in> set t" "q = (if tenant_visible s q0 \<and> p q0 then f q0 else q0)"
    by (auto simp: in_sql_update)
  moreover from this(2) have "g q = g q0" using assms(2) by (simp split: if_splits)
  ultimately show ?thesis by auto
qed

lemma read_processing_simps [simp]:
  "ur_id (read_processing r w) = row_id r" "ur_object_key (read_processing r w) = d_object_key r"
  "ur_sha256 (read_processing r w) = d_sha256 r" "ur_media_type (read_processing r w) = d_media_type r"
  "ur_status (read_processing r w) = d_status r" "ur_key_version (read_processing r w) = d_key_version r"
  "ur_version (read_processing r w) = row_version r" "ur_delete_original (read_processing r w) = d_delete_original r"
  "pi_workflow (read_processing r w) = row_id w" "pi_next (read_processing r w) = w_next w"
  "pi_workflow_version (read_processing r w) = row_version w"
  by (simp_all add: read_processing_def read_upload_def upload_record.defs)

lemma completeDocumentScan_Inr:
  assumes "completeDocumentScan ctx i wid dv wv outcome at d = (Inr u, d')"
  shows "length (sql_select (tenant_session ctx) (scanned_pred i dv) (documents d)) = 1"
    and "length (sql_select (tenant_session ctx) (at_step wid wv ''scan'') (workflows d)) = 1"
    and "d' = d \<lparr> documents := sql_update (tenant_session ctx) (scanned_pred i dv) (scanned_set outcome at) (documents d),
            workflows := sql_update (tenant_session ctx) (at_step wid wv ''scan'') (scan_workflow_set outcome) (workflows d) \<rparr>"
  using assms by (auto simp: completeDocumentScan_def withTenant_def update_documents_Inr update_workflows_Inr
      split: if_splits)

lemma recordDocumentScanFailure_Inr:
  assumes "recordDocumentScanFailure ctx i wid c d = (Inr u, d')"
  shows "d' = d \<lparr> documents := sql_update (tenant_session ctx) (\<lambda>r. row_id r = i \<and> d_status r = ''quarantined'')
              (scan_failed_set c) (documents d),
            workflows := sql_update (tenant_session ctx) (\<lambda>w. row_id w = wid \<and> w_status w \<noteq> ''completed'')
              (failure_set c) (workflows d) \<rparr>"
  using assms by (auto simp: recordDocumentScanFailure_def withTenant_def update_documents_Inr)

lemma withTenant_Inl: "withTenant ctx f d = (Inl e, d') \<Longrightarrow> d' = d"
  by (simp add: withTenant_def)

lemma recordDocumentScanFailure_cases:
  assumes "recordDocumentScanFailure ctx i wid c d = (out, d')"
  shows "d' = d \<or> d' = d \<lparr> documents := sql_update (tenant_session ctx)
              (\<lambda>r. row_id r = i \<and> d_status r = ''quarantined'') (scan_failed_set c) (documents d),
            workflows := sql_update (tenant_session ctx) (\<lambda>w. row_id w = wid \<and> w_status w \<noteq> ''completed'')
              (failure_set c) (workflows d) \<rparr>"
proof (cases out)
  case (Inl e)
  with assms show ?thesis by (auto simp: recordDocumentScanFailure_def dest: withTenant_Inl)
next
  case (Inr u)
  with assms show ?thesis using recordDocumentScanFailure_Inr by blast
qed

end
