(* ===== verification/Document_Service.thy ===== *)
theory Document_Service
  imports Js_Text Js_Bytes
begin

text \<open>
  \<open>packages/documents\<close>: the checks on the bytes of a document, the quarantine service, the ClamAV
  and OCRmyPDF adapters and the object store.  The socket to clamd, the child processes and the
  S3 client are parameters; \<open>'x\<close> is the state of the world they act on.  Overwriting buffers with
  zeros has no counterpart in a model of values.
\<close>

section \<open>Checks on the bytes\<close>

datatype document_type = Pdf | Jpeg | Png | Tiff

definition type_text :: "document_type \<Rightarrow> string" where
  "type_text t = (case t of Pdf \<Rightarrow> ''application/pdf'' | Jpeg \<Rightarrow> ''image/jpeg'' | Png \<Rightarrow> ''image/png''
     | Tiff \<Rightarrow> ''image/tiff'')"

abbreviation bytes_of :: "nat list \<Rightarrow> string" where
  "bytes_of ns \<equiv> map char_of ns"

definition signatures :: "(document_type \<times> (string \<Rightarrow> bool)) list" where
  "signatures = [
     (Pdf, \<lambda>b. take 5 b = ''%PDF-''),
     (Jpeg, \<lambda>b. take 3 b = bytes_of [255, 216, 255]),
     (Png, \<lambda>b. take 8 b = bytes_of [137, 80, 78, 71, 13, 10, 26, 10]),
     (Tiff, \<lambda>b. take 4 b = bytes_of [73, 73, 42, 0] \<or> take 4 b = bytes_of [77, 77, 0, 42])]"

definition validation_error :: "string \<Rightarrow> err" where
  "validation_error m = Thrown ''DocumentValidationError'' m"

definition integrity_error :: "string \<Rightarrow> err" where
  "integrity_error m = Thrown ''ObjectIntegrityError'' m"

definition detect_type :: "string \<Rightarrow> document_type option" where
  "detect_type b = map_option fst (find (\<lambda>(t, matches). matches b) signatures)"

definition validateDocumentBytes :: "string \<Rightarrow> string \<Rightarrow> int \<Rightarrow> document_type result" where
  "validateDocumentBytes b declared maximum_bytes =
     (if length b = 0 then Inl (validation_error ''document is empty'')
      else if maximum_bytes < int (length b)
      then Inl (validation_error ''document exceeds the configured size limit'')
      else (case detect_type b of
          None \<Rightarrow> Inl (validation_error ''document type is not supported'')
        | Some t \<Rightarrow> if type_text t \<noteq> declared
            then Inl (validation_error ''declared media type does not match file signature'') else Inr t))"

section \<open>Quarantine\<close>

datatype scan_result = ScanClean | Infected "string option"

datatype quarantine_outcome = CleanAwaitingOcr document_type | RejectedMalware string

record scan_record =
  sr_object_key :: string
  sr_media_type :: string
  sr_maximum_bytes :: int

definition quarantine_scan ::
  "(string \<Rightarrow> ('x, string) world_op) \<Rightarrow> (string \<Rightarrow> ('x, unit) world_op) \<Rightarrow> (string \<Rightarrow> ('x, scan_result) world_op)
   \<Rightarrow> (string \<Rightarrow> string result) \<Rightarrow> scan_record \<Rightarrow> ('x, quarantine_outcome) world_op" where
  "quarantine_scan getCiphertext markClean scan decrypt r =
     world_bind (getCiphertext (sr_object_key r)) (\<lambda>ciphertext.
     world_bind (pure_result (decrypt ciphertext)) (\<lambda>plaintext.
     world_bind (pure_result (validateDocumentBytes plaintext (sr_media_type r) (sr_maximum_bytes r))) (\<lambda>t.
     world_bind (scan plaintext) (\<lambda>result. case result of
         Infected name \<Rightarrow> pure_result (Inr (RejectedMalware (case name of None \<Rightarrow> ''unknown'' | Some n \<Rightarrow> n)))
       | ScanClean \<Rightarrow> world_bind (markClean (sr_object_key r)) (\<lambda>_. pure_result (Inr (CleanAwaitingOcr t)))))))"

section \<open>ClamAV\<close>

text \<open>The \<open>INSTREAM\<close> session: each chunk of at most 64 KiB after its length in four bytes, then four zero bytes.\<close>

definition uint32be :: "nat \<Rightarrow> string" where
  "uint32be n = bytes_of [n div 16777216 mod 256, n div 65536 mod 256, n div 256 mod 256, n mod 256]"

abbreviation chunk_bytes :: nat where
  "chunk_bytes \<equiv> 65536"

fun stream_chunks :: "nat \<Rightarrow> string \<Rightarrow> nat \<Rightarrow> string list" where
  "stream_chunks 0 b offset = []"
| "stream_chunks (Suc k) b offset = (if length b \<le> offset then []
     else take chunk_bytes (drop offset b) # stream_chunks k b (offset + chunk_bytes))"

definition instream_writes :: "string \<Rightarrow> string list" where
  "instream_writes b = (''zINSTREAM'' @ bytes_of [0])
     # concat (map (\<lambda>c. [uint32be (length c), c]) (stream_chunks (length b) b 0)) @ [bytes_of [0, 0, 0, 0]]"

text \<open>What the socket ends with: an error (the timeout among them), or the chunks it received.\<close>

datatype socket_end = SocketError err | SocketClosed "string list"

text \<open>
  The answer is decoded as UTF-8; an invalid byte becomes a replacement character, which a question
  mark stands for.
\<close>

definition received_text :: "string list \<Rightarrow> string" where
  "received_text chunks = (let bs = concat chunks in
     trim (filter (\<lambda>c. c \<noteq> char_of (0::nat)) (case utf8_text bs of Some t \<Rightarrow> t
       | None \<Rightarrow> map (\<lambda>c. if byte_val c < 128 then c else CHR ''?'') bs)))"

definition found_signature :: "string \<Rightarrow> string option" where
  "found_signature m = (let name = take (length m - 14) (drop 8 m) in
     if starts_with ''stream: '' m \<and> ends_with '' FOUND'' m \<and> 14 < length m
        \<and> \<not> list_ex (\<lambda>c. c = char_of (10::nat) \<or> c = char_of (13::nat)) name
     then Some name else None)"

definition clam_answer :: "string \<Rightarrow> scan_result result" where
  "clam_answer m = (case found_signature m of
       Some name \<Rightarrow> Inr (Infected (Some name))
     | None \<Rightarrow> if m = ''stream: OK'' then Inr ScanClean
         else Inl (js_error (''ClamAV returned an invalid response: '' @ (if m = [] then ''empty'' else m))))"

definition clam_scan :: "(string list \<Rightarrow> 'x \<Rightarrow> socket_end \<times> 'x) \<Rightarrow> string \<Rightarrow> ('x, scan_result) world_op" where
  "clam_scan exchange b x =
     (if length b = 0 then (Inl (validation_error ''document is empty''), x)
      else (case exchange (instream_writes b) x of
          (SocketError e, x') \<Rightarrow> (Inl e, x')
        | (SocketClosed chunks, x') \<Rightarrow> (clam_answer (received_text chunks), x')))"

section \<open>OCR\<close>

text \<open>
  The part of the file system the adapters write, from paths to bytes.  A child process ends with
  an exit code, a signal (\<open>SIGTERM\<close> after the timeout), or an error before it started, with the
  chunks of its standard error; it may change any file.
\<close>

type_synonym files = "string \<Rightarrow> string option"

datatype process_end = ExitCode int | Signalled string | SpawnError err

record ocr_host =
  oh_spawn :: "string \<Rightarrow> string list \<Rightarrow> files \<Rightarrow> (process_end \<times> string list) \<times> files"
  oh_write :: "string \<Rightarrow> string \<Rightarrow> files \<Rightarrow> unit result"

definition path_join :: "string \<Rightarrow> string \<Rightarrow> string" where
  "path_join directory name = directory @ ''/'' @ name"

definition documentSourceName :: "document_type \<Rightarrow> string" where
  "documentSourceName t = (case t of Pdf \<Rightarrow> ''source.pdf'' | Jpeg \<Rightarrow> ''source.jpg'' | Png \<Rightarrow> ''source.png''
     | Tiff \<Rightarrow> ''source.tiff'')"

definition ocrArguments :: "document_type \<Rightarrow> string \<Rightarrow> string \<Rightarrow> string list" where
  "ocrArguments t source output = [''--jobs'', ''2'', ''--max-image-mpixels'', ''50'', ''--tesseract-timeout'', ''60'']
     @ (if t = Pdf then [''--skip-text''] else [''--image-dpi'', ''300''])
     @ [''--output-type'', ''pdf'', ''--'', source, output]"

definition collect_diagnostic :: "string list \<Rightarrow> string" where
  "collect_diagnostic chunks = foldl (\<lambda>d c. if length d < 2000 then d @ c else d) [] chunks"

definition runBoundedProcess ::
  "(string \<Rightarrow> string list \<Rightarrow> files \<Rightarrow> (process_end \<times> string list) \<times> files) \<Rightarrow> string \<Rightarrow> string list \<Rightarrow> string
   \<Rightarrow> (files, unit) world_op" where
  "runBoundedProcess spawn executable arguments operation fs =
     (case spawn executable arguments fs of ((r, chunks), fs') \<Rightarrow>
        (case r of
           SpawnError e \<Rightarrow> Inl e
         | ExitCode n \<Rightarrow> if n = 0 then Inr ()
             else Inl (js_error (operation @ '' failed ('' @ dec_int n @ ''): '' @ trim (collect_diagnostic chunks)))
         | Signalled name \<Rightarrow>
             Inl (js_error (operation @ '' failed ('' @ name @ ''): '' @ trim (collect_diagnostic chunks))), fs'))"

definition write_file :: "ocr_host \<Rightarrow> string \<Rightarrow> string \<Rightarrow> (files, unit) world_op" where
  "write_file h path content fs = (case oh_write h path content fs of
       Inl e \<Rightarrow> (Inl e, fs) | Inr _ \<Rightarrow> (Inr (), fs (path := Some content)))"

definition read_file :: "string \<Rightarrow> (files, string) world_op" where
  "read_file path fs = (case fs path of None \<Rightarrow> (Inl (js_error ''ENOENT: no such file or directory''), fs)
     | Some content \<Rightarrow> (Inr content, fs))"

definition remove_tree :: "string \<Rightarrow> files \<Rightarrow> files" where
  "remove_tree directory fs = (\<lambda>path. if starts_with (directory @ ''/'') path then None else fs path)"

definition finally_remove :: "string \<Rightarrow> (files, 'a) world_op \<Rightarrow> (files, 'a) world_op" where
  "finally_remove directory body fs = (case body fs of (r, fs') \<Rightarrow> (r, remove_tree directory fs'))"

definition maximum_ocr_bytes :: int where
  "maximum_ocr_bytes = 100 * 1024 * 1024"

text \<open>\<open>directory\<close> is the fresh directory \<open>mkdtemp\<close> makes, \<open>normalizer\<close> the text of \<open>documentNormalizer\<close>.\<close>

record ocr_config =
  oc_executable :: string
  oc_python :: string

definition ocrMyPdf_extract ::
  "ocr_host \<Rightarrow> ocr_config \<Rightarrow> string \<Rightarrow> string \<Rightarrow> string \<Rightarrow> string \<Rightarrow> (files, string) world_op" where
  "ocrMyPdf_extract h c directory normalizer input declared =
     world_bind (pure_result (validateDocumentBytes input declared maximum_ocr_bytes)) (\<lambda>t.
     let source = path_join directory (documentSourceName t); normalized = path_join directory ''normalized.pdf'';
         script = path_join directory ''normalize.py''; output = path_join directory ''output.pdf'' in
     finally_remove directory
       (world_bind (write_file h source input) (\<lambda>_.
        world_bind (write_file h script normalizer) (\<lambda>_.
        world_bind (runBoundedProcess (oh_spawn h) (oc_python c) [script, type_text t, source, normalized]
            ''document normalization'') (\<lambda>_.
        world_bind (runBoundedProcess (oh_spawn h) (oc_executable c)
            (ocrArguments Pdf (if t = Pdf then source else normalized) output) ''OCR'') (\<lambda>_.
        read_file output))))))"

record docker_config =
  dk_executable :: string
  dk_image :: string

definition includes_text :: "string \<Rightarrow> string \<Rightarrow> bool" where
  "includes_text needle s \<longleftrightarrow> list_ex (\<lambda>k. starts_with needle (drop k s)) [0..<Suc (length s)]"

definition dockerOcr_create :: "docker_config \<Rightarrow> docker_config result" where
  "dockerOcr_create c = (if includes_text ''@sha256:'' (dk_image c) then Inr c
     else Inl (validation_error ''OCR container image must be pinned by digest''))"

definition hostContainerUserArguments :: "(int \<times> int) option \<Rightarrow> string list" where
  "hostContainerUserArguments user = (case user of None \<Rightarrow> []
     | Some (uid, gid) \<Rightarrow> [''--user'', dec_int uid @ '':'' @ dec_int gid])"

definition container_prefix :: "(int \<times> int) option \<Rightarrow> string \<Rightarrow> string list" where
  "container_prefix user directory = [''run'', ''--rm'', ''--network'', ''none'', ''--read-only'', ''--security-opt'',
     ''no-new-privileges'', ''--pids-limit'', ''256'', ''--memory'', ''1g'', ''--cpus'', ''2'', ''--tmpfs'',
     ''/tmp:rw,noexec,nosuid,size=512m''] @ hostContainerUserArguments user
     @ [''--volume'', directory @ '':/work'', ''--workdir'', ''/work'']"

definition dockerOcr_extract ::
  "ocr_host \<Rightarrow> (int \<times> int) option \<Rightarrow> docker_config \<Rightarrow> string \<Rightarrow> string \<Rightarrow> string \<Rightarrow> string
   \<Rightarrow> (files, string) world_op" where
  "dockerOcr_extract h user c directory normalizer input declared =
     world_bind (pure_result (validateDocumentBytes input declared maximum_ocr_bytes)) (\<lambda>t.
     let source_name = documentSourceName t; prefix = container_prefix user directory in
     finally_remove directory
       (world_bind (write_file h (path_join directory source_name) input) (\<lambda>_.
        world_bind (write_file h (path_join directory ''normalize.py'') normalizer) (\<lambda>_.
        world_bind (runBoundedProcess (oh_spawn h) (dk_executable c)
            (prefix @ [''--entrypoint'', ''python3'', dk_image c, ''normalize.py'', type_text t, source_name, ''normalized.pdf''])
            ''container document normalization'') (\<lambda>_.
        world_bind (runBoundedProcess (oh_spawn h) (dk_executable c)
            (prefix @ [dk_image c] @ ocrArguments Pdf (if t = Pdf then source_name else ''normalized.pdf'') ''output.pdf'')
            ''container OCR'') (\<lambda>_.
        read_file (path_join directory ''output.pdf'')))))))"

section \<open>The object store\<close>

text \<open>The commands sent to S3, with the arguments the code sets, and what the client answers.\<close>

datatype s3_command =
    HeadBucket | CreateBucket
  | PutObject string "string option" string string string
  | GetObject string | HeadObject string | DeleteObject string
  | PutTagging string "(string \<times> string) list" | GetTagging string

record s3_output =
  so_checksum :: "string option"
  so_tags :: "(string \<times> string) list option"
  so_body :: "string option"

type_synonym 'x s3_client = "s3_command \<Rightarrow> ('x, s3_output) world_op"

definition send_only :: "'x s3_client \<Rightarrow> s3_command \<Rightarrow> ('x, unit) world_op" where
  "send_only client c = world_bind (client c) (\<lambda>_. pure_result (Inr ()))"

definition ensureBucket :: "'x s3_client \<Rightarrow> bool \<Rightarrow> ('x, unit) world_op" where
  "ensureBucket client allow_creation x = (case client HeadBucket x of
       (Inr _, x') \<Rightarrow> (Inr (), x')
     | (Inl e, x') \<Rightarrow> if \<not> allow_creation then (Inl e, x') else send_only client CreateBucket x')"

definition createObjectKey :: "string \<Rightarrow> string" where
  "createObjectKey uuid = ''quarantine/'' @ uuid"

definition uuid_chars :: re where
  "uuid_chars = times 36 (nocase (cor hex_digit (one_of ''-'')))"

definition export_key :: re where
  "export_key = whole (seqs [lit_i ''exports/'', uuid_chars, lit_i ''.lvault''])"

definition export_name :: re where
  "export_name = whole (seqs [uuid_chars, lit_i ''.lvault''])"

definition derivative_key :: re where
  "derivative_key = whole (seqs [lit_i ''derivatives/'', uuid_chars, lit ''/'', uuid_chars, lit_i ''.encrypted.json''])"

definition envelope_media_type :: string where
  "envelope_media_type = ''application/vnd.legacy-vault.encrypted+json''"

text \<open>\<open>sign\<close> is the presigner; a key, a checksum and a media type or a download name are signed.\<close>

definition createPresignedUpload ::
  "(s3_command \<Rightarrow> int \<Rightarrow> string result) \<Rightarrow> string \<Rightarrow> string \<Rightarrow> string \<Rightarrow> int \<Rightarrow> string result" where
  "createPresignedUpload sign object_key checksum content_type expires_in =
     (if \<not> starts_with ''quarantine/'' object_key then Inl (integrity_error ''new uploads must enter quarantine'')
      else if expires_in < 30 \<or> 900 < expires_in
      then Inl (integrity_error ''upload expiry must be between 30 and 900 seconds'')
      else sign (PutObject object_key None checksum content_type ''status=quarantined'') expires_in)"

definition putCiphertext :: "'x s3_client \<Rightarrow> string \<Rightarrow> string \<Rightarrow> string \<Rightarrow> string \<Rightarrow> ('x, unit) world_op" where
  "putCiphertext client object_key ciphertext checksum content_type =
     (if \<not> starts_with ''quarantine/'' object_key
      then pure_result (Inl (integrity_error ''new uploads must enter quarantine''))
      else send_only client (PutObject object_key (Some ciphertext) checksum content_type ''status=quarantined''))"

definition putGeneratedExport :: "'x s3_client \<Rightarrow> string \<Rightarrow> string \<Rightarrow> string \<Rightarrow> ('x, unit) world_op" where
  "putGeneratedExport client object_key ciphertext checksum =
     (if \<not> re_test export_key object_key then pure_result (Inl (integrity_error ''export object key is invalid''))
      else send_only client (PutObject object_key (Some ciphertext) checksum envelope_media_type
             ''status=completed&kind=portable-export''))"

definition createPresignedExportDownload ::
  "(string \<Rightarrow> string \<Rightarrow> int \<Rightarrow> string result) \<Rightarrow> string \<Rightarrow> string \<Rightarrow> int \<Rightarrow> string result" where
  "createPresignedExportDownload sign object_key download_name expires_in =
     (if \<not> re_test export_key object_key then Inl (integrity_error ''export object key is invalid'')
      else if \<not> re_test export_name download_name then Inl (integrity_error ''export download name is invalid'')
      else if expires_in < 30 \<or> 900 < expires_in
      then Inl (integrity_error ''download expiry must be between 30 and 900 seconds'')
      else sign object_key (''attachment; filename='' @ [CHR 34] @ download_name @ [CHR 34]) expires_in)"

definition putDocumentDerivative :: "'x s3_client \<Rightarrow> string \<Rightarrow> string \<Rightarrow> string \<Rightarrow> ('x, unit) world_op" where
  "putDocumentDerivative client object_key ciphertext checksum =
     (if \<not> re_test derivative_key object_key
      then pure_result (Inl (integrity_error ''document derivative object key is invalid''))
      else send_only client (PutObject object_key (Some ciphertext) checksum envelope_media_type
             ''status=clean&kind=searchable-pdf''))"

definition assertStoredChecksum :: "'x s3_client \<Rightarrow> string \<Rightarrow> string \<Rightarrow> ('x, unit) world_op" where
  "assertStoredChecksum client object_key checksum = world_bind (client (HeadObject object_key)) (\<lambda>r.
     pure_result (if so_checksum r \<noteq> Some checksum then Inl (integrity_error ''stored object checksum mismatch'')
       else Inr ()))"

definition markClean :: "'x s3_client \<Rightarrow> string \<Rightarrow> ('x, unit) world_op" where
  "markClean client object_key = send_only client (PutTagging object_key [(''status'', ''clean'')])"

definition objectStatus :: "'x s3_client \<Rightarrow> string \<Rightarrow> ('x, string option) world_op" where
  "objectStatus client object_key = world_bind (client (GetTagging object_key)) (\<lambda>r.
     pure_result (Inr (case so_tags r of None \<Rightarrow> None
       | Some tags \<Rightarrow> map_option snd (find (\<lambda>(k, v). k = ''status'') tags))))"

definition getCiphertext :: "'x s3_client \<Rightarrow> string \<Rightarrow> ('x, string) world_op" where
  "getCiphertext client object_key = world_bind (client (GetObject object_key)) (\<lambda>r.
     pure_result (case so_body r of None \<Rightarrow> Inl (integrity_error ''object body missing'') | Some b \<Rightarrow> Inr b))"

definition deleteObject :: "'x s3_client \<Rightarrow> string \<Rightarrow> ('x, unit) world_op" where
  "deleteObject client object_key = send_only client (DeleteObject object_key)"

section \<open>What validation accepts\<close>

definition has_signature :: "document_type \<Rightarrow> string \<Rightarrow> bool" where
  "has_signature t b \<longleftrightarrow> (\<forall>m. (t, m) \<in> set signatures \<longrightarrow> m b)"

lemma has_signature_simps [simp]:
  "has_signature Pdf b \<longleftrightarrow> take 5 b = ''%PDF-''"
  "has_signature Jpeg b \<longleftrightarrow> take 3 b = bytes_of [255, 216, 255]"
  "has_signature Png b \<longleftrightarrow> take 8 b = bytes_of [137, 80, 78, 71, 13, 10, 26, 10]"
  "has_signature Tiff b \<longleftrightarrow> take 4 b = bytes_of [73, 73, 42, 0] \<or> take 4 b = bytes_of [77, 77, 0, 42]"
  by (auto simp: has_signature_def signatures_def)

lemma take_hd: "take (Suc k) b = c # cs \<Longrightarrow> \<exists>b'. b = c # b'"
  by (cases b) auto

lemma signature_bytes:
  "char_of (73::nat) = CHR ''I''" "char_of (77::nat) = CHR ''M''"
  "char_of (255::nat) \<noteq> CHR ''%''" "char_of (137::nat) \<noteq> CHR ''%''" "char_of (255::nat) \<noteq> (char_of (137::nat) :: char)"
  "char_of (255::nat) \<noteq> CHR ''I''" "char_of (137::nat) \<noteq> CHR ''I''"
  "char_of (255::nat) \<noteq> CHR ''M''" "char_of (137::nat) \<noteq> CHR ''M''"
  by code_simp+

text \<open>The first byte tells the types apart.\<close>

lemma signature_first_byte:
  "has_signature t b \<Longrightarrow> \<exists>b'. b = (case t of Pdf \<Rightarrow> CHR ''%'' | Jpeg \<Rightarrow> char_of (255::nat)
     | Png \<Rightarrow> char_of (137::nat) | Tiff \<Rightarrow> hd b) # b' \<and> (t = Tiff \<longrightarrow> hd b = CHR ''I'' \<or> hd b = CHR ''M'')"
proof (cases t)
  case Tiff
  assume "has_signature t b"
  with Tiff have "\<exists>c b'. b = c # b' \<and> (c = char_of (73::nat) \<or> c = char_of (77::nat))"
    by (cases b) auto
  with Tiff show ?thesis by (auto simp: signature_bytes)
qed (auto simp: numeral_eq_Suc dest: take_hd)

lemma signature_unique: "has_signature t b \<Longrightarrow> has_signature t' b \<Longrightarrow> t = t'"
  by (drule signature_first_byte, drule signature_first_byte)
     (auto split: document_type.splits simp: signature_bytes dest: signature_bytes(3-) [THEN notE] signature_bytes(3-) [symmetric, THEN notE])

lemma detect_type_iff: "detect_type b = Some t \<longleftrightarrow> has_signature t b"
proof -
  have some: "has_signature t b" if "detect_type b = Some t" for t
    using that by (auto simp: detect_type_def signatures_def split: if_splits)
  moreover have "detect_type b \<noteq> None" if "has_signature t b"
    using that by (cases t) (auto simp: detect_type_def signatures_def)
  ultimately show ?thesis using signature_unique by (metis option.exhaust)
qed

lemma validate_Inr:
  "validateDocumentBytes b declared maximum_bytes = Inr t \<longleftrightarrow>
     0 < length b \<and> int (length b) \<le> maximum_bytes \<and> has_signature t b \<and> declared = type_text t"
  by (auto simp: validateDocumentBytes_def detect_type_iff [symmetric] split: option.splits)

text \<open>C38: A document passes exactly when it has between one and the maximum number of bytes and begins
  with the signature of the type it was declared as; the declared type is then the type returned.
  Every other document is refused with a \<open>DocumentValidationError\<close>.\<close>

theorem validateDocumentBytes_exact:
  "(case validateDocumentBytes b declared maximum_bytes of
      Inr t \<Rightarrow> 1 \<le> int (length b) \<and> int (length b) \<le> maximum_bytes \<and> has_signature t b \<and> declared = type_text t
    | Inl e \<Rightarrow> err_name e = ''DocumentValidationError''
        \<and> \<not> (1 \<le> int (length b) \<and> int (length b) \<le> maximum_bytes
             \<and> list_ex (\<lambda>t. declared = type_text t \<and> has_signature t b) [Pdf, Jpeg, Png, Tiff]))"
proof (cases "validateDocumentBytes b declared maximum_bytes")
  case (Inl e)
  have no: "\<not> (1 \<le> int (length b) \<and> int (length b) \<le> maximum_bytes \<and> declared = type_text t \<and> has_signature t b)" for t
    using Inl validate_Inr [of b declared maximum_bytes t] by (cases "b = []") (auto simp del: has_signature_simps)
  have "\<not> (1 \<le> int (length b) \<and> int (length b) \<le> maximum_bytes
             \<and> list_ex (\<lambda>t. declared = type_text t \<and> has_signature t b) [Pdf, Jpeg, Png, Tiff])"
    using no [of Pdf] no [of Jpeg] no [of Png] no [of Tiff] by (simp del: has_signature_simps)
  moreover have "err_name e = ''DocumentValidationError''"
    using Inl by (auto simp: validateDocumentBytes_def validation_error_def split: if_splits option.splits)
  ultimately show ?thesis using Inl by (simp only: sum.case simp_thms)
next
  case (Inr t)
  then show ?thesis using validate_Inr [of b declared maximum_bytes t] by (simp add: Suc_leI)
qed

section \<open>The stream clamd receives\<close>

text \<open>The protocol clamd documents, as a reader: chunks after their lengths up to an empty one.\<close>

fun be_value :: "string \<Rightarrow> nat" where
  "be_value bs = foldl (\<lambda>n c. n * 256 + byte_val c) 0 bs"

function read_frames :: "string \<Rightarrow> string option" where
  "read_frames s = (if length s < 4 then None else
     (let n = be_value (take 4 s); r = drop 4 s in
      if n = 0 then (if r = [] then Some [] else None)
      else if length r < n then None else map_option ((@) (take n r)) (read_frames (drop n r))))"
  by auto
termination by (relation "measure length") auto

declare read_frames.simps [simp del]

definition read_instream :: "string \<Rightarrow> string option" where
  "read_instream s = (let command = ''zINSTREAM'' @ bytes_of [0] in
     if starts_with command s then read_frames (drop (length command) s) else None)"

lemma be_value_uint32:
  assumes "n < 4294967296" shows "be_value (uint32be n) = n"
proof -
  have "n div 65536 div 256 = n div 16777216" "n div 256 div 256 = n div 65536" "n div 16777216 < 256"
    using assms by (simp_all add: div_mult2_eq [symmetric])
  then have "n div 16777216 * 256 + n div 65536 mod 256 = n div 65536"
    "n div 65536 * 256 + n div 256 mod 256 = n div 256" "n div 16777216 mod 256 = n div 16777216"
    by (metis div_mult_mod_eq, metis div_mult_mod_eq, simp)
  moreover have "be_value (uint32be n) = ((n div 16777216 mod 256 * 256 + n div 65536 mod 256) * 256
      + n div 256 mod 256) * 256 + n mod 256"
    by (simp add: uint32be_def)
  ultimately show ?thesis by (simp only: div_mult_mod_eq)
qed

lemma read_frame:
  assumes "0 < length c" and "length c < 4294967296"
  shows "read_frames (uint32be (length c) @ c @ s) = map_option ((@) c) (read_frames s)"
proof -
  have "length (uint32be (length c)) = 4" by (simp add: uint32be_def)
  then show ?thesis using be_value_uint32 [OF assms(2)] assms(1)
    by (subst read_frames.simps) (simp add: Let_def del: be_value.simps)
qed

lemma read_end: "read_frames (bytes_of [0, 0, 0, 0]) = Some []"
  by (subst read_frames.simps) simp

lemma read_chunks:
  "length b \<le> offset + k \<Longrightarrow>
     read_frames (concat (concat (map (\<lambda>c. [uint32be (length c), c]) (stream_chunks k b offset))) @ bytes_of [0, 0, 0, 0])
       = Some (drop offset b)"
proof (induction k arbitrary: offset)
  case 0
  then show ?case using read_end by simp
next
  case (Suc k)
  show ?case
  proof (cases "length b \<le> offset")
    case True
    then show ?thesis using read_end by simp
  next
    case False
    let ?c = "take chunk_bytes (drop offset b)"
    have c: "0 < length ?c" "length ?c < 4294967296" using False by auto
    have rest: "drop offset b = ?c @ drop (offset + chunk_bytes) b"
      by (metis add.commute append_take_drop_id drop_drop)
    have "length b \<le> offset + chunk_bytes + k" using Suc.prems by simp
    from Suc.IH [OF this] show ?thesis using False read_frame [OF c]
      by (simp del: length_take) (metis rest)
  qed
qed

lemma chunks_bounded: "c \<in> set (stream_chunks k b offset) \<Longrightarrow> 1 \<le> length c \<and> length c \<le> chunk_bytes"
  by (induction k arbitrary: offset) (auto split: if_splits)

text \<open>The scanner receives every byte of a document, in order and once: read by the protocol of
  \<open>INSTREAM\<close>, what is written to the socket is the document, in chunks of 1 to 64 KiB.\<close>

theorem instream_carries_document:
  "read_instream (concat (instream_writes b)) = Some b
     \<and> list_all (\<lambda>c. 1 \<le> length c \<and> length c \<le> 64 * 1024) (stream_chunks (length b) b 0)"
proof
  have "starts_with (''zINSTREAM'' @ bytes_of [0]) ((''zINSTREAM'' @ bytes_of [0]) @ s)" for s
    by (simp add: starts_with_def)
  then show "read_instream (concat (instream_writes b)) = Some b"
    using read_chunks [of b 0 "length b"] by (simp add: read_instream_def instream_writes_def Let_def)
  show "list_all (\<lambda>c. 1 \<le> length c \<and> length c \<le> 64 * 1024) (stream_chunks (length b) b 0)"
    using chunks_bounded [of _ "length b" b 0] by (auto simp: list_all_iff)
qed

section \<open>Temporary files\<close>

lemma finally_remove_clean: "starts_with (directory @ ''/'') p \<Longrightarrow> snd (finally_remove directory body fs) p = None"
  by (simp add: finally_remove_def remove_tree_def case_prod_beta)

lemma world_bind_pure [simp]:
  "world_bind (pure_result (Inl e)) f x = (Inl e, x)" "world_bind (pure_result (Inr a)) f x = f a x"
  by (simp_all add: world_bind_def pure_result_def)


definition failing_host :: ocr_host where
  "failing_host = \<lparr> oh_spawn = (\<lambda>_ _ fs. ((Signalled ''SIGTERM'', [''killed'']), fs)),
     oh_write = (\<lambda>_ _ _. Inr ()) \<rparr>"


lemma failing_run:
  "fst (ocrMyPdf_extract failing_host \<lparr> oc_executable = ''ocrmypdf'', oc_python = ''python3'' \<rparr> ''/tmp/ocr-1'' ''import sys''
      ''%PDF-1.7'' ''application/pdf'' (\<lambda>_. None)) = Inl (js_error ''document normalization failed (SIGTERM): killed'')"
  by code_simp

end
