(* ===== verification/Document_Worker.thy ===== *)
theory Document_Worker
  imports Document_Store Document_Service Report_Worker
begin

text \<open>
  The document workflows of \<open>apps/worker/src/index.ts\<close>: \<open>createDocumentScanWorkflowHandler\<close> and
  \<open>createDocumentOcrWorkflowHandler\<close>.  The object store, the scanner and the OCR adapter are
  operations on the world \<open>'x\<close>; SHA-256 and the cipher are parameters.  A ciphertext that is not
  UTF-8 counts as one that is not JSON.
\<close>

section \<open>Opening a stored document\<close>

definition document_context :: "tenant_context \<Rightarrow> 'a upload_record_scheme \<Rightarrow> string \<Rightarrow> encryption_context" where
  "document_context ctx p purpose = \<lparr> ec_org = tc_org ctx, ec_hh = tc_hh ctx, ec_record = ur_id p,
     ec_purpose = purpose, ec_version = ur_key_version p \<rparr>"

definition document_data_key :: "aead \<Rightarrow> tenant_context \<Rightarrow> 'a upload_record_scheme \<Rightarrow> string \<Rightarrow> string result" where
  "document_data_key a ctx p key = res_bind (storedEnvelope (ur_wrapped_key p)) (\<lambda>e.
     decryptEnvelope a e key (document_context ctx p ''document-data-key''))"

definition open_original ::
  "aead \<Rightarrow> (string \<Rightarrow> string) \<Rightarrow> tenant_context \<Rightarrow> 'a upload_record_scheme \<Rightarrow> string \<Rightarrow> string \<Rightarrow> string result" where
  "open_original a sha256 ctx p data_key ciphertext =
     (case Option.bind (utf8_text ciphertext) json_parse of
        None \<Rightarrow> Inl (integrity_error ''document ciphertext envelope is invalid'')
      | Some v \<Rightarrow> res_bind (storedEnvelope v) (\<lambda>e.
          res_bind (decryptEnvelope a e data_key (document_context ctx p ''document-original'')) (\<lambda>plaintext.
          if hex_text (sha256 plaintext) \<noteq> ur_sha256 p
          then Inl (integrity_error ''document plaintext checksum mismatch'') else Inr plaintext)))"

section \<open>The scan workflow\<close>

record 'x scan_world =
  sw_get :: "string \<Rightarrow> ('x, string) world_op"
  sw_mark_clean :: "string \<Rightarrow> ('x, unit) world_op"
  sw_scan :: "string \<Rightarrow> ('x, scan_result) world_op"

definition outcome_text :: "quarantine_outcome \<Rightarrow> string" where
  "outcome_text q = (case q of CleanAwaitingOcr t \<Rightarrow> ''clean'' | RejectedMalware name \<Rightarrow> ''rejected'')"

definition quarantine_run ::
  "aead \<Rightarrow> (string \<Rightarrow> string) \<Rightarrow> 'x scan_world \<Rightarrow> tenant_context \<Rightarrow> processing_input \<Rightarrow> string
   \<Rightarrow> ('x, quarantine_outcome) world_op" where
  "quarantine_run a sha256 sw ctx p key = world_bind (pure_result (document_data_key a ctx p key)) (\<lambda>data_key.
     quarantine_scan (sw_get sw) (sw_mark_clean sw) (sw_scan sw) (open_original a sha256 ctx p data_key)
       \<lparr> sr_object_key = ur_object_key p, sr_media_type = ur_media_type p, sr_maximum_bytes = ur_maximum_bytes p \<rparr>)"

definition scan_attempt ::
  "aead \<Rightarrow> (string \<Rightarrow> string) \<Rightarrow> string \<Rightarrow> 'x scan_world \<Rightarrow> run_inputs \<Rightarrow> tenant_context \<Rightarrow> processing_input
   \<Rightarrow> db \<Rightarrow> 'x \<Rightarrow> unit result \<times> db \<times> 'x" where
  "scan_attempt a sha256 kek sw ri ctx p d x =
     (if ur_status p = ''clean'' \<or> ur_status p = ''rejected'' \<or> pi_next p \<noteq> Some ''scan'' then (Inr (), d, x)
      else if ur_status p \<noteq> ''quarantined'' then (Inl (js_error ''document is not quarantined''), d, x)
      else (case getOrCreateActiveKey a kek (ri_key_id ri) (ri_random_key ri) (ri_key_iv ri) (ri_now ri) ctx d of
          (Inl e, d1) \<Rightarrow> (Inl e, d1, x)
        | (Inr (version, key), d1) \<Rightarrow> (case quarantine_run a sha256 sw ctx p key x of
            (Inl e, x1) \<Rightarrow> (Inl e, d1, x1)
          | (Inr outcome, x1) \<Rightarrow> (case completeDocumentScan ctx (ur_id p) (pi_workflow p) (ur_version p)
                (pi_workflow_version p) (outcome_text outcome) (ri_now ri) d1 of (r, d2) \<Rightarrow> (r, d2, x1)))))"

text \<open>The handlers' \<open>catch\<close>: the error's name is recorded on the document, and the error is rethrown.\<close>

definition record_failure ::
  "tenant_context \<Rightarrow> processing_input \<Rightarrow> unit result \<times> db \<times> 'x \<Rightarrow> unit result \<times> db \<times> 'x" where
  "record_failure ctx p out = (case out of
       (Inr u, d, x) \<Rightarrow> (Inr u, d, x)
     | (Inl e, d, x) \<Rightarrow> (case recordDocumentScanFailure ctx (ur_id p) (pi_workflow p) (err_name e) d of
           (Inl e', d') \<Rightarrow> (Inl e', d', x)
         | (Inr _, d') \<Rightarrow> (Inl e, d', x)))"

definition scan_handler ::
  "aead \<Rightarrow> (string \<Rightarrow> string) \<Rightarrow> string \<Rightarrow> 'x scan_world \<Rightarrow> run_inputs \<Rightarrow> tenant_context \<Rightarrow> string
   \<Rightarrow> db \<Rightarrow> 'x \<Rightarrow> unit result \<times> db \<times> 'x" where
  "scan_handler a sha256 kek sw ri ctx workflow_id d x =
     (case getDocumentProcessingInput ctx workflow_id d of
        (Inl e, d1) \<Rightarrow> (Inl e, d1, x)
      | (Inr p, d1) \<Rightarrow> record_failure ctx p (scan_attempt a sha256 kek sw ri ctx p d1 x))"

section \<open>The OCR workflow\<close>

record 'x ocr_world =
  ow_get :: "string \<Rightarrow> ('x, string) world_op"
  ow_put :: "string \<Rightarrow> string \<Rightarrow> string \<Rightarrow> ('x, unit) world_op"
  ow_delete :: "string \<Rightarrow> ('x, unit) world_op"
  ow_ocr :: "string \<Rightarrow> string \<Rightarrow> ('x, string) world_op"

definition derivative_object_key :: "'a upload_record_scheme \<Rightarrow> string" where
  "derivative_object_key p = ''derivatives/'' @ ur_id p @ ''/'' @ ur_id p @ ''.encrypted.json''"

definition seal_derivative ::
  "aead \<Rightarrow> string \<Rightarrow> tenant_context \<Rightarrow> 'a upload_record_scheme \<Rightarrow> string \<Rightarrow> string \<Rightarrow> string result" where
  "seal_derivative a iv ctx p data_key pdf =
     res_bind (encryptEnvelope a iv pdf data_key (document_context ctx p ''document-searchable-pdf'')) (\<lambda>e.
       Inr (utf8_bytes (json_stringify (JObj (envelope_members e)))))"

text \<open>Everything up to the derivative in the object store; the result is its SHA-256.\<close>

definition make_derivative ::
  "aead \<Rightarrow> (string \<Rightarrow> string) \<Rightarrow> 'x ocr_world \<Rightarrow> string \<Rightarrow> tenant_context \<Rightarrow> processing_input \<Rightarrow> string
   \<Rightarrow> ('x, string) world_op" where
  "make_derivative a sha256 ow iv ctx p key =
     world_bind (pure_result (document_data_key a ctx p key)) (\<lambda>data_key.
     world_bind (ow_get ow (ur_object_key p)) (\<lambda>ciphertext.
     world_bind (pure_result (open_original a sha256 ctx p data_key ciphertext)) (\<lambda>plaintext.
     world_bind (ow_ocr ow plaintext (ur_media_type p)) (\<lambda>pdf.
     world_bind (pure_result (seal_derivative a iv ctx p data_key pdf)) (\<lambda>sealed.
     world_bind (ow_put ow (derivative_object_key p) sealed (base64 (sha256 sealed))) (\<lambda>_.
     pure_result (Inr (sha256 sealed))))))))"

definition delete_original ::
  "'x ocr_world \<Rightarrow> run_inputs \<Rightarrow> tenant_context \<Rightarrow> processing_input \<Rightarrow> db \<Rightarrow> 'x \<Rightarrow> unit result \<times> db \<times> 'x" where
  "delete_original ow ri ctx p d x = (case ow_delete ow (ur_object_key p) x of
       (Inl e, x1) \<Rightarrow> (Inl e, d, x1)
     | (Inr _, x1) \<Rightarrow> (case completeDocumentOriginalDeletion ctx (ur_id p) (pi_workflow p) (ri_now ri) d of
           (r, d1) \<Rightarrow> (r, d1, x1)))"

definition ocr_attempt ::
  "aead \<Rightarrow> (string \<Rightarrow> string) \<Rightarrow> string \<Rightarrow> 'x ocr_world \<Rightarrow> run_inputs \<Rightarrow> tenant_context \<Rightarrow> processing_input
   \<Rightarrow> db \<Rightarrow> 'x \<Rightarrow> unit result \<times> db \<times> 'x" where
  "ocr_attempt a sha256 kek ow ri ctx p d x =
     (if pi_next p = Some ''delete-original'' then delete_original ow ri ctx p d x
      else if pi_next p \<noteq> Some ''ocr'' then (Inr (), d, x)
      else if ur_status p \<noteq> ''clean'' then (Inl (js_error ''document has not passed malware scanning''), d, x)
      else (case getOrCreateActiveKey a kek (ri_key_id ri) (ri_random_key ri) (ri_key_iv ri) (ri_now ri) ctx d of
          (Inl e, d1) \<Rightarrow> (Inl e, d1, x)
        | (Inr (version, key), d1) \<Rightarrow> (case make_derivative a sha256 ow (ri_iv ri) ctx p key x of
            (Inl e, x1) \<Rightarrow> (Inl e, d1, x1)
          | (Inr sha, x1) \<Rightarrow> (case completeDocumentOcr ctx (ur_id p) (pi_workflow p) (pi_workflow_version p) (ur_id p)
                (derivative_object_key p) (hex_text sha) (ur_key_version p) (ri_now ri) d1 of
              (Inl e, d2) \<Rightarrow> (Inl e, d2, x1)
            | (Inr _, d2) \<Rightarrow> if ur_delete_original p then delete_original ow ri ctx p d2 x1
                             else (Inr (), d2, x1)))))"

definition ocr_handler ::
  "aead \<Rightarrow> (string \<Rightarrow> string) \<Rightarrow> string \<Rightarrow> 'x ocr_world \<Rightarrow> run_inputs \<Rightarrow> tenant_context \<Rightarrow> string
   \<Rightarrow> db \<Rightarrow> 'x \<Rightarrow> unit result \<times> db \<times> 'x" where
  "ocr_handler a sha256 kek ow ri ctx workflow_id d x =
     (case getDocumentProcessingInput ctx workflow_id d of
        (Inl e, d1) \<Rightarrow> (Inl e, d1, x)
      | (Inr p, d1) \<Rightarrow> record_failure ctx p (ocr_attempt a sha256 kek ow ri ctx p d1 x))"

section \<open>Clean documents have been scanned\<close>

lemma quarantine_scan_Inr:
  assumes "quarantine_scan get mark scan decrypt r x = (Inr outcome, x')"
  obtains ciphertext plaintext t x1 x2 where "get (sr_object_key r) x = (Inr ciphertext, x1)"
    "decrypt ciphertext = Inr plaintext" "validateDocumentBytes plaintext (sr_media_type r) (sr_maximum_bytes r) = Inr t"
    "(\<exists>t. outcome = CleanAwaitingOcr t) \<longrightarrow> scan plaintext x1 = (Inr ScanClean, x2)"
    "(\<exists>n. outcome = RejectedMalware n) \<longrightarrow> (\<exists>n. scan plaintext x1 = (Inr (Infected n), x'))"
proof -
  from assms obtain c x1 p t res x2 where 1: "get (sr_object_key r) x = (Inr c, x1)" "decrypt c = Inr p"
      "validateDocumentBytes p (sr_media_type r) (sr_maximum_bytes r) = Inr t" "scan p x1 = (Inr res, x2)"
    and 2: "(case res of Infected name \<Rightarrow> pure_result (Inr (RejectedMalware (case name of None \<Rightarrow> ''unknown'' | Some n \<Rightarrow> n)))
       | ScanClean \<Rightarrow> world_bind (mark (sr_object_key r)) (\<lambda>_. pure_result (Inr (CleanAwaitingOcr t)))) x2 = (Inr outcome, x')"
    unfolding quarantine_scan_def world_bind_Inr by (auto simp: pure_result_def)
  show thesis
  proof (rule that [OF 1(1-3)])
    show "(\<exists>t. outcome = CleanAwaitingOcr t) \<longrightarrow> scan p x1 = (Inr ScanClean, x2)"
      using 1(4) 2 by (cases res) (auto simp: pure_result_def)
    show "(\<exists>n. outcome = RejectedMalware n) \<longrightarrow> (\<exists>n. scan p x1 = (Inr (Infected n), x'))"
      using 1(4) 2 by (cases res) (auto simp: pure_result_def world_bind_Inr)
  qed
qed

lemma scan_attempt_cases:
  assumes "scan_attempt a sha256 kek sw ri ctx p d x = (out, d', x')"
  obtains (kept) ks where "d' = d \<lparr> household_keys := ks \<rparr>"
  | (scanned) v key ks outcome where "out = Inr ()" "ur_status p = ''quarantined''" "pi_next p = Some ''scan''"
      "getOrCreateActiveKey a kek (ri_key_id ri) (ri_random_key ri) (ri_key_iv ri) (ri_now ri) ctx d
         = (Inr (v, key), d \<lparr> household_keys := ks \<rparr>)"
      "quarantine_run a sha256 sw ctx p key x = (Inr outcome, x')"
      "completeDocumentScan ctx (ur_id p) (pi_workflow p) (ur_version p) (pi_workflow_version p)
         (outcome_text outcome) (ri_now ri) (d \<lparr> household_keys := ks \<rparr>) = (Inr (), d')"
proof (cases "ur_status p = ''quarantined'' \<and> pi_next p = Some ''scan''")
  case False
  with assms have "d' = d \<lparr> household_keys := household_keys d \<rparr>"
    by (auto simp: scan_attempt_def split: if_splits)
  then show thesis by (rule kept)
next
  case q: True
  obtain res d1 where k: "getOrCreateActiveKey a kek (ri_key_id ri) (ri_random_key ri) (ri_key_iv ri) (ri_now ri) ctx d = (res, d1)"
    by force
  obtain ks where ks: "d1 = d \<lparr> household_keys := ks \<rparr>" using active_key_frame [OF k] by blast
  show thesis
  proof (cases res)
    case (Inl e)
    with assms q k ks have "d' = d \<lparr> household_keys := ks \<rparr>" by (simp add: scan_attempt_def)
    then show thesis by (rule kept)
  next
    case (Inr vk)
    obtain v key where vk: "vk = (v, key)" by force
    obtain r x1 where run: "quarantine_run a sha256 sw ctx p key x = (r, x1)" by force
    show thesis
    proof (cases r)
      case (Inl e)
      with assms q k ks Inr vk run have "d' = d \<lparr> household_keys := ks \<rparr>" by (simp add: scan_attempt_def)
      then show thesis by (rule kept)
    next
      case outcome: (Inr outcome)
      obtain r2 d2 where c: "completeDocumentScan ctx (ur_id p) (pi_workflow p) (ur_version p) (pi_workflow_version p)
         (outcome_text outcome) (ri_now ri) d1 = (r2, d2)" by force
      with assms q k Inr vk run outcome have o: "out = r2" "d' = d2" "x' = x1" by (simp_all add: scan_attempt_def)
      show thesis
      proof (cases r2)
        case (Inl e)
        with c have "d2 = d1" by (simp add: completeDocumentScan_def withTenant_def)
        with ks o show thesis by (intro kept) simp
      next
        case (Inr u)
        with c o ks k \<open>res = Inr vk\<close> vk run outcome q show thesis by (intro scanned) auto
      qed
    qed
  qed
qed

lemma failure_documents:
  assumes "record_failure ctx p (out, d, x) = (out', d', x')" and "q \<in> set (documents d')"
  shows "\<exists>q0 \<in> set (documents d). row_id q0 = row_id q \<and> d_status q0 = d_status q"
proof (cases out)
  case (Inr u)
  with assms show ?thesis by (auto simp: record_failure_def)
next
  case (Inl e)
  obtain r d2 where f: "recordDocumentScanFailure ctx (ur_id p) (pi_workflow p) (err_name e) d = (r, d2)" by force
  with assms(1) Inl have "d' = d2" by (auto simp: record_failure_def split: sum.splits)
  from recordDocumentScanFailure_cases [OF f]
  have "documents d2 = documents d \<or> documents d2 = sql_update (tenant_session ctx)
      (\<lambda>r. row_id r = ur_id p \<and> d_status r = ''quarantined'') (scan_failed_set (err_name e)) (documents d)" by auto
  with assms(2) \<open>d' = d2\<close> show ?thesis
    using update_keeps [where g = "\<lambda>r. (row_id r, d_status r)" and f = "scan_failed_set (err_name e)" and q = q]
    by (auto simp: scan_failed_set_def)
qed

text \<open>C7: A run of the scan handler makes a document clean only after the object stored under its key was
  opened with its data key to a plaintext whose SHA-256 is the one registered at the upload, whose
  size is between one byte and the registered maximum, which begins with the signature of the
  registered type, and which the scanner, given exactly these bytes, found clean.\<close>

theorem clean_document_was_scanned:
  assumes "scan_handler a sha256 kek sw ri ctx workflow_id d x = (out, d', x')"
    and "q' \<in> set (documents d')" and "d_status q' = ''clean''"
    and "\<forall>q \<in> set (documents d). row_id q = row_id q' \<longrightarrow> d_status q \<noteq> ''clean''"
  shows "\<exists>q w ciphertext plaintext x1 x2 data_key t. q \<in> set (documents d) \<and> row_id q = row_id q' \<and> d_status q = ''quarantined''
     \<and> row_org q = tc_org ctx \<and> row_hh q = tc_hh ctx \<and> out = Inr ()
     \<and> sw_get sw (d_object_key q) x = (Inr ciphertext, x1)
     \<and> open_original a sha256 ctx (read_processing q w) data_key ciphertext = Inr plaintext
     \<and> hex_text (sha256 plaintext) = d_sha256 q
     \<and> 1 \<le> int (length plaintext) \<and> d_maximum_bytes q \<noteq> None \<and> int (length plaintext) \<le> the (d_maximum_bytes q)
     \<and> has_signature t plaintext \<and> d_media_type q = type_text t
     \<and> sw_scan sw plaintext x1 = (Inr ScanClean, x2)"
proof -
  let ?s = "tenant_session ctx"
  obtain in_res d0 where i: "getDocumentProcessingInput ctx workflow_id d = (in_res, d0)" by force
  have d0: "d0 = d" by (rule processing_same [OF i])
  show ?thesis
  proof (cases in_res)
    case (Inl e)
    with assms i d0 have "d' = d" by (simp add: scan_handler_def)
    with assms(2-4) show ?thesis by auto
  next
    case (Inr p)
    from i Inr obtain q w where q: "q \<in> set (documents d)" "tenant_visible ?s q" "w \<in> set (workflows d)"
      "key_present q" and p: "p = read_processing q w" by (auto elim: processing_Inr)
    obtain o1 d1 x1 where att: "scan_attempt a sha256 kek sw ri ctx p d x = (o1, d1, x1)" by (metis prod_cases3)
    from assms(1) i Inr d0 att have rf: "record_failure ctx p (o1, d1, x1) = (out, d', x')" by (simp add: scan_handler_def)
    obtain q1 where q1: "q1 \<in> set (documents d1)" "row_id q1 = row_id q'" "d_status q1 = ''clean''"
      using failure_documents [OF rf assms(2)] assms(3) by auto
    from att show ?thesis
    proof (cases rule: scan_attempt_cases)
      case (kept ks)
      with q1 assms(4) show ?thesis by auto
    next
      case (scanned v key ks outcome)
      have st: "d_status q = ''quarantined''" using scanned(2) p by simp
      note c = completeDocumentScan_Inr [OF scanned(6)]
      have "scanned_pred (row_id q) (row_version q) q" using st by (simp add: scanned_pred_def)
      with sql_select_single [OF c(1), of q] q(1,2) p
      have sel: "sql_select ?s (scanned_pred (row_id q) (row_version q)) (documents d) = [q]" by simp
      from q1(1) c(3) p obtain q0 where q0: "q0 \<in> set (documents d)" and
        eq: "q1 = (if tenant_visible ?s q0 \<and> scanned_pred (row_id q) (row_version q) q0
                   then scanned_set (outcome_text outcome) (ri_now ri) q0 else q0)"
        by (auto simp: in_sql_update)
      have hit: "tenant_visible ?s q0 \<and> scanned_pred (row_id q) (row_version q) q0"
        using eq q1(2,3) q0 assms(4) by (auto split: if_splits)
      then have "q0 \<in> set (sql_select ?s (scanned_pred (row_id q) (row_version q)) (documents d))"
        using q0 by simp
      then have q0q: "q0 = q" unfolding sel by simp
      with eq hit q1(2,3) have ids: "row_id q = row_id q'" and oc: "outcome_text outcome = ''clean''"
        by (auto simp: scanned_set_def)
      from oc obtain t where t: "outcome = CleanAwaitingOcr t" by (auto simp: outcome_text_def split: quarantine_outcome.splits)
      from scanned(5) obtain dk y1 where dk: "document_data_key a ctx p key = Inr dk"
        and qs: "quarantine_scan (sw_get sw) (sw_mark_clean sw) (sw_scan sw) (open_original a sha256 ctx p dk)
          \<lparr> sr_object_key = ur_object_key p, sr_media_type = ur_media_type p, sr_maximum_bytes = ur_maximum_bytes p \<rparr> x
          = (Inr outcome, x1)"
        by (auto simp: quarantine_run_def world_bind_Inr pure_result_def)
      obtain ct pt t' z1 z2 where
        r: "sw_get sw (d_object_key q) x = (Inr ct, z1)" "open_original a sha256 ctx p dk ct = Inr pt"
          "validateDocumentBytes pt (d_media_type q) (ur_maximum_bytes p) = Inr t'" "sw_scan sw pt z1 = (Inr ScanClean, z2)"
        by (rule quarantine_scan_Inr [OF qs]) (use t p in auto)
      have sha: "hex_text (sha256 pt) = d_sha256 q" using r(2)
        by (auto simp: open_original_def p split: option.splits if_splits)
      from r(3) have v: "1 \<le> length pt" "int (length pt) \<le> ur_maximum_bytes p" "has_signature t' pt" "d_media_type q = type_text t'"
        by (simp_all only: validate_Inr One_nat_def Suc_le_eq)
      have mx: "d_maximum_bytes q \<noteq> None" "ur_maximum_bytes p = the (d_maximum_bytes q)"
        using v(1,2) by (auto simp: p read_processing_def read_upload_def upload_record.defs split: option.splits)
      have out: "out = Inr ()" using rf scanned(1) by (simp add: record_failure_def)
      show ?thesis
        using q ids st out r(1,2,4) sha v mx p
        by (intro exI [of _ q] exI [of _ w] exI [of _ ct] exI [of _ pt] exI [of _ z1] exI [of _ z2] exI [of _ dk] exI [of _ t']) auto
    qed
  qed
qed

section \<open>A ready document gets scanned\<close>

definition scan_ready :: "tenant_context \<Rightarrow> string \<Rightarrow> db \<Rightarrow> document_row \<Rightarrow> workflow_row \<Rightarrow> bool" where
  "scan_ready ctx workflow_id d q w \<longleftrightarrow>
     sql_select (tenant_session ctx) (\<lambda>r. row_id r = row_id q) (documents d) = [q]
     \<and> sql_select (tenant_session ctx) (\<lambda>w. row_id w = workflow_id) (workflows d) = [w]
     \<and> document_of w q \<and> key_present q \<and> document_row_ok q \<and> d_status q = ''quarantined'' \<and> w_next w = Some ''scan''"

text \<open>The household's key opens the document's data key, and that the stored bytes, to the plaintext.\<close>

definition opens_to ::
  "aead \<Rightarrow> (string \<Rightarrow> string) \<Rightarrow> tenant_context \<Rightarrow> document_row \<Rightarrow> string \<Rightarrow> string \<Rightarrow> string \<Rightarrow> bool" where
  "opens_to a sha256 ctx q key ciphertext plaintext \<longleftrightarrow>
     (case document_data_key a ctx (read_upload q) key of Inl e \<Rightarrow> False
      | Inr dk \<Rightarrow> open_original a sha256 ctx (read_upload q) dk ciphertext = Inr plaintext)"

text \<open>The active key that is already stored, whatever a run would use to make a new one.\<close>

definition key_known :: "aead \<Rightarrow> string \<Rightarrow> tenant_context \<Rightarrow> db \<Rightarrow> string \<Rightarrow> bool" where
  "key_known a kek ctx d key \<longleftrightarrow> (\<exists>r rs w. active_keys (tenant_session ctx) d = r # rs
     \<and> wrappedHouseholdKey (hk_wrapped_key r) = Inr w \<and> unwrapHouseholdKey a w kek (tc_org ctx) (tc_hh ctx) = Inr key)"

lemma key_known_get:
  assumes "key_known a kek ctx d key"
  shows "\<exists>v. getOrCreateActiveKey a kek i k iv now ctx d = (Inr (v, key), d)"
  using assms by (auto simp: key_known_def getOrCreateActiveKey_def withTenant_def)

lemma key_known_cong: "household_keys d' = household_keys d \<Longrightarrow> key_known a kek ctx d' key = key_known a kek ctx d key"
  by (simp add: key_known_def active_keys_def)

lemma read_processing_upload:
  "document_data_key a ctx (read_processing q w) key = document_data_key a ctx (read_upload q) key"
  "open_original a sha256 ctx (read_processing q w) dk ct = open_original a sha256 ctx (read_upload q) dk ct"
  by (simp_all add: document_data_key_def open_original_def document_context_def read_processing_def upload_record.defs
      cong: option.case_cong)

lemma version_unused [simp]:
  "document_data_key a ctx (p \<lparr> ur_version := v \<rparr>) key = document_data_key a ctx p key"
  "open_original a sha256 ctx (p \<lparr> ur_version := v \<rparr>) dk ct = open_original a sha256 ctx p dk ct"
  by (simp_all add: document_data_key_def open_original_def document_context_def split: option.split)

lemma opens_to_failed [simp]: "opens_to a sha256 ctx (scan_failed_set c q) = opens_to a sha256 ctx q"
proof -
  have "read_upload (scan_failed_set c q) = read_upload q \<lparr> ur_version := row_version q + 1 \<rparr>"
    by (simp add: read_upload_def scan_failed_set_def)
  then show ?thesis by (intro ext) (simp add: opens_to_def split: sum.split)
qed

lemma ready_input:
  assumes "scan_ready ctx workflow_id d q w"
  shows "getDocumentProcessingInput ctx workflow_id d = (Inr (read_processing q w), d)"
proof -
  let ?s = "tenant_session ctx"
  from assms have s: "sql_select ?s (\<lambda>r. row_id r = row_id q) (documents d) = [q]" and "document_of w q"
    by (simp_all add: scan_ready_def)
  then have "document_of w = (\<lambda>r. row_id r = row_id q)" by (auto simp: document_of_def)
  with s assms show ?thesis by (simp add: scan_ready_def getDocumentProcessingInput_def withTenant_def)
qed

lemma ready_after_failure:
  assumes "scan_ready ctx workflow_id d q w"
    and "recordDocumentScanFailure ctx (row_id q) workflow_id c d = (out, d')"
  shows "household_keys d' = household_keys d
     \<and> (\<exists>q' w'. scan_ready ctx workflow_id d' q' w' \<and> (q' = q \<or> q' = scan_failed_set c q))"
proof -
  from recordDocumentScanFailure_cases [OF assms(2)] show ?thesis
  proof
    assume "d' = d"
    with assms(1) show ?thesis by blast
  next
    assume d': "d' = d \<lparr> documents := sql_update (tenant_session ctx)
              (\<lambda>r. row_id r = row_id q \<and> d_status r = ''quarantined'') (scan_failed_set c) (documents d),
            workflows := sql_update (tenant_session ctx) (\<lambda>w. row_id w = workflow_id \<and> w_status w \<noteq> ''completed'')
              (failure_set c) (workflows d) \<rparr>"
    let ?w = "if w_status w \<noteq> ''completed'' then failure_set c w else w"
    from assms(1) have w: "row_id w = workflow_id" using sql_select_hd by (fastforce simp: scan_ready_def)
    have 1: "sql_select (tenant_session ctx) (\<lambda>r. row_id r = row_id q) (documents d') = [scan_failed_set c q]"
      using assms(1) by (simp add: d' scan_ready_def select_update scan_failed_set_def)
    have 2: "sql_select (tenant_session ctx) (\<lambda>w. row_id w = workflow_id) (workflows d') = [?w]"
      using assms(1) w by (simp add: d' scan_ready_def select_update failure_set_def)
    have "document_row_ok q" "0 < row_version q" using assms(1) by (simp_all add: scan_ready_def document_row_ok_def document_statuses_def)
    then have "document_row_ok (scan_failed_set c q)"
      by (simp add: document_row_ok_def document_state_ok_def document_statuses_def scan_failed_set_def)
    moreover have "document_of ?w (scan_failed_set c q)" "key_present (scan_failed_set c q)"
      "d_status (scan_failed_set c q) = ''quarantined''" "w_next ?w = Some ''scan''" "row_id (scan_failed_set c q) = row_id q"
      using assms(1) by (auto simp: scan_ready_def document_of_def key_present_def scan_failed_set_def failure_set_def)
    ultimately have "scan_ready ctx workflow_id d' (scan_failed_set c q) ?w"
      using 1 2 by (simp add: scan_ready_def)
    with d' show ?thesis by auto
  qed
qed

text \<open>The failed runs before: each with inputs and a world of its own.\<close>

inductive failed_scans ::
  "aead \<Rightarrow> (string \<Rightarrow> string) \<Rightarrow> string \<Rightarrow> 'x scan_world \<Rightarrow> tenant_context \<Rightarrow> string \<Rightarrow> db \<Rightarrow> db \<Rightarrow> bool"
  for a sha256 kek sw ctx workflow_id where
  no_run: "failed_scans a sha256 kek sw ctx workflow_id d d"
| one_more: "failed_scans a sha256 kek sw ctx workflow_id d d1
    \<Longrightarrow> scan_handler a sha256 kek sw ri ctx workflow_id d1 x = (Inl e, d2, x')
    \<Longrightarrow> failed_scans a sha256 kek sw ctx workflow_id d d2"

definition scan_state ::
  "aead \<Rightarrow> (string \<Rightarrow> string) \<Rightarrow> string \<Rightarrow> tenant_context \<Rightarrow> string \<Rightarrow> string \<Rightarrow> string \<Rightarrow> document_row \<Rightarrow> db \<Rightarrow> bool" where
  "scan_state a sha256 kek ctx workflow_id ciphertext plaintext q0 d \<longleftrightarrow> (\<exists>q w key. scan_ready ctx workflow_id d q w
     \<and> key_known a kek ctx d key \<and> opens_to a sha256 ctx q key ciphertext plaintext
     \<and> row_id q = row_id q0 \<and> d_object_key q = d_object_key q0 \<and> d_media_type q = d_media_type q0
     \<and> d_maximum_bytes q = d_maximum_bytes q0)"

lemma failed_attempt_keeps:
  assumes "key_known a kek ctx d key" and "scan_attempt a sha256 kek sw ri ctx p d x = (Inl e, d', x')"
  shows "d' = d"
proof -
  obtain v where k: "getOrCreateActiveKey a kek (ri_key_id ri) (ri_random_key ri) (ri_key_iv ri) (ri_now ri) ctx d
      = (Inr (v, key), d)" using key_known_get [OF assms(1)] by blast
  obtain r x1 where run: "quarantine_run a sha256 sw ctx p key x = (r, x1)" by force
  show ?thesis
  proof (cases r)
    case (Inl e')
    with assms(2) k run show ?thesis by (simp add: scan_attempt_def split: if_splits)
  next
    case (Inr outcome)
    obtain r2 d2 where c: "completeDocumentScan ctx (ur_id p) (pi_workflow p) (ur_version p) (pi_workflow_version p)
         (outcome_text outcome) (ri_now ri) d = (r2, d2)" by force
    with assms(2) k run Inr have "d' = d \<or> d' = d2 \<and> r2 = Inl e" by (simp add: scan_attempt_def split: if_splits)
    with c show ?thesis by (auto simp: completeDocumentScan_def withTenant_def)
  qed
qed

lemma failed_run_keeps_state:
  assumes "scan_state a sha256 kek ctx workflow_id ct pt q0 d"
    and "scan_handler a sha256 kek sw ri ctx workflow_id d x = (Inl e, d', x')"
  shows "scan_state a sha256 kek ctx workflow_id ct pt q0 d'"
proof -
  from assms(1) obtain q w key where s: "scan_ready ctx workflow_id d q w" "key_known a kek ctx d key"
    "opens_to a sha256 ctx q key ct pt" "row_id q = row_id q0" "d_object_key q = d_object_key q0"
    "d_media_type q = d_media_type q0" "d_maximum_bytes q = d_maximum_bytes q0"
    by (auto simp: scan_state_def)
  let ?p = "read_processing q w"
  from s(1) have w: "row_id w = workflow_id" using sql_select_hd by (fastforce simp: scan_ready_def)
  obtain o1 d1 x1 where att: "scan_attempt a sha256 kek sw ri ctx ?p d x = (o1, d1, x1)" by (metis prod_cases3)
  with assms(2) ready_input [OF s(1)] have rf: "record_failure ctx ?p (o1, d1, x1) = (Inl e, d', x')"
    by (simp add: scan_handler_def)
  then obtain e1 where e1: "o1 = Inl e1" by (cases o1) (auto simp: record_failure_def)
  have "d1 = d" by (rule failed_attempt_keeps [OF s(2)]) (use att e1 in simp)
  obtain r d2 where f: "recordDocumentScanFailure ctx (row_id q) workflow_id (err_name e1) d = (r, d2)" by force
  with rf e1 w \<open>d1 = d\<close> have "d' = d2" by (auto simp: record_failure_def split: sum.splits)
  from ready_after_failure [OF s(1) f] obtain q' w' where q': "household_keys d2 = household_keys d"
    "scan_ready ctx workflow_id d2 q' w'" "q' = q \<or> q' = scan_failed_set (err_name e1) q" by blast
  have "opens_to a sha256 ctx q' key ct pt" using q'(3) s(3) by auto
  moreover have "row_id q' = row_id q0" "d_object_key q' = d_object_key q0" "d_media_type q' = d_media_type q0"
    "d_maximum_bytes q' = d_maximum_bytes q0" using q'(3) s(4-7) by (auto simp: scan_failed_set_def)
  moreover have "key_known a kek ctx d2 key" using key_known_cong [OF q'(1)] s(2) by simp
  ultimately show ?thesis using q'(2) \<open>d' = d2\<close> unfolding scan_state_def by blast
qed

lemma failed_runs_keep_state:
  "failed_scans a sha256 kek sw ctx workflow_id d d' \<Longrightarrow> scan_state a sha256 kek ctx workflow_id ct pt q0 d
     \<Longrightarrow> scan_state a sha256 kek ctx workflow_id ct pt q0 d'"
  by (induction rule: failed_scans.induct) (auto dest: failed_run_keeps_state)

lemma ready_scan_commits:
  assumes "scan_ready ctx workflow_id d q w" and "outcome \<in> {''clean'', ''rejected''}"
  shows "\<exists>d'. completeDocumentScan ctx (row_id q) workflow_id (row_version q) (row_version w) outcome at d = (Inr (), d')
     \<and> scanned_set outcome at q \<in> set (documents d') \<and> scan_workflow_set outcome w \<in> set (workflows d')"
proof -
  let ?s = "tenant_session ctx"
  from assms(1) have q: "sql_select ?s (\<lambda>r. row_id r = row_id q) (documents d) = [q]"
    and w: "sql_select ?s (\<lambda>w. row_id w = workflow_id) (workflows d) = [w]"
    and st: "d_status q = ''quarantined''" "w_next w = Some ''scan''" and ok: "document_row_ok q"
    by (simp_all add: scan_ready_def)
  have wid: "row_id w = workflow_id" "w \<in> set (workflows d)" "tenant_visible ?s w" using sql_select_hd [OF w] by auto
  have qin: "q \<in> set (documents d)" "tenant_visible ?s q" using sql_select_hd [OF q] by auto
  have 1: "sql_select ?s (scanned_pred (row_id q) (row_version q)) (documents d) = [q]"
    using select_refine [OF q, of "scanned_pred (row_id q) (row_version q)"] st by (auto simp: scanned_pred_def)
  have 2: "sql_select ?s (at_step workflow_id (row_version w) ''scan'') (workflows d) = [w]"
    using select_refine [OF w, of "at_step workflow_id (row_version w) ''scan''"] st wid(1) by (auto simp: at_step_def)
  have "document_row_ok (scanned_set outcome at q)"
    using ok st assms(2) by (auto simp: document_row_ok_def document_state_ok_def document_statuses_def scanned_set_def)
  then have "completeDocumentScan ctx (row_id q) workflow_id (row_version q) (row_version w) outcome at d
    = (Inr (), d \<lparr> documents := sql_update ?s (scanned_pred (row_id q) (row_version q)) (scanned_set outcome at) (documents d),
        workflows := sql_update ?s (at_step workflow_id (row_version w) ''scan'') (scan_workflow_set outcome) (workflows d) \<rparr>)"
    using 1 2 by (simp add: completeDocumentScan_def withTenant_def update_documents_def update_workflows_def Let_def)
  moreover have "scanned_set outcome at q \<in> set (sql_update ?s (scanned_pred (row_id q) (row_version q)) (scanned_set outcome at) (documents d))"
    using qin st by (auto simp: in_sql_update scanned_pred_def intro!: bexI [OF _ qin(1)])
  moreover have "scan_workflow_set outcome w \<in> set (sql_update ?s (at_step workflow_id (row_version w) ''scan'') (scan_workflow_set outcome) (workflows d))"
    using wid st by (auto simp: in_sql_update at_step_def intro!: bexI [OF _ wid(2)])
  ultimately show ?thesis by simp
qed

lemma quarantine_runs:
  assumes "opens_to a sha256 ctx q key ct pt" and "sw_get sw (d_object_key q) x = (Inr ct, x1)"
    and "validateDocumentBytes pt (d_media_type q) (ur_maximum_bytes (read_upload q)) = Inr t"
    and "sw_scan sw pt x1 = (Inr verdict, x2)" and "sw_mark_clean sw (d_object_key q) x2 = (Inr (), x3)"
  shows "\<exists>outcome x4. quarantine_run a sha256 sw ctx (read_processing q w) key x = (Inr outcome, x4)
     \<and> outcome_text outcome = (case verdict of ScanClean \<Rightarrow> ''clean'' | Infected n \<Rightarrow> ''rejected'')"
proof -
  from assms(1) obtain dk where dk: "document_data_key a ctx (read_processing q w) key = Inr dk"
    "open_original a sha256 ctx (read_processing q w) dk ct = Inr pt"
    by (auto simp: opens_to_def read_processing_upload split: sum.splits)
  have mx: "ur_maximum_bytes (read_processing q w) = ur_maximum_bytes (read_upload q)"
    by (simp add: read_processing_def upload_record.defs)
  show ?thesis
    using assms(2-5) dk mx by (cases verdict)
      (auto simp: quarantine_run_def quarantine_scan_def world_bind_def pure_result_def outcome_text_def)
qed

text \<open>C32: However many runs of the scan handler have failed before, with the object store or the scanner
  unreachable, or with concurrent changes, a quarantined document stays ready: the first run that
  reaches the stored bytes and the scanner completes, the document is clean or rejected as the
  scanner says, and the workflow goes on to OCR or is completed.\<close>

theorem document_scan_completes:
  assumes "scan_ready ctx workflow_id d q w" and "key_known a kek ctx d key"
    and "opens_to a sha256 ctx q key ciphertext plaintext"
    and "failed_scans a sha256 kek sw ctx workflow_id d d1"
    and "sw_get sw (d_object_key q) x = (Inr ciphertext, x1)"
    and "validateDocumentBytes plaintext (d_media_type q) (the (d_maximum_bytes q)) = Inr t"
    and "sw_scan sw plaintext x1 = (Inr verdict, x2)" and "sw_mark_clean sw (d_object_key q) x2 = (Inr (), x3)"
  shows "\<exists>d2 x4 q2 w2. scan_handler a sha256 kek sw ri ctx workflow_id d1 x = (Inr (), d2, x4)
     \<and> q2 \<in> set (documents d2) \<and> row_id q2 = row_id q
     \<and> d_status q2 = (case verdict of ScanClean \<Rightarrow> ''clean'' | Infected n \<Rightarrow> ''rejected'')
     \<and> w2 \<in> set (workflows d2) \<and> row_id w2 = workflow_id
     \<and> w_next w2 = (case verdict of ScanClean \<Rightarrow> Some ''ocr'' | Infected n \<Rightarrow> None)
     \<and> w_status w2 = (case verdict of ScanClean \<Rightarrow> ''running'' | Infected n \<Rightarrow> ''completed'')"
proof -
  have "scan_state a sha256 kek ctx workflow_id ciphertext plaintext q d"
    using assms(1-3) unfolding scan_state_def by blast
  from failed_runs_keep_state [OF assms(4) this] obtain r v k where
    s: "scan_ready ctx workflow_id d1 r v" "key_known a kek ctx d1 k" "opens_to a sha256 ctx r k ciphertext plaintext"
      "row_id r = row_id q" "d_object_key r = d_object_key q" "d_media_type r = d_media_type q"
      "d_maximum_bytes r = d_maximum_bytes q"
    by (auto simp: scan_state_def)
  from s(1) have mx: "ur_maximum_bytes (read_upload r) = the (d_maximum_bytes q)" and v: "row_id v = workflow_id"
    and st: "d_status r = ''quarantined''" "w_next v = Some ''scan''"
    using s(7) sql_select_hd by (fastforce simp: scan_ready_def document_row_ok_def document_state_ok_def read_upload_def)+
  obtain outcome x4 where run: "quarantine_run a sha256 sw ctx (read_processing r v) k x = (Inr outcome, x4)"
    and oc: "outcome_text outcome = (case verdict of ScanClean \<Rightarrow> ''clean'' | Infected n \<Rightarrow> ''rejected'')"
    using quarantine_runs [OF s(3), of sw x x1 t verdict x2 x3 v] assms(5-8) s(5,6) mx by auto
  obtain n where key: "getOrCreateActiveKey a kek (ri_key_id ri) (ri_random_key ri) (ri_key_iv ri) (ri_now ri) ctx d1
      = (Inr (n, k), d1)" using key_known_get [OF s(2)] by blast
  have "outcome_text outcome \<in> {''clean'', ''rejected''}" using oc by (cases verdict) simp_all
  from ready_scan_commits [OF s(1) this, of "ri_now ri"] obtain d2 where
    c: "completeDocumentScan ctx (row_id r) workflow_id (row_version r) (row_version v) (outcome_text outcome) (ri_now ri) d1
      = (Inr (), d2)" and in2: "scanned_set (outcome_text outcome) (ri_now ri) r \<in> set (documents d2)"
      "scan_workflow_set (outcome_text outcome) v \<in> set (workflows d2)" by blast
  have "scan_handler a sha256 kek sw ri ctx workflow_id d1 x = (Inr (), d2, x4)"
    using ready_input [OF s(1)] key run c st v by (simp add: scan_handler_def scan_attempt_def record_failure_def)
  moreover have "w_next (scan_workflow_set (outcome_text outcome) v) = (case verdict of ScanClean \<Rightarrow> Some ''ocr'' | Infected n \<Rightarrow> None)"
    "w_status (scan_workflow_set (outcome_text outcome) v) = (case verdict of ScanClean \<Rightarrow> ''running'' | Infected n \<Rightarrow> ''completed'')"
    using oc by (cases verdict; simp add: scan_workflow_set_def)+
  moreover have "row_id (scanned_set (outcome_text outcome) (ri_now ri) r) = row_id q"
    "d_status (scanned_set (outcome_text outcome) (ri_now ri) r) = outcome_text outcome"
    "row_id (scan_workflow_set (outcome_text outcome) v) = workflow_id"
    using s(4) v by (simp_all add: scanned_set_def scan_workflow_set_def)
  ultimately show ?thesis using in2 oc
    by (intro exI [of _ d2] exI [of _ x4] exI [of _ "scanned_set (outcome_text outcome) (ri_now ri) r"]
        exI [of _ "scan_workflow_set (outcome_text outcome) v"]) simp
qed

section \<open>A document that gets scanned\<close>

lemma known_key:
  assumes "getOrCreateActiveKey a kek i k0 iv now ctx d = (Inr (v, k), d)"
  shows "key_known a kek ctx d k"
proof (cases "active_keys (tenant_session ctx) d")
  case Nil
  with assms obtain r where "d \<lparr> household_keys := household_keys d @ [r] \<rparr> = d"
    by (auto simp: getOrCreateActiveKey_def withTenant_def household_keys_t.insert_returning_Inr)
  from arg_cong [OF this, of household_keys] show ?thesis by simp
next
  case (Cons r rs)
  with assms show ?thesis by (auto simp: key_known_def getOrCreateActiveKey_def withTenant_def)
qed

definition sample_digest :: "string \<Rightarrow> string" where
  "sample_digest b = replicate 32 (CHR ''d'')"

definition sample_document :: "json \<Rightarrow> document_row" where
  "sample_document wrapped = \<lparr> row_org = ''o'', row_hh = ''h'', row_id = ''q'', row_version = 2,
     d_object_key = ''quarantine/1'', d_sha256 = hex_text (sample_digest []), d_media_type = ''application/pdf'',
     d_status = ''quarantined'', d_key_version = 1, d_wrapped_key = Some wrapped, d_maximum_bytes = Some 1000,
     d_ciphertext_sha256 = Some (hex_text (sample_digest [])), d_uploaded = Some 1, d_processed = None,
     d_error = None, d_expires = None, d_delete_original = True, d_original_deleted = None \<rparr>"

definition document_db :: "json \<Rightarrow> db" where
  "document_db wrapped = empty_db \<lparr> documents := [sample_document wrapped], workflows := [new_workflow report_ctx ''w''
     ''document-processing'' ''document:q'' ''scan'' (Some (''Document'', ''q''))] \<rparr>"

definition sample_scan_world :: "string \<Rightarrow> bool scan_world" where
  "sample_scan_world ct = \<lparr> sw_get = (\<lambda>k x. (if x then Inr ct else Inl (js_error ''timeout''), x)),
     sw_mark_clean = (\<lambda>k x. (Inr (), x)), sw_scan = (\<lambda>b x. (Inr ScanClean, x)) \<rparr>"

lemma envelope_read_back:
  assumes "encryptEnvelope a iv m key c = Inr e"
  shows "storedEnvelope (JObj (envelope_members e)) = Inr e" "js_truthy (JObj (envelope_members e))"
    "json_parse (json_stringify (JObj (envelope_members e))) = Some (JObj (envelope_members e))"
proof -
  have "env_algorithm e = ''A256GCM''" "is_safe_integer (env_version e)"
    using assms by (auto simp: encryptEnvelope_Inr associatedData_def split: if_splits)
  then show "storedEnvelope (JObj (envelope_members e)) = Inr e" by (simp add: read_envelope_def envelope_members_def)
  show "js_truthy (JObj (envelope_members e))" by simp
  have "json_wf (JObj (envelope_members e))" by (simp add: envelope_members_def)
  then show "json_parse (json_stringify (JObj (envelope_members e))) = Some (JObj (envelope_members e))"
    by (rule json_parse_stringify)
qed

lemma sample_document_opens:
  "\<exists>wrapped ct. js_truthy wrapped \<and> opens_to plain_aead sample_digest report_ctx (sample_document wrapped) sample_key ct ''%PDF-1.7''"
proof -
  let ?c = "\<lambda>purpose. \<lparr> ec_org = ''o'', ec_hh = ''h'', ec_record = ''q'', ec_purpose = purpose, ec_version = 1 \<rparr>"
  obtain aad1 aad2 where "associatedData (?c ''document-data-key'') = Inr aad1" "associatedData (?c ''document-original'') = Inr aad2"
    using assoc_ok [of "?c ''document-data-key''"] assoc_ok [of "?c ''document-original''"] by auto
  then obtain e1 e2 where e: "encryptEnvelope plain_aead sample_iv sample_key sample_key (?c ''document-data-key'') = Inr e1"
    "encryptEnvelope plain_aead sample_iv ''%PDF-1.7'' sample_key (?c ''document-original'') = Inr e2"
    by (simp add: encryptEnvelope_Inr)
  let ?w = "JObj (envelope_members e1)" and ?ct = "utf8_bytes (json_stringify (JObj (envelope_members e2)))"
  have "document_data_key plain_aead report_ctx (read_upload (sample_document ?w)) sample_key = Inr sample_key"
    using envelope_read_back(1) [OF e(1)] decrypt_encrypt_plain [OF plain_aead_ok _ e(1)]
    by (simp add: document_data_key_def document_context_def read_upload_def sample_document_def)
  moreover have "open_original plain_aead sample_digest report_ctx (read_upload (sample_document ?w)) sample_key ?ct
      = Inr ''%PDF-1.7''"
    using envelope_read_back(1,3) [OF e(2)] decrypt_encrypt_plain [OF plain_aead_ok _ e(2)]
    by (simp add: open_original_def document_context_def read_upload_def sample_document_def sample_digest_def
        del: json_stringify.simps)
  ultimately have "opens_to plain_aead sample_digest report_ctx (sample_document ?w) sample_key ?ct ''%PDF-1.7''"
    by (simp add: opens_to_def)
  with envelope_read_back(2) [OF e(1)] show ?thesis by blast
qed

lemma sample_ready:
  assumes "js_truthy wrapped"
  shows "\<exists>d. scan_ready report_ctx ''w'' d (sample_document wrapped)
      (new_workflow report_ctx ''w'' ''document-processing'' ''document:q'' ''scan'' (Some (''Document'', ''q'')))
     \<and> key_known plain_aead sample_key report_ctx d sample_key \<and> documents d = [sample_document wrapped]"
proof -
  obtain aad where "associatedData (key_context ''o'' ''h'' 1) = Inr aad"
    using assoc_ok [of "key_context ''o'' ''h'' 1"] by (auto simp: key_context_def)
  then obtain d where d: "getOrCreateActiveKey plain_aead sample_key ''i'' sample_key sample_iv 5 report_ctx
      (document_db wrapped) = (Inr (1, sample_key), d)"
    by (simp add: getOrCreateActiveKey_def withTenant_def active_keys_def sql_select_def document_db_def empty_db_def
        order_by_def createWrappedHouseholdKey_def assertAesKey_def encryptEnvelope_def case_prod_beta
        household_keys_t.insert_returning_Inr)
  from active_key_frame [OF d] obtain ks where ks: "d = document_db wrapped \<lparr> household_keys := ks \<rparr>" by blast
  have "key_known plain_aead sample_key report_ctx d sample_key"
    using active_key_stable_aux [OF plain_aead_ok _ d] known_key by fastforce
  moreover have sha: "sha256_text (hex_text (sample_digest []))" by code_simp
  have "scan_ready report_ctx ''w'' d (sample_document wrapped)
      (new_workflow report_ctx ''w'' ''document-processing'' ''document:q'' ''scan'' (Some (''Document'', ''q'')))"
    using assms sha by (simp add: ks scan_ready_def document_db_def empty_db_def sql_select_def new_workflow_def
        document_of_def key_present_def document_row_ok_def document_state_ok_def document_statuses_def sample_document_def)
  moreover have "documents d = [sample_document wrapped]" by (simp add: ks document_db_def)
  ultimately show ?thesis by blast
qed

lemma pdf_valid: "validateDocumentBytes ''%PDF-1.7'' ''application/pdf'' 1000 = Inr Pdf"
  by code_simp

theorem document_scan_completes_witness:
  "\<exists>d d2 x ct. scan_handler plain_aead sample_digest sample_key (sample_scan_world ct) sample_run_inputs report_ctx ''w'' d True
     = (Inr (), d2, x) \<and> (\<exists>q2 \<in> set (documents d2). d_status q2 = ''clean'')"
proof -
  from sample_document_opens obtain wrapped ct where o: "js_truthy wrapped"
    "opens_to plain_aead sample_digest report_ctx (sample_document wrapped) sample_key ct ''%PDF-1.7''" by blast
  from sample_ready [OF o(1)] obtain d where d: "scan_ready report_ctx ''w'' d (sample_document wrapped)
      (new_workflow report_ctx ''w'' ''document-processing'' ''document:q'' ''scan'' (Some (''Document'', ''q'')))"
    "key_known plain_aead sample_key report_ctx d sample_key" by blast
  have w: "sw_get (sample_scan_world ct) (d_object_key (sample_document wrapped)) True = (Inr ct, True)"
    "validateDocumentBytes ''%PDF-1.7'' (d_media_type (sample_document wrapped)) (the (d_maximum_bytes (sample_document wrapped))) = Inr Pdf"
    "sw_scan (sample_scan_world ct) ''%PDF-1.7'' True = (Inr ScanClean, True)"
    "sw_mark_clean (sample_scan_world ct) (d_object_key (sample_document wrapped)) True = (Inr (), True)"
    using pdf_valid by (simp_all add: sample_scan_world_def sample_document_def)
  from document_scan_completes [OF d o(2) failed_scans.no_run w, of sample_run_inputs] show ?thesis by auto
qed

theorem clean_document_was_scanned_witness:
  "\<exists>ct stored x1. sw_get (sample_scan_world ct) ''quarantine/1'' True = (Inr stored, x1)
     \<and> (\<exists>plaintext t x2. has_signature t plaintext \<and> sw_scan (sample_scan_world ct) plaintext x1 = (Inr ScanClean, x2)
          \<and> int (length plaintext) \<le> 1000)"
proof -
  from sample_document_opens obtain wrapped ct where o: "js_truthy wrapped"
    "opens_to plain_aead sample_digest report_ctx (sample_document wrapped) sample_key ct ''%PDF-1.7''" by blast
  from sample_ready [OF o(1)] obtain d where d: "scan_ready report_ctx ''w'' d (sample_document wrapped)
      (new_workflow report_ctx ''w'' ''document-processing'' ''document:q'' ''scan'' (Some (''Document'', ''q'')))"
    "key_known plain_aead sample_key report_ctx d sample_key" "documents d = [sample_document wrapped]" by blast
  have w: "sw_get (sample_scan_world ct) (d_object_key (sample_document wrapped)) True = (Inr ct, True)"
    "validateDocumentBytes ''%PDF-1.7'' (d_media_type (sample_document wrapped))
       (ur_maximum_bytes (read_upload (sample_document wrapped))) = Inr Pdf"
    "sw_scan (sample_scan_world ct) ''%PDF-1.7'' True = (Inr ScanClean, True)"
    "sw_mark_clean (sample_scan_world ct) (d_object_key (sample_document wrapped)) True = (Inr (), True)"
    using pdf_valid by (simp_all add: sample_scan_world_def sample_document_def read_upload_def)
  obtain outcome x4 where run: "quarantine_run plain_aead sample_digest (sample_scan_world ct) report_ctx
      (read_processing (sample_document wrapped) (new_workflow report_ctx ''w'' ''document-processing'' ''document:q'' ''scan''
         (Some (''Document'', ''q'')))) sample_key True = (Inr outcome, x4)" and oc: "outcome_text outcome = ''clean''"
    using quarantine_runs [OF o(2) w, where w = "new_workflow report_ctx ''w'' ''document-processing'' ''document:q'' ''scan''
         (Some (''Document'', ''q''))"] by auto
  obtain n where key: "getOrCreateActiveKey plain_aead sample_key ''k'' sample_key sample_iv 5 report_ctx d
      = (Inr (n, sample_key), d)" using key_known_get [OF d(2)] by blast
  from ready_scan_commits [OF d(1), of "outcome_text outcome" 5] oc obtain d2 where
    c: "completeDocumentScan report_ctx ''q'' ''w'' 2 1 (outcome_text outcome) 5 d = (Inr (), d2)"
      "scanned_set (outcome_text outcome) 5 (sample_document wrapped) \<in> set (documents d2)"
    by (auto simp: sample_document_def new_workflow_def)
  have h: "scan_handler plain_aead sample_digest sample_key (sample_scan_world ct) sample_run_inputs report_ctx ''w'' d True
     = (Inr (), d2, x4)"
    using ready_input [OF d(1)] key run c(1)
    by (simp add: scan_handler_def scan_attempt_def record_failure_def sample_run_inputs_def sample_document_def new_workflow_def)
  have q: "d_status (scanned_set (outcome_text outcome) 5 (sample_document wrapped)) = ''clean''"
    "\<forall>q \<in> set (documents d). row_id q = row_id (scanned_set (outcome_text outcome) 5 (sample_document wrapped))
       \<longrightarrow> d_status q \<noteq> ''clean''"
    using oc by (simp_all add: scanned_set_def d(3)) (simp add: sample_document_def)
  from clean_document_was_scanned [OF h c(2) q] obtain q stored pt y1 y2 t where
    f: "q \<in> set (documents d)" "sw_get (sample_scan_world ct) (d_object_key q) True = (Inr stored, y1)"
    "int (length pt) \<le> the (d_maximum_bytes q)" "has_signature t pt" "sw_scan (sample_scan_world ct) pt y1 = (Inr ScanClean, y2)"
    by blast
  from f(1) have "d_object_key q = ''quarantine/1''" "the (d_maximum_bytes q) = 1000"
    by (simp_all add: d(3) sample_document_def)
  with f(2,3) have "sw_get (sample_scan_world ct) ''quarantine/1'' True = (Inr stored, y1)" "int (length pt) \<le> 1000"
    by simp_all
  with f(4,5) show ?thesis by blast
qed

end
