(* ===== verification/Document_Lifecycle.thy ===== *)
theory Document_Lifecycle
  imports Document_Worker
begin

text \<open>
  The documents of the database over any sequence of uploads, scan runs, OCR runs and extractions,
  by any tenants and in any interleaving of their transactions: what never changes, what only
  moves forward, and when an original may be gone.
\<close>

section \<open>Progress of a document\<close>

definition status_reaches :: "string \<Rightarrow> string \<Rightarrow> bool" where
  "status_reaches s s' \<longleftrightarrow> s = s' \<or> s = ''pending'' \<and> s' \<in> {''quarantined'', ''clean'', ''rejected''}
     \<or> s = ''quarantined'' \<and> s' \<in> {''clean'', ''rejected''}"

definition progressed :: "document_row \<Rightarrow> document_row \<Rightarrow> bool" where
  "progressed q q' \<longleftrightarrow> row_org q' = row_org q \<and> row_hh q' = row_hh q \<and> row_id q' = row_id q
     \<and> d_object_key q' = d_object_key q \<and> d_sha256 q' = d_sha256 q \<and> d_media_type q' = d_media_type q
     \<and> d_key_version q' = d_key_version q \<and> d_wrapped_key q' = d_wrapped_key q
     \<and> d_maximum_bytes q' = d_maximum_bytes q \<and> d_delete_original q' = d_delete_original q
     \<and> status_reaches (d_status q) (d_status q') \<and> row_version q \<le> row_version q'
     \<and> (d_original_deleted q = None \<or> d_original_deleted q' = d_original_deleted q)"

lemma progressed_refl [simp]: "progressed q q"
  by (simp add: progressed_def status_reaches_def)

lemma status_reaches_trans: "status_reaches a b \<Longrightarrow> status_reaches b c \<Longrightarrow> status_reaches a c"
  by (auto simp: status_reaches_def)

lemma progressed_trans: "progressed a b \<Longrightarrow> progressed b c \<Longrightarrow> progressed a c"
  unfolding progressed_def by (metis order_trans status_reaches_trans)

definition all_progress :: "db \<Rightarrow> db \<Rightarrow> bool" where
  "all_progress d d' \<longleftrightarrow> (\<forall>q \<in> set (documents d). \<exists>q' \<in> set (documents d'). progressed q q')"

lemma all_progress_same: "documents d' = documents d \<Longrightarrow> all_progress d d'"
  unfolding all_progress_def using progressed_refl by metis

lemma all_progress_trans: "all_progress a b \<Longrightarrow> all_progress b c \<Longrightarrow> all_progress a c"
  unfolding all_progress_def using progressed_trans by meson

lemma all_progress_update:
  assumes "documents d' = sql_update s p f (documents d)" and "\<And>r. p r \<Longrightarrow> progressed r (f r)"
  shows "all_progress d d'"
  unfolding all_progress_def
proof
  fix q assume q: "q \<in> set (documents d)"
  let ?q = "if tenant_visible s q \<and> p q then f q else q"
  have "?q \<in> set (documents d')" using q by (auto simp: assms(1) in_sql_update)
  moreover have "progressed q ?q" using assms(2) [of q] by simp
  ultimately show "\<exists>q' \<in> set (documents d'). progressed q q'" by blast
qed

section \<open>The invariant\<close>

text \<open>A workflow that is past, or at, the deletion of the original.\<close>

definition deleting :: "workflow_row \<Rightarrow> bool" where
  "deleting w \<longleftrightarrow> w_subject_type w = Some ''Document''
     \<and> (w_next w = Some ''delete-original'' \<or> ''delete-original'' \<in> set (w_completed_steps w))"

definition derived :: "db \<Rightarrow> string \<Rightarrow> bool" where
  "derived d i \<longleftrightarrow> (\<exists>r \<in> set (derivatives d). dd_document r = i \<and> dd_kind r = ''searchable-pdf'')"

definition lifecycle_ok :: "db \<Rightarrow> bool" where
  "lifecycle_ok d \<longleftrightarrow> distinct (map row_id (workflows d))
     \<and> (\<forall>q \<in> set (documents d). document_row_ok q)
     \<and> (\<forall>w \<in> set (workflows d). deleting w \<longrightarrow> (\<exists>i. w_subject_id w = Some i \<and> derived d i))
     \<and> (\<forall>q \<in> set (documents d). d_original_deleted q \<noteq> None \<longrightarrow> d_delete_original q \<and> derived d (row_id q))"

definition keeps :: "db \<Rightarrow> db \<Rightarrow> bool" where
  "keeps d d' \<longleftrightarrow> (lifecycle_ok d \<longrightarrow> lifecycle_ok d') \<and> all_progress d d'"

lemma keeps_same:
  "documents d' = documents d \<Longrightarrow> workflows d' = workflows d \<Longrightarrow> derivatives d' = derivatives d \<Longrightarrow> keeps d d'"
  by (simp add: keeps_def lifecycle_ok_def derived_def all_progress_same)

lemma keeps_refl [simp]: "keeps d d"
  by (simp add: keeps_same)

lemma keeps_trans: "keeps a b \<Longrightarrow> keeps b c \<Longrightarrow> keeps a c"
  using all_progress_trans by (auto simp: keeps_def)

lemma derived_mono: "set (derivatives d) \<subseteq> set (derivatives d') \<Longrightarrow> derived d i \<Longrightarrow> derived d' i"
  by (auto simp: derived_def)

text \<open>The clauses one by one, for an update of documents and one of workflows.\<close>

lemma documents_ok_update:
  assumes "\<forall>q \<in> set t. document_row_ok q" and "list_all document_row_ok (map f (sql_select s p t))"
  shows "\<forall>q \<in> set (sql_update s p f t). document_row_ok q"
  using assms by (auto simp: in_sql_update list_all_iff)

lemma lifecycle_step:
  assumes "lifecycle_ok d" and "set (derivatives d) \<subseteq> set (derivatives d')"
    and "map row_id (workflows d') = map row_id (workflows d)"
    and "\<forall>q \<in> set (documents d'). document_row_ok q"
    and "\<And>w'. w' \<in> set (workflows d') \<Longrightarrow> deleting w' \<Longrightarrow>
      (\<exists>w \<in> set (workflows d). w_subject_id w = w_subject_id w' \<and> deleting w) \<or> (\<exists>i. w_subject_id w' = Some i \<and> derived d' i)"
    and "\<And>q'. q' \<in> set (documents d') \<Longrightarrow> d_original_deleted q' \<noteq> None \<Longrightarrow>
      (\<exists>q \<in> set (documents d). row_id q = row_id q' \<and> d_delete_original q = d_delete_original q' \<and> d_original_deleted q \<noteq> None)
      \<or> d_delete_original q' \<and> derived d' (row_id q')"
  shows "lifecycle_ok d'"
proof -
  have "\<exists>i. w_subject_id w' = Some i \<and> derived d' i" if "w' \<in> set (workflows d')" "deleting w'" for w'
    using assms(5) [OF that] assms(1) derived_mono [OF assms(2)] unfolding lifecycle_ok_def by metis
  moreover have "d_delete_original q' \<and> derived d' (row_id q')"
    if "q' \<in> set (documents d')" "d_original_deleted q' \<noteq> None" for q'
    using assms(6) [OF that] assms(1) derived_mono [OF assms(2)] unfolding lifecycle_ok_def by metis
  ultimately show ?thesis using assms(1,3,4) by (auto simp: lifecycle_ok_def)
qed

text \<open>
  What a pair of updates, of documents and of workflows, has to show: the row constraints of the
  new documents, that they progressed, and that neither a workflow nor a document gets past the
  deletion of an original without a derivative.
\<close>

lemma keeps_updates:
  assumes d': "d' = d \<lparr> documents := sql_update s p f (documents d), workflows := sql_update s pw fw (workflows d) \<rparr>"
    and ok: "list_all document_row_ok (map f (sql_select s p (documents d)))"
    and prog: "\<And>q. p q \<Longrightarrow> progressed q (f q)"
    and fw: "\<And>w. (row_id (fw w), w_subject_type (fw w), w_subject_id (fw w)) = (row_id w, w_subject_type w, w_subject_id w)"
    and dw: "\<And>w. lifecycle_ok d \<Longrightarrow> w \<in> set (workflows d) \<Longrightarrow> tenant_visible s w \<Longrightarrow> pw w \<Longrightarrow> deleting (fw w) \<Longrightarrow>
      deleting w \<or> (\<exists>i. w_subject_id w = Some i \<and> derived d i)"
    and dd: "\<And>q. lifecycle_ok d \<Longrightarrow> q \<in> set (documents d) \<Longrightarrow> tenant_visible s q \<Longrightarrow> p q \<Longrightarrow> d_original_deleted (f q) \<noteq> None \<Longrightarrow>
      d_original_deleted q \<noteq> None \<or> d_delete_original q \<and> derived d (row_id q)"
  shows "keeps d d'"
proof -
  have "all_progress d d'"
    by (rule all_progress_update [where s = s and p = p and f = f]) (simp_all add: d' prog)
  moreover have "lifecycle_ok d'" if l: "lifecycle_ok d"
  proof (rule lifecycle_step [OF l])
    show "\<forall>q \<in> set (documents d'). document_row_ok q"
      using documents_ok_update [OF _ ok] l by (simp add: d' lifecycle_ok_def)
    show "map row_id (workflows d') = map row_id (workflows d)"
      using fw by (simp add: d' map_sql_update)
    show "set (derivatives d) \<subseteq> set (derivatives d')" by (simp add: d')
  next
    fix w' assume w': "w' \<in> set (workflows d')" "deleting w'"
    then obtain w where w: "w \<in> set (workflows d)" "w' = (if tenant_visible s w \<and> pw w then fw w else w)"
      by (auto simp: d' in_sql_update)
    have "w_subject_id w' = w_subject_id w" using w(2) fw [of w] by simp
    moreover have "deleting w \<or> (\<exists>i. w_subject_id w = Some i \<and> derived d i)"
      using dw [OF l w(1)] w'(2) w(2) by (auto split: if_splits)
    ultimately show "(\<exists>w \<in> set (workflows d). w_subject_id w = w_subject_id w' \<and> deleting w)
        \<or> (\<exists>i. w_subject_id w' = Some i \<and> derived d' i)"
      using w(1) by (auto simp: d' derived_def)
  next
    fix q' assume q': "q' \<in> set (documents d')" "d_original_deleted q' \<noteq> None"
    then obtain q where q: "q \<in> set (documents d)" "q' = (if tenant_visible s q \<and> p q then f q else q)"
      by (auto simp: d' in_sql_update)
    have "row_id q' = row_id q \<and> d_delete_original q' = d_delete_original q"
      using q(2) prog [of q] by (simp add: progressed_def)
    moreover have "d_original_deleted q \<noteq> None \<or> d_delete_original q \<and> derived d (row_id q)"
      using dd [OF l q(1)] q'(2) q(2) by (auto split: if_splits)
    ultimately show "(\<exists>q \<in> set (documents d). row_id q = row_id q' \<and> d_delete_original q = d_delete_original q'
        \<and> d_original_deleted q \<noteq> None) \<or> d_delete_original q' \<and> derived d' (row_id q')"
      using q(1) by (auto simp: d' derived_def)
  qed
  ultimately show ?thesis by (simp add: keeps_def)
qed

lemma sql_update_never [simp]: "sql_update s (\<lambda>_. False) f t = t"
  by (simp add: sql_update_def)

lemma sql_select_never [simp]: "sql_select s (\<lambda>_. False) t = []"
  by (simp add: sql_select_def)

lemma in_add_step: "x \<in> set (add_step y ys) \<longleftrightarrow> x = y \<or> x \<in> set ys"
  by (auto simp: add_step_def)

section \<open>One transaction\<close>

text \<open>Each method either threw and changed nothing, or its statements all succeeded.\<close>

lemma withTenant_cases:
  assumes "withTenant ctx f d = (out, d')"
  obtains "d' = d" | x where "f (tenant_session ctx) d = Inr (x, d')"
  using assms by (cases out) (auto simp: withTenant_def)

lemma progress_sets:
  "progressed r (scan_failed_set c r)"
  "d_status r = ''pending'' \<Longrightarrow> progressed r (uploaded_set h at r)"
  "d_status r = ''quarantined'' \<Longrightarrow> oc \<in> {''clean'', ''rejected''} \<Longrightarrow> progressed r (scanned_set oc at r)"
  "progressed r (original_deleted_set at r)"
  by (auto simp: progressed_def status_reaches_def scan_failed_set_def uploaded_set_def scanned_set_def
      original_deleted_set_def split: option.splits)

lemma deleting_sets:
  "deleting (failure_set c w) \<longleftrightarrow> deleting w"
  "deleting (scan_workflow_set oc w) \<Longrightarrow> deleting w"
  "deleting (extracted_set w) \<Longrightarrow> deleting w"
  by (auto simp: deleting_def failure_set_def scan_workflow_set_def extracted_set_def in_add_step split: if_splits)

lemmas workflow_sets = failure_set_def scan_workflow_set_def extracted_set_def ocr_workflow_set_def deletion_workflow_set_def

lemma scan_keeps:
  assumes "completeDocumentScan ctx i wid dv wv oc at d = (out, d')" and "oc \<in> {''clean'', ''rejected''}"
  shows "keeps d d'"
  using assms(1) unfolding completeDocumentScan_def
proof (cases rule: withTenant_cases)
  case (2 u)
  let ?s = "tenant_session ctx"
  from 2 have ok: "list_all document_row_ok (map (scanned_set oc at) (sql_select ?s (scanned_pred i dv) (documents d)))"
    and d': "d' = d \<lparr> documents := sql_update ?s (scanned_pred i dv) (scanned_set oc at) (documents d),
          workflows := sql_update ?s (at_step wid wv ''scan'') (scan_workflow_set oc) (workflows d) \<rparr>"
    by (auto simp: update_documents_Inr update_workflows_Inr split: if_splits)
  show ?thesis
  proof (rule keeps_updates [OF d' ok])
    show "progressed q (scanned_set oc at q)" if "scanned_pred i dv q" for q
      using that assms(2) by (intro progress_sets) (auto simp: scanned_pred_def)
  qed (auto simp: workflow_sets scanned_set_def dest: deleting_sets(2) [unfolded workflow_sets])
qed simp

lemma failure_keeps:
  assumes "recordDocumentScanFailure ctx i wid c d = (out, d')"
  shows "keeps d d'"
  using assms unfolding recordDocumentScanFailure_def
proof (cases rule: withTenant_cases)
  case (2 u)
  let ?s = "tenant_session ctx" and ?p = "\<lambda>r. row_id r = i \<and> d_status r = ''quarantined''"
  let ?pw = "\<lambda>w. row_id w = wid \<and> w_status w \<noteq> ''completed''"
  from 2 have ok: "list_all document_row_ok (map (scan_failed_set c) (sql_select ?s ?p (documents d)))"
    and d': "d' = d \<lparr> documents := sql_update ?s ?p (scan_failed_set c) (documents d),
          workflows := sql_update ?s ?pw (failure_set c) (workflows d) \<rparr>"
    by (auto simp: update_documents_Inr)
  show ?thesis
    by (rule keeps_updates [OF d' ok])
       (auto simp: deleting_sets(1) progress_sets, simp_all add: failure_set_def scan_failed_set_def)
qed simp

text \<open>The workflow a handler was started for, and the document it processes.\<close>

definition paired :: "db \<Rightarrow> string \<Rightarrow> string \<Rightarrow> bool" where
  "paired d wid i \<longleftrightarrow> (\<forall>w \<in> set (workflows d). row_id w = wid \<longrightarrow>
     w_subject_type w = Some ''Document'' \<and> w_subject_id w = Some i)"

lemma deletion_keeps:
  assumes "completeDocumentOriginalDeletion ctx i wid at d = (out, d')" and "lifecycle_ok d \<Longrightarrow> paired d wid i"
  shows "keeps d d'"
  using assms(1) unfolding completeDocumentOriginalDeletion_def
proof (cases rule: withTenant_cases)
  case (2 u)
  let ?s = "tenant_session ctx" and ?p = "\<lambda>r. row_id r = i \<and> d_delete_original r"
  let ?pw = "\<lambda>w. row_id w = wid \<and> w_next w = Some ''delete-original''"
  let ?pc = "\<lambda>w. row_id w = wid \<and> ''delete-original'' \<in> set (w_completed_steps w)"
  from 2 have ok: "list_all document_row_ok (map (original_deleted_set at) (sql_select ?s ?p (documents d)))"
    and d': "d' = d \<lparr> documents := sql_update ?s ?p (original_deleted_set at) (documents d),
          workflows := sql_update ?s ?pw deletion_workflow_set (workflows d) \<rparr>"
    and one: "length (sql_select ?s ?pw (workflows d)) = 1 \<or> length (sql_select ?s ?pc (workflows d)) = 1"
    by (auto simp: update_documents_Inr Let_def split: if_splits)
  from one have "sql_select ?s ?pw (workflows d) \<noteq> [] \<or> sql_select ?s ?pc (workflows d) \<noteq> []"
    by (metis length_0_conv zero_neq_one)
  then obtain w where w: "w \<in> set (sql_select ?s ?pw (workflows d)) \<or> w \<in> set (sql_select ?s ?pc (workflows d))"
    using last_in_set by blast
  have der: "derived d i" if l: "lifecycle_ok d"
  proof -
    from w have "w \<in> set (workflows d)" "row_id w = wid" and
      st: "w_next w = Some ''delete-original'' \<or> ''delete-original'' \<in> set (w_completed_steps w)" by auto
    with assms(2) [OF l] have "deleting w" "w_subject_id w = Some i" by (auto simp: paired_def deleting_def)
    with l \<open>w \<in> set (workflows d)\<close> show ?thesis by (auto simp: lifecycle_ok_def)
  qed
  show ?thesis
  proof (rule keeps_updates [OF d' ok])
    show "deleting w \<or> (\<exists>i. w_subject_id w = Some i \<and> derived d i)"
      if "lifecycle_ok d" "w \<in> set (workflows d)" "?pw w" for w
      using der [OF that(1)] assms(2) [OF that(1)] that(2,3) by (auto simp: paired_def)
  qed (use der progress_sets in \<open>auto simp: deletion_workflow_set_def\<close>)
qed simp

lemma keeps_derivatives:
  assumes "d' = d \<lparr> derivatives := ts \<rparr>" and "set (derivatives d) \<subseteq> set ts"
  shows "keeps d d'"
proof -
  have der: "derived d i \<Longrightarrow> derived d' i" for i
    by (rule derived_mono) (use assms(2) in \<open>simp_all add: assms(1)\<close>)
  have "lifecycle_ok d'" if "lifecycle_ok d"
    using that der by (auto simp: lifecycle_ok_def assms(1))
  then show ?thesis by (simp add: keeps_def all_progress_same assms(1))
qed

lemma insert_derivative_effect:
  assumes "insert_derivative r s d = Inr (u, d')"
  shows "keeps d d' \<and> derived d' (dd_document r) \<and> documents d' = documents d \<and> workflows d' = workflows d"
proof -
  have k: "dd_kind r = ''searchable-pdf''" using assms by (simp add: insert_derivative_def derivative_row_ok_def split: if_splits)
  show ?thesis
  proof (cases "list_ex (\<lambda>q. dd_document q = dd_document r \<and> dd_kind q = dd_kind r) (derivatives d)")
    case True
    with assms have "d' = d" by (simp add: insert_derivative_def split: if_splits)
    with True k show ?thesis by (auto simp: derived_def list_ex_iff)
  next
    case False
    with assms have d': "d' = d \<lparr> derivatives := derivatives d @ [r] \<rparr>"
      by (auto simp: insert_derivative_def derivatives_t.insert_returning_Inr split: if_splits)
    have "keeps d d'" by (rule keeps_derivatives [OF d']) auto
    with k show ?thesis by (simp add: d' derived_def)
  qed
qed

lemma ocr_keeps:
  assumes "completeDocumentOcr ctx i wid wv di ok sha kv at d = (out, d')" and "lifecycle_ok d \<Longrightarrow> paired d wid i"
  shows "keeps d d' \<and> map (\<lambda>w. (row_id w, w_subject_type w, w_subject_id w)) (workflows d')
    = map (\<lambda>w. (row_id w, w_subject_type w, w_subject_id w)) (workflows d)"
  using assms(1) unfolding completeDocumentOcr_def
proof (cases rule: withTenant_cases)
  case (2 u)
  let ?s = "tenant_session ctx"
  from 2 obtain u1 d1 b where ins: "insert_derivative (new_derivative ctx di i ok sha kv at) ?s d = Inr (u1, d1)"
    and upd: "update_workflows (at_step wid wv ''ocr'') (ocr_workflow_set b) ''document OCR workflow conflict'' ?s d1 = Inr (u, d')"
    by (auto split: if_splits)
  from insert_derivative_effect [OF ins] have 1: "keeps d d1" "derived d1 i" "workflows d1 = workflows d"
    by (simp_all add: new_derivative_def)
  from upd have d': "d' = d1 \<lparr> documents := sql_update ?s (\<lambda>_. False) id (documents d1),
      workflows := sql_update ?s (at_step wid wv ''ocr'') (ocr_workflow_set b) (workflows d1) \<rparr>"
    by (simp add: update_workflows_Inr)
  have k: "keeps d1 d'" if l: "lifecycle_ok d"
  proof (rule keeps_updates [OF d'])
    fix w assume "w \<in> set (workflows d1)" "at_step wid wv ''ocr'' w"
    with assms(2) [OF l] 1(2,3) show "deleting w \<or> (\<exists>i. w_subject_id w = Some i \<and> derived d1 i)"
      by (auto simp: paired_def at_step_def)
  qed (simp_all add: ocr_workflow_set_def)
  have "all_progress d1 d'" by (rule all_progress_same) (simp add: d')
  with 1(1) k have "keeps d d'" unfolding keeps_def using all_progress_trans by blast
  then show ?thesis by (simp add: d' 1(3) sql_update_def ocr_workflow_set_def)
qed simp

lemma paired_cong:
  assumes "map (\<lambda>w. (row_id w, w_subject_type w, w_subject_id w)) (workflows d')
    = map (\<lambda>w. (row_id w, w_subject_type w, w_subject_id w)) (workflows d)" and "paired d wid i"
  shows "paired d' wid i"
  unfolding paired_def
proof (intro ballI impI)
  fix w' assume "w' \<in> set (workflows d')" "row_id w' = wid"
  then have "(wid, w_subject_type w', w_subject_id w') \<in> set (map (\<lambda>w. (row_id w, w_subject_type w, w_subject_id w)) (workflows d))"
    unfolding assms(1) [symmetric] by force
  with assms(2) show "w_subject_type w' = Some ''Document'' \<and> w_subject_id w' = Some i" by (auto simp: paired_def)
qed

lemma input_paired:
  assumes "getDocumentProcessingInput ctx wid d = (Inr p, d0)" and "lifecycle_ok d"
  shows "paired d (pi_workflow p) (ur_id p)"
proof -
  from assms(1) obtain r w where w: "w \<in> set (workflows d)" "document_of w r" "p = read_processing r w"
    by (auto elim: processing_Inr)
  have "w' = w" if "w' \<in> set (workflows d)" "row_id w' = row_id w" for w'
    using assms(2) distinct_map_filter_unique [of row_id "workflows d" w' w] that w(1) by (simp add: lifecycle_ok_def)
  with w(2,3) show ?thesis by (auto simp: paired_def document_of_def)
qed

section \<open>Uploads and extractions\<close>

lemma keeps_new_document:
  assumes "documents d' = documents d @ [r]" and "workflows d' = workflows d" and "derivatives d' = derivatives d"
    and "document_row_ok r" and "d_original_deleted r = None"
  shows "keeps d d'"
proof -
  have "all_progress d d'" unfolding all_progress_def assms(1) using progressed_refl by force
  moreover have "derived d' = derived d" by (intro ext) (simp add: derived_def assms(3))
  ultimately show ?thesis using assms by (auto simp: keeps_def lifecycle_ok_def)
qed

lemma keeps_new_workflow:
  assumes "workflows d' = workflows d @ [w]" and "documents d' = documents d" and "derivatives d' = derivatives d"
    and "\<not> list_ex (same_workflow w) (workflows d)" and "\<not> deleting w"
  shows "keeps d d'"
proof -
  have "row_id w \<notin> row_id ` set (workflows d)" using assms(4) by (auto simp: list_ex_iff same_workflow_def same_id_def)
  moreover have "derived d' = derived d" by (intro ext) (simp add: derived_def assms(3))
  ultimately show ?thesis using assms by (auto simp: keeps_def lifecycle_ok_def all_progress_same)
qed

lemma pending_upload_same: "pending_upload i s d = Inr (u, d') \<Longrightarrow> d' = d"
  by (cases "sql_select s (\<lambda>r. row_id r = i) (documents d)") (simp_all add: pending_upload_def split: if_splits)

lemma start_keeps:
  assumes "startDocumentUpload sha256 ctx consent_id now expires_text i d = (out, d')"
  shows "keeps d d'"
  using assms unfolding startDocumentUpload_def
proof (cases rule: withTenant_cases)
  case (2 u)
  let ?s = "tenant_session ctx" and ?h = "request_hash sha256 (upload_request expires_text i)"
  from 2 obtain x where res: "reserve_upload ?h ctx consent_id now i ?s d = Inr (x, d')"
    by (auto dest: pending_upload_same)
  show ?thesis
  proof (cases "tenant_reserve ctx (ui_idempotency_key i) now ?h d")
    case None
    with res have "d' = d" by (auto simp: reserve_upload_def split: option.splits if_splits)
    then show ?thesis by simp
  next
    case (Some d1)
    from tenant_reserve_frame [OF Some] obtain t where t: "d1 = d \<lparr> idem := t \<rparr>" by blast
    from Some res obtain d2 where ins: "insert_upload ctx consent_id i ?s d1 = Inr ((), d2)"
      and d': "d' = tenant_complete ctx (ui_idempotency_key i) 201 (JObj [(''document'', JObj [(''id'', JStr (ui_id i))])]) d2"
      by (auto simp: reserve_upload_def)
    from ins have d2: "document_row_ok (new_document ctx i)" "documents d2 = documents d @ [new_document ctx i]"
      "workflows d2 = workflows d" "derivatives d2 = derivatives d"
      by (auto simp: insert_upload_def documents_t.insert_returning_Inr document_consents_t.insert_returning_Inr t split: if_splits)
    show ?thesis
      by (rule keeps_new_document [of _ _ "new_document ctx i"])
         (use d2 in \<open>simp_all add: d' tenant_complete_def, simp add: new_document_def\<close>)
  qed
qed simp

lemma complete_upload_Inr:
  assumes "complete_upload_body ctx workflow_id i version h at s d = Inr (v, d')"
  obtains r rs d1 w where "update_documents (uploaded_pred i version) (uploaded_set h at) s d = Inr (r # rs, d1)"
    "insert_returning workflows workflows_update same_workflow
       (new_workflow ctx workflow_id ''document-processing'' (''document:'' @ i) ''scan'' (Some (''Document'', i))) s d1
     = Inr (w, d')"
proof -
  from assms obtain rs d1 where u: "update_documents (uploaded_pred i version) (uploaded_set h at) s d = Inr (rs, d1)"
    by (cases "update_documents (uploaded_pred i version) (uploaded_set h at) s d") (auto simp: complete_upload_body_def)
  with assms that show thesis by (cases rs) (auto simp: complete_upload_body_def)
qed

lemma upload_keeps:
  assumes "completeDocumentUpload sha256 ctx workflow_id now i version h key at d = (out, d')"
  shows "keeps d d'"
  using assms unfolding completeDocumentUpload_def
proof (cases rule: withTenant_cases)
  case (2 v)
  from this show ?thesis
  proof (cases rule: tenant_call_cases)
    case (ran t d2 t')
    let ?s = "tenant_session ctx" and ?d = "d \<lparr> idem := t \<rparr>"
    from ran(2) obtain r rs d1 w where u: "update_documents (uploaded_pred i version) (uploaded_set h at) ?s ?d = Inr (r # rs, d1)"
      and ins: "insert_returning workflows workflows_update same_workflow
              (new_workflow ctx workflow_id ''document-processing'' (''document:'' @ i) ''scan''
                 (Some (''Document'', i))) ?s d1 = Inr (w, d2)"
      by (rule complete_upload_Inr)
    from u have ok: "list_all document_row_ok (map (uploaded_set h at) (sql_select ?s (uploaded_pred i version) (documents ?d)))"
      and d1: "d1 = ?d \<lparr> documents := sql_update ?s (uploaded_pred i version) (uploaded_set h at) (documents ?d),
          workflows := sql_update ?s (\<lambda>_. False) id (workflows ?d) \<rparr>"
      by (auto simp: update_documents_Inr)
    have "keeps d ?d" by (simp add: keeps_same)
    also have "keeps ?d d1"
    proof (rule keeps_updates [OF d1 ok])
      show "progressed q (uploaded_set h at q)" if "uploaded_pred i version q" for q
        using that by (intro progress_sets) (simp add: uploaded_pred_def)
    qed (auto simp: uploaded_set_def)
    also (keeps_trans) have "keeps d1 d2"
      by (rule keeps_new_workflow) (use ins in \<open>auto simp: workflows_t.insert_returning_Inr new_workflow_def deleting_def\<close>)
    also (keeps_trans) have "keeps d2 d'" by (simp add: keeps_same ran(3))
    finally (keeps_trans) show ?thesis .
  qed simp
qed simp

lemma candidates_keep:
  "insert_candidates ctx i at cs s d = Inr (rs, d') \<Longrightarrow> documents d' = documents d \<and> workflows d' = workflows d
     \<and> derivatives d' = derivatives d"
  by (induction cs arbitrary: d rs) (auto simp: evidence_t.insert_returning_Inr facts_t.insert_returning_Inr split: if_splits)

lemma extraction_keeps:
  assumes "completeManualDocumentExtraction ctx now i wid version key fp at cs d = (out, d')"
  shows "keeps d d'"
  using assms unfolding completeManualDocumentExtraction_def
proof (cases rule: withTenant_cases)
  case (2 v)
  from this show ?thesis
  proof (cases rule: tenant_call_cases)
    case (ran t d2 t')
    let ?s = "tenant_session ctx" and ?d = "d \<lparr> idem := t \<rparr>"
    from ran(2) obtain rs d1 u where c: "insert_candidates ctx i at cs ?s ?d = Inr (rs, d1)"
      and upd: "update_workflows (at_step wid version ''classification'') extracted_set
            ''manual extraction completion conflict'' ?s d1 = Inr (u, d2)"
      by (auto simp: extraction_body_def split: if_splits)
    from upd have d2: "d2 = d1 \<lparr> documents := sql_update ?s (\<lambda>_. False) id (documents d1),
        workflows := sql_update ?s (at_step wid version ''classification'') extracted_set (workflows d1) \<rparr>"
      by (simp add: update_workflows_Inr)
    have "keeps d d1" using candidates_keep [OF c] by (simp add: keeps_same)
    also have "keeps d1 d2"
      by (rule keeps_updates [OF d2]) (auto simp: extracted_set_def dest: deleting_sets(3) [unfolded extracted_set_def])
    also (keeps_trans) have "keeps d2 d'" by (simp add: keeps_same ran(3))
    finally (keeps_trans) show ?thesis .
  qed simp
qed simp

section \<open>The handlers\<close>

lemma record_failure_keeps:
  assumes "record_failure ctx p (o1, d1, x1) = (out, d', x')"
  shows "keeps d1 d'"
proof (cases o1)
  case (Inr u)
  with assms show ?thesis by (simp add: record_failure_def)
next
  case (Inl e)
  obtain r d2 where f: "recordDocumentScanFailure ctx (ur_id p) (pi_workflow p) (err_name e) d1 = (r, d2)" by force
  with assms Inl have "d' = d2" by (auto simp: record_failure_def split: sum.splits)
  with failure_keeps [OF f] show ?thesis by simp
qed

lemma outcome_text_cases: "outcome_text oc \<in> {''clean'', ''rejected''}"
  by (cases oc) (simp_all add: outcome_text_def)

lemma scan_handler_keeps:
  assumes "scan_handler a sha256 kek sw ri ctx wid d x = (out, d', x')"
  shows "keeps d d'"
proof -
  obtain res d0 where i: "getDocumentProcessingInput ctx wid d = (res, d0)" by force
  have d0: "d0 = d" by (rule processing_same [OF i])
  show ?thesis
  proof (cases res)
    case (Inl e)
    with assms i d0 show ?thesis by (simp add: scan_handler_def)
  next
    case (Inr p)
    obtain o1 d1 x1 where att: "scan_attempt a sha256 kek sw ri ctx p d x = (o1, d1, x1)" by (metis prod_cases3)
    with assms i d0 Inr have rf: "record_failure ctx p (o1, d1, x1) = (out, d', x')" by (simp add: scan_handler_def)
    from att have "keeps d d1"
    proof (cases rule: scan_attempt_cases)
      case (kept ks)
      then show ?thesis by (simp add: keeps_same)
    next
      case (scanned v key ks outcome)
      have "keeps d (d \<lparr> household_keys := ks \<rparr>)" by (simp add: keeps_same)
      with scan_keeps [OF scanned(6) outcome_text_cases] show ?thesis using keeps_trans by blast
    qed
    with record_failure_keeps [OF rf] show ?thesis using keeps_trans by blast
  qed
qed

lemma delete_original_keeps:
  assumes "delete_original ow ri ctx p d x = (out, d', x')" and "lifecycle_ok d \<Longrightarrow> paired d (pi_workflow p) (ur_id p)"
  shows "keeps d d'"
proof -
  obtain r x1 where del: "ow_delete ow (ur_object_key p) x = (r, x1)" by force
  show ?thesis
  proof (cases r)
    case (Inl e)
    with assms(1) del show ?thesis by (simp add: delete_original_def)
  next
    case (Inr u)
    obtain r2 d2 where c: "completeDocumentOriginalDeletion ctx (ur_id p) (pi_workflow p) (ri_now ri) d = (r2, d2)" by force
    with assms(1) del Inr have "d' = d2" by (simp add: delete_original_def)
    with deletion_keeps [OF c assms(2)] show ?thesis by simp
  qed
qed

lemma delete_original_progress:
  assumes "delete_original ow ri ctx p d x = (out, d', x')"
  shows "all_progress d d'"
proof -
  obtain r x1 where del: "ow_delete ow (ur_object_key p) x = (r, x1)" by force
  obtain r2 d2 where c: "completeDocumentOriginalDeletion ctx (ur_id p) (pi_workflow p) (ri_now ri) d = (r2, d2)" by force
  have "all_progress d d2"
    using c unfolding completeDocumentOriginalDeletion_def
  proof (cases rule: withTenant_cases)
    case (2 u)
    then have "documents d2 = sql_update (tenant_session ctx) (\<lambda>r. row_id r = ur_id p \<and> d_delete_original r)
        (original_deleted_set (ri_now ri)) (documents d)"
      by (auto simp: update_documents_Inr Let_def split: if_splits)
    then show ?thesis by (rule all_progress_update) (rule progress_sets)
  qed (simp add: all_progress_same)
  moreover from assms del c have "d' = d \<or> d' = d2" by (cases r) (simp_all add: delete_original_def)
  ultimately show ?thesis by (auto simp: all_progress_same)
qed

lemma ocr_attempt_keeps:
  assumes "ocr_attempt a sha256 kek ow ri ctx p d x = (out, d', x')" and "lifecycle_ok d \<Longrightarrow> paired d (pi_workflow p) (ur_id p)"
  shows "keeps d d'"
proof (cases "pi_next p = Some ''ocr'' \<and> ur_status p = ''clean''")
  case False
  with assms(1) show ?thesis
    using delete_original_keeps [OF _ assms(2)] by (auto simp: ocr_attempt_def split: if_splits)
next
  case q: True
  obtain res d1 where k: "getOrCreateActiveKey a kek (ri_key_id ri) (ri_random_key ri) (ri_key_iv ri) (ri_now ri) ctx d = (res, d1)"
    by force
  obtain ks where ks: "d1 = d \<lparr> household_keys := ks \<rparr>" using active_key_frame [OF k] by blast
  have k1: "keeps d d1" by (simp add: keeps_same ks)
  have pair: "lifecycle_ok d1 \<Longrightarrow> paired d1 (pi_workflow p) (ur_id p)"
    using assms(2) by (simp add: ks paired_def lifecycle_ok_def derived_def)
  show ?thesis
  proof (cases res)
    case (Inl e)
    with assms(1) q k k1 show ?thesis by (simp add: ocr_attempt_def)
  next
    case (Inr vk)
    obtain v key where vk: "vk = (v, key)" by force
    obtain r x1 where m: "make_derivative a sha256 ow (ri_iv ri) ctx p key x = (r, x1)" by force
    show ?thesis
    proof (cases r)
      case (Inl e)
      with assms(1) q k k1 \<open>res = Inr vk\<close> vk m show ?thesis by (simp add: ocr_attempt_def)
    next
      case sha: (Inr sha)
      obtain r2 d2 where c: "completeDocumentOcr ctx (ur_id p) (pi_workflow p) (pi_workflow_version p) (ur_id p)
          (derivative_object_key p) (hex_text sha) (ur_key_version p) (ri_now ri) d1 = (r2, d2)" by force
      from ocr_keeps [OF c pair] have k2: "keeps d1 d2"
        and m2: "map (\<lambda>w. (row_id w, w_subject_type w, w_subject_id w)) (workflows d2)
          = map (\<lambda>w. (row_id w, w_subject_type w, w_subject_id w)) (workflows d1)" by simp_all
      have k3: "keeps d d2" by (rule keeps_trans [OF k1 k2])
      show ?thesis
      proof (cases "r2 = Inr () \<and> ur_delete_original p")
        case True
        with assms(1) q k \<open>res = Inr vk\<close> vk m sha c
        have del: "delete_original ow ri ctx p d2 x1 = (out, d', x')" by (simp add: ocr_attempt_def)
        have "keeps d2 d'" if "lifecycle_ok d"
        proof (rule delete_original_keeps [OF del])
          show "paired d2 (pi_workflow p) (ur_id p)"
            using paired_cong [OF m2] pair k1 that by (simp add: keeps_def)
        qed
        moreover from del have "all_progress d2 d'" by (rule delete_original_progress)
        ultimately show ?thesis using k3 all_progress_trans unfolding keeps_def by blast
      next
        case False
        with assms(1) q k \<open>res = Inr vk\<close> vk m sha c have "d' = d2"
          by (cases r2) (auto simp: ocr_attempt_def)
        with k3 show ?thesis by simp
      qed
    qed
  qed
qed

lemma ocr_handler_keeps:
  assumes "ocr_handler a sha256 kek ow ri ctx wid d x = (out, d', x')"
  shows "keeps d d'"
proof -
  obtain res d0 where i: "getDocumentProcessingInput ctx wid d = (res, d0)" by force
  have d0: "d0 = d" by (rule processing_same [OF i])
  show ?thesis
  proof (cases res)
    case (Inl e)
    with assms i d0 show ?thesis by (simp add: ocr_handler_def)
  next
    case (Inr p)
    obtain o1 d1 x1 where att: "ocr_attempt a sha256 kek ow ri ctx p d x = (o1, d1, x1)" by (metis prod_cases3)
    with assms i d0 Inr have rf: "record_failure ctx p (o1, d1, x1) = (out, d', x')" by (simp add: ocr_handler_def)
    have "keeps d d1" by (rule ocr_attempt_keeps [OF att]) (use input_paired i Inr in blast)
    with record_failure_keeps [OF rf] show ?thesis using keeps_trans by blast
  qed
qed

section \<open>Every history\<close>

text \<open>
  The object store, the scanner, the OCR adapter and the cipher stay the same; the clock, the
  random values, the tenants and the state of the world are new in each step.
\<close>

inductive document_step ::
  "aead \<Rightarrow> (string \<Rightarrow> string) \<Rightarrow> string \<Rightarrow> 'x scan_world \<Rightarrow> 'x ocr_world \<Rightarrow> db \<Rightarrow> db \<Rightarrow> bool"
  for a sha256 kek sw ow where
  start: "startDocumentUpload sha256 ctx consent_id now expires_text i d = (out, d')
    \<Longrightarrow> document_step a sha256 kek sw ow d d'"
| upload: "completeDocumentUpload sha256 ctx workflow_id now i version h key at d = (res, d')
    \<Longrightarrow> document_step a sha256 kek sw ow d d'"
| scan: "scan_handler a sha256 kek sw ri ctx workflow_id d x = (done_scan, d', x')
    \<Longrightarrow> document_step a sha256 kek sw ow d d'"
| ocr: "ocr_handler a sha256 kek ow ri ctx workflow_id d x = (done_ocr, d', x')
    \<Longrightarrow> document_step a sha256 kek sw ow d d'"
| extraction: "completeManualDocumentExtraction ctx now i workflow_id version key fp at cs d = (res, d')
    \<Longrightarrow> document_step a sha256 kek sw ow d d'"

lemma step_keeps: "document_step a sha256 kek sw ow d d' \<Longrightarrow> keeps d d'"
  by (induction rule: document_step.induct)
     (auto intro: start_keeps upload_keeps scan_handler_keeps ocr_handler_keeps extraction_keeps)

lemma history_keeps: "(document_step a sha256 kek sw ow)\<^sup>*\<^sup>* d d' \<Longrightarrow> keeps d d'"
  by (induction rule: rtranclp_induct) (auto dest: step_keeps keeps_trans)

lemma lifecycle_empty: "lifecycle_ok empty_db"
  by (simp add: lifecycle_ok_def empty_db_def)

text \<open>C8: In every history of uploads, scans, OCR runs and extractions, with any failures of the object
  store, the scanner or the OCR adapter, an original is recorded as deleted only when the upload
  asked for it and the searchable derivative of that document is recorded.\<close>

theorem originals_kept_until_derived:
  assumes "(document_step a sha256 kek sw ow)\<^sup>*\<^sup>* d d'" and "lifecycle_ok d"
    and "q \<in> set (documents d')" and "d_original_deleted q \<noteq> None"
  shows "d_delete_original q \<and> list_ex (\<lambda>r. dd_document r = row_id q \<and> dd_kind r = ''searchable-pdf'') (derivatives d')"
proof -
  have "lifecycle_ok d'" using history_keeps [OF assms(1)] assms(2) by (simp add: keeps_def)
  with assms(3,4) show ?thesis by (auto simp: lifecycle_ok_def derived_def list_ex_iff)
qed

text \<open>C31: In every history from the empty database, every document row satisfies the constraints of its
  table, and a document that was there at one moment is there at every later one with the same
  tenant, object key, checksum, type, size limit and keys; its status only moves from pending to
  quarantined and from quarantined to clean or rejected, and its version never decreases.\<close>

theorem documents_only_progress:
  assumes "(document_step a sha256 kek sw ow)\<^sup>*\<^sup>* empty_db d" and "(document_step a sha256 kek sw ow)\<^sup>*\<^sup>* d d'"
  shows "list_all document_row_ok (documents d')
     \<and> list_all (\<lambda>q. list_ex (progressed q) (documents d')) (documents d)"
proof -
  have ok: "lifecycle_ok d" using history_keeps [OF assms(1)] lifecycle_empty by (simp add: keeps_def)
  then have "lifecycle_ok d'" using history_keeps [OF assms(2)] by (simp add: keeps_def)
  moreover have "all_progress d d'" using history_keeps [OF assms(2)] by (simp add: keeps_def)
  ultimately show ?thesis by (auto simp: lifecycle_ok_def all_progress_def list_all_iff list_ex_iff)
qed

section \<open>Concrete histories\<close>

definition sample_upload :: upload_input where
  "sample_upload = \<lparr> ui_id = ''q'', ui_object_key = ''quarantine/1'', ui_sha256 = hex_text (sample_digest []),
     ui_media_type = ''application/pdf'', ui_wrapped_key = JObj [], ui_key_version = 1, ui_maximum_bytes = 1000,
     ui_idempotency_key = ''k'', ui_expires = None, ui_consent_policy = ''v1'', ui_delete_original = True,
     ui_consented = 1 \<rparr>"

definition uploaded_db :: db where
  "uploaded_db = snd (startDocumentUpload sample_digest report_ctx ''c'' 1 None sample_upload empty_db)"

lemma uploaded_documents: "documents uploaded_db = [new_document report_ctx sample_upload]"
proof -
  have "sha256_text (hex_text (sample_digest []))" by code_simp
  then have "document_row_ok (new_document report_ctx sample_upload)"
    by (simp add: document_row_ok_def new_document_def sample_upload_def document_statuses_def document_state_ok_def)
  then show ?thesis
    by (simp add: uploaded_db_def startDocumentUpload_def withTenant_def transaction_def reserve_upload_def
        tenant_reserve_def insert_upload_def documents_t.insert_returning_Inr insert_returning_def sql_insert_def
        new_document_consent_def empty_db_def pending_upload_def tenant_complete_def)
       (simp add: new_document_def sample_upload_def sql_select_def key_present_def)
qed

theorem documents_only_progress_witness:
  "list_all document_row_ok (documents uploaded_db) \<and> documents uploaded_db \<noteq> []"
proof -
  have s: "document_step plain_aead sample_digest sample_key (sample_scan_world []) ow empty_db uploaded_db" for ow
    by (rule document_step.start [where out = "fst (startDocumentUpload sample_digest report_ctx ''c'' 1 None sample_upload empty_db)"])
       (simp only: uploaded_db_def prod.collapse)
  have "(document_step plain_aead sample_digest sample_key (sample_scan_world []) ow)\<^sup>*\<^sup>* empty_db uploaded_db" for ow
    using s by (rule r_into_rtranclp)
  from documents_only_progress [OF rtranclp.rtrancl_refl this] uploaded_documents show ?thesis by simp
qed

definition deleting_db :: db where
  "deleting_db = empty_db \<lparr> documents := [(sample_document (JObj [])) \<lparr> d_status := ''clean'' \<rparr>],
     workflows := [(new_workflow report_ctx ''w'' ''document-processing'' ''document:q'' ''delete-original''
       (Some (''Document'', ''q'')))],
     derivatives := [new_derivative report_ctx ''q'' ''q'' ''derivatives/q/q.encrypted.json'' [] 1 3] \<rparr>"

definition sample_ocr_world :: "unit ocr_world" where
  "sample_ocr_world = \<lparr> ow_get = (\<lambda>k x. (Inr [], x)), ow_put = (\<lambda>k c h x. (Inr (), x)),
     ow_delete = (\<lambda>k x. (Inr (), x)), ow_ocr = (\<lambda>b t x. (Inr b, x)) \<rparr>"

definition deleted_run :: "unit result \<times> db \<times> unit" where
  "deleted_run = ocr_handler plain_aead sample_digest sample_key sample_ocr_world sample_run_inputs report_ctx ''w'' deleting_db ()"

lemma deleting_ok: "lifecycle_ok deleting_db"
proof -
  have "sha256_text (hex_text (sample_digest []))" by code_simp
  then show ?thesis
    by (simp add: lifecycle_ok_def deleting_db_def document_row_ok_def sample_document_def document_statuses_def
        document_state_ok_def derived_def new_derivative_def new_workflow_def)
qed

lemma deleted_documents:
  "documents (fst (snd deleted_run)) = [original_deleted_set 5 ((sample_document (JObj [])) \<lparr> d_status := ''clean'' \<rparr>)]"
proof -
  have "sha256_text (hex_text (sample_digest []))" by code_simp
  then show ?thesis
    by (simp add: deleted_run_def ocr_handler_def getDocumentProcessingInput_def withTenant_def transaction_def deleting_db_def
        empty_db_def sql_select_def sample_document_def new_workflow_def document_of_def key_present_def read_processing_def
        read_upload_def upload_record.defs ocr_attempt_def delete_original_def sample_ocr_world_def
        completeDocumentOriginalDeletion_def update_documents_def Let_def document_row_ok_def document_statuses_def
        document_state_ok_def original_deleted_set_def record_failure_def sample_run_inputs_def sql_update_def)
qed

theorem originals_kept_until_derived_witness:
  "\<exists>q. q \<in> set (documents (fst (snd deleted_run))) \<and> d_original_deleted q = Some 5 \<and> d_delete_original q"
proof -
  obtain out d' x' where r: "deleted_run = (out, d', x')" by (metis prod_cases3)
  have s: "document_step plain_aead sample_digest sample_key sw sample_ocr_world deleting_db d'" for sw
    by (rule document_step.ocr) (use r in \<open>simp only: deleted_run_def\<close>)
  let ?q = "original_deleted_set 5 ((sample_document (JObj [])) \<lparr> d_status := ''clean'' \<rparr>)"
  have q: "?q \<in> set (documents d')" "d_original_deleted ?q = Some 5"
    using deleted_documents by (simp_all add: r original_deleted_set_def sample_document_def)
  have "d_original_deleted ?q \<noteq> None" using q(2) by simp
  from originals_kept_until_derived [OF _ deleting_ok q(1) this] r_into_rtranclp s
  have "d_delete_original ?q" by metis
  then show ?thesis using q unfolding r fst_conv snd_conv by blast
qed

end
