(* ===== verification/Ai_Cache.thy ===== *)
theory Ai_Cache
  imports Canonical_Json Js_Text Js_Bytes
begin

text \<open>
  \<open>packages/ai-gateway/src/canonical.ts\<close> and \<open>cache.ts\<close>: the text that cache keys and prompts are made
  of, and the exact cache in Redis.  \<open>localeCompare\<close> (the sort key \<open>collate\<close>), \<open>normalize("NFC")\<close>,
  SHA-256 and the Redis client are parameters.
\<close>

section \<open>Stable text\<close>

text \<open>
  \<open>Object.fromEntries\<close> makes an object whose array indices come first, in ascending order, and whose
  other members follow in the order they were added.
\<close>

definition array_index :: "string \<Rightarrow> int option" where
  "array_index k = (if k \<noteq> [] \<and> list_all (crange CHR ''0'' CHR ''9'') k \<and> (k = ''0'' \<or> hd k \<noteq> CHR ''0'')
       \<and> int (read_digits k) < 4294967295
     then Some (int (read_digits k)) else None)"

definition own_order :: "(string \<times> json) list \<Rightarrow> (string \<times> json) list" where
  "own_order kvs = sort_key (\<lambda>(k, v). case array_index k of Some n \<Rightarrow> n | None \<Rightarrow> 4294967295) kvs"

fun canonicalize :: "(string \<Rightarrow> 'k::linorder) \<Rightarrow> (string \<Rightarrow> string) \<Rightarrow> json \<Rightarrow> json" where
  "canonicalize collate nfc (JArr vs) = JArr (map (canonicalize collate nfc) vs)"
| "canonicalize collate nfc (JObj kvs) =
     JObj (own_order (map (\<lambda>(k, v). (k, canonicalize collate nfc v)) (by_key collate kvs)))"
| "canonicalize collate nfc (JStr s) = JStr (nfc s)"
| "canonicalize collate nfc v = v"

definition stableStringify :: "(string \<Rightarrow> 'k::linorder) \<Rightarrow> (string \<Rightarrow> string) \<Rightarrow> json \<Rightarrow> string" where
  "stableStringify collate nfc v = json_stringify (canonicalize collate nfc v)"

record prompt_envelope =
  pe_family :: string
  pe_version :: string
  pe_global :: string
  pe_task :: string
  pe_schema :: json
  pe_capsule :: json
  pe_content :: string

definition prompt_prefix :: "prompt_envelope \<Rightarrow> json" where
  "prompt_prefix p = JObj [(''globalPolicy'', JStr (pe_global p)), (''outputSchema'', pe_schema p),
     (''promptFamily'', JStr (pe_family p)), (''promptVersion'', JStr (pe_version p)),
     (''safeHouseholdCapsule'', pe_capsule p), (''taskPolicy'', JStr (pe_task p))]"

text \<open>The stable prefix and the volatile content of a prompt.\<close>

definition buildPrompt :: "(string \<Rightarrow> 'k::linorder) \<Rightarrow> (string \<Rightarrow> string) \<Rightarrow> prompt_envelope \<Rightarrow> string \<times> string" where
  "buildPrompt collate nfc p = (stableStringify collate nfc (prompt_prefix p), trim (nfc (pe_content p)))"

section \<open>Keys\<close>

definition hash_text :: "(string \<Rightarrow> string) \<Rightarrow> string \<Rightarrow> string" where
  "hash_text sha256 t = hex_text (sha256 (utf8_bytes t))"

definition aiExactCacheNamespace :: "(string \<Rightarrow> string) \<Rightarrow> string \<Rightarrow> string \<Rightarrow> string" where
  "aiExactCacheNamespace sha256 environment queue =
     ''legacy:ai-exact:'' @ take 16 (hash_text sha256 (environment @ '':'' @ queue))"

definition aiCacheScopeKey ::
  "(string \<Rightarrow> 'k::linorder) \<Rightarrow> (string \<Rightarrow> string) \<Rightarrow> (string \<Rightarrow> string) \<Rightarrow> string \<Rightarrow> string \<Rightarrow> string" where
  "aiCacheScopeKey collate nfc sha256 org hh = hash_text sha256 (stableStringify collate nfc
     (JObj [(''organizationId'', JStr org), (''householdId'', JStr hh)]))"

section \<open>The cache\<close>

datatype redis_command = RSet string string int | RSadd string string | RExpire string int

text \<open>The Redis client: connecting when needed, the commands the cache sends, and the error observer.\<close>

record 'x redis =
  rd_ready :: "('x, unit) world_op"
  rd_get :: "string \<Rightarrow> ('x, string option) world_op"
  rd_exec :: "redis_command list \<Rightarrow> ('x, unit) world_op"
  rd_smembers :: "string \<Rightarrow> ('x, string list) world_op"
  rd_del :: "string list \<Rightarrow> ('x, unit) world_op"
  rd_observe :: "string \<Rightarrow> 'x \<Rightarrow> 'x"

definition cache_key_re :: re where
  "cache_key_re = whole (times 64 hex_digit)"

definition namespace_re :: re where
  "namespace_re = (let first = cor (crange CHR ''a'' CHR ''z'') (crange CHR ''0'' CHR ''9'') in
     whole (seqs [Cls first, Rep (Cls (cor first (one_of '':-''))) 2 (Some 119)]))"

text \<open>The checks of the constructor; \<open>protocol\<close> is that of the parsed URL.\<close>

definition cache_config :: "string \<Rightarrow> bool \<Rightarrow> string \<Rightarrow> unit result" where
  "cache_config protocol require_tls namespace =
     (if require_tls \<and> protocol \<noteq> ''rediss:'' then Inl (js_error ''production AI cache requires TLS Redis'')
      else if \<not> re_test namespace_re namespace then Inl (js_error ''AI cache namespace is invalid'')
      else Inr ())"

definition namespaced :: "string \<Rightarrow> string \<Rightarrow> string result" where
  "namespaced namespace key =
     (if \<not> re_test cache_key_re key then Inl (js_error ''AI cache key is invalid'') else Inr (namespace @ '':'' @ key))"

definition scope_index :: "string \<Rightarrow> string \<Rightarrow> string" where
  "scope_index namespace scope = namespace @ '':scope:'' @ scope"

definition observing :: "'x redis \<Rightarrow> 'a \<Rightarrow> ('x, 'a) world_op \<Rightarrow> 'x \<Rightarrow> 'a \<times> 'x" where
  "observing rd missing m x = (case m x of (Inr a, x') \<Rightarrow> (a, x') | (Inl e, x') \<Rightarrow> (missing, rd_observe rd (err_name e) x'))"

definition cache_get :: "'x redis \<Rightarrow> string \<Rightarrow> string \<Rightarrow> 'x \<Rightarrow> string option \<times> 'x" where
  "cache_get rd namespace key = observing rd None
     (world_bind (rd_ready rd) (\<lambda>_. world_bind (pure_result (namespaced namespace key)) (rd_get rd)))"

definition cache_set ::
  "'x redis \<Rightarrow> string \<Rightarrow> string \<Rightarrow> string \<Rightarrow> int \<Rightarrow> string option \<Rightarrow> 'x \<Rightarrow> unit result \<times> 'x" where
  "cache_set rd namespace key v ttl scope x =
     (if \<not> is_safe_integer ttl \<or> ttl < 1 then (Inl (js_error ''AI cache TTL is invalid''), x)
      else (case observing rd () (world_bind (rd_ready rd) (\<lambda>_.
          world_bind (pure_result (namespaced namespace key)) (\<lambda>cache_key.
          (case scope of
             None \<Rightarrow> rd_exec rd [RSet cache_key v ttl]
           | Some s \<Rightarrow>
               if s = [] then rd_exec rd [RSet cache_key v ttl]
               else if \<not> re_test cache_key_re s then pure_result (Inl (js_error ''AI cache scope key is invalid''))
               else rd_exec rd [RSet cache_key v ttl, RSadd (scope_index namespace s) cache_key,
                      RExpire (scope_index namespace s) ttl])))) x of (u, x') \<Rightarrow> (Inr (), x')))"

definition purgeScope :: "'x redis \<Rightarrow> string \<Rightarrow> string \<Rightarrow> ('x, unit) world_op" where
  "purgeScope rd namespace scope x =
     (if \<not> re_test cache_key_re scope then (Inl (js_error ''AI cache scope key is invalid''), x)
      else (case world_bind (rd_ready rd) (\<lambda>_. world_bind (rd_smembers rd (scope_index namespace scope)) (\<lambda>members.
              rd_del rd (members @ [scope_index namespace scope]))) x of
          (Inr u, x') \<Rightarrow> (Inr u, x')
        | (Inl e, x') \<Rightarrow> (Inl e, rd_observe rd (err_name e) x')))"

definition cache_delete :: "'x redis \<Rightarrow> string \<Rightarrow> string \<Rightarrow> 'x \<Rightarrow> unit \<times> 'x" where
  "cache_delete rd namespace key = observing rd ()
     (world_bind (rd_ready rd) (\<lambda>_. world_bind (pure_result (namespaced namespace key)) (\<lambda>k. rd_del rd [k])))"

section \<open>Canonical values keep their members\<close>

lemma distinct_own_order [simp]: "distinct (map fst (own_order kvs)) \<longleftrightarrow> distinct (map fst kvs)"
proof -
  have "mset (map fst (own_order kvs)) = mset (map fst kvs)" by (simp add: own_order_def)
  then show ?thesis by (rule mset_eq_imp_distinct_iff)
qed

lemma set_own_order [simp]: "set (own_order kvs) = set kvs"
  by (simp add: own_order_def)

lemma fst_canonical_members:
  "map fst (map (\<lambda>(k, v). (k, g v)) kvs) = map fst kvs"
  by auto

lemma json_wf_canonicalize: "json_wf v \<Longrightarrow> json_wf (canonicalize collate nfc v)"
proof (induction v)
  case (JObj kvs)
  have "distinct (map fst (own_order (map (\<lambda>(k, v). (k, canonicalize collate nfc v)) (by_key collate kvs))))"
    unfolding distinct_own_order fst_canonical_members distinct_by_key using JObj.prems by simp
  moreover have "list_all (\<lambda>(k, v). json_wf v) (own_order (map (\<lambda>(k, v). (k, canonicalize collate nfc v)) (by_key collate kvs)))"
    using JObj by (fastforce simp: list_all_iff snds.intros)
  ultimately show ?case by simp
qed (auto simp: list_all_iff)

lemma map_of_own_order: "distinct (map fst kvs) \<Longrightarrow> map_of (own_order kvs) = map_of kvs"
  by (subst map_of_inject_set) simp_all

lemma jfield_canonicalize:
  assumes "distinct (map fst kvs)"
  shows "jfield (canonicalize collate nfc (JObj kvs)) k = map_option (canonicalize collate nfc) (map_of kvs k)"
proof -
  have "distinct (map fst (map (\<lambda>(k, v). (k, canonicalize collate nfc v)) (by_key collate kvs)))"
    unfolding fst_canonical_members distinct_by_key by (rule assms)
  then show ?thesis by (simp add: map_of_own_order map_of_map map_of_by_key [OF assms])
qed

lemma hash_text_eq:
  "hash_text sha256 s = hash_text sha256 t \<Longrightarrow> s = t \<or> (\<exists>a b. a \<noteq> b \<and> sha256 a = sha256 b)"
  by (metis hash_text_def hex_inverse utf8_inj)

lemma stableStringify_inj:
  "json_wf v \<Longrightarrow> json_wf w \<Longrightarrow> stableStringify collate nfc v = stableStringify collate nfc w
     \<Longrightarrow> canonicalize collate nfc v = canonicalize collate nfc w"
  unfolding stableStringify_def by (rule json_stringify_inj) (rule json_wf_canonicalize, assumption)+

end
