(* ===== verification/Ai_Gateway.thy ===== *)
theory Ai_Gateway
  imports Complex_Main Ai_Cache
begin

text \<open>
  \<open>packages/ai-gateway/src/dlp.ts\<close> and \<open>gateway.ts\<close>: the scan for prohibited content and the policy
  gateway in front of the provider.  The provider is an operation on the world \<open>'x\<close>; the schema is a
  parameter, and so are the readings of \<open>performance.now()\<close> around the call.  A cost is the exact
  quotient that the code computes in floating point.
\<close>

section \<open>Prohibited content\<close>

datatype dlp_finding = Password | Pin | RecoveryCode | SeedPhrase | PrivateKey | CompleteSsn | PaymentCard
  | SafeCombination | PromptInjection

fun finding_name :: "dlp_finding \<Rightarrow> string" where
  "finding_name Password = ''password''"
| "finding_name Pin = ''pin''"
| "finding_name RecoveryCode = ''recovery-code''"
| "finding_name SeedPhrase = ''seed-phrase''"
| "finding_name PrivateKey = ''private-key''"
| "finding_name CompleteSsn = ''complete-ssn''"
| "finding_name PaymentCard = ''payment-card''"
| "finding_name SafeCombination = ''safe-combination''"
| "finding_name PromptInjection = ''prompt-injection''"

definition digit :: "char \<Rightarrow> bool" where
  "digit = crange CHR ''0'' CHR ''9''"

abbreviation spaces :: re where
  "spaces \<equiv> Rep (Cls js_space) 0 None"

abbreviation spaces1 :: re where
  "spaces1 \<equiv> Rep (Cls js_space) 1 None"

abbreviation assigned :: re where
  "assigned \<equiv> Seq spaces (Cls (one_of '':=''))"

definition dlp_rules :: "(dlp_finding \<times> re) list" where
  "dlp_rules = [
     (PrivateKey, seqs [lit_i ''-----BEGIN '', alts [lit_i ''RSA '', lit_i ''EC '', lit_i ''OPENSSH '', Eps],
        lit_i ''PRIVATE KEY-----'']),
     (CompleteSsn, seqs [Bound, times 3 digit, lit ''-'', times 2 digit, lit ''-'', times 4 digit, Bound]),
     (Password, seqs [Bound, alts [lit_i ''password'', lit_i ''passcode'', lit_i ''authentication answer''], assigned, spaces,
        Rep (Cls (\<lambda>c. \<not> js_space c)) 1 None]),
     (Pin, seqs [Bound, lit_i ''pin'', assigned, spaces, Rep (Cls digit) 4 (Some 12), Bound]),
     (RecoveryCode, seqs [Bound, alts [lit_i ''recovery'', lit_i ''backup''], spaces1, lit_i ''code'', assigned, spaces,
        Rep (Cls (nocase (cor (crange CHR ''A'' CHR ''Z'') (cor digit (one_of ''-''))))) 6 None, Bound]),
     (SeedPhrase, seqs [Bound, alts [lit_i ''seed'', lit_i ''recovery''], spaces1, lit_i ''phrase'', assigned]),
     (SafeCombination, seqs [Bound, alts [lit_i ''safe'', lit_i ''vault''], spaces1, lit_i ''combination'', assigned]),
     (PromptInjection, seqs [Bound, alts [lit_i ''ignore'', lit_i ''override''], spaces1,
        Rep (Seq (lit_i ''all'') spaces1) 0 (Some 1), alts [lit_i ''previous'', lit_i ''prior'', lit_i ''system''], spaces1,
        lit_i ''instructions'', Bound])]"

text \<open>The loop from the last digit to the first, every second digit doubled.\<close>

definition luhn_digit :: "bool \<Rightarrow> char \<Rightarrow> nat" where
  "luhn_digit double c = (let d = read_digits [c] in
     if double then (if 9 < 2 * d then 2 * d - 9 else 2 * d) else d)"

fun luhn_total :: "bool \<Rightarrow> string \<Rightarrow> nat" where
  "luhn_total double [] = 0"
| "luhn_total double (c # cs) = luhn_digit double c + luhn_total (\<not> double) cs"

definition passesLuhn :: "string \<Rightarrow> bool" where
  "passesLuhn v = (let digits = filter digit v in
     \<not> (length digits < 13 \<or> 19 < length digits) \<and> luhn_total False (rev digits) mod 10 = 0)"

definition card_re :: re where
  "card_re = Rep (Seq (Cls digit) (Rep (Cls (one_of '' -'')) 0 (Some 1))) 13 (Some 19)"

definition scanDlp :: "string \<Rightarrow> dlp_finding list" where
  "scanDlp t = sort_key finding_name (remdups (map fst (filter (\<lambda>(f, p). re_test p t) dlp_rules)
     @ map (\<lambda>_. PaymentCard) (filter passesLuhn (re_match_all card_re t))))"

section \<open>The gateway\<close>

record provider_usage =
  pu_input :: int
  pu_output :: int
  pu_cache_hit :: int
  pu_cache_miss :: int

record provider_request =
  pq_prefix :: string
  pq_volatile :: string
  pq_model :: string
  pq_mode :: string
  pq_max_output :: int

record provider_result =
  pv_content :: json
  pv_model :: string
  pv_usage :: provider_usage
  pv_retries :: int
  pv_request_id :: "string option"

text \<open>What the gateway and the provider throw; \<open>Unavailable\<close> carries its retry count.\<close>

datatype ai_error = PolicyBlocked string "dlp_finding list" | Unavailable string int | BadResponse string
  | Failed string string

fun ai_error_name :: "ai_error \<Rightarrow> string" where
  "ai_error_name (PolicyBlocked m fs) = ''AiPolicyError''"
| "ai_error_name (Unavailable m n) = ''ProviderUnavailableError''"
| "ai_error_name (BadResponse m) = ''ProviderResponseError''"
| "ai_error_name (Failed name m) = name"

record gateway_metric =
  gm_outcome :: string
  gm_task :: string
  gm_prompt_version :: string
  gm_model :: string
  gm_mode :: string
  gm_usage :: provider_usage
  gm_latency :: int
  gm_findings :: int
  gm_schema_success :: bool
  gm_retries :: int
  gm_cost :: rat
  gm_error_class :: "string option"

record gateway_request =
  gr_org :: string
  gr_hh :: string
  gr_purpose :: string
  gr_consent :: bool
  gr_envelope :: prompt_envelope
  gr_mode :: string
  gr_model :: string
  gr_max_output :: int
  gr_input_cost :: rat
  gr_output_cost :: rat

definition envelope_json :: "prompt_envelope \<Rightarrow> json" where
  "envelope_json p = JObj [(''promptFamily'', JStr (pe_family p)), (''promptVersion'', JStr (pe_version p)),
     (''globalPolicy'', JStr (pe_global p)), (''taskPolicy'', JStr (pe_task p)), (''outputSchema'', pe_schema p),
     (''safeHouseholdCapsule'', pe_capsule p), (''content'', JStr (pe_content p))]"

definition cache_key_json :: "gateway_request \<Rightarrow> int \<Rightarrow> json" where
  "cache_key_json r consent_version = JObj [(''organizationId'', JStr (gr_org r)), (''householdId'', JStr (gr_hh r)),
     (''purpose'', JStr (gr_purpose r)), (''consentVersion'', JNum consent_version),
     (''envelope'', envelope_json (gr_envelope r)), (''mode'', JStr (gr_mode r)), (''model'', JStr (gr_model r)),
     (''maxOutputTokens'', JNum (gr_max_output r))]"

definition cacheKey ::
  "(string \<Rightarrow> 'k::linorder) \<Rightarrow> (string \<Rightarrow> string) \<Rightarrow> (string \<Rightarrow> string) \<Rightarrow> gateway_request \<Rightarrow> int \<Rightarrow> string" where
  "cacheKey collate nfc sha256 r consent_version =
     hash_text sha256 (stableStringify collate nfc (cache_key_json r consent_version))"

definition no_usage :: provider_usage where
  "no_usage = \<lparr> pu_input = 0, pu_output = 0, pu_cache_hit = 0, pu_cache_miss = 0 \<rparr>"

definition emptyMetric :: "gateway_request \<Rightarrow> gateway_metric" where
  "emptyMetric r = \<lparr> gm_outcome = ''provider-error'', gm_task = pe_family (gr_envelope r),
     gm_prompt_version = pe_version (gr_envelope r), gm_model = gr_model r, gm_mode = gr_mode r, gm_usage = no_usage,
     gm_latency = 0, gm_findings = 0, gm_schema_success = False, gm_retries = 0, gm_cost = 0, gm_error_class = None \<rparr>"

definition recordApplicationCache :: "gateway_request \<Rightarrow> bool \<Rightarrow> int \<Rightarrow> gateway_metric" where
  "recordApplicationCache r hit latency = (emptyMetric r)
     \<lparr> gm_outcome := (if hit then ''application-cache-hit'' else ''application-cache-miss''), gm_latency := latency,
       gm_schema_success := hit \<rparr>"

text \<open>\<open>JSON.parse\<close> of a content that is not a string reads its text.\<close>

fun js_text :: "json \<Rightarrow> string" where
  "js_text JNull = ''null''"
| "js_text (JBool b) = (if b then ''true'' else ''false'')"
| "js_text (JNum n) = json_stringify (JNum n)"
| "js_text (JStr s) = s"
| "js_text (JArr vs) = join '','' (map (\<lambda>v. if v = JNull then [] else js_text v) vs)"
| "js_text (JObj kvs) = ''[object Object]''"

definition parse_content :: "(json \<Rightarrow> ai_error + 't) \<Rightarrow> json \<Rightarrow> ai_error + 't" where
  "parse_content schema content = (case json_parse (js_text content) of
       None \<Rightarrow> Inl (Failed ''SyntaxError'' ''content is not JSON'') | Some v \<Rightarrow> schema v)"

definition result_metric :: "gateway_request \<Rightarrow> int \<Rightarrow> provider_result \<Rightarrow> bool \<Rightarrow> gateway_metric" where
  "result_metric r latency v success = \<lparr> gm_outcome = (if success then ''success'' else ''schema-error''),
     gm_task = pe_family (gr_envelope r), gm_prompt_version = pe_version (gr_envelope r), gm_model = pv_model v,
     gm_mode = gr_mode r, gm_usage = pv_usage v, gm_latency = latency, gm_findings = 0, gm_schema_success = success,
     gm_retries = pv_retries v,
     gm_cost = (of_int (pu_input (pv_usage v)) * gr_input_cost r + of_int (pu_output (pv_usage v)) * gr_output_cost r) / 1000000,
     gm_error_class = (if success then None else Some ''SchemaValidationError'') \<rparr>"

definition provider_request_of ::
  "(string \<Rightarrow> 'k::linorder) \<Rightarrow> (string \<Rightarrow> string) \<Rightarrow> gateway_request \<Rightarrow> provider_request" where
  "provider_request_of collate nfc r = \<lparr> pq_prefix = fst (buildPrompt collate nfc (gr_envelope r)),
     pq_volatile = snd (buildPrompt collate nfc (gr_envelope r)), pq_model = gr_model r, pq_mode = gr_mode r,
     pq_max_output = gr_max_output r \<rparr>"

text \<open>The answer or the error, the metrics emitted, and the world after it; \<open>latency\<close> is the difference
  of the two readings of the clock.\<close>

definition ai_execute ::
  "(string \<Rightarrow> 'k::linorder) \<Rightarrow> (string \<Rightarrow> string) \<Rightarrow> (provider_request \<Rightarrow> 'x \<Rightarrow> (ai_error + provider_result) \<times> 'x)
   \<Rightarrow> (json \<Rightarrow> ai_error + 't) \<Rightarrow> int \<Rightarrow> gateway_request \<Rightarrow> 'x \<Rightarrow> (ai_error + 't) \<times> gateway_metric list \<times> 'x" where
  "ai_execute collate nfc invoke schema latency r x =
     (if gr_purpose r \<noteq> pe_family (gr_envelope r)
      then (Inl (PolicyBlocked ''AI purpose does not match prompt family'' []), [], x)
      else if \<not> gr_consent r
      then (Inl (PolicyBlocked ''affirmative external AI consent is required'' []), [], x)
      else (let findings = scanDlp (pe_content (gr_envelope r)) in
        if findings \<noteq> [] then (Inl (PolicyBlocked ''prohibited content blocked before provider boundary'' findings),
          [(emptyMetric r) \<lparr> gm_outcome := ''policy-blocked'', gm_findings := int (length findings),
             gm_error_class := Some ''DlpPolicyViolation'' \<rparr>], x)
        else (case invoke (provider_request_of collate nfc r) x of
            (Inl e, x') \<Rightarrow> (Inl e, [(emptyMetric r) \<lparr> gm_latency := latency,
                gm_retries := (case e of Unavailable m n \<Rightarrow> n | _ \<Rightarrow> 0), gm_error_class := Some (ai_error_name e) \<rparr>], x')
          | (Inr v, x') \<Rightarrow> (case parse_content schema (pv_content v) of
                Inl e \<Rightarrow> (Inl e, [result_metric r latency v False], x')
              | Inr t \<Rightarrow> (Inr t, [result_metric r latency v True], x')))))"

section \<open>What the scan finds\<close>

lemma re_search_suffix:
  "re_match r (if u = [] then q else Some (last u), w) \<noteq> [] \<Longrightarrow> re_search r q (u @ w)"
proof (induction u arbitrary: q)
  case Nil
  then show ?case by (cases w) simp_all
next
  case (Cons c u)
  then have "re_search r (Some c) (u @ w)" by (intro Cons.IH) (simp split: if_splits)
  then show ?case by simp
qed

abbreviation end_of :: "char option \<Rightarrow> string \<Rightarrow> char option" where
  "end_of q w \<equiv> (if w = [] then q else Some (last w))"

lemma rounds_times:
  "list_all p w \<Longrightarrow> rounds (length w) (length w) (step_cls p) (q, w @ v) = [(end_of q w, v)]"
  by (induction w arbitrary: q) simp_all

lemma times_match:
  assumes "list_all p w" and "length w = n"
  shows "re_match (times n p) (q, w @ v) = [(end_of q w, v)]"
proof -
  have "re_match (Cls p) = step_cls p" by (rule ext) simp
  with rounds_times [OF assms(1)] assms(2) show ?thesis by simp
qed

lemma lit_match: "re_match (lit w) (q, w @ v) = [(end_of q w, v)]"
  by (induction w arbitrary: q) (auto simp: lit_def one_of_def)

lemma nocase_same: "ascii_lower c = ascii_lower d \<Longrightarrow> nocase (one_of [c]) d"
  by (auto simp: nocase_def one_of_def ascii_lower_def ascii_upper_def Let_def split: if_splits)

lemma lit_i_match:
  "map ascii_lower l = map ascii_lower w \<Longrightarrow> re_match (lit_i l) (q, w @ v) = [(end_of q w, v)]"
proof (induction l arbitrary: q w)
  case (Cons c l)
  then obtain d w' where w: "w = d # w'" "ascii_lower c = ascii_lower d" "map ascii_lower l = map ascii_lower w'"
    by (cases w) auto
  with Cons.IH [OF w(3)] nocase_same [OF w(2)] show ?case by (simp add: lit_i_def)
qed (simp add: lit_i_def)

definition ssn_text :: "string \<Rightarrow> bool" where
  "ssn_text w \<longleftrightarrow> (\<exists>a b c. w = a @ ''-'' @ b @ ''-'' @ c \<and> length a = 3 \<and> length b = 2 \<and> length c = 4
     \<and> list_all digit (a @ b @ c))"

definition private_key_header :: "string \<Rightarrow> bool" where
  "private_key_header w \<longleftrightarrow> (\<exists>kind \<in> {''RSA '', ''EC '', ''OPENSSH '', []}.
     map ascii_lower w = map ascii_lower (''-----BEGIN '' @ kind @ ''PRIVATE KEY-----''))"

text \<open>A word boundary between two texts.\<close>

definition boundary :: "string \<Rightarrow> string \<Rightarrow> bool" where
  "boundary u v \<longleftrightarrow> at_bound (end_of None u, v)"

lemma last_append_Some: "w \<noteq> [] \<Longrightarrow> end_of q (u @ w) = Some (last w)"
  by simp

lemma rule_found:
  assumes "(f, p) \<in> set dlp_rules" and "re_match p (end_of None u, w) \<noteq> []"
  shows "f \<in> set (scanDlp (u @ w))"
proof -
  have "re_test p (u @ w)" using re_search_suffix [of p u None w] assms(2) by (simp add: re_test_def)
  with assms(1) show ?thesis by (force simp: scanDlp_def)
qed

lemma re_match_seqs_Cons: "re_match (seqs (r # rs)) st = concat (map (re_match (seqs rs)) (re_match r st))"
  by (simp add: seqs_def)

lemma re_match_seqs_Nil: "re_match (seqs []) st = [st]"
  by (simp add: seqs_def)

lemma ssn_found:
  assumes "ssn_text w" and "boundary u (w @ v)" and "boundary (u @ w) v"
  shows "CompleteSsn \<in> set (scanDlp (u @ w @ v))"
proof (rule rule_found)
  let ?p = "seqs [Bound, times 3 digit, lit ''-'', times 2 digit, lit ''-'', times 4 digit, Bound]"
  show "(CompleteSsn, ?p) \<in> set dlp_rules" by (simp add: dlp_rules_def)
  from assms(1) obtain a b c where w: "w = a @ ''-'' @ b @ ''-'' @ c" and l: "length a = 3" "length b = 2" "length c = 4"
    and d: "list_all digit a" "list_all digit b" "list_all digit c" by (auto simp: ssn_text_def)
  have ne: "a \<noteq> []" "b \<noteq> []" "c \<noteq> []" using l by auto
  have start: "re_match Bound (end_of None u, a @ ''-'' @ b @ ''-'' @ c @ v) = [(end_of None u, a @ ''-'' @ b @ ''-'' @ c @ v)]"
    using assms(2) by (simp add: boundary_def w)
  have stop: "re_match Bound (Some (last c), v) = [(Some (last c), v)]"
    using assms(3) ne by (simp add: boundary_def w)
  have "re_match ?p (end_of None u, a @ ''-'' @ b @ ''-'' @ c @ v) = [(Some (last c), v)]"
    unfolding re_match_seqs_Cons start
    by (simp only: concat.simps list.map append_Nil2 times_match [OF d(1) l(1)] lit_match times_match [OF d(2) l(2)]
        times_match [OF d(3) l(3)] ne if_False stop re_match_seqs_Nil list.distinct not_Cons_self2 simp_thms)
  then show "re_match ?p (end_of None u, w @ v) \<noteq> []" by (simp add: w)
qed

lemma alts_member: "r \<in> set rs \<Longrightarrow> set (re_match r st) \<subseteq> set (re_match (alts rs) st)"
proof -
  have fold: "set (re_match (foldl Alt r0 rs) st) = set (re_match r0 st) \<union> (\<Union>r \<in> set rs. set (re_match r st))" for r0 rs
    by (induction rs arbitrary: r0) auto
  assume "r \<in> set rs"
  then show ?thesis by (cases rs) (auto simp: alts_def fold)
qed

lemma map_eq_parts: "map f w = x @ y \<Longrightarrow> \<exists>a b. w = a @ b \<and> x = map f a \<and> map f b = y"
  by (auto simp: map_eq_append_conv)

lemma private_key_found:
  assumes "private_key_header w"
  shows "PrivateKey \<in> set (scanDlp (u @ w @ v))"
proof (rule rule_found)
  let ?kinds = "[lit_i ''RSA '', lit_i ''EC '', lit_i ''OPENSSH '', Eps]"
  let ?p = "seqs [lit_i ''-----BEGIN '', alts ?kinds, lit_i ''PRIVATE KEY-----'']"
  show "(PrivateKey, ?p) \<in> set dlp_rules" by (simp add: dlp_rules_def)
  from assms obtain kind where kind: "kind \<in> {''RSA '', ''EC '', ''OPENSSH '', []}"
    and "map ascii_lower w = map ascii_lower (''-----BEGIN '' @ kind @ ''PRIVATE KEY-----'')"
    unfolding private_key_header_def by blast
  then have eq: "map ascii_lower w = map ascii_lower ''-----BEGIN '' @ map ascii_lower kind @ map ascii_lower ''PRIVATE KEY-----''"
    unfolding map_append by blast
  from map_eq_parts [OF eq] obtain a r where a: "w = a @ r" "map ascii_lower ''-----BEGIN '' = map ascii_lower a"
    "map ascii_lower r = map ascii_lower kind @ map ascii_lower ''PRIVATE KEY-----''" by metis
  from map_eq_parts [OF a(3)] obtain b c where b: "r = b @ c" "map ascii_lower kind = map ascii_lower b"
    "map ascii_lower c = map ascii_lower ''PRIVATE KEY-----''" by metis
  from a b have w: "w = a @ b @ c" and l: "map ascii_lower ''-----BEGIN '' = map ascii_lower a"
      "map ascii_lower kind = map ascii_lower b" "map ascii_lower ''PRIVATE KEY-----'' = map ascii_lower c"
    by simp_all
  let ?q = "end_of (end_of None u) a"
  from kind l(2) have "\<exists>r \<in> set ?kinds. (end_of ?q b, c @ v) \<in> set (re_match r (?q, b @ c @ v))"
    using lit_i_match [where v = "c @ v" and q = ?q and w = b and l = kind] by auto
  then have mid: "(end_of ?q b, c @ v) \<in> set (re_match (alts ?kinds) (?q, b @ c @ v))"
    using alts_member by blast
  have last: "re_match (seqs [lit_i ''PRIVATE KEY-----'']) (end_of ?q b, c @ v) \<noteq> []"
    unfolding re_match_seqs_Cons lit_i_match [OF l(3)] by (simp add: seqs_def)
  have "re_match (seqs [alts ?kinds, lit_i ''PRIVATE KEY-----'']) (?q, b @ c @ v) \<noteq> []"
    using mid last unfolding re_match_seqs_Cons [of "alts ?kinds"] by force
  then show "re_match ?p (end_of None u, w @ v) \<noteq> []"
    unfolding re_match_seqs_Cons [of "lit_i ''-----BEGIN ''"] w append.assoc lit_i_match [OF l(1)] by simp
qed

text \<open>A card number after another digit and a separator is missed: the pattern takes the digit along, and
  the longer number fails the check.\<close>

lemma card_after_digit_missed:
  "scanDlp ''1 4111 1111 1111 1111'' = []" "scanDlp ''4111 1111 1111 1111'' = [PaymentCard]"
  by code_simp+

section \<open>What reaches the provider\<close>

text \<open>C29: The provider is called only for a request whose purpose is that of its prompt, whose household
  has consented, and whose content holds no private key header (in any case of letters) and no social
  security number between word boundaries; it is called once, with the prompt built from the request,
  and exactly one metric is emitted.\<close>

theorem ai_provider_boundary:
  assumes "ai_execute collate nfc invoke schema latency r x = (res, ms, x')" and "x' \<noteq> x"
  shows "gr_purpose r = pe_family (gr_envelope r) \<and> gr_consent r
    \<and> (\<forall>u w v. pe_content (gr_envelope r) = u @ w @ v \<longrightarrow>
         \<not> private_key_header w \<and> \<not> (ssn_text w \<and> boundary u (w @ v) \<and> boundary (u @ w) v))
    \<and> (\<exists>out. invoke (provider_request_of collate nfc r) x = (out, x')) \<and> length ms = 1"
proof -
  let ?allowed = "gr_purpose r = pe_family (gr_envelope r) \<and> gr_consent r \<and> scanDlp (pe_content (gr_envelope r)) = []"
  have ok: ?allowed using assms by (auto simp: ai_execute_def Let_def split: if_splits)
  obtain out x1 where i: "invoke (provider_request_of collate nfc r) x = (out, x1)" by force
  have "x1 = x' \<and> length ms = 1"
  proof (cases out)
    case (Inl e)
    with assms(1) ok i show ?thesis by (auto simp: ai_execute_def Let_def)
  next
    case (Inr v)
    with assms(1) ok i show ?thesis by (cases "parse_content schema (pv_content v)") (auto simp: ai_execute_def Let_def)
  qed
  moreover have "\<not> private_key_header w \<and> \<not> (ssn_text w \<and> boundary u (w @ v) \<and> boundary (u @ w) v)"
    if "pe_content (gr_envelope r) = u @ w @ v" for u w v
    using ok private_key_found [of w u v] ssn_found [of w u v] that by auto
  ultimately show ?thesis using ok i by auto
qed

definition sample_envelope :: prompt_envelope where
  "sample_envelope = \<lparr> pe_family = ''p'', pe_version = ''1'', pe_global = ''g'', pe_task = ''t'', pe_schema = JObj [],
     pe_capsule = JObj [], pe_content = '' hello '' \<rparr>"

definition sample_request :: gateway_request where
  "sample_request = \<lparr> gr_org = ''o'', gr_hh = ''h'', gr_purpose = ''p'', gr_consent = True, gr_envelope = sample_envelope,
     gr_mode = ''standard'', gr_model = ''m'', gr_max_output = 10, gr_input_cost = 0, gr_output_cost = 0 \<rparr>"

definition sample_invoke :: "provider_request \<Rightarrow> provider_request list \<Rightarrow> (ai_error + provider_result) \<times> provider_request list" where
  "sample_invoke q x = (Inr \<lparr> pv_content = JStr ''{}'', pv_model = ''m'', pv_usage = no_usage, pv_retries = 0,
     pv_request_id = None \<rparr>, q # x)"

lemma sample_content_clean: "scanDlp '' hello '' = []"
  by code_simp

theorem ai_provider_boundary_witness:
  "\<exists>res m x'. ai_execute (\<lambda>k. k) (\<lambda>s. s) sample_invoke Inr 5 sample_request [] = (res, [m], x') \<and> map pq_volatile x' = [''hello'']"
proof -
  obtain res ms x' where run: "ai_execute (\<lambda>k. k) (\<lambda>s. s) sample_invoke Inr 5 sample_request [] = (res, ms, x')"
    by (metis prod_cases3)
  have i: "sample_invoke (provider_request_of (\<lambda>k. k) (\<lambda>s. s) sample_request) []
      = (Inr \<lparr> pv_content = JStr ''{}'', pv_model = ''m'', pv_usage = no_usage, pv_retries = 0, pv_request_id = None \<rparr>,
         [provider_request_of (\<lambda>k. k) (\<lambda>s. s) sample_request])" by (simp add: sample_invoke_def)
  have "x' = [provider_request_of (\<lambda>k. k) (\<lambda>s. s) sample_request]"
    using run i sample_content_clean
    by (auto simp: ai_execute_def Let_def sample_request_def sample_envelope_def split: sum.splits)
  moreover have "trim '' hello '' = ''hello''" by code_simp
  ultimately have x': "map pq_volatile x' = [''hello'']"
    by (simp add: provider_request_of_def buildPrompt_def sample_request_def sample_envelope_def)
  then have "x' \<noteq> []" by auto
  from ai_provider_boundary [OF run this] obtain m where "ms = [m]" by (cases ms) auto
  with run x' show ?thesis by auto
qed

text \<open>Two requests share a cache key only when everything that the answer depends on is the same in both:
  organization, household, purpose, version of the consent, prompt (up to the order of its members and
  Unicode normalization), mode, model and output limit - unless SHA-256 collides.\<close>

theorem cache_key_separates_requests:
  assumes "cacheKey collate nfc sha256 r v = cacheKey collate nfc sha256 r' v'"
    and "json_wf (envelope_json (gr_envelope r))" and "json_wf (envelope_json (gr_envelope r'))"
  shows "(\<exists>a b. a \<noteq> b \<and> sha256 a = sha256 b)
    \<or> (nfc (gr_org r) = nfc (gr_org r') \<and> nfc (gr_hh r) = nfc (gr_hh r') \<and> nfc (gr_purpose r) = nfc (gr_purpose r')
       \<and> v = v' \<and> nfc (gr_mode r) = nfc (gr_mode r') \<and> nfc (gr_model r) = nfc (gr_model r')
       \<and> gr_max_output r = gr_max_output r'
       \<and> canonicalize collate nfc (envelope_json (gr_envelope r)) = canonicalize collate nfc (envelope_json (gr_envelope r')))"
proof -
  let ?j = "cache_key_json r v" and ?j' = "cache_key_json r' v'"
  let ?c = "canonicalize collate nfc"
  from assms(1) consider "stableStringify collate nfc ?j = stableStringify collate nfc ?j'"
    | "\<exists>a b. a \<noteq> b \<and> sha256 a = sha256 b"
    using hash_text_eq unfolding cacheKey_def by blast
  then show ?thesis
  proof cases
    case 1
    have "json_wf ?j" "json_wf ?j'" using assms(2,3) by (simp_all add: cache_key_json_def)
    then have "?c ?j = ?c ?j'" using 1 by (rule stableStringify_inj)
    then have "jfield (?c ?j) k = jfield (?c ?j') k" for k by simp
    note f = this [of "''organizationId''"] this [of "''householdId''"] this [of "''purpose''"] this [of "''consentVersion''"]
      this [of "''mode''"] this [of "''model''"] this [of "''maxOutputTokens''"] this [of "''envelope''"]
    show ?thesis using f by (simp add: cache_key_json_def jfield_canonicalize del: canonicalize.simps(2))
  qed simp
qed

definition two_members :: "(string \<times> json) list \<Rightarrow> gateway_request" where
  "two_members kvs = sample_request \<lparr> gr_envelope := sample_envelope \<lparr> pe_schema := JObj kvs \<rparr> \<rparr>"

lemma two_members_same_value:
  "canonicalize (\<lambda>k. k) (\<lambda>s. s) (cache_key_json (two_members [(''a'', JNum 1), (''b'', JNum 2)]) 3)
     = canonicalize (\<lambda>k. k) (\<lambda>s. s) (cache_key_json (two_members [(''b'', JNum 2), (''a'', JNum 1)]) 3)"
  by code_simp

lemma two_members_same_key:
  "cacheKey (\<lambda>k. k) (\<lambda>s. s) (\<lambda>b. b) (two_members [(''a'', JNum 1), (''b'', JNum 2)]) 3
     = cacheKey (\<lambda>k. k) (\<lambda>s. s) (\<lambda>b. b) (two_members [(''b'', JNum 2), (''a'', JNum 1)]) 3"
  unfolding cacheKey_def stableStringify_def two_members_same_value ..

theorem cache_key_separates_requests_witness:
  "canonicalize (\<lambda>k. k) (\<lambda>s. s) (envelope_json (gr_envelope (two_members [(''a'', JNum 1), (''b'', JNum 2)])))
     = canonicalize (\<lambda>k. k) (\<lambda>s. s) (envelope_json (gr_envelope (two_members [(''b'', JNum 2), (''a'', JNum 1)])))"
proof -
  have "json_wf (envelope_json (gr_envelope (two_members [(''a'', JNum 1), (''b'', JNum 2)])))"
    "json_wf (envelope_json (gr_envelope (two_members [(''b'', JNum 2), (''a'', JNum 1)])))" by code_simp+
  from cache_key_separates_requests [OF two_members_same_key this] show ?thesis by (metis hex_inverse)
qed

end
