(* ===== verification/Ai_Provider.thy ===== *)
theory Ai_Provider
  imports Ai_Gateway
begin

text \<open>
  \<open>packages/ai-gateway/src/provider.ts\<close>: the DeepSeek provider with its retries and its circuit breaker.
  The transport, the timers and the clock are operations on the world \<open>'x\<close>; \<open>Number\<close> of a text, when it
  is finite, is a parameter, and so is \<open>Date.parse\<close>.  Cancelling the body of a reply does not fail.
\<close>

section \<open>Configuration\<close>

record endpoint =
  ep_protocol :: string
  ep_hostname :: string
  ep_port :: string
  ep_username :: string
  ep_password :: string

definition endpoint_approved :: "endpoint \<Rightarrow> unit result" where
  "endpoint_approved e = (let
     production = ep_protocol e = ''https:'' \<and> ep_hostname e = ''api.deepseek.com'' \<and> (ep_port e = [] \<or> ep_port e = ''443'')
       \<and> ep_username e = [] \<and> ep_password e = [];
     contract = ep_protocol e = ''http:'' \<and> ep_hostname e \<in> {''127.0.0.1'', ''localhost'', ''::1''}
       \<and> ep_username e = [] \<and> ep_password e = [] in
     if \<not> production \<and> \<not> contract then Inl (js_error ''DeepSeek endpoint is not approved'') else Inr ())"

record deepseek_config =
  dc_api_key :: "string option"
  dc_base_url :: string
  dc_model :: string
  dc_max_retries :: nat

record deepseek_environment =
  de_api_key :: "string option"
  de_base_url :: "string option"
  de_model :: "string option"

definition or_default :: "string option \<Rightarrow> string \<Rightarrow> string" where
  "or_default v s = (case v of None \<Rightarrow> s | Some t \<Rightarrow> t)"

definition nonempty :: "string option \<Rightarrow> string option" where
  "nonempty v = (case v of None \<Rightarrow> None | Some s \<Rightarrow> if s = [] then None else Some s)"

definition createDeepSeekRuntime :: "deepseek_environment \<Rightarrow> deepseek_config \<times> string" where
  "createDeepSeekRuntime env = (let model = or_default (de_model env) [] in
     (\<lparr> dc_api_key = nonempty (de_api_key env), dc_base_url = or_default (de_base_url env) ''https://api.deepseek.com'',
        dc_model = model, dc_max_retries = 2 \<rparr>, model))"

section \<open>Circuit and retries\<close>

record circuit =
  ci_failures :: nat
  ci_open_until :: int

definition readiness :: "deepseek_config \<Rightarrow> circuit \<Rightarrow> int \<Rightarrow> bool \<times> string option" where
  "readiness c s now = (if nonempty (dc_api_key c) = None then (False, Some ''missing-api-key'')
     else if now < ci_open_until s then (False, Some ''circuit-open'') else (True, None))"

text \<open>A reply has a status, a \<open>retry-after\<close> header, and a body that is JSON or throws when it is read; an
  exchange that throws gives the error's name, when what it threw is an \<open>Error\<close>.\<close>

datatype reply = Threw "string option" | Reply int "string option" "string + json"

record 'x transport =
  tr_send :: "json \<Rightarrow> 'x \<Rightarrow> reply \<times> 'x"
  tr_sleep :: "rat \<Rightarrow> 'x \<Rightarrow> 'x"
  tr_now :: "'x \<Rightarrow> int"
  tr_number :: "string \<Rightarrow> rat option"
  tr_date :: "string \<Rightarrow> int option"

definition retryDelayMs :: "'x transport \<Rightarrow> string option \<Rightarrow> nat \<Rightarrow> 'x \<Rightarrow> rat" where
  "retryDelayMs t retry_after attempt x = (let backoff = min 2000 (250 * 2 ^ attempt) in
     case nonempty retry_after of None \<Rightarrow> backoff
     | Some h \<Rightarrow> (case tr_number t h of
          Some seconds \<Rightarrow> if 0 \<le> seconds then min 5000 (seconds * 1000)
            else (case tr_date t h of None \<Rightarrow> backoff | Some d \<Rightarrow> min 5000 (max 0 (of_int (d - tr_now t x))))
        | None \<Rightarrow> (case tr_date t h of None \<Rightarrow> backoff | Some d \<Rightarrow> min 5000 (max 0 (of_int (d - tr_now t x))))))"

definition usageCounter :: "json option \<Rightarrow> string \<Rightarrow> ai_error + int" where
  "usageCounter v field = (case v of None \<Rightarrow> Inr 0
     | Some (JNum n) \<Rightarrow> if \<not> is_safe_integer n \<or> n < 0 then Inl (BadResponse (''DeepSeek '' @ field @ '' is invalid'')) else Inr n
     | Some _ \<Rightarrow> Inl (BadResponse (''DeepSeek '' @ field @ '' is invalid'')))"

definition request_body :: "deepseek_config \<Rightarrow> provider_request \<Rightarrow> json" where
  "request_body c q = JObj ([(''model'', JStr (if pq_model q = [] then dc_model c else pq_model q)),
     (''messages'', JArr [JObj [(''role'', JStr ''system''), (''content'', JStr (pq_prefix q))],
                          JObj [(''role'', JStr ''user''), (''content'', JStr (pq_volatile q))]]),
     (''max_tokens'', JNum (pq_max_output q)), (''response_format'', JObj [(''type'', JStr ''json_object'')])]
     @ (if pq_mode q = ''thinking'' then [(''thinking'', JObj [(''type'', JStr ''enabled'')])] else []))"

text \<open>\<open>v?.k\<close> of a value that may be \<open>undefined\<close> or \<open>null\<close>, and \<open>v?.[0]\<close>.\<close>

definition optional :: "json option \<Rightarrow> string \<Rightarrow> json option" where
  "optional v k = (case v of None \<Rightarrow> None | Some j \<Rightarrow> jfield j k)"

definition first_of :: "json option \<Rightarrow> json option" where
  "first_of v = (case v of Some (JArr (j # js)) \<Rightarrow> Some j | Some (JStr (c # cs)) \<Rightarrow> Some (JStr [c])
     | Some (JObj kvs) \<Rightarrow> map_of kvs ''0'' | _ \<Rightarrow> None)"

definition js_or :: "json option \<Rightarrow> json \<Rightarrow> json" where
  "js_or v w = (case v of None \<Rightarrow> w | Some JNull \<Rightarrow> w | Some j \<Rightarrow> j)"

definition finish_reason :: "json \<Rightarrow> string" where
  "finish_reason body = js_text (js_or (optional (first_of (jfield body ''choices'')) ''finish_reason'') (JStr ''unknown''))"

definition opt_text :: "json option \<Rightarrow> string option" where
  "opt_text v = (case v of Some j \<Rightarrow> if js_truthy j then Some (js_text j) else None | None \<Rightarrow> None)"

text \<open>What one attempt leads to: a result, an error that ends the call, or another round of the loop with
  the name of the last error.  A body that is \<open>null\<close> has no members to read.\<close>

datatype attempt = Done provider_result | Stop ai_error | Next "string option"

definition read_usage :: "json \<Rightarrow> ai_error + provider_usage" where
  "read_usage body = (let u = (\<lambda>k. usageCounter (optional (jfield body ''usage'') k) k) in
     case u ''prompt_tokens'' of Inl e \<Rightarrow> Inl e | Inr i \<Rightarrow>
     (case u ''completion_tokens'' of Inl e \<Rightarrow> Inl e | Inr out \<Rightarrow>
     (case u ''prompt_cache_hit_tokens'' of Inl e \<Rightarrow> Inl e | Inr hit \<Rightarrow>
     (case u ''prompt_cache_miss_tokens'' of Inl e \<Rightarrow> Inl e | Inr miss \<Rightarrow>
       Inr \<lparr> pu_input = i, pu_output = out, pu_cache_hit = hit, pu_cache_miss = miss \<rparr>))))"

definition read_body :: "provider_request \<Rightarrow> nat \<Rightarrow> json \<Rightarrow> circuit \<Rightarrow> attempt \<times> circuit" where
  "read_body q attempt body s =
     (if body = JNull then (Next (Some ''TypeError''), s)
      else (case optional (optional (first_of (jfield body ''choices'')) ''message'') ''content'' of
          None \<Rightarrow> (Stop (BadResponse (''DeepSeek response content is missing ('' @ finish_reason body @ '')'')), s)
        | Some content \<Rightarrow>
            if \<not> js_truthy content
            then (Stop (BadResponse (''DeepSeek response content is missing ('' @ finish_reason body @ '')'')), s)
            else (case read_usage body of
                Inl e \<Rightarrow> (Stop e, s \<lparr> ci_failures := 0 \<rparr>)
              | Inr u \<Rightarrow> (Done \<lparr> pv_content = content, pv_model = js_text (js_or (jfield body ''model'') (JStr (pq_model q))),
                  pv_usage = u, pv_retries = int attempt, pv_request_id = opt_text (jfield body ''id'') \<rparr>,
                  s \<lparr> ci_failures := 0 \<rparr>))))"

text \<open>One round of the loop; \<open>again\<close> is the rest of it, given the name of the last error.\<close>

definition attempt_step ::
  "'x transport \<Rightarrow> deepseek_config \<Rightarrow> provider_request \<Rightarrow> nat
   \<Rightarrow> (string option \<Rightarrow> circuit \<Rightarrow> 'x \<Rightarrow> attempt \<times> circuit \<times> 'x) \<Rightarrow> string option \<Rightarrow> circuit \<Rightarrow> 'x
   \<Rightarrow> attempt \<times> circuit \<times> 'x" where
  "attempt_step t c q attempt again prior s x = (case tr_send t (request_body c q) x of (r, x1) \<Rightarrow>
     (case r of
       Threw name \<Rightarrow> again name s x1
     | Reply status retry_after body \<Rightarrow>
         if status = 429 \<or> 500 \<le> status then
           (if attempt < dc_max_retries c then again prior s (tr_sleep t (retryDelayMs t retry_after attempt x1) x1)
            else (Next (Some ''Error''), s, x1))
         else if \<not> (200 \<le> status \<and> status \<le> 299)
         then (Stop (BadResponse (''DeepSeek HTTP '' @ json_stringify (JNum status))), s, x1)
         else (case body of
             Inl name \<Rightarrow> again (Some name) s x1
           | Inr v \<Rightarrow> (case read_body q attempt v s of (out, s') \<Rightarrow>
               (case out of Next name \<Rightarrow> again name s' x1 | _ \<Rightarrow> (out, s', x1))))))"

text \<open>The loop from \<open>attempt\<close> on, with \<open>k\<close> rounds after this one.\<close>

fun attempts ::
  "'x transport \<Rightarrow> deepseek_config \<Rightarrow> provider_request \<Rightarrow> nat \<Rightarrow> nat \<Rightarrow> string option \<Rightarrow> circuit \<Rightarrow> 'x
   \<Rightarrow> attempt \<times> circuit \<times> 'x" where
  "attempts t c q attempt 0 = attempt_step t c q attempt (\<lambda>prior s x. (Next prior, s, x))"
| "attempts t c q attempt (Suc k) = attempt_step t c q attempt (attempts t c q (Suc attempt) k)"

definition invoke ::
  "'x transport \<Rightarrow> deepseek_config \<Rightarrow> provider_request \<Rightarrow> circuit \<Rightarrow> 'x \<Rightarrow> (ai_error + provider_result) \<times> circuit \<times> 'x" where
  "invoke t c q s x =
     (if nonempty (dc_api_key c) = None then (Inl (Unavailable ''DeepSeek is not configured'' 0), s, x)
      else if tr_now t x < ci_open_until s then (Inl (Unavailable ''DeepSeek circuit is open'' 0), s, x)
      else (case attempts t c q 0 (dc_max_retries c) None s x of
          (Done v, s', x') \<Rightarrow> (Inr v, s', x')
        | (Stop e, s', x') \<Rightarrow> (Inl e, s', x')
        | (Next prior, s', x') \<Rightarrow>
            (Inl (Unavailable (or_default prior ''DeepSeek request failed'') (int (dc_max_retries c))),
             (let failures = Suc (ci_failures s') in
              \<lparr> ci_failures = failures, ci_open_until = (if 3 \<le> failures then tr_now t x' + 30000 else ci_open_until s') \<rparr>), x')))"

section \<open>How long a call may take\<close>

lemma retry_delay_bounds: "0 \<le> retryDelayMs t h attempt x \<and> retryDelayMs t h attempt x \<le> 5000"
  by (simp add: retryDelayMs_def Let_def min_def max_def split: option.split)

lemma read_body_stop:
  assumes "read_body q attempt v s = (out, s')"
  shows "out = Stop e \<Longrightarrow> \<exists>m. e = BadResponse m"
proof -
  have "usageCounter w k = Inl e \<Longrightarrow> \<exists>m. e = BadResponse m" for w k e
    by (auto simp: usageCounter_def split: option.splits json.splits if_splits)
  then have "read_usage v = Inl e \<Longrightarrow> \<exists>m. e = BadResponse m" for e
    by (auto simp: read_usage_def Let_def split: sum.splits)
  with assms show "out = Stop e \<Longrightarrow> \<exists>m. e = BadResponse m"
    by (auto simp: read_body_def split: option.splits if_splits sum.splits)
qed

lemma attempt_step_cases:
  assumes "attempt_step t c q attempt again prior s x = (out, s', x')"
  obtains (ended) "x' = snd (tr_send t (request_body c q) x)" "s' = s \<or> (\<forall>name. out \<noteq> Next name)"
      "\<forall>e. out = Stop e \<longrightarrow> (\<exists>m. e = BadResponse m)"
  | (repeated) p where "again p s (snd (tr_send t (request_body c q) x)) = (out, s', x')"
  | (waited) d where "attempt < dc_max_retries c" "0 \<le> d" "d \<le> 5000"
      "again prior s (tr_sleep t d (snd (tr_send t (request_body c q) x))) = (out, s', x')"
proof -
  obtain r x1 where send: "tr_send t (request_body c q) x = (r, x1)" by force
  show thesis
  proof (cases r)
    case (Threw name)
    with assms send repeated show thesis by (simp add: attempt_step_def)
  next
    case (Reply status h body)
    consider "status = 429 \<or> 500 \<le> status" "attempt < dc_max_retries c"
      | "status = 429 \<or> 500 \<le> status" "\<not> attempt < dc_max_retries c"
      | "\<not> (status = 429 \<or> 500 \<le> status)" "\<not> (200 \<le> status \<and> status \<le> 299)"
      | "\<not> (status = 429 \<or> 500 \<le> status)" "200 \<le> status \<and> status \<le> 299" by blast
    then show thesis
    proof cases
      case 1
      with assms send Reply waited [of "retryDelayMs t h attempt x1"] retry_delay_bounds [of t h attempt x1]
      show thesis by (simp add: attempt_step_def)
    next
      case 2
      with assms send Reply ended show thesis by (auto simp: attempt_step_def)
    next
      case 3
      with assms send Reply ended show thesis by (auto simp: attempt_step_def)
    next
      case 4
      show thesis
      proof (cases body)
        case (Inl name)
        with assms send Reply 4 repeated [of "Some name"] show thesis by (simp add: attempt_step_def)
      next
        case (Inr v)
        obtain o1 s1 where b: "read_body q attempt v s = (o1, s1)" by force
        have eq: "(case o1 of Next name \<Rightarrow> again name s1 x1 | _ \<Rightarrow> (o1, s1, x1)) = (out, s', x')"
          using assms send Reply 4 Inr b by (simp add: attempt_step_def)
        show thesis
        proof (cases o1)
          case (Next name)
          with b have "s1 = s" by (auto simp: read_body_def split: option.splits if_splits sum.splits)
          with eq Next send repeated [of name] show thesis by simp
        qed (use eq send ended read_body_stop [OF b] in auto)
      qed
    qed
  qed
qed

lemma attempts_bounded:
  assumes send: "\<forall>j x. calls (snd (tr_send t j x)) = Suc (calls x) \<and> spent (snd (tr_send t j x)) \<le> spent x + timeout"
    and sleep: "\<forall>d x. calls (tr_sleep t d x) = calls x \<and> spent (tr_sleep t d x) \<le> spent x + d"
    and "(0::rat) \<le> timeout" and "attempt + k = dc_max_retries c"
    and "attempts t c q attempt k prior s x = (out, s', x')"
  shows "calls x' \<le> calls x + Suc k \<and> spent x' \<le> spent x + of_nat (Suc k) * timeout + of_nat k * 5000"
  using assms(4,5)
proof (induction k arbitrary: attempt prior s x)
  case 0
  from 0(2) have s: "attempt_step t c q attempt (\<lambda>prior s x. (Next prior, s, x)) prior s x = (out, s', x')" by simp
  have "x' = snd (tr_send t (request_body c q) x)"
    using s 0(1) by (cases rule: attempt_step_cases) auto
  with send show ?case by simp
next
  case (Suc k)
  let ?x = "snd (tr_send t (request_body c q) x)"
  have x: "calls ?x = Suc (calls x)" "spent ?x \<le> spent x + timeout" using send by simp_all
  from Suc.prems(2) have "attempt_step t c q attempt (attempts t c q (Suc attempt) k) prior s x = (out, s', x')" by simp
  then show ?case
  proof (cases rule: attempt_step_cases)
    case ended
    have "0 \<le> of_nat (Suc k) * timeout" using assms(3) by simp
    with ended x show ?thesis by (simp add: algebra_simps)
  next
    case (repeated p)
    have "Suc attempt + k = dc_max_retries c" using Suc.prems(1) by simp
    from Suc.IH [OF this repeated] x show ?thesis by (simp add: algebra_simps)
  next
    case (waited d)
    have "Suc attempt + k = dc_max_retries c" using Suc.prems(1) by simp
    note step = Suc.IH [OF this waited(4)]
    have "calls (tr_sleep t d ?x) = Suc (calls x)" "spent (tr_sleep t d ?x) \<le> spent x + timeout + d"
      using sleep x by (simp, meson add_right_mono order_trans)
    with step waited(3) show ?thesis by (simp add: algebra_simps)
  qed
qed

text \<open>C30: A call of the provider sends at most one request more than the configured retries, and, when each
  exchange is cut off by its timer, it ends within the timeouts of those requests and five seconds
  for each retry, whatever the replies and their retry-after headers say.\<close>

theorem ai_call_bounded:
  assumes "\<forall>j x. calls (snd (tr_send t j x)) = Suc (calls x) \<and> spent (snd (tr_send t j x)) \<le> spent x + timeout"
    and "\<forall>d x. calls (tr_sleep t d x) = calls x \<and> spent (tr_sleep t d x) \<le> spent x + d"
    and "(0::rat) \<le> timeout" and "invoke t c q s x = (out, s', x')"
  shows "calls x' \<le> calls x + dc_max_retries c + 1
    \<and> spent x' \<le> spent x + of_nat (dc_max_retries c + 1) * timeout + of_nat (dc_max_retries c) * 5000"
proof (cases "nonempty (dc_api_key c) = None \<or> tr_now t x < ci_open_until s")
  case True
  with assms(4) have "x' = x" by (auto simp: invoke_def split: if_splits)
  moreover have "0 \<le> of_nat (dc_max_retries c + 1) * timeout" using assms(3) by simp
  ultimately show ?thesis by simp
next
  case False
  obtain o1 s1 x1 where a: "attempts t c q 0 (dc_max_retries c) None s x = (o1, s1, x1)" by (metis prod_cases3)
  with assms(4) False have "x1 = x'" by (cases o1) (auto simp: invoke_def)
  with attempts_bounded [OF assms(1-3) _ a] show ?thesis by simp
qed

section \<open>The circuit\<close>

lemma attempts_failed:
  "attempts t c q attempt k prior s x = (Next name, s', x') \<Longrightarrow> s' = s"
proof (induction k arbitrary: attempt prior s x)
  case 0
  then have "attempt_step t c q attempt (\<lambda>prior s x. (Next prior, s, x)) prior s x = (Next name, s', x')" by simp
  then show ?case by (cases rule: attempt_step_cases) auto
next
  case (Suc k)
  from Suc.prems have "attempt_step t c q attempt (attempts t c q (Suc attempt) k) prior s x = (Next name, s', x')" by simp
  then show ?case by (cases rule: attempt_step_cases) (auto dest: Suc.IH)
qed

lemma attempts_stop:
  "attempts t c q attempt k prior s x = (Stop e, s', x') \<Longrightarrow> \<exists>m. e = BadResponse m"
proof (induction k arbitrary: attempt prior s x)
  case 0
  then have "attempt_step t c q attempt (\<lambda>prior s x. (Next prior, s, x)) prior s x = (Stop e, s', x')" by simp
  then show ?case by (cases rule: attempt_step_cases) auto
next
  case (Suc k)
  from Suc.prems have "attempt_step t c q attempt (attempts t c q (Suc attempt) k) prior s x = (Stop e, s', x')" by simp
  then show ?case by (cases rule: attempt_step_cases) (auto dest: Suc.IH)
qed

lemma invoke_unavailable:
  assumes "invoke t c q s x = (Inl (Unavailable m n), s', x')" and "nonempty (dc_api_key c) \<noteq> None"
    and "\<not> tr_now t x < ci_open_until s"
  shows "ci_failures s' = Suc (ci_failures s) \<and> (3 \<le> ci_failures s' \<longrightarrow> ci_open_until s' = tr_now t x' + 30000)"
proof -
  obtain o1 s1 x1 where a: "attempts t c q 0 (dc_max_retries c) None s x = (o1, s1, x1)" by (metis prod_cases3)
  show ?thesis
  proof (cases o1)
    case (Stop e)
    with a attempts_stop [of t c q 0 "dc_max_retries c" None s x e s1 x1] assms show ?thesis by (auto simp: invoke_def)
  next
    case (Next name)
    with a have "s1 = s" using attempts_failed by metis
    with Next a assms show ?thesis by (auto simp: invoke_def Let_def)
  qed (use a assms in \<open>auto simp: invoke_def\<close>)
qed

text \<open>After three calls in a row that found the provider unavailable, no request leaves for thirty
  seconds: every call throws at once, with the world and the circuit as they were.\<close>

theorem circuit_opens:
  assumes "nonempty (dc_api_key c) \<noteq> None"
    and "\<not> tr_now t x1 < ci_open_until s" and "invoke t c q1 s x1 = (Inl (Unavailable m1 n1), s1, y1)"
    and "\<not> tr_now t x2 < ci_open_until s1" and "invoke t c q2 s1 x2 = (Inl (Unavailable m2 n2), s2, y2)"
    and "\<not> tr_now t x3 < ci_open_until s2" and "invoke t c q3 s2 x3 = (Inl (Unavailable m3 n3), s3, y3)"
    and "tr_now t y < tr_now t y3 + 30000"
  shows "invoke t c q s3 y = (Inl (Unavailable ''DeepSeek circuit is open'' 0), s3, y)"
proof -
  from invoke_unavailable [OF assms(3,1,2)] invoke_unavailable [OF assms(5,1,4)] invoke_unavailable [OF assms(7,1,6)]
  have "ci_open_until s3 = tr_now t y3 + 30000" by simp
  with assms(1,8) show ?thesis by (simp add: invoke_def)
qed

definition sample_transport :: "int transport" where
  "sample_transport = \<lparr> tr_send = (\<lambda>j x. (Reply 503 None (Inl ''SyntaxError''), x + 1)), tr_sleep = (\<lambda>d x. x),
     tr_now = (\<lambda>x. 0), tr_number = (\<lambda>s. None), tr_date = (\<lambda>s. None) \<rparr>"

definition sample_config :: deepseek_config where
  "sample_config = \<lparr> dc_api_key = Some ''k'', dc_base_url = ''u'', dc_model = ''m'', dc_max_retries = 0 \<rparr>"

definition sample_prompt :: provider_request where
  "sample_prompt = \<lparr> pq_prefix = ''p'', pq_volatile = ''v'', pq_model = ''m'', pq_mode = ''standard'', pq_max_output = 1 \<rparr>"

lemma sample_unavailable:
  "\<not> 0 < ci_open_until s \<Longrightarrow> \<exists>s'. invoke sample_transport sample_config sample_prompt s x
     = (Inl (Unavailable ''Error'' 0), s', x + 1) \<and> s' = \<lparr> ci_failures = Suc (ci_failures s),
         ci_open_until = (if 3 \<le> Suc (ci_failures s) then 30000 else ci_open_until s) \<rparr>"
  by (simp add: invoke_def sample_transport_def sample_config_def attempt_step_def nonempty_def or_default_def Let_def)

theorem circuit_opens_witness:
  "\<exists>s3. invoke sample_transport sample_config sample_prompt s3 9 = (Inl (Unavailable ''DeepSeek circuit is open'' 0), s3, 9)"
proof -
  let ?s = "\<lambda>n. \<lparr> ci_failures = n, ci_open_until = (if 3 \<le> n then 30000 else 0) \<rparr>"
  have r: "invoke sample_transport sample_config sample_prompt (?s 0) 0 = (Inl (Unavailable ''Error'' 0), ?s 1, 1)"
    "invoke sample_transport sample_config sample_prompt (?s 1) 1 = (Inl (Unavailable ''Error'' 0), ?s 2, 2)"
    "invoke sample_transport sample_config sample_prompt (?s 2) 2 = (Inl (Unavailable ''Error'' 0), ?s 3, 3)"
    using sample_unavailable [of "?s 0" 0] sample_unavailable [of "?s 1" 1] sample_unavailable [of "?s 2" 2]
    by (simp_all add: numeral_2_eq_2 numeral_3_eq_3)
  have now: "nonempty (dc_api_key sample_config) \<noteq> None" "\<not> tr_now sample_transport (0::int) < ci_open_until (?s 0)"
    "\<not> tr_now sample_transport (1::int) < ci_open_until (?s 1)" "\<not> tr_now sample_transport (2::int) < ci_open_until (?s 2)"
    "tr_now sample_transport (9::int) < tr_now sample_transport 3 + 30000"
    by (simp_all add: sample_transport_def sample_config_def nonempty_def)
  from circuit_opens [OF now(1,2) r(1) now(3) r(2) now(4) r(3) now(5)] show ?thesis by blast
qed

definition counting_transport :: "(nat \<times> rat) transport" where
  "counting_transport = \<lparr> tr_send = (\<lambda>j x. (Reply 503 None (Inl ''SyntaxError''), (Suc (fst x), snd x + 30000))),
     tr_sleep = (\<lambda>d x. (fst x, snd x + d)), tr_now = (\<lambda>x. 0), tr_number = (\<lambda>s. None), tr_date = (\<lambda>s. None) \<rparr>"

theorem ai_call_bounded_witness:
  "\<exists>out s' x'. invoke counting_transport (sample_config \<lparr> dc_max_retries := 2 \<rparr>) sample_prompt
      \<lparr> ci_failures = 0, ci_open_until = 0 \<rparr> (0, 0) = (out, s', x') \<and> fst x' \<le> 3 \<and> snd x' \<le> 100000"
proof -
  obtain out s' x' where run: "invoke counting_transport (sample_config \<lparr> dc_max_retries := 2 \<rparr>) sample_prompt
      \<lparr> ci_failures = 0, ci_open_until = 0 \<rparr> (0, 0) = (out, s', x')" by (metis prod_cases3)
  have "\<forall>j x. fst (snd (tr_send counting_transport j x)) = Suc (fst x) \<and> snd (snd (tr_send counting_transport j x)) \<le> snd x + 30000"
    "\<forall>d x. fst (tr_sleep counting_transport d x) = fst x \<and> snd (tr_sleep counting_transport d x) \<le> snd x + d"
    by (simp_all add: counting_transport_def)
  from ai_call_bounded [OF this _ run] have "fst x' \<le> 3 \<and> snd x' \<le> 100000" by (simp add: sample_config_def)
  with run show ?thesis by blast
qed

end
