(* ===== verification/Export_Store.thy ===== *)
theory Export_Store
  imports Document_Store
begin

text \<open>
  Portable exports in the repository: \<open>startPortableExport\<close> to \<open>completePortableExport\<close>, and the
  two bare idempotency methods \<open>reserveIdempotency\<close> and \<open>completeIdempotency\<close>.
\<close>

section \<open>Starting an export\<close>

definition export_row_ok :: "export_row \<Rightarrow> bool" where
  "export_row_ok x \<longleftrightarrow> x_status x \<in> {''pending'', ''building'', ''completed'', ''failed'', ''expired''}
     \<and> 0 < x_key_version x \<and> (case x_archive_sha256 x of None \<Rightarrow> True | Some h \<Rightarrow> sha256_text h)
     \<and> (x_status x = ''completed'') = (x_object_key x \<noteq> None \<and> x_archive_sha256 x \<noteq> None \<and> x_signer x \<noteq> None
          \<and> x_completed x \<noteq> None)"

definition same_export :: "export_row \<Rightarrow> export_row \<Rightarrow> bool" where
  "same_export x x' \<longleftrightarrow> same_id x x' \<or> x_workflow x = x_workflow x'"

definition new_export :: "tenant_context \<Rightarrow> string \<Rightarrow> string \<Rightarrow> json \<Rightarrow> int \<Rightarrow> int \<Rightarrow> export_row" where
  "new_export ctx i workflow_id wrapped key_version requested = \<lparr> row_org = tc_org ctx, row_hh = tc_hh ctx, row_id = i,
     row_version = 1, x_workflow = workflow_id, x_status = ''pending'', x_wrapped_key = wrapped,
     x_key_version = key_version, x_object_key = None, x_archive_sha256 = None, x_signer = None,
     x_created = requested, x_completed = None \<rparr>"

definition export_request_json :: "string \<Rightarrow> int \<Rightarrow> json" where
  "export_request_json fingerprint key_version = JObj [(''exportKeyFingerprint'', JStr fingerprint),
     (''encryptionKeyVersion'', JNum key_version)]"

definition start_export_body ::
  "tenant_context \<Rightarrow> string \<Rightarrow> string \<Rightarrow> json \<Rightarrow> int \<Rightarrow> int \<Rightarrow> session \<Rightarrow> json op" where
  "start_export_body ctx export_id workflow_id wrapped key_version requested s d =
     res_bind (insert_returning workflows workflows_update same_workflow
         (new_workflow ctx workflow_id ''export'' (''export:'' @ export_id) ''snapshot'' (Some (''Export'', export_id))) s d)
       (\<lambda>(w, d1).
     if \<not> export_row_ok (new_export ctx export_id workflow_id wrapped key_version requested) then Inl pg_check_violation
     else res_bind (insert_returning exports exports_update same_export
         (new_export ctx export_id workflow_id wrapped key_version requested) s d1) (\<lambda>(x, d2).
       Inr (JObj [(''export'', row_json (row_id x) (x_status x) (row_version x)),
                  (''workflow'', row_json (row_id w) (w_status w) (row_version w))], d2)))"

definition startPortableExport ::
  "(string \<Rightarrow> string) \<Rightarrow> tenant_context \<Rightarrow> string \<Rightarrow> string \<Rightarrow> int \<Rightarrow> string \<Rightarrow> string \<Rightarrow> json \<Rightarrow> int \<Rightarrow> int \<Rightarrow> db
   \<Rightarrow> json result \<times> db" where
  "startPortableExport sha256 ctx export_id workflow_id now key fingerprint wrapped key_version requested =
     withTenant ctx (\<lambda>s. idempotent_call (tenant_lookup ctx key) (tenant_reserve ctx key now)
       (tenant_complete ctx key 202) (request_hash sha256 (export_request_json fingerprint key_version))
       ''idempotency key reused with different request'' ''export request is still processing''
       (start_export_body ctx export_id workflow_id wrapped key_version requested s))"

section \<open>The snapshot\<close>

text \<open>
  \<open>to_jsonb\<close> of a row without its tenant columns.  How the server writes a \<open>timestamptz\<close>, a
  \<open>bytea\<close> and a \<open>numeric\<close> as JSON, and the normal form of a \<open>jsonb\<close> object, are parameters.
\<close>

record jsonb_codec =
  jc_time :: "int \<Rightarrow> json"
  jc_bytes :: "string \<Rightarrow> json"
  jc_numeric :: "int \<Rightarrow> json"
  jc_object :: "(string \<times> json) list \<Rightarrow> json"

definition nullable :: "('a \<Rightarrow> json) \<Rightarrow> 'a option \<Rightarrow> json" where
  "nullable f v = (case v of None \<Rightarrow> JNull | Some x \<Rightarrow> f x)"

definition person_json :: "jsonb_codec \<Rightarrow> person_row \<Rightarrow> json" where
  "person_json c p = jc_object c [(''id'', JStr (row_id p)), (''display_name_encrypted'', jc_bytes c (p_display_name p)),
     (''key_version'', JNum (p_key_version p)), (''version'', JNum (row_version p))]"

definition membership_row_json :: "jsonb_codec \<Rightarrow> membership_row \<Rightarrow> json" where
  "membership_row_json c m = jc_object c [(''id'', JStr (row_id m)), (''person_id'', JStr (m_person m)),
     (''role'', JStr (m_role m)), (''active'', JNum (m_active m)), (''version'', JNum (row_version m))]"

definition grant_json :: "jsonb_codec \<Rightarrow> grant_row \<Rightarrow> json" where
  "grant_json c g = jc_object c [(''id'', JStr (row_id g)), (''membership_id'', JStr (g_membership g)),
     (''categories'', g_categories g), (''actions'', g_actions g), (''purpose'', JStr (g_purpose g)),
     (''starts_at'', jc_time c (g_starts g)), (''expires_at'', nullable (jc_time c) (g_expires g)),
     (''revoked_at'', nullable (jc_time c) (g_revoked g)), (''version'', JNum (row_version g))]"

definition fact_json :: "jsonb_codec \<Rightarrow> fact_row \<Rightarrow> json" where
  "fact_json c f = jc_object c [(''id'', JStr (row_id f)), (''field_key'', JStr (f_field_key f)),
     (''typed_value_encrypted'', jc_bytes c (f_value_encrypted f)), (''key_version'', JNum (f_key_version f)),
     (''status'', JStr (f_status f)), (''source_type'', JStr (f_source_type f)), (''source_id'', JStr (f_source_id f)),
     (''evidence_ids'', JArr (map JStr (f_evidence f))), (''confidence'', nullable (jc_numeric c) (f_confidence f)),
     (''sensitivity'', JStr (f_sensitivity f)), (''confirmed_by'', nullable JStr (f_confirmed_by f)),
     (''confirmed_at'', nullable (jc_time c) (f_confirmed_at f)),
     (''last_reviewed_at'', nullable (jc_time c) (f_last_reviewed f)), (''version'', JNum (row_version f))]"

definition consent_json :: "jsonb_codec \<Rightarrow> consent_row \<Rightarrow> json" where
  "consent_json c r = jc_object c [(''id'', JStr (row_id r)), (''person_id'', JStr (c_person r)),
     (''purpose'', JStr (c_purpose r)), (''policy_version'', JStr (c_policy r)), (''granted_at'', jc_time c (c_granted r)),
     (''withdrawn_at'', nullable (jc_time c) (c_withdrawn r)), (''version'', JNum (row_version r))]"

definition emergency_json :: "jsonb_codec \<Rightarrow> emergency_row \<Rightarrow> json" where
  "emergency_json c e = jc_object c [(''id'', JStr (row_id e)), (''requester_id'', JStr (er_requester_id e)),
     (''recipient_membership_id'', JStr (er_recipient_membership e)), (''categories'', er_category_json e),
     (''reason_encrypted'', jc_bytes c (er_reason_encrypted e)), (''key_version'', JNum (er_key_version e)),
     (''status'', JStr (er_row_status e)), (''requested_at'', jc_time c (er_requested_at e)),
     (''decision_at'', nullable (jc_time c) (er_decision_at e)), (''release_after'', nullable (jc_time c) (er_release_at e)),
     (''version'', JNum (row_version e))]"

definition report_row_json :: "jsonb_codec \<Rightarrow> report_row \<Rightarrow> json" where
  "report_row_json c r = jc_object c [(''id'', JStr (row_id r)), (''kind'', JStr (r_kind r)),
     (''generated_at'', jc_time c (r_generated r)), (''claims'', r_claims r), (''source_fact_versions'', r_versions r),
     (''version'', JNum (row_version r)), (''workflow_id'', nullable JStr (r_workflow r)),
     (''requested_by'', nullable JStr (r_requested_by r)), (''status'', JStr (r_status r)),
     (''completed_at'', nullable (jc_time c) (r_completed r)), (''payload_encrypted'', nullable (jc_bytes c) (r_payload r)),
     (''encryption_key_version'', nullable JNum (r_key_version r))]"

definition privacy_json :: "jsonb_codec \<Rightarrow> privacy_row \<Rightarrow> json" where
  "privacy_json c p = jc_object c [(''id'', JStr (row_id p)), (''person_id'', JStr (pr_person p)), (''kind'', JStr (pr_kind p)),
     (''status'', JStr (pr_status p)), (''requested_at'', jc_time c (pr_requested p)), (''version'', JNum (row_version p)),
     (''verified_at'', nullable (jc_time c) (pr_verified p)), (''recovery_until'', nullable (jc_time c) (pr_recovery p)),
     (''completed_at'', nullable (jc_time c) (pr_completed p))]"

definition subscription_json :: "jsonb_codec \<Rightarrow> subscription_row \<Rightarrow> json" where
  "subscription_json c r = jc_object c [(''id'', JStr (row_id r)), (''status'', JStr (s_status r)), (''plan'', JStr (s_plan r)),
     (''version'', JNum (row_version r)), (''provider_updated_at'', nullable (jc_time c) (s_updated r)),
     (''trial_ends_at'', nullable (jc_time c) (s_trial_ends r)),
     (''current_period_ends_at'', nullable (jc_time c) (s_period_ends r)),
     (''cancel_at_period_end'', JBool (s_cancel_at_end r)), (''canceled_at'', nullable (jc_time c) (s_canceled r))]"

definition agg :: "session \<Rightarrow> ('a tenant_row_scheme \<Rightarrow> json) \<Rightarrow> 'a tenant_row_scheme list \<Rightarrow> json" where
  "agg s f t = JArr (map f (order_by row_id (sql_select s (\<lambda>_. True) t)))"

definition household_snapshot :: "jsonb_codec \<Rightarrow> session \<Rightarrow> db \<Rightarrow> json" where
  "household_snapshot c s d = jc_object c [(''format'', JStr ''legacy-vault-household-snapshot/v1''),
     (''people'', agg s (person_json c) (people d)), (''memberships'', agg s (membership_row_json c) (memberships d)),
     (''permissionGrants'', agg s (grant_json c) (grants d)), (''facts'', agg s (fact_json c) (facts d)),
     (''consents'', agg s (consent_json c) (consents d)), (''emergencyAccess'', agg s (emergency_json c) (emergencies d)),
     (''reports'', agg s (report_row_json c) (reports d)), (''privacyRequests'', agg s (privacy_json c) (privacy_requests d)),
     (''subscription'', agg s (subscription_json c) (subscriptions d))]"

section \<open>Building, completing and reading\<close>

record export_document =
  xd_id :: string
  xd_object_key :: string
  xd_media_type :: string
  xd_key_version :: int

record export_build =
  xb_export :: string
  xb_workflow :: string
  xb_status :: string
  xb_created :: string
  xb_wrapped_key :: json
  xb_key_version :: int
  xb_snapshot :: json
  xb_documents :: "export_document list"

definition export_of :: "session \<Rightarrow> db \<Rightarrow> string \<Rightarrow> export_row \<Rightarrow> bool" where
  "export_of s d workflow_id x \<longleftrightarrow> x_workflow x = workflow_id
     \<and> list_ex (\<lambda>w. row_id w = workflow_id \<and> w_subject_type w = Some ''Export'' \<and> w_subject_id w = Some (row_id x))
         (sql_select s (\<lambda>_. True) (workflows d))"

definition export_documents :: "session \<Rightarrow> db \<Rightarrow> export_document list" where
  "export_documents s d = map (\<lambda>r. \<lparr> xd_id = row_id r, xd_object_key = d_object_key r, xd_media_type = d_media_type r,
     xd_key_version = d_key_version r \<rparr>) (order_by row_id (sql_select s (\<lambda>r. d_status r = ''clean'') (documents d)))"

definition getPortableExportBuildInput ::
  "jsonb_codec \<Rightarrow> tenant_context \<Rightarrow> string \<Rightarrow> db \<Rightarrow> export_build result \<times> db" where
  "getPortableExportBuildInput c ctx workflow_id = withTenant ctx (\<lambda>s d.
     case sql_select s (export_of s d workflow_id) (exports d) of
       [] \<Rightarrow> Inl (js_error ''portable export is unavailable'')
     | x # _ \<Rightarrow> Inr (\<lparr> xb_export = row_id x, xb_workflow = x_workflow x, xb_status = x_status x,
         xb_created = toISOString (x_created x), xb_wrapped_key = x_wrapped_key x, xb_key_version = x_key_version x,
         xb_snapshot = household_snapshot c s d, xb_documents = export_documents s d \<rparr>, d))"

record export_read_model =
  xm_id :: string
  xm_status :: string
  xm_object_key :: "string option"
  xm_archive_sha256 :: "string option"
  xm_signer :: "string option"
  xm_created :: string
  xm_completed :: "string option"
  xm_version :: int

definition getPortableExport :: "tenant_context \<Rightarrow> string \<Rightarrow> db \<Rightarrow> export_read_model option result \<times> db" where
  "getPortableExport ctx export_id = withTenant ctx (\<lambda>s d.
     Inr (case sql_select s (\<lambda>x. row_id x = export_id) (exports d) of
       [] \<Rightarrow> None
     | x # _ \<Rightarrow> Some \<lparr> xm_id = row_id x, xm_status = x_status x, xm_object_key = x_object_key x,
         xm_archive_sha256 = x_archive_sha256 x, xm_signer = x_signer x, xm_created = toISOString (x_created x),
         xm_completed = map_option toISOString (x_completed x), xm_version = row_version x \<rparr>, d))"

definition complete_export_set :: "string \<Rightarrow> string \<Rightarrow> string \<Rightarrow> int \<Rightarrow> export_row \<Rightarrow> export_row" where
  "complete_export_set object_key sha signer at x = x \<lparr> x_status := ''completed'', x_object_key := Some object_key,
     x_archive_sha256 := Some sha, x_signer := Some signer, x_completed := Some at, row_version := row_version x + 1 \<rparr>"

definition finish_export_workflow :: "workflow_row \<Rightarrow> workflow_row" where
  "finish_export_workflow w = w \<lparr> w_status := ''completed'', w_completed_steps := [''snapshot'', ''archive'', ''store''],
     w_next := None, row_version := row_version w + 1 \<rparr>"

definition completePortableExport ::
  "tenant_context \<Rightarrow> string \<Rightarrow> string \<Rightarrow> string \<Rightarrow> string \<Rightarrow> string \<Rightarrow> int \<Rightarrow> db \<Rightarrow> unit result \<times> db" where
  "completePortableExport ctx export_id workflow_id object_key sha signer at = withTenant ctx (\<lambda>s d.
     let p = (\<lambda>x. row_id x = export_id \<and> x_workflow x = workflow_id \<and> x_status x \<noteq> ''completed'');
         rs = sql_select s p (exports d);
         finish = (\<lambda>d. Inr ((), d \<lparr> workflows := sql_update s (\<lambda>w. row_id w = workflow_id \<and> w_status w \<noteq> ''completed'')
                      finish_export_workflow (workflows d) \<rparr>)) in
     if rs = [] then
       (if length (sql_select s (\<lambda>x. row_id x = export_id \<and> x_workflow x = workflow_id \<and> x_status x = ''completed''
             \<and> x_object_key x = Some object_key \<and> x_archive_sha256 x = Some sha) (exports d)) \<noteq> 1
        then Inl (js_error ''portable export completion conflict'') else finish d)
     else if \<not> list_all export_row_ok (map (complete_export_set object_key sha signer at) rs) then Inl pg_check_violation
     else finish (d \<lparr> exports := sql_update s p (complete_export_set object_key sha signer at) (exports d) \<rparr>))"

section \<open>Bare idempotency records\<close>

definition tenant_row :: "tenant_context \<Rightarrow> string \<Rightarrow> db \<Rightarrow> idem_row option" where
  "tenant_row ctx key d = (case sql_select (tenant_session ctx) (tenant_key ctx key) (idem d) of
     [] \<Rightarrow> None | r # _ \<Rightarrow> Some r)"

text \<open>The result: no replay, or a replay with the stored status and response once there is one.\<close>

definition reserveIdempotency ::
  "(string \<Rightarrow> string) \<Rightarrow> tenant_context \<Rightarrow> int \<Rightarrow> string \<Rightarrow> json \<Rightarrow> db
   \<Rightarrow> (bool \<times> (int \<times> json option) option) result \<times> db" where
  "reserveIdempotency sha256 ctx now key request = withTenant ctx (\<lambda>s d.
     case tenant_reserve ctx key now (request_hash sha256 request) d of
       Some d' \<Rightarrow> Inr ((False, None), d')
     | None \<Rightarrow> (case tenant_row ctx key d of
         None \<Rightarrow> Inl (js_error ''idempotency key reused with different request'')
       | Some r \<Rightarrow> if k_hash r \<noteq> request_hash sha256 request
           then Inl (js_error ''idempotency key reused with different request'')
           else Inr ((True, map_option (\<lambda>st. (st, k_response r)) (k_status r)), d)))"

definition completeIdempotency :: "tenant_context \<Rightarrow> string \<Rightarrow> int \<Rightarrow> json \<Rightarrow> db \<Rightarrow> unit result \<times> db" where
  "completeIdempotency ctx key status v = withTenant ctx (\<lambda>s d.
     Inr ((), d \<lparr> idem := sql_update s (\<lambda>r. tenant_key ctx key r \<and> k_status r = None)
        (\<lambda>r. r \<lparr> k_status := Some status, k_response := Some v \<rparr>) (idem d) \<rparr>))"

end
