(* ===== verification/Export_Worker.thy ===== *)
theory Export_Worker
  imports Export_Store Portable_Export Document_Worker
begin

text \<open>
  The export workflow of \<open>apps/worker/src/index.ts\<close>, \<open>createPortableExportWorkflowHandler\<close>: it opens the
  export key that the request stored, wraps the household's data key with it, collects the snapshot
  and the ciphertexts of the documents, and stores the signed archive.  The object store is an
  operation on the world \<open>'x\<close>; the cipher, SHA-256, Ed25519, \<open>Date.parse\<close> and \<open>localeCompare\<close> are
  parameters.  The household keys and the export keys are wrapped with the same key \<open>kek\<close>, as
  \<open>runWorker\<close> sets them up.
\<close>

section \<open>The handler\<close>

record 'x export_world =
  ew_get :: "string \<Rightarrow> ('x, string) world_op"
  ew_put :: "string \<Rightarrow> string \<Rightarrow> string \<Rightarrow> ('x, unit) world_op"

definition export_key_context :: "tenant_context \<Rightarrow> int \<Rightarrow> encryption_context" where
  "export_key_context ctx version = \<lparr> ec_org = tc_org ctx, ec_hh = tc_hh ctx, ec_record = tc_hh ctx,
     ec_purpose = ''portable-export-key'', ec_version = version \<rparr>"

definition rewrap_context :: "string \<Rightarrow> int \<Rightarrow> encryption_context" where
  "rewrap_context export_id version = \<lparr> ec_org = ''portable-export'', ec_hh = ''portable-export'',
     ec_record = export_id, ec_purpose = ''portable-household-key'', ec_version = version \<rparr>"

definition open_export_key :: "aead \<Rightarrow> string \<Rightarrow> tenant_context \<Rightarrow> export_build \<Rightarrow> string result" where
  "open_export_key a kek ctx b = res_bind (storedEnvelope (xb_wrapped_key b)) (\<lambda>e.
     decryptEnvelope a e kek (export_key_context ctx (xb_key_version b)))"

definition snapshot_entry :: "export_build \<Rightarrow> export_entry" where
  "snapshot_entry b = \<lparr> xe_path = ''records/household-snapshot.json'', xe_media = ''application/json'',
     xe_bytes = utf8_bytes (json_stringify (xb_snapshot b)) \<rparr>"

definition household_key_entry :: "int \<Rightarrow> envelope \<Rightarrow> export_entry" where
  "household_key_entry version e = \<lparr> xe_path = ''keys/household-dek.json'', xe_media = ''application/json'',
     xe_bytes = utf8_bytes (json_stringify (JObj [(''keyVersion'', JNum version),
       (''envelope'', JObj (envelope_members e))])) \<rparr>"

definition document_entry :: "export_document \<Rightarrow> string \<Rightarrow> export_entry" where
  "document_entry t ciphertext = \<lparr> xe_path = ''documents/'' @ xd_id t @ ''.encrypted'',
     xe_media = ''application/octet-stream'', xe_bytes = ciphertext \<rparr>"

fun document_entries :: "(string \<Rightarrow> ('x, string) world_op) \<Rightarrow> export_document list \<Rightarrow> ('x, export_entry list) world_op" where
  "document_entries get [] = pure_result (Inr [])"
| "document_entries get (t # ts) = world_bind (get (xd_object_key t)) (\<lambda>ciphertext.
     world_bind (document_entries get ts) (\<lambda>es. pure_result (Inr (document_entry t ciphertext # es))))"

definition export_object_key :: "export_build \<Rightarrow> string" where
  "export_object_key b = ''exports/'' @ xb_export b @ ''.lvault''"

definition archive_input :: "tenant_context \<Rightarrow> string \<Rightarrow> string \<Rightarrow> export_build \<Rightarrow> export_entry list \<Rightarrow> export_input" where
  "archive_input ctx signing key b es = \<lparr> xi_archive = xb_export b, xi_org = tc_org ctx, xi_hh = tc_hh ctx,
     xi_created = xb_created b, xi_version = xb_key_version b, xi_key = key, xi_signing_key = signing,
     xi_entries = es \<rparr>"

text \<open>The functions of the libraries that the handler uses.\<close>

record 'k export_host =
  eh_date_ok :: "string \<Rightarrow> bool"
  eh_collate :: "string \<Rightarrow> 'k"
  eh_sha256 :: "string \<Rightarrow> string"
  eh_aead :: aead
  eh_ed25519 :: ed25519

text \<open>The archive up to its place in the object store; \<open>rewrap_iv\<close> is the nonce of the wrapped key.\<close>

definition make_archive ::
  "'k::linorder export_host \<Rightarrow> 'x export_world \<Rightarrow> string \<Rightarrow> string \<Rightarrow> string \<Rightarrow> tenant_context \<Rightarrow> export_build
   \<Rightarrow> string \<Rightarrow> int \<times> string \<Rightarrow> ('x, string) world_op" where
  "make_archive h ew signing rewrap_iv iv ctx b key vk =
     world_bind (pure_result (encryptEnvelope (eh_aead h) rewrap_iv (snd vk) key
        (rewrap_context (xb_export b) (xb_key_version b)))) (\<lambda>rewrapped.
     world_bind (document_entries (ew_get ew) (xb_documents b)) (\<lambda>es.
     world_bind (pure_result (createPortableExport (eh_date_ok h) (eh_collate h) (eh_sha256 h) (eh_aead h) (eh_ed25519 h) iv
        (archive_input ctx signing key b (snapshot_entry b # household_key_entry (fst vk) rewrapped # es)))) (\<lambda>archive.
     world_bind (ew_put ew (export_object_key b) archive (base64 (eh_sha256 h archive))) (\<lambda>_.
     pure_result (Inr archive)))))"

definition export_run ::
  "'k::linorder export_host \<Rightarrow> 'x export_world \<Rightarrow> string \<Rightarrow> string \<Rightarrow> string \<Rightarrow> string \<Rightarrow> run_inputs \<Rightarrow> tenant_context
   \<Rightarrow> string \<Rightarrow> db \<Rightarrow> 'x \<Rightarrow> jsonb_codec \<Rightarrow> unit result \<times> db \<times> 'x" where
  "export_run h ew kek signing pub rewrap_iv ri ctx workflow_id d x c =
     (case getPortableExportBuildInput c ctx workflow_id d of
        (Inl e, d1) \<Rightarrow> (Inl e, d1, x)
      | (Inr b, d1) \<Rightarrow>
          if xb_status b = ''completed'' then (Inr (), d1, x)
          else (case open_export_key (eh_aead h) kek ctx b of
              Inl e \<Rightarrow> (Inl e, d1, x)
            | Inr key \<Rightarrow>
                (case getOrCreateActiveKey (eh_aead h) kek (ri_key_id ri) (ri_random_key ri) (ri_key_iv ri) (ri_now ri) ctx d1 of
                   (Inl e, d2) \<Rightarrow> (Inl e, d2, x)
                 | (Inr vk, d2) \<Rightarrow>
                     (case make_archive h ew signing rewrap_iv (ri_iv ri) ctx b key vk x of
                        (Inl e, x1) \<Rightarrow> (Inl e, d2, x1)
                      | (Inr archive, x1) \<Rightarrow>
                          (case completePortableExport ctx (xb_export b) (xb_workflow b) (export_object_key b)
                              (hex_text (eh_sha256 h archive)) pub (ri_now ri) d2 of
                             (r, d3) \<Rightarrow> (r, d3, x1))))))"

text \<open>The factory checks the two keys once, before it returns the handler.\<close>

definition createPortableExportWorkflowHandler ::
  "'k::linorder export_host \<Rightarrow> 'x export_world \<Rightarrow> string \<Rightarrow> string \<Rightarrow> string \<Rightarrow> run_inputs \<Rightarrow> tenant_context
   \<Rightarrow> string \<Rightarrow> db \<Rightarrow> 'x \<Rightarrow> jsonb_codec \<Rightarrow> unit result \<times> db \<times> 'x" where
  "createPortableExportWorkflowHandler h ew kek signing rewrap_iv ri ctx workflow_id d x c =
     (if length kek \<noteq> 32 then (Inl (js_error ''application KEK must be exactly 32 bytes''), d, x)
      else (case signer_public_key (eh_ed25519 h) signing of
          Inl e \<Rightarrow> (Inl e, d, x)
        | Inr pub \<Rightarrow> export_run h ew kek signing pub rewrap_iv ri ctx workflow_id d x c))"

section \<open>What a finished export has stored\<close>

lemma make_archive_Inr:
  assumes "make_archive h ew signing rewrap_iv iv ctx b key vk x = (Inr archive, x')"
  obtains rewrapped es x1 where
    "encryptEnvelope (eh_aead h) rewrap_iv (snd vk) key (rewrap_context (xb_export b) (xb_key_version b)) = Inr rewrapped"
    "document_entries (ew_get ew) (xb_documents b) x = (Inr es, x1)"
    "createPortableExport (eh_date_ok h) (eh_collate h) (eh_sha256 h) (eh_aead h) (eh_ed25519 h) iv
       (archive_input ctx signing key b (snapshot_entry b # household_key_entry (fst vk) rewrapped # es)) = Inr archive"
    "ew_put ew (export_object_key b) archive (base64 (eh_sha256 h archive)) x1 = (Inr (), x')"
  using assms unfolding make_archive_def world_bind_Inr by (auto simp: pure_result_def)

lemma export_input_same:
  "getPortableExportBuildInput c ctx workflow_id d = (Inr b, d1) \<Longrightarrow> d1 = d \<and> xb_workflow b = workflow_id
     \<and> (\<exists>r \<in> set (exports d). tenant_visible (tenant_session ctx) r \<and> row_id r = xb_export b
          \<and> x_workflow r = workflow_id \<and> x_status r = xb_status b)"
  by (force simp: getPortableExportBuildInput_def withTenant_def export_of_def dest: sql_select_hd split: list.splits)

lemma export_run_Inr:
  assumes "export_run h ew kek signing pub rewrap_iv ri ctx workflow_id d x c = (Inr (), d', x')"
    and "getPortableExportBuildInput c ctx workflow_id d = (Inr b, d1)" and "xb_status b \<noteq> ''completed''"
  obtains key vk d2 archive where "open_export_key (eh_aead h) kek ctx b = Inr key"
    "getOrCreateActiveKey (eh_aead h) kek (ri_key_id ri) (ri_random_key ri) (ri_key_iv ri) (ri_now ri) ctx d = (Inr vk, d2)"
    "make_archive h ew signing rewrap_iv (ri_iv ri) ctx b key vk x = (Inr archive, x')"
    "completePortableExport ctx (xb_export b) (xb_workflow b) (export_object_key b) (hex_text (eh_sha256 h archive)) pub
       (ri_now ri) d2 = (Inr (), d')"
proof -
  have d1: "d1 = d" using export_input_same [OF assms(2)] by simp
  from assms d1 obtain key where key: "open_export_key (eh_aead h) kek ctx b = Inr key"
    by (cases "open_export_key (eh_aead h) kek ctx b") (simp_all add: export_run_def)
  obtain res d2 where k: "getOrCreateActiveKey (eh_aead h) kek (ri_key_id ri) (ri_random_key ri) (ri_key_iv ri) (ri_now ri) ctx d
      = (res, d2)" by force
  with assms d1 key obtain vk where vk: "res = Inr vk" by (cases res) (simp_all add: export_run_def)
  obtain r x1 where m: "make_archive h ew signing rewrap_iv (ri_iv ri) ctx b key vk x = (r, x1)" by force
  with assms d1 key k vk obtain archive where r: "r = Inr archive" by (cases r) (simp_all add: export_run_def)
  obtain out d3 where f: "completePortableExport ctx (xb_export b) (xb_workflow b) (export_object_key b)
      (hex_text (eh_sha256 h archive)) pub (ri_now ri) d2 = (out, d3)" by force
  with assms d1 key k vk m r have "out = Inr ()" "d3 = d'" "x1 = x'" by (simp_all add: export_run_def)
  with that [OF key] k vk m r f show thesis by simp
qed

lemma completePortableExport_effect:
  assumes "completePortableExport ctx export_id workflow_id object_key sha signer at d = (Inr (), d')"
    and "r \<in> set (exports d)" and "tenant_visible (tenant_session ctx) r" and "row_id r = export_id"
    and "x_workflow r = workflow_id" and "x_status r \<noteq> ''completed''"
  shows "complete_export_set object_key sha signer at r \<in> set (exports d')"
proof -
  let ?p = "\<lambda>x. row_id x = export_id \<and> x_workflow x = workflow_id \<and> x_status x \<noteq> ''completed''"
  have "r \<in> set (sql_select (tenant_session ctx) ?p (exports d))" using assms(2-6) by (simp add: in_sql_select)
  then have ne: "sql_select (tenant_session ctx) ?p (exports d) \<noteq> []" by (cases "sql_select (tenant_session ctx) ?p (exports d)") simp_all
  with assms(1) have "exports d' = sql_update (tenant_session ctx) ?p (complete_export_set object_key sha signer at) (exports d)"
    unfolding completePortableExport_def withTenant_def transaction_Inr Let_def
    by (simp only: if_False) (clarsimp split: if_splits)
  with assms(2-6) show ?thesis by (auto simp: in_sql_update)
qed

text \<open>C9: When the export handler returns without an error on an export that was not finished, it has put
  an archive into the object store, under the export's own key, that opens with the export key of the
  request under the signer's public key to exactly the snapshot, the wrapped household key and the
  documents' ciphertexts as the object store gave them; the wrapped key opens with the same export key
  to the household's data key; and the export's row is completed with the archive's SHA-256 and signer.\<close>

theorem finished_export_opens:
  assumes "createPortableExportWorkflowHandler h ew kek signing rewrap_iv ri ctx workflow_id d x c = (Inr (), d', x')"
    and "getPortableExportBuildInput c ctx workflow_id d = (Inr b, d1)" and "xb_status b \<noteq> ''completed''"
    and "aead_ok (eh_aead h)" and "ed25519_ok (eh_ed25519 h)" and "length (ri_iv ri) = 12" and "length rewrap_iv = 12"
  shows "\<exists>key pub version household d2 rewrapped es archive x1 m.
    open_export_key (eh_aead h) kek ctx b = Inr key \<and> public_of (eh_ed25519 h) signing = Some pub
    \<and> document_entries (ew_get ew) (xb_documents b) x = (Inr es, x1)
    \<and> ew_put ew (export_object_key b) archive (base64 (eh_sha256 h archive)) x1 = (Inr (), x')
    \<and> verifyAndOpenPortableExport (eh_collate h) (eh_sha256 h) (eh_aead h) (eh_ed25519 h) archive key pub = Inr m
    \<and> map opened_entry (im_entries m) = sort_key (\<lambda>(p, t, bytes). eh_collate h p)
        (map sealed_entry (snapshot_entry b # household_key_entry version rewrapped # es))
    \<and> decryptEnvelope (eh_aead h) rewrapped key (rewrap_context (xb_export b) (xb_key_version b)) = Inr household
    \<and> getOrCreateActiveKey (eh_aead h) kek (ri_key_id ri) (ri_random_key ri) (ri_key_iv ri) (ri_now ri) ctx d
        = (Inr (version, household), d2)
    \<and> (\<exists>r \<in> set (exports d'). row_id r = xb_export b \<and> x_status r = ''completed''
         \<and> x_object_key r = Some (export_object_key b) \<and> x_archive_sha256 r = Some (hex_text (eh_sha256 h archive))
         \<and> x_signer r = Some pub)"
proof -
  from assms(1) obtain pub where pub: "public_of (eh_ed25519 h) signing = Some pub"
    and run: "export_run h ew kek signing pub rewrap_iv ri ctx workflow_id d x c = (Inr (), d', x')"
    by (auto simp: createPortableExportWorkflowHandler_def signer_public_key_def split: if_splits option.splits)
  obtain key vk d2 archive where key: "open_export_key (eh_aead h) kek ctx b = Inr key"
    and k: "getOrCreateActiveKey (eh_aead h) kek (ri_key_id ri) (ri_random_key ri) (ri_key_iv ri) (ri_now ri) ctx d = (Inr vk, d2)"
    and m: "make_archive h ew signing rewrap_iv (ri_iv ri) ctx b key vk x = (Inr archive, x')"
    and f: "completePortableExport ctx (xb_export b) (xb_workflow b) (export_object_key b) (hex_text (eh_sha256 h archive)) pub
       (ri_now ri) d2 = (Inr (), d')"
    by (rule export_run_Inr [OF run assms(2,3)])
  obtain rewrapped es x1 where w: "encryptEnvelope (eh_aead h) rewrap_iv (snd vk) key
      (rewrap_context (xb_export b) (xb_key_version b)) = Inr rewrapped"
    and es: "document_entries (ew_get ew) (xb_documents b) x = (Inr es, x1)"
    and made: "createPortableExport (eh_date_ok h) (eh_collate h) (eh_sha256 h) (eh_aead h) (eh_ed25519 h) (ri_iv ri)
       (archive_input ctx signing key b (snapshot_entry b # household_key_entry (fst vk) rewrapped # es)) = Inr archive"
    and put: "ew_put ew (export_object_key b) archive (base64 (eh_sha256 h archive)) x1 = (Inr (), x')"
    by (rule make_archive_Inr [OF m])
  have opened: "\<exists>m. verifyAndOpenPortableExport (eh_collate h) (eh_sha256 h) (eh_aead h) (eh_ed25519 h) archive key pub = Inr m
    \<and> map opened_entry (im_entries m) = sort_key (\<lambda>(p, t, bytes). eh_collate h p)
        (map sealed_entry (snapshot_entry b # household_key_entry (fst vk) rewrapped # es))"
    using open_created [OF made _ assms(4-6)] pub unfolding archive_input_def by auto
  have household: "decryptEnvelope (eh_aead h) rewrapped key (rewrap_context (xb_export b) (xb_key_version b)) = Inr (snd vk)"
    by (rule decrypt_encrypt_plain [OF assms(4,7) w])
  obtain r where r: "r \<in> set (exports d)" "tenant_visible (tenant_session ctx) r" "row_id r = xb_export b"
    "x_workflow r = xb_workflow b" "x_status r = xb_status b"
    using export_input_same [OF assms(2)] by auto
  from active_key_frame [OF k] r(1) have r2: "r \<in> set (exports d2)" by auto
  have "complete_export_set (export_object_key b) (hex_text (eh_sha256 h archive)) pub (ri_now ri) r \<in> set (exports d')"
    by (rule completePortableExport_effect [OF f r2 r(2-4)]) (use r(5) assms(3) in simp)
  then have row: "\<exists>r \<in> set (exports d'). row_id r = xb_export b \<and> x_status r = ''completed''
      \<and> x_object_key r = Some (export_object_key b) \<and> x_archive_sha256 r = Some (hex_text (eh_sha256 h archive))
      \<and> x_signer r = Some pub" using r(3) by (intro bexI) (simp_all add: complete_export_set_def)
  have "getOrCreateActiveKey (eh_aead h) kek (ri_key_id ri) (ri_random_key ri) (ri_key_iv ri) (ri_now ri) ctx d
      = (Inr (fst vk, snd vk), d2)" using k by simp
  with key pub es put opened household row show ?thesis by blast
qed

text \<open>The keys of the documents do not reach the export: the input of a build does not depend on them.\<close>

lemma export_omits_document_keys:
  assumes "d2 = d \<lparr> documents := map (\<lambda>q. q \<lparr> d_wrapped_key := f q \<rparr>) (documents d) \<rparr>"
  shows "fst (getPortableExportBuildInput c ctx workflow_id d2) = fst (getPortableExportBuildInput c ctx workflow_id d)"
proof -
  have "sql_select s (\<lambda>r. d_status r = ''clean'') (documents d2)
      = map (\<lambda>q. q \<lparr> d_wrapped_key := f q \<rparr>) (sql_select s (\<lambda>r. d_status r = ''clean'') (documents d))" for s
    by (simp add: assms sql_select_def filter_map o_def tenant_visible_def)
  then have "export_documents s d2 = export_documents s d" for s
    by (simp add: export_documents_def order_by_def sort_key_map o_def)
  moreover have "household_snapshot c s d2 = household_snapshot c s d" for s
    by (simp add: household_snapshot_def assms)
  moreover have "exports d2 = exports d" "export_of s d2 w = export_of s d w" for s w
    by (simp_all add: assms export_of_def fun_eq_iff)
  ultimately show ?thesis
    by (simp add: getPortableExportBuildInput_def withTenant_def transaction_def split: list.split)
qed

text \<open>An original that was deleted is still listed among the documents of the export, with a key under
  which the object store has nothing.\<close>

lemma document_entries_missing:
  assumes "t \<in> set ts" and "\<And>x. \<exists>e x'. get (xd_object_key t) x = (Inl e, x')"
  shows "\<exists>e x'. document_entries get ts x = (Inl e, x')"
  using assms(1)
proof (induction ts arbitrary: x)
  case (Cons u us)
  show ?case
  proof (cases "u = t")
    case True
    with assms(2) [of x] show ?thesis by (auto simp: world_bind_def)
  next
    case False
    obtain r x1 where r: "get (xd_object_key u) x = (r, x1)" by force
    obtain e x' where "document_entries get us x1 = (Inl e, x')" using Cons.IH [of x1] Cons.prems False by auto
    with r show ?thesis by (cases r) (auto simp: world_bind_def)
  qed
qed simp

lemma make_archive_missing:
  assumes "t \<in> set (xb_documents b)" and "\<And>x. \<exists>e x'. ew_get ew (xd_object_key t) x = (Inl e, x')"
  shows "\<exists>e x'. make_archive h ew signing rewrap_iv iv ctx b key vk x = (Inl e, x')"
proof -
  obtain e x' where "document_entries (ew_get ew) (xb_documents b) x = (Inl e, x')"
    using document_entries_missing [where get = "ew_get ew" and x = x, OF assms] by blast
  then show ?thesis by (auto simp: make_archive_def world_bind_def pure_result_def split: sum.split)
qed

text \<open>One clean document whose original was deleted after its derivative was made makes every export
  run of the household throw, whatever keys, snapshot and other documents there are, when the object
  store no longer has the original; no export is completed.\<close>

theorem deleted_original_blocks_exports:
  assumes "q \<in> set (documents d)" and "tenant_visible (tenant_session ctx) q" and "d_status q = ''clean''"
    and "d_original_deleted q \<noteq> None"
    and "\<forall>q \<in> set (documents d). d_original_deleted q \<noteq> None \<longrightarrow> (\<forall>x. \<exists>e x'. ew_get ew (d_object_key q) x = (Inl e, x'))"
    and "getPortableExportBuildInput c ctx workflow_id d = (Inr b, d1)" and "xb_status b \<noteq> ''completed''"
  shows "\<exists>e d' x'. createPortableExportWorkflowHandler h ew kek signing rewrap_iv ri ctx workflow_id d x c = (Inl e, d', x')
    \<and> exports d' = exports d"
proof -
  have d1: "d1 = d" using export_input_same [OF assms(6)] by simp
  let ?t = "\<lparr> xd_id = row_id q, xd_object_key = d_object_key q, xd_media_type = d_media_type q, xd_key_version = d_key_version q \<rparr>"
  have "xb_documents b = export_documents (tenant_session ctx) d"
    using assms(6) by (auto simp: getPortableExportBuildInput_def withTenant_def split: list.splits)
  then have t: "?t \<in> set (xb_documents b)" using assms(1-3) by (auto simp: export_documents_def in_sql_select)
  have get: "\<exists>e x'. ew_get ew (xd_object_key ?t) x = (Inl e, x')" for x using assms(1,4,5) by simp
  have run: "\<exists>e d' x'. export_run h ew kek signing pub rewrap_iv ri ctx workflow_id d x c = (Inl e, d', x') \<and> exports d' = exports d"
    for pub
  proof (cases "open_export_key (eh_aead h) kek ctx b")
    case (Inl e)
    with assms(6,7) d1 show ?thesis by (simp add: export_run_def)
  next
    case key: (Inr key)
    obtain res d2 where k: "getOrCreateActiveKey (eh_aead h) kek (ri_key_id ri) (ri_random_key ri) (ri_key_iv ri) (ri_now ri) ctx d
        = (res, d2)" by force
    from active_key_frame [OF k] have ex: "exports d2 = exports d" by auto
    show ?thesis
    proof (cases res)
      case (Inl e)
      with assms(6,7) d1 key k ex show ?thesis by (simp add: export_run_def)
    next
      case (Inr vk)
      obtain e x' where "make_archive h ew signing rewrap_iv (ri_iv ri) ctx b key vk x = (Inl e, x')"
        using make_archive_missing [where ew = ew and x = x, OF t get] by blast
      with assms(6,7) d1 key k ex Inr show ?thesis by (simp add: export_run_def)
    qed
  qed
  then show ?thesis by (simp add: createPortableExportWorkflowHandler_def split: sum.split)
qed

section \<open>Concrete exports\<close>

definition sample_host :: "string export_host" where
  "sample_host = \<lparr> eh_date_ok = (\<lambda>_. True), eh_collate = (\<lambda>k. k), eh_sha256 = sample_digest, eh_aead = plain_aead,
     eh_ed25519 = plain_signer \<rparr>"

definition sample_export_world :: "unit export_world" where
  "sample_export_world = \<lparr> ew_get = (\<lambda>k x. (Inl (js_error ''not found''), x)), ew_put = (\<lambda>k b h x. (Inr (), x)) \<rparr>"

definition sample_codec :: jsonb_codec where
  "sample_codec = \<lparr> jc_time = JNum, jc_bytes = JStr, jc_numeric = JNum, jc_object = JObj \<rparr>"

definition export_db :: "json \<Rightarrow> document_row list \<Rightarrow> db" where
  "export_db wrapped qs = empty_db \<lparr> exports := [new_export report_ctx ''x'' ''w'' wrapped 1 0],
     workflows := [new_workflow report_ctx ''w'' ''export'' ''export:x'' ''snapshot'' (Some (''Export'', ''x''))], documents := qs \<rparr>"

lemma export_db_input:
  "\<exists>b. getPortableExportBuildInput sample_codec report_ctx ''w'' (export_db wrapped qs) = (Inr b, export_db wrapped qs)
     \<and> xb_status b = ''pending'' \<and> xb_export b = ''x'' \<and> xb_workflow b = ''w'' \<and> xb_wrapped_key b = wrapped
     \<and> xb_key_version b = 1 \<and> xb_documents b = export_documents (tenant_session report_ctx) (export_db wrapped qs)"
  by (simp add: getPortableExportBuildInput_def withTenant_def export_db_def new_export_def new_workflow_def empty_db_def
      sql_select_def export_of_def)

definition deleted_document :: document_row where
  "deleted_document = (sample_document (JObj [])) \<lparr> d_status := ''clean'', d_original_deleted := Some 3 \<rparr>"

theorem deleted_original_blocks_exports_witness:
  "\<exists>e d' x'. createPortableExportWorkflowHandler sample_host sample_export_world sample_key ''s'' sample_iv sample_run_inputs
      report_ctx ''w'' (export_db (JObj []) [deleted_document]) () sample_codec = (Inl e, d', x')"
proof -
  let ?d = "export_db (JObj []) [deleted_document]"
  obtain b where b: "getPortableExportBuildInput sample_codec report_ctx ''w'' ?d = (Inr b, ?d)" "xb_status b \<noteq> ''completed''"
    using export_db_input [of "JObj []" "[deleted_document]"] by auto
  have q: "deleted_document \<in> set (documents ?d)" "tenant_visible (tenant_session report_ctx) deleted_document"
    "d_status deleted_document = ''clean''" "d_original_deleted deleted_document \<noteq> None"
    "\<forall>q \<in> set (documents ?d). d_original_deleted q \<noteq> None
       \<longrightarrow> (\<forall>x. \<exists>e x'. ew_get sample_export_world (d_object_key q) x = (Inl e, x'))"
    by (simp_all add: export_db_def deleted_document_def sample_document_def sample_export_world_def)
  from deleted_original_blocks_exports [OF q b] show ?thesis by blast
qed

lemma export_paths_ok:
  "safe_path ''records/household-snapshot.json''" "safe_path ''keys/household-dek.json''" "re_test media_type ''application/json''"
  by code_simp+

lemma sample_export_run:
  "\<exists>wrapped d'. createPortableExportWorkflowHandler sample_host sample_export_world sample_key ''s'' sample_iv sample_run_inputs
      report_ctx ''w'' (export_db wrapped []) () sample_codec = (Inr (), d', ())"
proof -
  have "ec_version (export_key_context report_ctx 1) = 1" "ec_version (rewrap_context ''x'' 1) = 1"
    "ec_version (exportContext ''x'' 1) = 1" "ec_version (key_context ''o'' ''h'' 1) = 1"
    by (simp_all add: export_key_context_def rewrap_context_def exportContext_def key_context_def)
  then obtain a1 a2 a3 a4 where aad: "associatedData (export_key_context report_ctx 1) = Inr a1"
      "associatedData (rewrap_context ''x'' 1) = Inr a2" "associatedData (exportContext ''x'' 1) = Inr a3"
      "associatedData (key_context ''o'' ''h'' 1) = Inr a4"
    using assoc_ok by (metis order_refl one_le_numeral)
  then obtain e where e: "encryptEnvelope plain_aead sample_iv sample_key sample_key (export_key_context report_ctx 1) = Inr e"
    by (simp add: encryptEnvelope_Inr)
  let ?w = "JObj (envelope_members e)" and ?d = "export_db (JObj (envelope_members e)) []"
  obtain b where b: "getPortableExportBuildInput sample_codec report_ctx ''w'' ?d = (Inr b, ?d)"
    and f: "xb_status b = ''pending''" "xb_export b = ''x''" "xb_workflow b = ''w''" "xb_wrapped_key b = ?w"
      "xb_key_version b = 1" "xb_documents b = []"
    using export_db_input [of ?w "[]"] by (auto simp: export_documents_def export_db_def sql_select_def order_by_def)
  have key: "open_export_key plain_aead sample_key report_ctx b = Inr sample_key"
    using envelope_read_back(1) [OF e] decrypt_encrypt_plain [OF plain_aead_ok _ e] f by (simp add: open_export_key_def)
  obtain d2 where k: "getOrCreateActiveKey plain_aead sample_key ''k'' sample_key sample_iv 5 report_ctx ?d = (Inr (1, sample_key), d2)"
    using aad(4) by (simp add: getOrCreateActiveKey_def withTenant_def active_keys_def sql_select_def export_db_def empty_db_def
        order_by_def createWrappedHouseholdKey_def assertAesKey_def encryptEnvelope_def case_prod_beta
        household_keys_t.insert_returning_Inr)
  obtain ks where ks: "d2 = ?d \<lparr> household_keys := ks \<rparr>" using active_key_frame [OF k] by blast
  obtain archive where m: "make_archive sample_host sample_export_world ''s'' sample_iv sample_iv report_ctx b sample_key
      (1, sample_key) () = (Inr archive, ())"
    using aad(2,3) f export_paths_ok
    by (auto simp: make_archive_def world_bind_def pure_result_def sample_host_def sample_export_world_def createPortableExport_def
        archive_input_def snapshot_entry_def household_key_entry_def signer_public_key_def plain_signer_def
        encryptEnvelope_def assertAesKey_def assertEntry_def Let_def case_prod_beta)
  have "sha256_text (hex_text (sample_digest []))" by code_simp
  then have "\<exists>d'. completePortableExport report_ctx ''x'' ''w'' (export_object_key b) (hex_text (sample_digest archive)) ''s'' 5 d2
      = (Inr (), d')"
    by (simp add: completePortableExport_def withTenant_def Let_def ks export_db_def empty_db_def sql_select_def new_export_def
        complete_export_set_def export_row_ok_def sample_digest_def)
  with b f key k m show ?thesis
    by (auto simp: createPortableExportWorkflowHandler_def export_run_def signer_public_key_def sample_host_def plain_signer_def
        sample_run_inputs_def intro!: exI [of _ ?w])
qed

theorem finished_export_opens_witness:
  "\<exists>wrapped d' r. createPortableExportWorkflowHandler sample_host sample_export_world sample_key ''s'' sample_iv sample_run_inputs
      report_ctx ''w'' (export_db wrapped []) () sample_codec = (Inr (), d', ()) \<and> r \<in> set (exports d')
      \<and> x_status r = ''completed'' \<and> x_signer r = Some ''s''"
proof -
  from sample_export_run obtain wrapped d' where run: "createPortableExportWorkflowHandler sample_host sample_export_world sample_key
      ''s'' sample_iv sample_run_inputs report_ctx ''w'' (export_db wrapped []) () sample_codec = (Inr (), d', ())" by blast
  obtain b where b: "getPortableExportBuildInput sample_codec report_ctx ''w'' (export_db wrapped []) = (Inr b, export_db wrapped [])"
    "xb_status b \<noteq> ''completed''" using export_db_input [of wrapped "[]"] by auto
  have h: "aead_ok (eh_aead sample_host)" "ed25519_ok (eh_ed25519 sample_host)" "length (ri_iv sample_run_inputs) = 12"
    "length sample_iv = 12" "public_of (eh_ed25519 sample_host) ''s'' = Some ''s''"
    using plain_aead_ok plain_signer_ok by (simp_all add: sample_host_def sample_run_inputs_def) (simp add: plain_signer_def)
  from finished_export_opens [OF run b h(1-4)] h(5) run show ?thesis by auto
qed

end
