(* ===== verification/Privacy_Store.thy ===== *)
theory Privacy_Store
  imports Document_Store Membership_Store
begin

text \<open>
  Privacy requests, deletion executions and portable exports in the repository:
  \<open>startPrivacyRequest\<close> to \<open>completeIdempotency\<close> of \<open>repository.ts\<close>, with the constraints of
  \<open>0008_portable_exports.sql\<close> and \<open>0012_privacy_deletion_state.sql\<close>.  \<open>now\<close> is the database's
  clock; SHA-256 and the collation are parameters.
\<close>

section \<open>Requests\<close>

definition privacy_request_json :: "string \<Rightarrow> string \<Rightarrow> json" where
  "privacy_request_json person kind = JObj [(''personId'', JStr person), (''kind'', JStr kind)]"

definition new_privacy_request :: "tenant_context \<Rightarrow> string \<Rightarrow> string \<Rightarrow> string \<Rightarrow> int \<Rightarrow> privacy_row" where
  "new_privacy_request ctx i person kind requested = \<lparr> row_org = tc_org ctx, row_hh = tc_hh ctx, row_id = i,
     row_version = 1, pr_person = person, pr_kind = kind, pr_status = ''identity-verification'',
     pr_requested = requested, pr_verified = None, pr_recovery = None, pr_completed = None \<rparr>"

definition start_privacy_body ::
  "tenant_context \<Rightarrow> string \<Rightarrow> string \<Rightarrow> string \<Rightarrow> string \<Rightarrow> int \<Rightarrow> session \<Rightarrow> json op" where
  "start_privacy_body ctx privacy_id workflow_id person kind requested s d =
     res_bind (insert_returning privacy_requests privacy_requests_update same_id
         (new_privacy_request ctx privacy_id person kind requested) s d) (\<lambda>(p, d1).
     res_bind (insert_returning workflows workflows_update same_workflow
         (new_workflow ctx workflow_id kind (''privacy:'' @ privacy_id) ''identity-verification''
            (Some (''PrivacyRequest'', privacy_id))) s d1) (\<lambda>(w, d2).
       Inr (JObj [(''privacyRequest'', JObj [(''id'', JStr (row_id p)), (''kind'', JStr (pr_kind p)),
              (''status'', JStr (pr_status p)), (''version'', JNum (row_version p))]),
            (''workflow'', row_json (row_id w) (w_status w) (row_version w))], d2)))"

definition startPrivacyRequest ::
  "(string \<Rightarrow> string) \<Rightarrow> tenant_context \<Rightarrow> string \<Rightarrow> string \<Rightarrow> int \<Rightarrow> string \<Rightarrow> string \<Rightarrow> string \<Rightarrow> int \<Rightarrow> db
   \<Rightarrow> json result \<times> db" where
  "startPrivacyRequest sha256 ctx privacy_id workflow_id now person kind key requested d =
     (if person \<noteq> tc_actor ctx
      then (Inl (js_error ''privacy request subject must match the authenticated person''), d)
      else withTenant ctx (\<lambda>s. idempotent_call (tenant_lookup ctx key) (tenant_reserve ctx key now)
        (tenant_complete ctx key 202) (request_hash sha256 (privacy_request_json person kind))
        ''idempotency key reused with different request'' ''privacy request is still processing''
        (start_privacy_body ctx privacy_id workflow_id person kind requested s)) d)"

record privacy_summary =
  ps_id :: string
  ps_kind :: string
  ps_status :: string
  ps_requested :: string
  ps_verified :: "string option"
  ps_recovery :: "string option"
  ps_completed :: "string option"
  ps_version :: int
  ps_workflow_status :: string
  ps_next :: "string option"
  ps_workflow_version :: int

definition read_privacy :: "privacy_row \<times> workflow_row \<Rightarrow> privacy_summary" where
  "read_privacy pw = (case pw of (p, w) \<Rightarrow> \<lparr> ps_id = row_id p, ps_kind = pr_kind p, ps_status = pr_status p,
     ps_requested = toISOString (pr_requested p), ps_verified = map_option toISOString (pr_verified p),
     ps_recovery = map_option toISOString (pr_recovery p), ps_completed = map_option toISOString (pr_completed p),
     ps_version = row_version p, ps_workflow_status = w_status w, ps_next = w_next w,
     ps_workflow_version = row_version w \<rparr>)"

definition request_of :: "privacy_row \<Rightarrow> workflow_row \<Rightarrow> bool" where
  "request_of p w \<longleftrightarrow> w_subject_type w = Some ''PrivacyRequest'' \<and> w_subject_id w = Some (row_id p)"

text \<open>\<open>order by requested_at desc,id desc limit 100\<close>.\<close>

definition listPrivacyRequests :: "tenant_context \<Rightarrow> db \<Rightarrow> privacy_summary list result \<times> db" where
  "listPrivacyRequests ctx = withTenant ctx (\<lambda>s d.
     let ps = order_by (\<lambda>p. - pr_requested p) (rev (order_by row_id
           (sql_select s (\<lambda>p. pr_person p = tc_actor ctx) (privacy_requests d)))) in
     Inr (map read_privacy (take 100 (concat (map (\<lambda>p. map (\<lambda>w. (p, w))
        (sql_select s (request_of p) (workflows d))) ps))), d))"

section \<open>Confirming a deletion\<close>

text \<open>\<open>privacy_requests_deletion_timing_valid\<close>.\<close>

definition privacy_row_ok :: "privacy_row \<Rightarrow> bool" where
  "privacy_row_ok p \<longleftrightarrow> (case (pr_verified p, pr_recovery p) of
       (None, None) \<Rightarrow> True | (Some v, Some r) \<Rightarrow> v < r | _ \<Rightarrow> False)"

definition confirm_deletion_set :: "int \<Rightarrow> int \<Rightarrow> privacy_row \<Rightarrow> privacy_row" where
  "confirm_deletion_set confirmed recovery p = p \<lparr> pr_status := ''recovery-period'', pr_verified := Some confirmed,
     pr_recovery := Some recovery, row_version := row_version p + 1 \<rparr>"

definition deletion_workflow :: "string \<Rightarrow> workflow_row \<Rightarrow> bool" where
  "deletion_workflow request_id w \<longleftrightarrow> w_subject_type w = Some ''PrivacyRequest'' \<and> w_subject_id w = Some request_id
     \<and> w_kind w = ''deletion''"

definition confirm_workflow_set :: "workflow_row \<Rightarrow> workflow_row" where
  "confirm_workflow_set w = w \<lparr> w_status := ''pending'', w_completed_steps := [''identity-verification''],
     w_next := Some ''active-system'', row_version := row_version w + 1 \<rparr>"

definition same_execution :: "execution_row \<Rightarrow> execution_row \<Rightarrow> bool" where
  "same_execution r r' \<longleftrightarrow> same_id r r' \<or> de_request r = de_request r' \<or> de_workflow r = de_workflow r'"

definition new_execution :: "tenant_context \<Rightarrow> string \<Rightarrow> string \<Rightarrow> string \<Rightarrow> int \<Rightarrow> execution_row" where
  "new_execution ctx i request_id workflow_id recovery = \<lparr> row_org = tc_org ctx, row_hh = tc_hh ctx, row_id = i,
     row_version = 1, de_request = request_id, de_workflow = workflow_id, de_person = tc_actor ctx,
     de_status = ''recovery-period'', de_recovery = recovery, de_active_completed = None, de_backup_expires = None,
     de_completed = None, de_retained = [], de_shared_review = True \<rparr>"

definition day_ms :: int where
  "day_ms = 86400000"

text \<open>The two dates of a confirmation, when both are valid.\<close>

definition recovery_dates :: "iso \<Rightarrow> int \<Rightarrow> (int \<times> int) option" where
  "recovery_dates confirmed days = (case date_parse confirmed of None \<Rightarrow> None
     | Some t \<Rightarrow> (case time_clip (t + days * day_ms) of None \<Rightarrow> None | Some r \<Rightarrow> Some (t, r)))"

definition confirm_deletion_body ::
  "tenant_context \<Rightarrow> string \<Rightarrow> string \<Rightarrow> int \<Rightarrow> iso \<Rightarrow> int \<Rightarrow> session \<Rightarrow> json op" where
  "confirm_deletion_body ctx execution_id request_id version confirmed days s d =
     (case sql_select s (\<lambda>p. row_id p = request_id) (privacy_requests d) of
        [] \<Rightarrow> Inl (js_error ''privacy deletion request is unavailable'')
      | p # _ \<Rightarrow>
          if pr_person p \<noteq> tc_actor ctx \<or> pr_kind p \<noteq> ''deletion'' \<or> pr_status p \<noteq> ''identity-verification''
          then Inl (js_error ''privacy deletion request is unavailable'')
          else (case recovery_dates confirmed days of
              None \<Rightarrow> Inl (js_error ''privacy deletion confirmation time is invalid'')
            | Some (t, r) \<Rightarrow>
                res_bind (update_returning privacy_requests privacy_requests_update
                   (\<lambda>p. row_id p = request_id \<and> row_version p = version) (confirm_deletion_set t r)
                   ''privacy deletion confirmation version conflict'' s d) (\<lambda>(p', d1).
                if \<not> privacy_row_ok p' then Inl pg_check_violation else
                res_bind (update_returning workflows workflows_update
                   (\<lambda>w. deletion_workflow request_id w \<and> w_next w = Some ''identity-verification'') confirm_workflow_set
                   ''privacy deletion workflow is unavailable'' s d1) (\<lambda>(w, d2).
                res_bind (insert_returning executions executions_update same_execution
                   (new_execution ctx execution_id request_id (row_id w) r) s d2) (\<lambda>(e, d3).
                Inr (JObj [(''privacyRequest'', JObj [(''id'', JStr (row_id p')), (''status'', JStr (pr_status p')),
                        (''version'', JNum (row_version p')), (''recoveryUntil'', JStr (toISOString r))]),
                      (''execution'', row_json (row_id e) (de_status e) (row_version e)),
                      (''workflow'', row_json (row_id w) (w_status w) (row_version w))], d3))))))"

definition confirm_request_json :: "string \<Rightarrow> int \<Rightarrow> int \<Rightarrow> json" where
  "confirm_request_json request_id version days = JObj [(''requestId'', JStr request_id),
     (''expectedVersion'', JNum version), (''recoveryDays'', JNum days)]"

definition confirmPrivacyDeletion ::
  "(string \<Rightarrow> string) \<Rightarrow> tenant_context \<Rightarrow> string \<Rightarrow> int \<Rightarrow> string \<Rightarrow> int \<Rightarrow> string \<Rightarrow> iso \<Rightarrow> int \<Rightarrow> db
   \<Rightarrow> json result \<times> db" where
  "confirmPrivacyDeletion sha256 ctx execution_id now request_id version key confirmed days =
     withTenant ctx (\<lambda>s. idempotent_call (tenant_lookup ctx key) (tenant_reserve ctx key now)
       (tenant_complete ctx key 202) (request_hash sha256 (confirm_request_json request_id version days))
       ''idempotency key reused with different request'' ''privacy deletion confirmation is still processing''
       (confirm_deletion_body ctx execution_id request_id version confirmed days s))"

section \<open>Executing a deletion\<close>

definition hold_active :: "int \<Rightarrow> string \<Rightarrow> string \<Rightarrow> hold_row \<Rightarrow> bool" where
  "hold_active at household person h \<longleftrightarrow> l_released h = None \<and> l_starts h \<le> at
     \<and> (case l_expires h of None \<Rightarrow> True | Some e \<Rightarrow> at < e)
     \<and> (l_subject_type h = ''Household'' \<and> l_subject_id h = household
        \<or> l_subject_type h = ''Person'' \<and> l_subject_id h = person)"

definition active_holds ::
  "(string \<Rightarrow> 'k::linorder) \<Rightarrow> tenant_context \<Rightarrow> int \<Rightarrow> string \<Rightarrow> session \<Rightarrow> db \<Rightarrow> string list" where
  "active_holds collate ctx at person s d = order_by collate (remdups (map l_category
     (sql_select s (hold_active at (tc_hh ctx) person) (holds d))))"

record deletion_input =
  dl_execution :: string
  dl_request :: string
  dl_workflow :: string
  dl_person :: string
  dl_status :: string
  dl_recovery :: iso
  dl_version :: int
  dl_holds :: "string list"

definition execution_ready :: "session \<Rightarrow> db \<Rightarrow> string \<Rightarrow> execution_row \<Rightarrow> bool" where
  "execution_ready s d workflow_id e \<longleftrightarrow> de_workflow e = workflow_id
     \<and> list_ex (\<lambda>p. row_id p = de_request e \<and> pr_kind p = ''deletion''
         \<and> list_ex (\<lambda>w. row_id w = workflow_id \<and> deletion_workflow (row_id p) w) (sql_select s (\<lambda>_. True) (workflows d)))
       (sql_select s (\<lambda>_. True) (privacy_requests d))"

definition getPrivacyDeletionInput ::
  "(string \<Rightarrow> 'k::linorder) \<Rightarrow> tenant_context \<Rightarrow> int \<Rightarrow> string \<Rightarrow> db \<Rightarrow> deletion_input result \<times> db" where
  "getPrivacyDeletionInput collate ctx now workflow_id = withTenant ctx (\<lambda>s d.
     case sql_select s (execution_ready s d workflow_id) (executions d) of
       [] \<Rightarrow> Inl (js_error ''privacy deletion execution is unavailable'')
     | e # _ \<Rightarrow> Inr (\<lparr> dl_execution = row_id e, dl_request = de_request e, dl_workflow = de_workflow e,
         dl_person = de_person e, dl_status = de_status e, dl_recovery = At (de_recovery e),
         dl_version = row_version e, dl_holds = active_holds collate ctx now (de_person e) s d \<rparr>, d))"

definition cancel_body :: "tenant_context \<Rightarrow> int \<Rightarrow> string \<Rightarrow> int \<Rightarrow> session \<Rightarrow> json op" where
  "cancel_body ctx now request_id version s d =
     res_bind (update_returning privacy_requests privacy_requests_update
        (\<lambda>p. row_id p = request_id \<and> pr_person p = tc_actor ctx \<and> pr_kind p = ''deletion''
             \<and> pr_status p = ''recovery-period'' \<and> row_version p = version)
        (\<lambda>p. p \<lparr> pr_status := ''cancelled'', pr_completed := Some now, row_version := row_version p + 1 \<rparr>)
        ''privacy deletion cancellation conflict'' s d) (\<lambda>(p, d1).
     res_bind (update_returning executions executions_update
        (\<lambda>e. de_request e = request_id \<and> de_status e = ''recovery-period'')
        (\<lambda>e. e \<lparr> de_status := ''cancelled'', de_completed := Some now, row_version := row_version e + 1 \<rparr>)
        ''privacy deletion execution cancellation conflict'' s d1) (\<lambda>(e, d2).
     res_bind (update_returning workflows workflows_update
        (\<lambda>w. deletion_workflow request_id w \<and> w_status w \<noteq> ''completed'')
        (\<lambda>w. w \<lparr> w_status := ''completed'', w_completed_steps := add_step ''cancelled'' (w_completed_steps w),
              w_next := None, w_error := None, row_version := row_version w + 1 \<rparr>)
        ''privacy deletion workflow cancellation conflict'' s d2) (\<lambda>(w, d3).
     Inr (JObj [(''privacyRequest'', row_json (row_id p) (pr_status p) (row_version p)),
                (''execution'', row_json (row_id e) (de_status e) (row_version e)),
                (''workflow'', row_json (row_id w) (w_status w) (row_version w))], d3))))"

definition cancel_request_json :: "string \<Rightarrow> int \<Rightarrow> json" where
  "cancel_request_json request_id version = JObj [(''requestId'', JStr request_id), (''expectedVersion'', JNum version)]"

definition cancelPrivacyDeletion ::
  "(string \<Rightarrow> string) \<Rightarrow> tenant_context \<Rightarrow> int \<Rightarrow> string \<Rightarrow> int \<Rightarrow> string \<Rightarrow> db \<Rightarrow> json result \<times> db" where
  "cancelPrivacyDeletion sha256 ctx now request_id version key =
     withTenant ctx (\<lambda>s. idempotent_call (tenant_lookup ctx key) (tenant_reserve ctx key now)
       (tenant_complete ctx key 200) (request_hash sha256 (cancel_request_json request_id version))
       ''idempotency key reused with different request'' ''privacy deletion cancellation is still processing''
       (cancel_body ctx now request_id version s))"

record deletion_progress =
  dp_execution :: string
  dp_progress :: string
  dp_backup :: "string option"
  dp_hold_categories :: "string list"

definition block_on_hold :: "execution_row \<Rightarrow> string list \<Rightarrow> session \<Rightarrow> db \<Rightarrow> db" where
  "block_on_hold e categories s d = d \<lparr>
     executions := sql_update s (\<lambda>r. row_id r = row_id e) (\<lambda>r. r \<lparr> de_status := ''blocked-legal-hold'',
        de_retained := categories, row_version := row_version r + 1 \<rparr>) (executions d),
     privacy_requests := sql_update s (\<lambda>p. row_id p = de_request e) (\<lambda>p. p \<lparr> pr_status := ''blocked-legal-hold'',
        row_version := row_version p + 1 \<rparr>) (privacy_requests d),
     workflows := sql_update s (\<lambda>w. row_id w = de_workflow e) (\<lambda>w. w \<lparr> w_status := ''running'',
        w_next := Some ''legal-hold-review'', w_error := None, row_version := row_version w + 1 \<rparr>) (workflows d) \<rparr>"

definition person_memberships :: "string \<Rightarrow> session \<Rightarrow> db \<Rightarrow> membership_row list" where
  "person_memberships person s d = sql_select s (\<lambda>m. m_person m = person \<and> m_active m = 1) (memberships d)"

text \<open>With no membership the statements would select nothing.\<close>

definition revoke_access :: "int \<Rightarrow> string list \<Rightarrow> session \<Rightarrow> db \<Rightarrow> db" where
  "revoke_access at ids s d = d \<lparr>
     grants := sql_update s (\<lambda>g. g_membership g \<in> set ids \<and> g_revoked g = None)
        (\<lambda>g. g \<lparr> g_revoked := Some at, row_version := row_version g + 1 \<rparr>) (grants d),
     approvals := sql_update s (\<lambda>a. sa_membership a \<in> set ids \<and> sa_revoked a = None)
        (\<lambda>a. a \<lparr> sa_revoked := Some at, row_version := row_version a + 1 \<rparr>) (approvals d),
     memberships := sql_update s (\<lambda>m. row_id m \<in> set ids \<and> m_active m = 1)
        (\<lambda>m. m \<lparr> m_active := 0, row_version := row_version m + 1 \<rparr>) (memberships d) \<rparr>"

definition new_processor_request :: "tenant_context \<Rightarrow> string \<Rightarrow> string \<Rightarrow> string \<Rightarrow> int \<Rightarrow> processor_row" where
  "new_processor_request ctx i workflow_id processor at = \<lparr> row_org = tc_org ctx, row_hh = tc_hh ctx, row_id = i,
     dp_workflow = workflow_id, dp_processor = processor, dp_external = None,
     dp_status = ''verification-required'', dp_requested = at, dp_confirmed = None \<rparr>"

fun insert_processors :: "tenant_context \<Rightarrow> string \<Rightarrow> int \<Rightarrow> (string \<times> string) list \<Rightarrow> session \<Rightarrow> unit op" where
  "insert_processors ctx workflow_id at [] s d = Inr ((), d)"
| "insert_processors ctx workflow_id at ((i, name) # rest) s d =
     (if list_ex (\<lambda>r. dp_workflow r = workflow_id \<and> dp_processor r = name) (processors d)
      then insert_processors ctx workflow_id at rest s d
      else res_bind (insert_returning processors processors_update same_id
             (new_processor_request ctx i workflow_id name at) s d) (\<lambda>(_, d').
           insert_processors ctx workflow_id at rest s d'))"

definition deletion_processors :: "string list" where
  "deletion_processors = [''deepseek'', ''resend'', ''sentry'', ''stripe'']"

definition retained_categories :: "string list" where
  "retained_categories = [''audit-events'', ''billing-records'', ''consent-acceptance'', ''privacy-request-evidence'']"

definition await_review :: "execution_row \<Rightarrow> int \<Rightarrow> int \<Rightarrow> session \<Rightarrow> db \<Rightarrow> db" where
  "await_review e at backup s d = d \<lparr>
     executions := sql_update s (\<lambda>r. row_id r = row_id e) (\<lambda>r. r \<lparr> de_status := ''awaiting-review'',
        de_active_completed := Some at, de_backup_expires := Some backup, de_retained := retained_categories,
        de_shared_review := True, row_version := row_version r + 1 \<rparr>) (executions d),
     privacy_requests := sql_update s (\<lambda>p. row_id p = de_request e) (\<lambda>p. p \<lparr> pr_status := ''awaiting-review'',
        row_version := row_version p + 1 \<rparr>) (privacy_requests d),
     workflows := sql_update s (\<lambda>w. row_id w = de_workflow e) (\<lambda>w. w \<lparr> w_status := ''running'',
        w_completed_steps := add_step ''active-system'' (w_completed_steps w), w_next := Some ''shared-data-review'',
        w_error := None, row_version := row_version w + 1 \<rparr>) (workflows d) \<rparr>"

definition delete_person :: "execution_row \<Rightarrow> int \<Rightarrow> session \<Rightarrow> db \<Rightarrow> db" where
  "delete_person e at s d = (revoke_access at (map row_id (person_memberships (de_person e) s d)) s d)
     \<lparr> people := sql_delete s (\<lambda>p. row_id p = de_person e) (people d) \<rparr>"

definition signed_out :: "membership_row list \<Rightarrow> string list" where
  "signed_out ms = concat (map (\<lambda>m. case m_auth_user m of None \<Rightarrow> [] | Some u \<Rightarrow> if u = [] then [] else [u]) ms)"

definition run_deletion ::
  "tenant_context \<Rightarrow> string list \<Rightarrow> execution_row \<Rightarrow> int \<Rightarrow> int \<Rightarrow> session \<Rightarrow> (deletion_progress \<times> string list) op" where
  "run_deletion ctx ids e at backup_days s d =
     res_bind (insert_processors ctx (de_workflow e) at (zip ids deletion_processors) s (delete_person e at s d)) (\<lambda>(_, d1).
     (case time_clip (at + backup_days * day_ms) of
        None \<Rightarrow> Inl (Thrown ''RangeError'' ''Invalid time value'')
      | Some backup \<Rightarrow> Inr ((\<lparr> dp_execution = row_id e, dp_progress = ''awaiting-review'',
            dp_backup = Some (toISOString backup), dp_hold_categories = [] \<rparr>,
            signed_out (person_memberships (de_person e) s d)), await_review e at backup s d1)))"

text \<open>
  The result also names the accounts whose rows of the \<open>session\<close> table, which belongs to the
  authentication library, the transaction deletes.
\<close>

definition completePrivacyDeletionActiveSystem ::
  "(string \<Rightarrow> 'k::linorder) \<Rightarrow> tenant_context \<Rightarrow> string list \<Rightarrow> string \<Rightarrow> int \<Rightarrow> iso \<Rightarrow> int \<Rightarrow> db
   \<Rightarrow> (deletion_progress \<times> string list) result \<times> db" where
  "completePrivacyDeletionActiveSystem collate ctx ids execution_id version completed backup_days =
     withTenant ctx (\<lambda>s d. case sql_select s (\<lambda>e. row_id e = execution_id) (executions d) of
       [] \<Rightarrow> Inl (js_error ''privacy deletion execution conflict'')
     | e # _ \<Rightarrow>
         if row_version e \<noteq> version \<or> de_status e \<noteq> ''recovery-period''
         then Inl (js_error ''privacy deletion execution conflict'')
         else (case date_parse completed of
             None \<Rightarrow> Inl (js_error ''privacy deletion completion time is invalid'')
           | Some at \<Rightarrow>
               if at < de_recovery e then Inl (js_error ''privacy deletion recovery period has not elapsed'')
               else (let hs = active_holds collate ctx at (de_person e) s d in
                 if hs \<noteq> [] then Inr ((\<lparr> dp_execution = execution_id, dp_progress = ''blocked-legal-hold'',
                     dp_backup = None, dp_hold_categories = hs \<rparr>, []), block_on_hold e hs s d)
                 else run_deletion ctx ids e at backup_days s d)))"

end
