(* ===== verification/Privacy_Worker.thy ===== *)
theory Privacy_Worker
  imports Privacy_Store Ai_Cache
begin

text \<open>
  The deletion workflow of \<open>apps/worker/src/index.ts\<close>, \<open>createPrivacyDeletionWorkflowHandler\<close>.  The purge
  of the AI cache is an operation on the world \<open>'x\<close>; \<open>db_now\<close> is the database's clock and \<open>now\<close> the
  worker's.  The result names the accounts whose sessions the transaction deletes.
\<close>

section \<open>The handler\<close>

definition settled_statuses :: "string list" where
  "settled_statuses = [''awaiting-review'', ''awaiting-processors'', ''awaiting-backup-expiry'', ''completed'', ''cancelled'',
     ''blocked-legal-hold'']"

definition createPrivacyDeletionWorkflowHandler ::
  "(string \<Rightarrow> 'k::linorder) \<Rightarrow> (string \<Rightarrow> ('x, unit) world_op) \<Rightarrow> (string \<Rightarrow> string \<Rightarrow> string) \<Rightarrow> int \<Rightarrow> int \<Rightarrow> int
   \<Rightarrow> string list \<Rightarrow> tenant_context \<Rightarrow> string \<Rightarrow> db \<Rightarrow> 'x \<Rightarrow> string list result \<times> db \<times> 'x" where
  "createPrivacyDeletionWorkflowHandler collate purge scope_key backup_days db_now now ids ctx workflow_id d x =
     (case getPrivacyDeletionInput collate ctx db_now workflow_id d of
        (Inl e, d1) \<Rightarrow> (Inl e, d1, x)
      | (Inr b, d1) \<Rightarrow>
          if dl_status b \<in> set settled_statuses then (Inr [], d1, x)
          else if num_lt (Some now) (date_parse (dl_recovery b))
          then (Inl (js_error ''privacy deletion recovery period has not elapsed''), d1, x)
          else (case purge (scope_key (tc_org ctx) (tc_hh ctx)) x of
              (Inl e, x1) \<Rightarrow> (Inl e, d1, x1)
            | (Inr _, x1) \<Rightarrow>
                (case completePrivacyDeletionActiveSystem collate ctx ids (dl_execution b) (dl_version b) (At now) backup_days d1 of
                   (Inl e, d2) \<Rightarrow> (Inl e, d2, x1)
                 | (Inr (progress, accounts), d2) \<Rightarrow> (Inr accounts, d2, x1))))"

section \<open>A person is deleted only when the deletion is due\<close>

lemma insert_processors_keeps:
  "insert_processors ctx w at ps s d = Inr (u, d') \<Longrightarrow> \<exists>rs. d' = d \<lparr> processors := processors d @ rs \<rparr>"
proof (induction ctx w at ps s d arbitrary: u d' rule: insert_processors.induct)
  case (1 ctx w at s d)
  then have "d' = d \<lparr> processors := processors d @ [] \<rparr>" by simp
  then show ?case ..
next
  case (2 ctx w at i name rest s d)
  show ?case
  proof (cases "list_ex (\<lambda>r. dp_workflow r = w \<and> dp_processor r = name) (processors d)")
    case True
    with 2 show ?thesis by simp
  next
    case False
    with 2(3) obtain r d1 where ins: "insert_returning processors processors_update same_id
        (new_processor_request ctx i w name at) s d = Inr (r, d1)" and rest: "insert_processors ctx w at rest s d1 = Inr (u, d')"
      by auto
    then obtain r1 where d1: "d1 = d \<lparr> processors := processors d @ [r1] \<rparr>"
      by (simp add: processors_t.insert_returning_Inr)
    from 2(2) [OF False rest] obtain rs where "d' = d1 \<lparr> processors := processors d1 @ rs \<rparr>" by blast
    then have "d' = d \<lparr> processors := processors d @ (r1 # rs) \<rparr>" by (simp add: d1)
    then show ?thesis ..
  qed
qed

lemma insert_processors_requested:
  "insert_processors ctx w at ps s d = Inr (u, d') \<Longrightarrow> name \<in> set (map snd ps) \<Longrightarrow>
     \<exists>r \<in> set (processors d'). dp_workflow r = w \<and> dp_processor r = name"
proof (induction ctx w at ps s d arbitrary: u d' rule: insert_processors.induct)
  case (2 ctx w at i n rest s d)
  show ?case
  proof (cases "list_ex (\<lambda>r. dp_workflow r = w \<and> dp_processor r = n) (processors d)")
    case True
    with 2(3) have rest: "insert_processors ctx w at rest s d = Inr (u, d')" by simp
    show ?thesis
    proof (cases "name = n")
      case same: True
      from insert_processors_keeps [OF rest] obtain rs where "processors d' = processors d @ rs" by auto
      with True same show ?thesis by (auto simp: list_ex_iff)
    next
      case False
      with 2(1) [OF True rest] 2(4) show ?thesis by simp
    qed
  next
    case False
    with 2(3) obtain d1 where d1: "d1 = d \<lparr> processors := processors d @ [new_processor_request ctx i w n at] \<rparr>"
      and ins: "insert_returning processors processors_update same_id (new_processor_request ctx i w n at) s d
         = Inr (new_processor_request ctx i w n at, d1)" and rest: "insert_processors ctx w at rest s d1 = Inr (u, d')"
      by (auto simp: processors_t.insert_returning_Inr)
    show ?thesis
    proof (cases "name = n")
      case True
      from insert_processors_keeps [OF rest] obtain rs where "processors d' = processors d1 @ rs" by auto
      with True show ?thesis by (auto simp: d1 new_processor_request_def)
    next
      case neq: False
      with 2(2) [OF False rest] 2(4) show ?thesis by simp
    qed
  qed
qed simp

definition access_revoked :: "session \<Rightarrow> db \<Rightarrow> db \<Rightarrow> string \<Rightarrow> bool" where
  "access_revoked s d d' person \<longleftrightarrow>
     (\<forall>m \<in> set (memberships d'). tenant_visible s m \<longrightarrow> m_person m = person \<longrightarrow> m_active m \<noteq> 1)
     \<and> (\<forall>m \<in> set (person_memberships person s d).
          (\<forall>g \<in> set (grants d'). tenant_visible s g \<longrightarrow> g_membership g = row_id m \<longrightarrow> g_revoked g \<noteq> None)
        \<and> (\<forall>a \<in> set (approvals d'). tenant_visible s a \<longrightarrow> sa_membership a = row_id m \<longrightarrow> sa_revoked a \<noteq> None))"

lemma revoke_access_revokes:
  "access_revoked s d (revoke_access at (map row_id (person_memberships person s d)) s d) person"
  unfolding access_revoked_def
proof (intro conjI ballI impI)
  fix m assume m: "m \<in> set (memberships (revoke_access at (map row_id (person_memberships person s d)) s d))"
    "tenant_visible s m" "m_person m = person"
  show "m_active m \<noteq> 1"
  proof
    assume a: "m_active m = 1"
    from m(1) obtain m0 where "m0 \<in> set (memberships d)"
      "m = (if tenant_visible s m0 \<and> row_id m0 \<in> row_id ` set (person_memberships person s d) \<and> m_active m0 = 1
            then m0 \<lparr> m_active := 0, row_version := row_version m0 + 1 \<rparr> else m0)"
      by (auto simp: revoke_access_def sql_update_def)
    with m(2,3) a show False by (auto simp: person_memberships_def in_sql_select split: if_splits)
  qed
next
  fix m g assume "m \<in> set (person_memberships person s d)" "tenant_visible s g" "g_membership g = row_id m"
    and "g \<in> set (grants (revoke_access at (map row_id (person_memberships person s d)) s d))"
  then show "g_revoked g \<noteq> None" by (auto simp: revoke_access_def sql_update_def tenant_visible_def split: if_splits)
next
  fix m a assume "m \<in> set (person_memberships person s d)" "tenant_visible s a" "sa_membership a = row_id m"
    and "a \<in> set (approvals (revoke_access at (map row_id (person_memberships person s d)) s d))"
  then show "sa_revoked a \<noteq> None" by (auto simp: revoke_access_def sql_update_def tenant_visible_def split: if_splits)
qed

lemma revoke_access_frame:
  "people (revoke_access at ids s d) = people d" "processors (revoke_access at ids s d) = processors d"
  "executions (revoke_access at ids s d) = executions d"
  by (simp_all add: revoke_access_def)

lemma access_revoked_cong:
  "memberships d2 = memberships d1 \<Longrightarrow> grants d2 = grants d1 \<Longrightarrow> approvals d2 = approvals d1
     \<Longrightarrow> access_revoked s d d2 person = access_revoked s d d1 person"
  by (simp add: access_revoked_def)

lemma run_deletion_effect:
  assumes "run_deletion ctx ids e at backup_days s d = Inr (r, d')" and "length ids = 4"
  shows "people d' = sql_delete s (\<lambda>p. row_id p = de_person e) (people d) \<and> access_revoked s d d' (de_person e)
    \<and> (\<forall>name \<in> set deletion_processors. \<exists>r \<in> set (processors d'). dp_workflow r = de_workflow e \<and> dp_processor r = name)
    \<and> (\<forall>r \<in> set (executions d'). row_id r = row_id e \<longrightarrow> tenant_visible s r \<longrightarrow> de_status r = ''awaiting-review'')"
proof -
  from assms(1) obtain u d1 backup where ins: "insert_processors ctx (de_workflow e) at (zip ids deletion_processors) s (delete_person e at s d)
      = Inr (u, d1)" and d': "d' = await_review e at backup s d1"
    by (auto simp: run_deletion_def split: option.splits)
  from insert_processors_keeps [OF ins] obtain rs where d1: "d1 = delete_person e at s d \<lparr> processors := processors (delete_person e at s d) @ rs \<rparr>"
    by blast
  have "map snd (zip ids deletion_processors) = deletion_processors" using assms(2) by (simp add: deletion_processors_def)
  then have "\<exists>r \<in> set (processors d1). dp_workflow r = de_workflow e \<and> dp_processor r = name" if "name \<in> set deletion_processors" for name
    using insert_processors_requested [OF ins, of name] that by (simp only:)
  moreover have "access_revoked s d d' (de_person e)"
    using revoke_access_revokes [of s d at "de_person e"]
    by (subst access_revoked_cong [of _ "revoke_access at (map row_id (person_memberships (de_person e) s d)) s d"])
       (simp_all add: d' await_review_def d1 delete_person_def)
  moreover have "people d' = sql_delete s (\<lambda>p. row_id p = de_person e) (people d)"
    by (simp add: d' await_review_def d1 delete_person_def revoke_access_frame)
  moreover have "de_status r = ''awaiting-review''" if "r \<in> set (executions d')" "row_id r = row_id e" "tenant_visible s r" for r
    using that by (auto simp: d' await_review_def sql_update_def tenant_visible_def split: if_splits)
  ultimately show ?thesis by (simp add: d' await_review_def)
qed

lemma active_holds_none:
  assumes "active_holds collate ctx at person s d = []" and "h \<in> set (holds d)" and "tenant_visible s h"
  shows "\<not> hold_active at (tc_hh ctx) person h"
proof
  assume "hold_active at (tc_hh ctx) person h"
  with assms(2,3) have "h \<in> set (sql_select s (hold_active at (tc_hh ctx) person) (holds d))" by (simp add: in_sql_select)
  then have "l_category h \<in> set (active_holds collate ctx at person s d)" by (simp add: active_holds_def)
  with assms(1) show False by simp
qed

text \<open>Either nothing is deleted, or the deletion ran on the selected execution.\<close>

lemma complete_deletion_cases:
  assumes "completePrivacyDeletionActiveSystem collate ctx ids i version (At at) days d = (out, d')"
  obtains (kept) "people d' = people d"
  | (ran) e r where "e \<in> set (executions d)" "tenant_visible (tenant_session ctx) e" "row_id e = i" "out = Inr r"
      "de_status e = ''recovery-period''" "de_recovery e \<le> at" "active_holds collate ctx at (de_person e) (tenant_session ctx) d = []"
      "run_deletion ctx ids e at days (tenant_session ctx) d = Inr (r, d')"
proof (cases out)
  case (Inl err)
  with assms kept show thesis by (simp add: completePrivacyDeletionActiveSystem_def withTenant_def)
next
  case (Inr r)
  let ?s = "tenant_session ctx"
  from assms Inr obtain e es where sel: "sql_select ?s (\<lambda>e. row_id e = i) (executions d) = e # es"
    and st: "de_status e = ''recovery-period''" and due: "de_recovery e \<le> at"
    and body: "(let hs = active_holds collate ctx at (de_person e) ?s d in
       if hs \<noteq> [] then Inr ((\<lparr> dp_execution = i, dp_progress = ''blocked-legal-hold'', dp_backup = None,
          dp_hold_categories = hs \<rparr>, []), block_on_hold e hs ?s d)
       else run_deletion ctx ids e at days ?s d) = Inr (r, d')"
    by (auto simp: completePrivacyDeletionActiveSystem_def withTenant_def split: list.splits if_splits)
  note e = sql_select_hd [OF sel]
  show thesis
  proof (cases "active_holds collate ctx at (de_person e) ?s d = []")
    case True
    with body e st due Inr show thesis by (intro ran [of e r]) (simp_all add: Let_def)
  next
    case False
    with body have "d' = block_on_hold e (active_holds collate ctx at (de_person e) ?s d) ?s d" by (simp add: Let_def)
    then show thesis by (intro kept) (simp add: block_on_hold_def)
  qed
qed

lemma deletion_due:
  assumes "createPrivacyDeletionWorkflowHandler collate purge scope_key backup_days db_now now ids ctx workflow_id d x = (out, d', x')"
    and "length ids = 4" and "p \<in> set (people d)" and "p \<notin> set (people d')"
  shows "\<exists>e \<in> set (executions d). tenant_visible (tenant_session ctx) e \<and> de_person e = row_id p
    \<and> de_status e = ''recovery-period'' \<and> de_recovery e \<le> now
    \<and> (\<forall>h \<in> set (holds d). tenant_visible (tenant_session ctx) h \<longrightarrow> \<not> hold_active now (tc_hh ctx) (row_id p) h)
    \<and> purge (scope_key (tc_org ctx) (tc_hh ctx)) x = (Inr (), x')
    \<and> access_revoked (tenant_session ctx) d d' (row_id p)
    \<and> (\<forall>name \<in> {''deepseek'', ''resend'', ''sentry'', ''stripe''}.
         \<exists>r \<in> set (processors d'). dp_workflow r = de_workflow e \<and> dp_processor r = name)
    \<and> (\<forall>r \<in> set (executions d'). row_id r = row_id e \<longrightarrow> tenant_visible (tenant_session ctx) r \<longrightarrow> de_status r = ''awaiting-review'')"
proof -
  let ?s = "tenant_session ctx"
  obtain res d1 where i: "getPrivacyDeletionInput collate ctx db_now workflow_id d = (res, d1)" by force
  then have d1: "d1 = d" by (auto simp: getPrivacyDeletionInput_def withTenant_def transaction_def split: list.splits)
  with assms(1,3,4) i obtain b where b: "res = Inr b" by (cases res) (auto simp: createPrivacyDeletionWorkflowHandler_def)
  with assms(1,3,4) i d1 have go: "dl_status b \<notin> set settled_statuses" "\<not> num_lt (Some now) (date_parse (dl_recovery b))"
    by (auto simp: createPrivacyDeletionWorkflowHandler_def split: if_splits)
  obtain pr x1 where pr: "purge (scope_key (tc_org ctx) (tc_hh ctx)) x = (pr, x1)" by force
  with assms(1,3,4) i d1 b go have pr': "pr = Inr ()" by (cases pr) (auto simp: createPrivacyDeletionWorkflowHandler_def split: if_splits)
  obtain c d2 where c: "completePrivacyDeletionActiveSystem collate ctx ids (dl_execution b) (dl_version b) (At now) backup_days d = (c, d2)"
    by force
  with assms(1) i d1 b go pr pr' have d2: "d2 = d'" "x1 = x'"
    by (auto simp: createPrivacyDeletionWorkflowHandler_def split: sum.splits prod.splits if_splits)
  from c show ?thesis
  proof (cases rule: complete_deletion_cases)
    case kept
    with d2 assms(3,4) show ?thesis by simp
  next
    case (ran e r)
    note eff = run_deletion_effect [OF ran(8) assms(2)]
    have pe: "row_id p = de_person e" using eff assms(3,4) d2 by (auto simp: sql_delete_def)
    have "\<forall>h \<in> set (holds d). tenant_visible ?s h \<longrightarrow> \<not> hold_active now (tc_hh ctx) (row_id p) h"
      using active_holds_none [OF ran(7)] pe by simp
    then show ?thesis using ran eff pe pr pr' d2 by (intro bexI [of _ e]) (simp_all add: deletion_processors_def)
  qed
qed

section \<open>Every deletion was confirmed by the person it deletes\<close>

definition confirms :: "privacy_row \<Rightarrow> execution_row \<Rightarrow> bool" where
  "confirms q e \<longleftrightarrow> row_id q = de_request e \<and> row_org q = row_org e \<and> row_hh q = row_hh e \<and> pr_kind q = ''deletion''
     \<and> pr_person q = de_person e \<and> pr_status q = de_status e \<and> pr_recovery q = Some (de_recovery e)
     \<and> (\<exists>t. pr_verified q = Some t \<and> t < de_recovery e)"

definition deletions_ok :: "db \<Rightarrow> bool" where
  "deletions_ok d \<longleftrightarrow> distinct (map row_id (privacy_requests d)) \<and> distinct (map row_id (executions d))
     \<and> distinct (map de_request (executions d))
     \<and> (\<forall>e \<in> set (executions d). \<exists>q \<in> set (privacy_requests d). confirms q e)"

lemma deletions_ok_cong:
  "executions d' = executions d \<Longrightarrow> privacy_requests d' = privacy_requests d \<Longrightarrow> deletions_ok d' = deletions_ok d"
  by (simp add: deletions_ok_def)

lemma same_key: "distinct (map g xs) \<Longrightarrow> x \<in> set xs \<Longrightarrow> y \<in> set xs \<Longrightarrow> g x = g y \<Longrightarrow> x = y"
  by (auto simp: distinct_map dest: inj_onD)

text \<open>An update of both tables that keeps the pairs keeps the invariant.\<close>

lemma deletions_ok_update:
  assumes "deletions_ok d" and "executions d' = sql_update s pe fe (executions d)"
    and "privacy_requests d' = sql_update s pq fq (privacy_requests d)"
    and "\<And>e. row_id (fe e) = row_id e \<and> de_request (fe e) = de_request e" and "\<And>q. row_id (fq q) = row_id q"
    and "\<And>e q. e \<in> set (executions d) \<Longrightarrow> q \<in> set (privacy_requests d) \<Longrightarrow> confirms q e \<Longrightarrow>
           (if tenant_visible s e \<and> pe e then tenant_visible s q \<and> pq q \<and> confirms (fq q) (fe e) else \<not> (tenant_visible s q \<and> pq q))"
  shows "deletions_ok d'"
proof -
  have "\<exists>q' \<in> set (privacy_requests d'). confirms q' e'" if e': "e' \<in> set (executions d')" for e'
  proof -
    from e' obtain e where e: "e \<in> set (executions d)" "e' = (if tenant_visible s e \<and> pe e then fe e else e)"
      by (auto simp: assms(2) in_sql_update)
    with assms(1) obtain q where q: "q \<in> set (privacy_requests d)" "confirms q e" by (auto simp: deletions_ok_def)
    let ?q = "if tenant_visible s q \<and> pq q then fq q else q"
    have "?q \<in> set (privacy_requests d')" using q(1) by (auto simp: assms(3) in_sql_update)
    moreover have "confirms ?q e'" using assms(6) [OF e(1) q] q(2) e(2) by (auto split: if_splits)
    ultimately show ?thesis by blast
  qed
  with assms(1-5) show ?thesis by (simp add: deletions_ok_def map_sql_update)
qed

lemma execution_kept:
  assumes ok: "deletions_ok d" and e0: "e0 \<in> set (executions d)" "tenant_visible s e0"
    and "executions d' = sql_update s (\<lambda>r. row_id r = row_id e0) fe (executions d)"
    and "privacy_requests d' = sql_update s (\<lambda>q. row_id q = de_request e0) fq (privacy_requests d)"
    and "\<And>e. row_id (fe e) = row_id e \<and> de_request (fe e) = de_request e" and "\<And>q. row_id (fq q) = row_id q"
    and "\<And>e q. confirms q e \<Longrightarrow> confirms (fq q) (fe e)"
  shows "deletions_ok d'"
proof (rule deletions_ok_update [OF ok assms(4-7)])
  fix e q assume e: "e \<in> set (executions d)" and q: "confirms q e"
  have "row_id e = row_id e0 \<longleftrightarrow> de_request e = de_request e0"
    using same_key [of row_id "executions d" e e0] same_key [of de_request "executions d" e e0] ok e e0(1)
    by (auto simp: deletions_ok_def)
  moreover have "tenant_visible s q = tenant_visible s e" "row_id q = de_request e"
    using q by (simp_all add: confirms_def tenant_visible_def)
  ultimately show "if tenant_visible s e \<and> row_id e = row_id e0
      then tenant_visible s q \<and> row_id q = de_request e0 \<and> confirms (fq q) (fe e)
      else \<not> (tenant_visible s q \<and> row_id q = de_request e0)" using assms(8) [OF q] by simp
qed

lemma complete_keeps:
  assumes "completePrivacyDeletionActiveSystem collate ctx ids i version completed days d = (out, d')" and ok: "deletions_ok d"
  shows "deletions_ok d'"
proof (cases out)
  case (Inl err)
  with assms show ?thesis by (simp add: completePrivacyDeletionActiveSystem_def withTenant_def)
next
  case (Inr r)
  let ?s = "tenant_session ctx"
  from assms Inr obtain e es at where sel: "sql_select ?s (\<lambda>e. row_id e = i) (executions d) = e # es"
    and body: "(let hs = active_holds collate ctx at (de_person e) ?s d in
       if hs \<noteq> [] then Inr ((\<lparr> dp_execution = i, dp_progress = ''blocked-legal-hold'', dp_backup = None,
          dp_hold_categories = hs \<rparr>, []), block_on_hold e hs ?s d)
       else run_deletion ctx ids e at days ?s d) = Inr (r, d')"
    by (auto simp: completePrivacyDeletionActiveSystem_def withTenant_def split: list.splits if_splits option.splits)
  have e: "e \<in> set (executions d)" "tenant_visible ?s e" using sql_select_hd [OF sel] by auto
  show ?thesis
  proof (cases "active_holds collate ctx at (de_person e) ?s d = []")
    case False
    with body have d': "d' = block_on_hold e (active_holds collate ctx at (de_person e) ?s d) ?s d" by (simp add: Let_def)
    show ?thesis
      by (rule execution_kept [OF ok e, of d'
          "\<lambda>r. r \<lparr> de_status := ''blocked-legal-hold'', de_retained := active_holds collate ctx at (de_person e) ?s d,
             row_version := row_version r + 1 \<rparr>"
          "\<lambda>p. p \<lparr> pr_status := ''blocked-legal-hold'', row_version := row_version p + 1 \<rparr>"])
         (simp_all add: d' block_on_hold_def confirms_def)
  next
    case True
    with body obtain u d1 backup where
      ins: "insert_processors ctx (de_workflow e) at (zip ids deletion_processors) ?s (delete_person e at ?s d) = Inr (u, d1)"
      and d': "d' = await_review e at backup ?s d1"
      by (auto simp: run_deletion_def Let_def split: option.splits)
    from insert_processors_keeps [OF ins]
    have d1: "executions d1 = executions d" "privacy_requests d1 = privacy_requests d"
      by (auto simp: delete_person_def revoke_access_def)
    show ?thesis
      by (rule execution_kept [OF ok e, of d'
          "\<lambda>r. r \<lparr> de_status := ''awaiting-review'', de_active_completed := Some at, de_backup_expires := Some backup,
             de_retained := retained_categories, de_shared_review := True, row_version := row_version r + 1 \<rparr>"
          "\<lambda>p. p \<lparr> pr_status := ''awaiting-review'', row_version := row_version p + 1 \<rparr>"])
         (simp_all add: d' await_review_def d1 confirms_def)
  qed
qed

lemma handler_keeps:
  assumes "createPrivacyDeletionWorkflowHandler collate purge scope_key days db_now now ids ctx w d x = (out, d', x')"
    and "deletions_ok d"
  shows "deletions_ok d'"
proof -
  obtain res d1 where i: "getPrivacyDeletionInput collate ctx db_now w d = (res, d1)" by force
  then have d1: "d1 = d" by (auto simp: getPrivacyDeletionInput_def withTenant_def transaction_def split: list.splits)
  have "d' = d \<or> (\<exists>i v c. completePrivacyDeletionActiveSystem collate ctx ids i v (At now) days d = (c, d'))"
    using assms(1) i d1
    by (cases res) (auto simp: createPrivacyDeletionWorkflowHandler_def split: if_splits sum.splits prod.splits)
  with complete_keeps assms(2) show ?thesis by blast
qed

lemma call_keeps_deletions:
  assumes "withTenant ctx (\<lambda>s. idempotent_call (tenant_lookup ctx key) (tenant_reserve ctx key now) (tenant_complete ctx key st)
      h conflict pending (body s)) d = (out, d')"
    and "\<And>d1 v d2. body (tenant_session ctx) d1 = Inr (v, d2) \<Longrightarrow> deletions_ok d1 \<Longrightarrow> deletions_ok d2" and "deletions_ok d"
  shows "deletions_ok d'"
proof (cases out)
  case (Inl e)
  with assms(1,3) show ?thesis by (simp add: withTenant_def)
next
  case (Inr v)
  with assms(1) have "idempotent_call (tenant_lookup ctx key) (tenant_reserve ctx key now) (tenant_complete ctx key st)
      h conflict pending (body (tenant_session ctx)) d = Inr (v, d')" by (simp add: withTenant_def)
  then show ?thesis
  proof (cases rule: tenant_call_cases)
    case (ran t d2 t')
    have "deletions_ok (d \<lparr> idem := t \<rparr>)" using assms(3) by (simp add: deletions_ok_def)
    from assms(2) [OF ran(2) this] show ?thesis by (simp add: ran(3) deletions_ok_def)
  qed (use assms(3) in simp)
qed

lemma start_body_keeps:
  assumes "start_privacy_body ctx i w person kind requested s d = Inr (v, d')" and "deletions_ok d"
  shows "deletions_ok d'"
proof -
  let ?r = "new_privacy_request ctx i person kind requested"
  from assms(1) have d': "privacy_requests d' = privacy_requests d @ [?r]" "executions d' = executions d"
    and fresh: "\<not> list_ex (same_id ?r) (privacy_requests d)"
    by (auto simp: start_privacy_body_def privacy_requests_t.insert_returning_Inr workflows_t.insert_returning_Inr)
  from fresh have "row_id ?r \<notin> set (map row_id (privacy_requests d))" by (auto simp: list_ex_iff same_id_def)
  with assms(2) show ?thesis by (auto simp: deletions_ok_def d')
qed

lemma cancel_body_keeps:
  assumes "cancel_body ctx now i version s d = Inr (v, d')" and ok: "deletions_ok d"
  shows "deletions_ok d'"
proof -
  let ?pq = "\<lambda>p. row_id p = i \<and> pr_person p = tc_actor ctx \<and> pr_kind p = ''deletion'' \<and> pr_status p = ''recovery-period''
     \<and> row_version p = version"
  let ?fq = "\<lambda>p. p \<lparr> pr_status := ''cancelled'', pr_completed := Some now, row_version := row_version p + 1 \<rparr>"
  let ?pe = "\<lambda>e. de_request e = i \<and> de_status e = ''recovery-period''"
  let ?fe = "\<lambda>e. e \<lparr> de_status := ''cancelled'', de_completed := Some now, row_version := row_version e + 1 \<rparr>"
  from assms(1) obtain p d1 e d2 w where
    1: "update_returning privacy_requests privacy_requests_update ?pq ?fq ''privacy deletion cancellation conflict'' s d = Inr (p, d1)"
    and 2: "update_returning executions executions_update ?pe ?fe ''privacy deletion execution cancellation conflict'' s d1 = Inr (e, d2)"
    and 3: "update_returning workflows workflows_update (\<lambda>w. deletion_workflow i w \<and> w_status w \<noteq> ''completed'')
        (\<lambda>w. w \<lparr> w_status := ''completed'', w_completed_steps := add_step ''cancelled'' (w_completed_steps w),
              w_next := None, w_error := None, row_version := row_version w + 1 \<rparr>)
        ''privacy deletion workflow cancellation conflict'' s d2 = Inr (w, d')"
    by (auto simp: cancel_body_def)
  from privacy_requests_t.update_returning_Inr [OF 1] obtain r where r: "r \<in> set (privacy_requests d)" "tenant_visible s r" "?pq r"
    and d1: "d1 = d \<lparr> privacy_requests := sql_update s ?pq ?fq (privacy_requests d) \<rparr>" by auto
  from executions_t.update_returning_Inr [OF 2] have d2: "d2 = d1 \<lparr> executions := sql_update s ?pe ?fe (executions d1) \<rparr>" by auto
  from workflows_t.update_returning_Inr [OF 3] obtain t where d': "d' = d2 \<lparr> workflows := t \<rparr>" by auto
  show ?thesis
  proof (rule deletions_ok_update [OF ok])
    show "executions d' = sql_update s ?pe ?fe (executions d)" "privacy_requests d' = sql_update s ?pq ?fq (privacy_requests d)"
      by (simp_all add: d' d2 d1)
    fix e q assume q: "q \<in> set (privacy_requests d)" "confirms q e"
    have vis: "tenant_visible s q = tenant_visible s e" using q(2) by (simp add: confirms_def tenant_visible_def)
    have "row_id q = i \<Longrightarrow> q = r" using same_key [of row_id "privacy_requests d" q r] ok q(1) r by (simp add: deletions_ok_def)
    then show "if tenant_visible s e \<and> ?pe e then tenant_visible s q \<and> ?pq q \<and> confirms (?fq q) (?fe e) else \<not> (tenant_visible s q \<and> ?pq q)"
      using q(2) r vis by (auto simp: confirms_def)
  qed simp_all
qed

lemma confirm_body_keeps:
  assumes "confirm_deletion_body ctx x i version confirmed days s d = Inr (v, d')" and ok: "deletions_ok d"
  shows "deletions_ok d'"
proof -
  let ?pq = "\<lambda>p. row_id p = i \<and> row_version p = version"
  from assms(1) obtain p ps where sel: "sql_select s (\<lambda>p. row_id p = i) (privacy_requests d) = p # ps"
    by (auto simp: confirm_deletion_body_def split: list.splits)
  note p = sql_select_hd [OF sel]
  from assms(1) sel obtain t r p' d1 w d2 e where
    who: "pr_person p = tc_actor ctx" "pr_kind p = ''deletion''"
    and 1: "update_returning privacy_requests privacy_requests_update ?pq (confirm_deletion_set t r)
       ''privacy deletion confirmation version conflict'' s d = Inr (p', d1)" and valid: "privacy_row_ok p'"
    and 2: "update_returning workflows workflows_update (\<lambda>w. deletion_workflow i w \<and> w_next w = Some ''identity-verification'')
       confirm_workflow_set ''privacy deletion workflow is unavailable'' s d1 = Inr (w, d2)"
    and 3: "insert_returning executions executions_update same_execution (new_execution ctx x i (row_id w) r) s d2 = Inr (e, d')"
    by (auto simp: confirm_deletion_body_def split: if_splits option.splits)
  from privacy_requests_t.update_returning_Inr [OF 1] obtain q where q: "q \<in> set (privacy_requests d)" "tenant_visible s q" "?pq q"
      "p' = confirm_deletion_set t r q"
    and d1: "d1 = d \<lparr> privacy_requests := sql_update s ?pq (confirm_deletion_set t r) (privacy_requests d) \<rparr>" by auto
  from workflows_t.update_returning_Inr [OF 2] obtain tw where d2: "d2 = d1 \<lparr> workflows := tw \<rparr>" by auto
  let ?e = "new_execution ctx x i (row_id w) r"
  from 3 have d': "d' = d2 \<lparr> executions := executions d2 @ [?e] \<rparr>" and fresh: "\<not> list_ex (same_execution ?e) (executions d)"
    and vis: "tenant_visible s ?e" by (auto simp: executions_t.insert_returning_Inr d2 d1)
  have qp: "q = p" using same_key [of row_id "privacy_requests d" q p] ok q p by (simp add: deletions_ok_def)
  have other: "row_id ?e \<noteq> row_id e'" "i \<noteq> de_request e'" if "e' \<in> set (executions d)" for e'
    using fresh that by (auto simp: list_ex_iff same_execution_def same_id_def new_execution_def)
  have "confirms p' ?e"
    using who valid vis q(2,3) by (auto simp: q(4) qp confirms_def new_execution_def confirm_deletion_set_def privacy_row_ok_def
        tenant_visible_def)
  moreover have "p' \<in> set (privacy_requests d')" using q by (auto simp: d' d2 d1 in_sql_update)
  moreover have "\<exists>q' \<in> set (privacy_requests d'). confirms q' e'" if e': "e' \<in> set (executions d)" for e'
  proof -
    from ok e' obtain q' where q': "q' \<in> set (privacy_requests d)" "confirms q' e'" by (auto simp: deletions_ok_def)
    with other(2) [OF e'] have "row_id q' \<noteq> i" by (auto simp: confirms_def)
    with q' show ?thesis by (force simp: d' d2 d1 in_sql_update)
  qed
  moreover have "map row_id (privacy_requests d') = map row_id (privacy_requests d)"
    by (simp add: d' d2 d1 map_sql_update confirm_deletion_set_def)
  moreover have "row_id ?e \<notin> set (map row_id (executions d))" "de_request ?e \<notin> set (map de_request (executions d))"
    using other by (force simp: new_execution_def)+
  ultimately show ?thesis using ok by (auto simp: deletions_ok_def d' d2 d1)
qed

inductive privacy_step ::
  "(string \<Rightarrow> string) \<Rightarrow> (string \<Rightarrow> 'k::linorder) \<Rightarrow> (string \<Rightarrow> ('x, unit) world_op) \<Rightarrow> (string \<Rightarrow> string \<Rightarrow> string) \<Rightarrow> db \<Rightarrow> db \<Rightarrow> bool"
  for sha256 collate purge scope_key where
  start: "startPrivacyRequest sha256 ctx i w now person kind key requested d = (out, d')
    \<Longrightarrow> privacy_step sha256 collate purge scope_key d d'"
| confirm: "confirmPrivacyDeletion sha256 ctx i now request_id version key confirmed days d = (out, d')
    \<Longrightarrow> privacy_step sha256 collate purge scope_key d d'"
| cancel: "cancelPrivacyDeletion sha256 ctx now request_id version key d = (out, d')
    \<Longrightarrow> privacy_step sha256 collate purge scope_key d d'"
| run: "createPrivacyDeletionWorkflowHandler collate purge scope_key days db_now now ids ctx w d x = (res, d', x')
    \<Longrightarrow> privacy_step sha256 collate purge scope_key d d'"

lemma privacy_step_keeps:
  "privacy_step sha256 collate purge scope_key d d' \<Longrightarrow> deletions_ok d \<Longrightarrow> deletions_ok d'"
proof (induction rule: privacy_step.induct)
  case (start ctx i w now person kind key requested d out d')
  then show ?case
    by (auto simp: startPrivacyRequest_def split: if_splits elim!: call_keeps_deletions dest: start_body_keeps)
next
  case (confirm ctx i now request_id version key confirmed days d out d')
  then show ?case unfolding confirmPrivacyDeletion_def by (elim call_keeps_deletions) (auto dest: confirm_body_keeps)
next
  case (cancel ctx now request_id version key d out d')
  then show ?case unfolding cancelPrivacyDeletion_def by (elim call_keeps_deletions) (auto dest: cancel_body_keeps)
next
  case (run days db_now now ids ctx w d x res d' x')
  then show ?case by (rule handler_keeps)
qed

lemma privacy_history_keeps:
  "(privacy_step sha256 collate purge scope_key)\<^sup>*\<^sup>* d d' \<Longrightarrow> deletions_ok d \<Longrightarrow> deletions_ok d'"
  by (induction rule: rtranclp_induct) (auto dest: privacy_step_keeps)

text \<open>C6: Whatever requests, confirmations, cancellations and runs came before, a run of the deletion workflow
  that removes a person from the household follows that person's own deletion request, confirmed at a
  time before its recovery date and neither cancelled nor blocked since; the recovery date has passed,
  no legal hold is in force on the household or the person, and the household's AI cache was purged
  first.  Then every membership of the person is inactive, the grants and support approvals of the
  memberships it had are revoked, a deletion request is open with each processor, and the execution
  awaits its review.\<close>

theorem deletion_confirmed_and_due:
  assumes "(privacy_step sha256 collate purge scope_key)\<^sup>*\<^sup>* d0 d" and "executions d0 = []"
    and "distinct (map row_id (privacy_requests d0))"
    and "createPrivacyDeletionWorkflowHandler collate purge scope_key backup_days db_now now ids ctx workflow_id d x = (out, d', x')"
    and "length ids = 4" and "p \<in> set (people d)" and "p \<notin> set (people d')"
  shows "\<exists>q \<in> set (privacy_requests d). \<exists>e \<in> set (executions d). row_id q = de_request e
    \<and> pr_kind q = ''deletion'' \<and> pr_person q = row_id p \<and> pr_status q = ''recovery-period''
    \<and> (\<exists>t r. pr_verified q = Some t \<and> pr_recovery q = Some r \<and> t < r \<and> r \<le> now)
    \<and> (\<forall>h \<in> set (holds d). tenant_visible (tenant_session ctx) h \<longrightarrow> \<not> hold_active now (tc_hh ctx) (row_id p) h)
    \<and> purge (scope_key (tc_org ctx) (tc_hh ctx)) x = (Inr (), x')
    \<and> access_revoked (tenant_session ctx) d d' (row_id p)
    \<and> (\<forall>name \<in> {''deepseek'', ''resend'', ''sentry'', ''stripe''}.
         \<exists>r \<in> set (processors d'). dp_workflow r = de_workflow e \<and> dp_processor r = name)
    \<and> (\<forall>r \<in> set (executions d'). row_id r = row_id e \<longrightarrow> tenant_visible (tenant_session ctx) r \<longrightarrow> de_status r = ''awaiting-review'')"
proof -
  have "deletions_ok d0" using assms(2,3) by (simp add: deletions_ok_def)
  with privacy_history_keeps [OF assms(1)] have ok: "deletions_ok d" by blast
  from deletion_due [OF assms(4-7)] obtain e where e: "e \<in> set (executions d)" "de_person e = row_id p"
      "de_status e = ''recovery-period''" "de_recovery e \<le> now"
    and rest: "\<forall>h \<in> set (holds d). tenant_visible (tenant_session ctx) h \<longrightarrow> \<not> hold_active now (tc_hh ctx) (row_id p) h"
      "purge (scope_key (tc_org ctx) (tc_hh ctx)) x = (Inr (), x')" "access_revoked (tenant_session ctx) d d' (row_id p)"
      "\<forall>name \<in> {''deepseek'', ''resend'', ''sentry'', ''stripe''}.
         \<exists>r \<in> set (processors d'). dp_workflow r = de_workflow e \<and> dp_processor r = name"
      "\<forall>r \<in> set (executions d'). row_id r = row_id e \<longrightarrow> tenant_visible (tenant_session ctx) r \<longrightarrow> de_status r = ''awaiting-review''"
    by blast
  from ok e(1) obtain q where q: "q \<in> set (privacy_requests d)" "confirms q e" by (auto simp: deletions_ok_def)
  then have "row_id q = de_request e \<and> pr_kind q = ''deletion'' \<and> pr_person q = row_id p \<and> pr_status q = ''recovery-period''
    \<and> (\<exists>t r. pr_verified q = Some t \<and> pr_recovery q = Some r \<and> t < r \<and> r \<le> now)"
    using e(2-4) by (auto simp: confirms_def)
  with q(1) e(1) rest show ?thesis by blast
qed

section \<open>A deletion\<close>

definition deletion_ctx :: tenant_context where
  "deletion_ctx = \<lparr> tc_org = ''o'', tc_hh = ''h'', tc_actor = ''p'' \<rparr>"

definition deletion_person :: person_row where
  "deletion_person = \<lparr> row_org = ''o'', row_hh = ''h'', row_id = ''p'', row_version = 1, p_display_name = [], p_key_version = 1 \<rparr>"

definition privacy_db :: db where
  "privacy_db = empty_db \<lparr> people := [deletion_person] \<rparr>"

lemma tenant_call_runs:
  assumes "key \<notin> set (map k_key (idem d))" and "\<And>t. \<exists>v. body (d \<lparr> idem := t \<rparr>) = Inr (v, after_call \<lparr> idem := t \<rparr>)"
  shows "\<exists>v t. idempotent_call (tenant_lookup ctx key) (tenant_reserve ctx key now) (tenant_complete ctx key st) h conflict pending body d
      = Inr (v, after_call \<lparr> idem := t \<rparr>) \<and> map k_key t = map k_key (idem d) @ [key]"
proof -
  let ?r = "\<lparr> row_org = tc_org ctx, row_hh = tc_hh ctx, k_key = key, k_hash = h, k_status = None, k_response = None,
     k_expires = now + 86400000 \<rparr>"
  obtain v where "body (d \<lparr> idem := idem d @ [?r] \<rparr>) = Inr (v, after_call \<lparr> idem := idem d @ [?r] \<rparr>)" using assms(2) by blast
  moreover have "\<not> list_ex (tenant_key ctx key) (idem d)" using assms(1) by (auto simp: list_ex_iff tenant_key_def)
  ultimately show ?thesis by (auto simp: idempotent_call_def tenant_reserve_def tenant_complete_def map_sql_update)
qed

abbreviation requested_db :: "idem_row list \<Rightarrow> db" where
  "requested_db t \<equiv> privacy_db \<lparr> privacy_requests := [new_privacy_request deletion_ctx ''r'' ''p'' ''deletion'' 0],
     workflows := [new_workflow deletion_ctx ''w'' ''deletion'' ''privacy:r'' ''identity-verification'' (Some (''PrivacyRequest'', ''r''))],
     idem := t \<rparr>"

abbreviation confirmed_db :: "idem_row list \<Rightarrow> db" where
  "confirmed_db t \<equiv> privacy_db \<lparr>
     privacy_requests := [confirm_deletion_set 100 2592000100 (new_privacy_request deletion_ctx ''r'' ''p'' ''deletion'' 0)],
     workflows := [confirm_workflow_set (new_workflow deletion_ctx ''w'' ''deletion'' ''privacy:r'' ''identity-verification''
        (Some (''PrivacyRequest'', ''r'')))],
     executions := [new_execution deletion_ctx ''e'' ''r'' ''w'' 2592000100], idem := t \<rparr>"

lemma sample_start:
  "\<exists>v t. startPrivacyRequest (\<lambda>b. b) deletion_ctx ''r'' ''w'' 0 ''p'' ''deletion'' ''k1'' 0 privacy_db = (Inr v, requested_db t)
     \<and> map k_key t = [''k1'']"
proof -
  have "\<exists>v. start_privacy_body deletion_ctx ''r'' ''w'' ''p'' ''deletion'' 0 (tenant_session deletion_ctx) (privacy_db \<lparr> idem := t \<rparr>)
      = Inr (v, requested_db t)" for t
    by (simp add: start_privacy_body_def insert_returning_def sql_insert_def privacy_db_def empty_db_def
        new_privacy_request_def new_workflow_def)
  moreover have "''k1'' \<notin> set (map k_key (idem privacy_db))" by (simp add: privacy_db_def empty_db_def)
  ultimately have "\<exists>v t. idempotent_call (tenant_lookup deletion_ctx ''k1'') (tenant_reserve deletion_ctx ''k1'' 0)
      (tenant_complete deletion_ctx ''k1'' 202) (request_hash (\<lambda>b. b) (privacy_request_json ''p'' ''deletion''))
      ''idempotency key reused with different request'' ''privacy request is still processing''
      (start_privacy_body deletion_ctx ''r'' ''w'' ''p'' ''deletion'' 0 (tenant_session deletion_ctx)) privacy_db
     = Inr (v, requested_db t) \<and> map k_key t = map k_key (idem privacy_db) @ [''k1'']"
    by (intro tenant_call_runs [where after_call = "requested_db []", simplified]) simp_all
  moreover have "tc_actor deletion_ctx = ''p''" "idem privacy_db = []" by (simp_all add: deletion_ctx_def privacy_db_def empty_db_def)
  ultimately show ?thesis by (auto simp: startPrivacyRequest_def withTenant_def)
qed

lemma sample_confirm:
  assumes "map k_key t = [''k1'']"
  shows "\<exists>v t'. confirmPrivacyDeletion (\<lambda>b. b) deletion_ctx ''e'' 0 ''r'' 1 ''k2'' (At 100) 30 (requested_db t) = (Inr v, confirmed_db t')"
proof -
  have "\<exists>v. confirm_deletion_body deletion_ctx ''e'' ''r'' 1 (At 100) 30 (tenant_session deletion_ctx) (requested_db t \<lparr> idem := t' \<rparr>)
      = Inr (v, confirmed_db t')" for t'
    by (simp add: confirm_deletion_body_def update_returning_def insert_returning_def sql_insert_def privacy_db_def empty_db_def
        new_privacy_request_def new_workflow_def sql_select_def sql_update_def recovery_dates_def time_clip_def day_ms_def
        confirm_deletion_set_def privacy_row_ok_def deletion_workflow_def confirm_workflow_set_def new_execution_def deletion_ctx_def)
  moreover have "''k2'' \<notin> set (map k_key (idem (requested_db t)))" using assms by simp
  ultimately have "\<exists>v t'. idempotent_call (tenant_lookup deletion_ctx ''k2'') (tenant_reserve deletion_ctx ''k2'' 0)
      (tenant_complete deletion_ctx ''k2'' 202) (request_hash (\<lambda>b. b) (confirm_request_json ''r'' 1 30))
      ''idempotency key reused with different request'' ''privacy deletion confirmation is still processing''
      (confirm_deletion_body deletion_ctx ''e'' ''r'' 1 (At 100) 30 (tenant_session deletion_ctx)) (requested_db t)
     = Inr (v, confirmed_db t') \<and> map k_key t' = map k_key (idem (requested_db t)) @ [''k2'']"
    by (intro tenant_call_runs [where after_call = "confirmed_db []", simplified]) simp_all
  then show ?thesis by (auto simp: confirmPrivacyDeletion_def withTenant_def)
qed

definition sample_ids :: "string list" where
  "sample_ids = [''1'', ''2'', ''3'', ''4'']"

lemma sample_deletion:
  "\<exists>d'. createPrivacyDeletionWorkflowHandler (\<lambda>k. k) (\<lambda>k x. (Inr (), Suc x)) (\<lambda>a b. a @ b) 35 0 3000000000 sample_ids deletion_ctx ''w''
      (confirmed_db t) 0 = (Inr [], d', 1) \<and> people d' = []"
  by (simp add: createPrivacyDeletionWorkflowHandler_def getPrivacyDeletionInput_def completePrivacyDeletionActiveSystem_def
      withTenant_def transaction_def sql_select_def execution_ready_def privacy_db_def empty_db_def new_privacy_request_def
      new_workflow_def confirm_deletion_set_def confirm_workflow_set_def new_execution_def deletion_workflow_def deletion_ctx_def
      active_holds_def order_by_def settled_statuses_def run_deletion_def insert_returning_def sql_insert_def sample_ids_def
      deletion_processors_def delete_person_def revoke_access_def person_memberships_def sql_update_def sql_delete_def
      new_processor_request_def same_id_def time_clip_def day_ms_def await_review_def signed_out_def deletion_person_def)

theorem deletion_confirmed_and_due_witness:
  "\<exists>d d' q. createPrivacyDeletionWorkflowHandler (\<lambda>k. k) (\<lambda>k x. (Inr (), Suc x)) (\<lambda>a b. a @ b) 35 0 3000000000 sample_ids deletion_ctx
      ''w'' d (0::nat) = (Inr [], d', 1) \<and> people d' = [] \<and> q \<in> set (privacy_requests d) \<and> pr_person q = ''p''"
proof -
  from sample_start obtain v1 t1 where s: "startPrivacyRequest (\<lambda>b. b) deletion_ctx ''r'' ''w'' 0 ''p'' ''deletion'' ''k1'' 0 privacy_db
      = (Inr v1, requested_db t1)" and k: "map k_key t1 = [''k1'']" by (elim exE conjE) (rule that)
  from sample_confirm [OF k] obtain v2 t2 where c: "confirmPrivacyDeletion (\<lambda>b. b) deletion_ctx ''e'' 0 ''r'' 1 ''k2'' (At 100) 30
      (requested_db t1) = (Inr v2, confirmed_db t2)" by (elim exE) (rule that)
  from sample_deletion [of t2] obtain d' where r: "createPrivacyDeletionWorkflowHandler (\<lambda>k. k) (\<lambda>k x. (Inr (), Suc x)) (\<lambda>a b. a @ b)
      35 0 3000000000 sample_ids deletion_ctx ''w'' (confirmed_db t2) 0 = (Inr [], d', 1)" "people d' = []" by (elim exE conjE) (rule that)
  let ?step = "privacy_step (\<lambda>b. b) (\<lambda>k::string. k) (\<lambda>k (x::nat). (Inr (), Suc x)) (\<lambda>a b. a @ b)"
  have "?step privacy_db (requested_db t1)" using s by (rule privacy_step.start)
  moreover have "?step (requested_db t1) (confirmed_db t2)" using c by (rule privacy_step.confirm)
  ultimately have h: "?step\<^sup>*\<^sup>* privacy_db (confirmed_db t2)" by auto
  have d0: "executions privacy_db = []" "distinct (map row_id (privacy_requests privacy_db))" "length sample_ids = 4"
    "deletion_person \<in> set (people (confirmed_db t2))" "deletion_person \<notin> set (people d')"
    by (simp_all add: privacy_db_def empty_db_def sample_ids_def r(2))
  from deletion_confirmed_and_due [OF h d0(1,2) r(1) d0(3-5)] obtain q where
    q: "q \<in> set (privacy_requests (confirmed_db t2))" "pr_person q = row_id deletion_person" by blast
  have "row_id deletion_person = ''p''" by (simp add: deletion_person_def)
  with q r show ?thesis by (intro exI [of _ "confirmed_db t2"] exI [of _ d'] exI [of _ q]) simp
qed
end
