(* ===== verification/Js_Number.thy ===== *)
theory Js_Number
  imports Complex_Main "HOL-Library.Log_Nat" Js_Json Js_Text
begin

text \<open>
  \<open>Number\<close> of a text, as the routes use it on headers and query parameters: the numeric literals of
  ECMAScript (decimal with fraction and exponent, hexadecimal, octal, binary, surrounding white space,
  the empty text), rounded to a double.  \<open>None\<close> is \<open>NaN\<close> or an infinity: every use tests
  \<open>Number.isSafeInteger\<close> next, which refuses both.
\<close>

section \<open>Rounding to a double\<close>

definition round_half_even :: "rat \<Rightarrow> int" where
  "round_half_even x = (let f = \<lfloor>x\<rfloor>; d = x - of_int f in
     if d < 1/2 then f else if 1/2 < d then f + 1 else if even f then f else f + 1)"

text \<open>The largest \<open>e\<close> with \<open>2 powi e \<le> x\<close>, for a positive \<open>x\<close>.\<close>

definition binade :: "rat \<Rightarrow> int" where
  "binade x = (let (a, b) = quotient_of x; e = int (floorlog 2 (nat a)) - int (floorlog 2 (nat b)) in
     if 2 powi e \<le> x then e else e - 1)"

definition ulp_exponent :: "rat \<Rightarrow> int" where
  "ulp_exponent x = max (-1074) (binade x - 52)"

definition to_double :: "rat \<Rightarrow> rat" where
  "to_double x = (if x = 0 then 0 else
     let u = 2 powi ulp_exponent \<bar>x\<bar> in sgn x * of_int (round_half_even (\<bar>x\<bar> / u)) * u)"

definition max_safe_integer :: int where
  "max_safe_integer = 9007199254740991"

text \<open>The integer a number is, when \<open>Number.isSafeInteger\<close> holds of it.\<close>

definition as_safe_integer :: "rat \<Rightarrow> int option" where
  "as_safe_integer x = (if x = of_int \<lfloor>x\<rfloor> \<and> \<bar>\<lfloor>x\<rfloor>\<bar> \<le> max_safe_integer then Some \<lfloor>x\<rfloor> else None)"

section \<open>Literals\<close>

definition read_exponent :: "string \<Rightarrow> int option" where
  "read_exponent s = (case s of [] \<Rightarrow> Some 0
    | c # r \<Rightarrow> if c \<noteq> CHR ''e'' \<and> c \<noteq> CHR ''E'' then None
       else (let (neg, ds) = (case r of CHR ''-'' # t \<Rightarrow> (True, t) | CHR ''+'' # t \<Rightarrow> (False, t) | _ \<Rightarrow> (False, r)) in
         if ds = [] \<or> \<not> list_all is_digit ds then None
         else Some (if neg then - int (read_digits ds) else int (read_digits ds))))"

definition decimal_literal :: "string \<Rightarrow> rat option" where
  "decimal_literal s = (let ip = takeWhile is_digit s; r = dropWhile is_digit s;
      (fp, r') = (case r of CHR ''.'' # t \<Rightarrow> (takeWhile is_digit t, dropWhile is_digit t) | _ \<Rightarrow> ([], r)) in
    if ip @ fp = [] then None
    else map_option (\<lambda>e. of_nat (read_digits (ip @ fp)) * 10 powi (e - int (length fp))) (read_exponent r'))"

definition radix_digits :: "nat \<Rightarrow> string \<Rightarrow> rat option" where
  "radix_digits b s = (if s = [] \<or> \<not> list_all (\<lambda>c. case hex_val c of Some d \<Rightarrow> d < b | None \<Rightarrow> False) s then None
     else Some (of_nat (foldl (\<lambda>n c. n * b + the (hex_val c)) 0 s)))"

definition radix_of :: "char \<Rightarrow> nat option" where
  "radix_of c = (if c \<in> {CHR ''x'', CHR ''X''} then Some 16 else if c \<in> {CHR ''o'', CHR ''O''} then Some 8
     else if c \<in> {CHR ''b'', CHR ''B''} then Some 2 else None)"

definition numeric_literal :: "string \<Rightarrow> rat option" where
  "numeric_literal s = (case s of [] \<Rightarrow> Some 0
    | [c] \<Rightarrow> decimal_literal s
    | c # c' # r \<Rightarrow> (case (if c = CHR ''0'' then radix_of c' else None) of
        Some b \<Rightarrow> radix_digits b r
      | None \<Rightarrow> if c = CHR ''-'' then map_option uminus (decimal_literal (c' # r))
                else if c = CHR ''+'' then decimal_literal (c' # r) else decimal_literal s))"

definition number_of_text :: "string \<Rightarrow> rat option" where
  "number_of_text s = map_option to_double (numeric_literal (trim s))"

text \<open>\<open>Number(text)\<close> when \<open>Number.isSafeInteger\<close> holds of it.\<close>

definition safe_integer_of_text :: "string \<Rightarrow> int option" where
  "safe_integer_of_text s = Option.bind (number_of_text s) as_safe_integer"

section \<open>Safe integers are kept\<close>

lemma binade_le:
  assumes "0 < x"
  shows "2 powi binade x \<le> x"
proof -
  obtain a b where q: "quotient_of x = (a, b)" by (cases "quotient_of x")
  then have b: "0 < b" by (rule quotient_of_denom_pos)
  have x: "x = of_int a / of_int b" using q by (rule quotient_of_div)
  with assms b have a: "0 < a" by (simp add: zero_less_divide_iff)
  have fl: "2 ^ (floorlog 2 n - 1) \<le> n \<and> n < 2 ^ floorlog 2 n" if "0 < n" for n :: nat
    using floorlog_bounds [of n 2] that by simp
  define i where "i = floorlog 2 (nat a)"
  define j where "j = floorlog 2 (nat b)"
  have na: "2 ^ (i - 1) \<le> nat a" and nb: "nat b < 2 ^ j"
    using fl [of "nat a"] fl [of "nat b"] a b by (simp_all add: i_def j_def)
  have i: "0 < i" using a by (simp add: i_def floorlog_def)
  have ra: "2 ^ (i - 1) \<le> (of_int a :: rat)"
  proof -
    have "2 ^ (i - 1) \<le> a" using na a by (simp add: le_nat_iff)
    then have "(of_int (2 ^ (i - 1)) :: rat) \<le> of_int a" by (simp only: of_int_le_iff)
    then show ?thesis by simp
  qed
  have rb: "(of_int b :: rat) \<le> 2 ^ j"
  proof -
    have "b \<le> 2 ^ j" using nb b by (simp add: nat_less_iff)
    then have "(of_int b :: rat) \<le> of_int (2 ^ j)" by (simp only: of_int_le_iff)
    then show ?thesis by simp
  qed
  let ?e = "int i - int j"
  have "2 powi (?e - 1) = (2::rat) powi (int (i - 1) - int j)" using i by (simp add: of_nat_diff algebra_simps)
  also have "\<dots> = (2 ^ (i - 1) / 2 ^ j :: rat)" by (simp add: power_int_diff)
  also have "\<dots> \<le> x"
    unfolding x using ra rb a b by (intro frac_le) auto
  finally have "2 powi (?e - 1) \<le> x" .
  then show ?thesis by (auto simp: binade_def q Let_def i_def j_def)
qed

lemma round_half_even_int [simp]: "round_half_even (of_int n) = n"
  by (simp add: round_half_even_def)

lemma safe_integer_kept:
  assumes "\<bar>n\<bar> \<le> max_safe_integer"
  shows "to_double (of_int n) = of_int n"
proof (cases "n = 0")
  case False
  define x where "x = \<bar>of_int n :: rat\<bar>"
  have x: "0 < x" using False by (simp add: x_def)
  have le: "x \<le> of_int max_safe_integer" using assms unfolding x_def by (simp flip: of_int_abs)
  have "2 powi binade x \<le> x" using x by (rule binade_le)
  also have "\<dots> < 2 powi (53::int)" using le by (simp add: max_safe_integer_def)
  finally have "binade x < 53"
    by (metis linorder_not_less one_le_numeral power_int_increasing)
  then have "ulp_exponent x \<le> 0" by (simp add: ulp_exponent_def)
  then obtain k where k: "ulp_exponent x = - int k" by (metis nonpos_int_cases)
  have "x / 2 powi ulp_exponent x = x * 2 ^ k" by (simp add: k power_int_minus field_simps)
  also have "\<dots> = of_int (\<bar>n\<bar> * 2 ^ k)" by (simp add: x_def)
  finally have q: "x / 2 powi ulp_exponent x = of_int (\<bar>n\<bar> * 2 ^ k)" .
  have "to_double (of_int n) = sgn (of_int n) * of_int (\<bar>n\<bar> * 2 ^ k) * 2 powi ulp_exponent x"
    unfolding to_double_def Let_def x_def [symmetric] q round_half_even_int using False by simp
  also have "\<dots> = sgn (of_int n) * of_int \<bar>n\<bar>" by (simp add: k power_int_minus)
  also have "\<dots> = of_int n" by (cases "0 < n") (auto simp: sgn_if)
  finally show ?thesis .
qed (simp add: to_double_def)

lemma safe_integer_range: "safe_integer_of_text s = Some n \<Longrightarrow> \<bar>n\<bar> \<le> max_safe_integer"
  by (auto simp: safe_integer_of_text_def bind_eq_Some_conv as_safe_integer_def split: if_splits)

text \<open>The decimal text of a version reads back as the version.\<close>

lemma safe_integer_of_dec_nat:
  assumes "int n \<le> max_safe_integer"
  shows "safe_integer_of_text (dec_nat n) = Some (int n)"
proof -
  let ?s = "dec_nat n"
  have dig: "is_digit c" if "c \<in> set ?s" for c using dec_nat_digits that by blast
  have digit: "\<not> js_space c \<and> radix_of c = None \<and> c \<noteq> CHR ''-'' \<and> c \<noteq> CHR ''+''" if "is_digit c" for c
  proof -
    have ne: "c \<noteq> k" if "\<not> is_digit k" for k using that \<open>is_digit c\<close> by blast
    have "c \<noteq> CHR ''x''" "c \<noteq> CHR ''X''" "c \<noteq> CHR ''o''" "c \<noteq> CHR ''O''" "c \<noteq> CHR ''b''" "c \<noteq> CHR ''B''"
      "c \<noteq> CHR ''-''" "c \<noteq> CHR ''+''"
      by (rule ne, simp add: is_digit_def)+
    moreover have "\<not> js_space c" using that by (simp add: is_digit_def js_space_def)
    ultimately show ?thesis by (simp add: radix_of_def)
  qed
  obtain c r where s: "?s = c # r" by (cases ?s) auto
  obtain l t where s': "rev ?s = l # t" by (cases "rev ?s") auto
  have "is_digit c" "is_digit l" using dig [of c] dig [of l] s s' set_rev [of ?s] by auto
  then have t: "trim ?s = ?s"
    unfolding trim_def using digit s s' by (metis dropWhile.simps(2) rev_rev_ident)
  have "decimal_literal ?s = Some (of_nat n)"
    using dig by (simp add: decimal_literal_def read_exponent_def takeWhile_eq_all_conv [THEN iffD2]
        dropWhile_eq_Nil_conv [THEN iffD2])
  moreover have "numeric_literal ?s = decimal_literal ?s"
  proof (cases r)
    case (Cons d u)
    have "is_digit d" using dig [of d] s Cons by simp
    with digit [of d] digit [OF \<open>is_digit c\<close>] show ?thesis by (simp add: s Cons numeric_literal_def)
  qed (simp add: s numeric_literal_def)
  ultimately have "number_of_text ?s = Some (of_int (int n))"
    using safe_integer_kept [of "int n"] assms by (simp add: number_of_text_def t)
  then show ?thesis using assms by (simp add: safe_integer_of_text_def as_safe_integer_def)
qed

lemma number_examples:
  "safe_integer_of_text ''1'' = Some 1" "safe_integer_of_text '' 12 '' = Some 12"
  "safe_integer_of_text ''1e3'' = Some 1000" "safe_integer_of_text ''0x10'' = Some 16"
  "safe_integer_of_text [] = Some 0" "safe_integer_of_text ''1.5'' = None"
  "safe_integer_of_text ''1, 1'' = None"
  by code_simp+

end
