(* ===== verification/Api_Request.thy ===== *)
theory Api_Request
  imports Js_Number Js_Bytes Domain_Rules Access_Policy Document_Service
begin

text \<open>
  What the routes of \<open>apps/api\<close> share: a request, the problems a handler throws, their sequencing
  with the effects of the services behind the routes, the readers of headers and bodies of
  \<open>routes/vault.ts\<close>, and its error handler.  A request is taken as it reaches the handler, after
  the schema validation of the server; nothing below relies on what that validation refuses.  The
  numbers of a body are integers.
\<close>

section \<open>Handlers\<close>

text \<open>
  \<open>Problem status title detail\<close> is an \<open>ApiProblem\<close>; \<open>Raised\<close> an error of the code behind the
  route; \<open>SchemaInvalid\<close> and \<open>BadRequest status\<close> the errors of the server itself, which carry a
  \<open>validation\<close> or a \<open>statusCode\<close> member.
\<close>

datatype api_error = Problem int string string | Raised err | SchemaInvalid | BadRequest int

type_synonym ('x, 'a) api = "'x \<Rightarrow> (api_error + 'a) \<times> 'x"

definition api_return :: "'a \<Rightarrow> ('x, 'a) api" where
  "api_return a x = (Inr a, x)"

definition api_fail :: "api_error \<Rightarrow> ('x, 'a) api" where
  "api_fail e x = (Inl e, x)"

definition api_bind :: "('x, 'a) api \<Rightarrow> ('a \<Rightarrow> ('x, 'b) api) \<Rightarrow> ('x, 'b) api" where
  "api_bind m f x = (case m x of (Inl e, x') \<Rightarrow> (Inl e, x') | (Inr a, x') \<Rightarrow> f a x')"

definition api_lift :: "api_error + 'a \<Rightarrow> ('x, 'a) api" where
  "api_lift r x = (r, x)"

text \<open>A call of a service: what it throws passes through.\<close>

definition api_call :: "('x, 'a) world_op \<Rightarrow> ('x, 'a) api" where
  "api_call m x = (case m x of (Inl e, x') \<Rightarrow> (Inl (Raised e), x') | (Inr a, x') \<Rightarrow> (Inr a, x'))"

text \<open>\<open>try m catch (error) { throw h(error) }\<close>.\<close>

definition api_rethrow :: "('x, 'a) api \<Rightarrow> (api_error \<Rightarrow> api_error) \<Rightarrow> ('x, 'a) api" where
  "api_rethrow m h x = (case m x of (Inl e, x') \<Rightarrow> (Inl (h e), x') | (Inr a, x') \<Rightarrow> (Inr a, x'))"

definition api_check :: "bool \<Rightarrow> api_error \<Rightarrow> ('x, unit) api" where
  "api_check b e = (if b then api_return () else api_fail e)"

text \<open>An operation the server was configured without.\<close>

definition api_need :: "'a option \<Rightarrow> string \<Rightarrow> string \<Rightarrow> ('x, 'a) api" where
  "api_need v title detail = (case v of Some a \<Rightarrow> api_return a | None \<Rightarrow> api_fail (Problem 503 title detail))"

definition invalid :: "string \<Rightarrow> api_error" where
  "invalid m = Problem 400 ''Invalid request'' m"

section \<open>Requests and replies\<close>

record api_request =
  rq_id :: string
  rq_headers :: "string \<Rightarrow> header"
  rq_params :: "string \<Rightarrow> string option"
  rq_query :: "string \<Rightarrow> string option"
  rq_body :: json

datatype payload = Json json | Binary string string

record api_reply =
  rp_status :: int
  rp_headers :: "(string \<times> string) list"
  rp_payload :: payload

definition send :: "int \<Rightarrow> json \<Rightarrow> ('x, api_reply) api" where
  "send status v = api_return \<lparr> rp_status = status, rp_headers = [], rp_payload = Json v \<rparr>"

definition send_private :: "int \<Rightarrow> json \<Rightarrow> ('x, api_reply) api" where
  "send_private status v = api_return
     \<lparr> rp_status = status, rp_headers = [(''cache-control'', ''no-store'')], rp_payload = Json v \<rparr>"

section \<open>Reading a request\<close>

definition objectBody :: "json \<Rightarrow> api_error + json" where
  "objectBody v = (case v of JObj kvs \<Rightarrow> Inr v | _ \<Rightarrow> Inl (invalid ''request body must be an object''))"

definition requiredString :: "json \<Rightarrow> string \<Rightarrow> api_error + string" where
  "requiredString body field = (case jfield body field of
       Some (JStr s) \<Rightarrow> if s = [] then Inl (invalid (field @ '' is required'')) else Inr s
     | _ \<Rightarrow> Inl (invalid (field @ '' is required'')))"

definition key_char :: "char \<Rightarrow> bool" where
  "key_char = cor alnum (one_of ''._:-'')"

definition idempotencyKey :: "api_request \<Rightarrow> api_error + string" where
  "idempotencyKey rq = (case rq_headers rq ''idempotency-key'' of
       OneHeader v \<Rightarrow> if length v < 16 \<or> length v > 200 \<or> \<not> list_all key_char v
         then Inl (invalid ''a valid idempotency-key header is required'') else Inr v
     | _ \<Rightarrow> Inl (invalid ''a valid idempotency-key header is required''))"

definition consentPurposes :: "string list" where
  "consentPurposes = [''external-ai'', ''sensitive-data'', ''document-processing'', ''transactional-email'',
     ''terms'', ''privacy-policy'']"

definition consentPurpose :: "string option \<Rightarrow> api_error + string" where
  "consentPurpose v = (case v of
       Some s \<Rightarrow> if s \<in> set consentPurposes then Inr s else Inl (invalid ''purpose is invalid'')
     | None \<Rightarrow> Inl (invalid ''purpose is invalid''))"

definition creationVersion :: "api_request \<Rightarrow> api_error + int" where
  "creationVersion rq = (if rq_headers rq ''if-match'' \<noteq> OneHeader ''0''
     then Inl (invalid ''if-match must be 0 when creating a resource'') else Inr 0)"

text \<open>\<open>Number(request.headers[..])\<close>: an absent header is \<open>NaN\<close>, several values are joined by a comma.\<close>

definition header_integer :: "header \<Rightarrow> int option" where
  "header_integer h = (case h of NoHeader \<Rightarrow> None | OneHeader s \<Rightarrow> safe_integer_of_text s
     | ManyHeaders vs \<Rightarrow> safe_integer_of_text (join '','' vs))"

definition mutationVersion :: "api_request \<Rightarrow> api_error + int" where
  "mutationVersion rq = (case header_integer (rq_headers rq ''if-match'') of
       Some v \<Rightarrow> if v < 0 then Inl (invalid ''a valid non-negative if-match version is required'') else Inr v
     | None \<Rightarrow> Inl (invalid ''a valid non-negative if-match version is required''))"

text \<open>The test that the handlers of the existing resources make inline, with their message.\<close>

definition matchVersion :: "string \<Rightarrow> api_request \<Rightarrow> api_error + int" where
  "matchVersion message rq = (case header_integer (rq_headers rq ''if-match'') of
       Some v \<Rightarrow> if v < 1 then Inl (invalid message) else Inr v
     | None \<Rightarrow> Inl (invalid message))"

definition requiredUuid :: "json \<Rightarrow> string \<Rightarrow> api_error + string" where
  "requiredUuid body field = (case requiredString body field of
       Inl e \<Rightarrow> Inl e
     | Inr v \<Rightarrow> if re_test uuid_pattern v then Inr v else Inl (invalid (field @ '' must be a UUID'')))"

definition requiredPositiveInteger :: "json \<Rightarrow> string \<Rightarrow> api_error + int" where
  "requiredPositiveInteger body field = (case jfield body field of
       Some (JNum n) \<Rightarrow> if \<bar>n\<bar> \<le> max_safe_integer \<and> 1 \<le> n then Inr n
         else Inl (invalid (field @ '' must be a positive integer''))
     | _ \<Rightarrow> Inl (invalid (field @ '' must be a positive integer'')))"

definition factCategory :: "string \<Rightarrow> api_error + record_category" where
  "factCategory key = (case recordCategoryFromFieldKey key of
       Inr c \<Rightarrow> Inr c
     | Inl _ \<Rightarrow> Inl (invalid ''fieldKey must begin with a canonical record category''))"

text \<open>The identifier of the path.\<close>

definition path_id :: "string \<Rightarrow> string \<Rightarrow> api_request \<Rightarrow> api_error + string" where
  "path_id name message rq = (case rq_params rq name of
       Some i \<Rightarrow> if re_test uuid_pattern i then Inr i else Inl (invalid message)
     | None \<Rightarrow> Inl (invalid message))"

section \<open>The error handler\<close>

text \<open>The message of an error of the database driver is a parameter.\<close>

definition err_message :: "(string \<Rightarrow> string) \<Rightarrow> err \<Rightarrow> string" where
  "err_message pg e = (case e of Thrown n m \<Rightarrow> m | PgError c \<Rightarrow> pg c)"

definition problem_of :: "(string \<Rightarrow> string) \<Rightarrow> api_error \<Rightarrow> int \<times> string \<times> string" where
  "problem_of pg e = (case e of
       Problem status title detail \<Rightarrow> (status, title, detail)
     | SchemaInvalid \<Rightarrow> (400, ''Invalid request'', ''The request does not match the API schema.'')
     | BadRequest status \<Rightarrow> if 400 \<le> status \<and> status < 500
         then (status, ''Invalid request'', ''The request could not be parsed.'')
         else (500, ''Request failed'', ''The request could not be completed.'')
     | Raised r \<Rightarrow>
       (let m = err_message pg r in
        if err_name r = ''AuthenticationRequiredError'' then (401, ''Authentication required'', ''Authentication is required.'')
        else if err_name r = ''HouseholdSelectionRequiredError''
        then (409, ''Household selection required'', ''Select an accessible household.'')
        else if err_name r = ''AuthorizationDeniedError'' then (403, ''Access denied'', ''Access is denied.'')
        else (if includes_text ''conflict'' m \<or> includes_text ''idempotency'' m then 409 else 500,
              if includes_text ''conflict'' m then ''Version conflict'' else ''Request failed'',
              ''The request could not be completed.'')))"

definition problem_json :: "string \<Rightarrow> int \<times> string \<times> string \<Rightarrow> json" where
  "problem_json request p = (case p of (status, title, detail) \<Rightarrow>
     JObj [(''type'', JStr ''about:blank''), (''title'', JStr title), (''status'', JNum status),
       (''detail'', JStr detail), (''instance'', JStr request), (''traceId'', JStr request)])"

text \<open>What the client gets: the reply of the handler, or the problem its error stands for.\<close>

definition respond :: "(api_error \<Rightarrow> int \<times> string \<times> string) \<Rightarrow> api_request \<Rightarrow> ('x, api_reply) api \<Rightarrow> 'x \<Rightarrow> api_reply \<times> 'x" where
  "respond handler rq m x = (case m x of
       (Inr r, x') \<Rightarrow> (r, x')
     | (Inl e, x') \<Rightarrow> (\<lparr> rp_status = fst (handler e), rp_headers = [(''content-type'', ''application/problem+json'')],
           rp_payload = Json (problem_json (rq_id rq) (handler e)) \<rparr>, x'))"

section \<open>Sequencing\<close>

lemma api_bind_Inr:
  "api_bind m f x = (Inr b, x') \<longleftrightarrow> (\<exists>a x1. m x = (Inr a, x1) \<and> f a x1 = (Inr b, x'))"
  by (auto simp: api_bind_def split: prod.splits sum.splits)

lemma api_bind_step: "m x = (Inr a, x1) \<Longrightarrow> api_bind m f x = f a x1"
  by (simp add: api_bind_def)

lemma api_bind_stop: "m x = (Inl e, x1) \<Longrightarrow> api_bind m f x = (Inl e, x1)"
  by (simp add: api_bind_def)

lemma api_call_Inr: "api_call m x = (Inr a, x') \<longleftrightarrow> m x = (Inr a, x')"
  by (auto simp: api_call_def split: prod.splits sum.splits)

lemma api_check_Inr: "api_check b e x = (Inr u, x') \<longleftrightarrow> b \<and> x' = x"
  by (auto simp: api_check_def api_return_def api_fail_def)

lemma api_lift_Inr: "api_lift r x = (Inr a, x') \<longleftrightarrow> r = Inr a \<and> x' = x"
  by (auto simp: api_lift_def)

lemma api_return_Inr: "api_return a x = (Inr b, x') \<longleftrightarrow> b = a \<and> x' = x"
  by (auto simp: api_return_def)

lemma api_fail_Inr: "api_fail e x \<noteq> (Inr b, x')"
  by (simp add: api_fail_def)

lemma api_rethrow_Inr: "api_rethrow m h x = (Inr a, x') \<longleftrightarrow> m x = (Inr a, x')"
  by (auto simp: api_rethrow_def split: prod.splits sum.splits)

lemma api_need_Inr: "api_need v t d x = (Inr a, x') \<longleftrightarrow> v = Some a \<and> x' = x"
  by (auto simp: api_need_def api_return_def api_fail_def split: option.splits)

lemmas api_Inr = api_bind_Inr api_call_Inr api_check_Inr api_lift_Inr api_return_Inr api_fail_Inr
  api_rethrow_Inr api_need_Inr

end
