(* ===== verification/Vault_Api.thy ===== *)
theory Vault_Api
  imports Api_Request Ai_Gateway Fact_Store Emergency_Store
begin

text \<open>
  What \<open>registerVaultRoutes\<close> of \<open>apps/api/src/routes/vault.ts\<close> is given: the repository and the
  operations of the application behind the routes, as operations on a world \<open>'x\<close>, and the helpers
  the handlers share.  An operation the server may be configured without is an option.  Objects
  that the handlers only pass on to the client are JSON values.
\<close>

section \<open>Dependencies\<close>

type_synonym stored_reply = "(int \<times> json option) option"

record 'x vault_repository =
  vr_getActiveConsent :: "tenant_context \<Rightarrow> string \<Rightarrow> string \<Rightarrow> ('x, json) world_op"
  vr_reserveIdempotency :: "tenant_context \<Rightarrow> string \<Rightarrow> json \<Rightarrow> ('x, bool \<times> stored_reply) world_op"
  vr_completeIdempotency :: "tenant_context \<Rightarrow> string \<Rightarrow> int \<Rightarrow> json \<Rightarrow> ('x, unit) world_op"
  vr_createCandidateFact :: "tenant_context \<Rightarrow> fact_write \<Rightarrow> ('x, json) world_op"
  vr_getFactFieldKey :: "tenant_context \<Rightarrow> string \<Rightarrow> ('x, string) world_op"
  vr_confirmFact :: "tenant_context \<Rightarrow> string \<Rightarrow> int \<Rightarrow> int \<Rightarrow> ('x, json) world_op"
  vr_rejectFact :: "tenant_context \<Rightarrow> string \<Rightarrow> int \<Rightarrow> ('x, json) world_op"
  vr_disputeFact :: "tenant_context \<Rightarrow> string \<Rightarrow> int \<Rightarrow> ('x, json) world_op"
  vr_getEmergencyAccessCategories :: "tenant_context \<Rightarrow> string \<Rightarrow> ('x, string list) world_op"
  vr_createEmergencyAccessRequest :: "tenant_context \<Rightarrow> emergency_input \<Rightarrow> ('x, json) world_op"
  vr_decideEmergencyAccess :: "tenant_context \<Rightarrow> string \<Rightarrow> int \<Rightarrow> emergency_decision \<Rightarrow> int \<Rightarrow> int option
    \<Rightarrow> ('x, json) world_op"
  vr_releaseEmergencyAccess :: "tenant_context \<Rightarrow> string \<Rightarrow> int \<Rightarrow> int \<Rightarrow> ('x, json) world_op"
  vr_recordConsent :: "tenant_context \<Rightarrow> string \<Rightarrow> string \<Rightarrow> string \<Rightarrow> int \<Rightarrow> ('x, json) world_op"
  vr_withdrawConsent :: "tenant_context \<Rightarrow> string \<Rightarrow> int \<Rightarrow> int \<Rightarrow> ('x, json) world_op"
  vr_listPrivacyRequests :: "tenant_context \<Rightarrow> ('x, json) world_op"
  vr_startPrivacyRequest :: "tenant_context \<Rightarrow> string \<Rightarrow> string \<Rightarrow> string \<Rightarrow> int \<Rightarrow> ('x, json) world_op"

record encrypted_value =
  ev_id :: string
  ev_ciphertext :: string
  ev_key_version :: int

record document_upload =
  du_key :: string
  du_sha256 :: string
  du_media_type :: string
  du_maximum_bytes :: int
  du_expires :: "int option"
  du_consent_policy :: string
  du_delete_original :: bool

record extraction_candidate =
  ec_field_key :: string
  ec_value :: json
  ec_locator :: string
  ec_sensitivity :: string
  ec_confidence :: "int option"

record manual_extraction =
  me_document :: string
  me_workflow :: string
  me_version :: int
  me_key :: string
  me_candidates :: "extraction_candidate list"

record interview_input =
  iv_message :: string
  iv_categories :: "string list"
  iv_consent_version :: int
  iv_key :: string

text \<open>
  \<open>vd_now\<close> is the clock, \<open>vd_date_parse\<close> is \<open>Date.parse\<close> and \<open>vd_pg_message\<close> the message of a
  database error.
\<close>

record 'x vault_dependencies =
  vd_repository :: "'x vault_repository"
  vd_now :: "'x \<Rightarrow> int"
  vd_date_parse :: "string \<Rightarrow> int option"
  vd_pg_message :: "string \<Rightarrow> string"
  vd_resolveIdentity :: "api_request \<Rightarrow> ('x, tenant_identity) world_op"
  vd_authorizeIdentity :: "(tenant_identity \<Rightarrow> string \<Rightarrow> permission_action \<Rightarrow> string \<Rightarrow> ('x, unit) world_op) option"
  vd_startPortableExport :: "(tenant_identity \<Rightarrow> string \<Rightarrow> string \<Rightarrow> ('x, json) world_op) option"
  vd_getPortableExport :: "(tenant_identity \<Rightarrow> string \<Rightarrow> ('x, json option) world_op) option"
  vd_confirmPrivacyDeletion :: "(tenant_identity \<Rightarrow> string \<Rightarrow> int \<Rightarrow> string \<Rightarrow> ('x, json) world_op) option"
  vd_cancelPrivacyDeletion :: "(tenant_identity \<Rightarrow> string \<Rightarrow> int \<Rightarrow> string \<Rightarrow> ('x, json) world_op) option"
  vd_encryptFactValue :: "(tenant_identity \<Rightarrow> string \<Rightarrow> string \<Rightarrow> ('x, encrypted_value) world_op) option"
  vd_encryptEmergencyReason :: "(tenant_identity \<Rightarrow> string \<Rightarrow> ('x, encrypted_value) world_op) option"
  vd_listVaultFacts :: "(tenant_identity \<Rightarrow> string list \<Rightarrow> ('x, json) world_op) option"
  vd_listVaultDocuments :: "(tenant_identity \<Rightarrow> ('x, json) world_op) option"
  vd_getDocumentContent :: "(tenant_identity \<Rightarrow> string \<Rightarrow> ('x, (string \<times> string \<times> int) option) world_op) option"
  vd_listAuditEvents :: "(tenant_identity \<Rightarrow> int \<Rightarrow> int \<Rightarrow> ('x, json) world_op) option"
  vd_createReport :: "(tenant_identity \<Rightarrow> string \<Rightarrow> string \<Rightarrow> ('x, json) world_op) option"
  vd_getReport :: "(tenant_identity \<Rightarrow> string \<Rightarrow> ('x, json option) world_op) option"
  vd_createCheckout :: "(tenant_identity \<Rightarrow> string \<Rightarrow> ('x, json) world_op) option"
  vd_createBillingPortal :: "(tenant_identity \<Rightarrow> string \<Rightarrow> ('x, json) world_op) option"
  vd_getSubscription :: "(tenant_identity \<Rightarrow> ('x, json) world_op) option"
  vd_listBillingRefunds :: "(tenant_identity \<Rightarrow> ('x, json) world_op) option"
  vd_startDocumentUpload :: "(tenant_identity \<Rightarrow> document_upload \<Rightarrow> ('x, json) world_op) option"
  vd_createDocumentUploadUrl :: "(tenant_identity \<Rightarrow> string \<Rightarrow> int \<Rightarrow> string \<Rightarrow> ('x, json) world_op) option"
  vd_completeDocumentUpload :: "(tenant_identity \<Rightarrow> string \<Rightarrow> int \<Rightarrow> string \<Rightarrow> string \<Rightarrow> ('x, json) world_op) option"
  vd_completeManualExtraction :: "(tenant_identity \<Rightarrow> manual_extraction \<Rightarrow> ('x, json) world_op) option"
  vd_runAiInterview :: "(tenant_identity \<Rightarrow> interview_input \<Rightarrow> ('x, json) world_op) option"

section \<open>Shared steps of the handlers\<close>

definition identify :: "'x vault_dependencies \<Rightarrow> api_request \<Rightarrow> ('x, tenant_identity) api" where
  "identify d rq = api_call (vd_resolveIdentity d rq)"

text \<open>\<open>await dependencies.authorizeIdentity?.(identity, scope)\<close>.\<close>

definition allow ::
  "'x vault_dependencies \<Rightarrow> tenant_identity \<Rightarrow> permission_action \<Rightarrow> string \<Rightarrow> string \<Rightarrow> ('x, unit) api" where
  "allow d i action purpose category = (case vd_authorizeIdentity d of
     None \<Rightarrow> api_return () | Some a \<Rightarrow> api_call (a i category action purpose))"

fun allow_each ::
  "'x vault_dependencies \<Rightarrow> tenant_identity \<Rightarrow> permission_action \<Rightarrow> string \<Rightarrow> string list \<Rightarrow> ('x, unit) api" where
  "allow_each d i action purpose [] = api_return ()"
| "allow_each d i action purpose (c # cs) = api_bind (allow d i action purpose c) (\<lambda>_. allow_each d i action purpose cs)"

definition category_names :: "string list" where
  "category_names = map category_name allRecordCategories"

definition requireBillingEntitlement ::
  "'x vault_dependencies \<Rightarrow> tenant_identity \<Rightarrow> string \<Rightarrow> ('x, unit) api" where
  "requireBillingEntitlement d i entitlement =
     api_bind (api_need (vd_getSubscription d) ''Billing unavailable'' ''Subscription access cannot be verified.'') (\<lambda>get.
     api_bind (api_call (get i)) (\<lambda>subscription.
     api_check (Option.bind (jfield subscription ''entitlements'') (\<lambda>e. jfield e entitlement) = Some (JBool True))
       (Problem 403 ''Subscription required'' ''The current subscription does not permit this operation.'')))"

text \<open>The two ways the handlers answer a request whose key is already reserved.\<close>

definition processing :: json where
  "processing = JObj [(''status'', JStr ''processing'')]"

definition replay_or_refuse :: "stored_reply \<Rightarrow> ('x, api_reply) api" where
  "replay_or_refuse r = (case r of
       None \<Rightarrow> api_fail (Problem 409 ''Request in progress'' ''the idempotent request is still processing'')
     | Some (status, v) \<Rightarrow> send status (case v of Some j \<Rightarrow> j | None \<Rightarrow> JNull))"

definition replay_or_processing :: "stored_reply \<Rightarrow> ('x, api_reply) api" where
  "replay_or_processing r = (case r of
       None \<Rightarrow> send 409 processing
     | Some (status, v) \<Rightarrow> send status (case v of Some j \<Rightarrow> if j = JNull then processing else j | None \<Rightarrow> processing))"

text \<open>Reserve the key, then answer from the record or run the handler's work and complete the record.\<close>

definition once ::
  "'x vault_dependencies \<Rightarrow> tenant_context \<Rightarrow> string \<Rightarrow> json \<Rightarrow> (stored_reply \<Rightarrow> ('x, api_reply) api)
   \<Rightarrow> int \<Rightarrow> ('x, json) api \<Rightarrow> ((int \<Rightarrow> json \<Rightarrow> ('x, api_reply) api)) \<Rightarrow> ('x, api_reply) api" where
  "once d ctx key shape replay status body answer =
     api_bind (api_call (vr_reserveIdempotency (vd_repository d) ctx key shape)) (\<lambda>(again, stored).
     if again then replay stored
     else api_bind body (\<lambda>v.
       api_bind (api_call (vr_completeIdempotency (vd_repository d) ctx key status v)) (\<lambda>_. answer status v)))"

section \<open>Prohibited content in a value\<close>

definition prohibited_in :: "string \<Rightarrow> dlp_finding list" where
  "prohibited_in s = filter (\<lambda>f. f \<noteq> PromptInjection) (scanDlp s)"

definition finding_list :: "dlp_finding list \<Rightarrow> string" where
  "finding_list fs = join '', '' (map finding_name fs)"

definition byte_length :: "string \<Rightarrow> nat" where
  "byte_length s = length (utf8_bytes s)"

definition sensitivity_names :: "string list" where
  "sensitivity_names = [''standard'', ''sensitive'', ''highly-sensitive'']"

text \<open>A confidence, which the table keeps in units of 1/10000.\<close>

definition confidence_ok :: "json option \<Rightarrow> bool" where
  "confidence_ok v = (case v of None \<Rightarrow> True | Some (JNum n) \<Rightarrow> 0 \<le> n \<and> n \<le> 1 | _ \<Rightarrow> False)"

definition confidence_of :: "json option \<Rightarrow> int option" where
  "confidence_of v = (case v of Some (JNum n) \<Rightarrow> Some (n * 10000) | _ \<Rightarrow> None)"

end
