(* ===== verification/Fact_Routes.thy ===== *)
theory Fact_Routes
  imports Vault_Api
begin

text \<open>
  The handlers of \<open>routes/vault.ts\<close> for facts, consents and emergency access, one definition per
  route, in the order of their guards and effects.
\<close>

section \<open>Facts\<close>

definition get_facts :: "'x vault_dependencies \<Rightarrow> api_request \<Rightarrow> ('x, api_reply) api" where
  "get_facts d rq =
     api_bind (identify d rq) (\<lambda>i.
     api_bind (api_need (vd_listVaultFacts d) ''Vault unavailable'' ''Fact retrieval is not configured.'') (\<lambda>list.
     let categories = (case rq_query rq ''category'' of Some c \<Rightarrow> if c = [] then category_names else [c]
                        | None \<Rightarrow> category_names) in
     api_bind (api_check (list_all (\<lambda>c. c \<in> set category_names) categories) (invalid ''category is invalid'')) (\<lambda>_.
     api_bind (allow_each d i Read ''vault.fact.list'' categories) (\<lambda>_.
     api_bind (api_call (list i categories)) (\<lambda>found.
     send_private 200 (JObj [(''facts'', found)]))))))"

text \<open>The value to be encrypted; an error of the \<open>try\<close> block that is no problem becomes one.\<close>

definition fact_plaintext :: "json \<Rightarrow> api_error + string" where
  "fact_plaintext v = (let serialized = json_stringify v in
     if byte_length serialized > 65536 then Inl (invalid ''value is invalid'')
     else if prohibited_in serialized \<noteq> []
     then Inl (Problem 400 ''Prohibited content'' (''value contains prohibited '' @ finding_list (prohibited_in serialized)))
     else Inr (utf8_bytes serialized))"

definition evidence_ok :: "json option \<Rightarrow> bool" where
  "evidence_ok v = (case v of None \<Rightarrow> True
     | Some (JArr items) \<Rightarrow> list_all (\<lambda>j. case j of JStr s \<Rightarrow> re_test uuid_pattern s | _ \<Rightarrow> False) items
     | _ \<Rightarrow> False)"

definition evidence_list :: "json option \<Rightarrow> string list" where
  "evidence_list v = (case v of Some (JArr items) \<Rightarrow> List.map_filter (\<lambda>j. case j of JStr s \<Rightarrow> Some s | _ \<Rightarrow> None) items
     | _ \<Rightarrow> [])"

definition post_fact :: "'x vault_dependencies \<Rightarrow> api_request \<Rightarrow> ('x, api_reply) api" where
  "post_fact d rq =
     api_bind (identify d rq) (\<lambda>i.
     api_bind (api_lift (objectBody (rq_body rq))) (\<lambda>body.
     api_bind (api_lift (idempotencyKey rq)) (\<lambda>key.
     api_bind (api_lift (creationVersion rq)) (\<lambda>_.
     api_bind (api_need (vd_encryptFactValue d) ''Fact encryption unavailable'' ''Fact encryption is not configured.'') (\<lambda>encrypt.
     api_bind (api_lift (case jfield body ''value'' of None \<Rightarrow> Inl (invalid ''value is required'') | Some v \<Rightarrow> Inr v)) (\<lambda>v.
     api_bind (api_lift (fact_plaintext v)) (\<lambda>plaintext.
     api_bind (api_lift (requiredString body ''sourceType'')) (\<lambda>sourceType.
     api_bind (api_check (sourceType \<in> {''manual'', ''document'', ''interview'', ''professional''})
       (invalid ''sourceType is invalid'')) (\<lambda>_.
     api_bind (api_lift (requiredString body ''sensitivity'')) (\<lambda>sensitivity.
     api_bind (api_check (sensitivity \<in> set sensitivity_names) (invalid ''sensitivity is invalid'')) (\<lambda>_.
     api_bind (api_check (evidence_ok (jfield body ''evidenceIds'')) (invalid ''evidenceIds are invalid'')) (\<lambda>_.
     api_bind (api_check (confidence_ok (jfield body ''confidence'')) (invalid ''confidence is invalid'')) (\<lambda>_.
     api_bind (api_lift (requiredString body ''fieldKey'')) (\<lambda>fieldKey.
     api_bind (api_lift (factCategory fieldKey)) (\<lambda>category.
     api_bind (allow d i Create ''vault.fact.create'' (category_name category)) (\<lambda>_.
     api_bind (api_call (encrypt i fieldKey plaintext)) (\<lambda>encrypted.
     api_bind (api_lift (requiredUuid body ''sourceId'')) (\<lambda>sourceId.
     let candidate = \<lparr> fw_id = ev_id encrypted, fw_field_key = fieldKey, fw_ciphertext = ev_ciphertext encrypted,
           fw_key_version = ev_key_version encrypted, fw_source_type = sourceType, fw_source_id = sourceId,
           fw_evidence = evidence_list (jfield body ''evidenceIds''),
           fw_confidence = confidence_of (jfield body ''confidence''), fw_sensitivity = sensitivity \<rparr> in
     once d (identity_context i) key body replay_or_refuse 201
       (api_call (vr_createCandidateFact (vd_repository d) (identity_context i) candidate)) send))))))))))))))))))"

text \<open>The three decisions on a fact.\<close>

definition decide_fact ::
  "'x vault_dependencies \<Rightarrow> api_request \<Rightarrow> string \<Rightarrow> (tenant_context \<Rightarrow> string \<Rightarrow> int \<Rightarrow> ('x, json) world_op)
   \<Rightarrow> ('x, api_reply) api" where
  "decide_fact d rq purpose decide =
     api_bind (identify d rq) (\<lambda>i.
     api_bind (api_lift (path_id ''id'' ''fact id is invalid'' rq)) (\<lambda>fact_id.
     api_bind (api_call (vr_getFactFieldKey (vd_repository d) (identity_context i) fact_id)) (\<lambda>fieldKey.
     api_bind (api_lift (factCategory fieldKey)) (\<lambda>category.
     api_bind (allow d i Approve purpose (category_name category)) (\<lambda>_.
     api_bind (api_lift (idempotencyKey rq)) (\<lambda>key.
     api_bind (api_lift (matchVersion ''a valid if-match version is required'' rq)) (\<lambda>expectedVersion.
     once d (identity_context i) key
       (JObj [(''factId'', JStr fact_id), (''expectedVersion'', JNum expectedVersion)]) replay_or_refuse 200
       (api_call (decide (identity_context i) fact_id expectedVersion)) send)))))))"

definition confirm_fact :: "'x vault_dependencies \<Rightarrow> api_request \<Rightarrow> ('x, api_reply) api" where
  "confirm_fact d rq = decide_fact d rq ''vault.fact.confirm''
     (\<lambda>ctx fact_id version x. vr_confirmFact (vd_repository d) ctx fact_id version (vd_now d x) x)"

definition reject_fact :: "'x vault_dependencies \<Rightarrow> api_request \<Rightarrow> ('x, api_reply) api" where
  "reject_fact d rq = decide_fact d rq ''vault.fact.reject'' (vr_rejectFact (vd_repository d))"

definition dispute_fact :: "'x vault_dependencies \<Rightarrow> api_request \<Rightarrow> ('x, api_reply) api" where
  "dispute_fact d rq = decide_fact d rq ''vault.fact.dispute'' (vr_disputeFact (vd_repository d))"

section \<open>Emergency access\<close>

definition valid_categories :: "json option \<Rightarrow> string list option" where
  "valid_categories v = (case v of
       Some (JArr items) \<Rightarrow> if items \<noteq> [] \<and> list_all (\<lambda>j. case j of JStr s \<Rightarrow> s \<in> set category_names | _ \<Rightarrow> False) items
         then Some (map (\<lambda>j. case j of JStr s \<Rightarrow> s | _ \<Rightarrow> []) items) else None
     | _ \<Rightarrow> None)"

definition request_emergency_access :: "'x vault_dependencies \<Rightarrow> api_request \<Rightarrow> ('x, api_reply) api" where
  "request_emergency_access d rq =
     api_bind (identify d rq) (\<lambda>i.
     api_bind (api_lift (objectBody (rq_body rq))) (\<lambda>body.
     api_bind (api_lift (creationVersion rq)) (\<lambda>_.
     api_bind (api_lift (requiredUuid body ''recipientMembershipId'')) (\<lambda>recipient.
     api_bind (api_check (recipient = ti_membership i)
       (Problem 403 ''Access denied'' ''Emergency access may be requested only for the active membership.'')) (\<lambda>_.
     api_bind (api_lift (case valid_categories (jfield body ''categories'') of
         None \<Rightarrow> Inl (invalid ''categories are invalid'') | Some cs \<Rightarrow> Inr (sort (remdups cs)))) (\<lambda>categories.
     api_bind (api_lift (requiredString body ''reason'')) (\<lambda>reason.
     api_bind (api_check (byte_length reason \<le> 2000) (invalid ''reason is too large'')) (\<lambda>_.
     api_bind (api_check (scanDlp reason = [])
       (Problem 400 ''Prohibited content'' (''reason contains prohibited '' @ finding_list (scanDlp reason)))) (\<lambda>_.
     api_bind (allow_each d i Create ''vault.emergency-access.request'' categories) (\<lambda>_.
     api_bind (api_need (vd_encryptEmergencyReason d) ''Emergency access unavailable''
       ''Emergency access encryption is not configured.'') (\<lambda>encrypt.
     api_bind (api_lift (idempotencyKey rq)) (\<lambda>key.
     once d (identity_context i) key
       (JObj [(''recipientMembershipId'', JStr recipient), (''categories'', JArr (map JStr categories)),
         (''reason'', JStr reason)]) replay_or_processing 201
       (api_bind (api_call (encrypt i (utf8_bytes reason))) (\<lambda>encrypted.
        api_call (\<lambda>x. vr_createEmergencyAccessRequest (vd_repository d) (identity_context i)
          \<lparr> ei_id = ev_id encrypted, ei_recipient = recipient, ei_categories = categories,
            ei_reason = ev_ciphertext encrypted, ei_key_version = ev_key_version encrypted,
            ei_requested = vd_now d x \<rparr> x)))
       send_private))))))))))))"

definition conflict_as :: "'x vault_dependencies \<Rightarrow> string \<Rightarrow> api_error \<Rightarrow> api_error" where
  "conflict_as d detail e = (case e of
       Raised r \<Rightarrow> if includes_text ''conflict'' (err_message (vd_pg_message d) r)
         then Problem 409 ''Emergency access conflict'' detail else e
     | _ \<Rightarrow> e)"

text \<open>
  \<open>once\<close> with the repository call and the completion inside the \<open>try\<close>; the reservation is outside.
\<close>

definition once_catching ::
  "'x vault_dependencies \<Rightarrow> tenant_context \<Rightarrow> string \<Rightarrow> json \<Rightarrow> (api_error \<Rightarrow> api_error) \<Rightarrow> ('x, json) api
   \<Rightarrow> ('x, api_reply) api" where
  "once_catching d ctx key shape handler body =
     api_bind (api_call (vr_reserveIdempotency (vd_repository d) ctx key shape)) (\<lambda>(again, stored).
     if again then replay_or_processing stored
     else api_rethrow (api_bind body (\<lambda>v.
       api_bind (api_call (vr_completeIdempotency (vd_repository d) ctx key 200 v)) (\<lambda>_. send_private 200 v))) handler)"

definition decision_of :: "string \<Rightarrow> api_error + emergency_decision" where
  "decision_of s = (if s = ''deny'' then Inr Deny else if s = ''delay'' then Inr Delay
     else Inl (invalid ''decision must be deny or delay''))"

definition decide_emergency_access :: "'x vault_dependencies \<Rightarrow> api_request \<Rightarrow> ('x, api_reply) api" where
  "decide_emergency_access d rq =
     api_bind (identify d rq) (\<lambda>i.
     api_bind (api_lift (path_id ''id'' ''emergency request id is invalid'' rq)) (\<lambda>request_id.
     api_bind (api_lift (objectBody (rq_body rq))) (\<lambda>body.
     api_bind (api_lift (requiredString body ''decision'')) (\<lambda>decision_text.
     api_bind (api_lift (decision_of decision_text)) (\<lambda>decision.
     api_bind (api_lift (case decision of Delay \<Rightarrow> requiredPositiveInteger body ''delayHours'' | Deny \<Rightarrow> Inr 0)) (\<lambda>delayHours.
     api_bind (api_check (delayHours \<le> 168) (invalid ''delayHours exceeds seven days'')) (\<lambda>_.
     api_bind (api_lift (matchVersion ''a valid if-match version is required'' rq)) (\<lambda>expectedVersion.
     api_bind (api_call (vr_getEmergencyAccessCategories (vd_repository d) (identity_context i) request_id)) (\<lambda>categories.
     api_bind (allow_each d i Approve ''vault.emergency-access.decide'' categories) (\<lambda>_.
     api_bind (api_lift (idempotencyKey rq)) (\<lambda>key.
     once_catching d (identity_context i) key
       (JObj [(''requestId'', JStr request_id), (''expectedVersion'', JNum expectedVersion),
         (''decision'', JStr decision_text), (''delayHours'', JNum delayHours)])
       (conflict_as d ''The emergency request changed or cannot be decided.'')
       (api_call (\<lambda>x. let decided = vd_now d x in
          vr_decideEmergencyAccess (vd_repository d) (identity_context i) request_id expectedVersion decision decided
            (case decision of Delay \<Rightarrow> Some (decided + delayHours * 60 * 60 * 1000) | Deny \<Rightarrow> None) x)))))))))))))"

definition release_emergency_access :: "'x vault_dependencies \<Rightarrow> api_request \<Rightarrow> ('x, api_reply) api" where
  "release_emergency_access d rq =
     api_bind (identify d rq) (\<lambda>i.
     api_bind (api_lift (path_id ''id'' ''emergency request id is invalid'' rq)) (\<lambda>request_id.
     api_bind (api_lift (matchVersion ''a valid if-match version is required'' rq)) (\<lambda>expectedVersion.
     api_bind (api_call (vr_getEmergencyAccessCategories (vd_repository d) (identity_context i) request_id)) (\<lambda>categories.
     api_bind (allow_each d i Approve ''vault.emergency-access.release'' categories) (\<lambda>_.
     api_bind (api_lift (idempotencyKey rq)) (\<lambda>key.
     once_catching d (identity_context i) key
       (JObj [(''requestId'', JStr request_id), (''expectedVersion'', JNum expectedVersion)])
       (conflict_as d ''The release delay remains active or the request changed.'')
       (api_call (\<lambda>x. vr_releaseEmergencyAccess (vd_repository d) (identity_context i) request_id expectedVersion
          (vd_now d x) x))))))))"

section \<open>Consents\<close>

definition household_scope :: string where
  "household_scope = ''household-instructions''"

definition get_consent :: "'x vault_dependencies \<Rightarrow> api_request \<Rightarrow> ('x, api_reply) api" where
  "get_consent d rq =
     api_bind (identify d rq) (\<lambda>i.
     api_bind (allow d i Read ''vault.consent.read'' household_scope) (\<lambda>_.
     api_bind (api_lift (consentPurpose (rq_query rq ''purpose''))) (\<lambda>purpose.
     api_bind (api_call (vr_getActiveConsent (vd_repository d) (identity_context i) (ti_actor i) purpose)) (\<lambda>found.
     send_private 200 (JObj [(''consent'', found)])))))"

definition post_consent :: "'x vault_dependencies \<Rightarrow> api_request \<Rightarrow> ('x, api_reply) api" where
  "post_consent d rq =
     api_bind (identify d rq) (\<lambda>i.
     api_bind (api_lift (objectBody (rq_body rq))) (\<lambda>body.
     api_bind (api_lift (creationVersion rq)) (\<lambda>_.
     api_bind (api_lift (requiredUuid body ''personId'')) (\<lambda>person.
     api_bind (api_check (person = ti_actor i)
       (Problem 403 ''Access denied'' ''Consent can be recorded only for the authenticated person.'')) (\<lambda>_.
     api_bind (allow d i Approve ''vault.consent.record'' household_scope) (\<lambda>_.
     api_bind (api_lift (requiredString body ''purpose'')) (\<lambda>purpose_text.
     api_bind (api_lift (consentPurpose (Some purpose_text))) (\<lambda>purpose.
     api_bind (api_lift (idempotencyKey rq)) (\<lambda>key.
     once d (identity_context i) key body replay_or_processing 201
       (api_bind (api_lift (requiredString body ''policyVersion'')) (\<lambda>policy.
        api_call (\<lambda>x. vr_recordConsent (vd_repository d) (identity_context i) person purpose policy (vd_now d x) x)))
       send)))))))))"

definition withdraw_consent :: "'x vault_dependencies \<Rightarrow> api_request \<Rightarrow> ('x, api_reply) api" where
  "withdraw_consent d rq =
     api_bind (identify d rq) (\<lambda>i.
     api_bind (allow d i Approve ''vault.consent.withdraw'' household_scope) (\<lambda>_.
     api_bind (api_lift (path_id ''id'' ''consent id is invalid'' rq)) (\<lambda>consent_id.
     api_bind (api_lift (matchVersion ''a valid if-match version is required'' rq)) (\<lambda>expectedVersion.
     api_bind (api_lift (idempotencyKey rq)) (\<lambda>key.
     once d (identity_context i) key
       (JObj [(''consentId'', JStr consent_id), (''expectedVersion'', JNum expectedVersion)]) replay_or_processing 200
       (api_call (\<lambda>x. vr_withdrawConsent (vd_repository d) (identity_context i) consent_id expectedVersion (vd_now d x) x))
       send)))))"

end
