(* ===== verification/Document_Routes.thy ===== *)
theory Document_Routes
  imports Fact_Routes
begin

text \<open>
  The handlers of \<open>routes/vault.ts\<close> for documents, the audit log, manual extraction and the AI
  interview.
\<close>

section \<open>Documents\<close>

definition get_documents :: "'x vault_dependencies \<Rightarrow> api_request \<Rightarrow> ('x, api_reply) api" where
  "get_documents d rq =
     api_bind (identify d rq) (\<lambda>i.
     api_bind (api_need (vd_listVaultDocuments d) ''Vault unavailable'' ''Document retrieval is not configured.'') (\<lambda>list.
     api_bind (allow_each d i Read ''vault.document.list'' category_names) (\<lambda>_.
     api_bind (api_call (list i)) (\<lambda>found.
     send_private 200 (JObj [(''documents'', found)])))))"

definition path_text :: "api_request \<Rightarrow> string \<Rightarrow> string" where
  "path_text rq name = (case rq_params rq name of Some s \<Rightarrow> s | None \<Rightarrow> [])"

definition file_extension :: "string \<Rightarrow> string" where
  "file_extension media = (if media = ''application/pdf'' then ''pdf'' else if media = ''image/jpeg'' then ''jpg''
     else if media = ''image/png'' then ''png'' else ''tiff'')"

definition get_document_content :: "'x vault_dependencies \<Rightarrow> api_request \<Rightarrow> ('x, api_reply) api" where
  "get_document_content d rq =
     api_bind (identify d rq) (\<lambda>i.
     api_bind (api_need (vd_getDocumentContent d) ''Document unavailable''
       ''Document content retrieval is not configured.'') (\<lambda>get.
     api_bind (allow_each d i Read ''vault.document.content.read'' category_names) (\<lambda>_.
     api_bind (api_call (get i (path_text rq ''id''))) (\<lambda>found.
     case found of
       None \<Rightarrow> api_fail (Problem 404 ''Document not found'' ''A clean retained document was not found.'')
     | Some (bytes, media, version) \<Rightarrow> api_return \<lparr> rp_status = 200,
         rp_headers = [(''cache-control'', ''no-store''), (''x-content-type-options'', ''nosniff''),
           (''content-disposition'', ''attachment; filename=\"'' @ path_text rq ''id'' @ ''.'' @ file_extension media @ ''\"'')],
         rp_payload = Binary media bytes \<rparr>))))"

definition sha256_text :: "string \<Rightarrow> bool" where
  "sha256_text s \<longleftrightarrow> length s = 64 \<and> list_all hex_digit s"

definition read_digest :: "json \<Rightarrow> string \<Rightarrow> api_error + string" where
  "read_digest body field = (case requiredString body field of
       Inl e \<Rightarrow> Inl e
     | Inr s \<Rightarrow> if sha256_text s then Inr s else Inl (invalid (field @ '' must be a lowercase SHA-256 digest'')))"

definition media_types :: "string list" where
  "media_types = [''application/pdf'', ''image/jpeg'', ''image/png'', ''image/tiff'']"

text \<open>\<open>/[zZ]|[+-]\d{2}:\d{2}$/\<close>: the anchor binds to the second alternative only.\<close>

definition has_timezone :: "string \<Rightarrow> bool" where
  "has_timezone s \<longleftrightarrow> list_ex (\<lambda>c. c = CHR ''z'' \<or> c = CHR ''Z'') s
     \<or> (case rev s of
          m2 # m1 # colon # h2 # h1 # sign # _ \<Rightarrow> is_digit m2 \<and> is_digit m1 \<and> colon = CHR '':'' \<and> is_digit h2 \<and> is_digit h1
            \<and> (sign = CHR ''+'' \<or> sign = CHR ''-'')
        | _ \<Rightarrow> False)"

definition read_expiry :: "(string \<Rightarrow> int option) \<Rightarrow> json option \<Rightarrow> api_error + int option" where
  "read_expiry date v = (case v of
       None \<Rightarrow> Inr None
     | Some (JStr s) \<Rightarrow> (case date s of
           Some t \<Rightarrow> if has_timezone s then Inr (Some t)
             else Inl (invalid ''expiresAt must be an ISO 8601 timestamp with a timezone'')
         | None \<Rightarrow> Inl (invalid ''expiresAt must be an ISO 8601 timestamp with a timezone''))
     | Some _ \<Rightarrow> Inl (invalid ''expiresAt must be an ISO 8601 timestamp''))"

definition post_document :: "'x vault_dependencies \<Rightarrow> api_request \<Rightarrow> ('x, api_reply) api" where
  "post_document d rq =
     api_bind (identify d rq) (\<lambda>i.
     api_bind (api_lift (objectBody (rq_body rq))) (\<lambda>body.
     api_bind (api_lift (idempotencyKey rq)) (\<lambda>key.
     api_bind (api_lift (creationVersion rq)) (\<lambda>_.
     api_bind (api_lift (read_digest body ''originalSha256'')) (\<lambda>sha.
     api_bind (api_lift (requiredString body ''mediaType'')) (\<lambda>media.
     api_bind (api_check (media \<in> set media_types) (invalid ''mediaType is invalid'')) (\<lambda>_.
     api_bind (api_lift (requiredPositiveInteger body ''maximumBytes'')) (\<lambda>maximum.
     api_bind (api_lift (requiredString body ''documentConsentPolicyVersion'')) (\<lambda>policy.
     api_bind (api_check (length policy \<le> 120) (invalid ''documentConsentPolicyVersion is too large'')) (\<lambda>_.
     api_bind (api_lift (case jfield body ''deleteOriginalAfterProcessing'' of Some (JBool b) \<Rightarrow> Inr b
         | _ \<Rightarrow> Inl (invalid ''deleteOriginalAfterProcessing must be boolean''))) (\<lambda>delete.
     api_bind (api_check (maximum \<le> 100 * 1024 * 1024) (invalid ''maximumBytes exceeds the service limit'')) (\<lambda>_.
     api_bind (api_lift (read_expiry (vd_date_parse d) (jfield body ''expiresAt''))) (\<lambda>expires.
     api_bind (allow_each d i Create ''vault.document.create'' category_names) (\<lambda>_.
     api_bind (requireBillingEntitlement d i ''documentUpload'') (\<lambda>_.
     api_bind (api_need (vd_startDocumentUpload d) ''Document upload unavailable'' ''Document uploads are not configured.'') (\<lambda>start.
     api_bind (api_call (start i \<lparr> du_key = key, du_sha256 = sha, du_media_type = media, du_maximum_bytes = maximum,
         du_expires = expires, du_consent_policy = policy, du_delete_original = delete \<rparr>)) (\<lambda>started.
     send_private 201 started)))))))))))))))))"

definition post_upload_url :: "'x vault_dependencies \<Rightarrow> api_request \<Rightarrow> ('x, api_reply) api" where
  "post_upload_url d rq =
     api_bind (identify d rq) (\<lambda>i.
     api_bind (api_lift (idempotencyKey rq)) (\<lambda>_.
     api_bind (api_lift (path_id ''id'' ''document id is invalid'' rq)) (\<lambda>document_id.
     api_bind (api_lift (objectBody (rq_body rq))) (\<lambda>body.
     api_bind (api_lift (read_digest body ''ciphertextSha256'')) (\<lambda>sha.
     api_bind (api_lift (matchVersion ''a valid if-match version is required'' rq)) (\<lambda>expectedVersion.
     api_bind (allow_each d i Create ''vault.document.upload-url'' category_names) (\<lambda>_.
     api_bind (api_need (vd_createDocumentUploadUrl d) ''Document upload unavailable'' ''Document uploads are not configured.'') (\<lambda>sign.
     api_bind (api_call (sign i document_id expectedVersion sha)) (\<lambda>signed.
     send_private 200 signed)))))))))"

definition complete_document :: "'x vault_dependencies \<Rightarrow> api_request \<Rightarrow> ('x, api_reply) api" where
  "complete_document d rq =
     api_bind (identify d rq) (\<lambda>i.
     api_bind (api_lift (idempotencyKey rq)) (\<lambda>key.
     api_bind (api_lift (path_id ''id'' ''document id is invalid'' rq)) (\<lambda>document_id.
     api_bind (api_lift (objectBody (rq_body rq))) (\<lambda>body.
     api_bind (api_lift (read_digest body ''ciphertextSha256'')) (\<lambda>sha.
     api_bind (api_lift (matchVersion ''a valid if-match version is required'' rq)) (\<lambda>expectedVersion.
     api_bind (allow_each d i Create ''vault.document.complete'' category_names) (\<lambda>_.
     api_bind (api_need (vd_completeDocumentUpload d) ''Document upload unavailable'' ''Document uploads are not configured.'') (\<lambda>complete.
     api_bind (api_call (complete i document_id expectedVersion sha key)) (\<lambda>completed.
     send 202 completed)))))))))"

section \<open>The audit log\<close>

text \<open>A number of the query string, with the default of an absent parameter.\<close>

definition query_integer :: "api_request \<Rightarrow> string \<Rightarrow> int \<Rightarrow> int option" where
  "query_integer rq name fallback = (case rq_query rq name of None \<Rightarrow> Some fallback | Some s \<Rightarrow> safe_integer_of_text s)"

definition read_query :: "api_request \<Rightarrow> string \<Rightarrow> int \<Rightarrow> (int \<Rightarrow> bool) \<Rightarrow> string \<Rightarrow> api_error + int" where
  "read_query rq name fallback ok message = (case query_integer rq name fallback of
       Some n \<Rightarrow> if ok n then Inr n else Inl (invalid message)
     | None \<Rightarrow> Inl (invalid message))"

definition get_audit_events :: "'x vault_dependencies \<Rightarrow> api_request \<Rightarrow> ('x, api_reply) api" where
  "get_audit_events d rq =
     api_bind (identify d rq) (\<lambda>i.
     api_bind (api_need (vd_listAuditEvents d) ''Audit unavailable'' ''Audit retrieval is not configured.'') (\<lambda>read.
     api_bind (api_lift (read_query rq ''afterSequence'' 0 (\<lambda>n. 0 \<le> n)
       ''afterSequence must be a non-negative integer'')) (\<lambda>after.
     api_bind (api_lift (read_query rq ''limit'' 50 (\<lambda>n. 1 \<le> n \<and> n \<le> 100) ''limit must be between 1 and 100'')) (\<lambda>limit.
     api_bind (allow d i Approve ''vault.audit.read'' household_scope) (\<lambda>_.
     api_bind (api_call (read i after limit)) (\<lambda>page.
     send_private 200 page))))))"

section \<open>Manual extraction\<close>

definition read_candidate :: "nat \<Rightarrow> json \<Rightarrow> api_error + record_category \<times> extraction_candidate" where
  "read_candidate k v =
     (let place = (\<lambda>m. ''candidates['' @ dec_nat k @ '']'' @ m) in
      case objectBody v of Inl e \<Rightarrow> Inl e | Inr item \<Rightarrow>
     (case requiredString item ''fieldKey'' of Inl e \<Rightarrow> Inl e | Inr fieldKey \<Rightarrow>
     (case factCategory fieldKey of Inl e \<Rightarrow> Inl e | Inr category \<Rightarrow>
     (case requiredString item ''locator'' of Inl e \<Rightarrow> Inl e | Inr locator \<Rightarrow>
      if length locator > 256 then Inl (invalid (place ''.locator is too long'')) else
     (case requiredString item ''sensitivity'' of Inl e \<Rightarrow> Inl e | Inr sensitivity \<Rightarrow>
      if sensitivity \<notin> set sensitivity_names then Inl (invalid (place ''.sensitivity is invalid'')) else
     (case jfield item ''value'' of None \<Rightarrow> Inl (invalid (place ''.value is required'')) | Some x \<Rightarrow>
     (let serialized = json_stringify x in
      if byte_length serialized > 65536 then Inl (invalid (place ''.value is invalid''))
      else if prohibited_in serialized \<noteq> []
      then Inl (Problem 400 ''Prohibited content''
         (place ''.value contains prohibited '' @ finding_list (prohibited_in serialized)))
      else if \<not> confidence_ok (jfield item ''confidence'') then Inl (invalid (place ''.confidence is invalid''))
      else Inr (category, \<lparr> ec_field_key = fieldKey, ec_value = x, ec_locator = locator, ec_sensitivity = sensitivity,
             ec_confidence = confidence_of (jfield item ''confidence'') \<rparr>))))))))"

fun read_candidates :: "nat \<Rightarrow> json list \<Rightarrow> api_error + (record_category \<times> extraction_candidate) list" where
  "read_candidates k [] = Inr []"
| "read_candidates k (v # vs) = (case read_candidate k v of Inl e \<Rightarrow> Inl e
     | Inr c \<Rightarrow> (case read_candidates (Suc k) vs of Inl e \<Rightarrow> Inl e | Inr cs \<Rightarrow> Inr (c # cs)))"

definition post_manual_extraction :: "'x vault_dependencies \<Rightarrow> api_request \<Rightarrow> ('x, api_reply) api" where
  "post_manual_extraction d rq =
     api_bind (identify d rq) (\<lambda>i.
     api_bind (api_lift (objectBody (rq_body rq))) (\<lambda>body.
     api_bind (api_lift (idempotencyKey rq)) (\<lambda>key.
     api_bind (api_lift (requiredUuid body ''documentId'')) (\<lambda>document_id.
     api_bind (api_lift (requiredUuid body ''workflowId'')) (\<lambda>workflow_id.
     api_bind (api_lift (matchVersion ''a valid if-match workflow version is required'' rq)) (\<lambda>version.
     api_bind (api_lift (case jfield body ''candidates'' of
         Some (JArr vs) \<Rightarrow> if length vs < 1 \<or> length vs > 50
           then Inl (invalid ''candidates must contain between 1 and 50 items'') else read_candidates 0 vs
       | _ \<Rightarrow> Inl (invalid ''candidates must contain between 1 and 50 items''))) (\<lambda>candidates.
     api_bind (allow_each d i Create ''vault.extraction.manual'' (map (\<lambda>c. category_name (fst c)) candidates)) (\<lambda>_.
     api_bind (api_need (vd_completeManualExtraction d) ''Manual extraction unavailable''
       ''Manual extraction is not configured.'') (\<lambda>complete.
     api_bind (api_call (complete i \<lparr> me_document = document_id, me_workflow = workflow_id, me_version = version,
         me_key = key, me_candidates = map snd candidates \<rparr>)) (\<lambda>completed.
     send 201 completed))))))))))"

section \<open>The AI interview\<close>

definition interview_problem :: "(string \<Rightarrow> string) \<Rightarrow> api_error \<Rightarrow> api_error" where
  "interview_problem pg e =
     (let m = (case e of Raised r \<Rightarrow> err_message pg r | Problem s t detail \<Rightarrow> detail | _ \<Rightarrow> []) in
      if includes_text ''consent'' m then Problem 403 ''AI consent required'' ''Affirmative external AI consent is required.''
      else if includes_text ''idempotency'' m
      then Problem 409 ''Idempotency conflict'' ''The idempotency key was reused with different input.''
      else if includes_text ''unavailable'' m then Problem 503 ''AI unavailable'' ''External AI is temporarily unavailable.''
      else Problem 502 ''AI response rejected'' ''The external AI response did not pass policy validation.'')"

definition post_interview :: "'x vault_dependencies \<Rightarrow> api_request \<Rightarrow> ('x, api_reply) api" where
  "post_interview d rq =
     api_bind (identify d rq) (\<lambda>i.
     api_bind (api_lift (objectBody (rq_body rq))) (\<lambda>body.
     api_bind (api_lift (idempotencyKey rq)) (\<lambda>key.
     api_bind (api_lift (requiredString body ''message'')) (\<lambda>message.
     api_bind (api_check (byte_length message \<le> 20000) (invalid ''message is too large'')) (\<lambda>_.
     api_bind (api_check (scanDlp message = [])
       (Problem 400 ''Prohibited content'' (''message contains prohibited '' @ finding_list (scanDlp message)))) (\<lambda>_.
     api_bind (api_lift (case valid_categories (jfield body ''categories'') of
         None \<Rightarrow> Inl (invalid ''categories are invalid'') | Some cs \<Rightarrow> Inr (rev (remdups (rev cs))))) (\<lambda>categories.
     api_bind (api_lift (matchVersion ''a valid if-match consent version is required'' rq)) (\<lambda>version.
     api_bind (allow_each d i Read ''vault.ai.interview'' categories) (\<lambda>_.
     api_bind (requireBillingEntitlement d i ''aiInterview'') (\<lambda>_.
     api_bind (api_need (vd_runAiInterview d) ''AI unavailable'' ''External AI is not configured.'') (\<lambda>run.
     api_rethrow (api_bind (api_call (run i \<lparr> iv_message = message, iv_categories = categories,
         iv_consent_version = version, iv_key = key \<rparr>)) (\<lambda>response. send_private 200 response))
       (interview_problem (vd_pg_message d)))))))))))))"

end
