(* ===== verification/Account_Routes.thy ===== *)
theory Account_Routes
  imports Document_Routes
begin

text \<open>
  The handlers of \<open>routes/vault.ts\<close> for privacy requests, exports, reports and billing, and the
  dispatch over all its routes.
\<close>

section \<open>Privacy requests\<close>

definition get_privacy_requests :: "'x vault_dependencies \<Rightarrow> api_request \<Rightarrow> ('x, api_reply) api" where
  "get_privacy_requests d rq =
     api_bind (identify d rq) (\<lambda>i.
     api_bind (allow d i Read ''vault.privacy-request.read'' household_scope) (\<lambda>_.
     api_bind (api_call (vr_listPrivacyRequests (vd_repository d) (identity_context i))) (\<lambda>found.
     send_private 200 (JObj [(''requests'', found)]))))"

definition privacy_kinds :: "string list" where
  "privacy_kinds = [''access'', ''correction'', ''export'', ''deletion'', ''appeal'']"

definition post_privacy_request :: "'x vault_dependencies \<Rightarrow> api_request \<Rightarrow> ('x, api_reply) api" where
  "post_privacy_request d rq =
     api_bind (identify d rq) (\<lambda>i.
     api_bind (api_lift (objectBody (rq_body rq))) (\<lambda>body.
     api_bind (api_lift (creationVersion rq)) (\<lambda>_.
     api_bind (allow d i Create ''vault.privacy-request.create'' household_scope) (\<lambda>_.
     api_bind (api_lift (requiredString body ''kind'')) (\<lambda>kind.
     api_bind (api_check (kind \<in> set privacy_kinds) (invalid ''privacy request kind is invalid'')) (\<lambda>_.
     api_bind (api_lift (requiredUuid body ''personId'')) (\<lambda>person.
     api_bind (api_check (person = ti_actor i)
       (Problem 403 ''Forbidden'' ''privacy requests must be submitted by the data subject'')) (\<lambda>_.
     api_bind (api_lift (idempotencyKey rq)) (\<lambda>key.
     api_bind (api_call (\<lambda>x. vr_startPrivacyRequest (vd_repository d) (identity_context i) person kind key (vd_now d x) x))
       (\<lambda>started. send 202 started))))))))))"

definition confirm_deletion :: "'x vault_dependencies \<Rightarrow> api_request \<Rightarrow> ('x, api_reply) api" where
  "confirm_deletion d rq =
     api_bind (identify d rq) (\<lambda>i.
     api_bind (api_need (vd_confirmPrivacyDeletion d) ''Deletion unavailable'' ''The deletion workflow is not configured.'') (\<lambda>confirm.
     api_bind (allow d i Delete ''vault.privacy-request.confirm-deletion'' household_scope) (\<lambda>_.
     api_bind (api_lift (path_id ''requestId'' ''requestId must be a UUID'' rq)) (\<lambda>request_id.
     api_bind (api_lift (matchVersion ''a valid if-match version is required'' rq)) (\<lambda>expectedVersion.
     api_bind (api_lift (idempotencyKey rq)) (\<lambda>key.
     api_bind (api_call (confirm i request_id expectedVersion key)) (\<lambda>v. send 202 v)))))))"

definition cancel_deletion :: "'x vault_dependencies \<Rightarrow> api_request \<Rightarrow> ('x, api_reply) api" where
  "cancel_deletion d rq =
     api_bind (identify d rq) (\<lambda>i.
     api_bind (api_need (vd_cancelPrivacyDeletion d) ''Deletion cancellation unavailable''
       ''The deletion workflow is not configured.'') (\<lambda>cancel.
     api_bind (allow d i Delete ''vault.privacy-request.cancel-deletion'' household_scope) (\<lambda>_.
     api_bind (api_lift (path_id ''requestId'' ''requestId must be a UUID'' rq)) (\<lambda>request_id.
     api_bind (api_lift (matchVersion ''a valid if-match version is required'' rq)) (\<lambda>expectedVersion.
     api_bind (api_lift (idempotencyKey rq)) (\<lambda>key.
     api_bind (api_call (cancel i request_id expectedVersion key)) (\<lambda>v. send 200 v)))))))"

section \<open>Exports and reports\<close>

definition export_key_text :: "string \<Rightarrow> bool" where
  "export_key_text s \<longleftrightarrow> length s = 44 \<and> last s = CHR ''=''
     \<and> list_all (cor alnum (one_of ''+/'')) (butlast s)"

definition read_export_key :: "json \<Rightarrow> api_error + string" where
  "read_export_key body = (case requiredString body ''exportKeyBase64'' of
       Inl e \<Rightarrow> Inl e
     | Inr s \<Rightarrow> if \<not> export_key_text s then Inl (invalid ''exportKeyBase64 must encode exactly 32 bytes'')
         else if length (base64_bytes s) \<noteq> 32 then Inl (invalid ''exportKeyBase64 must encode exactly 32 bytes'')
         else Inr (base64_bytes s))"

definition post_export :: "'x vault_dependencies \<Rightarrow> api_request \<Rightarrow> ('x, api_reply) api" where
  "post_export d rq =
     api_bind (identify d rq) (\<lambda>i.
     api_bind (api_lift (creationVersion rq)) (\<lambda>_.
     api_bind (api_need (vd_startPortableExport d) ''Export unavailable'' ''The export workflow is not configured.'') (\<lambda>start.
     api_bind (allow_each d i Export ''vault.export.create'' category_names) (\<lambda>_.
     api_bind (requireBillingEntitlement d i ''exportGeneration'') (\<lambda>_.
     api_bind (api_lift (objectBody (rq_body rq))) (\<lambda>body.
     api_bind (api_lift (read_export_key body)) (\<lambda>exportKey.
     api_bind (api_lift (idempotencyKey rq)) (\<lambda>key.
     api_bind (api_call (start i key exportKey)) (\<lambda>started. send 202 started)))))))))"

definition get_export :: "'x vault_dependencies \<Rightarrow> api_request \<Rightarrow> ('x, api_reply) api" where
  "get_export d rq =
     api_bind (identify d rq) (\<lambda>i.
     api_bind (api_lift (path_id ''id'' ''export id is invalid'' rq)) (\<lambda>export_id.
     api_bind (api_need (vd_getPortableExport d) ''Export unavailable'' ''Export retrieval is not configured.'') (\<lambda>get.
     api_bind (allow_each d i Export ''vault.export.read'' category_names) (\<lambda>_.
     api_bind (api_call (get i export_id)) (\<lambda>found.
     case found of None \<Rightarrow> api_fail (Problem 404 ''Export not found'' ''Export not found.'')
     | Some v \<Rightarrow> send_private 200 v)))))"

definition get_report :: "'x vault_dependencies \<Rightarrow> api_request \<Rightarrow> ('x, api_reply) api" where
  "get_report d rq =
     api_bind (identify d rq) (\<lambda>i.
     api_bind (api_lift (path_id ''id'' ''report id is invalid'' rq)) (\<lambda>report_id.
     api_bind (api_need (vd_getReport d) ''Report unavailable'' ''Report retrieval is not configured.'') (\<lambda>get.
     api_bind (allow_each d i Read ''vault.report.read'' category_names) (\<lambda>_.
     api_bind (api_call (get i report_id)) (\<lambda>found.
     case found of None \<Rightarrow> api_fail (Problem 404 ''Report not found'' ''Report not found.'')
     | Some v \<Rightarrow> send_private 200 v)))))"

definition report_kinds :: "string list" where
  "report_kinds = [''life-inventory'', ''family-emergency-guide'', ''executor-preparation-packet'',
     ''beneficiary-review-checklist'', ''document-gap-report'', ''household-continuity-guide'', ''annual-review'']"

definition post_report :: "'x vault_dependencies \<Rightarrow> api_request \<Rightarrow> ('x, api_reply) api" where
  "post_report d rq =
     api_bind (identify d rq) (\<lambda>i.
     api_bind (api_lift (creationVersion rq)) (\<lambda>_.
     api_bind (api_need (vd_createReport d) ''Report unavailable'' ''Report generation is not configured.'') (\<lambda>create.
     api_bind (allow_each d i Read ''vault.report.create'' category_names) (\<lambda>_.
     api_bind (requireBillingEntitlement d i ''reportGeneration'') (\<lambda>_.
     api_bind (api_lift (objectBody (rq_body rq))) (\<lambda>body.
     api_bind (api_lift (requiredString body ''kind'')) (\<lambda>kind.
     api_bind (api_check (kind \<in> set report_kinds) (invalid ''report kind is invalid'')) (\<lambda>_.
     api_bind (api_lift (idempotencyKey rq)) (\<lambda>key.
     once d (identity_context i) key (JObj [(''kind'', JStr kind)]) replay_or_processing 202
       (api_call (create i kind key)) send)))))))))"

section \<open>Billing\<close>

definition subscription_version_is :: "json \<Rightarrow> int \<Rightarrow> bool" where
  "subscription_version_is subscription v \<longleftrightarrow> jfield subscription ''version'' = Some (JNum v)"

definition post_checkout :: "'x vault_dependencies \<Rightarrow> api_request \<Rightarrow> ('x, api_reply) api" where
  "post_checkout d rq =
     api_bind (identify d rq) (\<lambda>i.
     api_bind (api_need (vd_createCheckout d) ''Billing unavailable'' ''Billing checkout is not configured.'') (\<lambda>create.
     api_bind (allow d i Approve ''vault.billing.checkout'' household_scope) (\<lambda>_.
     api_bind (api_lift (mutationVersion rq)) (\<lambda>expectedVersion.
     api_bind (api_need (vd_getSubscription d) ''Billing unavailable'' ''Subscription retrieval is not configured.'') (\<lambda>get.
     api_bind (api_call (get i)) (\<lambda>subscription.
     api_bind (api_check (subscription_version_is subscription expectedVersion)
       (Problem 409 ''Version conflict'' ''The subscription changed before checkout was created.'')) (\<lambda>_.
     api_rethrow (api_bind (api_lift (idempotencyKey rq)) (\<lambda>key.
         api_bind (api_call (create i key)) (\<lambda>v. send 201 v)))
       (\<lambda>_. Problem 503 ''Billing unavailable'' ''Billing checkout could not be created.''))))))))"

definition post_portal :: "'x vault_dependencies \<Rightarrow> api_request \<Rightarrow> ('x, api_reply) api" where
  "post_portal d rq =
     api_bind (identify d rq) (\<lambda>i.
     api_bind (api_need (vd_createBillingPortal d) ''Billing unavailable'' ''Billing management is not configured.'') (\<lambda>create.
     api_bind (api_need (vd_getSubscription d) ''Billing unavailable'' ''Billing management is not configured.'') (\<lambda>get.
     api_bind (allow d i Approve ''vault.billing.portal'' household_scope) (\<lambda>_.
     api_bind (api_lift (mutationVersion rq)) (\<lambda>expectedVersion.
     api_bind (api_call (get i)) (\<lambda>subscription.
     api_bind (api_check (subscription_version_is subscription expectedVersion)
       (Problem 409 ''Version conflict'' ''The subscription changed before billing management was opened.'')) (\<lambda>_.
     api_rethrow (api_bind (api_lift (idempotencyKey rq)) (\<lambda>key.
         api_bind (api_call (create i key)) (\<lambda>v. send 201 v)))
       (\<lambda>_. Problem 503 ''Billing unavailable'' ''Billing management could not be opened.''))))))))"

definition get_subscription :: "'x vault_dependencies \<Rightarrow> api_request \<Rightarrow> ('x, api_reply) api" where
  "get_subscription d rq =
     api_bind (identify d rq) (\<lambda>i.
     api_bind (api_need (vd_getSubscription d) ''Billing unavailable'' ''Subscription retrieval is not configured.'') (\<lambda>get.
     api_bind (allow d i Approve ''vault.billing.read'' household_scope) (\<lambda>_.
     api_bind (api_call (get i)) (\<lambda>v. send_private 200 v))))"

definition get_refunds :: "'x vault_dependencies \<Rightarrow> api_request \<Rightarrow> ('x, api_reply) api" where
  "get_refunds d rq =
     api_bind (identify d rq) (\<lambda>i.
     api_bind (api_need (vd_listBillingRefunds d) ''Billing unavailable'' ''Refund retrieval is not configured.'') (\<lambda>list.
     api_bind (allow d i Approve ''vault.billing.refunds.read'' household_scope) (\<lambda>_.
     api_bind (api_call (list i)) (\<lambda>v. send_private 200 (JObj [(''refunds'', v)])))))"

section \<open>The routes\<close>

datatype vault_route = GetFacts | GetConsent | PostFact | GetDocuments | GetDocumentContent | GetAuditEvents
  | PostDocument | PostUploadUrl | PostManualExtraction | PostInterview | CompleteDocument
  | ConfirmFact | RejectFact | DisputeFact | RequestEmergencyAccess | DecideEmergencyAccess | ReleaseEmergencyAccess
  | PostConsent | WithdrawConsent | GetPrivacyRequests | PostPrivacyRequest | ConfirmDeletion | CancelDeletion
  | PostExport | GetExport | GetReport | PostReport | PostCheckout | PostPortal | GetSubscription | GetRefunds

fun vault_handler :: "vault_route \<Rightarrow> 'x vault_dependencies \<Rightarrow> api_request \<Rightarrow> ('x, api_reply) api" where
  "vault_handler GetFacts = get_facts"
| "vault_handler GetConsent = get_consent"
| "vault_handler PostFact = post_fact"
| "vault_handler GetDocuments = get_documents"
| "vault_handler GetDocumentContent = get_document_content"
| "vault_handler GetAuditEvents = get_audit_events"
| "vault_handler PostDocument = post_document"
| "vault_handler PostUploadUrl = post_upload_url"
| "vault_handler PostManualExtraction = post_manual_extraction"
| "vault_handler PostInterview = post_interview"
| "vault_handler CompleteDocument = complete_document"
| "vault_handler ConfirmFact = confirm_fact"
| "vault_handler RejectFact = reject_fact"
| "vault_handler DisputeFact = dispute_fact"
| "vault_handler RequestEmergencyAccess = request_emergency_access"
| "vault_handler DecideEmergencyAccess = decide_emergency_access"
| "vault_handler ReleaseEmergencyAccess = release_emergency_access"
| "vault_handler PostConsent = post_consent"
| "vault_handler WithdrawConsent = withdraw_consent"
| "vault_handler GetPrivacyRequests = get_privacy_requests"
| "vault_handler PostPrivacyRequest = post_privacy_request"
| "vault_handler ConfirmDeletion = confirm_deletion"
| "vault_handler CancelDeletion = cancel_deletion"
| "vault_handler PostExport = post_export"
| "vault_handler GetExport = get_export"
| "vault_handler GetReport = get_report"
| "vault_handler PostReport = post_report"
| "vault_handler PostCheckout = post_checkout"
| "vault_handler PostPortal = post_portal"
| "vault_handler GetSubscription = get_subscription"
| "vault_handler GetRefunds = get_refunds"

definition serve_vault :: "'x vault_dependencies \<Rightarrow> vault_route \<Rightarrow> api_request \<Rightarrow> 'x \<Rightarrow> api_reply \<times> 'x" where
  "serve_vault d r rq = respond (problem_of (vd_pg_message d)) rq (vault_handler r d rq)"

end
