(* ===== verification/Route_Safety.thy ===== *)
theory Route_Safety
  imports Account_Routes
begin

text \<open>
  What the routes of \<open>vault.ts\<close> guarantee whatever the operations behind them are: a request whose
  scope is refused stops before any effect, and the errors of the code behind a route tell the
  client nothing but their kind.
\<close>

section \<open>Scopes\<close>

fun route_action :: "vault_route \<Rightarrow> permission_action" where
  "route_action GetFacts = Read"
| "route_action GetConsent = Read"
| "route_action PostFact = Create"
| "route_action GetDocuments = Read"
| "route_action GetDocumentContent = Read"
| "route_action GetAuditEvents = Approve"
| "route_action PostDocument = Create"
| "route_action PostUploadUrl = Create"
| "route_action PostManualExtraction = Create"
| "route_action PostInterview = Read"
| "route_action CompleteDocument = Create"
| "route_action ConfirmFact = Approve"
| "route_action RejectFact = Approve"
| "route_action DisputeFact = Approve"
| "route_action RequestEmergencyAccess = Create"
| "route_action DecideEmergencyAccess = Approve"
| "route_action ReleaseEmergencyAccess = Approve"
| "route_action PostConsent = Approve"
| "route_action WithdrawConsent = Approve"
| "route_action GetPrivacyRequests = Read"
| "route_action PostPrivacyRequest = Create"
| "route_action ConfirmDeletion = Delete"
| "route_action CancelDeletion = Delete"
| "route_action PostExport = Export"
| "route_action GetExport = Export"
| "route_action GetReport = Read"
| "route_action PostReport = Read"
| "route_action PostCheckout = Approve"
| "route_action PostPortal = Approve"
| "route_action GetSubscription = Approve"
| "route_action GetRefunds = Approve"

fun route_purpose :: "vault_route \<Rightarrow> string" where
  "route_purpose GetFacts = ''vault.fact.list''"
| "route_purpose GetConsent = ''vault.consent.read''"
| "route_purpose PostFact = ''vault.fact.create''"
| "route_purpose GetDocuments = ''vault.document.list''"
| "route_purpose GetDocumentContent = ''vault.document.content.read''"
| "route_purpose GetAuditEvents = ''vault.audit.read''"
| "route_purpose PostDocument = ''vault.document.create''"
| "route_purpose PostUploadUrl = ''vault.document.upload-url''"
| "route_purpose PostManualExtraction = ''vault.extraction.manual''"
| "route_purpose PostInterview = ''vault.ai.interview''"
| "route_purpose CompleteDocument = ''vault.document.complete''"
| "route_purpose ConfirmFact = ''vault.fact.confirm''"
| "route_purpose RejectFact = ''vault.fact.reject''"
| "route_purpose DisputeFact = ''vault.fact.dispute''"
| "route_purpose RequestEmergencyAccess = ''vault.emergency-access.request''"
| "route_purpose DecideEmergencyAccess = ''vault.emergency-access.decide''"
| "route_purpose ReleaseEmergencyAccess = ''vault.emergency-access.release''"
| "route_purpose PostConsent = ''vault.consent.record''"
| "route_purpose WithdrawConsent = ''vault.consent.withdraw''"
| "route_purpose GetPrivacyRequests = ''vault.privacy-request.read''"
| "route_purpose PostPrivacyRequest = ''vault.privacy-request.create''"
| "route_purpose ConfirmDeletion = ''vault.privacy-request.confirm-deletion''"
| "route_purpose CancelDeletion = ''vault.privacy-request.cancel-deletion''"
| "route_purpose PostExport = ''vault.export.create''"
| "route_purpose GetExport = ''vault.export.read''"
| "route_purpose GetReport = ''vault.report.read''"
| "route_purpose PostReport = ''vault.report.create''"
| "route_purpose PostCheckout = ''vault.billing.checkout''"
| "route_purpose PostPortal = ''vault.billing.portal''"
| "route_purpose GetSubscription = ''vault.billing.read''"
| "route_purpose GetRefunds = ''vault.billing.refunds.read''"

text \<open>
  The categories of a request: all of them, the household's instructions, those the request names,
  or (\<open>Stored\<close>) those of the record it is about.
\<close>

datatype scope_categories = Named "string list" | Stored

definition all_category_routes :: "vault_route set" where
  "all_category_routes = {GetDocuments, GetDocumentContent, PostDocument, PostUploadUrl, CompleteDocument,
     PostExport, GetExport, GetReport, PostReport}"

definition requested_categories :: "json \<Rightarrow> string list" where
  "requested_categories body = (case valid_categories (jfield body ''categories'') of Some cs \<Rightarrow> cs | None \<Rightarrow> [])"

definition route_categories :: "vault_route \<Rightarrow> api_request \<Rightarrow> scope_categories" where
  "route_categories r rq =
     (if r \<in> all_category_routes then Named category_names
      else case r of
        GetFacts \<Rightarrow> Named (case rq_query rq ''category'' of Some c \<Rightarrow> if c = [] then category_names else [c]
                             | None \<Rightarrow> category_names)
      | PostFact \<Rightarrow> Named (case jfield (rq_body rq) ''fieldKey'' of
            Some (JStr k) \<Rightarrow> (case factCategory k of Inr c \<Rightarrow> [category_name c] | Inl _ \<Rightarrow> [])
          | _ \<Rightarrow> [])
      | PostManualExtraction \<Rightarrow> Named (case jfield (rq_body rq) ''candidates'' of
            Some (JArr vs) \<Rightarrow> (case read_candidates 0 vs of Inr cs \<Rightarrow> map (\<lambda>c. category_name (fst c)) cs | Inl _ \<Rightarrow> [])
          | _ \<Rightarrow> [])
      | PostInterview \<Rightarrow> Named (requested_categories (rq_body rq))
      | RequestEmergencyAccess \<Rightarrow> Named (requested_categories (rq_body rq))
      | ConfirmFact \<Rightarrow> Stored | RejectFact \<Rightarrow> Stored | DisputeFact \<Rightarrow> Stored
      | DecideEmergencyAccess \<Rightarrow> Stored | ReleaseEmergencyAccess \<Rightarrow> Stored
      | _ \<Rightarrow> Named [household_scope])"

text \<open>
  The authorizer refuses the request: one of the categories it names, or every category when the
  record decides (and the repository gives an emergency request at least one).
\<close>

definition refuses ::
  "'x vault_dependencies \<Rightarrow> tenant_identity \<Rightarrow> permission_action \<Rightarrow> string \<Rightarrow> string \<Rightarrow> bool" where
  "refuses d i action purpose c \<longleftrightarrow> (\<exists>a. vd_authorizeIdentity d = Some a
     \<and> (\<forall>x. \<exists>e. fst (a i c action purpose x) = Inl e))"

definition resolves :: "'x vault_dependencies \<Rightarrow> api_request \<Rightarrow> 'x \<Rightarrow> tenant_identity \<Rightarrow> bool" where
  "resolves d rq x i \<longleftrightarrow> (\<exists>x'. vd_resolveIdentity d rq x = (Inr i, x'))"

definition scope_refused :: "'x vault_dependencies \<Rightarrow> vault_route \<Rightarrow> api_request \<Rightarrow> tenant_identity \<Rightarrow> bool" where
  "scope_refused d r rq i \<longleftrightarrow> (case route_categories r rq of
       Named cs \<Rightarrow> \<exists>c \<in> set cs. refuses d i (route_action r) (route_purpose r) c
     | Stored \<Rightarrow> (\<forall>c. refuses d i (route_action r) (route_purpose r) c)
         \<and> (\<forall>ctx k x x'. vr_getEmergencyAccessCategories (vd_repository d) ctx k x \<noteq> (Inr [], x')))"

definition route_refused :: "'x vault_dependencies \<Rightarrow> vault_route \<Rightarrow> api_request \<Rightarrow> 'x \<Rightarrow> bool" where
  "route_refused d r rq x \<longleftrightarrow> (\<forall>i. resolves d rq x i \<longrightarrow> scope_refused d r rq i)"

section \<open>Stopping before any effect\<close>

text \<open>
  \<open>keeps f m\<close>: the operation leaves \<open>f\<close> of the world alone; \<open>stops f m\<close>: the handler fails and does so.
\<close>

definition keeps :: "('x \<Rightarrow> 'v) \<Rightarrow> ('x \<Rightarrow> 'r \<times> 'x) \<Rightarrow> bool" where
  "keeps f m \<longleftrightarrow> (\<forall>x. f (snd (m x)) = f x)"

definition stops_at :: "('x \<Rightarrow> 'v) \<Rightarrow> ('x, 'a) api \<Rightarrow> 'x \<Rightarrow> bool" where
  "stops_at f m x \<longleftrightarrow> (\<exists>e. fst (m x) = Inl e) \<and> f (snd (m x)) = f x"

definition stops :: "('x \<Rightarrow> 'v) \<Rightarrow> ('x, 'a) api \<Rightarrow> bool" where
  "stops f m \<longleftrightarrow> (\<forall>x. (\<exists>e. fst (m x) = Inl e) \<and> f (snd (m x)) = f x)"

text \<open>Finding out who asks, what the request is about and whether it is allowed leaves \<open>f\<close> alone.\<close>

definition quiet :: "('x \<Rightarrow> 'v) \<Rightarrow> 'x vault_dependencies \<Rightarrow> bool" where
  "quiet f d \<longleftrightarrow> (\<forall>rq. keeps f (vd_resolveIdentity d rq))
     \<and> (\<forall>a i c act p. vd_authorizeIdentity d = Some a \<longrightarrow> keeps f (a i c act p))
     \<and> (\<forall>ctx k. keeps f (vr_getFactFieldKey (vd_repository d) ctx k))
     \<and> (\<forall>ctx k. keeps f (vr_getEmergencyAccessCategories (vd_repository d) ctx k))"

named_theorems keeps "operations that keep a projection of the world"

lemma keeps_lift [keeps]: "keeps f (api_lift r)"
  by (simp add: keeps_def api_lift_def)

lemma keeps_check [keeps]: "keeps f (api_check b e)"
  by (simp add: keeps_def api_check_def api_return_def api_fail_def)

lemma keeps_need [keeps]: "keeps f (api_need v t m)"
  by (simp add: keeps_def api_need_def api_return_def api_fail_def split: option.splits)

lemma keeps_call [keeps]: "keeps f m \<Longrightarrow> keeps f (api_call m)"
  by (auto simp: keeps_def api_call_def split: prod.splits sum.splits) (metis snd_conv)+

lemma keeps_return [keeps]: "keeps f (api_return a)"
  by (simp add: keeps_def api_return_def)

lemma keeps_bind [keeps]:
  assumes "keeps f m" and "\<And>a. keeps f (g a)" shows "keeps f (api_bind m g)"
  unfolding keeps_def
proof
  fix x
  show "f (snd (api_bind m g x)) = f x"
  proof (cases "m x")
    case (Pair r x1)
    then have "f x1 = f x" using assms(1) unfolding keeps_def by (metis snd_conv)
    then show ?thesis using assms(2) Pair by (cases r) (simp_all add: api_bind_def keeps_def)
  qed
qed

lemma stops_later:
  assumes "keeps f m" and "\<And>a x x1. m x = (Inr a, x1) \<Longrightarrow> stops f (g a)"
  shows "stops f (api_bind m g)"
  unfolding stops_def
proof
  fix x
  show "(\<exists>e. fst (api_bind m g x) = Inl e) \<and> f (snd (api_bind m g x)) = f x"
  proof (cases "m x")
    case (Pair r x1)
    then have *: "f x1 = f x" using assms(1) unfolding keeps_def by (metis snd_conv)
    show ?thesis
    proof (cases r)
      case (Inr a)
      with Pair assms(2) have "stops f (g a)" by blast
      with * show ?thesis by (simp add: api_bind_def Pair Inr stops_def)
    qed (simp add: api_bind_def Pair *)
  qed
qed

lemma stops_now:
  assumes "stops f m" shows "stops f (api_bind m g)"
  unfolding stops_def
proof
  fix x
  show "(\<exists>e. fst (api_bind m g x) = Inl e) \<and> f (snd (api_bind m g x)) = f x"
    using assms by (cases "m x"; cases "fst (m x)") (auto simp: stops_def api_bind_def, (metis Inl_Inr_False fst_conv snd_conv)+)
qed

lemma stops_fail: "stops f (api_fail e)"
  by (simp add: stops_def api_fail_def)

lemma keeps_allow [keeps]:
  assumes "quiet f d"
  shows "keeps f (allow d i action purpose c)"
  using assms by (auto simp: allow_def quiet_def intro: keeps split: option.splits)

lemma stops_allow:
  assumes "quiet f d"
    and "refuses d i action purpose c"
  shows "stops f (allow d i action purpose c)"
proof -
  from assms(2) obtain a where a: "vd_authorizeIdentity d = Some a"
    "\<And>x. \<exists>e. fst (a i c action purpose x) = Inl e" by (auto simp: refuses_def)
  show ?thesis unfolding stops_def
  proof
    fix x
    obtain e x1 where r: "a i c action purpose x = (Inl e, x1)" using a(2) [of x] by (metis prod.collapse)
    have "f x1 = f x" using assms(1) a(1) r unfolding quiet_def keeps_def by (metis snd_conv)
    then show "(\<exists>e. fst (allow d i action purpose c x) = Inl e) \<and> f (snd (allow d i action purpose c x)) = f x"
      by (simp add: allow_def a(1) api_call_def r)
  qed
qed

lemma stops_allow_each:
  assumes "quiet f d"
    and "c \<in> set cs" and "refuses d i action purpose c"
  shows "stops f (allow_each d i action purpose cs)"
  using assms(2)
proof (induction cs)
  case (Cons k cs)
  show ?case
  proof (cases "k = c")
    case True
    then show ?thesis using stops_now [OF stops_allow [OF assms(1,3)]] by simp
  next
    case False
    then show ?thesis using Cons by (simp add: stops_later [OF keeps_allow [OF assms(1)]])
  qed
qed simp


lemma keeps_identify [keeps]: "quiet f d \<Longrightarrow> keeps f (identify d rq)"
  by (simp add: quiet_def identify_def keeps_call)

lemma keeps_field_key [keeps]: "quiet f d \<Longrightarrow> keeps f (vr_getFactFieldKey (vd_repository d) ctx k)"
  by (simp add: quiet_def)

lemma keeps_emergency_categories [keeps]:
  "quiet f d \<Longrightarrow> keeps f (vr_getEmergencyAccessCategories (vd_repository d) ctx k)"
  by (simp add: quiet_def)

lemma stops_scope: "quiet f d \<Longrightarrow> refuses d i action purpose c \<Longrightarrow> stops f (api_bind (allow d i action purpose c) g)"
  by (rule stops_now [OF stops_allow])

lemma stops_scopes:
  "quiet f d \<Longrightarrow> \<exists>c \<in> set cs. refuses d i action purpose c \<Longrightarrow> stops f (api_bind (allow_each d i action purpose cs) g)"
  by (auto intro: stops_now [OF stops_allow_each])

lemma stops_identify:
  assumes "quiet f d" and "\<And>i. resolves d rq x i \<Longrightarrow> stops f (g i)"
  shows "stops_at f (api_bind (identify d rq) g) x"
proof (cases "vd_resolveIdentity d rq x")
  case (Pair r x1)
  then have "f x1 = f x" using assms(1) unfolding quiet_def keeps_def by (metis snd_conv)
  then show ?thesis
    using assms(2) Pair by (cases r) (simp_all add: stops_at_def api_bind_def identify_def api_call_def stops_def resolves_def)
qed

lemmas route_defs = get_facts_def get_consent_def post_fact_def get_documents_def get_document_content_def
  get_audit_events_def post_document_def post_upload_url_def post_manual_extraction_def post_interview_def
  complete_document_def confirm_fact_def reject_fact_def dispute_fact_def decide_fact_def
  request_emergency_access_def decide_emergency_access_def release_emergency_access_def
  post_consent_def withdraw_consent_def get_privacy_requests_def post_privacy_request_def
  confirm_deletion_def cancel_deletion_def post_export_def get_export_def get_report_def post_report_def
  post_checkout_def post_portal_def get_subscription_def get_refunds_def

lemmas refused_defs = route_refused_def scope_refused_def route_categories_def all_category_routes_def

lemma refused_all_categories:
  assumes "quiet f d" and "r \<in> all_category_routes" and "route_refused d r rq x"
  shows "stops_at f (vault_handler r d rq) x"
  by (insert assms(2)[unfolded all_category_routes_def], elim insertE emptyE; use assms(1,3) in \<open>simp add: route_defs refused_defs\<close>;
      intro stops_scopes stops_identify stops_later keeps; blast)

lemma refused_household:
  assumes "quiet f d" and "r \<in> {GetConsent, GetAuditEvents, PostConsent, WithdrawConsent, GetPrivacyRequests,
      PostPrivacyRequest, ConfirmDeletion, CancelDeletion, PostCheckout, PostPortal, GetSubscription, GetRefunds}"
    and "route_refused d r rq x"
  shows "stops_at f (vault_handler r d rq) x"
  by (insert assms(2), elim insertE emptyE; use assms(1,3) in \<open>simp add: route_defs refused_defs\<close>;
      intro stops_scope stops_identify stops_later keeps; blast)

lemma refused_get_facts:
  assumes "quiet f d" and "route_refused d GetFacts rq x"
  shows "stops_at f (get_facts d rq) x"
  using assms unfolding get_facts_def
  by (simp add: refused_defs Let_def) (intro stops_scopes stops_identify stops_later keeps; blast)

lemma requiredString_Inr: "requiredString body k = Inr s \<Longrightarrow> jfield body k = Some (JStr s)"
  by (auto simp: requiredString_def split: option.splits json.splits if_splits)

lemma objectBody_Inr: "objectBody v = Inr body \<Longrightarrow> body = v"
  by (auto simp: objectBody_def split: json.splits)

lemma refused_post_fact:
  assumes "quiet f d" and "route_refused d PostFact rq x"
  shows "stops_at f (post_fact d rq) x"
  using assms unfolding post_fact_def
  by (intro stops_scope stops_identify stops_later keeps; (assumption | auto simp: refused_defs api_lift_Inr
      dest!: requiredString_Inr objectBody_Inr split: option.splits json.splits sum.splits))


lemma refused_manual_extraction:
  assumes "quiet f d" and "route_refused d PostManualExtraction rq x"
  shows "stops_at f (post_manual_extraction d rq) x"
  using assms unfolding post_manual_extraction_def
  by (intro stops_scopes stops_identify stops_later keeps; (assumption | auto simp: refused_defs api_lift_Inr
      dest!: objectBody_Inr split: option.splits json.splits if_splits))

lemma refused_interview:
  assumes "quiet f d" and "route_refused d PostInterview rq x"
  shows "stops_at f (post_interview d rq) x"
  using assms unfolding post_interview_def
  by (intro stops_scopes stops_identify stops_later keeps; (assumption | auto simp: Bex_def refused_defs api_lift_Inr requested_categories_def
      dest!: objectBody_Inr split: option.splits))

lemma refused_emergency_request:
  assumes "quiet f d" and "route_refused d RequestEmergencyAccess rq x"
  shows "stops_at f (request_emergency_access d rq) x"
  using assms unfolding request_emergency_access_def
  by (intro stops_scopes stops_identify stops_later keeps; (assumption | auto simp: Bex_def refused_defs api_lift_Inr requested_categories_def
      dest!: objectBody_Inr split: option.splits))

lemma refused_decision:
  assumes "quiet f d" and "\<And>i c. resolves d rq x i \<Longrightarrow> refuses d i Approve purpose c"
  shows "stops_at f (decide_fact d rq purpose m) x"
  using assms(1) unfolding decide_fact_def
  by (intro stops_scope stops_identify stops_later keeps; (assumption | simp add: assms))

lemma refused_emergency_decision:
  assumes "quiet f d" and "route_refused d DecideEmergencyAccess rq x"
  shows "stops_at f (decide_emergency_access d rq) x"
  using assms unfolding decide_emergency_access_def
  by (intro stops_scopes stops_identify stops_later keeps; (assumption | auto simp: refused_defs api_call_Inr ex_in_conv))

lemma refused_emergency_release:
  assumes "quiet f d" and "route_refused d ReleaseEmergencyAccess rq x"
  shows "stops_at f (release_emergency_access d rq) x"
  using assms unfolding release_emergency_access_def
  by (intro stops_scopes stops_identify stops_later keeps; (assumption | auto simp: refused_defs api_call_Inr ex_in_conv))

lemma refused_route_stops:
  assumes "quiet f d" and "route_refused d r rq x"
  shows "stops_at f (vault_handler r d rq) x"
proof (cases r)
  case GetFacts then show ?thesis using assms by (simp add: refused_get_facts)
next case PostFact then show ?thesis using assms by (simp add: refused_post_fact)
next case PostManualExtraction then show ?thesis using assms by (simp add: refused_manual_extraction)
next case PostInterview then show ?thesis using assms by (simp add: refused_interview)
next case RequestEmergencyAccess then show ?thesis using assms by (simp add: refused_emergency_request)
next case DecideEmergencyAccess then show ?thesis using assms by (simp add: refused_emergency_decision)
next case ReleaseEmergencyAccess then show ?thesis using assms by (simp add: refused_emergency_release)
next case ConfirmFact then show ?thesis
    using assms by (simp add: confirm_fact_def refused_defs refused_decision)
next case RejectFact then show ?thesis
    using assms by (simp add: reject_fact_def refused_defs refused_decision)
next case DisputeFact then show ?thesis
    using assms by (simp add: dispute_fact_def refused_defs refused_decision)
qed (use assms refused_all_categories [OF assms(1) _ assms(2)] refused_household [OF assms(1) _ assms(2)]
      in \<open>simp_all add: all_category_routes_def\<close>)


text \<open>C13: A request to the vault API for which the authorizer refuses the scope (one of the categories that
  the route asks for, with its action and purpose; every category when the record decides) is answered by
  an error, on each of the thirty-one routes, and whatever of the world finding out who asks, what the
  request is about and whether it is allowed leaves alone is unchanged: no key is reserved, no value is
  encrypted and no repository or service operation of the route runs.\<close>

theorem refused_request_changes_nothing:
  assumes "quiet f d" and "route_refused d r rq x"
  shows "\<exists>e x'. vault_handler r d rq x = (Inl e, x') \<and> f x' = f x"
  using refused_route_stops [OF assms] unfolding stops_at_def by (metis prod.collapse)

text \<open>A server whose every effect counts, and whose authorizer refuses.\<close>

definition counting_repository :: "nat vault_repository" where
  "counting_repository = \<lparr>
     vr_getActiveConsent = (\<lambda>_ _ _ x. (Inr JNull, x + 1)), vr_reserveIdempotency = (\<lambda>_ _ _ x. (Inr (False, None), x + 1)),
     vr_completeIdempotency = (\<lambda>_ _ _ _ x. (Inr (), x + 1)), vr_createCandidateFact = (\<lambda>_ _ x. (Inr JNull, x + 1)),
     vr_getFactFieldKey = (\<lambda>_ _ x. (Inr ''assets.home'', x)), vr_confirmFact = (\<lambda>_ _ _ _ x. (Inr JNull, x + 1)),
     vr_rejectFact = (\<lambda>_ _ _ x. (Inr JNull, x + 1)), vr_disputeFact = (\<lambda>_ _ _ x. (Inr JNull, x + 1)),
     vr_getEmergencyAccessCategories = (\<lambda>_ _ x. (Inr [''assets''], x)),
     vr_createEmergencyAccessRequest = (\<lambda>_ _ x. (Inr JNull, x + 1)),
     vr_decideEmergencyAccess = (\<lambda>_ _ _ _ _ _ x. (Inr JNull, x + 1)),
     vr_releaseEmergencyAccess = (\<lambda>_ _ _ _ x. (Inr JNull, x + 1)),
     vr_recordConsent = (\<lambda>_ _ _ _ _ x. (Inr JNull, x + 1)), vr_withdrawConsent = (\<lambda>_ _ _ _ x. (Inr JNull, x + 1)),
     vr_listPrivacyRequests = (\<lambda>_ x. (Inr JNull, x + 1)), vr_startPrivacyRequest = (\<lambda>_ _ _ _ _ x. (Inr JNull, x + 1)) \<rparr>"

definition sample_member :: tenant_identity where
  "sample_member = \<lparr> ti_org = ''o'', ti_hh = ''h'', ti_actor = ''p'', ti_membership = ''m'', ti_role = Editor,
     ti_grants = [], ti_support = [], ti_release = [], ti_issued = At 0, ti_mfa = Blank \<rparr>"

definition counting_server :: "err option \<Rightarrow> nat vault_dependencies" where
  "counting_server refusal = \<lparr> vd_repository = counting_repository, vd_now = (\<lambda>_. 0), vd_date_parse = (\<lambda>_. None),
     vd_pg_message = id, vd_resolveIdentity = (\<lambda>_ x. (Inr sample_member, x)),
     vd_authorizeIdentity = Some (\<lambda>_ _ _ _ x. (case refusal of None \<Rightarrow> Inr () | Some e \<Rightarrow> Inl e, x)),
     vd_startPortableExport = None, vd_getPortableExport = None, vd_confirmPrivacyDeletion = None,
     vd_cancelPrivacyDeletion = None, vd_encryptFactValue = None, vd_encryptEmergencyReason = None,
     vd_listVaultFacts = None, vd_listVaultDocuments = None, vd_getDocumentContent = None, vd_listAuditEvents = None,
     vd_createReport = Some (\<lambda>_ _ _ x. (Inr JNull, x + 1)), vd_getReport = None, vd_createCheckout = None,
     vd_createBillingPortal = None, vd_getSubscription = None, vd_listBillingRefunds = None,
     vd_startDocumentUpload = None, vd_createDocumentUploadUrl = None, vd_completeDocumentUpload = None,
     vd_completeManualExtraction = None, vd_runAiInterview = None \<rparr>"

definition sample_request :: api_request where
  "sample_request = \<lparr> rq_id = ''req-1'',
     rq_headers = (\<lambda>h. if h = ''idempotency-key'' then OneHeader ''key-0123456789abcdef''
        else if h = ''if-match'' then OneHeader ''1'' else NoHeader),
     rq_params = (\<lambda>_. Some ''00000000-0000-4000-8000-000000000001''), rq_query = (\<lambda>_. None), rq_body = JNull \<rparr>"

theorem refused_request_changes_nothing_witness:
  "\<exists>e x'. vault_handler ConfirmFact (counting_server (Some (Thrown ''AuthorizationDeniedError'' ''no''))) sample_request 0
     = (Inl e, x') \<and> id x' = id 0"
  by (rule refused_request_changes_nothing)
    (auto simp: quiet_def keeps_def counting_server_def counting_repository_def refused_defs refuses_def)

section \<open>Errors\<close>

text \<open>What the error handler says of an error of the code behind the routes.\<close>

definition error_problems :: "(int \<times> string \<times> string) list" where
  "error_problems = [(401, ''Authentication required'', ''Authentication is required.''),
     (409, ''Household selection required'', ''Select an accessible household.''),
     (403, ''Access denied'', ''Access is denied.''),
     (409, ''Version conflict'', ''The request could not be completed.''),
     (409, ''Request failed'', ''The request could not be completed.''),
     (500, ''Request failed'', ''The request could not be completed.'')]"

text \<open>An error thrown by the code behind a route (its repository, its key store, the providers) reaches the
  client as one of six fixed problem documents: neither its message nor anything else it carries is disclosed.\<close>

theorem internal_errors_undisclosed:
  assumes "vault_handler r d rq x = (Inl (Raised e), x')"
  shows "\<exists>p \<in> set error_problems. serve_vault d r rq x =
    (\<lparr> rp_status = fst p, rp_headers = [(''content-type'', ''application/problem+json'')],
       rp_payload = Json (problem_json (rq_id rq) p) \<rparr>, x')"
proof -
  have "problem_of (vd_pg_message d) (Raised e) \<in> set error_problems"
    by (simp add: problem_of_def error_problems_def Let_def)
  then show ?thesis by (auto simp: serve_vault_def respond_def assms intro!: bexI)
qed

theorem internal_errors_undisclosed_witness:
  "\<exists>p \<in> set error_problems. serve_vault (counting_server (Some (Thrown ''Error'' ''secret''))) GetPrivacyRequests sample_request 0 =
    (\<lparr> rp_status = fst p, rp_headers = [(''content-type'', ''application/problem+json'')],
       rp_payload = Json (problem_json (rq_id sample_request) p) \<rparr>, 0)"
  by (rule internal_errors_undisclosed [where e = "Thrown ''Error'' ''secret''"])
    (simp add: get_privacy_requests_def counting_server_def identify_def allow_def api_call_def api_bind_def)

end
