(* ===== verification/Stripe_Adapter.thy ===== *)
theory Stripe_Adapter
  imports Api_Request Billing_Store
begin

text \<open>
  The billing provider (\<open>apps/api/src/adapters/stripe.ts\<close>): checkout and portal sessions over its
  HTTP interface, with retries; the signature of its webhooks, and the subscription and refund
  events they carry.  \<open>fetch\<close>, the timer and the URL parser of the platform are parameters.
\<close>

section \<open>Configuration and requests\<close>

record stripe_config =
  sc_secret :: "string option"
  sc_webhook :: "string option"
  sc_price :: "string option"
  sc_base :: "string option"

record checkout_request =
  cr_reference :: string
  cr_success :: string
  cr_cancel :: string
  cr_key :: string
  cr_org :: string
  cr_hh :: string
  cr_plan :: string

record portal_request =
  br_customer :: string
  br_return :: string
  br_key :: string

text \<open>A member of the configuration that is set, and is not the empty text.\<close>

definition configured :: "string option \<Rightarrow> string option" where
  "configured v = (if v = Some [] then None else v)"

definition stripe_readiness :: "stripe_config \<Rightarrow> bool \<times> string option" where
  "stripe_readiness c = (if configured (sc_secret c) \<noteq> None \<and> configured (sc_webhook c) \<noteq> None
       \<and> configured (sc_price c) \<noteq> None
     then (True, None) else (False, Some ''billing-configuration-incomplete''))"

record http_post =
  hp_path :: string
  hp_base :: string
  hp_headers :: "(string \<times> string) list"
  hp_body :: "(string \<times> string) list"

text \<open>A response: its status, and what \<open>response.json()\<close> gives or throws.\<close>

record http_response =
  hr_status :: int
  hr_json :: "json result"

record 'x stripe_io =
  si_fetch :: "http_post \<Rightarrow> ('x, http_response) world_op"
  si_wait :: "int \<Rightarrow> 'x \<Rightarrow> 'x"

text \<open>What the adapter reads of \<open>new URL(text)\<close>, which throws for a text that is no URL.\<close>

record url_parts =
  up_href :: string
  up_protocol :: string
  up_hostname :: string

type_synonym url_parser = "string \<Rightarrow> url_parts option"

definition parse_url :: "url_parser \<Rightarrow> string \<Rightarrow> url_parts result" where
  "parse_url p s = (case p s of Some u \<Rightarrow> Inr u | None \<Rightarrow> Inl (Thrown ''TypeError'' ''Invalid URL''))"

section \<open>Posting a form\<close>

definition stripe_headers :: "string \<Rightarrow> string \<Rightarrow> (string \<times> string) list" where
  "stripe_headers secret key = [(''authorization'', ''Bearer '' @ secret),
     (''content-type'', ''application/x-www-form-urlencoded''), (''idempotency-key'', key)]"

datatype attempt_end = Answered "(string \<times> json) list" | GivenUp err | TryAgain err

text \<open>How one attempt ends; \<open>final\<close> tells the last one.\<close>

definition attempt_outcome :: "bool \<Rightarrow> http_response result \<Rightarrow> attempt_end" where
  "attempt_outcome final r =
     (let caught = (\<lambda>e. if final \<or> err_name e \<notin> {''AbortError'', ''TypeError''} then GivenUp e else TryAgain e) in
      case r of
        Inl e \<Rightarrow> caught e
      | Inr a \<Rightarrow>
          if 200 \<le> hr_status a \<and> hr_status a \<le> 299
          then (case hr_json a of Inl e \<Rightarrow> caught e
                | Inr (JObj kvs) \<Rightarrow> Answered kvs
                | Inr _ \<Rightarrow> caught (js_error ''Stripe response invalid''))
          else if final \<or> hr_status a \<notin> {429, 500, 502, 503, 504}
          then caught (js_error (''Stripe HTTP '' @ dec_int (hr_status a)))
          else TryAgain (js_error (''Stripe HTTP '' @ dec_int (hr_status a))))"

text \<open>\<open>left\<close> attempts remain; attempt \<open>3 - left\<close> is made.\<close>

fun post_attempts :: "'x stripe_io \<Rightarrow> http_post \<Rightarrow> nat \<Rightarrow> ('x, (string \<times> json) list) world_op" where
  "post_attempts io post 0 x = (Inl (js_error ''Stripe request exhausted retries''), x)"
| "post_attempts io post (Suc left) x = (case si_fetch io post x of (r, x1) \<Rightarrow>
     (case attempt_outcome (left = 0) r of
        Answered kvs \<Rightarrow> (Inr kvs, x1)
      | GivenUp e \<Rightarrow> (Inl e, x1)
      | TryAgain _ \<Rightarrow> post_attempts io post left (si_wait io (min (250 * 2 ^ (2 - left)) 1000) x1)))"

definition postForm ::
  "stripe_config \<Rightarrow> 'x stripe_io \<Rightarrow> string \<Rightarrow> (string \<times> string) list \<Rightarrow> string
   \<Rightarrow> ('x, (string \<times> json) list) world_op" where
  "postForm c io path body key = (case configured (sc_secret c) of
       None \<Rightarrow> pure_result (Inl (js_error ''Stripe is not configured''))
     | Some secret \<Rightarrow> post_attempts io \<lparr> hp_path = path,
         hp_base = (case sc_base c of Some b \<Rightarrow> b | None \<Rightarrow> ''https://api.stripe.com/''),
         hp_headers = stripe_headers secret key, hp_body = body \<rparr> 3)"

section \<open>Sessions\<close>

definition session_of :: "string \<Rightarrow> (string \<times> json) list \<Rightarrow> (string \<times> string) result" where
  "session_of what kvs = (case (map_of kvs ''id'', map_of kvs ''url'') of
       (Some (JStr i), Some (JStr u)) \<Rightarrow> Inr (i, u)
     | _ \<Rightarrow> Inl (js_error (''Stripe '' @ what @ '' response invalid'')))"

definition session_json :: "string \<times> string \<Rightarrow> json" where
  "session_json s = JObj [(''id'', JStr (fst s)), (''url'', JStr (snd s))]"

definition checkout_form :: "string \<Rightarrow> checkout_request \<Rightarrow> (string \<times> string) list" where
  "checkout_form price r = [(''client_reference_id'', cr_reference r), (''mode'', ''subscription''),
     (''success_url'', cr_success r), (''cancel_url'', cr_cancel r), (''line_items[0][price]'', price),
     (''line_items[0][quantity]'', ''1''), (''metadata[legacy_organization_id]'', cr_org r),
     (''metadata[legacy_household_id]'', cr_hh r), (''metadata[legacy_plan]'', cr_plan r),
     (''subscription_data[metadata][legacy_organization_id]'', cr_org r),
     (''subscription_data[metadata][legacy_household_id]'', cr_hh r),
     (''subscription_data[metadata][legacy_plan]'', cr_plan r)]"

definition checkout_host :: "url_parts \<Rightarrow> bool" where
  "checkout_host u \<longleftrightarrow> up_protocol u = ''https:''
     \<and> (ends_with ''.stripe.com'' (up_hostname u) \<or> ends_with ''.stripe.test'' (up_hostname u))"

definition createCheckout ::
  "stripe_config \<Rightarrow> 'x stripe_io \<Rightarrow> url_parser \<Rightarrow> checkout_request \<Rightarrow> ('x, string \<times> string) world_op" where
  "createCheckout c io urls r = (case (configured (sc_secret c), configured (sc_price c)) of
       (Some _, Some price) \<Rightarrow>
         world_bind (postForm c io ''v1/checkout/sessions'' (checkout_form price r) (cr_key r)) (\<lambda>result.
         pure_result (res_bind (session_of ''checkout'' result) (\<lambda>s.
           res_bind (parse_url urls (snd s)) (\<lambda>u.
           if checkout_host u then Inr s else Inl (js_error ''Stripe checkout URL invalid'')))))
     | _ \<Rightarrow> pure_result (Inl (js_error ''Stripe is not configured'')))"

definition customer_id :: re where
  "customer_id = whole (Seq (lit ''cus_'') (Rep (Cls alnum) 1 None))"

definition portal_host :: "url_parts \<Rightarrow> bool" where
  "portal_host u \<longleftrightarrow> up_protocol u = ''https:''
     \<and> (up_hostname u = ''billing.stripe.com'' \<or> ends_with ''.stripe.test'' (up_hostname u))"

definition createBillingPortal ::
  "stripe_config \<Rightarrow> 'x stripe_io \<Rightarrow> url_parser \<Rightarrow> portal_request \<Rightarrow> ('x, string \<times> string) world_op" where
  "createBillingPortal c io urls r =
     (if configured (sc_secret c) = None then pure_result (Inl (js_error ''Stripe is not configured''))
      else if \<not> re_test customer_id (br_customer r)
      then pure_result (Inl (js_error ''Stripe customer identifier invalid''))
      else world_bind (pure_result (parse_url urls (br_return r))) (\<lambda>back.
        if up_protocol back \<noteq> ''https:'' then pure_result (Inl (js_error ''Stripe portal return URL invalid''))
        else world_bind (postForm c io ''v1/billing_portal/sessions''
            [(''customer'', br_customer r), (''return_url'', up_href back)] (br_key r)) (\<lambda>result.
          pure_result (res_bind (session_of ''billing portal'' result) (\<lambda>s.
            res_bind (parse_url urls (snd s)) (\<lambda>u.
            if portal_host u then Inr s else Inl (js_error ''Stripe billing portal URL invalid'')))))))"

section \<open>Webhooks\<close>

text \<open>The event that \<open>verifyWebhook\<close> returns; its members are what the payload holds.\<close>

record webhook_event =
  we_id :: json
  we_type :: json
  we_created :: json
  we_data :: "json option"

text \<open>\<open>part.split("=", 2)\<close>: the key, and the value when there is one.\<close>

definition signature_entry :: "string \<Rightarrow> string \<times> string option" where
  "signature_entry part = (case split_on CHR ''='' part of
       [] \<Rightarrow> ([], None) | [k] \<Rightarrow> (k, None) | k # v # _ \<Rightarrow> (k, Some v))"

definition signature_entries :: "string \<Rightarrow> (string \<times> string option) list" where
  "signature_entries header = map signature_entry (split_on CHR '','' header)"

definition signature_timestamp :: "string \<Rightarrow> int option" where
  "signature_timestamp header = (case find (\<lambda>(k, v). k = ''t'') (signature_entries header) of
       Some (_, Some v) \<Rightarrow> safe_integer_of_text v | _ \<Rightarrow> None)"

definition hex_digest :: re where
  "hex_digest = whole (times 64 (nocase hex_digit))"

definition signature_values :: "string \<Rightarrow> string list" where
  "signature_values header = map (\<lambda>(k, v). the v)
     (filter (\<lambda>(k, v). k = ''v1'' \<and> (case v of Some t \<Rightarrow> re_test hex_digest t | None \<Rightarrow> False)) (signature_entries header))"

definition webhook_digest :: "(string \<Rightarrow> string \<Rightarrow> string) \<Rightarrow> string \<Rightarrow> int \<Rightarrow> string \<Rightarrow> string" where
  "webhook_digest hmac secret timestamp payload =
     hmac (utf8_bytes secret) (utf8_bytes (dec_int timestamp @ ''.'') @ payload)"

definition parse_payload :: "string \<Rightarrow> json result" where
  "parse_payload payload = (case Option.bind (utf8_text payload) json_parse of
       Some v \<Rightarrow> Inr v | None \<Rightarrow> Inl (Thrown ''SyntaxError'' ''invalid JSON''))"

definition truthy_member :: "json \<Rightarrow> string \<Rightarrow> json option" where
  "truthy_member v k = (case jfield v k of Some j \<Rightarrow> if js_truthy j then Some j else None | None \<Rightarrow> None)"

definition read_webhook_event :: "json \<Rightarrow> webhook_event result" where
  "read_webhook_event v =
     (if v = JNull then Inl (Thrown ''TypeError'' ''cannot read properties of null'')
      else case (truthy_member v ''id'', truthy_member v ''type'', truthy_member v ''created'') of
        (Some i, Some t, Some c) \<Rightarrow>
          Inr \<lparr> we_id = i, we_type = t, we_created = c, we_data = jfield v ''data'' \<rparr>
      | _ \<Rightarrow> Inl (js_error ''Stripe webhook event invalid''))"

definition verifyWebhook ::
  "stripe_config \<Rightarrow> (string \<Rightarrow> string \<Rightarrow> string) \<Rightarrow> int \<Rightarrow> string \<Rightarrow> string \<Rightarrow> webhook_event result" where
  "verifyWebhook c hmac now_seconds payload header = (case configured (sc_webhook c) of
       None \<Rightarrow> Inl (js_error ''Stripe webhook is not configured'')
     | Some secret \<Rightarrow> (case signature_timestamp header of
           None \<Rightarrow> Inl (js_error ''Stripe webhook signature timestamp invalid'')
         | Some timestamp \<Rightarrow>
             if signature_values header = [] \<or> \<bar>now_seconds - timestamp\<bar> > 300
             then Inl (js_error ''Stripe webhook signature timestamp invalid'')
             else if \<not> list_ex (\<lambda>s. hex_bytes s = webhook_digest hmac secret timestamp payload) (signature_values header)
             then Inl (js_error ''Stripe webhook signature invalid'')
             else res_bind (parse_payload payload) read_webhook_event))"

section \<open>Events\<close>

text \<open>\<open>new Date(seconds * 1000).toISOString()\<close>, as the time it denotes.\<close>

definition seconds_date :: "int \<Rightarrow> int result" where
  "seconds_date n = (case time_clip (n * 1000) of Some t \<Rightarrow> Inr t
     | None \<Rightarrow> Inl (Thrown ''RangeError'' ''Invalid time value''))"

definition created_date :: "json \<Rightarrow> int result" where
  "created_date v = (case v of JNum n \<Rightarrow> seconds_date n
     | JBool True \<Rightarrow> seconds_date 1
     | JStr s \<Rightarrow> (case safe_integer_of_text s of Some n \<Rightarrow> seconds_date n
         | None \<Rightarrow> Inl (Thrown ''RangeError'' ''Invalid time value''))
     | _ \<Rightarrow> Inl (Thrown ''RangeError'' ''Invalid time value''))"

definition stripeTimestamp :: "json option \<Rightarrow> int option result" where
  "stripeTimestamp v = (case v of None \<Rightarrow> Inr None | Some JNull \<Rightarrow> Inr None
     | Some (JNum n) \<Rightarrow> if \<not> is_safe_integer n \<or> n < 1 then Inl (js_error ''Stripe subscription timestamp invalid'')
         else res_bind (seconds_date n) (\<lambda>t. Inr (Some t))
     | Some _ \<Rightarrow> Inl (js_error ''Stripe subscription timestamp invalid''))"

text \<open>\<open>data.object\<close> of the event; an array is an object without the member.\<close>

definition event_object :: "string \<Rightarrow> webhook_event \<Rightarrow> json result" where
  "event_object what e =
     (let is_object = (\<lambda>v. case v of Some (JObj _) \<Rightarrow> True | Some (JArr _) \<Rightarrow> True | _ \<Rightarrow> False) in
      if \<not> is_object (we_data e) then Inl (js_error (''Stripe '' @ what @ '' event data invalid''))
      else (let object = jfield (the (we_data e)) ''object'' in
        if \<not> is_object object then Inl (js_error (''Stripe '' @ what @ '' object invalid'')) else Inr (the object)))"

text \<open>The metadata of an object; the fields of what is no object are undefined.\<close>

definition metadata_member :: "json \<Rightarrow> string \<Rightarrow> json option" where
  "metadata_member object k = Option.bind (jfield object ''metadata'') (\<lambda>m. jfield m k)"

definition uuid_member :: "json \<Rightarrow> string \<Rightarrow> string option" where
  "uuid_member object k = (case metadata_member object k of
       Some (JStr s) \<Rightarrow> if re_test uuid_pattern s then Some s else None | _ \<Rightarrow> None)"

definition text_member :: "json \<Rightarrow> string \<Rightarrow> string option" where
  "text_member object k = (case jfield object k of Some (JStr s) \<Rightarrow> Some s | _ \<Rightarrow> None)"

definition optional_text :: "json \<Rightarrow> string \<Rightarrow> string option option" where
  "optional_text object k = (case jfield object k of None \<Rightarrow> Some None | Some JNull \<Rightarrow> Some None
     | Some (JStr s) \<Rightarrow> Some (Some s) | _ \<Rightarrow> None)"

text \<open>The text that the database keeps of a member the code passes on unchecked.\<close>

definition stored_text :: "json \<Rightarrow> string" where
  "stored_text v = (case v of JStr s \<Rightarrow> s | _ \<Rightarrow> json_stringify v)"

definition subscription_types :: "string list" where
  "subscription_types = [''customer.subscription.created'', ''customer.subscription.updated'',
     ''customer.subscription.deleted'']"

definition subscription_statuses :: "string list" where
  "subscription_statuses = [''incomplete'', ''incomplete_expired'', ''trialing'', ''active'', ''past_due'',
     ''canceled'', ''unpaid'', ''paused'']"

type_synonym 'e tenant_event = "string \<times> string \<times> 'e"

definition raw_status :: "webhook_event \<Rightarrow> json \<Rightarrow> string option" where
  "raw_status e object = (if we_type e = JStr ''customer.subscription.deleted'' then Some ''canceled''
     else text_member object ''status'')"

definition normalizeSubscriptionEvent :: "webhook_event \<Rightarrow> billing_event tenant_event option result" where
  "normalizeSubscriptionEvent e =
     (if we_type e \<notin> JStr ` set subscription_types then Inr None
      else res_bind (event_object ''subscription'' e) (\<lambda>object.
      case (uuid_member object ''legacy_organization_id'', uuid_member object ''legacy_household_id'',
            text_member object ''id'', text_member object ''customer'', raw_status e object) of
        (Some org, Some hh, Some subscription, Some customer, Some status) \<Rightarrow>
          if metadata_member object ''legacy_plan'' \<noteq> Some (JStr ''essential'')
            \<or> status \<notin> set subscription_statuses
          then Inl (js_error ''Stripe subscription metadata invalid'')
          else res_bind (created_date (we_created e)) (\<lambda>created.
            res_bind (stripeTimestamp (jfield object ''trial_end'')) (\<lambda>trial.
            res_bind (stripeTimestamp (jfield object ''current_period_end'')) (\<lambda>period.
            res_bind (stripeTimestamp (jfield object ''canceled_at'')) (\<lambda>canceled.
            Inr (Some (org, hh, \<lparr> ev_external = stored_text (we_id e), ev_type = stored_text (we_type e),
              ev_created = created, ev_customer = customer, ev_subscription = subscription, ev_status = status,
              ev_plan = ''essential'', ev_trial_ends = trial, ev_period_ends = period,
              ev_cancel_at_end = (jfield object ''cancel_at_period_end'' = Some (JBool True)),
              ev_canceled = canceled \<rparr>))))))
      | _ \<Rightarrow> Inl (js_error ''Stripe subscription metadata invalid'')))"

definition refund_types :: "string list" where
  "refund_types = [''refund.created'', ''refund.updated'', ''refund.failed'']"

definition refund_statuses :: "string list" where
  "refund_statuses = [''pending'', ''requires_action'', ''succeeded'', ''failed'', ''canceled'']"

definition refund_id :: re where
  "refund_id = whole (Seq (lit ''re_'') (Rep (Cls alnum) 1 None))"

definition currency_code :: re where
  "currency_code = whole (times 3 (crange CHR ''a'' CHR ''z''))"

definition normalizeRefundEvent :: "webhook_event \<Rightarrow> refund_event tenant_event option result" where
  "normalizeRefundEvent e =
     (if we_type e \<notin> JStr ` set refund_types then Inr None
      else res_bind (event_object ''refund'' e) (\<lambda>object.
      case (uuid_member object ''legacy_organization_id'', uuid_member object ''legacy_household_id'',
            text_member object ''id'', optional_text object ''charge'', jfield object ''amount'',
            text_member object ''currency'', optional_text object ''reason'', text_member object ''status'') of
        (Some org, Some hh, Some refund, Some charge, Some (JNum amount), Some currency, Some reason, Some status) \<Rightarrow>
          if \<not> re_test refund_id refund \<or> \<not> is_safe_integer amount \<or> amount < 1
            \<or> \<not> re_test currency_code currency \<or> status \<notin> set refund_statuses
          then Inl (js_error ''Stripe refund metadata invalid'')
          else res_bind (created_date (we_created e)) (\<lambda>created.
            Inr (Some (org, hh, \<lparr> rv_external = stored_text (we_id e), rv_type = stored_text (we_type e),
              rv_updated = created, rv_refund = refund, rv_charge = charge, rv_amount = amount,
              rv_currency = currency, rv_reason = reason, rv_status = status \<rparr>)))
      | _ \<Rightarrow> Inl (js_error ''Stripe refund metadata invalid'')))"

end
