(* ===== verification/Billing_Webhook.thy ===== *)
theory Billing_Webhook
  imports Stripe_Adapter
begin

text \<open>
  \<open>apps/api/src/routes/billing.ts\<close>: the webhook of the billing provider.  The route authenticates
  the bytes of the body, reads the subscription or refund event they hold and hands it to the
  repository in the tenant that the event names.
\<close>

section \<open>The route\<close>

definition webhook_problem :: "string \<Rightarrow> int \<Rightarrow> string \<Rightarrow> json" where
  "webhook_problem instance_id status title = JObj [(''type'', JStr ''about:blank''), (''title'', JStr title),
     (''status'', JNum status), (''detail'', JStr ''The webhook could not be processed.''),
     (''instance'', JStr instance_id), (''traceId'', JStr instance_id)]"

definition problem_reply :: "string \<Rightarrow> int \<Rightarrow> string \<Rightarrow> api_reply" where
  "problem_reply request_id status title = \<lparr> rp_status = status,
     rp_headers = [(''content-type'', ''application/problem+json'')],
     rp_payload = Json (webhook_problem request_id status title) \<rparr>"

text \<open>The error handler of the route: an error of the server carries the status it asks for.\<close>

definition webhook_error_reply :: "string \<Rightarrow> int option \<Rightarrow> api_reply" where
  "webhook_error_reply request_id error_status =
     (let status = (case error_status of Some s \<Rightarrow> if 400 \<le> s \<and> s < 500 then s else 500 | None \<Rightarrow> 500) in
      problem_reply request_id status (if status = 400 then ''Invalid webhook'' else ''Webhook processing unavailable''))"

datatype provider_event = SubscriptionEvent "billing_event tenant_event" | RefundEvent "refund_event tenant_event"

definition read_provider_event ::
  "stripe_config \<Rightarrow> (string \<Rightarrow> string \<Rightarrow> string) \<Rightarrow> int \<Rightarrow> string \<Rightarrow> string \<Rightarrow> provider_event option result" where
  "read_provider_event c hmac now_seconds payload signature =
     res_bind (verifyWebhook c hmac now_seconds payload signature) (\<lambda>verified.
     res_bind (normalizeSubscriptionEvent verified) (\<lambda>subscription.
     case subscription of Some e \<Rightarrow> Inr (Some (SubscriptionEvent e))
     | None \<Rightarrow> res_bind (normalizeRefundEvent verified) (\<lambda>refund. Inr (map_option RefundEvent refund))))"

definition event_context :: "'e tenant_event \<Rightarrow> tenant_context" where
  "event_context e = \<lparr> tc_org = fst e, tc_hh = fst (snd e), tc_actor = fst e \<rparr>"

fun process_provider_event ::
  "string \<Rightarrow> string \<Rightarrow> int \<Rightarrow> provider_event \<Rightarrow> db \<Rightarrow> event_outcome result \<times> db" where
  "process_provider_event fe fs now (SubscriptionEvent e) =
     processBillingEvent (event_context e) fe fs now (snd (snd e))"
| "process_provider_event fe fs now (RefundEvent e) =
     processRefundEvent (event_context e) fe fs now (snd (snd e))"

fun outcome_name :: "event_outcome \<Rightarrow> string" where
  "outcome_name Applied = ''applied''"
| "outcome_name Duplicate = ''duplicate''"
| "outcome_name Stale = ''stale''"

definition received :: "(string \<times> json) list \<Rightarrow> api_reply" where
  "received kvs = \<lparr> rp_status = 200, rp_headers = [], rp_payload = Json (JObj ((''received'', JBool True) # kvs)) \<rparr>"

text \<open>\<open>body\<close> is the buffer of the request, when there is one; \<open>fe\<close>, \<open>fs\<close> and \<open>now\<close> are what the repository draws.\<close>

definition stripe_webhook ::
  "stripe_config \<Rightarrow> (string \<Rightarrow> string \<Rightarrow> string) \<Rightarrow> int \<Rightarrow> string \<Rightarrow> string \<Rightarrow> int \<Rightarrow> string \<Rightarrow> header \<Rightarrow> string option
   \<Rightarrow> db \<Rightarrow> api_reply \<times> db" where
  "stripe_webhook c hmac now_seconds fe fs now request_id signature body d = (case (signature, body) of
       (OneHeader s, Some payload) \<Rightarrow>
         (case read_provider_event c hmac now_seconds payload s of
            Inl _ \<Rightarrow> (problem_reply request_id 400 ''Invalid webhook'', d)
          | Inr None \<Rightarrow> (received [(''ignored'', JBool True)], d)
          | Inr (Some e) \<Rightarrow> (case process_provider_event fe fs now e d of
                (Inl _, d') \<Rightarrow> (problem_reply request_id 503 ''Webhook processing unavailable'', d')
              | (Inr outcome, d') \<Rightarrow> (received [(''outcome'', JStr (outcome_name outcome))], d')))
     | _ \<Rightarrow> (problem_reply request_id 400 ''Invalid webhook'', d))"

section \<open>What a webhook changes\<close>

text \<open>The tenant a payload names, read from its bytes alone.\<close>

definition payload_tenant :: "string \<Rightarrow> (string \<times> string) option" where
  "payload_tenant payload = (case parse_payload payload of Inl _ \<Rightarrow> None
     | Inr v \<Rightarrow> Option.bind (jfield v ''data'') (\<lambda>data. Option.bind (jfield data ''object'') (\<lambda>object.
         Option.bind (uuid_member object ''legacy_organization_id'') (\<lambda>org.
         map_option (Pair org) (uuid_member object ''legacy_household_id'')))))"

definition signed :: "stripe_config \<Rightarrow> (string \<Rightarrow> string \<Rightarrow> string) \<Rightarrow> int \<Rightarrow> string \<Rightarrow> string \<Rightarrow> bool" where
  "signed c hmac now_seconds payload header \<longleftrightarrow> (\<exists>secret timestamp. sc_webhook c = Some secret \<and> secret \<noteq> []
     \<and> signature_timestamp header = Some timestamp \<and> \<bar>now_seconds - timestamp\<bar> \<le> 300
     \<and> list_ex (\<lambda>s. hex_bytes s = webhook_digest hmac secret timestamp payload) (signature_values header))"

lemma verified_signed:
  assumes "verifyWebhook c hmac now_seconds payload header = Inr e"
  shows "signed c hmac now_seconds payload header"
    and "\<exists>v. parse_payload payload = Inr v \<and> read_webhook_event v = Inr e"
  using assms
  by (auto simp: verifyWebhook_def signed_def configured_def split: option.splits if_splits)

lemma event_object_Inr:
  "event_object what e = Inr object \<Longrightarrow> \<exists>data. we_data e = Some data \<and> jfield data ''object'' = Some object"
  by (auto simp: event_object_def Let_def split: if_splits option.splits json.splits)

lemma read_event_data:
  "read_webhook_event v = Inr e \<Longrightarrow> we_data e = jfield v ''data''"
  by (auto simp: read_webhook_event_def split: if_splits option.splits)

lemma subscription_tenant:
  assumes "normalizeSubscriptionEvent e = Inr (Some (org, hh, b))"
  shows "\<exists>data object. we_data e = Some data \<and> jfield data ''object'' = Some object
    \<and> uuid_member object ''legacy_organization_id'' = Some org \<and> uuid_member object ''legacy_household_id'' = Some hh"
proof -
  from assms obtain object where "event_object ''subscription'' e = Inr object"
    and "uuid_member object ''legacy_organization_id'' = Some org"
    and "uuid_member object ''legacy_household_id'' = Some hh"
    unfolding normalizeSubscriptionEvent_def
    by (auto simp del: res_bind_eq_Inr simp: res_bind_def split: if_split_asm sum.split_asm option.split_asm)
  with event_object_Inr show ?thesis by blast
qed

lemma refund_tenant:
  assumes "normalizeRefundEvent e = Inr (Some (org, hh, b))"
  shows "\<exists>data object. we_data e = Some data \<and> jfield data ''object'' = Some object
    \<and> uuid_member object ''legacy_organization_id'' = Some org \<and> uuid_member object ''legacy_household_id'' = Some hh"
proof -
  from assms obtain object where "event_object ''refund'' e = Inr object"
    and "uuid_member object ''legacy_organization_id'' = Some org"
    and "uuid_member object ''legacy_household_id'' = Some hh"
    unfolding normalizeRefundEvent_def
    by (auto simp del: res_bind_eq_Inr simp: res_bind_def split: if_split_asm sum.split_asm option.split_asm json.split_asm)
  with event_object_Inr show ?thesis by blast
qed

fun tenant_of :: "provider_event \<Rightarrow> string \<times> string" where
  "tenant_of (SubscriptionEvent e) = (fst e, fst (snd e))"
| "tenant_of (RefundEvent e) = (fst e, fst (snd e))"

lemma read_provider_event_Inr:
  assumes "read_provider_event c hmac now_seconds payload header = Inr (Some e)"
  shows "signed c hmac now_seconds payload header \<and> payload_tenant payload = Some (tenant_of e)"
proof -
  from assms obtain w where w: "verifyWebhook c hmac now_seconds payload header = Inr w"
    and e: "(\<exists>b. e = SubscriptionEvent b \<and> normalizeSubscriptionEvent w = Inr (Some b))
      \<or> (\<exists>b. e = RefundEvent b \<and> normalizeRefundEvent w = Inr (Some b))"
    by (auto simp: read_provider_event_def split: option.splits)
  obtain v where v: "parse_payload payload = Inr v" "read_webhook_event v = Inr w"
    using verified_signed(2) [OF w] by blast
  from e have "payload_tenant payload = Some (tenant_of e)"
    using v(1) read_event_data [OF v(2), symmetric]
    by (auto simp: payload_tenant_def dest!: subscription_tenant refund_tenant)
  with verified_signed(1) [OF w] show ?thesis by blast
qed

definition tenant_pair :: "string \<times> string \<Rightarrow> session" where
  "tenant_pair t = tenant_session \<lparr> tc_org = fst t, tc_hh = snd t, tc_actor = fst t \<rparr>"

lemma refund_foreign:
  assumes "processRefundEvent ctx fe fs now e d = (out, d')"
  shows "foreign (tenant_session ctx) d' = foreign (tenant_session ctx) d"
proof -
  have up: "foreign s d2 = foreign s d1" if "upsert_refund ctx fs e s d1 = Inr (n, d2)" for s d1 d2 n
    using that refunds_t.update_foreign [of "apply_refund e" s "\<lambda>r. br_refund r = rv_refund e" d1]
    by (auto simp: upsert_refund_def apply_refund_def split: if_splits list.splits
        dest!: refunds_t.insert_foreign)
  have rec: "foreign s d2 = foreign s d1" if "record_event ctx i x t c p s d1 = Inr (b, d2)" for s i x t c p d1 d2 b
    using that by (auto simp: record_event_def Let_def split: if_splits
        dest!: billing_events_t.insert_foreign)
  have mark: "foreign s (mark_processed x n s d1) = foreign s d1" for s x n d1
    using billing_events_t.update_foreign [of "\<lambda>e. e \<lparr> be_processed := Some n \<rparr>" s "\<lambda>e. be_external e = x" d1]
    by (simp add: mark_processed_def)
  show ?thesis using assms
    by (cases out)
      (auto simp: processRefundEvent_def withTenant_def mark split: sum.splits if_splits prod.splits dest!: up rec)
qed

lemma subscription_foreign:
  assumes "processBillingEvent ctx fe fs now e d = (out, d')"
  shows "foreign (tenant_session ctx) d' = foreign (tenant_session ctx) d"
proof (cases out)
  case (Inl err) with assms show ?thesis
    by (auto simp: processBillingEvent_def withTenant_def split: sum.splits if_splits prod.splits)
next
  case (Inr o') with assms process_effect [of ctx fe fs now e d o' d'] show ?thesis by simp
qed

lemma process_provider_foreign:
  "process_provider_event fe fs now e d = (out, d') \<Longrightarrow>
     foreign (tenant_pair (tenant_of e)) d' = foreign (tenant_pair (tenant_of e)) d"
  by (cases e) (auto simp: tenant_pair_def event_context_def
      dest: subscription_foreign refund_foreign)

section \<open>Deliveries\<close>

text \<open>The identifiers of the events a database has taken.\<close>

definition taken :: "db \<Rightarrow> string set" where
  "taken d = be_external ` set (billing_events d)"

fun external_of :: "provider_event \<Rightarrow> string" where
  "external_of (SubscriptionEvent e) = ev_external (snd (snd e))"
| "external_of (RefundEvent e) = rv_external (snd (snd e))"

lemma record_event_taken:
  assumes "record_event ctx i x t c p s d = Inr (b, d1)"
  shows "taken d1 = insert x (taken d)" and "b \<longleftrightarrow> x \<notin> taken d" and "\<not> b \<Longrightarrow> d1 = d"
  using assms
  by (auto simp: record_event_def Let_def taken_def sql_insert_Inr list_ex_iff split: if_splits)

lemma mark_processed_taken [simp]: "taken (mark_processed x n s d) = taken d"
proof -
  have "map be_external (billing_events (mark_processed x n s d)) = map be_external (billing_events d)"
    by (simp add: mark_processed_def map_sql_update)
  then show ?thesis unfolding taken_def by (metis set_map)
qed

lemma refund_effect:
  assumes "processRefundEvent ctx fe fs now e d = (Inr outcome, d')"
  shows "taken d' = insert (rv_external e) (taken d) \<and> (rv_external e \<in> taken d \<longrightarrow> d' = d)"
proof -
  have up: "billing_events d2 = billing_events d1" if "upsert_refund ctx fs e s d1 = Inr (n, d2)" for s d1 d2 n
    using that by (auto simp: upsert_refund_def split: if_splits list.splits)
  then have up': "taken d2 = taken d1" if "upsert_refund ctx fs e s d1 = Inr (n, d2)" for s d1 d2 n
    using that by (auto simp: taken_def)
  define p where "p = JObj [(''providerRefundId'', JStr (rv_refund e)), (''providerChargeId'', text_json (rv_charge e)),
    (''amount'', JNum (rv_amount e)), (''currency'', JStr (rv_currency e)), (''reason'', text_json (rv_reason e)),
    (''status'', JStr (rv_status e))]"
  obtain b d1 where r: "record_event ctx fe (rv_external e) (rv_type e) (rv_updated e) p (tenant_session ctx) d = Inr (b, d1)"
    using assms by (auto simp: processRefundEvent_def withTenant_def p_def split: sum.splits)
  from assms have assm: "(if \<not> b then Inr (Duplicate, d1)
      else case upsert_refund ctx fs e (tenant_session ctx) d1 of Inl err \<Rightarrow> Inl err
        | Inr (n, d2) \<Rightarrow> Inr (if n = 1 then Applied else Stale, mark_processed (rv_external e) now (tenant_session ctx) d2))
      = Inr (outcome, d')"
    unfolding processRefundEvent_def withTenant_def p_def [symmetric] transaction_Inr r sum.case prod.case .
  have k: "taken d' = taken d1 \<and> (b \<or> d' = d1)"
  proof (cases "upsert_refund ctx fs e (tenant_session ctx) d1")
    case (Inr a)
    obtain n d2 where a: "a = (n, d2)" by (cases a)
    from up' [OF Inr [unfolded a]] assm [unfolded Inr a] show ?thesis
      by (cases b) (simp_all split: if_split_asm, metis mark_processed_taken, metis mark_processed_taken)
  qed (use assm in \<open>cases b; auto\<close>)
  from record_event_taken [OF r] k show ?thesis by auto
qed

lemma process_provider_taken:
  assumes "process_provider_event fe fs now e d = (Inr outcome, d')"
  shows "taken d' = insert (external_of e) (taken d)" and "external_of e \<in> taken d \<Longrightarrow> d' = d"
proof -
  have "taken d' = insert (external_of e) (taken d) \<and> (external_of e \<in> taken d \<longrightarrow> d' = d)"
  proof (cases e)
    case (SubscriptionEvent b)
    with assms process_effect [of "event_context b" fe fs now "snd (snd b)" d outcome d'] show ?thesis
      by (auto simp: taken_def split: if_splits)
  next
    case (RefundEvent b)
    with assms refund_effect [of "event_context b" fe fs now "snd (snd b)" d outcome d'] show ?thesis by simp
  qed
  then show "taken d' = insert (external_of e) (taken d)" "external_of e \<in> taken d \<Longrightarrow> d' = d" by auto
qed

lemma process_provider_failed: "process_provider_event fe fs now e d = (Inl err, d') \<Longrightarrow> d' = d"
  by (cases e) (auto simp: processBillingEvent_def processRefundEvent_def withTenant_def)

record delivery =
  dv_clock :: int
  dv_fresh_event :: string
  dv_fresh_row :: string
  dv_now :: int
  dv_request :: string
  dv_signature :: header
  dv_body :: "string option"

definition deliver :: "stripe_config \<Rightarrow> (string \<Rightarrow> string \<Rightarrow> string) \<Rightarrow> delivery \<Rightarrow> db \<Rightarrow> api_reply \<times> db" where
  "deliver c hmac v = stripe_webhook c hmac (dv_clock v) (dv_fresh_event v) (dv_fresh_row v) (dv_now v)
     (dv_request v) (dv_signature v) (dv_body v)"

fun deliver_all :: "stripe_config \<Rightarrow> (string \<Rightarrow> string \<Rightarrow> string) \<Rightarrow> delivery list \<Rightarrow> db \<Rightarrow> db" where
  "deliver_all c hmac [] d = d"
| "deliver_all c hmac (v # vs) d = deliver_all c hmac vs (snd (deliver c hmac v d))"

text \<open>A delivery either leaves the database, or an event of its payload was processed.\<close>

lemma webhook_cases:
  assumes "stripe_webhook c hmac clock fe fs now rid signature body d = (reply, d')"
  obtains (unchanged) "d' = d" "\<And>o'. rp_payload reply \<noteq> rp_payload (received [(''outcome'', JStr (outcome_name o'))])"
    | (processed) s payload e outcome where "signature = OneHeader s" "body = Some payload"
        "read_provider_event c hmac clock payload s = Inr (Some e)"
        "process_provider_event fe fs now e d = (Inr outcome, d')"
        "reply = received [(''outcome'', JStr (outcome_name outcome))]"
proof -
  have p: "rp_payload (problem_reply rid st ti) \<noteq> rp_payload (received kvs)" for st ti kvs
    by (simp add: problem_reply_def received_def webhook_problem_def)
  have i: "rp_payload (received [(''ignored'', x)]) \<noteq> rp_payload (received [(''outcome'', y)])" for x y
    by (simp add: received_def)
  show thesis
  proof (cases "\<exists>s payload e outcome. signature = OneHeader s \<and> body = Some payload
      \<and> read_provider_event c hmac clock payload s = Inr (Some e)
      \<and> process_provider_event fe fs now e d = (Inr outcome, d')
      \<and> reply = received [(''outcome'', JStr (outcome_name outcome))]")
    case True
    then show ?thesis by (elim exE conjE) (rule processed)
  next
    case False
    show ?thesis
    proof (rule unchanged)
      show "d' = d" using assms False process_provider_failed
        by (fastforce simp: stripe_webhook_def split: header.splits option.splits sum.splits prod.splits)
      show "rp_payload reply \<noteq> rp_payload (received [(''outcome'', JStr (outcome_name o'))])" for o'
        using assms False p i
        by (fastforce simp: stripe_webhook_def split: header.splits option.splits sum.splits prod.splits)
    qed
  qed
qed

lemma deliver_taken: "taken d \<subseteq> taken (snd (deliver c hmac v d))"
proof -
  obtain reply d' where r: "deliver c hmac v d = (reply, d')" by (cases "deliver c hmac v d")
  then have "stripe_webhook c hmac (dv_clock v) (dv_fresh_event v) (dv_fresh_row v) (dv_now v)
     (dv_request v) (dv_signature v) (dv_body v) d = (reply, d')" by (simp add: deliver_def)
  then show ?thesis
    by (cases rule: webhook_cases) (auto simp: r dest: process_provider_taken(1))
qed

lemma deliver_all_taken: "taken d \<subseteq> taken (deliver_all c hmac vs d)"
  by (induction vs arbitrary: d) (auto dest: subsetD [OF deliver_taken])

lemma read_provider_payload:
  assumes "read_provider_event c hmac clock payload s = Inr (Some e)"
    and "read_provider_event c hmac clock' payload s' = Inr (Some e')"
  shows "e' = e"
proof -
  obtain w where w: "verifyWebhook c hmac clock payload s = Inr w"
    using assms(1) by (auto simp: read_provider_event_def)
  obtain w' where w': "verifyWebhook c hmac clock' payload s' = Inr w'"
    using assms(2) by (auto simp: read_provider_event_def)
  from verified_signed(2) [OF w] verified_signed(2) [OF w'] have "w' = w" by auto
  then have "read_provider_event c hmac clock' payload s' = read_provider_event c hmac clock payload s"
    by (simp add: read_provider_event_def w w' del: res_bind_eq_Inr)
  with assms show ?thesis by simp
qed

section \<open>Properties\<close>

text \<open>C10: A webhook changes the database only when one of the signatures of its header is the MAC,
  under the configured secret, of a timestamp at most 300 seconds away and of the bytes of the body,
  and then only in the tenant that the signed body names.\<close>

theorem webhook_needs_signature:
  assumes "stripe_webhook c hmac clock fe fs now rid signature body d = (reply, d')" and "d' \<noteq> d"
  shows "\<exists>header payload org hh. signature = OneHeader header \<and> body = Some payload
    \<and> signed c hmac clock payload header \<and> payload_tenant payload = Some (org, hh)
    \<and> foreign (tenant_session \<lparr> tc_org = org, tc_hh = hh, tc_actor = org \<rparr>) d'
      = foreign (tenant_session \<lparr> tc_org = org, tc_hh = hh, tc_actor = org \<rparr>) d"
  using assms(1)
proof (cases rule: webhook_cases)
  case (processed s payload e outcome)
  have f: "foreign (tenant_pair (tenant_of e)) d' = foreign (tenant_pair (tenant_of e)) d"
    by (rule process_provider_foreign [OF processed(4)])
  obtain org hh where t: "tenant_of e = (org, hh)" by (cases "tenant_of e")
  show ?thesis
    using processed(1,2) read_provider_event_Inr [OF processed(3)] f unfolding t tenant_pair_def by auto
qed (use assms(2) in simp)

text \<open>C20: An event is applied once: after a webhook answered with an outcome, and whatever webhooks
  were delivered since, delivering the same body again, under any signature and at any time, leaves
  the database as it is.\<close>

theorem webhook_applied_once:
  assumes "deliver c hmac v d = (received [(''outcome'', JStr (outcome_name o'))], d1)"
    and "dv_body v' = dv_body v" and "d2 = deliver_all c hmac vs d1"
  shows "snd (deliver c hmac v' d2) = d2"
proof -
  from assms(1) have "stripe_webhook c hmac (dv_clock v) (dv_fresh_event v) (dv_fresh_row v) (dv_now v)
     (dv_request v) (dv_signature v) (dv_body v) d = (received [(''outcome'', JStr (outcome_name o'))], d1)"
    by (simp add: deliver_def)
  then obtain s payload e outcome where b: "dv_body v = Some payload"
    and e: "read_provider_event c hmac (dv_clock v) payload s = Inr (Some e)"
    and p: "process_provider_event (dv_fresh_event v) (dv_fresh_row v) (dv_now v) e d = (Inr outcome, d1)"
  proof (cases rule: webhook_cases)
    case unchanged
    from unchanged(2) [of o'] show ?thesis by simp
  qed (use that in auto)
  have x: "external_of e \<in> taken d2"
    using process_provider_taken(1) [OF p] deliver_all_taken [of d1 c hmac vs] assms(3) by auto
  obtain reply d3 where r: "deliver c hmac v' d2 = (reply, d3)" by (cases "deliver c hmac v' d2")
  then have "stripe_webhook c hmac (dv_clock v') (dv_fresh_event v') (dv_fresh_row v') (dv_now v')
     (dv_request v') (dv_signature v') (dv_body v') d2 = (reply, d3)" by (simp add: deliver_def)
  then show ?thesis
  proof (cases rule: webhook_cases)
    case (processed s' payload' e' outcome')
    from processed(2) b assms(2) have "payload' = payload" by simp
    with processed(3) e read_provider_payload have "e' = e" by blast
    with processed(4) process_provider_taken(2) [of _ _ _ e d2] x have "d3 = d2" by blast
    with r show ?thesis by simp
  qed (use r in simp)
qed

section \<open>A signed delivery\<close>

definition sample_stripe :: stripe_config where
  "sample_stripe = \<lparr> sc_secret = None, sc_webhook = Some ''whsec'', sc_price = None, sc_base = None \<rparr>"

definition sample_mac :: "string \<Rightarrow> string \<Rightarrow> string" where
  "sample_mac key m = replicate 32 (CHR ''a'')"

abbreviation sample_org :: string where "sample_org \<equiv> ''11111111-1111-4111-8111-111111111111''"
abbreviation sample_hh :: string where "sample_hh \<equiv> ''22222222-2222-4222-8222-222222222222''"

definition sample_object :: json where
  "sample_object = JObj [(''id'', JStr ''sub_1''), (''customer'', JStr ''cus_1''), (''status'', JStr ''active''),
     (''metadata'', JObj [(''legacy_organization_id'', JStr sample_org), (''legacy_household_id'', JStr sample_hh),
        (''legacy_plan'', JStr ''essential'')])]"

definition sample_payload :: json where
  "sample_payload = JObj [(''id'', JStr ''evt_1''), (''type'', JStr ''customer.subscription.updated''),
     (''created'', JNum 100), (''data'', JObj [(''object'', sample_object)])]"

definition sample_signature :: string where
  "sample_signature = ''t=100,v1='' @ concat (replicate 32 ''61'')"

definition sample_delivery :: delivery where
  "sample_delivery = \<lparr> dv_clock = 130, dv_fresh_event = ''e'', dv_fresh_row = ''s'', dv_now = 130000,
     dv_request = ''r'', dv_signature = OneHeader sample_signature,
     dv_body = Some (utf8_bytes (json_stringify sample_payload)) \<rparr>"

definition sample_subscription :: billing_event where
  "sample_subscription = \<lparr> ev_external = ''evt_1'', ev_type = ''customer.subscription.updated'', ev_created = 100000,
     ev_customer = ''cus_1'', ev_subscription = ''sub_1'', ev_status = ''active'', ev_plan = ''essential'',
     ev_trial_ends = None, ev_period_ends = None, ev_cancel_at_end = False, ev_canceled = None \<rparr>"

lemma sample_payload_parses: "parse_payload (utf8_bytes (json_stringify sample_payload)) = Inr sample_payload"
proof -
  have "json_wf sample_payload" by code_simp
  then show ?thesis by (simp add: parse_payload_def)
qed

lemma sample_header:
  "signature_timestamp sample_signature = Some 100"
  "signature_values sample_signature = [concat (replicate 32 ''61'')]"
proof -
  have "find (\<lambda>(k, v). k = ''t'') (signature_entries sample_signature) = Some (''t'', Some ''100'')" by code_simp
  moreover have "safe_integer_of_text ''100'' = Some 100"
    using safe_integer_of_dec_nat [of 100] by code_simp
  ultimately show "signature_timestamp sample_signature = Some 100" by (simp add: signature_timestamp_def)
  show "signature_values sample_signature = [concat (replicate 32 ''61'')]" by code_simp
qed

lemma sample_read:
  "read_provider_event sample_stripe sample_mac 130 (utf8_bytes (json_stringify sample_payload)) sample_signature
     = Inr (Some (SubscriptionEvent (sample_org, sample_hh, sample_subscription)))"
proof -
  have "hex_bytes (concat (replicate 32 ''61'')) = replicate 32 (CHR ''a'')" by code_simp
  then have "verifyWebhook sample_stripe sample_mac 130 (utf8_bytes (json_stringify sample_payload)) sample_signature
      = read_webhook_event sample_payload"
    by (simp add: verifyWebhook_def sample_stripe_def configured_def sample_header sample_payload_parses
        webhook_digest_def sample_mac_def)
  moreover have "read_webhook_event sample_payload = Inr \<lparr> we_id = JStr ''evt_1'',
      we_type = JStr ''customer.subscription.updated'', we_created = JNum 100,
      we_data = Some (JObj [(''object'', sample_object)]) \<rparr>"
    by code_simp
  moreover have "normalizeSubscriptionEvent \<lparr> we_id = JStr ''evt_1'',
      we_type = JStr ''customer.subscription.updated'', we_created = JNum 100,
      we_data = Some (JObj [(''object'', sample_object)]) \<rparr> = Inr (Some (sample_org, sample_hh, sample_subscription))"
    by code_simp
  ultimately show ?thesis by (simp add: read_provider_event_def)
qed

lemma sample_delivered:
  "\<exists>d1. deliver sample_stripe sample_mac sample_delivery empty_db
     = (received [(''outcome'', JStr (outcome_name Applied))], d1) \<and> d1 \<noteq> empty_db"
proof -
  obtain out d1 where p: "process_provider_event ''e'' ''s'' 130000
      (SubscriptionEvent (sample_org, sample_hh, sample_subscription)) empty_db = (out, d1)" by fastforce
  then have "out = Inr Applied \<and> d1 \<noteq> empty_db"
    by (auto simp: processBillingEvent_def event_context_def withTenant_def transaction_def record_event_def Let_def
        sql_insert_def upsert_subscription_def sql_select_def empty_db_def new_subscription_def mark_processed_def
        tenant_visible_def tenant_session_def)
  with p sample_read show ?thesis
    by (auto simp: deliver_def stripe_webhook_def sample_delivery_def)
qed

theorem webhook_needs_signature_witness:
  "\<exists>d'. d' \<noteq> empty_db \<and> signed sample_stripe sample_mac 130 (utf8_bytes (json_stringify sample_payload)) sample_signature
     \<and> snd (deliver sample_stripe sample_mac sample_delivery empty_db) = d'"
proof -
  obtain d1 where d: "deliver sample_stripe sample_mac sample_delivery empty_db
      = (received [(''outcome'', JStr (outcome_name Applied))], d1)" "d1 \<noteq> empty_db"
    using sample_delivered by blast
  have "stripe_webhook sample_stripe sample_mac 130 ''e'' ''s'' 130000 ''r'' (OneHeader sample_signature)
      (Some (utf8_bytes (json_stringify sample_payload))) empty_db
      = (received [(''outcome'', JStr (outcome_name Applied))], d1)"
    using d(1) by (simp add: deliver_def sample_delivery_def)
  from webhook_needs_signature [OF this d(2)] d show ?thesis by auto
qed

theorem webhook_applied_once_witness:
  "\<exists>d1. d1 \<noteq> empty_db \<and> snd (deliver sample_stripe sample_mac sample_delivery empty_db) = d1
     \<and> snd (deliver sample_stripe sample_mac (sample_delivery \<lparr> dv_fresh_event := ''f'' \<rparr>) d1) = d1"
proof -
  obtain d1 where d: "deliver sample_stripe sample_mac sample_delivery empty_db
      = (received [(''outcome'', JStr (outcome_name Applied))], d1)" "d1 \<noteq> empty_db"
    using sample_delivered by blast
  have "snd (deliver sample_stripe sample_mac (sample_delivery \<lparr> dv_fresh_event := ''f'' \<rparr>) d1) = d1"
    by (rule webhook_applied_once [OF d(1), where vs = "[]"]) simp_all
  with d show ?thesis by simp
qed

end
