(* ===== verification/Household_Routes.thy ===== *)
theory Household_Routes
  imports Vault_Api
begin

text \<open>
  \<open>apps/api/src/routes/households.ts\<close>: households of an account, members of a household, and the
  invitations between them.  The routes have helpers and an error handler of their own.
\<close>

section \<open>Dependencies and readers\<close>

type_synonym 'x authorizer = "tenant_identity \<Rightarrow> string \<Rightarrow> permission_action \<Rightarrow> string \<Rightarrow> ('x, unit) world_op"

record 'x household_dependencies =
  hd_pg_message :: "string \<Rightarrow> string"
  hd_resolveAccount :: "api_request \<Rightarrow> ('x, string \<times> string) world_op"
  hd_resolveIdentity :: "api_request \<Rightarrow> ('x, tenant_identity) world_op"
  hd_authorizeIdentity :: "'x authorizer option"
  hd_createHousehold :: "string \<times> string \<Rightarrow> string \<Rightarrow> string \<Rightarrow> string \<Rightarrow> string \<Rightarrow> ('x, json) world_op"
  hd_listHouseholds :: "string \<times> string \<Rightarrow> ('x, json) world_op"
  hd_listMembers :: "tenant_identity \<Rightarrow> ('x, json) world_op"
  hd_createInvitation :: "tenant_identity \<Rightarrow> string \<Rightarrow> role \<Rightarrow> int \<Rightarrow> string \<Rightarrow> ('x, json) world_op"
  hd_acceptInvitation :: "string \<times> string \<Rightarrow> string \<Rightarrow> string \<Rightarrow> int \<Rightarrow> string \<Rightarrow> ('x, json) world_op"
  hd_revokeInvitation :: "tenant_identity \<Rightarrow> string \<Rightarrow> int \<Rightarrow> string \<Rightarrow> ('x, json) world_op"
  hd_updateMemberRole :: "tenant_identity \<Rightarrow> string \<Rightarrow> role \<Rightarrow> int \<Rightarrow> string \<Rightarrow> ('x, json) world_op"

text \<open>A Latin-1 text of \<open>n\<close> characters is never longer than \<open>2 n\<close> bytes; the test stays as it is written.\<close>

definition boundedName :: "json \<Rightarrow> string \<Rightarrow> nat \<Rightarrow> api_error + string" where
  "boundedName body field most = (case jfield body field of
       Some (JStr s) \<Rightarrow>
         (let normalized = trim s in
          if normalized = [] then Inl (invalid (field @ '' is required''))
          else if most < length normalized \<or> most * 4 < byte_length normalized
          then Inl (invalid (field @ '' is too large''))
          else if scanDlp normalized \<noteq> []
          then Inl (Problem 400 ''Prohibited content'' (field @ '' contains prohibited content''))
          else Inr normalized)
     | _ \<Rightarrow> Inl (invalid (field @ '' is required'')))"

definition positiveVersion :: "api_request \<Rightarrow> api_error + int" where
  "positiveVersion rq = (case header_integer (rq_headers rq ''if-match'') of
       Some v \<Rightarrow> if v < 1 then Inl (invalid ''a valid positive if-match version is required'') else Inr v
     | None \<Rightarrow> Inl (invalid ''a valid positive if-match version is required''))"

text \<open>\<open>toLowerCase\<close> of a Latin-1 text.\<close>

definition lower_char :: "char \<Rightarrow> char" where
  "lower_char c = (let n = (of_char c :: nat) in
     if 65 \<le> n \<and> n \<le> 90 \<or> 192 \<le> n \<and> n \<le> 222 \<and> n \<noteq> 215 then char_of (n + 32) else c)"

definition lower_text :: "string \<Rightarrow> string" where
  "lower_text s = map lower_char s"

definition email_re :: re where
  "email_re = (let part = Rep (Cls (\<lambda>c. \<not> js_space c \<and> c \<noteq> CHR ''@'')) 1 None in
     whole (seqs [part, lit ''@'', part, lit ''.'', part]))"

definition invitationEmail :: "json \<Rightarrow> api_error + string" where
  "invitationEmail body = (case jfield body ''email'' of
       Some (JStr s) \<Rightarrow>
         (let normalized = lower_text (trim s) in
          if 254 < length normalized \<or> \<not> re_test email_re normalized then Inl (invalid ''email is invalid'')
          else Inr normalized)
     | _ \<Rightarrow> Inl (invalid ''email is required''))"

definition invitationalRoles :: "role list" where
  "invitationalRoles = [CoOwner, Editor, FamilyHelper, ProfessionalAdvisor, ReadOnlyViewer, EmergencyRecipient]"

definition invitational_role :: "string \<Rightarrow> json \<Rightarrow> api_error + role" where
  "invitational_role message body = (case jfield body ''role'' of
       Some (JStr s) \<Rightarrow> (case find (\<lambda>r. role_name r = s) invitationalRoles of
           Some r \<Rightarrow> Inr r | None \<Rightarrow> Inl (invalid message))
     | _ \<Rightarrow> Inl (invalid message))"

definition token_re :: re where
  "token_re = whole (times 43 (cor alnum (one_of ''_-'')))"

definition path_token :: "api_request \<Rightarrow> api_error + string" where
  "path_token rq = (case rq_params rq ''token'' of
       Some t \<Rightarrow> if re_test token_re t then Inr t else Inl (invalid ''invitation token is invalid'')
     | None \<Rightarrow> Inl (invalid ''invitation token is invalid''))"

text \<open>The identifier of the path is taken as it is; the schema of the route has it a UUID.\<close>

definition raw_path_id :: "api_request \<Rightarrow> string" where
  "raw_path_id rq = (case rq_params rq ''id'' of Some i \<Rightarrow> i | None \<Rightarrow> ''undefined'')"

section \<open>The error handler\<close>

definition household_problem_of :: "(string \<Rightarrow> string) \<Rightarrow> api_error \<Rightarrow> int \<times> string \<times> string" where
  "household_problem_of pg e = (case e of
       Raised r \<Rightarrow>
         if err_name r = ''AuthenticationRequiredError''
         then (401, ''Authentication required'', ''A verified account session is required.'')
         else if err_name r \<notin> {''HouseholdSelectionRequiredError'', ''AuthorizationDeniedError''}
           \<and> includes_text ''membership invitation unavailable'' (err_message pg r)
         then (404, ''Invitation unavailable'',
           ''The invitation is invalid, expired, already used, or not addressed to this account.'')
         else problem_of pg e
     | _ \<Rightarrow> problem_of pg e)"

section \<open>Handlers\<close>

fun approve_each :: "'x household_dependencies \<Rightarrow> tenant_identity \<Rightarrow> string \<Rightarrow> string list \<Rightarrow> ('x, unit) api" where
  "approve_each d i purpose [] = api_return ()"
| "approve_each d i purpose (c # cs) = api_bind (case hd_authorizeIdentity d of
       None \<Rightarrow> api_return () | Some a \<Rightarrow> api_call (a i c Approve purpose)) (\<lambda>_. approve_each d i purpose cs)"

definition manager :: "'x household_dependencies \<Rightarrow> string \<Rightarrow> api_request \<Rightarrow> ('x, tenant_identity) api" where
  "manager d purpose rq = api_bind (api_call (hd_resolveIdentity d rq)) (\<lambda>i.
     api_bind (approve_each d i purpose category_names) (\<lambda>_. api_return i))"

definition get_households :: "'x household_dependencies \<Rightarrow> api_request \<Rightarrow> ('x, api_reply) api" where
  "get_households d rq = api_bind (api_call (hd_resolveAccount d rq)) (\<lambda>account.
     api_bind (api_call (hd_listHouseholds d account)) (\<lambda>hs.
     send_private 200 (JObj [(''households'', hs)])))"

definition post_household :: "'x household_dependencies \<Rightarrow> api_request \<Rightarrow> ('x, api_reply) api" where
  "post_household d rq = api_bind (api_call (hd_resolveAccount d rq)) (\<lambda>account.
     api_bind (api_lift (objectBody (rq_body rq))) (\<lambda>body.
     api_bind (api_lift (idempotencyKey rq)) (\<lambda>key.
     api_bind (api_lift (boundedName body ''organizationName'' 120)) (\<lambda>organizationName.
     api_bind (api_lift (boundedName body ''householdName'' 120)) (\<lambda>householdName.
     api_bind (api_lift (boundedName body ''ownerDisplayName'' 160)) (\<lambda>ownerDisplayName.
     api_bind (api_call (hd_createHousehold d account key organizationName householdName ownerDisplayName)) (\<lambda>v.
     send 201 v)))))))"

definition get_members :: "'x household_dependencies \<Rightarrow> api_request \<Rightarrow> ('x, api_reply) api" where
  "get_members d rq = api_bind (manager d ''vault.member.list'' rq) (\<lambda>i.
     api_bind (api_call (hd_listMembers d i)) (\<lambda>ms. send_private 200 (JObj [(''members'', ms)])))"

definition post_invitation :: "'x household_dependencies \<Rightarrow> api_request \<Rightarrow> ('x, api_reply) api" where
  "post_invitation d rq = api_bind (manager d ''vault.member.invite'' rq) (\<lambda>i.
     api_bind (api_lift (objectBody (rq_body rq))) (\<lambda>body.
     api_bind (api_lift (invitational_role ''role is not invitational'' body)) (\<lambda>invited.
     api_bind (api_lift (invitationEmail body)) (\<lambda>email.
     api_bind (api_lift (positiveVersion rq)) (\<lambda>version.
     api_bind (api_lift (idempotencyKey rq)) (\<lambda>key.
     api_bind (api_call (hd_createInvitation d i email invited version key)) (\<lambda>v.
     send 201 v)))))))"

definition post_acceptance :: "'x household_dependencies \<Rightarrow> api_request \<Rightarrow> ('x, api_reply) api" where
  "post_acceptance d rq = api_bind (api_call (hd_resolveAccount d rq)) (\<lambda>account.
     api_bind (api_lift (objectBody (rq_body rq))) (\<lambda>body.
     api_bind (api_lift (path_token rq)) (\<lambda>token.
     api_bind (api_lift (boundedName body ''displayName'' 160)) (\<lambda>displayName.
     api_bind (api_lift (positiveVersion rq)) (\<lambda>version.
     api_bind (api_lift (idempotencyKey rq)) (\<lambda>key.
     api_bind (api_call (hd_acceptInvitation d account token displayName version key)) (\<lambda>v.
     send 200 v)))))))"

definition post_revocation :: "'x household_dependencies \<Rightarrow> api_request \<Rightarrow> ('x, api_reply) api" where
  "post_revocation d rq = api_bind (manager d ''vault.member.invitation.revoke'' rq) (\<lambda>i.
     api_bind (api_lift (positiveVersion rq)) (\<lambda>version.
     api_bind (api_lift (idempotencyKey rq)) (\<lambda>key.
     api_bind (api_call (hd_revokeInvitation d i (raw_path_id rq) version key)) (\<lambda>v.
     send 200 v))))"

definition post_role :: "'x household_dependencies \<Rightarrow> api_request \<Rightarrow> ('x, api_reply) api" where
  "post_role d rq = api_bind (manager d ''vault.member.role.update'' rq) (\<lambda>i.
     api_bind (api_lift (objectBody (rq_body rq))) (\<lambda>body.
     api_bind (api_lift (invitational_role ''role is not assignable'' body)) (\<lambda>new_role.
     api_bind (api_lift (positiveVersion rq)) (\<lambda>version.
     api_bind (api_lift (idempotencyKey rq)) (\<lambda>key.
     api_bind (api_call (hd_updateMemberRole d i (raw_path_id rq) new_role version key)) (\<lambda>v.
     send 200 v))))))"

datatype household_route = GetHouseholds | PostHousehold | GetMembers | PostInvitation | AcceptInvitation
  | RevokeInvitation | PostRole

fun household_handler :: "household_route \<Rightarrow> 'x household_dependencies \<Rightarrow> api_request \<Rightarrow> ('x, api_reply) api" where
  "household_handler GetHouseholds = get_households"
| "household_handler PostHousehold = post_household"
| "household_handler GetMembers = get_members"
| "household_handler PostInvitation = post_invitation"
| "household_handler AcceptInvitation = post_acceptance"
| "household_handler RevokeInvitation = post_revocation"
| "household_handler PostRole = post_role"

definition serve_household ::
  "'x household_dependencies \<Rightarrow> household_route \<Rightarrow> api_request \<Rightarrow> 'x \<Rightarrow> api_reply \<times> 'x" where
  "serve_household d r rq = respond (household_problem_of (hd_pg_message d)) rq (household_handler r d rq)"

end
