(* ===== verification/Observability.thy ===== *)
theory Observability
  imports Stripe_Adapter
begin

text \<open>
  \<open>packages/observability\<close>: metrics, logs and error reports that may hold no content.  Every value
  that leaves the process goes through the checks below; the exporters are parameters.
\<close>

section \<open>Content-free values\<close>

definition metricNames :: "string list" where
  "metricNames = [''legacy_http_request_duration_ms'', ''legacy_http_requests_total'', ''legacy_queue_depth'',
     ''legacy_queue_failures_total'', ''legacy_db_pool_waiting'', ''legacy_object_failures_total'',
     ''legacy_auth_failures_total'', ''legacy_ai_request_duration_ms'', ''legacy_ai_input_tokens_total'',
     ''legacy_ai_output_tokens_total'', ''legacy_ai_cache_hit_tokens_total'', ''legacy_ai_cache_miss_tokens_total'',
     ''legacy_ai_cost_usd_total'', ''legacy_ai_dlp_findings_total'', ''legacy_ai_retries_total'',
     ''legacy_ai_schema_success_total'', ''legacy_deletion_backlog'', ''legacy_privacy_request_oldest_age_seconds'',
     ''legacy_export_failures_total'', ''legacy_report_duration_ms'', ''legacy_emergency_requests_total'',
     ''legacy_tenant_isolation_denials_total'', ''legacy_audit_chain_failures_total'', ''legacy_backup_failures_total'']"

definition labelKeys :: "string list" where
  "labelKeys = [''service'', ''environment'', ''method'', ''route'', ''status_class'', ''operation'', ''queue'', ''provider'',
     ''task_family'', ''prompt_version'', ''model'', ''mode'', ''outcome'', ''error_class'', ''policy_decision'']"

definition lower_alnum :: "char \<Rightarrow> bool" where
  "lower_alnum = cor (crange CHR ''a'' CHR ''z'') (crange CHR ''0'' CHR ''9'')"

definition tail_char :: "char \<Rightarrow> bool" where
  "tail_char = cor lower_alnum (one_of ''._:/-'')"

definition canonicalValue :: re where
  "canonicalValue = whole (Seq (Cls lower_alnum) (Rep (Cls tail_char) 0 (Some 159)))"

definition contentFreeLabelValue :: re where
  "contentFreeLabelValue = whole (Seq (Cls (cor lower_alnum (one_of ''/''))) (Rep (Cls tail_char) 0 (Some 159)))"

definition errorClassValue :: re where
  "errorClassValue = whole (Seq (Cls (cor (crange CHR ''A'' CHR ''Z'') (crange CHR ''a'' CHR ''z'')))
     (Rep (Cls (cor alnum (one_of ''.''))) 0 (Some 119)))"

definition a_digit :: "char \<Rightarrow> bool" where
  "a_digit = crange CHR ''0'' CHR ''9''"

definition forbiddenValue :: re where
  "forbiddenValue = alts [
     seqs [lit_i ''bearer'', Rep (Cls js_space) 1 None, Rep (Cls (\<lambda>c. \<not> js_space c)) 1 None],
     Seq (lit_i ''sk-'') (Rep (Cls (nocase lower_alnum)) 12 None),
     lit_i ''-----BEGIN'',
     seqs [Bound, times 3 a_digit, lit ''-'', times 2 a_digit, lit ''-'', times 4 a_digit, Bound],
     seqs [Bound, Rep (Seq (Cls a_digit) (Rep (Cls (one_of '' -'')) 0 None)) 13 (Some 19), Bound],
     seqs [Bound, Rep (Cls (cor alnum (one_of ''._%+-''))) 1 None, lit ''@'', Rep (Cls (cor alnum (one_of ''.-''))) 1 None,
       lit ''.'', Rep (Cls (nocase (crange CHR ''A'' CHR ''Z''))) 2 None, Bound]]"

definition forbiddenKeys :: re where
  "forbiddenKeys = alts (map lit_i [''payload'', ''body'', ''document'', ''content'', ''prompt'', ''output'', ''cookie'',
     ''authorization'', ''credential'', ''password'', ''secret'', ''token'', ''signedurl'', ''signed_url'', ''signed-url'',
     ''ciphertext'', ''plaintext'', ''email'', ''name'', ''address'', ''phone'', ''ssn'', ''card''])"

definition assertCanonical :: "string \<Rightarrow> string \<Rightarrow> unit result" where
  "assertCanonical v field = (if \<not> re_test canonicalValue v \<or> re_test forbiddenValue v
     then Inl (js_error (field @ '' is not content-free'')) else Inr ())"

definition assertErrorClass :: "string \<Rightarrow> unit result" where
  "assertErrorClass v = (if \<not> re_test errorClassValue v \<or> re_test forbiddenValue v
     then Inl (js_error ''error class is invalid'') else Inr ())"

definition identifier_re :: re where
  "identifier_re = whole (Rep (Cls (cor alnum (one_of ''_-''))) 1 (Some 128))"

definition assertIdentifier :: "string \<Rightarrow> string \<Rightarrow> unit result" where
  "assertIdentifier v field = (if \<not> re_test identifier_re v then Inl (js_error (field @ '' is invalid'')) else Inr ())"

definition assertPseudonym :: "string \<Rightarrow> string \<Rightarrow> unit result" where
  "assertPseudonym v kind = (if \<not> re_test (whole (Seq (lit (kind @ ''_'')) (times 16 hex_digit))) v
     then Inl (js_error (kind @ '' pseudonym is invalid'')) else Inr ())"

definition assertContentFreeValue :: "string \<Rightarrow> string \<Rightarrow> unit result" where
  "assertContentFreeValue v field = (if \<not> re_test contentFreeLabelValue v \<or> re_test forbiddenValue v
     then Inl (js_error (field @ '' is not content-free'')) else Inr ())"

text \<open>Labels, tags and span attributes: allowed keys with content-free values.\<close>

fun check_labels :: "string \<Rightarrow> string \<Rightarrow> (string \<times> string) list \<Rightarrow> unit result" where
  "check_labels what prefix [] = Inr ()"
| "check_labels what prefix ((key, v) # rest) =
     (if key \<notin> set labelKeys then Inl (js_error (what @ '' is not allowed''))
      else res_bind (assertContentFreeValue v (prefix @ key)) (\<lambda>_. check_labels what prefix rest))"

section \<open>Metrics\<close>

record metric_point =
  mp_name :: string
  mp_value :: rat
  mp_labels :: "(string \<times> string) list"
  mp_observed :: int

record metric_registry =
  mr_limit :: nat
  mr_points :: "metric_point list"

definition new_registry :: "int \<Rightarrow> metric_registry result" where
  "new_registry limit = (if \<not> is_safe_integer limit \<or> limit < 1 \<or> limit > 100000
     then Inl (js_error ''metric registry limit is invalid'')
     else Inr \<lparr> mr_limit = nat limit, mr_points = [] \<rparr>)"

text \<open>The labels sorted by their keys; the value is a finite number.\<close>

definition sorted_labels :: "(string \<Rightarrow> 'k::linorder) \<Rightarrow> (string \<times> string) list \<Rightarrow> (string \<times> string) list" where
  "sorted_labels collate labels = sort_key (\<lambda>l. collate (fst l)) labels"

definition metric_record ::
  "(string \<Rightarrow> 'k::linorder) \<Rightarrow> int \<Rightarrow> string \<Rightarrow> rat \<Rightarrow> (string \<times> string) list \<Rightarrow> metric_registry
   \<Rightarrow> unit result \<times> metric_registry" where
  "metric_record collate now name v labels r =
     (if name \<notin> set metricNames then (Inl (js_error ''metric name is not allowed''), r)
      else if v < 0 then (Inl (js_error ''metric value is invalid''), r)
      else (case check_labels ''metric label'' ''metric label '' (sorted_labels collate labels) of
          Inl e \<Rightarrow> (Inl e, r)
        | Inr _ \<Rightarrow> (let points = mr_points r @ [\<lparr> mp_name = name, mp_value = v, mp_labels = sorted_labels collate labels,
              mp_observed = now \<rparr>] in
            (Inr (), r \<lparr> mr_points := (if mr_limit r < length points then tl points else points) \<rparr>))))"

definition aggregate :: "metric_registry \<Rightarrow> string \<Rightarrow> rat" where
  "aggregate r name = foldl (\<lambda>total p. total + mp_value p) 0 (filter (\<lambda>p. mp_name p = name) (mr_points r))"

section \<open>The health of the dependencies\<close>

datatype health_status = HealthReady | HealthDegraded | HealthFailed

record health_entry =
  he_status :: health_status
  he_checked :: int
  he_error :: "string option"

type_synonym health_registry = "(string \<times> health_entry) list"

definition health_record ::
  "int \<Rightarrow> string \<Rightarrow> health_status \<Rightarrow> string option \<Rightarrow> health_registry \<Rightarrow> unit result \<times> health_registry" where
  "health_record now dependency status error_class h =
     (case res_bind (assertCanonical dependency ''dependency'') (\<lambda>_.
        case configured error_class of None \<Rightarrow> Inr () | Some e \<Rightarrow> assertErrorClass e) of
      Inl e \<Rightarrow> (Inl e, h)
    | Inr _ \<Rightarrow> (let entry = \<lparr> he_status = status, he_checked = now, he_error = configured error_class \<rparr> in
        (Inr (), if dependency \<in> fst ` set h then map (\<lambda>(k, v). (k, if k = dependency then entry else v)) h
                 else h @ [(dependency, entry)])))"

definition health_snapshot :: "(string \<Rightarrow> 'k::linorder) \<Rightarrow> health_registry \<Rightarrow> health_status \<times> health_registry" where
  "health_snapshot collate h = (let states = map (\<lambda>e. he_status (snd e)) h in
     (if HealthFailed \<in> set states then HealthFailed else if HealthDegraded \<in> set states then HealthDegraded else HealthReady,
      sort_key (\<lambda>e. collate (fst e)) h))"

section \<open>Logs\<close>

record log_input =
  li_level :: string
  li_service :: string
  li_environment :: string
  li_request :: string
  li_trace :: string
  li_action :: string
  li_outcome :: string
  li_duration :: rat
  li_tenant :: "string option"
  li_actor :: "string option"
  li_policy :: "string option"
  li_error :: "string option"

record log_record = log_input +
  lr_timestamp :: int

definition when_set :: "string option \<Rightarrow> (string \<Rightarrow> unit result) \<Rightarrow> unit result" where
  "when_set v check = (case configured v of None \<Rightarrow> Inr () | Some s \<Rightarrow> check s)"

definition trace_id_re :: re where
  "trace_id_re = whole (times 32 (cor (crange CHR ''a'' CHR ''f'') (crange CHR ''0'' CHR ''9'')))"

text \<open>The fields of the input are those of the allow list, none of which is forbidden.\<close>

definition telemetry_log :: "int \<Rightarrow> log_input \<Rightarrow> log_record result" where
  "telemetry_log now i =
     res_bind (assertCanonical (li_service i) ''service'') (\<lambda>_.
     res_bind (assertCanonical (li_environment i) ''environment'') (\<lambda>_.
     res_bind (assertIdentifier (li_request i) ''request ID'') (\<lambda>_.
     res_bind (guard (re_test trace_id_re (li_trace i)) (js_error ''trace ID is invalid'')) (\<lambda>_.
     res_bind (assertCanonical (li_action i) ''action'') (\<lambda>_.
     res_bind (guard (0 \<le> li_duration i) (js_error ''duration is invalid'')) (\<lambda>_.
     res_bind (when_set (li_tenant i) (\<lambda>v. assertPseudonym v ''tenant'')) (\<lambda>_.
     res_bind (when_set (li_actor i) (\<lambda>v. assertPseudonym v ''actor'')) (\<lambda>_.
     res_bind (when_set (li_policy i) (\<lambda>v. assertCanonical v ''policy decision'')) (\<lambda>_.
     res_bind (when_set (li_error i) assertErrorClass) (\<lambda>_.
     Inr (log_input.extend (i \<lparr> li_tenant := configured (li_tenant i), li_actor := configured (li_actor i),
       li_policy := configured (li_policy i), li_error := configured (li_error i) \<rparr>) \<lparr> lr_timestamp = now \<rparr>)))))))))))"

text \<open>What an error report carries: the name of the error, never its message.\<close>

definition captureException ::
  "string option \<Rightarrow> err option \<Rightarrow> (string \<times> string) list \<Rightarrow> (string \<times> (string \<times> string) list) option result" where
  "captureException sentry_dsn error tags = res_bind (check_labels ''error tag'' ''error tag '' tags) (\<lambda>_.
     Inr (if configured sentry_dsn = None then None
       else Some (case error of Some e \<Rightarrow> err_name e | None \<Rightarrow> ''UnknownError'', tags)))"

definition span_checks :: "string \<Rightarrow> (string \<times> string) list \<Rightarrow> unit result" where
  "span_checks name attributes = res_bind (assertCanonical name ''span name'') (\<lambda>_.
     check_labels ''span attribute'' [] attributes)"

section \<open>Alerts, traces and configuration\<close>

record alert_signal =
  al_id :: string
  al_severity :: string
  al_value :: rat
  al_runbook :: string

definition alert_rules :: "(string \<times> rat \<times> string \<times> string) list" where
  "alert_rules = [(''legacy_tenant_isolation_denials_total'', 1, ''critical'', ''tenant-isolation''),
     (''legacy_audit_chain_failures_total'', 1, ''critical'', ''audit-chain''),
     (''legacy_backup_failures_total'', 1, ''critical'', ''backup-restore''),
     (''legacy_export_failures_total'', 3, ''warning'', ''export-failures''),
     (''legacy_deletion_backlog'', 10, ''warning'', ''privacy-deletion''),
     (''legacy_privacy_request_oldest_age_seconds'', 72 * 60 * 60, ''warning'', ''privacy-request-sla''),
     (''legacy_auth_failures_total'', 25, ''warning'', ''authentication-attack'')]"

fun alerts_of ::
  "(string \<times> rat \<times> string \<times> string) list \<Rightarrow> (string \<Rightarrow> rat option) \<Rightarrow> alert_signal list result" where
  "alerts_of [] values = Inr []"
| "alerts_of ((name, threshold, severity, runbook) # rules) values =
     (let v = (case values name of Some n \<Rightarrow> n | None \<Rightarrow> 0) in
      if v < 0 then Inl (js_error ''alert input is invalid'')
      else res_bind (alerts_of rules values) (\<lambda>rest.
        Inr (if threshold \<le> v then \<lparr> al_id = name, al_severity = severity, al_value = v, al_runbook = runbook \<rparr> # rest
             else rest)))"

definition evaluateAlerts :: "(string \<Rightarrow> rat option) \<Rightarrow> alert_signal list result" where
  "evaluateAlerts values = alerts_of alert_rules values"

definition traceparent_re :: re where
  "traceparent_re = (let lower_hex = cor (crange CHR ''a'' CHR ''f'') (crange CHR ''0'' CHR ''9'') in
     whole (seqs [lit ''00-'', times 32 lower_hex, lit ''-'', times 16 lower_hex, lit ''-'', times 2 lower_hex]))"

definition traceIdFromTraceparent :: "string option \<Rightarrow> string option" where
  "traceIdFromTraceparent v = (case configured v of None \<Rightarrow> None
     | Some s \<Rightarrow> if \<not> re_test traceparent_re (trim s) then None
         else (let trace = take 32 (drop 3 (trim s)) in if trace = replicate 32 CHR ''0'' then None else Some trace))"

definition check_external :: "url_parser \<Rightarrow> string \<Rightarrow> string \<Rightarrow> string option \<Rightarrow> unit result" where
  "check_external urls environment name v = when_set v (\<lambda>s. res_bind (parse_url urls s) (\<lambda>u.
     if environment = ''production'' \<and> up_protocol u \<noteq> ''https:''
     then Inl (js_error (name @ '' must use HTTPS in production'')) else Inr ()))"

definition validateExternalConfiguration :: "url_parser \<Rightarrow> string \<Rightarrow> string option \<Rightarrow> string option \<Rightarrow> unit result" where
  "validateExternalConfiguration urls environment otlp sentry =
     res_bind (check_external urls environment ''OTLP endpoint'' otlp) (\<lambda>_.
     check_external urls environment ''Sentry DSN'' sentry)"

definition header_name_re :: re where
  "header_name_re = whole (Rep (Cls (cor lower_alnum (one_of ''-''))) 1 (Some 64))"

text \<open>\<open>indexOf("=")\<close> below 1 also stands for a part without the sign; later parts replace earlier ones.\<close>

definition parse_otlp_part :: "string \<Rightarrow> (string \<times> string) result" where
  "parse_otlp_part part =
     (let key = map ascii_lower (trim (takeWhile (\<lambda>c. c \<noteq> CHR ''='') part));
          v = trim (tl (dropWhile (\<lambda>c. c \<noteq> CHR ''='') part)) in
      if CHR ''='' \<notin> set part \<or> hd part = CHR ''='' then Inl (js_error ''OTLP header configuration is invalid'')
      else if \<not> re_test header_name_re key \<or> v = [] then Inl (js_error ''OTLP header configuration is invalid'')
      else if re_test forbiddenKeys key \<and> key \<noteq> ''authorization'' then Inl (js_error ''OTLP header name is forbidden'')
      else Inr (key, v))"

definition parseOtlpHeaders :: "string option \<Rightarrow> (string \<rightharpoonup> string) result" where
  "parseOtlpHeaders v = (case configured v of None \<Rightarrow> Inr Map.empty
     | Some s \<Rightarrow> res_bind (res_map parse_otlp_part (split_on CHR '','' s)) (\<lambda>hs. Inr (map_of (rev hs))))"

end
