(* ===== verification/Api_Runtime.thy ===== *)
theory Api_Runtime
  imports Household_Routes Audit_Chain Privacy_Store Export_Store Report_Store Report_Worker Observability Ai_Provider
begin

text \<open>
  \<open>apps/api/src/runtime.ts\<close>: the operations that \<open>createApplicationRuntime\<close> puts behind the routes,
  over the database and the services.  This theory holds the world they share, authorization with
  its audit trail, the household key, facts and emergency reasons, and households with their
  members and invitations.
\<close>

section \<open>The world\<close>

text \<open>
  \<open>aw_ticks\<close> counts what has been drawn from the random generator and the clock; \<open>aw_interviews\<close> is
  the map of answered interviews that the process keeps; \<open>aw_metrics\<close> its metrics; \<open>aw_services\<close> is whatever
  the services behind the process keep.
\<close>

record 'o api_world =
  aw_db :: db
  aw_ticks :: nat
  aw_interviews :: "(string \<times> string \<times> json) list"
  aw_circuit :: circuit
  aw_metrics :: metric_registry
  aw_services :: 'o

type_synonym ('o, 'a) run = "('o api_world, 'a) world_op"

record queue_job =
  qj_name :: string
  qj_id :: string
  qj_workflow :: string
  qj_org :: string
  qj_hh :: string
  qj_actor :: string
  qj_delay :: "int option"

text \<open>
  The environment of the process: the n-th values drawn, the cryptographic primitives and the keys,
  the orders of text, and the services (queue, mail, object store and its presigner, billing
  provider, AI transport and cache, sessions).  \<open>re_confidence\<close> is the JSON number of a confidence,
  \<open>re_app_url\<close> the URL of a path under \<open>APP_BASE_URL\<close>, \<open>re_date_parse\<close> is \<open>Date.parse\<close>
  and \<open>re_perf\<close> \<open>performance.now\<close>.
\<close>

record 'o runtime_env =
  re_uuid :: "nat \<Rightarrow> string"
  re_random :: "nat \<Rightarrow> string"
  re_iv :: "nat \<Rightarrow> string"
  re_now :: "nat \<Rightarrow> int"
  re_aead :: aead
  re_sha256 :: "string \<Rightarrow> string"
  re_hmac :: "string \<Rightarrow> string \<Rightarrow> string"
  re_collate :: "string \<Rightarrow> string"
  re_nfc :: "string \<Rightarrow> string"
  re_confidence :: "int \<Rightarrow> json"
  re_kek :: string
  re_audit_key :: string
  re_app_base :: string
  re_recovery_days :: "int option"
  re_session :: "api_request \<Rightarrow> ('o, auth_session option) world_op"
  re_enqueue :: "queue_job \<Rightarrow> ('o, unit) world_op"
  re_remove_job :: "string \<Rightarrow> ('o, unit) world_op"
  re_send_mail :: "email_message \<Rightarrow> ('o, unit) world_op"
  re_s3 :: "'o s3_client"
  re_sign_upload :: "s3_command \<Rightarrow> int \<Rightarrow> string result"
  re_sign_download :: "string \<Rightarrow> string \<Rightarrow> int \<Rightarrow> string result"
  re_stripe :: stripe_config
  re_stripe_io :: "'o stripe_io"
  re_urls :: url_parser
  re_app_url :: "string \<Rightarrow> string"
  re_date_parse :: "string \<Rightarrow> int option"
  re_deepseek :: deepseek_config
  re_model :: string
  re_transport :: "'o transport"
  re_redis :: "'o redis"
  re_cache_namespace :: string
  re_perf :: "nat \<Rightarrow> int"

definition on_db :: "(db \<Rightarrow> 'a result \<times> db) \<Rightarrow> ('o, 'a) run" where
  "on_db m w = (case m (aw_db w) of (r, d) \<Rightarrow> (r, w \<lparr> aw_db := d \<rparr>))"

definition on_services :: "('o, 'a) world_op \<Rightarrow> ('o, 'a) run" where
  "on_services m w = (case m (aw_services w) of (r, x) \<Rightarrow> (r, w \<lparr> aw_services := x \<rparr>))"

definition on_metrics :: "(metric_registry \<Rightarrow> 'a result \<times> metric_registry) \<Rightarrow> ('o, 'a) run" where
  "on_metrics m w = (case m (aw_metrics w) of (r, x) \<Rightarrow> (r, w \<lparr> aw_metrics := x \<rparr>))"

definition draw :: "(nat \<Rightarrow> 'a) \<Rightarrow> ('o, 'a) run" where
  "draw f w = (Inr (f (aw_ticks w)), w \<lparr> aw_ticks := aw_ticks w + 1 \<rparr>)"

definition done_with :: "'a \<Rightarrow> ('o, 'a) run" where
  "done_with a = pure_result (Inr a)"

section \<open>Authorization\<close>

fun reason_text :: "auth_reason \<Rightarrow> string" where
  "reason_text Allow = ''allow''"
| "reason_text InvalidPurpose = ''invalid-purpose''"
| "reason_text SessionExpired = ''session-expired''"
| "reason_text MfaRequired = ''mfa-required''"
| "reason_text PermissionDenied = ''permission-denied''"
| "reason_text SupportApprovalRequired = ''support-approval-required''"
| "reason_text EmergencyReleaseRequired = ''emergency-release-required''"

definition identity_request :: "tenant_identity \<Rightarrow> record_category \<Rightarrow> permission_action \<Rightarrow> string \<Rightarrow> int \<Rightarrow> auth_request" where
  "identity_request i category action purpose clock = \<lparr> ar_role = ti_role i, ar_grants = ti_grants i,
     ar_category = category, ar_action = action, ar_purpose = purpose, ar_now = At clock, ar_issued = ti_issued i,
     ar_mfa = ti_mfa i, ar_support = ti_support i, ar_release = ti_release i \<rparr>"

text \<open>
  The route passes the category as text.  A text that is no category is in no grant, approval or
  release, which is what the decision then sees.
\<close>

definition scope_decision :: "tenant_identity \<Rightarrow> string \<Rightarrow> permission_action \<Rightarrow> string \<Rightarrow> int \<Rightarrow> auth_decision" where
  "scope_decision i category action purpose clock =
     (case find (\<lambda>c. category_name c = category) allRecordCategories of
        Some c \<Rightarrow> authorize (identity_request i c action purpose clock)
      | None \<Rightarrow> authorize (identity_request (i \<lparr> ti_grants := [], ti_support := [], ti_release := [] \<rparr>)
                   Contacts action purpose clock))"

definition record_decision ::
  "'o runtime_env \<Rightarrow> tenant_identity \<Rightarrow> string \<Rightarrow> string \<Rightarrow> (string \<times> json) list \<Rightarrow> ('o, unit) run" where
  "record_decision env i purpose outcome metadata =
     world_bind (draw (re_uuid env)) (\<lambda>event_id.
     world_bind (draw (re_now env)) (\<lambda>now.
     world_bind (on_db (audit_append (re_collate env) (re_hmac env) (re_audit_key env) (identity_context i)
       \<lparr> ap_id = event_id, ap_occurred = now, ap_actor = ti_actor i, ap_action = purpose, ap_outcome = outcome,
         ap_metadata = metadata \<rparr>)) (\<lambda>_. done_with ())))"

definition scope_metadata :: "string \<Rightarrow> permission_action \<Rightarrow> (string \<times> json) list" where
  "scope_metadata category action = [(''category'', JStr category), (''permission_action'', JStr (action_name action))]"

definition authorizeIdentity ::
  "'o runtime_env \<Rightarrow> tenant_identity \<Rightarrow> string \<Rightarrow> permission_action \<Rightarrow> string \<Rightarrow> ('o, unit) run" where
  "authorizeIdentity env i category action purpose =
     world_bind (draw (re_now env)) (\<lambda>clock.
     let decision = scope_decision i category action purpose clock in
     if ad_allowed decision then record_decision env i purpose ''allowed'' (scope_metadata category action)
     else world_bind (record_decision env i purpose ''denied''
         (scope_metadata category action @ [(''decision_reason'', JStr (reason_text (ad_reason decision)))])) (\<lambda>_.
       pure_result (Inl (Thrown ''AuthorizationDeniedError'' ''access denied''))))"

definition resolveIdentity :: "'o runtime_env \<Rightarrow> api_request \<Rightarrow> ('o, tenant_identity) run" where
  "resolveIdentity env rq =
     world_bind (on_services (re_session env rq)) (\<lambda>session.
     world_bind (draw (re_now env)) (\<lambda>now.
     on_db (\<lambda>d. (resolveRequestIdentity session (rq_headers rq ''x-household-id'') now d, d))))"

definition resolveAccount :: "'o runtime_env \<Rightarrow> api_request \<Rightarrow> ('o, string \<times> string) run" where
  "resolveAccount env rq = world_bind (on_services (re_session env rq)) (\<lambda>session.
     pure_result (resolveRequestAccount session))"

section \<open>The household key\<close>

definition household_key :: "'o runtime_env \<Rightarrow> tenant_context \<Rightarrow> ('o, int \<times> string) run" where
  "household_key env ctx =
     world_bind (draw (re_uuid env)) (\<lambda>key_id.
     world_bind (draw (re_random env)) (\<lambda>fresh.
     world_bind (draw (re_iv env)) (\<lambda>iv.
     world_bind (draw (re_now env)) (\<lambda>now.
     on_db (getOrCreateActiveKey (re_aead env) (re_kek env) key_id fresh iv now ctx)))))"

definition record_context :: "tenant_context \<Rightarrow> string \<Rightarrow> string \<Rightarrow> int \<Rightarrow> encryption_context" where
  "record_context ctx record_id purpose version = \<lparr> ec_org = tc_org ctx, ec_hh = tc_hh ctx, ec_record = record_id,
     ec_purpose = purpose, ec_version = version \<rparr>"

text \<open>\<open>Buffer.from(JSON.stringify(encryptEnvelope(..)), "utf8")\<close> and its inverse over \<open>storedEnvelope\<close>.\<close>

definition seal_text ::
  "aead \<Rightarrow> string \<Rightarrow> string \<Rightarrow> string \<Rightarrow> encryption_context \<Rightarrow> string result" where
  "seal_text a iv plaintext key c = res_bind (encryptEnvelope a iv plaintext key c) (\<lambda>e.
     Inr (utf8_bytes (json_stringify (JObj (envelope_members e)))))"

definition runtime_envelope :: "json \<Rightarrow> envelope result" where
  "runtime_envelope = read_envelope ''encrypted envelope is invalid''"

definition open_text :: "aead \<Rightarrow> string \<Rightarrow> string \<Rightarrow> encryption_context \<Rightarrow> string result" where
  "open_text a stored key c = res_bind (parse_bytes stored) (\<lambda>v.
     res_bind (runtime_envelope v) (\<lambda>e. decryptEnvelope a e key c))"

definition encrypt_record ::
  "'o runtime_env \<Rightarrow> tenant_identity \<Rightarrow> string \<Rightarrow> string \<Rightarrow> ('o, encrypted_value) run" where
  "encrypt_record env i purpose plaintext =
     world_bind (draw (re_uuid env)) (\<lambda>record_id.
     world_bind (household_key env (identity_context i)) (\<lambda>(version, key).
     world_bind (draw (re_iv env)) (\<lambda>iv.
     world_bind (pure_result (seal_text (re_aead env) iv plaintext key
       (record_context (identity_context i) record_id purpose version))) (\<lambda>sealed.
     done_with \<lparr> ev_id = record_id, ev_ciphertext = sealed, ev_key_version = version \<rparr>))))"

definition encryptFactValue :: "'o runtime_env \<Rightarrow> tenant_identity \<Rightarrow> string \<Rightarrow> string \<Rightarrow> ('o, encrypted_value) run" where
  "encryptFactValue env i fieldKey plaintext = encrypt_record env i (''fact-value:'' @ fieldKey) plaintext"

definition encryptEmergencyReason :: "'o runtime_env \<Rightarrow> tenant_identity \<Rightarrow> string \<Rightarrow> ('o, encrypted_value) run" where
  "encryptEmergencyReason env i plaintext = encrypt_record env i ''emergency-access-reason'' plaintext"

definition member_when :: "string \<Rightarrow> string option \<Rightarrow> (string \<times> json) list" where
  "member_when name v = (case v of None \<Rightarrow> [] | Some s \<Rightarrow> [(name, JStr s)])"

definition vault_fact_json :: "'o runtime_env \<Rightarrow> fact_read \<Rightarrow> json \<Rightarrow> json" where
  "vault_fact_json env f v = JObj ([(''id'', JStr (fr_id f)), (''fieldKey'', JStr (fr_field_key f)), (''value'', v),
     (''status'', JStr (fr_status f)), (''sourceType'', JStr (fr_source_type f)), (''sourceId'', JStr (fr_source_id f)),
     (''evidenceIds'', JArr (map JStr (fr_evidence f)))]
     @ (case fr_confidence f of None \<Rightarrow> [] | Some c \<Rightarrow> [(''confidence'', re_confidence env c)])
     @ [(''sensitivity'', JStr (fr_sensitivity f))]
     @ member_when ''confirmedBy'' (fr_confirmed_by f)
     @ member_when ''confirmedAt'' (map_option toISOString (fr_confirmed_at f))
     @ member_when ''lastReviewedAt'' (map_option toISOString (fr_last_reviewed f))
     @ [(''version'', JNum (fr_version f))])"

definition open_vault_fact :: "'o runtime_env \<Rightarrow> tenant_context \<Rightarrow> int \<times> string \<Rightarrow> fact_read \<Rightarrow> json result" where
  "open_vault_fact env ctx key f =
     res_bind (open_text (re_aead env) (fr_ciphertext f) (snd key)
       (record_context ctx (fr_id f) (''fact-value:'' @ fr_field_key f) (fr_key_version f))) (\<lambda>opened.
     res_bind (parse_bytes opened) (\<lambda>v. Inr (vault_fact_json env f v)))"

definition list_vault_facts :: "'o runtime_env \<Rightarrow> tenant_identity \<Rightarrow> string list \<Rightarrow> ('o, json) run" where
  "list_vault_facts env i categories =
     world_bind (on_db (listVaultFacts (re_collate env) (identity_context i) categories)) (\<lambda>encrypted.
     world_bind (household_key env (identity_context i)) (\<lambda>key.
     world_bind (pure_result (res_map (open_vault_fact env (identity_context i) key) encrypted)) (\<lambda>opened.
     done_with (JArr opened))))"

section \<open>Households and members\<close>

definition create_household ::
  "'o runtime_env \<Rightarrow> string \<Rightarrow> string \<Rightarrow> string \<Rightarrow> string \<Rightarrow> string \<Rightarrow> ('o, json) run" where
  "create_household env user key organizationName householdName ownerDisplayName =
     world_bind (draw (re_uuid env)) (\<lambda>org.
     world_bind (draw (re_uuid env)) (\<lambda>hh.
     world_bind (draw (re_uuid env)) (\<lambda>person.
     world_bind (draw (re_uuid env)) (\<lambda>membership.
     world_bind (draw (re_uuid env)) (\<lambda>key_id.
     world_bind (draw (re_random env)) (\<lambda>fresh.
     world_bind (draw (re_iv env)) (\<lambda>key_iv.
     world_bind (pure_result (createWrappedHouseholdKey (re_aead env) fresh key_iv (re_kek env) org hh 1)) (\<lambda>(plain, wrapped).
     world_bind (draw (re_iv env)) (\<lambda>iv.
     world_bind (pure_result (seal_text (re_aead env) iv (utf8_bytes ownerDisplayName) plain
       (record_context \<lparr> tc_org = org, tc_hh = hh, tc_actor = person \<rparr> person ''person-display-name'' 1))) (\<lambda>sealed.
     world_bind (draw (re_now env)) (\<lambda>now.
     on_db (createHouseholdForAccount (\<lambda>t. hash_text (re_sha256 env) t) user
       \<lparr> hi_key = key, hi_org = org, hi_org_name = organizationName, hi_household = hh,
         hi_household_name = householdName, hi_person = person, hi_membership = membership,
         hi_display_name = sealed, hi_key_version = 1, hi_household_key = key_id,
         hi_wrapped_key = wrapped_key_json wrapped \<rparr> now))))))))))))"

definition summary_json :: "household_summary \<Rightarrow> json" where
  "summary_json h = JObj [(''id'', JStr (hs_id h)), (''organizationId'', JStr (hs_org h)), (''name'', JStr (hs_name h)),
     (''version'', JNum (hs_version h)), (''membershipId'', JStr (hs_membership h)), (''personId'', JStr (hs_person h)),
     (''role'', JStr (hs_role h))]"

definition list_households :: "'o runtime_env \<Rightarrow> string \<Rightarrow> ('o, json) run" where
  "list_households env user = world_bind (on_db (listHouseholdsForAccount (re_collate env) user)) (\<lambda>hs.
     done_with (JArr (map summary_json hs)))"

definition open_member :: "'o runtime_env \<Rightarrow> tenant_context \<Rightarrow> int \<times> string \<Rightarrow> member_summary \<Rightarrow> json result" where
  "open_member env ctx key m =
     (if ms_key_version m \<noteq> fst key then Inl (js_error ''member display-name key version is unavailable'')
      else res_bind (open_text (re_aead env) (ms_display_name m) (snd key)
        (record_context ctx (ms_person m) ''person-display-name'' (ms_key_version m))) (\<lambda>opened.
      case utf8_text opened of None \<Rightarrow> Inl syntax_error | Some name \<Rightarrow>
        Inr (JObj [(''id'', JStr (ms_id m)), (''role'', JStr (ms_role m)), (''active'', JBool (ms_active m)),
          (''version'', JNum (ms_version m)), (''displayName'', JStr name)])))"

definition list_members :: "'o runtime_env \<Rightarrow> tenant_identity \<Rightarrow> ('o, json) run" where
  "list_members env i =
     world_bind (on_db (listHouseholdMembers (identity_context i))) (\<lambda>members.
     world_bind (household_key env (identity_context i)) (\<lambda>key.
     world_bind (pure_result (res_map (open_member env (identity_context i) key) members)) (\<lambda>opened.
     done_with (JArr opened))))"

section \<open>Invitations\<close>

definition escape_html :: "char \<Rightarrow> string" where
  "escape_html c = (if c = CHR ''&'' then ''&amp;'' else if c = CHR ''<'' then ''&lt;'' else if c = CHR ''>'' then ''&gt;''
     else if c = CHR 34 then ''&quot;'' else if c = CHR 39 then ''&#39;'' else [c])"

definition htmlEscape :: "string \<Rightarrow> string" where
  "htmlEscape s = concat (map escape_html s)"

definition base64url :: "string \<Rightarrow> string" where
  "base64url bytes = map (\<lambda>c. if c = CHR ''+'' then CHR ''-'' else if c = CHR ''/'' then CHR ''_'' else c)
     (filter (\<lambda>c. c \<noteq> CHR ''='') (base64 bytes))"

definition email_hash :: "'o runtime_env \<Rightarrow> string \<Rightarrow> string" where
  "email_hash env email = hex_text (re_hmac env (re_kek env) (utf8_bytes (''membership-invite-email:'' @ email)))"

definition invitation_token :: "'o runtime_env \<Rightarrow> tenant_identity \<Rightarrow> string \<Rightarrow> string \<Rightarrow> string" where
  "invitation_token env i key hash = base64url (re_hmac env (re_kek env) (utf8_bytes
     (''membership-invite-token:'' @ ti_org i @ '':'' @ ti_hh i @ '':'' @ key @ '':'' @ hash)))"

text \<open>The token is base64url text, which \<open>encodeURIComponent\<close> leaves as it is.\<close>

definition invitation_mail :: "string \<Rightarrow> string \<Rightarrow> string \<Rightarrow> email_message" where
  "invitation_mail email url invitation_id = \<lparr> em_to = email, em_subject = ''Legacy Vault household invitation'',
     em_text = ''Accept your household invitation: '' @ url @ [CHR 10] @ ''This link expires in 72 hours.'',
     em_html = ''<p>You were invited to a Legacy Vault household.</p><p><a href='' @ [CHR 34] @ htmlEscape url @ [CHR 34]
       @ ''>Accept invitation</a></p><p>This link expires in 72 hours.</p>'',
     em_idempotency_key = ''member-invite:'' @ invitation_id \<rparr>"

definition json_text_at :: "json \<Rightarrow> string list \<Rightarrow> string" where
  "json_text_at v path = (case foldl (\<lambda>o' k. Option.bind o' (\<lambda>j. jfield j k)) (Some v) path of Some (JStr s) \<Rightarrow> s | _ \<Rightarrow> ''undefined'')"

definition create_invitation ::
  "'o runtime_env \<Rightarrow> tenant_identity \<Rightarrow> string \<Rightarrow> role \<Rightarrow> int \<Rightarrow> string \<Rightarrow> ('o, json) run" where
  "create_invitation env i email invited_role household_version key =
     (let hash = email_hash env email; token = invitation_token env i key hash in
     world_bind (draw (re_uuid env)) (\<lambda>invitation_id.
     world_bind (draw (re_now env)) (\<lambda>now.
     world_bind (on_db (createMembershipInvitation (\<lambda>t. hash_text (re_sha256 env) t) (identity_context i)
       \<lparr> ii_key = key, ii_household_version = household_version, ii_id = invitation_id, ii_email_hash = hash,
         ii_token_hash = hash_text (re_sha256 env) token, ii_role = invited_role, ii_invited_by = ti_membership i,
         ii_expires = now + 72 * 60 * 60 * 1000 \<rparr> now)) (\<lambda>invitation.
     world_bind (on_services (re_send_mail env (invitation_mail email
       (re_app_base env @ ''/members/invitations/'' @ token)
       (json_text_at invitation [''invitation'', ''id''])))) (\<lambda>_.
     done_with invitation)))))"

definition accept_invitation ::
  "'o runtime_env \<Rightarrow> string \<times> string \<Rightarrow> string \<Rightarrow> string \<Rightarrow> int \<Rightarrow> string \<Rightarrow> ('o, json) run" where
  "accept_invitation env account token displayName invitation_version key =
     (let token_hash = hash_text (re_sha256 env) token; hash = email_hash env (lower_text (trim (snd account))) in
     world_bind (draw (re_now env)) (\<lambda>now.
     world_bind (on_db (getMembershipInvitationForAcceptance (fst account) token_hash hash (At now))) (\<lambda>found.
     case found of
       None \<Rightarrow> pure_result (Inl (js_error ''membership invitation unavailable''))
     | Some c \<Rightarrow>
       (let ctx = \<lparr> tc_org = ic_org c, tc_hh = ic_hh c, tc_actor = [] \<rparr> in
       world_bind (household_key env ctx) (\<lambda>(version, plain).
       world_bind (draw (re_uuid env)) (\<lambda>person.
       world_bind (draw (re_iv env)) (\<lambda>iv.
       world_bind (pure_result (seal_text (re_aead env) iv (utf8_bytes displayName) plain
         (record_context ctx person ''person-display-name'' version))) (\<lambda>sealed.
       world_bind (draw (re_uuid env)) (\<lambda>membership.
       on_db (acceptMembershipInvitation (\<lambda>t. hash_text (re_sha256 env) t) (fst account)
         \<lparr> acc_key = key, acc_token_hash = token_hash, acc_email_hash = hash,
           acc_name_hash = hex_text (re_sha256 env (utf8_bytes displayName)), acc_version = invitation_version,
           acc_person = person, acc_membership = membership, acc_display_name = sealed,
           acc_key_version = version, acc_at = now \<rparr> now))))))))))"

definition revoke_invitation ::
  "'o runtime_env \<Rightarrow> tenant_identity \<Rightarrow> string \<Rightarrow> int \<Rightarrow> string \<Rightarrow> ('o, json) run" where
  "revoke_invitation env i invitation_id version key =
     world_bind (draw (re_now env)) (\<lambda>now.
     on_db (revokeMembershipInvitation (\<lambda>t. hash_text (re_sha256 env) t) (identity_context i) invitation_id version key now now))"

definition update_member_role ::
  "'o runtime_env \<Rightarrow> tenant_identity \<Rightarrow> string \<Rightarrow> role \<Rightarrow> int \<Rightarrow> string \<Rightarrow> ('o, json) run" where
  "update_member_role env i membership_id new_role version key =
     world_bind (draw (re_now env)) (\<lambda>now.
     on_db (updateMembershipRole (\<lambda>t. hash_text (re_sha256 env) t) (identity_context i) membership_id new_role version key now))"

section \<open>A sample process\<close>

text \<open>A process whose services count their calls and answer nothing of interest, for the examples.\<close>

definition counted :: "'a \<Rightarrow> (nat, 'a) world_op" where
  "counted a n = (Inr a, Suc n)"

definition sample_s3 :: "nat s3_client" where
  "sample_s3 c = counted \<lparr> so_checksum = None, so_tags = None, so_body = None \<rparr>"

definition sample_redis :: "nat redis" where
  "sample_redis = \<lparr> rd_ready = counted (), rd_get = (\<lambda>_. counted None), rd_exec = (\<lambda>_. counted ()),
     rd_smembers = (\<lambda>_. counted []), rd_del = (\<lambda>_. counted ()), rd_observe = (\<lambda>_ n. n) \<rparr>"

definition sample_transport_of :: "nat transport" where
  "sample_transport_of = \<lparr> tr_send = (\<lambda>j n. (Reply 503 None (Inl ''SyntaxError''), Suc n)), tr_sleep = (\<lambda>d n. n),
     tr_now = (\<lambda>n. 0), tr_number = (\<lambda>s. None), tr_date = (\<lambda>s. None) \<rparr>"

definition sample_runtime :: "nat runtime_env" where
  "sample_runtime = \<lparr> re_uuid = (\<lambda>n. replicate n CHR ''u''), re_random = (\<lambda>n. replicate 32 CHR ''k''),
     re_iv = (\<lambda>n. replicate 12 CHR ''i''), re_now = int, re_aead = plain_aead, re_sha256 = (\<lambda>s. s),
     re_hmac = (\<lambda>k m. replicate 32 CHR ''m''), re_collate = (\<lambda>s. s), re_nfc = (\<lambda>s. s),
     re_confidence = (\<lambda>n. JNum (n div 10000)), re_kek = replicate 32 CHR ''w'', re_audit_key = replicate 32 CHR ''a'',
     re_app_base = ''https://app'', re_recovery_days = None, re_session = (\<lambda>_. counted None),
     re_enqueue = (\<lambda>_. counted ()), re_remove_job = (\<lambda>_. counted ()), re_send_mail = (\<lambda>_. counted ()),
     re_s3 = sample_s3, re_sign_upload = (\<lambda>_ _. Inr ''url''), re_sign_download = (\<lambda>_ _ _. Inr ''url''),
     re_stripe = \<lparr> sc_secret = None, sc_webhook = None, sc_price = None, sc_base = None \<rparr>,
     re_stripe_io = \<lparr> si_fetch = (\<lambda>_. counted \<lparr> hr_status = 200, hr_json = Inr JNull \<rparr>), si_wait = (\<lambda>_ n. n) \<rparr>,
     re_urls = (\<lambda>_. None), re_app_url = (\<lambda>p. ''https://app'' @ p), re_date_parse = (\<lambda>_. None),
     re_deepseek = sample_config, re_model = ''m'', re_transport = sample_transport_of, re_redis = sample_redis,
     re_cache_namespace = ''legacy'', re_perf = int \<rparr>"

definition sample_world :: "db \<Rightarrow> nat api_world" where
  "sample_world d = \<lparr> aw_db = d, aw_ticks = 0, aw_interviews = [], aw_circuit = \<lparr> ci_failures = 0, ci_open_until = 0 \<rparr>,
     aw_metrics = \<lparr> mr_limit = 10000, mr_points = [] \<rparr>, aw_services = 0 \<rparr>"

end
