(* ===== verification/Api_Services.thy ===== *)
theory Api_Services
  imports Api_Runtime
begin

text \<open>
  \<open>apps/api/src/runtime.ts\<close>: the operations behind the routes for exports, deletions, document
  contents and uploads, manual extraction, the audit log, reports and billing.
\<close>

section \<open>Workflows\<close>

text \<open>\<open>enqueueWorkflow\<close> of \<open>apps/worker\<close>: the job is named by its workflow.\<close>

definition workflow_job :: "string \<Rightarrow> string \<Rightarrow> tenant_identity \<Rightarrow> int option \<Rightarrow> queue_job" where
  "workflow_job name workflow_id i delay = \<lparr> qj_name = name,
     qj_id = (if name = ''notification-send'' then workflow_id @ ''-notification-send'' else workflow_id),
     qj_workflow = workflow_id, qj_org = ti_org i, qj_hh = ti_hh i, qj_actor = ti_actor i, qj_delay = delay \<rparr>"

definition enqueueWorkflow ::
  "'o runtime_env \<Rightarrow> string \<Rightarrow> json \<Rightarrow> tenant_identity \<Rightarrow> int option \<Rightarrow> ('o, unit) run" where
  "enqueueWorkflow env name started i delay =
     on_services (re_enqueue env (workflow_job name (json_text_at started [''workflow'', ''id'']) i delay))"

section \<open>Exports and deletions\<close>

definition start_portable_export :: "'o runtime_env \<Rightarrow> tenant_identity \<Rightarrow> string \<Rightarrow> string \<Rightarrow> ('o, json) run" where
  "start_portable_export env i exportKey key =
     world_bind (draw (re_iv env)) (\<lambda>iv.
     world_bind (pure_result (encryptEnvelope (re_aead env) iv exportKey (re_kek env)
       (record_context (identity_context i) (ti_hh i) ''portable-export-key'' 1))) (\<lambda>wrapped.
     world_bind (draw (re_now env)) (\<lambda>requested.
     world_bind (draw (re_uuid env)) (\<lambda>export_id.
     world_bind (draw (re_uuid env)) (\<lambda>workflow_id.
     world_bind (on_db (startPortableExport (re_sha256 env) (identity_context i) export_id workflow_id requested key
       (hex_text (re_sha256 env exportKey)) (JObj (envelope_members wrapped)) 1 requested)) (\<lambda>started.
     world_bind (enqueueWorkflow env ''privacy-export'' started i None) (\<lambda>_.
     done_with started)))))))"

definition export_metadata :: "export_read_model \<Rightarrow> (string \<times> json) list" where
  "export_metadata x = [(''id'', JStr (xm_id x)), (''status'', JStr (xm_status x)), (''createdAt'', JStr (xm_created x)),
     (''completedAt'', text_json (xm_completed x)), (''version'', JNum (xm_version x))]"

definition truthy_text :: "string option \<Rightarrow> bool" where
  "truthy_text v \<longleftrightarrow> v \<noteq> None \<and> v \<noteq> Some []"

definition get_portable_export :: "'o runtime_env \<Rightarrow> tenant_identity \<Rightarrow> string \<Rightarrow> ('o, json option) run" where
  "get_portable_export env i export_id =
     world_bind (on_db (getPortableExport (identity_context i) export_id)) (\<lambda>found.
     case found of None \<Rightarrow> done_with None
     | Some x \<Rightarrow>
         if xm_status x \<noteq> ''completed'' then done_with (Some (JObj (export_metadata x)))
         else if \<not> truthy_text (xm_object_key x) \<or> \<not> truthy_text (xm_archive_sha256 x) \<or> \<not> truthy_text (xm_signer x)
         then pure_result (Inl (js_error ''completed portable export metadata is incomplete''))
         else world_bind (pure_result (createPresignedExportDownload (re_sign_download env) (the (xm_object_key x))
             (xm_id x @ ''.lvault'') 300)) (\<lambda>url.
           done_with (Some (JObj (export_metadata x @ [(''archiveSha256'', text_json (xm_archive_sha256 x)),
             (''signerPublicKey'', text_json (xm_signer x)), (''downloadUrl'', JStr url),
             (''downloadExpiresInSeconds'', JNum 300)])))))"

definition recovery_days :: "'o runtime_env \<Rightarrow> int" where
  "recovery_days env = (case re_recovery_days env of Some n \<Rightarrow> n | None \<Rightarrow> 30)"

text \<open>The delay of the job; a date that does not parse gives no number.\<close>

definition deletion_delay :: "'o runtime_env \<Rightarrow> json \<Rightarrow> int \<Rightarrow> int option" where
  "deletion_delay env started now =
     map_option (\<lambda>t. max 0 (t - now)) (re_date_parse env (json_text_at started [''privacyRequest'', ''recoveryUntil'']))"

definition confirm_privacy_deletion ::
  "'o runtime_env \<Rightarrow> tenant_identity \<Rightarrow> string \<Rightarrow> int \<Rightarrow> string \<Rightarrow> ('o, json) run" where
  "confirm_privacy_deletion env i request_id version key =
     world_bind (draw (re_now env)) (\<lambda>confirmed.
     world_bind (draw (re_uuid env)) (\<lambda>execution_id.
     world_bind (on_db (confirmPrivacyDeletion (re_sha256 env) (identity_context i) execution_id confirmed request_id
       version key (At confirmed) (recovery_days env))) (\<lambda>started.
     world_bind (draw (re_now env)) (\<lambda>now.
     world_bind (enqueueWorkflow env ''privacy-delete'' started i (deletion_delay env started now)) (\<lambda>_.
     done_with started)))))"

definition cancel_privacy_deletion ::
  "'o runtime_env \<Rightarrow> tenant_identity \<Rightarrow> string \<Rightarrow> int \<Rightarrow> string \<Rightarrow> ('o, json) run" where
  "cancel_privacy_deletion env i request_id version key =
     world_bind (draw (re_now env)) (\<lambda>now.
     world_bind (on_db (cancelPrivacyDeletion (re_sha256 env) (identity_context i) now request_id version key)) (\<lambda>cancelled.
     world_bind (on_services (re_remove_job env (json_text_at cancelled [''workflow'', ''id'']))) (\<lambda>_.
     done_with cancelled)))"

section \<open>Reading a document\<close>

text \<open>
  \<open>decryptEnvelope(value as EncryptedEnvelope, ..)\<close> of a JSON value whose shape nobody checked: a
  missing algorithm or version is a mismatch, a member that is no text fails to authenticate.
\<close>

definition open_json_envelope :: "aead \<Rightarrow> json \<Rightarrow> string \<Rightarrow> encryption_context \<Rightarrow> string result" where
  "open_json_envelope a v key c = res_bind (assertAesKey key ''data encryption key'') (\<lambda>_.
     if v = JNull then Inl (Thrown ''TypeError'' ''cannot read properties of null'')
     else if jfield v ''algorithm'' \<noteq> Some (JStr ''A256GCM'') \<or> jfield v ''keyVersion'' \<noteq> Some (JNum (ec_version c))
     then Inl (crypto_error ''envelope algorithm or key version mismatch'')
     else case (jfield v ''iv'', jfield v ''ciphertext'', jfield v ''authenticationTag'') of
       (Some (JStr iv), Some (JStr ct), Some (JStr tag)) \<Rightarrow>
         decryptEnvelope a \<lparr> env_algorithm = ''A256GCM'', env_version = ec_version c, env_iv = iv,
           env_ciphertext = ct, env_tag = tag \<rparr> key c
     | _ \<Rightarrow> Inl (crypto_error ''envelope authentication failed''))"

definition open_document ::
  "'o runtime_env \<Rightarrow> tenant_context \<Rightarrow> string \<Rightarrow> download_material \<Rightarrow> string \<Rightarrow> (string \<times> string \<times> int) option result" where
  "open_document env ctx hh_key m ciphertext =
     (if hex_text (re_sha256 env ciphertext) \<noteq> dm_ciphertext_sha256 m
      then Inl (js_error ''document ciphertext checksum mismatch'')
      else res_bind (open_json_envelope (re_aead env) (dm_wrapped_key m) hh_key
          (record_context ctx (dm_id m) ''document-data-key'' (dm_key_version m))) (\<lambda>data_key.
        res_bind (parse_bytes ciphertext) (\<lambda>v.
        res_bind (open_json_envelope (re_aead env) v data_key
          (record_context ctx (dm_id m) ''document-original'' (dm_key_version m))) (\<lambda>bytes.
        Inr (Some (bytes, dm_media_type m, dm_version m))))))"

definition get_document_content_of ::
  "'o runtime_env \<Rightarrow> tenant_identity \<Rightarrow> string \<Rightarrow> ('o, (string \<times> string \<times> int) option) run" where
  "get_document_content_of env i document_id =
     world_bind (on_db (getDocumentDownloadMaterial (identity_context i) document_id)) (\<lambda>found.
     case found of None \<Rightarrow> done_with None
     | Some m \<Rightarrow>
         world_bind (on_services (objectStatus (re_s3 env) (dm_object_key m))) (\<lambda>status.
         if status \<noteq> Some ''clean'' then pure_result (Inl (js_error ''document object is not clean''))
         else world_bind (household_key env (identity_context i)) (\<lambda>(version, key).
           world_bind (on_services (getCiphertext (re_s3 env) (dm_object_key m))) (\<lambda>ciphertext.
           pure_result (open_document env (identity_context i) key m ciphertext)))))"

definition document_summary_json :: "document_summary \<Rightarrow> json" where
  "document_summary_json s = JObj ([(''id'', JStr (ds_id s)), (''mediaType'', JStr (ds_media_type s)),
     (''status'', JStr (ds_status s))]
     @ member_when ''expiresAt'' (ds_expires s) @ member_when ''uploadedAt'' (ds_uploaded s)
     @ member_when ''processedAt'' (ds_processed s)
     @ [(''deleteOriginalAfterProcessing'', JBool (ds_delete_original s))]
     @ member_when ''originalDeletedAt'' (ds_original_deleted s)
     @ [(''version'', JNum (ds_version s))])"

definition list_vault_documents :: "tenant_identity \<Rightarrow> ('o, json) run" where
  "list_vault_documents i = world_bind (on_db (listVaultDocuments (identity_context i))) (\<lambda>ds.
     done_with (JArr (map document_summary_json ds)))"

section \<open>The audit log\<close>

definition audit_event_json :: "chained_event \<Rightarrow> json" where
  "audit_event_json e = JObj [(''sequence'', JNum (au_sequence e)), (''occurredAt'', JStr (au_occurred e)),
     (''actorPseudonym'', JStr (au_actor e)), (''action'', JStr (au_action e)), (''outcome'', JStr (au_outcome e)),
     (''metadata'', JObj (au_metadata e)), (''previousHash'', JStr (au_previous e)), (''eventHash'', JStr (au_hash e))]"

definition list_audit_events :: "'o runtime_env \<Rightarrow> tenant_identity \<Rightarrow> int \<Rightarrow> int \<Rightarrow> ('o, json) run" where
  "list_audit_events env i after_sequence limit =
     world_bind (on_db (readVerified (re_collate env) (re_hmac env) (re_audit_key env) (identity_context i)
       after_sequence limit)) (\<lambda>(events, next_sequence).
     done_with (JObj [(''events'', JArr (map audit_event_json events)),
       (''nextSequence'', case next_sequence of None \<Rightarrow> JNull | Some n \<Rightarrow> JNum n)]))"

section \<open>Reports\<close>

definition create_report :: "'o runtime_env \<Rightarrow> tenant_identity \<Rightarrow> string \<Rightarrow> string \<Rightarrow> ('o, json) run" where
  "create_report env i kind key =
     world_bind (draw (re_now env)) (\<lambda>requested.
     world_bind (draw (re_uuid env)) (\<lambda>report_id.
     world_bind (draw (re_uuid env)) (\<lambda>workflow_id.
     world_bind (on_db (startReport (identity_context i) report_id workflow_id key kind requested)) (\<lambda>(r, w).
     let started = JObj [(''report'', JObj [(''id'', JStr (row_id r)), (''kind'', JStr (r_kind r)),
           (''status'', JStr (r_status r)), (''version'', JNum (row_version r))]),
         (''workflow'', row_json (row_id w) (w_status w) (row_version w))] in
     world_bind (enqueueWorkflow env (if kind = ''annual-review'' then ''annual-review'' else ''report-generate'')
       started i None) (\<lambda>_.
     done_with started)))))"

text \<open>
  \<open>assertReportProvenance\<close> over the claims of a payload, which is JSON the code takes for a report:
  a claim of another shape raises.
\<close>

fun assert_claims_json :: "(string \<times> json) list \<Rightarrow> json list \<Rightarrow> unit result" where
  "assert_claims_json versions [] = Inr ()"
| "assert_claims_json versions (c # cs) = (case (jfield c ''status'', jfield c ''evidenceIds'', jfield c ''factId'') of
     (Some status, Some (JArr proofs), Some (JStr fact_id)) \<Rightarrow>
       if status = JStr ''confirmed'' \<and> proofs = []
       then Inl (domain_error ''confirmed report claim requires evidence'')
       else if \<not> js_in fact_id versions then Inl (domain_error ''report claim requires a source fact version'')
       else assert_claims_json versions cs
   | _ \<Rightarrow> Inl (Thrown ''TypeError'' ''not a report claim''))"

definition assert_report_json :: "json \<Rightarrow> unit result" where
  "assert_report_json v = (case (jfield v ''claims'', jfield v ''sourceFactVersions'') of
     (Some (JArr claims), Some (JObj versions)) \<Rightarrow> assert_claims_json versions claims
   | _ \<Rightarrow> Inl (Thrown ''TypeError'' ''not a report''))"

definition report_bound :: "tenant_context \<Rightarrow> report_row \<Rightarrow> json \<Rightarrow> bool" where
  "report_bound ctx r v \<longleftrightarrow> jfield v ''id'' = Some (JStr (row_id r))
     \<and> jfield v ''organizationId'' = Some (JStr (tc_org ctx)) \<and> jfield v ''householdId'' = Some (JStr (tc_hh ctx))
     \<and> jfield v ''kind'' = Some (JStr (r_kind r))"

definition open_report :: "aead \<Rightarrow> tenant_context \<Rightarrow> string \<Rightarrow> report_row \<Rightarrow> string \<Rightarrow> int \<Rightarrow> json result" where
  "open_report a ctx key r payload version =
     res_bind (parse_bytes payload) (\<lambda>sealed.
     res_bind (open_json_envelope a sealed key (record_context ctx (row_id r) (''report-payload:'' @ r_kind r) version)) (\<lambda>opened.
     res_bind (parse_bytes opened) (\<lambda>report.
     if report = JNull then Inl (Thrown ''TypeError'' ''cannot read properties of null'')
     else if \<not> report_bound ctx r report then Inl (js_error ''report payload binding mismatch'')
     else res_bind (assert_report_json report) (\<lambda>_. Inr report))))"

definition get_report_of :: "'o runtime_env \<Rightarrow> tenant_identity \<Rightarrow> string \<Rightarrow> ('o, json option) run" where
  "get_report_of env i report_id =
     world_bind (on_db (getReport (identity_context i) report_id)) (\<lambda>found.
     case found of None \<Rightarrow> done_with None
     | Some r \<Rightarrow>
         if r_status r \<noteq> ''completed''
         then done_with (Some (JObj [(''id'', JStr (row_id r)), (''kind'', JStr (r_kind r)), (''status'', JStr (r_status r)),
           (''generatedAt'', JStr (toISOString (r_generated r))), (''version'', JNum (row_version r))]))
         else (case (r_payload r, r_key_version r) of
           (Some payload, Some version) \<Rightarrow>
             if version = 0 then pure_result (Inl (js_error ''completed report payload is unavailable''))
             else world_bind (household_key env (identity_context i)) (\<lambda>(_, key).
               pure_result (res_bind (open_report (re_aead env) (identity_context i) key r payload version)
                 (\<lambda>report. Inr (Some report))))
         | _ \<Rightarrow> pure_result (Inl (js_error ''completed report payload is unavailable''))))"

section \<open>Billing\<close>

definition create_checkout :: "'o runtime_env \<Rightarrow> tenant_identity \<Rightarrow> string \<Rightarrow> ('o, json) run" where
  "create_checkout env i key =
     world_bind (on_services (createCheckout (re_stripe env) (re_stripe_io env) (re_urls env)
       \<lparr> cr_reference = ti_membership i, cr_success = re_app_url env ''/billing/success'',
         cr_cancel = re_app_url env ''/billing/cancel'', cr_key = key, cr_org = ti_org i, cr_hh = ti_hh i,
         cr_plan = ''essential'' \<rparr>)) (\<lambda>s.
     done_with (session_json s))"

definition create_billing_portal :: "'o runtime_env \<Rightarrow> tenant_identity \<Rightarrow> string \<Rightarrow> ('o, json) run" where
  "create_billing_portal env i key =
     world_bind (on_db (getBillingProviderCustomerId (identity_context i))) (\<lambda>customer.
     if \<not> truthy_text customer then pure_result (Inl (js_error ''billing customer is not available''))
     else world_bind (on_services (createBillingPortal (re_stripe env) (re_stripe_io env) (re_urls env)
         \<lparr> br_customer = the customer, br_return = re_app_url env ''/billing'', br_key = key \<rparr>)) (\<lambda>s.
       done_with (session_json s)))"

fun access_name :: "billing_access \<Rightarrow> string" where
  "access_name FullAccess = ''full''"
| "access_name GraceAccess = ''grace''"
| "access_name ReadOnlyAccess = ''read-only''"

definition entitlements_json :: "entitlements \<Rightarrow> json" where
  "entitlements_json e = JObj [(''vaultRead'', JBool (vault_read e)), (''vaultWrite'', JBool (vault_write e)),
     (''documentUpload'', JBool (document_upload e)), (''aiInterview'', JBool (ai_interview e)),
     (''reportGeneration'', JBool (report_generation e)), (''exportGeneration'', JBool (export_generation e))]"

definition quota_json :: "int option \<Rightarrow> json" where
  "quota_json q = (case q of None \<Rightarrow> JNull | Some n \<Rightarrow> JNum n)"

definition subscription_json_of :: "subscription_read \<Rightarrow> json" where
  "subscription_json_of s = JObj [(''status'', JStr (sr_status s)), (''plan'', text_json (sr_plan s)),
     (''providerUpdatedAt'', date_json (sr_updated s)), (''trialEndsAt'', date_json (sr_trial_ends s)),
     (''currentPeriodEndsAt'', date_json (sr_period_ends s)), (''cancelAtPeriodEnd'', JBool (sr_cancel_at_end s)),
     (''canceledAt'', date_json (sr_canceled s)), (''version'', JNum (sr_version s)),
     (''access'', JStr (access_name (bd_access (sr_billing s)))),
     (''graceUntil'', date_json (bd_grace_until (sr_billing s))),
     (''entitlements'', entitlements_json (bd_entitlements (sr_billing s))),
     (''quotas'', JObj [(''households'', JNum (q_households (bd_quotas (sr_billing s)))),
        (''members'', quota_json (q_members (bd_quotas (sr_billing s)))),
        (''storageBytes'', quota_json (q_storage_bytes (bd_quotas (sr_billing s)))),
        (''aiInterviewsMonthly'', quota_json (q_ai_monthly (bd_quotas (sr_billing s))))])]"

definition get_subscription_of :: "'o runtime_env \<Rightarrow> tenant_identity \<Rightarrow> ('o, json) run" where
  "get_subscription_of env i =
     world_bind (draw (re_now env)) (\<lambda>clock.
     world_bind (on_db (getSubscription (identity_context i) clock)) (\<lambda>s. done_with (subscription_json_of s)))"

definition refund_json :: "refund_row \<Rightarrow> json" where
  "refund_json r = JObj [(''id'', JStr (row_id r)), (''amount'', JNum (br_amount r)), (''currency'', JStr (br_currency r)),
     (''reason'', text_json (br_reason r)), (''status'', JStr (br_status r)),
     (''providerUpdatedAt'', JStr (toISOString (br_updated r))), (''version'', JNum (row_version r))]"

definition list_billing_refunds :: "tenant_identity \<Rightarrow> ('o, json) run" where
  "list_billing_refunds i = world_bind (on_db (listBillingRefunds (identity_context i))) (\<lambda>rs.
     done_with (JArr (map refund_json rs)))"

section \<open>Uploads\<close>

definition upload_reply :: "upload_record \<Rightarrow> string \<Rightarrow> json" where
  "upload_reply r key = JObj [(''document'', row_json (ur_id r) (ur_status r) (ur_version r)),
     (''encryption'', JObj [(''algorithm'', JStr ''A256GCM''), (''keyBase64'', JStr (base64 key)),
        (''keyVersion'', JNum (ur_key_version r)), (''purpose'', JStr ''document-original'')])]"

definition start_document_upload :: "'o runtime_env \<Rightarrow> tenant_identity \<Rightarrow> document_upload \<Rightarrow> ('o, json) run" where
  "start_document_upload env i u =
     (let ctx = identity_context i in
     world_bind (draw (re_uuid env)) (\<lambda>document_id.
     world_bind (draw (re_random env)) (\<lambda>data_key.
     world_bind (household_key env ctx) (\<lambda>(version, key).
     world_bind (draw (re_uuid env)) (\<lambda>object_id.
     world_bind (draw (re_iv env)) (\<lambda>iv.
     world_bind (pure_result (encryptEnvelope (re_aead env) iv data_key key
       (record_context ctx document_id ''document-data-key'' version))) (\<lambda>wrapped.
     world_bind (draw (re_now env)) (\<lambda>consented.
     world_bind (draw (re_uuid env)) (\<lambda>consent_id.
     world_bind (on_db (startDocumentUpload (re_sha256 env) ctx consent_id consented
       (map_option toISOString (du_expires u))
       \<lparr> ui_id = document_id, ui_object_key = createObjectKey object_id, ui_sha256 = du_sha256 u,
         ui_media_type = du_media_type u, ui_wrapped_key = JObj (envelope_members wrapped), ui_key_version = version,
         ui_maximum_bytes = du_maximum_bytes u, ui_idempotency_key = du_key u, ui_expires = du_expires u,
         ui_consent_policy = du_consent_policy u, ui_delete_original = du_delete_original u,
         ui_consented = consented \<rparr>)) (\<lambda>r.
     if ur_id r = document_id then done_with (upload_reply r data_key)
     else world_bind (pure_result (res_bind (runtime_envelope (ur_wrapped_key r)) (\<lambda>e.
         decryptEnvelope (re_aead env) e key
           (record_context ctx (ur_id r) ''document-data-key'' (ur_key_version r))))) (\<lambda>returned.
       done_with (upload_reply r returned))))))))))))"

definition create_document_upload_url ::
  "'o runtime_env \<Rightarrow> tenant_identity \<Rightarrow> string \<Rightarrow> int \<Rightarrow> string \<Rightarrow> ('o, json) run" where
  "create_document_upload_url env i document_id version ciphertext_sha256 =
     world_bind (on_db (getPendingDocumentUpload (identity_context i) document_id)) (\<lambda>r.
     if ur_version r \<noteq> version then pure_result (Inl (js_error ''document upload version conflict''))
     else world_bind (pure_result (createPresignedUpload (re_sign_upload env) (ur_object_key r)
         (base64 (hex_bytes ciphertext_sha256)) envelope_media_type 300)) (\<lambda>url.
       done_with (JObj [(''uploadUrl'', JStr url), (''expiresInSeconds'', JNum 300)])))"

definition complete_document_upload ::
  "'o runtime_env \<Rightarrow> tenant_identity \<Rightarrow> string \<Rightarrow> int \<Rightarrow> string \<Rightarrow> string \<Rightarrow> ('o, json) run" where
  "complete_document_upload env i document_id version ciphertext_sha256 key =
     world_bind (on_db (getPendingDocumentUpload (identity_context i) document_id)) (\<lambda>r.
     if ur_version r \<noteq> version then pure_result (Inl (js_error ''document upload version conflict''))
     else world_bind (on_services (assertStoredChecksum (re_s3 env) (ur_object_key r)
         (base64 (hex_bytes ciphertext_sha256)))) (\<lambda>_.
       world_bind (draw (re_now env)) (\<lambda>uploaded.
       world_bind (draw (re_uuid env)) (\<lambda>workflow_id.
       world_bind (on_db (completeDocumentUpload (re_sha256 env) (identity_context i) workflow_id uploaded document_id
         version ciphertext_sha256 key uploaded)) (\<lambda>started.
       world_bind (enqueueWorkflow env ''document-process'' started i None) (\<lambda>_.
       done_with started))))))"

section \<open>Manual extraction\<close>

definition candidate_json :: "'o runtime_env \<Rightarrow> extraction_candidate \<Rightarrow> json" where
  "candidate_json env c = JObj ([(''fieldKey'', JStr (ec_field_key c)), (''value'', ec_value c),
     (''locator'', JStr (ec_locator c)), (''sensitivity'', JStr (ec_sensitivity c))]
     @ (case ec_confidence c of None \<Rightarrow> [] | Some n \<Rightarrow> [(''confidence'', re_confidence env n)]))"

definition extraction_json :: "'o runtime_env \<Rightarrow> manual_extraction \<Rightarrow> json" where
  "extraction_json env m = JObj [(''documentId'', JStr (me_document m)), (''workflowId'', JStr (me_workflow m)),
     (''expectedWorkflowVersion'', JNum (me_version m)),
     (''candidates'', JArr (map (candidate_json env) (me_candidates m)))]"

definition seal_candidate ::
  "'o runtime_env \<Rightarrow> tenant_context \<Rightarrow> string \<Rightarrow> int \<Rightarrow> string \<Rightarrow> extraction_candidate \<Rightarrow> ('o, manual_candidate) run" where
  "seal_candidate env ctx key version document_id c =
     (let serialized = json_stringify (ec_value c) in
     if prohibited_in serialized \<noteq> []
     then pure_result (Inl (js_error ''manual extraction contains prohibited content''))
     else world_bind (draw (re_uuid env)) (\<lambda>fact_id.
       world_bind (draw (re_uuid env)) (\<lambda>evidence_id.
       world_bind (draw (re_iv env)) (\<lambda>iv.
       world_bind (pure_result (seal_text (re_aead env) iv (utf8_bytes serialized) key
         (record_context ctx fact_id (''fact-value:'' @ ec_field_key c) version))) (\<lambda>sealed.
       done_with \<lparr> fw_id = fact_id, fw_field_key = ec_field_key c, fw_ciphertext = sealed, fw_key_version = version,
         fw_source_type = ''document'', fw_source_id = document_id, fw_evidence = [],
         fw_confidence = ec_confidence c, fw_sensitivity = ec_sensitivity c, mc_evidence = evidence_id,
         mc_locator = ec_locator c \<rparr>)))))"

fun world_map :: "('a \<Rightarrow> ('x, 'b) world_op) \<Rightarrow> 'a list \<Rightarrow> ('x, 'b list) world_op" where
  "world_map f [] = pure_result (Inr [])"
| "world_map f (x # xs) = world_bind (f x) (\<lambda>y. world_bind (world_map f xs) (\<lambda>ys. pure_result (Inr (y # ys))))"

definition complete_manual_extraction :: "'o runtime_env \<Rightarrow> tenant_identity \<Rightarrow> manual_extraction \<Rightarrow> ('o, json) run" where
  "complete_manual_extraction env i m =
     world_bind (household_key env (identity_context i)) (\<lambda>(version, key).
     world_bind (world_map (seal_candidate env (identity_context i) key version (me_document m)) (me_candidates m)) (\<lambda>cs.
     world_bind (draw (re_now env)) (\<lambda>captured.
     on_db (completeManualDocumentExtraction (identity_context i) captured (me_document m) (me_workflow m)
       (me_version m) (me_key m) (hash_text (re_sha256 env) (json_stringify (extraction_json env m))) captured cs))))"

end
