(* ===== verification/Ai_Interview.thy ===== *)
theory Ai_Interview
  imports Api_Services
begin

text \<open>
  \<open>runAiInterview\<close> of \<open>apps/api/src/runtime.ts\<close>: one exchange with the AI provider under the
  household's consent.  An answer is remembered for its idempotency key in the process, and kept
  encrypted in the exact cache; whatever its origin, it is checked before it is returned.
\<close>

section \<open>The answer\<close>

text \<open>
  \<open>aiInterviewSchema\<close>: unknown members are dropped, \<open>proposedValue\<close> may be absent.  The numbers of
  the model's JSON are integers, so a confidence is 0 or 1 here.
\<close>

record interview_candidate =
  ic_field_key :: string
  ic_proposed :: "json option"
  ic_quote :: string
  ic_confidence :: json

record interview_answer =
  ia_candidates :: "interview_candidate list"
  ia_follow_up :: "string option"

definition zod_error :: ai_error where
  "zod_error = Failed ''ZodError'' ''the value does not match the schema''"

definition text_between :: "nat \<Rightarrow> nat \<Rightarrow> json option \<Rightarrow> string option" where
  "text_between least most v = (case v of Some (JStr s) \<Rightarrow> if least \<le> length s \<and> length s \<le> most then Some s else None
     | _ \<Rightarrow> None)"

definition read_interview_candidate :: "json \<Rightarrow> interview_candidate option" where
  "read_interview_candidate v = (case (v, text_between 3 160 (jfield v ''fieldKey''),
       text_between 1 500 (jfield v ''evidenceQuote''), jfield v ''confidence'') of
     (JObj _, Some key, Some quoted, Some (JNum n)) \<Rightarrow>
       if 0 \<le> n \<and> n \<le> 1 then Some \<lparr> ic_field_key = key, ic_proposed = jfield v ''proposedValue'', ic_quote = quoted,
         ic_confidence = JNum n \<rparr> else None
   | _ \<Rightarrow> None)"

fun read_all :: "('a \<Rightarrow> 'b option) \<Rightarrow> 'a list \<Rightarrow> 'b list option" where
  "read_all f [] = Some []"
| "read_all f (v # vs) = (case (f v, read_all f vs) of (Some x, Some xs) \<Rightarrow> Some (x # xs) | _ \<Rightarrow> None)"

definition interview_schema :: "json \<Rightarrow> ai_error + interview_answer" where
  "interview_schema v = (case jfield v ''candidates'' of
     Some (JArr cs) \<Rightarrow>
       if 20 < length cs then Inl zod_error
       else (case (read_all read_interview_candidate cs, jfield v ''followUpQuestion'') of
           (Some candidates, Some JNull) \<Rightarrow> Inr \<lparr> ia_candidates = candidates, ia_follow_up = None \<rparr>
         | (Some candidates, Some (JStr q)) \<Rightarrow>
             if 1 \<le> length q \<and> length q \<le> 500 then Inr \<lparr> ia_candidates = candidates, ia_follow_up = Some q \<rparr>
             else Inl zod_error
         | _ \<Rightarrow> Inl zod_error)
   | _ \<Rightarrow> Inl zod_error)"

definition candidate_members :: "interview_candidate \<Rightarrow> json" where
  "candidate_members c = JObj ([(''fieldKey'', JStr (ic_field_key c))]
     @ (case ic_proposed c of None \<Rightarrow> [] | Some v \<Rightarrow> [(''proposedValue'', v)])
     @ [(''evidenceQuote'', JStr (ic_quote c)), (''confidence'', ic_confidence c)])"

definition answer_members :: "interview_answer \<Rightarrow> (string \<times> json) list" where
  "answer_members a = [(''candidates'', JArr (map candidate_members (ia_candidates a))),
     (''followUpQuestion'', text_json (ia_follow_up a))]"

section \<open>The prompt\<close>

definition interview_global_policy :: string where
  "interview_global_policy = ''Return evidence-linked candidate suggestions only. Never state that a candidate is confirmed. Never request or reproduce passwords, PINs, recovery codes, seed phrases, private keys, full payment card numbers, complete Social Security numbers, authentication answers, or safe combinations.''"

definition interview_task_policy :: string where
  "interview_task_policy = ''Use only the supplied message. Return JSON with candidates and one nullable followUpQuestion. Each candidate needs a canonical fieldKey, proposedValue, an exact short evidenceQuote from the message, and confidence from 0 to 1.''"

definition interview_output_schema :: "'o runtime_env \<Rightarrow> json" where
  "interview_output_schema env = JObj [(''candidates'', JArr [JObj [(''fieldKey'', JStr ''insurance.carrier''),
       (''proposedValue'', JStr ''string or structured JSON value''),
       (''evidenceQuote'', JStr ''exact supporting words''), (''confidence'', re_confidence env 9000)]]),
     (''followUpQuestion'', JStr ''string or null'')]"

definition interview_content :: "string list \<Rightarrow> string \<Rightarrow> json" where
  "interview_content categories message =
     JObj [(''categories'', JArr (map JStr categories)), (''message'', JStr message)]"

definition stable_text :: "'o runtime_env \<Rightarrow> json \<Rightarrow> string" where
  "stable_text env v = stableStringify (re_collate env) (re_nfc env) v"

definition interview_envelope :: "'o runtime_env \<Rightarrow> string list \<Rightarrow> string \<Rightarrow> prompt_envelope" where
  "interview_envelope env categories message = \<lparr> pe_family = ''interview-assistance'', pe_version = ''v1'',
     pe_global = interview_global_policy, pe_task = interview_task_policy, pe_schema = interview_output_schema env,
     pe_capsule = JObj [(''allowedCategories'', JArr (map JStr categories)), (''authoritativeStatus'', JStr ''candidate-only'')],
     pe_content = stable_text env (interview_content categories message) \<rparr>"

definition interview_request :: "'o runtime_env \<Rightarrow> tenant_identity \<Rightarrow> prompt_envelope \<Rightarrow> gateway_request" where
  "interview_request env i p = \<lparr> gr_org = ti_org i, gr_hh = ti_hh i, gr_purpose = ''interview-assistance'',
     gr_consent = True, gr_envelope = p, gr_mode = ''standard'', gr_model = re_model env, gr_max_output = 1024,
     gr_input_cost = 0, gr_output_cost = 0 \<rparr>"

section \<open>The exact cache\<close>

fun run_each :: "('a \<Rightarrow> ('x, unit) world_op) \<Rightarrow> 'a list \<Rightarrow> ('x, unit) world_op" where
  "run_each f [] = pure_result (Inr ())"
| "run_each f (x # xs) = world_bind (f x) (\<lambda>_. run_each f xs)"

text \<open>What the process records of a metric of the gateway; the recorder may refuse a label.\<close>

definition ai_labels :: "gateway_metric \<Rightarrow> (string \<times> string) list" where
  "ai_labels m = [(''provider'', ''deepseek''), (''task_family'', gm_task m), (''prompt_version'', gm_prompt_version m),
     (''model'', gm_model m), (''mode'', gm_mode m), (''outcome'', gm_outcome m)]
     @ (case configured (gm_error_class m) of None \<Rightarrow> [] | Some c \<Rightarrow> [(''error_class'', lower_text c)])"

definition ai_points :: "gateway_metric \<Rightarrow> (string \<times> rat) list" where
  "ai_points m = [(''legacy_ai_request_duration_ms'', of_int (gm_latency m)),
     (''legacy_ai_input_tokens_total'', of_int (pu_input (gm_usage m))),
     (''legacy_ai_output_tokens_total'', of_int (pu_output (gm_usage m))),
     (''legacy_ai_cache_hit_tokens_total'', of_int (pu_cache_hit (gm_usage m))),
     (''legacy_ai_cache_miss_tokens_total'', of_int (pu_cache_miss (gm_usage m))),
     (''legacy_ai_cost_usd_total'', gm_cost m), (''legacy_ai_dlp_findings_total'', of_int (gm_findings m)),
     (''legacy_ai_retries_total'', of_int (gm_retries m)),
     (''legacy_ai_schema_success_total'', if gm_schema_success m then 1 else 0)]"

definition record_point :: "'o runtime_env \<Rightarrow> (string \<times> string) list \<Rightarrow> string \<times> rat \<Rightarrow> ('o, unit) run" where
  "record_point env labels p = world_bind (draw (re_now env)) (\<lambda>now.
     on_metrics (metric_record (re_collate env) now (fst p) (snd p) labels))"

definition record_ai_metric :: "'o runtime_env \<Rightarrow> gateway_metric \<Rightarrow> ('o, unit) run" where
  "record_ai_metric env m = run_each (record_point env (ai_labels m)) (ai_points m)"

definition emit :: "'o runtime_env \<Rightarrow> gateway_metric list \<Rightarrow> ('o, unit) run" where
  "emit env ms = run_each (record_ai_metric env) ms"

text \<open>What the \<open>try\<close> block reads from a cached text.\<close>

definition open_cached ::
  "aead \<Rightarrow> tenant_context \<Rightarrow> string \<Rightarrow> int \<times> string \<Rightarrow> string \<Rightarrow> interview_answer option" where
  "open_cached a ctx cache_key key cached =
     (case (case json_parse cached of None \<Rightarrow> Inl syntax_error | Some v \<Rightarrow>
        res_bind (runtime_envelope v) (\<lambda>e.
        res_bind (decryptEnvelope a e (snd key) (record_context ctx cache_key ''ai-exact-cache'' (fst key))) parse_bytes)) of
      Inl _ \<Rightarrow> None
    | Inr v \<Rightarrow> (case interview_schema v of Inl _ \<Rightarrow> None | Inr answer \<Rightarrow> Some answer))"

definition cached_interview ::
  "'o runtime_env \<Rightarrow> tenant_identity \<Rightarrow> string \<Rightarrow> ('o, interview_answer option) run" where
  "cached_interview env i cache_key =
     world_bind (on_services (\<lambda>x. case cache_get (re_redis env) (re_cache_namespace env) cache_key x of (r, x') \<Rightarrow> (Inr r, x')))
       (\<lambda>cached.
     case cached of None \<Rightarrow> done_with None
     | Some t \<Rightarrow>
         if t = [] then done_with None
         else world_bind (household_key env (identity_context i)) (\<lambda>key.
           case open_cached (re_aead env) (identity_context i) cache_key key t of
             Some answer \<Rightarrow> done_with (Some answer)
           | None \<Rightarrow> world_bind (on_services (\<lambda>x. case cache_delete (re_redis env) (re_cache_namespace env) cache_key x of
                 (u, x') \<Rightarrow> (Inr u, x'))) (\<lambda>_. done_with None)))"

definition cache_interview ::
  "'o runtime_env \<Rightarrow> tenant_identity \<Rightarrow> string \<Rightarrow> interview_answer \<Rightarrow> ('o, unit) run" where
  "cache_interview env i cache_key answer =
     world_bind (household_key env (identity_context i)) (\<lambda>(version, key).
     world_bind (draw (re_iv env)) (\<lambda>iv.
     world_bind (pure_result (encryptEnvelope (re_aead env) iv
       (utf8_bytes (stable_text env (JObj (answer_members answer)))) key
       (record_context (identity_context i) cache_key ''ai-exact-cache'' version))) (\<lambda>e.
     on_services (cache_set (re_redis env) (re_cache_namespace env) cache_key
       (json_stringify (JObj (envelope_members e))) 900
       (Some (aiCacheScopeKey (re_collate env) (re_nfc env) (re_sha256 env) (ti_org i) (ti_hh i)))))))"

section \<open>The exchange\<close>

definition ai_error_of :: "ai_error \<Rightarrow> err" where
  "ai_error_of e = Thrown (ai_error_name e) ''AI request failed''"

text \<open>The provider call of the gateway, over the circuit the process keeps.\<close>

definition provider_call ::
  "'o runtime_env \<Rightarrow> provider_request \<Rightarrow> 'o api_world \<Rightarrow> (ai_error + provider_result) \<times> 'o api_world" where
  "provider_call env q w = (case invoke (re_transport env) (re_deepseek env) q (aw_circuit w) (aw_services w) of
     (out, s, x) \<Rightarrow> (out, w \<lparr> aw_circuit := s, aw_services := x \<rparr>))"

definition ask_provider :: "'o runtime_env \<Rightarrow> gateway_request \<Rightarrow> ('o, interview_answer) run" where
  "ask_provider env r =
     world_bind (draw (re_perf env)) (\<lambda>started.
     world_bind (draw (re_perf env)) (\<lambda>ended w.
     case ai_execute (re_collate env) (re_nfc env) (provider_call env) interview_schema (ended - started) r w of
       (out, metrics, w') \<Rightarrow> world_bind (emit env metrics) (\<lambda>_.
         pure_result (case out of Inl e \<Rightarrow> Inl (ai_error_of e) | Inr answer \<Rightarrow> Inr answer)) w'))"

text \<open>The checks of every answer, wherever it comes from.\<close>

fun candidates_allowed :: "string list \<Rightarrow> interview_candidate list \<Rightarrow> unit result" where
  "candidates_allowed categories [] = Inr ()"
| "candidates_allowed categories (c # cs) = res_bind (recordCategoryFromFieldKey (ic_field_key c)) (\<lambda>category.
     if category_name category \<notin> set categories then Inl (js_error ''AI output exceeded allowed categories'')
     else candidates_allowed categories cs)"

definition check_answer :: "'o runtime_env \<Rightarrow> string list \<Rightarrow> interview_answer \<Rightarrow> unit result" where
  "check_answer env categories answer = res_bind (candidates_allowed categories (ia_candidates answer)) (\<lambda>_.
     if prohibited_in (stable_text env (JObj (answer_members answer))) \<noteq> []
     then Inl (js_error ''AI output contains prohibited content'') else Inr ())"

definition interview_response ::
  "'o runtime_env \<Rightarrow> string \<times> string \<times> int \<Rightarrow> string list \<Rightarrow> interview_answer \<Rightarrow> json" where
  "interview_response env consent categories answer = JObj ([(''provider'', JStr ''deepseek''),
     (''model'', JStr (re_model env)),
     (''consent'', JObj [(''id'', JStr (fst consent)), (''policyVersion'', JStr (fst (snd consent))),
        (''version'', JNum (snd (snd consent)))]),
     (''categoriesSent'', JArr (map JStr categories)), (''authoritative'', JBool False)] @ answer_members answer)"

text \<open>\<open>Map.set\<close>, and the eviction of the oldest entry beyond a thousand.\<close>

definition remember_interview ::
  "string \<Rightarrow> string \<times> json \<Rightarrow> (string \<times> string \<times> json) list \<Rightarrow> (string \<times> string \<times> json) list" where
  "remember_interview key v entries =
     (let entries' = (if key \<in> fst ` set entries then map (\<lambda>e. if fst e = key then (key, v) else e) entries
        else entries @ [(key, v)]) in
      if 1000 < length entries' then tl entries' else entries')"

definition interview_answer_for ::
  "'o runtime_env \<Rightarrow> tenant_identity \<Rightarrow> int \<Rightarrow> gateway_request \<Rightarrow> string list \<Rightarrow> ('o, interview_answer) run" where
  "interview_answer_for env i consent_version r categories =
     (let cache_key = cacheKey (re_collate env) (re_nfc env) (re_sha256 env) r consent_version in
     world_bind (draw (re_perf env)) (\<lambda>started.
     world_bind (cached_interview env i cache_key) (\<lambda>cached.
     world_bind (draw (re_perf env)) (\<lambda>ended.
     world_bind (emit env [recordApplicationCache r (cached \<noteq> None) (ended - started)]) (\<lambda>_.
     world_bind (case cached of Some answer \<Rightarrow> done_with answer | None \<Rightarrow> ask_provider env r) (\<lambda>answer.
     world_bind (pure_result (check_answer env categories answer)) (\<lambda>_.
     world_bind (if cached = None then cache_interview env i cache_key answer else done_with ()) (\<lambda>_.
     done_with answer))))))))"

definition interview_with_consent ::
  "'o runtime_env \<Rightarrow> tenant_identity \<Rightarrow> interview_input \<Rightarrow> string \<times> string \<times> int \<Rightarrow> ('o, json) run" where
  "interview_with_consent env i input consent w =
     (let categories = sort (remdups (iv_categories input));
          request_hash = hash_text (re_sha256 env) (stable_text env (interview_content categories (iv_message input)));
          idempotency = stable_text env (JObj [(''organizationId'', JStr (ti_org i)),
            (''householdId'', JStr (ti_hh i)), (''idempotencyKey'', JStr (iv_key input))]);
          request = interview_request env i (interview_envelope env categories (iv_message input)) in
      if categories = [] \<or> \<not> set categories \<subseteq> set category_names
      then (Inl (js_error ''AI categories are invalid''), w)
      else (case map_of (aw_interviews w) idempotency of
          Some (h, response) \<Rightarrow> (if h \<noteq> request_hash then Inl (js_error ''AI idempotency key conflict'') else Inr response, w)
        | None \<Rightarrow> world_bind (interview_answer_for env i (snd (snd consent)) request categories) (\<lambda>answer w1.
            let response = interview_response env consent categories answer in
            (Inr response, w1 \<lparr> aw_interviews := remember_interview idempotency (request_hash, response) (aw_interviews w1) \<rparr>)) w))"

definition run_ai_interview :: "'o runtime_env \<Rightarrow> tenant_identity \<Rightarrow> interview_input \<Rightarrow> ('o, json) run" where
  "run_ai_interview env i input =
     world_bind (draw (re_now env)) (\<lambda>now w.
     if \<not> fst (readiness (re_deepseek env) (aw_circuit w) now)
     then (Inl (js_error ''AI provider is unavailable''), w)
     else world_bind (on_db (getActiveConsent (identity_context i) (ti_actor i) ''external-ai'')) (\<lambda>found.
       case found of
         None \<Rightarrow> pure_result (Inl (js_error ''affirmative external AI consent is required''))
       | Some consent \<Rightarrow>
           if snd (snd consent) \<noteq> iv_consent_version input
           then pure_result (Inl (js_error ''affirmative external AI consent is required''))
           else interview_with_consent env i input consent) w)"

section \<open>What an interview leaves alone\<close>

definition same_interviews :: "('o, 'a) run \<Rightarrow> bool" where
  "same_interviews m \<longleftrightarrow> (\<forall>w. aw_interviews (snd (m w)) = aw_interviews w)"

lemma same_interviews_bind:
  assumes "same_interviews m" and "\<And>a. same_interviews (f a)"
  shows "same_interviews (world_bind m f)"
  unfolding same_interviews_def
proof
  fix w
  obtain r w1 where m: "m w = (r, w1)" by (cases "m w")
  then have "aw_interviews w1 = aw_interviews w" using assms(1) by (metis same_interviews_def snd_conv)
  with m assms(2) show "aw_interviews (snd (world_bind m f w)) = aw_interviews w"
    by (cases r) (simp_all add: world_bind_def same_interviews_def)
qed

lemma same_interviews_steps:
  "same_interviews (draw g)" "same_interviews (on_db m)" "same_interviews (on_services n)"
  "same_interviews (pure_result r)" "same_interviews (done_with a)" "same_interviews (on_metrics k)"
  by (simp_all add: same_interviews_def draw_def on_db_def on_services_def on_metrics_def pure_result_def done_with_def
      split: prod.split)

lemma same_interviews_each: "(\<And>x. same_interviews (f x)) \<Longrightarrow> same_interviews (run_each f xs)"
  by (induction xs) (auto intro: same_interviews_bind same_interviews_steps)

lemma same_interviews_emit: "same_interviews (emit env ms)"
  unfolding emit_def record_ai_metric_def record_point_def
  by (intro same_interviews_each same_interviews_bind same_interviews_steps)

lemma same_interviews_key: "same_interviews (household_key env ctx)"
  unfolding household_key_def by (intro same_interviews_bind same_interviews_steps)

lemma same_interviews_cached: "same_interviews (cached_interview env i k)"
proof -
  have "same_interviews (case open_cached a ctx k key t of Some answer \<Rightarrow> done_with (Some answer)
      | None \<Rightarrow> world_bind (on_services m) (\<lambda>_. done_with None))" for a ctx key t m
    by (cases "open_cached a ctx k key t") (simp_all add: same_interviews_bind same_interviews_steps)
  then show ?thesis unfolding cached_interview_def
    by (intro same_interviews_bind same_interviews_steps)
      (simp add: same_interviews_bind same_interviews_steps same_interviews_key split: option.split)
qed

lemma same_interviews_cache: "same_interviews (cache_interview env i k answer)"
  unfolding cache_interview_def
  by (auto intro!: same_interviews_bind same_interviews_steps same_interviews_key)

text \<open>A call of the gateway moves the world only through the provider.\<close>

lemma ai_execute_world:
  assumes "ai_execute collate nfc call schema latency r w = (out, ms, w')"
  shows "w' = w \<or> w' = snd (call (provider_request_of collate nfc r) w)"
  using assms by (auto simp: ai_execute_def Let_def split: if_splits prod.splits sum.splits)

lemma same_interviews_ask: "same_interviews (ask_provider env r)"
proof -
  have call: "aw_interviews w' = aw_interviews w"
    if "ai_execute (re_collate env) (re_nfc env) (provider_call env) interview_schema l r w = (out, ms, w')" for l w out ms w'
    using ai_execute_world [OF that] by (auto simp: provider_call_def split: prod.splits)
  have told: "aw_interviews (snd (world_bind (emit env ms) (\<lambda>_. pure_result out) w)) = aw_interviews w"
    for ms w and out :: "interview_answer result"
    using same_interviews_bind [OF same_interviews_emit same_interviews_steps(4), of env ms "\<lambda>_. out"]
    unfolding same_interviews_def by blast
  have "same_interviews (\<lambda>w. case ai_execute (re_collate env) (re_nfc env) (provider_call env) interview_schema l r w of
      (out, metrics, w') \<Rightarrow> world_bind (emit env metrics) (\<lambda>_. pure_result (f out)) w')"
    for l and f :: "ai_error + interview_answer \<Rightarrow> interview_answer result"
    unfolding same_interviews_def
  proof
    fix w
    obtain out ms w' where e: "ai_execute (re_collate env) (re_nfc env) (provider_call env) interview_schema l r w = (out, ms, w')"
      by (rule prod_cases3)
    show "aw_interviews (snd (case ai_execute (re_collate env) (re_nfc env) (provider_call env) interview_schema l r w of
        (out, metrics, w') \<Rightarrow> world_bind (emit env metrics) (\<lambda>_. pure_result (f out)) w')) = aw_interviews w"
      unfolding e prod.case told by (rule call [OF e])
  qed
  then show ?thesis unfolding ask_provider_def by (intro same_interviews_bind same_interviews_steps)
qed

lemma same_interviews_answer: "same_interviews (interview_answer_for env i v r categories)"
  unfolding interview_answer_for_def Let_def
  by (intro same_interviews_bind same_interviews_steps same_interviews_cached same_interviews_emit)
    (auto simp: same_interviews_ask same_interviews_steps same_interviews_cache split: option.split)

section \<open>Properties\<close>

lemma candidates_allowed_Inr:
  "candidates_allowed categories cs = Inr u \<longleftrightarrow> (\<forall>c \<in> set cs. \<exists>k. recordCategoryFromFieldKey (ic_field_key c) = Inr k
     \<and> category_name k \<in> set categories)"
  by (induction cs) auto

text \<open>A response every candidate of which is in a category that was sent, and whose answer holds nothing prohibited.\<close>

definition checked_response :: "'o runtime_env \<Rightarrow> json \<Rightarrow> bool" where
  "checked_response env v \<longleftrightarrow> (\<exists>consent categories answer. v = interview_response env consent categories answer
     \<and> (\<forall>c \<in> set (ia_candidates answer). \<exists>k. recordCategoryFromFieldKey (ic_field_key c) = Inr k
          \<and> category_name k \<in> set categories)
     \<and> prohibited_in (stable_text env (JObj (answer_members answer))) = [])"

definition interviews_checked :: "'o runtime_env \<Rightarrow> 'o api_world \<Rightarrow> bool" where
  "interviews_checked env w \<longleftrightarrow> (\<forall>(k, h, v) \<in> set (aw_interviews w). checked_response env v)"

lemma answer_checked:
  assumes "interview_answer_for env i v r categories w = (Inr answer, w')"
  shows "check_answer env categories answer = Inr ()"
  using assms unfolding interview_answer_for_def Let_def
  by (auto simp: world_bind_Inr pure_result_def done_with_def)

lemma check_answer_response:
  "check_answer env categories answer = Inr () \<Longrightarrow> checked_response env (interview_response env consent categories answer)"
  unfolding checked_response_def
  by (intro exI [of _ consent] exI [of _ categories] exI [of _ answer])
    (auto simp: check_answer_def candidates_allowed_Inr split: if_splits)

lemma remember_interview_set:
  "set (remember_interview k v es) \<subseteq> insert (k, v) (set es)"
proof -
  have tl: "set (tl xs) \<subseteq> set xs" for xs :: "(string \<times> string \<times> json) list" by (cases xs) auto
  let ?es = "if k \<in> fst ` set es then map (\<lambda>e. if fst e = k then (k, v) else e) es else es @ [(k, v)]"
  have "set ?es \<subseteq> insert (k, v) (set es)" by auto
  moreover have "set (remember_interview k v es) \<subseteq> set ?es"
    unfolding remember_interview_def Let_def using tl [of ?es] by (cases "1000 < length ?es") (simp_all only: if_True if_False order_refl)
  ultimately show ?thesis by (rule order_trans [rotated])
qed

lemma interview_with_consent_checked:
  assumes "interview_with_consent env i input consent w = (out, w')" and "interviews_checked env w"
  shows "interviews_checked env w' \<and> (\<forall>v. out = Inr v \<longrightarrow> checked_response env v)"
proof -
  define categories where "categories = sort (remdups (iv_categories input))"
  define h where "h = hash_text (re_sha256 env) (stable_text env (interview_content categories (iv_message input)))"
  define k where "k = stable_text env (JObj [(''organizationId'', JStr (ti_org i)),
            (''householdId'', JStr (ti_hh i)), (''idempotencyKey'', JStr (iv_key input))])"
  define r where "r = interview_request env i (interview_envelope env categories (iv_message input))"
  have run: "(if categories = [] \<or> \<not> set categories \<subseteq> set category_names
      then (Inl (js_error ''AI categories are invalid''), w)
      else (case map_of (aw_interviews w) k of
          Some (h', response) \<Rightarrow> (if h' \<noteq> h then Inl (js_error ''AI idempotency key conflict'') else Inr response, w)
        | None \<Rightarrow> world_bind (interview_answer_for env i (snd (snd consent)) r categories) (\<lambda>answer w1.
            let response = interview_response env consent categories answer in
            (Inr response, w1 \<lparr> aw_interviews := remember_interview k (h, response) (aw_interviews w1) \<rparr>)) w)) = (out, w')"
    using assms(1) unfolding interview_with_consent_def Let_def categories_def h_def k_def r_def .
  show ?thesis
  proof (cases "map_of (aw_interviews w) k")
    case (Some hv)
    obtain h' v where hv: "hv = (h', v)" by (cases hv)
    from Some hv have "(k, h', v) \<in> set (aw_interviews w)" by (simp add: map_of_SomeD)
    then have "checked_response env v" using assms(2) by (auto simp: interviews_checked_def)
    with run Some hv assms(2) show ?thesis by (auto split: if_splits)
  next
    case None
    obtain out1 w1 where a: "interview_answer_for env i (snd (snd consent)) r categories w = (out1, w1)" by fastforce
    have same: "aw_interviews w1 = aw_interviews w"
      using same_interviews_answer [unfolded same_interviews_def] a by (metis snd_conv)
    show ?thesis
    proof (cases out1)
      case (Inl e)
      with run None a same assms(2) show ?thesis by (auto simp: world_bind_def interviews_checked_def split: if_splits)
    next
      case (Inr answer)
      let ?v = "interview_response env consent categories answer"
      have v: "checked_response env ?v"
        by (rule check_answer_response) (rule answer_checked [OF a [unfolded Inr]])
      then have "\<forall>(k', h', v') \<in> set (remember_interview k (h, ?v) (aw_interviews w)). checked_response env v'"
        using assms(2) remember_interview_set [of k "(h, ?v)" "aw_interviews w"] by (auto simp: interviews_checked_def)
      with run None a same v Inr assms(2) show ?thesis
        by (auto simp: world_bind_def interviews_checked_def Let_def split: if_splits)
    qed
  qed
qed

lemma active_consent_reads: "snd (getActiveConsent ctx person purpose d) = d"
  by (simp add: getActiveConsent_def withTenant_def transaction_def)

text \<open>A run stops before any call of a service, or holds the consent of the version it names.\<close>

lemma run_ai_interview_cases:
  assumes "run_ai_interview env i input w = (out, w')"
  obtains (stopped) e where "out = Inl e" "w' = w \<lparr> aw_ticks := aw_ticks w + 1 \<rparr>"
  | (consented) consent_id policy where
      "fst (getActiveConsent (identity_context i) (ti_actor i) ''external-ai'' (aw_db w))
         = Inr (Some (consent_id, policy, iv_consent_version input))"
      "interview_with_consent env i input (consent_id, policy, iv_consent_version input)
         (w \<lparr> aw_ticks := aw_ticks w + 1 \<rparr>) = (out, w')"
proof -
  obtain found d where g: "getActiveConsent (identity_context i) (ti_actor i) ''external-ai'' (aw_db w) = (found, d)"
    by fastforce
  have d: "d = aw_db w" using active_consent_reads g by (metis snd_conv)
  have w: "w \<lparr> aw_ticks := aw_ticks w + 1, aw_db := d \<rparr> = w \<lparr> aw_ticks := aw_ticks w + 1 \<rparr>" by (simp add: d)
  note run = assms [unfolded run_ai_interview_def world_bind_def draw_def on_db_def pure_result_def]
  show thesis
  proof (cases found)
    case (Inl e)
    with run g w stopped show thesis by (auto split: if_splits)
  next
    case (Inr c)
    show thesis
    proof (cases c)
      case None
      with Inr run g w stopped show thesis by (auto split: if_splits)
    next
      case (Some consent)
      obtain a b v where consent: "consent = (a, b, v)" by (cases consent)
      from Some Inr consent run g w stopped consented [of a b] show thesis by (auto split: if_splits)
    qed
  qed
qed

text \<open>C11: Every response of an interview that the process remembers or returns keeps to the categories
  that were sent, and its answer, from the provider, the cache or memory alike, holds nothing the
  scanner prohibits.\<close>

theorem interview_answers_checked:
  assumes "run_ai_interview env i input w = (out, w')" and "interviews_checked env w"
  shows "interviews_checked env w' \<and> (\<forall>v. out = Inr v \<longrightarrow> checked_response env v)"
  using assms(1)
proof (cases rule: run_ai_interview_cases)
  case stopped
  with assms(2) show ?thesis by (simp add: interviews_checked_def)
next
  case (consented a b)
  have "interviews_checked env (w \<lparr> aw_ticks := aw_ticks w + 1 \<rparr>)" using assms(2) by (simp add: interviews_checked_def)
  then show ?thesis by (rule interview_with_consent_checked [OF consented(2)])
qed

text \<open>C12: Without an active external AI consent of the person, at the version the request names, an
  interview ends in an error and changes nothing: no service is called, no row is written and no
  answer is remembered.\<close>

theorem interview_needs_consent:
  assumes "run_ai_interview env i input w = (out, w')"
    and "\<nexists>consent_id policy. fst (getActiveConsent (identity_context i) (ti_actor i) ''external-ai'' (aw_db w))
         = Inr (Some (consent_id, policy, iv_consent_version input))"
  shows "isl out \<and> aw_services w' = aw_services w \<and> aw_db w' = aw_db w \<and> aw_interviews w' = aw_interviews w"
  using assms(1)
proof (cases rule: run_ai_interview_cases)
  case (consented a b)
  with assms(2) show ?thesis by blast
qed simp

section \<open>A remembered interview\<close>

definition sample_interview :: interview_input where
  "sample_interview = \<lparr> iv_message = ''call Ann'', iv_categories = [''contacts''], iv_consent_version = 1, iv_key = ''k'' \<rparr>"

definition sample_answer :: interview_answer where
  "sample_answer = \<lparr> ia_candidates = [], ia_follow_up = None \<rparr>"

definition sample_answered :: json where
  "sample_answered = interview_response sample_runtime (''c1'', ''p1'', 1) [''contacts''] sample_answer"

definition remembering_world :: "nat api_world" where
  "remembering_world = (sample_world (empty_db \<lparr> consents := [\<lparr> row_org = ''o'', row_hh = ''h'', row_id = ''c1'',
       row_version = 1, c_person = ''own'', c_purpose = ''external-ai'', c_policy = ''p1'', c_granted = 0,
       c_withdrawn = None \<rparr>] \<rparr>))
     \<lparr> aw_interviews := [(stable_text sample_runtime (JObj [(''organizationId'', JStr ''o''), (''householdId'', JStr ''h''),
            (''idempotencyKey'', JStr ''k'')]),
          hash_text (re_sha256 sample_runtime) (stable_text sample_runtime (interview_content [''contacts''] ''call Ann'')),
          sample_answered)] \<rparr>"

lemma sample_answer_checks: "check_answer sample_runtime [''contacts''] sample_answer = Inr ()"
  by code_simp

lemma sample_consent_active:
  "getActiveConsent (identity_context owner_identity) ''own'' ''external-ai'' (aw_db remembering_world)
     = (Inr (Some (''c1'', ''p1'', 1)), aw_db remembering_world)"
  by (simp add: getActiveConsent_def withTenant_def transaction_def sql_select_def order_by_def remembering_world_def
      sample_world_def identity_context_def tenant_session_def tenant_visible_def)

lemma sample_interview_ready:
  "fst (readiness (re_deepseek sample_runtime) (aw_circuit remembering_world)
     (re_now sample_runtime (aw_ticks remembering_world)))"
  by (simp add: readiness_def sample_runtime_def sample_config_def remembering_world_def sample_world_def nonempty_def)

lemma sample_remembered:
  "aw_interviews remembering_world = [(stable_text sample_runtime (JObj [(''organizationId'', JStr ''o''),
      (''householdId'', JStr ''h''), (''idempotencyKey'', JStr ''k'')]),
    hash_text (re_sha256 sample_runtime) (stable_text sample_runtime (interview_content [''contacts''] ''call Ann'')),
    sample_answered)]"
  "aw_ticks remembering_world = 0"
  by (simp_all add: remembering_world_def sample_world_def)

lemma sample_replay:
  "run_ai_interview sample_runtime owner_identity sample_interview remembering_world
     = (Inr sample_answered, remembering_world \<lparr> aw_ticks := 1 \<rparr>)"
proof -
  have c: "set [''contacts''] \<subseteq> set category_names" by code_simp
  with sample_interview_ready sample_consent_active show ?thesis
    by (simp add: run_ai_interview_def interview_with_consent_def world_bind_def draw_def on_db_def sample_interview_def
        Let_def pure_result_def sample_remembered c)
qed

theorem interview_answers_checked_witness:
  "fst (run_ai_interview sample_runtime owner_identity sample_interview remembering_world) = Inr sample_answered
     \<and> checked_response sample_runtime sample_answered"
proof -
  have "interviews_checked sample_runtime remembering_world"
    using check_answer_response [OF sample_answer_checks, of "(''c1'', ''p1'', 1)"]
    by (simp add: interviews_checked_def remembering_world_def sample_answered_def)
  from interview_answers_checked [OF sample_replay this] show ?thesis by (simp add: sample_replay)
qed

theorem interview_needs_consent_witness:
  "fst (run_ai_interview sample_runtime owner_identity (sample_interview \<lparr> iv_consent_version := 2 \<rparr>) remembering_world)
       = Inl (js_error ''affirmative external AI consent is required'')
     \<and> aw_services (snd (run_ai_interview sample_runtime owner_identity (sample_interview \<lparr> iv_consent_version := 2 \<rparr>)
         remembering_world)) = 0"
proof -
  let ?i = "sample_interview \<lparr> iv_consent_version := 2 \<rparr>"
  from sample_interview_ready sample_consent_active have run: "fst (run_ai_interview sample_runtime owner_identity ?i remembering_world)
      = Inl (js_error ''affirmative external AI consent is required'')"
    by (simp add: run_ai_interview_def world_bind_def draw_def on_db_def sample_interview_def pure_result_def)
  obtain out w' where r: "run_ai_interview sample_runtime owner_identity ?i remembering_world = (out, w')" by fastforce
  have "isl out \<and> aw_services w' = aw_services remembering_world \<and> aw_db w' = aw_db remembering_world
      \<and> aw_interviews w' = aw_interviews remembering_world"
    by (rule interview_needs_consent [OF r]) (simp add: sample_consent_active sample_interview_def)
  with run r show ?thesis by (simp add: remembering_world_def sample_world_def)
qed

end
