(* ===== verification/Environment_Config.thy ===== *)
theory Environment_Config
  imports Js_Number Stripe_Adapter
begin

text \<open>
  \<open>packages/contracts/src/environment.ts\<close>: the environment variables of the processes.  The text of
  the variables is parsed by a schema; in production a second pass requires every service to be
  configured, over encrypted connections.  The URL parser of the platform is a parameter.
\<close>

section \<open>The schema\<close>

text \<open>
  The parsed environment.  \<open>ev_texts\<close> and \<open>ev_numbers\<close> hold the optional variables by their names.
\<close>

record environment =
  ev_node :: string
  ev_host :: string
  ev_port :: int
  ev_log_level :: string
  ev_local :: bool
  ev_queue :: string
  ev_texts :: "string \<rightharpoonup> string"
  ev_numbers :: "string \<rightharpoonup> int"

text \<open>What the schema and the second pass read of a URL.\<close>

record endpoint_parts = url_parts +
  ep_port :: string
  ep_username :: string
  ep_password :: string
  ep_search :: "string \<rightharpoonup> string"

type_synonym endpoint_parser = "string \<Rightarrow> endpoint_parts option"

text \<open>An issue of the parse: a variable that does not match the schema, or one the second pass adds.\<close>

datatype issue = Mismatch string | Custom string string

type_synonym variables = "string \<rightharpoonup> string"

definition one_of_texts :: "string list \<Rightarrow> string \<Rightarrow> string \<Rightarrow> variables \<Rightarrow> issue + string" where
  "one_of_texts allowed default_text name vs = (case vs name of
       None \<Rightarrow> Inr default_text
     | Some v \<Rightarrow> if v \<in> set allowed then Inr v else Inl (Mismatch name))"

text \<open>\<open>z.coerce.number().int().min(low).max(high)\<close>.\<close>

definition bounded_number :: "int \<Rightarrow> int \<Rightarrow> string \<Rightarrow> string \<Rightarrow> issue + int" where
  "bounded_number low high name v = (case safe_integer_of_text v of
       Some n \<Rightarrow> if low \<le> n \<and> n \<le> high then Inr n else Inl (Mismatch name)
     | None \<Rightarrow> Inl (Mismatch name))"

text \<open>The optional texts: how each is checked.\<close>

datatype text_check = AnyText | AtLeast nat | AtMost nat nat | Url | EmptyIsUnset text_check

fun text_issue :: "endpoint_parser \<Rightarrow> text_check \<Rightarrow> string \<Rightarrow> bool" where
  "text_issue urls AnyText v = False"
| "text_issue urls (AtLeast n) v = (length v < n)"
| "text_issue urls (AtMost n m) v = (length v < n \<or> m < length v)"
| "text_issue urls Url v = (urls v = None)"
| "text_issue urls (EmptyIsUnset c) v = (v \<noteq> [] \<and> text_issue urls c v)"

fun text_value :: "text_check \<Rightarrow> string \<Rightarrow> string option" where
  "text_value (EmptyIsUnset c) v = (if v = [] then None else Some v)"
| "text_value c v = Some v"

definition text_schema :: "(string \<times> text_check) list" where
  "text_schema = [(''DATABASE_URL'', Url), (''SESSION_SECRET'', AtLeast 43), (''AUDIT_HMAC_KEY'', AtLeast 43),
     (''APP_ENCRYPTION_KEK'', AtLeast 43), (''EXPORT_SIGNING_KEY'', AtLeast 43), (''REDIS_URL'', Url),
     (''DEEPSEEK_API_KEY'', AnyText), (''DEEPSEEK_BASE_URL'', Url), (''DEEPSEEK_MODEL'', AtLeast 1),
     (''API_BASE_URL'', Url), (''APP_BASE_URL'', Url), (''EMAIL_FROM'', AtLeast 3), (''RESEND_API_KEY'', AnyText),
     (''STRIPE_SECRET_KEY'', AnyText), (''STRIPE_WEBHOOK_SECRET'', AnyText), (''STRIPE_PRICE_ESSENTIAL'', AnyText),
     (''R2_ACCESS_KEY_ID'', AnyText), (''R2_SECRET_ACCESS_KEY'', AnyText), (''R2_BUCKET'', AnyText),
     (''R2_ENDPOINT'', Url), (''CLAMAV_HOST'', AtLeast 1), (''OCR_EXECUTABLE'', EmptyIsUnset (AtLeast 1)),
     (''OCR_PYTHON_EXECUTABLE'', EmptyIsUnset (AtLeast 1)), (''SENTRY_DSN'', EmptyIsUnset Url),
     (''OTEL_EXPORTER_OTLP_ENDPOINT'', EmptyIsUnset Url), (''OTEL_EXPORTER_OTLP_HEADERS'', EmptyIsUnset (AtLeast 1))]"

definition number_schema :: "(string \<times> int) list" where
  "number_schema = [(''CLAMAV_PORT'', 65535), (''DELETION_RECOVERY_DAYS'', 365), (''BACKUP_RETENTION_DAYS'', 365)]"

definition text_issues :: "endpoint_parser \<Rightarrow> variables \<Rightarrow> issue list" where
  "text_issues urls vs = concat (map (\<lambda>(name, c). case vs name of
     None \<Rightarrow> [] | Some v \<Rightarrow> if text_issue urls c v then [Mismatch name] else []) text_schema)"

definition number_issues :: "variables \<Rightarrow> issue list" where
  "number_issues vs = concat (map (\<lambda>(name, high). case vs name of
     None \<Rightarrow> [] | Some v \<Rightarrow> (case bounded_number 1 high name v of Inl i \<Rightarrow> [i] | Inr _ \<Rightarrow> [])) number_schema)"

definition texts_of :: "variables \<Rightarrow> string \<rightharpoonup> string" where
  "texts_of vs name = (case map_of text_schema name of None \<Rightarrow> None | Some c \<Rightarrow> Option.bind (vs name) (text_value c))"

definition numbers_of :: "variables \<Rightarrow> string \<rightharpoonup> int" where
  "numbers_of vs name = (case map_of number_schema name of None \<Rightarrow> None
     | Some high \<Rightarrow> Option.bind (vs name) (\<lambda>v. case bounded_number 1 high name v of Inl _ \<Rightarrow> None | Inr n \<Rightarrow> Some n))"

definition node_env :: "variables \<Rightarrow> issue + string" where
  "node_env = one_of_texts [''development'', ''test'', ''production''] ''development'' ''NODE_ENV''"

definition log_level :: "variables \<Rightarrow> issue + string" where
  "log_level = one_of_texts [''fatal'', ''error'', ''warn'', ''info'', ''debug'', ''trace'', ''silent''] ''info'' ''LOG_LEVEL''"

definition local_mode :: "variables \<Rightarrow> issue + string" where
  "local_mode = one_of_texts [''true'', ''false''] ''false'' ''LOCAL_ENGINEERING_MODE''"

definition port_number :: "variables \<Rightarrow> issue + int" where
  "port_number vs = (case vs ''PORT'' of None \<Rightarrow> Inr 3001 | Some v \<Rightarrow> bounded_number 1 65535 ''PORT'' v)"

definition queue_name :: "endpoint_parser \<Rightarrow> variables \<Rightarrow> issue + string" where
  "queue_name urls vs = (case vs ''WORKFLOW_QUEUE_NAME'' of None \<Rightarrow> Inr ''legacy-workflows''
     | Some v \<Rightarrow> if text_issue urls (AtMost 3 120) v then Inl (Mismatch ''WORKFLOW_QUEUE_NAME'') else Inr v)"

definition issue_of :: "issue + 'a \<Rightarrow> issue list" where
  "issue_of r = (case r of Inl i \<Rightarrow> [i] | Inr _ \<Rightarrow> [])"

text \<open>The object of the schema: the parsed environment, or its issues (their order is not modelled).\<close>

definition parse_variables :: "endpoint_parser \<Rightarrow> variables \<Rightarrow> issue list + environment" where
  "parse_variables urls vs =
     (case (node_env vs, log_level vs, local_mode vs, port_number vs, queue_name urls vs, text_issues urls vs @ number_issues vs) of
        (Inr node, Inr level, Inr mode, Inr port, Inr queue, []) \<Rightarrow> Inr \<lparr> ev_node = node,
          ev_host = (case vs ''HOST'' of None \<Rightarrow> ''127.0.0.1'' | Some h \<Rightarrow> h), ev_port = port, ev_log_level = level,
          ev_local = (mode = ''true''), ev_queue = queue, ev_texts = texts_of vs, ev_numbers = numbers_of vs \<rparr>
      | (n, l, m, p, q, iss) \<Rightarrow> Inl (issue_of n @ issue_of l @ issue_of m @ issue_of p @ issue_of q @ iss))"

section \<open>The second pass\<close>

text \<open>\<open>!value[field]\<close>: the variable is unset, the empty text, or zero.\<close>

definition unset :: "environment \<Rightarrow> string \<Rightarrow> bool" where
  "unset env name \<longleftrightarrow> configured (ev_texts env name) = None \<and> (ev_numbers env name = None \<or> ev_numbers env name = Some 0)"

definition required_fields :: "string list" where
  "required_fields = [''API_BASE_URL'', ''APP_BASE_URL'', ''EMAIL_FROM'', ''AUDIT_HMAC_KEY'', ''APP_ENCRYPTION_KEK'',
     ''EXPORT_SIGNING_KEY'', ''REDIS_URL'', ''DEEPSEEK_API_KEY'', ''DEEPSEEK_BASE_URL'', ''DEEPSEEK_MODEL'', ''RESEND_API_KEY'',
     ''STRIPE_SECRET_KEY'', ''STRIPE_WEBHOOK_SECRET'', ''STRIPE_PRICE_ESSENTIAL'', ''R2_ACCESS_KEY_ID'', ''R2_SECRET_ACCESS_KEY'',
     ''R2_BUCKET'', ''R2_ENDPOINT'', ''CLAMAV_HOST'', ''CLAMAV_PORT'', ''OCR_EXECUTABLE'', ''OCR_PYTHON_EXECUTABLE'',
     ''DELETION_RECOVERY_DAYS'', ''BACKUP_RETENTION_DAYS'']"

definition parsedUrl :: "endpoint_parser \<Rightarrow> string option \<Rightarrow> endpoint_parts option" where
  "parsedUrl urls v = Option.bind (configured v) urls"

definition issue_when :: "bool \<Rightarrow> string \<Rightarrow> string \<Rightarrow> issue list" where
  "issue_when b path message = (if b then [Custom path message] else [])"

definition endpoint_fails :: "endpoint_parser \<Rightarrow> environment \<Rightarrow> string \<Rightarrow> (endpoint_parts \<Rightarrow> bool) \<Rightarrow> bool" where
  "endpoint_fails urls env name bad = (case parsedUrl urls (ev_texts env name) of None \<Rightarrow> False | Some u \<Rightarrow> bad u)"

definition deepseek_host_bad :: "endpoint_parts \<Rightarrow> bool" where
  "deepseek_host_bad u \<longleftrightarrow> up_hostname u \<noteq> ''api.deepseek.com'' \<or> (ep_port u \<noteq> [] \<and> ep_port u \<noteq> ''443'')
     \<or> ep_username u \<noteq> [] \<or> ep_password u \<noteq> []"

definition database_bad :: "endpoint_parts \<Rightarrow> bool" where
  "database_bad u \<longleftrightarrow> up_protocol u \<notin> {''postgres:'', ''postgresql:''}
     \<or> (case ep_search u ''sslmode'' of None \<Rightarrow> [] | Some m \<Rightarrow> m) \<notin> {''require'', ''verify-ca'', ''verify-full''}"

definition production_issues :: "endpoint_parser \<Rightarrow> environment \<Rightarrow> issue list" where
  "production_issues urls env = (if ev_node env \<noteq> ''production'' then [] else
     issue_when (ev_local env) ''LOCAL_ENGINEERING_MODE'' ''forbidden in production''
     @ concat (map (\<lambda>name. issue_when (unset env name) name ''required in production'')
         (''DATABASE_URL'' # ''SESSION_SECRET'' # required_fields))
     @ concat (map (\<lambda>name. issue_when (endpoint_fails urls env name (\<lambda>u. up_protocol u \<noteq> ''https:'')) name
         ''must use HTTPS in production'') [''API_BASE_URL'', ''APP_BASE_URL'', ''DEEPSEEK_BASE_URL'', ''R2_ENDPOINT''])
     @ issue_when (endpoint_fails urls env ''DEEPSEEK_BASE_URL'' deepseek_host_bad) ''DEEPSEEK_BASE_URL''
         ''must use the approved DeepSeek API host''
     @ issue_when (endpoint_fails urls env ''REDIS_URL'' (\<lambda>u. up_protocol u \<noteq> ''rediss:'')) ''REDIS_URL''
         ''must use TLS in production''
     @ issue_when (endpoint_fails urls env ''DATABASE_URL'' database_bad) ''DATABASE_URL''
         ''must use PostgreSQL with TLS required in production'')"

text \<open>
  Issues make the parse throw.  After an issue of the schema that leaves the value usable the second
  pass also runs; then the list here is that of the schema alone.
\<close>

definition loadEnvironment :: "endpoint_parser \<Rightarrow> variables \<Rightarrow> issue list + environment" where
  "loadEnvironment urls vs = (case parse_variables urls vs of
       Inl iss \<Rightarrow> Inl iss
     | Inr env \<Rightarrow> (case production_issues urls env of [] \<Rightarrow> Inr env | iss \<Rightarrow> Inl iss))"

section \<open>What a production environment has\<close>

lemma loadEnvironment_Inr:
  "loadEnvironment urls vs = Inr env \<longleftrightarrow> parse_variables urls vs = Inr env \<and> production_issues urls env = []"
  by (auto simp: loadEnvironment_def split: sum.splits list.splits)

lemma issue_when_Nil [simp]: "issue_when b p m = [] \<longleftrightarrow> \<not> b"
  by (simp add: issue_when_def)

lemma production_issues_Nil:
  "ev_node env = ''production'' \<Longrightarrow> production_issues urls env = [] \<longleftrightarrow>
     \<not> ev_local env \<and> (\<forall>name \<in> set (''DATABASE_URL'' # ''SESSION_SECRET'' # required_fields). \<not> unset env name)
     \<and> (\<forall>name \<in> {''API_BASE_URL'', ''APP_BASE_URL'', ''DEEPSEEK_BASE_URL'', ''R2_ENDPOINT''}.
          \<not> endpoint_fails urls env name (\<lambda>u. up_protocol u \<noteq> ''https:''))
     \<and> \<not> endpoint_fails urls env ''DEEPSEEK_BASE_URL'' deepseek_host_bad
     \<and> \<not> endpoint_fails urls env ''REDIS_URL'' (\<lambda>u. up_protocol u \<noteq> ''rediss:'')
     \<and> \<not> endpoint_fails urls env ''DATABASE_URL'' database_bad"
  by (simp add: production_issues_def)

lemma parsed_texts: "parse_variables urls vs = Inr env \<Longrightarrow> ev_texts env = texts_of vs"
  by (auto simp: parse_variables_def split: sum.splits list.splits)

lemma parsed_text_issues: "parse_variables urls vs = Inr env \<Longrightarrow> text_issues urls vs = []"
  by (auto simp: parse_variables_def split: sum.splits list.splits)

text \<open>A text that the environment holds passed the check of its name.\<close>

lemma parsed_text_checked:
  assumes "parse_variables urls vs = Inr env" and "(name, c) \<in> set text_schema" and "vs name = Some v"
  shows "\<not> text_issue urls c v"
  using parsed_text_issues [OF assms(1)] assms(2,3) by (fastforce simp: text_issues_def)

end
