(* ===== verification/Email_Adapter.thy ===== *)
theory Email_Adapter
  imports Report_Worker Stripe_Adapter Js_Number
begin

text \<open>
  \<open>packages/notifications\<close>: the adapter of the mail provider, with its retries, and the one that
  speaks SMTP to a capture server on the local machine.
\<close>

section \<open>The provider\<close>

record email_config =
  ec_api_key :: "string option"
  ec_from :: string
  ec_base :: "string option"
  ec_max_attempts :: "int option"

text \<open>An error of the adapter carries the last status and the number of retries.\<close>

datatype email_error = ProviderError string "int option" nat | OtherError err

definition email_readiness :: "email_config \<Rightarrow> bool \<times> string option" where
  "email_readiness c = (if configured (ec_api_key c) \<noteq> None \<and> ec_from c \<noteq> [] then (True, None)
     else (False, Some ''email-configuration-incomplete''))"

definition line_break :: "string \<Rightarrow> bool" where
  "line_break s \<longleftrightarrow> CHR 10 \<in> set s \<or> CHR 13 \<in> set s"

definition header_injection :: "string \<Rightarrow> email_message \<Rightarrow> bool" where
  "header_injection from m \<longleftrightarrow> line_break (em_to m) \<or> line_break (em_subject m) \<or> line_break from"

definition email_json :: "string \<Rightarrow> email_message \<Rightarrow> json" where
  "email_json from m = JObj [(''from'', JStr from), (''to'', JArr [JStr (em_to m)]), (''subject'', JStr (em_subject m)),
     (''html'', JStr (em_html m)), (''text'', JStr (em_text m))]"

record email_post =
  ep_headers :: "(string \<times> string) list"
  ep_body :: json

text \<open>A response also has its \<open>retry-after\<close> header; the wait takes milliseconds.\<close>

record email_response = http_response +
  er_retry_after :: "string option"

record 'x email_io =
  eo_fetch :: "email_post \<Rightarrow> ('x, email_response) world_op"
  eo_wait :: "rat \<Rightarrow> 'x \<Rightarrow> 'x"

text \<open>
  \<open>Number(response.headers.get("retry-after"))\<close>: a missing header is \<open>null\<close>, whose number is 0.  A
  number that is too large for a double is not finite.
\<close>

definition retry_after_seconds :: "string option \<Rightarrow> rat option" where
  "retry_after_seconds h = (case h of None \<Rightarrow> Some 0
     | Some t \<Rightarrow> (case number_of_text t of Some n \<Rightarrow> if \<bar>n\<bar> < 2 ^ 1024 then Some n else None | None \<Rightarrow> None))"

definition back_off :: "nat \<Rightarrow> rat" where
  "back_off attempt = min (100 * 2 ^ attempt) 2000"

definition retry_wait :: "string option \<Rightarrow> nat \<Rightarrow> rat" where
  "retry_wait h attempt = (case retry_after_seconds h of
       Some s \<Rightarrow> min (max (s * 1000) 0) 2000
     | None \<Rightarrow> back_off attempt)"

datatype send_end = Sent string | Refused email_error | Again rat "int option"

text \<open>How attempt number \<open>attempt\<close> ends; \<open>status\<close> is the last status so far.\<close>

definition email_attempt :: "bool \<Rightarrow> nat \<Rightarrow> int option \<Rightarrow> email_response result \<Rightarrow> send_end" where
  "email_attempt final attempt status r =
     (let caught = (\<lambda>s. if final then Refused (ProviderError ''Resend transport unavailable'' s attempt)
                        else Again (back_off attempt) s) in
      case r of
        Inl _ \<Rightarrow> caught status
      | Inr a \<Rightarrow>
          if 200 \<le> hr_status a \<and> hr_status a \<le> 299
          then (case hr_json a of
              Inl _ \<Rightarrow> caught (Some (hr_status a))
            | Inr JNull \<Rightarrow> caught (Some (hr_status a))
            | Inr v \<Rightarrow> (case jfield v ''id'' of
                Some (JStr i) \<Rightarrow> if i = [] then Refused (ProviderError ''Resend response invalid'' (Some (hr_status a)) attempt)
                                 else Sent i
              | _ \<Rightarrow> Refused (ProviderError ''Resend response invalid'' (Some (hr_status a)) attempt)))
          else if final \<or> \<not> (hr_status a = 429 \<or> 500 \<le> hr_status a)
          then Refused (ProviderError (''Resend HTTP '' @ dec_int (hr_status a)) (Some (hr_status a)) attempt)
          else Again (retry_wait (er_retry_after a) attempt) (Some (hr_status a)))"

fun email_attempts :: "'x email_io \<Rightarrow> email_post \<Rightarrow> nat \<Rightarrow> nat \<Rightarrow> int option \<Rightarrow> 'x \<Rightarrow> (email_error + string) \<times> 'x" where
  "email_attempts io post attempt 0 status x = (Inl (ProviderError ''Resend delivery failed'' status 0), x)"
| "email_attempts io post attempt (Suc left) status x = (case eo_fetch io post x of (r, x1) \<Rightarrow>
     (case email_attempt (left = 0) attempt status r of
        Sent i \<Rightarrow> (Inr i, x1)
      | Refused e \<Rightarrow> (Inl e, x1)
      | Again ms s \<Rightarrow> email_attempts io post (Suc attempt) left s (eo_wait io ms x1)))"

text \<open>\<open>resolve base\<close> is \<open>new URL("emails", base)\<close>.\<close>

definition email_endpoint :: "url_parser \<Rightarrow> email_config \<Rightarrow> unit result" where
  "email_endpoint resolve c = res_bind (parse_url resolve (case ec_base c of Some b \<Rightarrow> b | None \<Rightarrow> ''https://api.resend.com/''))
     (\<lambda>u. guard (up_protocol u = ''https:'' \<and> up_hostname u = ''api.resend.com'') (js_error ''Resend endpoint is invalid''))"

definition email_max_attempts :: "email_config \<Rightarrow> nat result" where
  "email_max_attempts c = (let n = (case ec_max_attempts c of Some n \<Rightarrow> n | None \<Rightarrow> 3) in
     if \<not> is_safe_integer n \<or> n < 1 \<or> 5 < n then Inl (js_error ''Resend max attempts is invalid'') else Inr (nat n))"

definition email_checks :: "url_parser \<Rightarrow> email_config \<Rightarrow> email_message \<Rightarrow> (string \<times> nat) result" where
  "email_checks resolve c m = (case configured (ec_api_key c) of
       None \<Rightarrow> Inl (js_error ''Resend is not configured'')
     | Some key \<Rightarrow>
         res_bind (guard (\<not> header_injection (ec_from c) m) (js_error ''email header injection blocked'')) (\<lambda>_.
         res_bind (email_endpoint resolve c) (\<lambda>_.
         res_bind (email_max_attempts c) (\<lambda>n. Inr (key, n)))))"

definition email_headers :: "string \<Rightarrow> email_message \<Rightarrow> (string \<times> string) list" where
  "email_headers key m = [(''authorization'', ''Bearer '' @ key), (''content-type'', ''application/json''),
     (''idempotency-key'', em_idempotency_key m)]"

definition resend_send ::
  "url_parser \<Rightarrow> email_config \<Rightarrow> 'x email_io \<Rightarrow> email_message \<Rightarrow> 'x \<Rightarrow> (email_error + string) \<times> 'x" where
  "resend_send resolve c io m x = (case email_checks resolve c m of
       Inl e \<Rightarrow> (Inl (OtherError e), x)
     | Inr (key, n) \<Rightarrow> email_attempts io \<lparr> ep_headers = email_headers key m, ep_body = email_json (ec_from c) m \<rparr> 0 n None x)"

section \<open>The local capture server\<close>

definition crlf :: string where
  "crlf = [CHR 13, CHR 10]"

text \<open>
  The next reply in the lines that the server sends before it closes the connection.  A line without
  a three digit code, or with a hyphen after it, is skipped.
\<close>

definition reply_code :: "string \<Rightarrow> (nat \<times> char) option" where
  "reply_code l = (case l of
       a # b # c # s # _ \<Rightarrow> if is_digit a \<and> is_digit b \<and> is_digit c \<and> (s = CHR '' '' \<or> s = CHR ''-'')
         then Some (read_digits [a, b, c], s) else None
     | _ \<Rightarrow> None)"

fun read_reply :: "nat \<Rightarrow> string list \<Rightarrow> unit result \<times> string list" where
  "read_reply expected [] = (Inl (js_error ''SMTP connection ended before reply''), [])"
| "read_reply expected (l # ls) = (case reply_code l of
     None \<Rightarrow> read_reply expected ls
   | Some (code, s) \<Rightarrow> if s = CHR ''-'' then read_reply expected ls
       else if code \<noteq> expected then (Inl (js_error (''SMTP reply '' @ take 3 l)), ls)
       else (Inr (), ls))"

text \<open>What a session does: write, then read a reply.  The first reply is read before anything is written.\<close>

fun smtp_dialogue :: "(string \<times> nat) list \<Rightarrow> string list \<Rightarrow> unit result \<times> string list" where
  "smtp_dialogue [] ls = (Inr (), [])"
| "smtp_dialogue ((text, expected) # steps) ls = (case read_reply expected ls of
     (Inl e, _) \<Rightarrow> (Inl e, [text])
   | (Inr _, ls') \<Rightarrow> (case smtp_dialogue steps ls' of (r, sent) \<Rightarrow> (r, text # sent)))"

text \<open>\<open>replace(/\r?\n/gu, "\r\n").replace(/^\./gmu, "..")\<close>.\<close>

fun normal_breaks :: "string \<Rightarrow> string" where
  "normal_breaks [] = []"
| "normal_breaks (a # s) =
     (if a = CHR 10 then CHR 13 # CHR 10 # normal_breaks s
      else if a = CHR 13 \<and> s \<noteq> [] \<and> hd s = CHR 10 then CHR 13 # CHR 10 # normal_breaks (tl s)
      else a # normal_breaks s)"

fun double_dots :: "bool \<Rightarrow> string \<Rightarrow> string" where
  "double_dots start [] = []"
| "double_dots start (c # s) =
     (if start \<and> c = CHR ''.'' then [CHR ''.'', CHR ''.''] else [c]) @ double_dots (c = CHR 10 \<or> c = CHR 13) s"

definition dot_stuff :: "string \<Rightarrow> string" where
  "dot_stuff s = double_dots True (normal_breaks s)"

definition message_id :: "email_message \<Rightarrow> string" where
  "message_id m = ''<'' @ em_idempotency_key m @ ''@legacy-vault.local>''"

definition mail_head :: "string \<Rightarrow> email_message \<Rightarrow> string" where
  "mail_head from m = concat (map (\<lambda>l. l @ crlf) [''From: '' @ from, ''To: '' @ em_to m, ''Subject: '' @ em_subject m,
     ''Message-ID: '' @ message_id m, ''MIME-Version: 1.0'',
     ''Content-Type: multipart/alternative; boundary=legacy-vault-boundary'', [], ''--legacy-vault-boundary'',
     ''Content-Type: text/plain; charset=utf-8'', []])"

definition mail_data :: "string \<Rightarrow> email_message \<Rightarrow> string" where
  "mail_data from m = mail_head from m @ dot_stuff (em_text m) @ crlf
     @ concat (map (\<lambda>l. l @ crlf) [''--legacy-vault-boundary'', ''Content-Type: text/html; charset=utf-8'', []])
     @ dot_stuff (em_html m) @ crlf @ ''--legacy-vault-boundary--'' @ crlf @ ''.'' @ crlf"

definition smtp_steps :: "string \<Rightarrow> email_message \<Rightarrow> (string \<times> nat) list" where
  "smtp_steps from m = [([], 220), (''EHLO legacy-vault.local'' @ crlf, 250), (''MAIL FROM:<'' @ from @ ''>'' @ crlf, 250),
     (''RCPT TO:<'' @ em_to m @ ''>'' @ crlf, 250), (''DATA'' @ crlf, 354), (mail_data from m, 250), (''QUIT'' @ crlf, 221)]"

definition smtp_host_ok :: "string \<Rightarrow> bool" where
  "smtp_host_ok h \<longleftrightarrow> h = ''127.0.0.1'' \<or> h = ''localhost''"

text \<open>The result, and what was written, for a server that sends the lines \<open>ls\<close> and then closes.\<close>

definition smtp_send :: "string \<Rightarrow> email_message \<Rightarrow> string list \<Rightarrow> string result \<times> string list" where
  "smtp_send from m ls =
     (if header_injection from m then (Inl (js_error ''email header injection blocked''), [])
      else (case smtp_dialogue (smtp_steps from m) ls of
          (Inl e, sent) \<Rightarrow> (Inl e, sent) | (Inr _, sent) \<Rightarrow> (Inr (message_id m), sent)))"

end
