(* ===== verification/Api_Server.thy ===== *)
theory Api_Server
  imports Ai_Interview Billing_Webhook Route_Safety Environment_Config Email_Adapter
begin

text \<open>
  The API process: what \<open>createApplicationRuntime\<close> (\<open>apps/api/src/runtime.ts\<close>) gives the routes,
  and the server that \<open>buildServer\<close> (\<open>apps/api/src/server.ts\<close>) builds over it, with its health
  routes, its request hooks and the proxy of the authentication library (\<open>routes/auth.ts\<close>).
\<close>

section \<open>The repository behind the routes\<close>

definition returning :: "('a \<Rightarrow> 'b) \<Rightarrow> ('o, 'a) run \<Rightarrow> ('o, 'b) run" where
  "returning f m = world_bind m (\<lambda>a. done_with (f a))"

definition consent_json_of :: "(string \<times> string \<times> int) option \<Rightarrow> json" where
  "consent_json_of c = (case c of None \<Rightarrow> JNull | Some (i, policy, version) \<Rightarrow>
     JObj [(''id'', JStr i), (''policyVersion'', JStr policy), (''version'', JNum version)])"

definition id_status_version :: "string \<times> string \<times> int \<Rightarrow> json" where
  "id_status_version r = (case r of (i, status, version) \<Rightarrow> row_json i status version)"

definition emergency_row_json :: "emergency_row \<Rightarrow> json" where
  "emergency_row_json r = row_json (row_id r) (er_row_status r) (row_version r)"

text \<open>The categories of a request, which the routes iterate over.\<close>

definition text_items :: "json \<Rightarrow> string list result" where
  "text_items v = (case v of
     JArr vs \<Rightarrow> res_map (\<lambda>j. case j of JStr s \<Rightarrow> Inr s | _ \<Rightarrow> Inl (Thrown ''TypeError'' ''not a category'')) vs
   | _ \<Rightarrow> Inl (Thrown ''TypeError'' ''categories is not iterable''))"

definition privacy_summary_json :: "privacy_summary \<Rightarrow> json" where
  "privacy_summary_json s = JObj [(''id'', JStr (ps_id s)), (''kind'', JStr (ps_kind s)), (''status'', JStr (ps_status s)),
     (''requestedAt'', JStr (ps_requested s)), (''verifiedAt'', text_json (ps_verified s)),
     (''recoveryUntil'', text_json (ps_recovery s)), (''completedAt'', text_json (ps_completed s)),
     (''version'', JNum (ps_version s)),
     (''workflow'', JObj [(''status'', JStr (ps_workflow_status s)), (''nextStep'', text_json (ps_next s)),
        (''version'', JNum (ps_workflow_version s))])]"

definition runtime_repository :: "'o runtime_env \<Rightarrow> 'o api_world vault_repository" where
  "runtime_repository env = \<lparr>
     vr_getActiveConsent = (\<lambda>ctx person purpose. returning consent_json_of (on_db (getActiveConsent ctx person purpose))),
     vr_reserveIdempotency = (\<lambda>ctx key request. world_bind (draw (re_now env)) (\<lambda>now.
       returning (map_prod id (map_option (map_prod id (\<lambda>v. if v = Some JNull then None else v))))
         (on_db (reserveIdempotency (re_sha256 env) ctx now key request)))),
     vr_completeIdempotency = (\<lambda>ctx key status v. on_db (completeIdempotency ctx key status v)),
     vr_createCandidateFact = (\<lambda>ctx f. returning id_status_version (on_db (createCandidateFact ctx f))),
     vr_getFactFieldKey = (\<lambda>ctx i. on_db (getFactFieldKey ctx i)),
     vr_confirmFact = (\<lambda>ctx i version time. returning id_status_version (on_db (confirm_fact_row ctx i version time))),
     vr_rejectFact = (\<lambda>ctx i version. returning id_status_version (on_db (reject_fact_row ctx i version))),
     vr_disputeFact = (\<lambda>ctx i version. returning id_status_version (on_db (disputeFact ctx i version))),
     vr_getEmergencyAccessCategories = (\<lambda>ctx i. world_bind (on_db (getEmergencyAccessCategories ctx i)) (\<lambda>v.
       pure_result (text_items v))),
     vr_createEmergencyAccessRequest = (\<lambda>ctx input. returning emergency_row_json (on_db (createEmergencyAccessRequest ctx input))),
     vr_decideEmergencyAccess = (\<lambda>ctx i version decision time release_after.
       returning emergency_row_json (on_db (decideEmergencyAccess ctx i version decision time release_after))),
     vr_releaseEmergencyAccess = (\<lambda>ctx i version time. returning emergency_row_json (on_db (releaseEmergencyAccess ctx i version time))),
     vr_recordConsent = (\<lambda>ctx person purpose policy time. world_bind (draw (re_uuid env)) (\<lambda>fresh.
       returning (\<lambda>c. JObj [(''id'', JStr (row_id c)), (''version'', JNum (row_version c))])
         (on_db (recordConsent ctx fresh person purpose policy time)))),
     vr_withdrawConsent = (\<lambda>ctx i version time. returning (\<lambda>c. JObj [(''id'', JStr (row_id c)),
         (''withdrawnAt'', text_json (map_option toISOString (c_withdrawn c))), (''version'', JNum (row_version c))])
       (on_db (withdrawConsent ctx i version time))),
     vr_listPrivacyRequests = (\<lambda>ctx. returning (\<lambda>ps. JArr (map privacy_summary_json ps)) (on_db (listPrivacyRequests ctx))),
     vr_startPrivacyRequest = (\<lambda>ctx person kind key time. world_bind (draw (re_uuid env)) (\<lambda>privacy_id.
       world_bind (draw (re_uuid env)) (\<lambda>workflow_id.
       on_db (startPrivacyRequest (re_sha256 env) ctx privacy_id workflow_id time person kind key time)))) \<rparr>"

section \<open>The dependencies of the routes\<close>

definition runtime_vault :: "'o runtime_env \<Rightarrow> (string \<Rightarrow> string) \<Rightarrow> 'o api_world vault_dependencies" where
  "runtime_vault env pg = \<lparr> vd_repository = runtime_repository env, vd_now = (\<lambda>w. re_now env (aw_ticks w)),
     vd_date_parse = re_date_parse env, vd_pg_message = pg, vd_resolveIdentity = resolveIdentity env,
     vd_authorizeIdentity = Some (authorizeIdentity env), vd_startPortableExport = Some (start_portable_export env),
     vd_getPortableExport = Some (get_portable_export env),
     vd_confirmPrivacyDeletion = Some (confirm_privacy_deletion env),
     vd_cancelPrivacyDeletion = Some (cancel_privacy_deletion env),
     vd_encryptFactValue = Some (encryptFactValue env), vd_encryptEmergencyReason = Some (encryptEmergencyReason env),
     vd_listVaultFacts = Some (list_vault_facts env), vd_listVaultDocuments = Some list_vault_documents,
     vd_getDocumentContent = Some (get_document_content_of env), vd_listAuditEvents = Some (list_audit_events env),
     vd_createReport = Some (create_report env), vd_getReport = Some (get_report_of env),
     vd_createCheckout = Some (create_checkout env), vd_createBillingPortal = Some (create_billing_portal env),
     vd_getSubscription = Some (get_subscription_of env), vd_listBillingRefunds = Some list_billing_refunds,
     vd_startDocumentUpload = Some (start_document_upload env),
     vd_createDocumentUploadUrl = Some (create_document_upload_url env),
     vd_completeDocumentUpload = Some (complete_document_upload env),
     vd_completeManualExtraction = Some (complete_manual_extraction env),
     vd_runAiInterview = Some (run_ai_interview env) \<rparr>"

definition runtime_households :: "'o runtime_env \<Rightarrow> (string \<Rightarrow> string) \<Rightarrow> 'o api_world household_dependencies" where
  "runtime_households env pg = \<lparr> hd_pg_message = pg, hd_resolveAccount = resolveAccount env,
     hd_resolveIdentity = resolveIdentity env, hd_authorizeIdentity = Some (authorizeIdentity env),
     hd_createHousehold = (\<lambda>account. create_household env (fst account)),
     hd_listHouseholds = (\<lambda>account. list_households env (fst account)), hd_listMembers = list_members env,
     hd_createInvitation = create_invitation env, hd_acceptInvitation = accept_invitation env,
     hd_revokeInvitation = revoke_invitation env, hd_updateMemberRole = update_member_role env \<rparr>"

section \<open>Configuring the process\<close>

definition runtime_required :: "string list" where
  "runtime_required = [''DATABASE_URL'', ''SESSION_SECRET'', ''AUDIT_HMAC_KEY'', ''APP_ENCRYPTION_KEK'', ''EXPORT_SIGNING_KEY'',
     ''REDIS_URL'', ''API_BASE_URL'', ''APP_BASE_URL'', ''EMAIL_FROM'', ''R2_ACCESS_KEY_ID'', ''R2_SECRET_ACCESS_KEY'',
     ''R2_BUCKET'', ''R2_ENDPOINT'']"

definition text_of :: "environment \<Rightarrow> string \<Rightarrow> string" where
  "text_of e name = (case ev_texts e name of Some t \<Rightarrow> t | None \<Rightarrow> [])"

text \<open>The members of \<open>new URL(text)\<close> that the observability configuration reads.\<close>

definition plain_urls :: "endpoint_parser \<Rightarrow> url_parser" where
  "plain_urls urls t = map_option url_parts.truncate (urls t)"

definition parse_endpoint :: "endpoint_parser \<Rightarrow> string \<Rightarrow> endpoint_parts result" where
  "parse_endpoint urls t = (case urls t of Some u \<Rightarrow> Inr u | None \<Rightarrow> Inl (Thrown ''TypeError'' ''Invalid URL''))"

definition observability_checks :: "endpoint_parser \<Rightarrow> environment \<Rightarrow> unit result" where
  "observability_checks urls e = res_bind (assertCanonical ''legacy-api'' ''service name'') (\<lambda>_.
     validateExternalConfiguration (plain_urls urls) (ev_node e) (ev_texts e ''OTEL_EXPORTER_OTLP_ENDPOINT'')
       (ev_texts e ''SENTRY_DSN''))"

text \<open>The constructor of \<open>DeepSeekProvider\<close>.\<close>

definition provider_endpoint :: "endpoint_parts \<Rightarrow> endpoint" where
  "provider_endpoint u = endpoint.make (up_protocol u) (up_hostname u) (ep_port u) (ep_username u) (ep_password u)"

definition deepseek_checks :: "endpoint_parser \<Rightarrow> deepseek_config \<Rightarrow> unit result" where
  "deepseek_checks urls c = res_bind (parse_endpoint urls (dc_base_url c)) (\<lambda>u.
     endpoint_approved (provider_endpoint u))"

text \<open>The constructor of \<open>RedisExactCache\<close>.\<close>

definition cache_checks :: "endpoint_parser \<Rightarrow> string \<Rightarrow> string \<Rightarrow> bool \<Rightarrow> unit result" where
  "cache_checks urls redis_url namespace require_tls = res_bind (parse_endpoint urls redis_url) (\<lambda>u.
     cache_config (up_protocol u) require_tls namespace)"

definition deepseek_environment_of :: "environment \<Rightarrow> deepseek_environment" where
  "deepseek_environment_of e = \<lparr> de_api_key = ev_texts e ''DEEPSEEK_API_KEY'', de_base_url = ev_texts e ''DEEPSEEK_BASE_URL'',
     de_model = ev_texts e ''DEEPSEEK_MODEL'' \<rparr>"

definition stripe_of :: "environment \<Rightarrow> stripe_config" where
  "stripe_of e = \<lparr> sc_secret = configured (ev_texts e ''STRIPE_SECRET_KEY''),
     sc_webhook = configured (ev_texts e ''STRIPE_WEBHOOK_SECRET''),
     sc_price = configured (ev_texts e ''STRIPE_PRICE_ESSENTIAL''), sc_base = None \<rparr>"

text \<open>
  The checks of \<open>createApplicationRuntime\<close> in their order, and what it sets in the environment of the
  operations; \<open>p\<close> is the platform: clock, random generator, cryptography and the services.
\<close>

definition createApplicationRuntime ::
  "endpoint_parser \<Rightarrow> 'o runtime_env \<Rightarrow> environment \<Rightarrow> 'o runtime_env result" where
  "createApplicationRuntime urls p e =
     (let audit_key = base64_bytes (text_of e ''AUDIT_HMAC_KEY''); kek = base64_bytes (text_of e ''APP_ENCRYPTION_KEK'');
          deepseek = createDeepSeekRuntime (deepseek_environment_of e);
          namespace = aiExactCacheNamespace (re_sha256 p) (ev_node e) (ev_queue e) in
     if list_ex (unset e) runtime_required then Inl (js_error ''application runtime configuration is incomplete'')
     else res_bind (observability_checks urls e) (\<lambda>_.
     res_bind (guard (32 \<le> length audit_key) (js_error ''audit HMAC key is invalid'')) (\<lambda>_.
     res_bind (guard (length kek = 32) (js_error ''application encryption KEK is invalid'')) (\<lambda>_.
     res_bind (parse_endpoint urls (text_of e ''APP_BASE_URL'')) (\<lambda>_.
     res_bind (guard (43 \<le> length (text_of e ''SESSION_SECRET'')) (js_error ''auth secret is too short'')) (\<lambda>_.
     res_bind (deepseek_checks urls (fst deepseek)) (\<lambda>_.
     res_bind (cache_checks urls (text_of e ''REDIS_URL'') namespace (ev_node e = ''production'')) (\<lambda>_.
     Inr (p \<lparr> re_kek := kek, re_audit_key := audit_key, re_app_base := text_of e ''APP_BASE_URL'',
       re_recovery_days := ev_numbers e ''DELETION_RECOVERY_DAYS'', re_stripe := stripe_of e,
       re_deepseek := fst deepseek, re_model := snd deepseek, re_cache_namespace := namespace,
       re_urls := plain_urls urls \<rparr>)))))))))"

section \<open>Mail of the authentication library\<close>

datatype auth_mail = VerifyMail | ResetMail

definition auth_mail_message :: "(string \<Rightarrow> string) \<Rightarrow> auth_mail \<Rightarrow> string \<Rightarrow> string \<Rightarrow> email_message" where
  "auth_mail_message sha256 kind to url =
     (let title = (case kind of VerifyMail \<Rightarrow> ''Verify email'' | ResetMail \<Rightarrow> ''Reset password'');
          name = (case kind of VerifyMail \<Rightarrow> ''verify'' | ResetMail \<Rightarrow> ''reset'') in
     \<lparr> em_to = to, em_subject = title @ '' for Legacy Vault'',
       em_text = title @ '': '' @ url @ [CHR 10] @ ''This link expires in 30 minutes.'',
       em_html = ''<p>'' @ title @ '':</p><p><a href='' @ [CHR 34] @ htmlEscape url @ [CHR 34] @ ''>'' @ title
         @ ''</a></p><p>This link expires in 30 minutes.</p>'',
       em_idempotency_key = hash_text sha256 (name @ '':'' @ to @ '':'' @ url) \<rparr>)"

definition sendAuthEmail :: "'o runtime_env \<Rightarrow> auth_mail \<Rightarrow> string \<Rightarrow> string \<Rightarrow> ('o, unit) run" where
  "sendAuthEmail env kind to url = on_services (re_send_mail env (auth_mail_message (re_sha256 env) kind to url))"

text \<open>\<open>address\<close>: what stands between the first angle brackets, or the whole text.\<close>

definition address :: "string \<Rightarrow> string" where
  "address v = (case filter (\<lambda>t. takeWhile (\<lambda>c. c \<noteq> CHR ''>'') t \<noteq> [] \<and> CHR ''>'' \<in> set t)
       (map (\<lambda>n. drop (Suc n) v) (filter (\<lambda>n. v ! n = CHR ''<'') [0..<length v])) of
     t # _ \<Rightarrow> takeWhile (\<lambda>c. c \<noteq> CHR ''>'') t | [] \<Rightarrow> v)"

text \<open>The mail adapter: SMTP capture on the local machine (host and sender), or the provider.\<close>

definition email_of :: "environment \<Rightarrow> (string \<times> string) + email_config" where
  "email_of e = (if ev_local e then Inl (''127.0.0.1'', address (text_of e ''EMAIL_FROM''))
     else Inr \<lparr> ec_api_key = configured (ev_texts e ''RESEND_API_KEY''), ec_from = text_of e ''EMAIL_FROM'',
       ec_base = None, ec_max_attempts = None \<rparr>)"

section \<open>Health\<close>

text \<open>
  \<open>boundedDependencyProbe\<close>: a dependency is ready when its check ends without an error before the
  timer of three seconds; \<open>None\<close> stands for a check that has not ended by then.
\<close>

definition boundedDependencyProbe :: "unit result option \<Rightarrow> bool" where
  "boundedDependencyProbe outcome = (case outcome of Some (Inr _) \<Rightarrow> True | _ \<Rightarrow> False)"

type_synonym readiness_report = "bool \<times> (string \<times> bool) list"

definition readiness_of :: "unit result option \<Rightarrow> unit result option \<Rightarrow> unit result option \<Rightarrow> readiness_report" where
  "readiness_of database queue object_storage =
     (let ds = [(''database'', boundedDependencyProbe database), (''queue'', boundedDependencyProbe queue),
                (''object_storage'', boundedDependencyProbe object_storage)] in
      (list_all snd ds, ds))"

definition dependencies_json :: "(string \<times> bool) list \<Rightarrow> json" where
  "dependencies_json ds = JObj (map (\<lambda>(n, b). (n, JStr (if b then ''ready'' else ''unavailable''))) ds)"

definition plain_reply :: "int \<Rightarrow> (string \<times> json) list \<Rightarrow> api_reply" where
  "plain_reply status kvs = \<lparr> rp_status = status, rp_headers = [], rp_payload = Json (JObj kvs) \<rparr>"

definition health_live :: api_reply where
  "health_live = plain_reply 200 [(''status'', JStr ''live'')]"

definition not_ready :: "string \<Rightarrow> api_reply" where
  "not_ready reason = plain_reply 503 [(''status'', JStr ''not-ready''), (''reason'', JStr reason)]"

definition ready_reply :: api_reply where
  "ready_reply = plain_reply 200 [(''status'', JStr ''ready'')]"

text \<open>\<open>report\<close>: the readiness function of the dependencies, if they have one, and what it gives or throws.\<close>

definition health_ready :: "environment \<Rightarrow> readiness_report result option \<Rightarrow> api_reply" where
  "health_ready e report = (case report of
       None \<Rightarrow> if ev_local e \<or> \<not> unset e ''DATABASE_URL'' then ready_reply else not_ready ''database-unconfigured''
     | Some (Inr (True, _)) \<Rightarrow> ready_reply
     | Some _ \<Rightarrow> not_ready ''required-dependency-unavailable'')"

definition health_dependencies :: "environment \<Rightarrow> bool \<Rightarrow> readiness_report result option \<Rightarrow> api_reply" where
  "health_dependencies e configured_server report =
     (let r = (case report of Some (Inr r) \<Rightarrow> r | _ \<Rightarrow> (False, [])) in
      plain_reply 200 [(''status'', JStr (if fst r then ''ready'' else ''degraded'')),
        (''dependencies'', dependencies_json (snd r)), (''externalVerificationDeferred'', JBool (ev_local e)),
        (''serviceRoutesConfigured'', JBool configured_server)])"

section \<open>The proxy of the authentication library\<close>

record web_request =
  wq_url :: string
  wq_method :: string
  wq_headers :: "(string \<times> string) list"
  wq_body :: "string option"

record web_response =
  ws_status :: int
  ws_headers :: "(string \<times> string) list"
  ws_cookies :: "string list"
  ws_body :: "string option"

text \<open>A reply of the proxy: the cookies are one header with all of them.\<close>

record proxy_reply =
  py_status :: int
  py_headers :: "(string \<times> string) list"
  py_cookies :: "string list"
  py_body :: "string option + json"

fun header_lines :: "(string \<times> header) list \<Rightarrow> (string \<times> string) list" where
  "header_lines [] = []"
| "header_lines ((k, h) # hs) = (case h of NoHeader \<Rightarrow> [] | OneHeader v \<Rightarrow> [(k, v)] | ManyHeaders vs \<Rightarrow> map (Pair k) vs)
     @ header_lines hs"

definition proxy_problem :: "string \<Rightarrow> json" where
  "proxy_problem request = problem_json request
     (500, ''Authentication unavailable'', ''The authentication request could not be completed.'')"

text \<open>
  \<open>resolve\<close> is \<open>new URL(path, authBaseUrl)\<close>; a GET request with a body makes \<open>new Request\<close> throw; \<open>handler\<close>
  is the handler of the authentication library.
\<close>

definition auth_proxy ::
  "(string \<Rightarrow> string option) \<Rightarrow> (web_request \<Rightarrow> ('x, web_response) world_op) \<Rightarrow> string \<Rightarrow> string \<Rightarrow> string
   \<Rightarrow> (string \<times> header) list \<Rightarrow> json option \<Rightarrow> 'x \<Rightarrow> proxy_reply \<times> 'x" where
  "auth_proxy resolve handler request_id http_method path headers body x =
     (let failed = \<lparr> py_status = 500, py_headers = [(''content-type'', ''application/problem+json'')], py_cookies = [],
            py_body = Inr (proxy_problem request_id) \<rparr> in
      case resolve path of
        None \<Rightarrow> (failed, x)
      | Some url \<Rightarrow>
          if http_method = ''GET'' \<and> body \<noteq> None then (failed, x)
          else (case handler \<lparr> wq_url = url, wq_method = http_method, wq_headers = header_lines headers,
                  wq_body = map_option json_stringify body \<rparr> x of
              (Inl _, x') \<Rightarrow> (failed, x')
            | (Inr r, x') \<Rightarrow> (\<lparr> py_status = ws_status r,
                py_headers = filter (\<lambda>h. fst h \<noteq> ''set-cookie'') (ws_headers r), py_cookies = ws_cookies r,
                py_body = Inl (ws_body r) \<rparr>, x')))"

section \<open>Routes\<close>

datatype api_route = VaultRoute vault_route | HouseholdRoute household_route | BillingWebhook

fun vault_url :: "vault_route \<Rightarrow> string \<times> string" where
  "vault_url GetFacts = (''get'', ''/v1/facts'')"
| "vault_url GetConsent = (''get'', ''/v1/consents'')"
| "vault_url PostFact = (''post'', ''/v1/facts'')"
| "vault_url GetDocuments = (''get'', ''/v1/documents'')"
| "vault_url GetDocumentContent = (''get'', ''/v1/documents/:id/content'')"
| "vault_url GetAuditEvents = (''get'', ''/v1/audit-events'')"
| "vault_url PostDocument = (''post'', ''/v1/documents'')"
| "vault_url PostUploadUrl = (''post'', ''/v1/documents/:id/upload-url'')"
| "vault_url PostManualExtraction = (''post'', ''/v1/extractions/manual'')"
| "vault_url PostInterview = (''post'', ''/v1/ai-settings/interview'')"
| "vault_url CompleteDocument = (''post'', ''/v1/documents/:id/complete'')"
| "vault_url ConfirmFact = (''post'', ''/v1/facts/:id/confirm'')"
| "vault_url RejectFact = (''post'', ''/v1/facts/:id/reject'')"
| "vault_url DisputeFact = (''post'', ''/v1/facts/:id/dispute'')"
| "vault_url RequestEmergencyAccess = (''post'', ''/v1/emergency-access'')"
| "vault_url DecideEmergencyAccess = (''post'', ''/v1/emergency-access/:id/decide'')"
| "vault_url ReleaseEmergencyAccess = (''post'', ''/v1/emergency-access/:id/release'')"
| "vault_url PostConsent = (''post'', ''/v1/consents'')"
| "vault_url WithdrawConsent = (''post'', ''/v1/consents/:id/withdraw'')"
| "vault_url GetPrivacyRequests = (''get'', ''/v1/privacy-requests'')"
| "vault_url PostPrivacyRequest = (''post'', ''/v1/privacy-requests'')"
| "vault_url ConfirmDeletion = (''post'', ''/v1/privacy-requests/:requestId/confirm-deletion'')"
| "vault_url CancelDeletion = (''post'', ''/v1/privacy-requests/:requestId/cancel-deletion'')"
| "vault_url PostExport = (''post'', ''/v1/exports'')"
| "vault_url GetExport = (''get'', ''/v1/exports/:id'')"
| "vault_url GetReport = (''get'', ''/v1/reports/:id'')"
| "vault_url PostReport = (''post'', ''/v1/reports'')"
| "vault_url PostCheckout = (''post'', ''/v1/billing/checkout'')"
| "vault_url PostPortal = (''post'', ''/v1/billing/portal'')"
| "vault_url GetSubscription = (''get'', ''/v1/billing/subscription'')"
| "vault_url GetRefunds = (''get'', ''/v1/billing/refunds'')"

fun household_url :: "household_route \<Rightarrow> string \<times> string" where
  "household_url GetHouseholds = (''get'', ''/v1/households'')"
| "household_url PostHousehold = (''post'', ''/v1/households'')"
| "household_url GetMembers = (''get'', ''/v1/members'')"
| "household_url PostInvitation = (''post'', ''/v1/members/invitations'')"
| "household_url AcceptInvitation = (''post'', ''/v1/members/invitations/:token/accept'')"
| "household_url RevokeInvitation = (''post'', ''/v1/members/invitations/:id/revoke'')"
| "household_url PostRole = (''post'', ''/v1/members/:id/role'')"

text \<open>The method, in lower case, and the URL pattern of a route.\<close>

fun route_url :: "api_route \<Rightarrow> string \<times> string" where
  "route_url (VaultRoute r) = vault_url r"
| "route_url (HouseholdRoute r) = household_url r"
| "route_url BillingWebhook = (''post'', ''/v1/billing/webhooks/stripe'')"

section \<open>The server\<close>

text \<open>What \<open>buildServer\<close> is given; each part may be missing.\<close>

record 'x server_dependencies =
  sd_vault :: "'x vault_dependencies"
  sd_households :: "'x household_dependencies option"
  sd_webhook :: "(api_request \<Rightarrow> 'x \<Rightarrow> api_reply \<times> 'x) option"
  sd_auth :: "(web_request \<Rightarrow> ('x, web_response) world_op) option"
  sd_readiness :: "('x \<Rightarrow> readiness_report result \<times> 'x) option"

definition complete_dependencies :: "'x server_dependencies \<Rightarrow> bool" where
  "complete_dependencies s \<longleftrightarrow> (let d = sd_vault s in sd_auth s \<noteq> None \<and> sd_readiness s \<noteq> None
     \<and> vd_authorizeIdentity d \<noteq> None \<and> vd_startPortableExport d \<noteq> None \<and> vd_getPortableExport d \<noteq> None
     \<and> vd_confirmPrivacyDeletion d \<noteq> None \<and> vd_cancelPrivacyDeletion d \<noteq> None \<and> vd_encryptFactValue d \<noteq> None
     \<and> vd_encryptEmergencyReason d \<noteq> None \<and> vd_listVaultFacts d \<noteq> None \<and> vd_listVaultDocuments d \<noteq> None
     \<and> vd_getDocumentContent d \<noteq> None \<and> vd_listAuditEvents d \<noteq> None \<and> vd_createReport d \<noteq> None
     \<and> vd_getReport d \<noteq> None \<and> vd_createCheckout d \<noteq> None \<and> vd_createBillingPortal d \<noteq> None
     \<and> vd_getSubscription d \<noteq> None \<and> vd_listBillingRefunds d \<noteq> None \<and> vd_startDocumentUpload d \<noteq> None
     \<and> vd_createDocumentUploadUrl d \<noteq> None \<and> vd_completeDocumentUpload d \<noteq> None
     \<and> vd_completeManualExtraction d \<noteq> None \<and> vd_runAiInterview d \<noteq> None)"

text \<open>The server: its routes are those whose dependencies are there.\<close>

definition buildServer :: "environment \<Rightarrow> 'x server_dependencies option \<Rightarrow> 'x server_dependencies option result" where
  "buildServer e s =
     (if ev_node e = ''production'' \<and> (case s of None \<Rightarrow> True | Some d \<Rightarrow> \<not> complete_dependencies d)
      then Inl (js_error ''production authentication and authorization dependencies are required'') else Inr s)"

text \<open>The dependencies that \<open>createApplicationRuntime\<close> returns.\<close>

definition runtime_server ::
  "'o runtime_env \<Rightarrow> (string \<Rightarrow> string) \<Rightarrow> (api_request \<Rightarrow> 'o api_world \<Rightarrow> api_reply \<times> 'o api_world)
   \<Rightarrow> (web_request \<Rightarrow> ('o api_world, web_response) world_op) \<Rightarrow> ('o api_world \<Rightarrow> readiness_report result \<times> 'o api_world)
   \<Rightarrow> 'o api_world server_dependencies" where
  "runtime_server env pg webhook auth ready = \<lparr> sd_vault = runtime_vault env pg,
     sd_households = Some (runtime_households env pg), sd_webhook = Some webhook, sd_auth = Some auth,
     sd_readiness = Some ready \<rparr>"

definition handle_route ::
  "'x server_dependencies option \<Rightarrow> api_route \<Rightarrow> api_request \<Rightarrow> 'x \<Rightarrow> (api_reply \<times> 'x) option" where
  "handle_route s r rq x = (case s of None \<Rightarrow> None | Some d \<Rightarrow> (case r of
       VaultRoute v \<Rightarrow> Some (serve_vault (sd_vault d) v rq x)
     | HouseholdRoute h \<Rightarrow> map_option (\<lambda>hd. serve_household hd h rq x) (sd_households d)
     | BillingWebhook \<Rightarrow> map_option (\<lambda>f. f rq x) (sd_webhook d)))"

section \<open>Request telemetry\<close>

definition outcome_label :: "int \<Rightarrow> string" where
  "outcome_label status = (if status < 400 then ''success'' else if status < 500 then ''denied'' else ''failure'')"

definition request_labels :: "string \<Rightarrow> string \<times> string \<Rightarrow> int \<Rightarrow> (string \<times> string) list" where
  "request_labels node r status = [(''service'', ''legacy-api''), (''environment'', node), (''method'', fst r),
     (''route'', snd r), (''status_class'', dec_int (status div 100) @ ''xx''), (''outcome'', outcome_label status)]"

definition request_trace :: "(string \<Rightarrow> string) \<Rightarrow> api_request \<Rightarrow> string" where
  "request_trace sha256 rq = (case traceIdFromTraceparent (case rq_headers rq ''traceparent'' of OneHeader t \<Rightarrow> Some t | _ \<Rightarrow> None) of
     Some t \<Rightarrow> t | None \<Rightarrow> take 32 (hash_text sha256 (rq_id rq)))"

definition request_log :: "string \<Rightarrow> (string \<Rightarrow> string) \<Rightarrow> string \<times> string \<Rightarrow> int \<Rightarrow> api_request \<Rightarrow> rat \<Rightarrow> log_input" where
  "request_log node sha256 r status rq duration = \<lparr> li_level = (if 500 \<le> status then ''error'' else ''info''),
     li_service = ''legacy-api'', li_environment = node, li_request = rq_id rq, li_trace = request_trace sha256 rq,
     li_action = fst r @ '':'' @ snd r, li_outcome = outcome_label status, li_duration = duration,
     li_tenant = None, li_actor = None, li_policy = None, li_error = None \<rparr>"

text \<open>The hook of a response: two metrics, then the line of the log.  What it throws is lost.\<close>

definition record_metric :: "'o runtime_env \<Rightarrow> string \<Rightarrow> rat \<Rightarrow> (string \<times> string) list \<Rightarrow> ('o, unit) run" where
  "record_metric env name v labels = world_bind (draw (re_now env)) (\<lambda>now.
     on_metrics (metric_record (re_collate env) now name v labels))"

definition on_response ::
  "'o runtime_env \<Rightarrow> string \<Rightarrow> string \<times> string \<Rightarrow> api_request \<Rightarrow> int \<Rightarrow> int \<Rightarrow> ('o, log_record) run" where
  "on_response env node r rq started status =
     world_bind (draw (re_perf env)) (\<lambda>ended.
     let duration = of_int (max 0 (ended - started)); labels = request_labels node r status in
     world_bind (record_metric env ''legacy_http_request_duration_ms'' duration labels) (\<lambda>_.
     world_bind (record_metric env ''legacy_http_requests_total'' 1 labels) (\<lambda>_.
     world_bind (draw (re_now env)) (\<lambda>now.
     pure_result (telemetry_log now (request_log node (re_sha256 env) r status rq duration))))))"

text \<open>The hook of an error: what goes to the error reporter, for the name of the error.\<close>

definition on_error ::
  "string option \<Rightarrow> string \<Rightarrow> string \<times> string \<Rightarrow> err \<Rightarrow> (string \<times> (string \<times> string) list) option result" where
  "on_error sentry_dsn node r e = captureException sentry_dsn (Some e) [(''service'', ''legacy-api''), (''environment'', node),
     (''method'', fst r), (''route'', snd r), (''error_class'', lower_text (err_name e))]"

text \<open>A request to the process: the reply, what was logged of it, and the world.\<close>

definition serve_request ::
  "'o runtime_env \<Rightarrow> string \<Rightarrow> 'o api_world server_dependencies option \<Rightarrow> api_route \<Rightarrow> api_request \<Rightarrow> 'o api_world
   \<Rightarrow> (api_reply \<times> log_record result \<times> 'o api_world) option" where
  "serve_request env node s r rq w =
     (case draw (re_perf env) w of (Inl _, _) \<Rightarrow> None | (Inr started, w1) \<Rightarrow>
      (case handle_route s r rq w1 of None \<Rightarrow> None | Some (reply, w2) \<Rightarrow>
       (case on_response env node (route_url r) rq started (rp_status reply) w2 of (line, w3) \<Rightarrow>
          Some (reply, line, w3))))"

end
