(* ===== verification/Tenant_Isolation.thy ===== *)
theory Tenant_Isolation
  imports Api_Server
begin

text \<open>
  Tenant isolation of the API: whatever a member of one household asks, the rows of the other
  tenants stay as they are.  The frame is proved once per repository operation, carried through the
  operations of the runtime and through the handlers of the routes.
\<close>

section \<open>Operations of the repository\<close>

text \<open>The part of the database that an operation of a household may not change.\<close>

abbreviation keeps_others :: "tenant_context \<Rightarrow> (db \<Rightarrow> 'a result \<times> db) \<Rightarrow> bool" where
  "keeps_others ctx m \<equiv> keeps (foreign (tenant_session ctx)) m"

named_theorems isolated "operations that leave the other tenants alone"

lemma keeps_withTenant:
  "(\<And>d a d'. f (tenant_session ctx) d = Inr (a, d') \<Longrightarrow> foreign (tenant_session ctx) d' = foreign (tenant_session ctx) d)
    \<Longrightarrow> keeps_others ctx (withTenant ctx f)"
  by (auto simp: keeps_def withTenant_def transaction_def split: sum.splits prod.splits)

lemma keeps_read: "(\<And>d a d'. f (tenant_session ctx) d = Inr (a, d') \<Longrightarrow> d' = d) \<Longrightarrow> keeps_others ctx (withTenant ctx f)"
  by (rule keeps_withTenant) blast

lemma keeps_idempotent:
  assumes "\<And>d v d'. body (tenant_session ctx) d = Inr (v, d') \<Longrightarrow> foreign (tenant_session ctx) d' = foreign (tenant_session ctx) d"
  shows "keeps_others ctx (withTenant ctx (\<lambda>s. idempotent_call (tenant_lookup ctx key) (tenant_reserve ctx key now)
      (tenant_complete ctx key st) h conflict pending (body s)))"
  by (rule keeps_withTenant) (erule idempotent_call_foreign, erule assms)

lemma reads [isolated]:
  "keeps_others ctx (getActiveConsent ctx person purpose)"
  "keeps_others ctx (listVaultFacts collate ctx categories)"
  "keeps_others ctx (getEmergencyAccessCategories ctx i)"
  "keeps_others ctx (getFactFieldKey ctx i)"
  "keeps_others ctx (listPrivacyRequests ctx)"
  "keeps_others ctx (getBillingProviderCustomerId ctx)"
  "keeps_others ctx (getDocumentDownloadMaterial ctx i)"
  "keeps_others ctx (getPendingDocumentUpload ctx i)"
  "keeps_others ctx (getPortableExport ctx i)"
  "keeps_others ctx (getReport ctx i)"
  "keeps_others ctx (getSubscription ctx clock)"
  "keeps_others ctx (listBillingRefunds ctx)"
  "keeps_others ctx (listVaultDocuments ctx)"
  "keeps_others ctx (listHouseholdMembers ctx)"
  unfolding getActiveConsent_def listVaultFacts_def getEmergencyAccessCategories_def getFactFieldKey_def
    listPrivacyRequests_def getBillingProviderCustomerId_def getDocumentDownloadMaterial_def getPendingDocumentUpload_def
    getPortableExport_def getReport_def getSubscription_def listBillingRefunds_def listVaultDocuments_def
    listHouseholdMembers_def
  by (auto intro!: keeps_read simp: Let_def split: list.splits if_splits)

lemma keeps_early: "keeps f m \<Longrightarrow> keeps f (\<lambda>w. if b w then (Inl e, w) else m w)"
  by (simp add: keeps_def)

lemma isolated_audit [isolated]:
  "keeps_others ctx (audit_append collate hmac key ctx i)"
  "keeps_others ctx (readVerified collate hmac key ctx after_sequence limit)"
proof -
  show "keeps_others ctx (audit_append collate hmac key ctx i)"
    unfolding audit_append_def
    by (rule keeps_withTenant) (auto dest!: audit_t.insert_foreign)
  have "keeps_others ctx (withTenant ctx (\<lambda>s d.
        let events = map read_audit (audit_rows s d) in
        res_bind (verifyAuditChain collate hmac events key) (\<lambda>b.
          if \<not> b then Inl (js_error ''audit chain verification failed'')
          else (let available = filter (\<lambda>e. after_sequence < au_sequence e) events;
                    page = take (nat limit) available in
            Inr ((page, if length page < length available
                        then (case rev page of [] \<Rightarrow> None | e # _ \<Rightarrow> Some (au_sequence e)) else None), d)))))"
    by (rule keeps_read) (auto simp: Let_def split: if_splits)
  then show "keeps_others ctx (readVerified collate hmac key ctx after_sequence limit)"
    unfolding readVerified_def keeps_def by simp
qed

lemma isolated_keys [isolated]: "keeps_others ctx (getOrCreateActiveKey a kek i random iv now ctx)"
  unfolding getOrCreateActiveKey_def
  by (rule keeps_withTenant)
    (auto split: list.splits prod.splits dest!: household_keys_t.insert_returning_foreign)

lemma isolated_idempotency [isolated]:
  "keeps_others ctx (reserveIdempotency sha256 ctx now key request)"
  "keeps_others ctx (completeIdempotency ctx key status v)"
  unfolding reserveIdempotency_def completeIdempotency_def
  by (auto intro!: keeps_withTenant split: option.splits if_splits dest!: tenant_reserve_frame)

lemma isolated_facts [isolated]:
  "keeps_others ctx (createCandidateFact ctx input)"
  "keeps_others ctx (confirm_fact_row ctx i version t)"
  "keeps_others ctx (reject_fact_row ctx i version)"
  "keeps_others ctx (disputeFact ctx i version)"
proof -
  show "keeps_others ctx (createCandidateFact ctx input)"
    unfolding createCandidateFact_def
    by (rule keeps_withTenant) (auto simp: Let_def split: if_splits dest!: facts_t.insert_foreign)
  have u: "keeps_others ctx (withTenant ctx (update_fact p f message))"
    if "\<And>r. row_org (f r) = row_org r" "\<And>r. row_hh (f r) = row_hh r" for p f message
    by (rule keeps_withTenant) (auto simp: update_fact_def that split: list.splits)
  show "keeps_others ctx (confirm_fact_row ctx i version t)"
    "keeps_others ctx (reject_fact_row ctx i version)" "keeps_others ctx (disputeFact ctx i version)"
    unfolding confirm_fact_row_def reject_fact_row_def disputeFact_def
    by (simp_all add: u confirm_set_def reject_set_def dispute_set_def)
qed

lemma isolated_emergency [isolated]:
  "keeps_others ctx (createEmergencyAccessRequest ctx input)"
  "keeps_others ctx (decideEmergencyAccess ctx i version decision t r)"
  "keeps_others ctx (releaseEmergencyAccess ctx i version t)"
  unfolding createEmergencyAccessRequest_def decideEmergencyAccess_def releaseEmergencyAccess_def
  by (auto intro!: keeps_withTenant simp: decide_set_def release_set_def split: if_splits
      dest!: emergencies_t.insert_returning_foreign emergencies_t.update_returning_foreign)

lemma isolated_consents [isolated]:
  "keeps_others ctx (recordConsent ctx fresh person purpose policy t)"
  "keeps_others ctx (withdrawConsent ctx i version t)"
  unfolding recordConsent_def withdrawConsent_def
  by (auto intro!: keeps_withTenant simp: withdraw_set_def dest!: consents_t.insert_returning_foreign consents_t.update_returning_foreign)

lemma isolated_reports [isolated]: "keeps_others ctx (startReport ctx i w key kind t)"
  unfolding startReport_def
  by (rule keeps_withTenant)
    (auto split: sum.splits prod.splits dest!: reports_t.insert_returning_foreign workflows_t.insert_returning_foreign)

lemma isolated_privacy [isolated]:
  "keeps_others ctx (startPrivacyRequest sha256 ctx p w now person kind key t)"
  "keeps_others ctx (confirmPrivacyDeletion sha256 ctx e now i version key confirmed days)"
  "keeps_others ctx (cancelPrivacyDeletion sha256 ctx now i version key)"
proof -
  have "keeps_others ctx (withTenant ctx (\<lambda>s. idempotent_call (tenant_lookup ctx key) (tenant_reserve ctx key now)
        (tenant_complete ctx key 202) (request_hash sha256 (privacy_request_json person kind))
        ''idempotency key reused with different request'' ''privacy request is still processing''
        (start_privacy_body ctx p w person kind t s)))"
    by (rule keeps_idempotent) (auto simp: start_privacy_body_def split: prod.splits
        dest!: privacy_requests_t.insert_returning_foreign workflows_t.insert_returning_foreign)
  then show "keeps_others ctx (startPrivacyRequest sha256 ctx p w now person kind key t)"
    unfolding startPrivacyRequest_def keeps_def by (cases "person = tc_actor ctx") simp_all
  show "keeps_others ctx (confirmPrivacyDeletion sha256 ctx e now i version key confirmed days)"
    unfolding confirmPrivacyDeletion_def
    by (rule keeps_idempotent) (auto simp: confirm_deletion_body_def confirm_deletion_set_def confirm_workflow_set_def
        split: prod.splits list.splits if_splits option.splits
        dest!: privacy_requests_t.update_returning_foreign workflows_t.update_returning_foreign
          executions_t.insert_returning_foreign)
  show "keeps_others ctx (cancelPrivacyDeletion sha256 ctx now i version key)"
    unfolding cancelPrivacyDeletion_def
    by (rule keeps_idempotent) (auto simp: cancel_body_def split: prod.splits
        dest!: privacy_requests_t.update_returning_foreign workflows_t.update_returning_foreign
          executions_t.update_returning_foreign)
qed

lemma insert_candidates_foreign:
  "insert_candidates ctx document_id captured cs s d = Inr (rs, d') \<Longrightarrow> foreign s d' = foreign s d"
  by (induction cs arbitrary: d rs)
    (auto split: prod.splits if_splits dest!: evidence_t.insert_returning_foreign facts_t.insert_returning_foreign)

lemma update_documents_foreign:
  assumes "update_documents p f s d = Inr (rs, d')"
    and "\<And>r. row_org (f r) = row_org r" "\<And>r. row_hh (f r) = row_hh r"
  shows "foreign s d' = foreign s d"
  using assms by (auto simp: update_documents_def Let_def split: if_splits)

lemma update_workflows_foreign:
  assumes "update_workflows p f m s d = Inr (u, d')"
    and "\<And>r. row_org (f r) = row_org r" "\<And>r. row_hh (f r) = row_hh r"
  shows "foreign s d' = foreign s d"
  using assms by (auto simp: update_workflows_def split: if_splits)

lemma isolated_documents [isolated]:
  "keeps_others ctx (startDocumentUpload sha256 ctx c now expires input)"
  "keeps_others ctx (completeDocumentUpload sha256 ctx w now i version digest key t)"
  "keeps_others ctx (completeManualDocumentExtraction ctx now i w version key fingerprint captured cs)"
proof -
  have same: "d' = d" if "pending_upload i s d = Inr (r, d')" for i s d r d'
    using that by (auto simp: pending_upload_def split: list.splits if_splits)
  have "foreign (tenant_session ctx) d' = foreign (tenant_session ctx) d"
    if "reserve_upload h ctx c now input (tenant_session ctx) d = Inr (i, d')" for h i d d'
    using that by (auto simp: reserve_upload_def insert_upload_def split: option.splits if_splits prod.splits
        dest!: tenant_reserve_frame documents_t.insert_returning_foreign document_consents_t.insert_returning_foreign)
  then show "keeps_others ctx (startDocumentUpload sha256 ctx c now expires input)"
    unfolding startDocumentUpload_def
    by (intro keeps_withTenant) (auto split: prod.splits dest!: same)
  show "keeps_others ctx (completeDocumentUpload sha256 ctx w now i version digest key t)"
    unfolding completeDocumentUpload_def
  proof (rule keeps_idempotent)
    fix d v d'
    assume "complete_upload_body ctx w i version digest t (tenant_session ctx) d = Inr (v, d')"
    then obtain rs d1 where "update_documents (uploaded_pred i version) (uploaded_set digest t) (tenant_session ctx) d = Inr (rs, d1)"
      and "(case rs of [] \<Rightarrow> Inl (js_error ''document upload version conflict'')
        | r # _ \<Rightarrow> res_bind (insert_returning workflows workflows_update same_workflow
              (new_workflow ctx w ''document-processing'' (''document:'' @ i) ''scan''
                 (Some (''Document'', i))) (tenant_session ctx) d1) (\<lambda>(w, d2).
            Inr (JObj [(''document'', row_json (row_id r) (d_status r) (row_version r)),
                       (''workflow'', row_json (row_id w) (w_status w) (row_version w))], d2))) = Inr (v, d')"
      by (auto simp: complete_upload_body_def)
    then show "foreign (tenant_session ctx) d' = foreign (tenant_session ctx) d"
      by (cases rs) (auto simp: uploaded_set_def split: prod.splits
        dest!: update_documents_foreign workflows_t.insert_returning_foreign)
  qed
  show "keeps_others ctx (completeManualDocumentExtraction ctx now i w version key fingerprint captured cs)"
    unfolding completeManualDocumentExtraction_def
    by (rule keeps_idempotent) (auto simp: extraction_body_def extracted_set_def split: if_splits prod.splits
        dest!: insert_candidates_foreign update_workflows_foreign)
qed

lemma isolated_exports [isolated]:
  "keeps_others ctx (startPortableExport sha256 ctx x w now key fingerprint wrapped kv t)"
  unfolding startPortableExport_def
  by (rule keeps_idempotent) (auto simp: start_export_body_def split: if_splits prod.splits
      dest!: workflows_t.insert_returning_foreign exports_t.insert_returning_foreign)

lemma bump_foreign: "bump_household s p d = Some (h, d') \<Longrightarrow> foreign s d' = foreign s d"
  by (auto simp: bump_household_def Let_def split: list.splits)

lemma isolated_members [isolated]:
  "keeps_others ctx (createMembershipInvitation H ctx input now)"
  "keeps_others ctx (revokeMembershipInvitation H ctx i version key t now)"
  "keeps_others ctx (updateMembershipRole H ctx i new_role version key now)"
proof -
  have "keeps_others ctx (withTenant ctx (\<lambda>s. idempotent_call (tenant_lookup ctx (ii_key input)) (tenant_reserve ctx (ii_key input) now)
            (tenant_complete ctx (ii_key input) 201) (invitation_request_hash H input)
            ''membership invitation idempotency conflict'' ''membership invitation is still processing''
            (create_invitation_body ctx input s)))"
    by (rule keeps_idempotent) (auto simp: create_invitation_body_def split: option.splits if_splits sum.splits
        dest!: bump_foreign invitations_t.insert_foreign)
  then show "keeps_others ctx (createMembershipInvitation H ctx input now)"
    unfolding createMembershipInvitation_def keeps_def by (auto split: sum.splits)
  show "keeps_others ctx (revokeMembershipInvitation H ctx i version key t now)"
    unfolding revokeMembershipInvitation_def
    by (rule keeps_idempotent) (auto simp: revoke_invitation_body_def Let_def split: list.splits option.splits if_splits
        dest!: bump_foreign)
  have "keeps_others ctx (withTenant ctx (\<lambda>s. idempotent_call (tenant_lookup ctx key) (tenant_reserve ctx key now)
            (tenant_complete ctx key 200) (H (json_stringify (JObj [(''membershipId'', JStr i),
              (''role'', JStr (role_name new_role)), (''expectedVersion'', JNum version)])))
            ''membership role idempotency conflict'' ''membership role update is still processing''
            (update_role_body ctx i new_role version s)))"
    by (rule keeps_idempotent) (auto simp: update_role_body_def Let_def split: list.splits option.splits if_splits
        dest!: bump_foreign)
  then show "keeps_others ctx (updateMembershipRole H ctx i new_role version key now)"
    unfolding updateMembershipRole_def keeps_def by (auto split: sum.splits)
qed

section \<open>Operations of the runtime\<close>

definition others :: "tenant_context \<Rightarrow> 'o api_world \<Rightarrow> db" where
  "others ctx w = foreign (tenant_session ctx) (aw_db w)"

lemma keeps_world_bind [isolated]:
  assumes "keeps f m" and "\<And>a. keeps f (g a)" shows "keeps f (world_bind m g)"
  unfolding keeps_def
proof
  fix x
  obtain r x1 where m: "m x = (r, x1)" by (cases "m x")
  then have "f x1 = f x" using assms(1) unfolding keeps_def by (metis snd_conv)
  then show "f (snd (world_bind m g x)) = f x"
    using m assms(2) by (cases r) (simp_all add: world_bind_def keeps_def)
qed

lemma isolated_steps [isolated]:
  "keeps (others ctx) (draw g)" "keeps (others ctx) (on_services n)" "keeps (others ctx) (on_metrics k)"
  "keeps (others ctx) (pure_result r)" "keeps (others ctx) (done_with a)"
  by (simp_all add: keeps_def others_def draw_def on_services_def on_metrics_def pure_result_def done_with_def split: prod.split)

lemma isolated_on_db [isolated]: "keeps_others ctx m \<Longrightarrow> keeps (others ctx) (on_db m)"
  by (auto simp: keeps_def others_def on_db_def split: prod.split) (metis snd_conv)

lemma isolated_returning [isolated]: "keeps (others ctx) m \<Longrightarrow> keeps (others ctx) (returning g m)"
  unfolding returning_def by (intro isolated)

lemma isolated_if [isolated]: "keeps f m \<Longrightarrow> keeps f n \<Longrightarrow> keeps f (if b then m else n)"
  by simp

lemma isolated_prod [isolated]: "(\<And>a b. keeps f (m a b)) \<Longrightarrow> keeps f (case p of (a, b) \<Rightarrow> m a b)"
  by (cases p) simp

lemma isolated_option [isolated]: "keeps f m \<Longrightarrow> (\<And>a. keeps f (n a)) \<Longrightarrow> keeps f (case v of None \<Rightarrow> m | Some a \<Rightarrow> n a)"
  by (cases v) simp_all

lemma isolated_let [isolated]: "keeps f (m v) \<Longrightarrow> keeps f (let x = v in m x)"
  by simp

lemma isolated_household_key [isolated]: "keeps (others ctx) (household_key env ctx)"
  unfolding household_key_def by (intro isolated)

lemma isolated_authorize [isolated]:
  "keeps (others (identity_context i)) (authorizeIdentity env i category action purpose)"
  unfolding authorizeIdentity_def record_decision_def by (intro isolated)

lemma isolated_resolve: "keeps (others ctx) (resolveIdentity env rq)"
  unfolding resolveIdentity_def by (intro isolated) (simp add: keeps_def)

lemma isolated_records [isolated]:
  "keeps (others (identity_context i)) (encryptFactValue env i k v)"
  "keeps (others (identity_context i)) (encryptEmergencyReason env i v)"
  "keeps (others (identity_context i)) (list_vault_facts env i cs)"
  unfolding encryptFactValue_def encryptEmergencyReason_def encrypt_record_def list_vault_facts_def
  by (intro isolated)+

lemma isolated_services [isolated]:
  "keeps (others (identity_context i)) (start_portable_export env i k key)"
  "keeps (others (identity_context i)) (get_portable_export env i x)"
  "keeps (others (identity_context i)) (confirm_privacy_deletion env i x version key)"
  "keeps (others (identity_context i)) (cancel_privacy_deletion env i x version key)"
  "keeps (others (identity_context i)) (get_document_content_of env i x)"
  "keeps (others (identity_context i)) (list_vault_documents i)"
  "keeps (others (identity_context i)) (list_audit_events env i n m)"
  "keeps (others (identity_context i)) (create_report env i kind key)"
  "keeps (others (identity_context i)) (get_report_of env i x)"
  "keeps (others (identity_context i)) (create_checkout env i key)"
  "keeps (others (identity_context i)) (create_billing_portal env i key)"
  "keeps (others (identity_context i)) (get_subscription_of env i)"
  "keeps (others (identity_context i)) (list_billing_refunds i)"
  "keeps (others (identity_context i)) (start_document_upload env i u)"
  "keeps (others (identity_context i)) (create_document_upload_url env i x version digest)"
  "keeps (others (identity_context i)) (complete_document_upload env i x version digest key)"
  unfolding start_portable_export_def get_portable_export_def confirm_privacy_deletion_def cancel_privacy_deletion_def
    get_document_content_of_def list_vault_documents_def list_audit_events_def create_report_def get_report_of_def
    create_checkout_def create_billing_portal_def get_subscription_of_def list_billing_refunds_def
    start_document_upload_def create_document_upload_url_def complete_document_upload_def enqueueWorkflow_def
  by (intro isolated)+

lemma isolated_map [isolated]: "(\<And>x. keeps (others ctx) (g x)) \<Longrightarrow> keeps (others ctx) (world_map g xs)"
  by (induction xs) (auto intro: isolated)

lemma isolated_extraction [isolated]:
  "keeps (others (identity_context i)) (complete_manual_extraction env i m)"
  unfolding complete_manual_extraction_def seal_candidate_def by (intro isolated)

lemma isolated_each [isolated]: "(\<And>x. keeps (others ctx) (g x)) \<Longrightarrow> keeps (others ctx) (run_each g xs)"
  by (induction xs) (auto intro: isolated)

lemma isolated_emit [isolated]: "keeps (others ctx) (emit env ms)"
  unfolding emit_def record_ai_metric_def record_point_def by (intro isolated)

lemma isolated_cache [isolated]:
  "keeps (others (identity_context i)) (cached_interview env i k)"
  "keeps (others (identity_context i)) (cache_interview env i k answer)"
  unfolding cached_interview_def cache_interview_def by (intro isolated)+

lemma isolated_ask [isolated]: "keeps (others ctx) (ask_provider env r)"
proof -
  have call: "others ctx w' = others ctx w"
    if "ai_execute (re_collate env) (re_nfc env) (provider_call env) interview_schema l r w = (out, ms, w')" for l w out ms w'
    using ai_execute_world [OF that] by (auto simp: others_def provider_call_def split: prod.splits)
  have told: "others ctx (snd (world_bind (emit env ms) (\<lambda>_. pure_result out) w)) = others ctx w"
    for ms w and out :: "interview_answer result"
    using keeps_world_bind [OF isolated_emit isolated_steps(4), of ctx env ms "\<lambda>_. out"]
    unfolding keeps_def by blast
  have "keeps (others ctx) (\<lambda>w. case ai_execute (re_collate env) (re_nfc env) (provider_call env) interview_schema l r w of
      (out, metrics, w') \<Rightarrow> world_bind (emit env metrics) (\<lambda>_.
         pure_result (case out of Inl e \<Rightarrow> Inl (ai_error_of e) | Inr answer \<Rightarrow> Inr answer)) w')" for l
    unfolding keeps_def
  proof
    fix w
    obtain out ms w' where e: "ai_execute (re_collate env) (re_nfc env) (provider_call env) interview_schema l r w = (out, ms, w')"
      by (rule prod_cases3)
    show "others ctx (snd (case ai_execute (re_collate env) (re_nfc env) (provider_call env) interview_schema l r w of
      (out, metrics, w') \<Rightarrow> world_bind (emit env metrics) (\<lambda>_.
         pure_result (case out of Inl e \<Rightarrow> Inl (ai_error_of e) | Inr answer \<Rightarrow> Inr answer)) w')) = others ctx w"
      unfolding e prod.case told by (rule call [OF e])
  qed
  then show ?thesis unfolding ask_provider_def by (intro isolated)
qed

lemma isolated_answer [isolated]:
  "keeps (others (identity_context i)) (interview_answer_for env i version r categories)"
  unfolding interview_answer_for_def by (intro isolated)

lemma isolated_consented [isolated]:
  "keeps (others (identity_context i)) (interview_with_consent env i input consent)"
proof -
  define answer where "answer = interview_answer_for env i (snd (snd consent))"
  have kept: "keeps (others (identity_context i)) (answer r cs)" for r cs
    unfolding answer_def by (rule isolated)
  have rest: "others (identity_context i) (snd (world_bind (answer r cs) (\<lambda>a w1. (Inr (g a), h a w1)) w)) = others (identity_context i) w"
    if "\<And>a w. aw_db (h a w) = aw_db w" for r cs w and g :: "interview_answer \<Rightarrow> json" and h
    using keeps_world_bind [OF kept, of "\<lambda>a w1. (Inr (g a), h a w1)" r cs] that
    by (simp add: keeps_def others_def)
  show ?thesis
    unfolding keeps_def interview_with_consent_def Let_def answer_def [symmetric]
    by (auto simp: rest split: option.splits)
qed

lemma isolated_interview [isolated]:
  "keeps (others (identity_context i)) (run_ai_interview env i input)"
  unfolding run_ai_interview_def by (intro keeps_early isolated)

section \<open>The handlers\<close>

text \<open>A handler that changes no row of another tenant than that of the identity its request resolves to.\<close>

definition own_rows_only :: "'o runtime_env \<Rightarrow> api_request \<Rightarrow> ('o api_world, 'a) api \<Rightarrow> bool" where
  "own_rows_only env rq m \<longleftrightarrow> (\<forall>w i w1. resolveIdentity env rq w = (Inr i, w1)
     \<longrightarrow> others (identity_context i) (snd (m w)) = others (identity_context i) w)"

lemma own_identify:
  assumes "\<And>i. keeps (others (identity_context i)) (g i)"
  shows "own_rows_only env rq (api_bind (identify (runtime_vault env pg) rq) g)"
  unfolding own_rows_only_def
proof (intro allI impI)
  fix w i w1 assume r: "resolveIdentity env rq w = (Inr i, w1)"
  then have "others (identity_context i) w1 = others (identity_context i) w"
    using isolated_resolve [of "identity_context i" env rq] unfolding keeps_def by (metis snd_conv)
  with r assms [of i]
  show "others (identity_context i) (snd (api_bind (identify (runtime_vault env pg) rq) g w)) = others (identity_context i) w"
    by (simp add: api_bind_def identify_def api_call_def runtime_vault_def keeps_def)
qed

lemma keeps_rethrow [isolated]: "keeps f m \<Longrightarrow> keeps f (api_rethrow m h)"
  by (auto simp: keeps_def api_rethrow_def split: prod.split sum.split) (metis snd_conv)+

lemma keeps_fail [isolated]: "keeps f (api_fail e)"
  by (simp add: keeps_def api_fail_def)

lemma keeps_send [isolated]: "keeps f (send status v)" "keeps f (send_private status v)"
  by (simp_all add: keeps_def send_def send_private_def api_return_def)

lemma runtime_operations:
  "vd_repository (runtime_vault env pg) = runtime_repository env"
  "vd_now (runtime_vault env pg) = (\<lambda>w. re_now env (aw_ticks w))"
  "vd_date_parse (runtime_vault env pg) = re_date_parse env"
  "vd_pg_message (runtime_vault env pg) = pg"
  "vd_resolveIdentity (runtime_vault env pg) = resolveIdentity env"
  "vd_authorizeIdentity (runtime_vault env pg) = Some (authorizeIdentity env)"
  "vd_startPortableExport (runtime_vault env pg) = Some (start_portable_export env)"
  "vd_getPortableExport (runtime_vault env pg) = Some (get_portable_export env)"
  "vd_confirmPrivacyDeletion (runtime_vault env pg) = Some (confirm_privacy_deletion env)"
  "vd_cancelPrivacyDeletion (runtime_vault env pg) = Some (cancel_privacy_deletion env)"
  "vd_encryptFactValue (runtime_vault env pg) = Some (encryptFactValue env)"
  "vd_encryptEmergencyReason (runtime_vault env pg) = Some (encryptEmergencyReason env)"
  "vd_listVaultFacts (runtime_vault env pg) = Some (list_vault_facts env)"
  "vd_listVaultDocuments (runtime_vault env pg) = Some list_vault_documents"
  "vd_getDocumentContent (runtime_vault env pg) = Some (get_document_content_of env)"
  "vd_listAuditEvents (runtime_vault env pg) = Some (list_audit_events env)"
  "vd_createReport (runtime_vault env pg) = Some (create_report env)"
  "vd_getReport (runtime_vault env pg) = Some (get_report_of env)"
  "vd_createCheckout (runtime_vault env pg) = Some (create_checkout env)"
  "vd_createBillingPortal (runtime_vault env pg) = Some (create_billing_portal env)"
  "vd_getSubscription (runtime_vault env pg) = Some (get_subscription_of env)"
  "vd_listBillingRefunds (runtime_vault env pg) = Some list_billing_refunds"
  "vd_startDocumentUpload (runtime_vault env pg) = Some (start_document_upload env)"
  "vd_createDocumentUploadUrl (runtime_vault env pg) = Some (create_document_upload_url env)"
  "vd_completeDocumentUpload (runtime_vault env pg) = Some (complete_document_upload env)"
  "vd_completeManualExtraction (runtime_vault env pg) = Some (complete_manual_extraction env)"
  "vd_runAiInterview (runtime_vault env pg) = Some (run_ai_interview env)"
  by (simp_all add: runtime_vault_def)

lemma need_configured: "keeps f (g a) \<Longrightarrow> keeps f (api_bind (api_need (Some a) title detail) g)"
  by (simp add: api_bind_def api_need_def api_return_def keeps_def)

lemma isolated_allow [isolated]:
  "keeps (others (identity_context i)) (allow (runtime_vault env pg) i action purpose c)"
  unfolding allow_def by (simp add: runtime_vault_def keeps isolated)

lemma isolated_allow_each [isolated]:
  "keeps (others (identity_context i)) (allow_each (runtime_vault env pg) i action purpose cs)"
  by (induction cs) (auto intro: keeps isolated)

lemma isolated_entitlement [isolated]:
  "keeps (others (identity_context i)) (requireBillingEntitlement (runtime_vault env pg) i e)"
  unfolding requireBillingEntitlement_def runtime_operations by (intro need_configured keeps isolated)

lemma isolated_replay [isolated]: "keeps f (replay_or_refuse r)" "keeps f (replay_or_processing r)"
  unfolding replay_or_refuse_def replay_or_processing_def by (intro isolated)+

lemma isolated_repository [isolated]:
  "keeps (others ctx) (vr_getActiveConsent (runtime_repository env) ctx person purpose)"
  "keeps (others ctx) (vr_reserveIdempotency (runtime_repository env) ctx key request)"
  "keeps (others ctx) (vr_completeIdempotency (runtime_repository env) ctx key status v)"
  "keeps (others ctx) (vr_createCandidateFact (runtime_repository env) ctx input)"
  "keeps (others ctx) (vr_getFactFieldKey (runtime_repository env) ctx i)"
  "keeps (others ctx) (vr_confirmFact (runtime_repository env) ctx i version t)"
  "keeps (others ctx) (vr_rejectFact (runtime_repository env) ctx i version)"
  "keeps (others ctx) (vr_disputeFact (runtime_repository env) ctx i version)"
  "keeps (others ctx) (vr_getEmergencyAccessCategories (runtime_repository env) ctx i)"
  "keeps (others ctx) (vr_createEmergencyAccessRequest (runtime_repository env) ctx e)"
  "keeps (others ctx) (vr_decideEmergencyAccess (runtime_repository env) ctx i version decision t r)"
  "keeps (others ctx) (vr_releaseEmergencyAccess (runtime_repository env) ctx i version t)"
  "keeps (others ctx) (vr_recordConsent (runtime_repository env) ctx person purpose policy t)"
  "keeps (others ctx) (vr_withdrawConsent (runtime_repository env) ctx i version t)"
  "keeps (others ctx) (vr_listPrivacyRequests (runtime_repository env) ctx)"
  "keeps (others ctx) (vr_startPrivacyRequest (runtime_repository env) ctx person kind key t)"
  unfolding runtime_repository_def vault_repository.select_convs by (intro isolated)+

lemma isolated_once [isolated]:
  assumes "\<And>r. keeps (others ctx) (replay r)" and "keeps (others ctx) body" and "\<And>n v. keeps (others ctx) (answer n v)"
  shows "keeps (others ctx) (once (runtime_vault env pg) ctx key shape replay status body answer)"
  unfolding once_def runtime_operations by (intro keeps isolated assms)

lemma isolated_once_catching [isolated]:
  "keeps (others ctx) body \<Longrightarrow> keeps (others ctx) (once_catching (runtime_vault env pg) ctx key shape h body)"
  unfolding once_catching_def runtime_operations by (intro keeps isolated)

lemma own_decision:
  assumes "\<And>ctx i version. keeps (others ctx) (m ctx i version)"
  shows "own_rows_only env rq (decide_fact (runtime_vault env pg) rq purpose m)"
  unfolding decide_fact_def runtime_operations by (intro own_identify keeps isolated assms)

lemma own_fact_routes:
  "own_rows_only env rq (get_facts (runtime_vault env pg) rq)"
  "own_rows_only env rq (post_fact (runtime_vault env pg) rq)"
  "own_rows_only env rq (get_consent (runtime_vault env pg) rq)"
  unfolding get_facts_def post_fact_def get_consent_def runtime_operations
  by (intro own_identify need_configured keeps isolated)+

lemma keeps_at_clock:
  assumes "\<And>t. keeps f (m t)" shows "keeps f (\<lambda>w. m (c w) w)"
  using assms by (simp add: keeps_def)

text \<open>The operations that the handlers call with the clock of the process.\<close>

lemma isolated_clock [isolated]:
  "keeps (others ctx) (\<lambda>w. vr_confirmFact (runtime_repository env) ctx i version (re_now env (aw_ticks w)) w)"
  "keeps (others ctx) (\<lambda>w. vr_releaseEmergencyAccess (runtime_repository env) ctx i version (re_now env (aw_ticks w)) w)"
  "keeps (others ctx) (\<lambda>w. vr_recordConsent (runtime_repository env) ctx person purpose policy (re_now env (aw_ticks w)) w)"
  "keeps (others ctx) (\<lambda>w. vr_withdrawConsent (runtime_repository env) ctx i version (re_now env (aw_ticks w)) w)"
  "keeps (others ctx) (\<lambda>w. vr_startPrivacyRequest (runtime_repository env) ctx person kind key (re_now env (aw_ticks w)) w)"
  by (rule keeps_at_clock [where c = "\<lambda>w. re_now env (aw_ticks w)"], rule isolated)+

lemma isolated_clocked_requests [isolated]:
  "keeps (others ctx) (\<lambda>w. vr_createEmergencyAccessRequest (runtime_repository env) ctx (e w) w)"
  "keeps (others ctx) (\<lambda>w. vr_decideEmergencyAccess (runtime_repository env) ctx i version decision (g w) (h w) w)"
proof -
  show "keeps (others ctx) (\<lambda>w. vr_createEmergencyAccessRequest (runtime_repository env) ctx (e w) w)"
    by (rule keeps_at_clock [where c = e], rule isolated)
  show "keeps (others ctx) (\<lambda>w. vr_decideEmergencyAccess (runtime_repository env) ctx i version decision (g w) (h w) w)"
    using keeps_at_clock [where c = "\<lambda>w. (g w, h w)" and f = "others ctx"
        and m = "\<lambda>p. vr_decideEmergencyAccess (runtime_repository env) ctx i version decision (fst p) (snd p)"]
    by (simp add: isolated)
qed

lemma own_decisions:
  "own_rows_only env rq (confirm_fact (runtime_vault env pg) rq)"
  "own_rows_only env rq (reject_fact (runtime_vault env pg) rq)"
  "own_rows_only env rq (dispute_fact (runtime_vault env pg) rq)"
  unfolding confirm_fact_def reject_fact_def dispute_fact_def runtime_operations
  by (intro own_decision isolated)+

lemma own_emergency_routes:
  "own_rows_only env rq (request_emergency_access (runtime_vault env pg) rq)"
  "own_rows_only env rq (decide_emergency_access (runtime_vault env pg) rq)"
  "own_rows_only env rq (release_emergency_access (runtime_vault env pg) rq)"
  unfolding request_emergency_access_def decide_emergency_access_def release_emergency_access_def runtime_operations Let_def
  by (intro own_identify need_configured keeps isolated)+

lemma own_consent_routes:
  "own_rows_only env rq (post_consent (runtime_vault env pg) rq)"
  "own_rows_only env rq (withdraw_consent (runtime_vault env pg) rq)"
  unfolding post_consent_def withdraw_consent_def runtime_operations Let_def
  by (intro own_identify need_configured keeps isolated)+

lemma own_document_routes:
  "own_rows_only env rq (get_documents (runtime_vault env pg) rq)"
  "own_rows_only env rq (get_document_content (runtime_vault env pg) rq)"
  "own_rows_only env rq (get_audit_events (runtime_vault env pg) rq)"
  "own_rows_only env rq (post_document (runtime_vault env pg) rq)"
  "own_rows_only env rq (post_upload_url (runtime_vault env pg) rq)"
  "own_rows_only env rq (complete_document (runtime_vault env pg) rq)"
  "own_rows_only env rq (post_manual_extraction (runtime_vault env pg) rq)"
  "own_rows_only env rq (post_interview (runtime_vault env pg) rq)"
  unfolding get_documents_def get_document_content_def get_audit_events_def post_document_def post_upload_url_def
    complete_document_def post_manual_extraction_def post_interview_def runtime_operations Let_def
  by (intro own_identify need_configured keeps isolated)+

lemma own_account_routes:
  "own_rows_only env rq (get_privacy_requests (runtime_vault env pg) rq)"
  "own_rows_only env rq (post_privacy_request (runtime_vault env pg) rq)"
  "own_rows_only env rq (confirm_deletion (runtime_vault env pg) rq)"
  "own_rows_only env rq (cancel_deletion (runtime_vault env pg) rq)"
  "own_rows_only env rq (post_export (runtime_vault env pg) rq)"
  "own_rows_only env rq (get_export (runtime_vault env pg) rq)"
  "own_rows_only env rq (get_report (runtime_vault env pg) rq)"
  "own_rows_only env rq (post_report (runtime_vault env pg) rq)"
  "own_rows_only env rq (post_checkout (runtime_vault env pg) rq)"
  "own_rows_only env rq (post_portal (runtime_vault env pg) rq)"
  "own_rows_only env rq (get_subscription (runtime_vault env pg) rq)"
  "own_rows_only env rq (get_refunds (runtime_vault env pg) rq)"
  unfolding get_privacy_requests_def post_privacy_request_def confirm_deletion_def cancel_deletion_def post_export_def
    get_export_def get_report_def post_report_def post_checkout_def post_portal_def get_subscription_def get_refunds_def
    runtime_operations Let_def
  by (intro own_identify need_configured keeps isolated)+

lemmas own_routes = own_fact_routes own_decisions own_emergency_routes own_consent_routes own_document_routes
  own_account_routes

lemma own_rows_of_route: "own_rows_only env rq (vault_handler r (runtime_vault env pg) rq)"
  by (cases r) (simp_all add: own_routes)

section \<open>The household routes\<close>

lemma household_operations:
  "hd_resolveIdentity (runtime_households env pg) = resolveIdentity env"
  "hd_authorizeIdentity (runtime_households env pg) = Some (authorizeIdentity env)"
  "hd_listMembers (runtime_households env pg) = list_members env"
  "hd_createInvitation (runtime_households env pg) = create_invitation env"
  "hd_revokeInvitation (runtime_households env pg) = revoke_invitation env"
  "hd_updateMemberRole (runtime_households env pg) = update_member_role env"
  by (simp_all add: runtime_households_def)

lemma isolated_member_services [isolated]:
  "keeps (others (identity_context i)) (list_members env i)"
  "keeps (others (identity_context i)) (create_invitation env i email invited version key)"
  "keeps (others (identity_context i)) (revoke_invitation env i x version key)"
  "keeps (others (identity_context i)) (update_member_role env i x new_role version key)"
  unfolding list_members_def create_invitation_def revoke_invitation_def update_member_role_def
  by (intro isolated)+

lemma isolated_approve_each [isolated]:
  "keeps (others (identity_context i)) (approve_each (runtime_households env pg) i purpose cs)"
  by (induction cs) (auto simp: household_operations intro: keeps isolated)

lemma own_manager:
  assumes "\<And>i. keeps (others (identity_context i)) (g i)"
  shows "own_rows_only env rq (api_bind (manager (runtime_households env pg) purpose rq) g)"
proof -
  have "own_rows_only env rq (api_bind (identify (runtime_vault env pg) rq)
      (\<lambda>i. api_bind (approve_each (runtime_households env pg) i purpose category_names) (\<lambda>_. g i)))"
    by (intro own_identify keeps isolated assms)
  moreover have "api_bind (manager (runtime_households env pg) purpose rq) g = api_bind (identify (runtime_vault env pg) rq)
      (\<lambda>i. api_bind (approve_each (runtime_households env pg) i purpose category_names) (\<lambda>_. g i))"
    by (rule ext) (auto simp: manager_def identify_def runtime_operations household_operations api_bind_def api_return_def
        split: prod.splits sum.splits)
  ultimately show ?thesis by simp
qed

text \<open>The routes whose request is made as a member of a household.\<close>

fun tenant_route :: "api_route \<Rightarrow> bool" where
  "tenant_route (VaultRoute r) = True"
| "tenant_route (HouseholdRoute r) = (r \<notin> {GetHouseholds, PostHousehold, AcceptInvitation})"
| "tenant_route BillingWebhook = False"

lemma own_household_routes:
  "own_rows_only env rq (get_members (runtime_households env pg) rq)"
  "own_rows_only env rq (post_invitation (runtime_households env pg) rq)"
  "own_rows_only env rq (post_revocation (runtime_households env pg) rq)"
  "own_rows_only env rq (post_role (runtime_households env pg) rq)"
  unfolding get_members_def post_invitation_def post_revocation_def post_role_def household_operations
  by (intro own_manager keeps isolated)+

lemma own_rows_of_household_route:
  "tenant_route (HouseholdRoute h) \<Longrightarrow> own_rows_only env rq (household_handler h (runtime_households env pg) rq)"
  by (cases h) (simp_all add: own_household_routes)

lemma snd_respond: "snd (respond p rq m w) = snd (m w)"
  by (simp add: respond_def split: prod.splits sum.splits)

text \<open>C1: A request to the API changes no row of another tenant than the household its session resolves to,
  in any table of the database, on every route that works for a household (the thirty-one vault routes and the
  four of member administration), whatever its reply: errors, refusals and replays included.\<close>

theorem requests_stay_in_household:
  assumes "tenant_route r"
    and "handle_route (Some (runtime_server env pg webhook auth ready)) r rq w = Some (reply, w')"
    and "resolveIdentity env rq w = (Inr i, w1)"
  shows "foreign (tenant_session (identity_context i)) (aw_db w') = foreign (tenant_session (identity_context i)) (aw_db w)"
proof (cases r)
  case (VaultRoute v)
  with assms(2) have "w' = snd (serve_vault (runtime_vault env pg) v rq w)" by (simp add: handle_route_def runtime_server_def)
  then show ?thesis using own_rows_of_route [of env rq v pg] assms(3)
    by (simp add: serve_vault_def snd_respond own_rows_only_def others_def)
next
  case (HouseholdRoute h)
  with assms(2) have "w' = snd (serve_household (runtime_households env pg) h rq w)"
    by (simp add: handle_route_def runtime_server_def)
  then show ?thesis using own_rows_of_household_route [of h env rq pg] assms(1,3) HouseholdRoute
    by (simp add: serve_household_def snd_respond own_rows_only_def others_def)
next
  case BillingWebhook with assms(1) show ?thesis by simp
qed

definition member_runtime :: "nat runtime_env" where
  "member_runtime = sample_runtime \<lparr> re_session := \<lambda>_. counted support_session \<rparr>"

definition member_request :: api_request where
  "member_request = sample_request \<lparr> rq_headers := \<lambda>_. NoHeader \<rparr>"

definition member_world :: "nat api_world" where
  "member_world = sample_world support_db \<lparr> aw_ticks := 20 \<rparr>"

lemma member_resolves: "\<exists>w1. resolveIdentity member_runtime member_request member_world = (Inr support_identity, w1)"
  by (simp add: resolveIdentity_def member_runtime_def member_request_def member_world_def sample_world_def sample_runtime_def
      world_bind_def on_services_def draw_def on_db_def counted_def support_resolves)

definition member_server :: "nat api_world server_dependencies" where
  "member_server = runtime_server member_runtime id (\<lambda>rq w. (plain_reply 200 [], w))
     (\<lambda>q w. (Inl (js_error ''no account''), w)) (\<lambda>w. (Inr (True, []), w))"

lemma member_answered:
  "\<exists>reply w'. handle_route (Some member_server) (VaultRoute r) rq w = Some (reply, w')"
  by (simp add: handle_route_def)

theorem requests_stay_in_household_witness:
  "\<exists>reply w'. handle_route (Some member_server) (VaultRoute PostFact) member_request member_world = Some (reply, w') \<and>
     foreign (tenant_session (identity_context support_identity)) (aw_db w') =
     foreign (tenant_session (identity_context support_identity)) (aw_db member_world)"
proof -
  obtain reply w' where h: "handle_route (Some member_server) (VaultRoute PostFact) member_request member_world = Some (reply, w')"
    using member_answered by blast
  obtain w1 where i: "resolveIdentity member_runtime member_request member_world = (Inr support_identity, w1)"
    using member_resolves by blast
  from requests_stay_in_household [OF _ h [unfolded member_server_def] i] h show ?thesis by auto
qed

end
