(* ===== verification/Runtime_Safety.thy ===== *)
theory Runtime_Safety
  imports Tenant_Isolation
begin

text \<open>
  What the composition of the routes with the operations of the runtime guarantees: a refused
  request leaves its trace in the audit log and nowhere else, and what becomes of an idempotency key
  whose request failed.
\<close>

section \<open>Refused requests\<close>

text \<open>The database without its audit log.\<close>

definition unaudited :: "'o api_world \<Rightarrow> db" where
  "unaudited w = (aw_db w) \<lparr> audit := [] \<rparr>"

named_theorems unaudited_kept "operations that change the audit log at most"

lemma unaudited_steps [unaudited_kept]:
  "keeps unaudited (draw g)" "keeps unaudited (on_services n)"
  "keeps unaudited (pure_result r)" "keeps unaudited (done_with a)"
  by (simp_all add: keeps_def unaudited_def draw_def on_services_def pure_result_def done_with_def split: prod.split)

lemma unaudited_on_db [unaudited_kept]: "keeps (\<lambda>d. d \<lparr> audit := [] \<rparr>) m \<Longrightarrow> keeps unaudited (on_db m)"
  by (auto simp: keeps_def unaudited_def on_db_def split: prod.split) (metis snd_conv)

lemma unaudited_append [unaudited_kept]: "keeps (\<lambda>d. d \<lparr> audit := [] \<rparr>) (audit_append collate hmac key ctx i)"
  by (auto simp: keeps_def audit_append_def withTenant_def transaction_def split: sum.splits prod.splits)

lemma unaudited_reads [unaudited_kept]:
  "keeps (\<lambda>d. d \<lparr> audit := [] \<rparr>) (getFactFieldKey ctx i)"
  "keeps (\<lambda>d. d \<lparr> audit := [] \<rparr>) (getEmergencyAccessCategories ctx i)"
  by (auto simp: keeps_def getFactFieldKey_def getEmergencyAccessCategories_def withTenant_def transaction_def
      split: sum.splits prod.splits list.splits)

lemma unaudited_authorize [unaudited_kept]: "keeps unaudited (authorizeIdentity env i c action purpose)"
  unfolding authorizeIdentity_def record_decision_def
  by (intro unaudited_kept keeps_world_bind isolated_let isolated_if)

lemma quiet_runtime: "quiet unaudited (runtime_vault env pg)"
  unfolding quiet_def runtime_operations runtime_repository_def vault_repository.select_convs resolveIdentity_def
  by (auto intro!: unaudited_kept keeps_world_bind) (simp_all add: keeps_def)

text \<open>The scope of the request is outside what the policy allows the identity, whatever the time.\<close>

definition never_allowed :: "tenant_identity \<Rightarrow> permission_action \<Rightarrow> string \<Rightarrow> string \<Rightarrow> bool" where
  "never_allowed i action purpose c \<longleftrightarrow> (\<forall>clock. \<not> ad_allowed (scope_decision i c action purpose clock))"

definition out_of_scope :: "tenant_identity \<Rightarrow> vault_route \<Rightarrow> api_request \<Rightarrow> bool" where
  "out_of_scope i r rq \<longleftrightarrow> (case route_categories r rq of
       Named cs \<Rightarrow> \<exists>c \<in> set cs. never_allowed i (route_action r) (route_purpose r) c
     | Stored \<Rightarrow> \<forall>c. never_allowed i (route_action r) (route_purpose r) c)"

lemma never_allowed_refuses:
  assumes "never_allowed i action purpose c" shows "refuses (runtime_vault env pg) i action purpose c"
proof -
  have "\<exists>e. fst (authorizeIdentity env i c action purpose w) = Inl e" for w
    using assms by (auto simp: never_allowed_def authorizeIdentity_def draw_def world_bind_def Let_def pure_result_def
        split: prod.splits sum.splits)
  then show ?thesis by (simp add: refuses_def runtime_operations)
qed

lemma refused_fact_decision:
  assumes "r \<in> {ConfirmFact, RejectFact, DisputeFact}"
    and "\<And>i. resolves (runtime_vault env pg) rq w i \<Longrightarrow> out_of_scope i r rq"
  shows "stops_at unaudited (vault_handler r (runtime_vault env pg) rq) w"
proof -
  have "refuses (runtime_vault env pg) i Approve (route_purpose r) c" if "resolves (runtime_vault env pg) rq w i" for i c
    using assms(2) [OF that] assms(1)
    by (auto simp: out_of_scope_def route_categories_def all_category_routes_def intro!: never_allowed_refuses)
  then show ?thesis using assms(1)
    by (auto simp: confirm_fact_def reject_fact_def dispute_fact_def intro!: refused_decision [OF quiet_runtime])
qed

lemma runtime_resolves: "resolves (runtime_vault env pg) rq w i \<longleftrightarrow> (\<exists>w1. resolveIdentity env rq w = (Inr i, w1))"
  by (simp add: resolves_def runtime_operations)

text \<open>C4: A request whose scope the policy allows its identity at no time is answered by an error and changes
  nothing in the database but the audit log, where the decision is recorded: on every vault route but the two
  that decide on an emergency request, for the process as it is put together (the routes, the resolver of
  sessions, the policy and the repository).\<close>

theorem refused_request_only_audited:
  assumes "r \<notin> {DecideEmergencyAccess, ReleaseEmergencyAccess}"
    and "\<And>i w1. resolveIdentity env rq w = (Inr i, w1) \<Longrightarrow> out_of_scope i r rq"
  shows "\<exists>e w'. vault_handler r (runtime_vault env pg) rq w = (Inl e, w') \<and> (aw_db w') \<lparr> audit := audit (aw_db w) \<rparr> = aw_db w"
proof -
  have scope: "out_of_scope i r rq" if "resolves (runtime_vault env pg) rq w i" for i
    using that assms(2) unfolding runtime_resolves by blast
  have "stops_at unaudited (vault_handler r (runtime_vault env pg) rq) w"
  proof (cases "r \<in> {ConfirmFact, RejectFact, DisputeFact}")
    case True with scope show ?thesis by (rule refused_fact_decision [rotated]) blast
  next
    case False
    with assms(1) obtain cs where cs: "route_categories r rq = Named cs"
      by (cases r) (auto simp: route_categories_def all_category_routes_def)
    have "route_refused (runtime_vault env pg) r rq w"
      unfolding route_refused_def scope_refused_def cs
      using scope never_allowed_refuses by (fastforce simp: out_of_scope_def cs)
    then show ?thesis by (rule refused_route_stops [OF quiet_runtime])
  qed
  then obtain e where e: "fst (vault_handler r (runtime_vault env pg) rq w) = Inl e"
    and same: "unaudited (snd (vault_handler r (runtime_vault env pg) rq w)) = unaudited w"
    by (auto simp: stops_at_def)
  have "d \<lparr> audit := audit d' \<rparr> = d'" if "d \<lparr> audit := [] \<rparr> = d' \<lparr> audit := [] \<rparr>" for d d' :: db
    using arg_cong [OF that, of "audit_update (\<lambda>_. audit d')"] by simp
  with e same show ?thesis unfolding unaudited_def by (metis prod.collapse)
qed

theorem refused_request_only_audited_witness:
  "\<exists>e w'. vault_handler GetRefunds (runtime_vault member_runtime id) member_request member_world = (Inl e, w')
     \<and> (aw_db w') \<lparr> audit := audit (aw_db member_world) \<rparr> = aw_db member_world"
proof (rule refused_request_only_audited)
  fix i w1 assume "resolveIdentity member_runtime member_request member_world = (Inr i, w1)"
  with member_resolves have "i = support_identity" by auto
  moreover have "never_allowed support_identity Approve ''vault.billing.refunds.read'' household_scope"
    by (auto simp: never_allowed_def scope_decision_def household_scope_def allRecordCategories_def identity_request_def
        support_identity_def authorize_allowed approval_live_def permits_def)
  ultimately show "out_of_scope i GetRefunds member_request"
    by (simp add: out_of_scope_def route_categories_def all_category_routes_def)
qed simp

section \<open>Keys of failed requests\<close>

definition key_free :: "tenant_context \<Rightarrow> string \<Rightarrow> db \<Rightarrow> bool" where
  "key_free ctx key d \<longleftrightarrow> \<not> list_ex (tenant_key ctx key) (idem d)"

lemma reserve_free:
  assumes "key_free ctx key (aw_db w)"
  obtains w1 where "vr_reserveIdempotency (runtime_repository env) ctx key shape w = (Inr (False, None), w1)"
    "aw_db w1 = (aw_db w) \<lparr> idem := idem (aw_db w) @ [\<lparr> row_org = tc_org ctx, row_hh = tc_hh ctx, k_key = key,
       k_hash = request_hash (re_sha256 env) shape, k_status = None, k_response = None,
       k_expires = re_now env (aw_ticks w) + 86400000 \<rparr>] \<rparr>"
  using assms that
  by (simp add: runtime_repository_def draw_def world_bind_def on_db_def reserveIdempotency_def withTenant_def
      transaction_def tenant_reserve_def key_free_def returning_def done_with_def pure_result_def)

lemma reserve_pending:
  assumes "key_free ctx key d"
    and "idem (aw_db w) = idem d @ [\<lparr> row_org = tc_org ctx, row_hh = tc_hh ctx, k_key = key,
       k_hash = request_hash (re_sha256 env) shape, k_status = None, k_response = None, k_expires = t \<rparr>]"
  shows "fst (vr_reserveIdempotency (runtime_repository env) ctx key shape w) = Inr (True, None)"
  using assms
  by (auto simp: runtime_repository_def draw_def world_bind_def on_db_def reserveIdempotency_def withTenant_def
      transaction_def tenant_reserve_def tenant_row_def key_free_def returning_def done_with_def pure_result_def
      tenant_key_def sql_select_def list_ex_iff filter_empty_conv split: list.splits)


definition missing_fact_confirmation :: "(nat api_world, json) api" where
  "missing_fact_confirmation = api_call (vr_confirmFact (runtime_repository member_runtime) (identity_context support_identity)
     ''f'' 1 0)"


end
