(* ===== verification/Telemetry_Safety.thy ===== *)
theory Telemetry_Safety
  imports Api_Server
begin

text \<open>
  What leaves the process as telemetry: metrics whose labels are content-free and whose number is
  bounded, and the requests that the hook of the server cannot measure.
\<close>

section \<open>Labels\<close>

definition content_free :: "string \<Rightarrow> bool" where
  "content_free v \<longleftrightarrow> re_test contentFreeLabelValue v \<and> \<not> re_test forbiddenValue v"

lemma assertContentFreeValue_eq:
  "assertContentFreeValue v field = (if content_free v then Inr () else Inl (js_error (field @ '' is not content-free'')))"
  by (simp add: assertContentFreeValue_def content_free_def)

lemma check_labels_Inr:
  "check_labels what prefix ls = Inr u \<longleftrightarrow> (\<forall>(k, v) \<in> set ls. k \<in> set labelKeys \<and> content_free v)"
proof (induction ls)
  case (Cons l ls)
  obtain k v where l: "l = (k, v)" by (cases l)
  show ?case using Cons unfolding l
    by (cases "content_free v") (simp_all add: assertContentFreeValue_eq)
qed simp

lemma set_sorted_labels [simp]: "set (sorted_labels collate ls) = set ls"
  by (simp add: sorted_labels_def)

section \<open>The registry\<close>

definition content_free_point :: "metric_point \<Rightarrow> bool" where
  "content_free_point p \<longleftrightarrow> mp_name p \<in> set metricNames \<and> 0 \<le> mp_value p
     \<and> (\<forall>(k, v) \<in> set (mp_labels p). k \<in> set labelKeys \<and> content_free v)"

definition registry_ok :: "metric_registry \<Rightarrow> bool" where
  "registry_ok r \<longleftrightarrow> length (mr_points r) \<le> mr_limit r \<and> mr_limit r \<le> 100000 \<and> list_all content_free_point (mr_points r)"

lemma metric_record_cases:
  obtains e where "metric_record collate now name v labels r = (Inl e, r)"
  | "name \<in> set metricNames" "0 \<le> v" "\<forall>(k, v) \<in> set labels. k \<in> set labelKeys \<and> content_free v"
    "snd (metric_record collate now name v labels r) = (let points = mr_points r @ [\<lparr> mp_name = name, mp_value = v,
        mp_labels = sorted_labels collate labels, mp_observed = now \<rparr>] in
      r \<lparr> mr_points := (if mr_limit r < length points then tl points else points) \<rparr>)"
proof (cases "name \<in> set metricNames \<and> 0 \<le> v")
  case nv: True
  show thesis
  proof (cases "check_labels ''metric label'' ''metric label '' (sorted_labels collate labels)")
    case (Inl e) with nv that(1) show thesis by (simp add: metric_record_def)
  next
    case (Inr u)
    then have "\<forall>(k, v) \<in> set labels. k \<in> set labelKeys \<and> content_free v" by (simp add: check_labels_Inr)
    with nv Inr that(2) show thesis by (simp add: metric_record_def Let_def)
  qed
next
  case False
  then have "\<exists>e. metric_record collate now name v labels r = (Inl e, r)" by (auto simp: metric_record_def)
  with that(1) show thesis by blast
qed

lemma metric_record_ok:
  assumes "registry_ok r" shows "registry_ok (snd (metric_record collate now name v labels r))"
proof (cases rule: metric_record_cases [of collate now name v labels r])
  case (1 e) with assms show ?thesis by simp
next
  case 2
  have tail: "list_all P (tl xs)" if "list_all P xs" for P and xs :: "metric_point list"
    using that by (cases xs) simp_all
  show ?thesis using assms 2(1-3) unfolding 2(4)
    by (auto simp: registry_ok_def content_free_point_def Let_def intro!: tail)
qed

text \<open>A recording: the clock, the name, the value and the labels.\<close>

fun record_all :: "(string \<Rightarrow> 'k::linorder) \<Rightarrow> (int \<times> string \<times> rat \<times> (string \<times> string) list) list \<Rightarrow> metric_registry
   \<Rightarrow> metric_registry" where
  "record_all collate [] r = r"
| "record_all collate ((now, name, v, labels) # ms) r = record_all collate ms (snd (metric_record collate now name v labels r))"

text \<open>C37: Whatever is recorded, the metric registry holds at most its limit of points (and never more than
  100000), each with an allowed name, a value that is not negative and labels of allowed keys whose values
  are short lower case words without a token, a card or social security number or a mail address.\<close>

theorem metrics_content_free:
  assumes "new_registry limit = Inr r"
  shows "registry_ok (record_all collate ms r)"
proof -
  have "registry_ok r" using assms by (auto simp: new_registry_def registry_ok_def split: if_splits)
  then show ?thesis
    by (induction ms arbitrary: r) (auto simp: metric_record_ok)
qed

theorem metrics_content_free_witness:
  "registry_ok (record_all id [(5, ''legacy_http_requests_total'', 1, [(''route'', ''/v1/facts'')]), (6, ''secret'', 2, [])]
     \<lparr> mr_limit = 10, mr_points = [] \<rparr>)"
  by (rule metrics_content_free [where limit = 10]) (simp add: new_registry_def is_safe_integer_def Vault_Prelude.max_safe_integer_def)

section \<open>Requests that are not measured\<close>

lemma content_free_chars: "content_free v \<Longrightarrow> list_all tail_char v"
  unfolding content_free_def contentFreeLabelValue_def
  by (elim conjE, erule re_test_whole_chars) (auto simp: tail_char_def cor_def one_of_def)

lemma deletion_route_labels:
  "r \<in> {ConfirmDeletion, CancelDeletion} \<Longrightarrow> \<not> content_free (snd (route_url (VaultRoute r)))"
  by (auto dest!: content_free_chars simp: tail_char_def lower_alnum_def cor_def crange_def one_of_def)

text \<open>The hook of the response fails for the two routes that confirm and cancel a deletion, whatever the
  request and its reply: their URL pattern has a capital letter, which no label may have, so these requests
  are neither counted nor logged.\<close>

theorem deletion_requests_unmeasured:
  assumes "r \<in> {ConfirmDeletion, CancelDeletion}"
  shows "\<exists>e w'. on_response env node (route_url (VaultRoute r)) rq started status w = (Inl e, w') \<and> aw_metrics w' = aw_metrics w"
proof -
  have "\<exists>e. metric_record (re_collate env) now name v (request_labels node (route_url (VaultRoute r)) status) m = (Inl e, m)"
    for now name v m
    using deletion_route_labels [OF assms]
    by (rule_tac metric_record_cases [of "re_collate env" now name v "request_labels node (route_url (VaultRoute r)) status" m])
      (blast, auto simp: request_labels_def)
  then obtain e where "metric_record (re_collate env) (re_now env (Suc (aw_ticks w))) ''legacy_http_request_duration_ms''
      (of_int (max 0 (re_perf env (aw_ticks w) - started))) (request_labels node (route_url (VaultRoute r)) status) (aw_metrics w)
    = (Inl e, aw_metrics w)" by blast
  then show ?thesis
    by (simp add: on_response_def record_metric_def world_bind_def draw_def on_metrics_def Let_def del: route_url.simps)
qed

theorem deletion_requests_unmeasured_witness:
  "\<exists>e w'. on_response sample_runtime ''production'' (route_url (VaultRoute ConfirmDeletion)) sample_request 0 202
     (sample_world empty_db) = (Inl e, w') \<and> aw_metrics w' = aw_metrics (sample_world empty_db)"
  by (rule deletion_requests_unmeasured) simp

end
