(* ===== verification/Worker_Runtime.thy ===== *)
theory Worker_Runtime
  imports Document_Lifecycle Export_Worker Privacy_Worker Api_Server
begin

text \<open>
  The worker process (\<open>apps/worker/src/index.ts\<close>): the configuration \<open>main\<close> accepts, the defaults of
  the queue, and the dispatch of a job to its handler.  The queue itself is not modelled: a run of a
  job is a call of \<open>run_job\<close>.
\<close>

section \<open>Configuration\<close>

definition worker_required :: "string list" where
  "worker_required = [''DATABASE_URL'', ''REDIS_URL'', ''APP_ENCRYPTION_KEK'', ''EXPORT_SIGNING_KEY'', ''APP_BASE_URL'', ''EMAIL_FROM'',
     ''R2_ACCESS_KEY_ID'', ''R2_SECRET_ACCESS_KEY'', ''R2_BUCKET'', ''R2_ENDPOINT'']"

definition number_unset :: "environment \<Rightarrow> string \<Rightarrow> bool" where
  "number_unset e name \<longleftrightarrow> ev_numbers e name \<in> {None, Some 0}"

datatype ocr_adapter = DockerOcr string string | LocalOcr string string

record worker_config =
  kc_kek :: string
  kc_clamav_host :: string
  kc_clamav_port :: int
  kc_ocr :: ocr_adapter
  kc_namespace :: string
  kc_backup_days :: int
  kc_email :: "(string \<times> string) + email_config"
  kc_app_base :: string
  kc_signing_key :: string
  kc_queue :: string

text \<open>The address between angle brackets, the whole text, or a fixed one for the capture server.\<close>

definition ocr_of :: "environment \<Rightarrow> ocr_adapter" where
  "ocr_of e = (if ev_local e
     then DockerOcr ''docker'' ''jbarlow83/ocrmypdf:v17.8.1@sha256:0563a68359fe4e68022974103794a69d5d37270686f99c9030a7667ebbb639d4''
     else LocalOcr (text_of e ''OCR_EXECUTABLE'') (text_of e ''OCR_PYTHON_EXECUTABLE''))"

text \<open>\<open>bucket\<close> is what making sure of the bucket gives.\<close>

definition configure_worker ::
  "endpoint_parser \<Rightarrow> (string \<Rightarrow> string) \<Rightarrow> unit result \<Rightarrow> environment \<Rightarrow> worker_config result" where
  "configure_worker urls sha256 bucket e =
     (let kek = base64_bytes (text_of e ''APP_ENCRYPTION_KEK'');
          namespace = aiExactCacheNamespace sha256 (ev_node e) (ev_queue e) in
     if list_ex (unset e) worker_required then Inl (js_error ''worker runtime configuration is incomplete'')
     else res_bind (guard (length kek = 32) (js_error ''application encryption KEK is invalid'')) (\<lambda>_.
     res_bind bucket (\<lambda>_.
     res_bind (guard (ev_local e \<or> \<not> (unset e ''CLAMAV_HOST'' \<or> number_unset e ''CLAMAV_PORT''))
       (js_error ''production ClamAV configuration is incomplete'')) (\<lambda>_.
     res_bind (guard (ev_local e \<or> \<not> (unset e ''OCR_EXECUTABLE'' \<or> unset e ''OCR_PYTHON_EXECUTABLE''))
       (js_error ''production OCR runtime is not configured'')) (\<lambda>_.
     res_bind (cache_checks urls (text_of e ''REDIS_URL'') namespace (ev_node e = ''production'')) (\<lambda>_.
     Inr \<lparr> kc_kek = kek,
       kc_clamav_host = (case ev_texts e ''CLAMAV_HOST'' of Some h \<Rightarrow> h | None \<Rightarrow> if ev_local e then ''127.0.0.1'' else []),
       kc_clamav_port = (case ev_numbers e ''CLAMAV_PORT'' of Some n \<Rightarrow> n | None \<Rightarrow> if ev_local e then 13310 else 0),
       kc_ocr = ocr_of e, kc_namespace = namespace,
       kc_backup_days = (case ev_numbers e ''BACKUP_RETENTION_DAYS'' of Some n \<Rightarrow> n | None \<Rightarrow> 35),
       kc_email = email_of e, kc_app_base = text_of e ''APP_BASE_URL'', kc_signing_key = text_of e ''EXPORT_SIGNING_KEY'',
       kc_queue = ev_queue e \<rparr>))))))"

section \<open>The queue's defaults\<close>

record queue_defaults =
  qd_attempts :: nat
  qd_backoff :: "string \<times> nat"
  qd_keep_completed :: "nat \<times> nat"
  qd_keep_failed :: "nat \<times> nat"

definition createWorkflowQueue :: queue_defaults where
  "createWorkflowQueue = \<lparr> qd_attempts = 3, qd_backoff = (''exponential'', 500), qd_keep_completed = (86400, 1000),
     qd_keep_failed = (604800, 5000) \<rparr>"

section \<open>Running a job\<close>

record job_data =
  jd_workflow :: string
  jd_context :: tenant_context

type_synonym 'x job_handler = "job_data \<Rightarrow> db \<Rightarrow> 'x \<Rightarrow> unit result \<times> db \<times> 'x"

text \<open>A document is scanned and then, in the same job, recognized.\<close>

definition document_process :: "'x job_handler \<Rightarrow> 'x job_handler \<Rightarrow> 'x job_handler" where
  "document_process scan recognize j d x = (case scan j d x of
       (Inl e, d1, x1) \<Rightarrow> (Inl e, d1, x1)
     | (Inr _, d1, x1) \<Rightarrow> recognize j d1 x1)"

record 'x worker_handlers =
  wh_scan :: "'x job_handler"
  wh_recognize :: "'x job_handler"
  wh_export :: "'x job_handler"
  wh_delete :: "'x job_handler"
  wh_report :: "'x job_handler"
  wh_notify :: "'x job_handler"

definition worker_handlers_of :: "'x worker_handlers \<Rightarrow> string \<Rightarrow> 'x job_handler option" where
  "worker_handlers_of h name =
     (if name = ''document-process'' then Some (document_process (wh_scan h) (wh_recognize h))
      else if name = ''privacy-export'' then Some (wh_export h)
      else if name = ''privacy-delete'' then Some (wh_delete h)
      else if name = ''report-generate'' \<or> name = ''annual-review'' then Some (wh_report h)
      else if name = ''notification-send'' then Some (wh_notify h)
      else None)"

definition run_job :: "'x worker_handlers \<Rightarrow> string \<Rightarrow> 'x job_handler" where
  "run_job h name j d x = (case worker_handlers_of h name of
       None \<Rightarrow> (Inl (js_error (''workflow handler unavailable: '' @ name)), d, x)
     | Some f \<Rightarrow> f j d x)"

text \<open>The line that the failure of a job leaves on the error output.\<close>

definition failure_line :: "(string \<times> job_data) option \<Rightarrow> err \<Rightarrow> string" where
  "failure_line job e = json_stringify (JObj [(''service'', JStr ''worker''),
     (''action'', JStr (case job of Some (name, _) \<Rightarrow> name | None \<Rightarrow> ''unknown'')), (''outcome'', JStr ''failed''),
     (''error_class'', JStr (err_name e)),
     (''workflow_id'', JStr (case job of Some (_, j) \<Rightarrow> jd_workflow j | None \<Rightarrow> ''unknown''))]) @ [CHR 10]"

section \<open>The process\<close>

text \<open>
  What the handlers use of the platform; \<open>p_inputs\<close> gives the fresh values of the run of a handler and
  \<open>p_origin\<close> the origin of a URL.
\<close>

record ('x, 'k, 'l) worker_platform =
  p_aead :: aead
  p_sha256 :: "string \<Rightarrow> string"
  p_inputs :: "string \<Rightarrow> run_inputs"
  p_origin :: "string \<Rightarrow> string"
  p_scan :: "'x scan_world"
  p_ocr :: "'x ocr_world"
  p_export_host :: "'k export_host"
  p_export :: "'x export_world"
  p_rewrap_iv :: string
  p_codec :: jsonb_codec
  p_collate :: "string \<Rightarrow> 'k"
  p_locale :: "string \<Rightarrow> 'l"
  p_purge :: "string \<Rightarrow> ('x, unit) world_op"
  p_scope_key :: "string \<Rightarrow> string \<Rightarrow> string"
  p_db_now :: int
  p_now :: int
  p_ids :: "string list"
  p_enqueue :: "job_data \<Rightarrow> 'x \<Rightarrow> unit result \<times> 'x"
  p_verified_email :: "string \<Rightarrow> string option"
  p_send :: "email_message \<Rightarrow> 'x \<Rightarrow> string result \<times> 'x"
  p_fresh_id :: string

definition worker_of :: "('x, 'k::linorder, 'l::linorder) worker_platform \<Rightarrow> worker_config \<Rightarrow> 'x worker_handlers" where
  "worker_of p c = \<lparr>
     wh_scan = (\<lambda>j. scan_handler (p_aead p) (p_sha256 p) (kc_kek c) (p_scan p) (p_inputs p ''scan'') (jd_context j) (jd_workflow j)),
     wh_recognize = (\<lambda>j. ocr_handler (p_aead p) (p_sha256 p) (kc_kek c) (p_ocr p) (p_inputs p ''ocr'') (jd_context j) (jd_workflow j)),
     wh_export = (\<lambda>j d x. createPortableExportWorkflowHandler (p_export_host p) (p_export p) (kc_kek c) (kc_signing_key c)
       (p_rewrap_iv p) (p_inputs p ''export'') (jd_context j) (jd_workflow j) d x (p_codec p)),
     wh_delete = (\<lambda>j d x. case createPrivacyDeletionWorkflowHandler (p_collate p) (p_purge p) (p_scope_key p)
         (kc_backup_days c) (p_db_now p) (p_now p) (p_ids p) (jd_context j) (jd_workflow j) d x of
         (r, d', x') \<Rightarrow> (res_bind r (\<lambda>_. Inr ()), d', x')),
     wh_report = (\<lambda>j. report_handler (p_collate p) (p_locale p) (p_aead p) (kc_kek c) (p_enqueue p j) (p_inputs p ''report'')
       (jd_context j) (jd_workflow j)),
     wh_notify = (\<lambda>j. notification_handler (p_verified_email p) (p_origin p (kc_app_base c)) (p_send p) (jd_context j) (p_fresh_id p)
       (p_now p) (jd_workflow j)) \<rparr>"

end
