(* ===== verification/Job_Isolation.thy ===== *)
theory Job_Isolation
  imports Worker_Runtime Tenant_Isolation
begin

text \<open>
  Tenant isolation of the worker: a job changes no row of another tenant than the household its data
  name, whichever handler runs it and however it ends.
\<close>

section \<open>Operations of the repository\<close>

lemma job_reads [isolated]:
  "keeps_others ctx (getDocumentProcessingInput ctx w)"
  "keeps_others ctx (getPortableExportBuildInput c ctx w)"
  "keeps_others ctx (getPrivacyDeletionInput collate ctx now w)"
  "keeps_others ctx (getReportBuildInput collate ctx w)"
  unfolding getDocumentProcessingInput_def getPortableExportBuildInput_def getPrivacyDeletionInput_def getReportBuildInput_def
  by (auto intro!: keeps_read simp: Let_def split: list.splits if_splits)

lemmas document_sets = scanned_set_def scan_workflow_set_def scan_failed_set_def failure_set_def ocr_workflow_set_def
  original_deleted_set_def deletion_workflow_set_def

lemma isolated_processing [isolated]:
  "keeps_others ctx (completeDocumentScan ctx i w dv wv outcome t)"
  "keeps_others ctx (recordDocumentScanFailure ctx i w e)"
  "keeps_others ctx (completeDocumentOcr ctx i w wv di key sha kv t)"
  "keeps_others ctx (completeDocumentOriginalDeletion ctx i w t)"
proof -
  show "keeps_others ctx (completeDocumentScan ctx i w dv wv outcome t)"
    unfolding completeDocumentScan_def
    by (rule keeps_withTenant) (auto simp: document_sets split: if_splits prod.splits
        dest!: update_documents_foreign update_workflows_foreign)
  show "keeps_others ctx (recordDocumentScanFailure ctx i w e)"
    unfolding recordDocumentScanFailure_def
    by (rule keeps_withTenant) (auto simp: document_sets split: prod.splits dest!: update_documents_foreign)
  show "keeps_others ctx (completeDocumentOcr ctx i w wv di key sha kv t)"
    unfolding completeDocumentOcr_def
    by (rule keeps_withTenant) (auto simp: document_sets insert_derivative_def split: if_splits prod.splits
        dest!: update_workflows_foreign derivatives_t.insert_returning_foreign)
  show "keeps_others ctx (completeDocumentOriginalDeletion ctx i w t)"
    unfolding completeDocumentOriginalDeletion_def
    by (rule keeps_withTenant) (auto simp: document_sets Let_def split: if_splits prod.splits dest!: update_documents_foreign)
qed

lemma isolated_completions [isolated]:
  "keeps_others ctx (completePortableExport ctx x w key sha signer t)"
  "keeps_others ctx (completeReport ctx r w g payload kv)"
  "keeps_others ctx (completeNotificationDelivery ctx n m t)"
  "keeps_others ctx (recordNotificationDeliveryFailure ctx n e)"
  unfolding completePortableExport_def completeReport_def completeNotificationDelivery_def recordNotificationDeliveryFailure_def
  by (auto intro!: keeps_withTenant simp: Let_def complete_export_set_def finish_export_workflow_def complete_report_set_def
      finish_report_workflow_def delivery_sent_set_def delivery_failed_set_def split: if_splits)

lemma isolated_reservation [isolated]: "keeps_others ctx (getNotificationDeliveryInput v ctx i now w)"
  unfolding getNotificationDeliveryInput_def
  by (rule keeps_withTenant) (auto simp: reserve_delivery_def split: list.splits prod.splits sum.splits if_splits
      dest!: deliveries_t.insert_returning_foreign)

lemma insert_processors_foreign:
  "insert_processors ctx w t ps s d = Inr (u, d') \<Longrightarrow> foreign s d' = foreign s d"
  by (induction ctx w t ps s d arbitrary: u d' rule: insert_processors.induct)
    (auto split: if_splits prod.splits dest!: processors_t.insert_returning_foreign)

lemma isolated_deletion [isolated]:
  "keeps_others ctx (completePrivacyDeletionActiveSystem collate ctx ids e version completed days)"
proof -
  have blocked: "foreign s (block_on_hold e hs s d) = foreign s d" for e hs s d
    by (simp add: block_on_hold_def)
  have deleted: "foreign s (delete_person e t s d) = foreign s d" for e t s d
    by (simp add: delete_person_def revoke_access_def)
  have review: "foreign s (await_review e t b s d) = foreign s d" for e t b s d
    by (simp add: await_review_def)
  have "foreign s d' = foreign s d" if "run_deletion ctx ids e t days s d = Inr (v, d')" for e t s d v d'
    using that unfolding run_deletion_def
    by (auto simp: review deleted split: prod.splits option.splits dest!: insert_processors_foreign)
  then show ?thesis unfolding completePrivacyDeletionActiveSystem_def
    by (intro keeps_withTenant) (auto simp: blocked Let_def split: list.splits if_splits option.splits)
qed

section \<open>Handlers\<close>

lemma keepsD: "keeps f m \<Longrightarrow> m w = (r, w') \<Longrightarrow> f w' = f w"
  unfolding keeps_def by (metis snd_conv)

lemmas job_frames = job_reads [THEN keepsD] isolated_processing [THEN keepsD] isolated_completions [THEN keepsD]
  isolated_reservation [THEN keepsD] isolated_deletion [THEN keepsD] isolated_keys [THEN keepsD]

text \<open>The rows of the other tenants after a run of a handler.\<close>

abbreviation leaves_others :: "tenant_context \<Rightarrow> (db \<Rightarrow> 'x \<Rightarrow> 'r \<times> db \<times> 'x) \<Rightarrow> bool" where
  "leaves_others ctx h \<equiv> (\<forall>d x. foreign (tenant_session ctx) (fst (snd (h d x))) = foreign (tenant_session ctx) d)"

lemma record_failure_foreign:
  "foreign (tenant_session ctx) (fst (snd (record_failure ctx p (r, d, x)))) = foreign (tenant_session ctx) d"
  by (auto simp: record_failure_def split: sum.splits prod.splits dest!: job_frames)

lemma recorded_failure_foreign:
  "foreign (tenant_session ctx) (fst (snd out)) = v
    \<Longrightarrow> foreign (tenant_session ctx) (fst (snd (record_failure ctx p out))) = v"
  using record_failure_foreign by (metis prod.collapse)

lemma isolated_scan: "leaves_others ctx (scan_handler a sha256 kek sw ri ctx w)"
proof (intro allI)
  fix d x
  have "foreign (tenant_session ctx) (fst (snd (scan_attempt a sha256 kek sw ri ctx p d1 x))) = foreign (tenant_session ctx) d1" for p d1
    by (auto simp: scan_attempt_def split: sum.splits prod.splits dest!: job_frames)
  then show "foreign (tenant_session ctx) (fst (snd (scan_handler a sha256 kek sw ri ctx w d x))) = foreign (tenant_session ctx) d"
    by (auto simp: scan_handler_def recorded_failure_foreign split: sum.splits prod.splits dest!: job_frames)
qed

lemma isolated_ocr: "leaves_others ctx (ocr_handler a sha256 kek ow ri ctx w)"
proof (intro allI)
  fix d x
  have "foreign (tenant_session ctx) (fst (snd (ocr_attempt a sha256 kek ow ri ctx p d1 x))) = foreign (tenant_session ctx) d1" for p d1
    by (auto simp: ocr_attempt_def delete_original_def split: sum.splits prod.splits dest!: job_frames)
  then show "foreign (tenant_session ctx) (fst (snd (ocr_handler a sha256 kek ow ri ctx w d x))) = foreign (tenant_session ctx) d"
    by (auto simp: ocr_handler_def recorded_failure_foreign split: sum.splits prod.splits dest!: job_frames)
qed

lemma isolated_export: "leaves_others ctx (\<lambda>d x. createPortableExportWorkflowHandler h ew kek signing iv ri ctx w d x c)"
  by (auto simp: createPortableExportWorkflowHandler_def export_run_def split: sum.splits prod.splits dest!: job_frames)

lemma isolated_removal: "leaves_others ctx (createPrivacyDeletionWorkflowHandler collate purge scope days db_now now ids ctx w)"
  by (auto simp: createPrivacyDeletionWorkflowHandler_def split: sum.splits prod.splits dest!: job_frames)

lemma isolated_report: "leaves_others ctx (report_handler collate locale a kek enqueue ri ctx w)"
  by (auto simp: report_handler_def split: sum.splits prod.splits dest!: job_frames)

lemma isolated_notification: "leaves_others ctx (notification_handler v origin deliver_mail ctx i now w)"
  by (auto simp: notification_handler_def split: sum.splits prod.splits option.splits dest!: job_frames)

lemma isolated_document_process:
  assumes "leaves_others ctx (scan j)" "leaves_others ctx (recognize j)"
  shows "leaves_others ctx (document_process scan recognize j)"
proof (intro allI)
  fix d x
  obtain r d1 x1 where run: "scan j d x = (r, d1, x1)" using prod_cases3 by blast
  with assms(1) have 1: "foreign (tenant_session ctx) d1 = foreign (tenant_session ctx) d" by (metis fst_conv snd_conv)
  with run assms(2) show "foreign (tenant_session ctx) (fst (snd (document_process scan recognize j d x))) = foreign (tenant_session ctx) d"
    by (cases r) (simp_all add: document_process_def)
qed

text \<open>C2: A job of the worker changes no row of another tenant than the household its data name, in any table of the
  database: for every job name, the handlers as the process puts them together (scan and OCR, export, deletion,
  report, notification), any services, and however the run ends.\<close>

theorem jobs_stay_in_household:
  "foreign (tenant_session (jd_context j)) (fst (snd (run_job (worker_of p c) name j d x)))
    = foreign (tenant_session (jd_context j)) d"
proof -
  let ?f = "foreign (tenant_session (jd_context j))"
  have "leaves_others (jd_context j) (document_process (wh_scan (worker_of p c)) (wh_recognize (worker_of p c)) j)"
    by (rule isolated_document_process) (simp_all add: worker_of_def isolated_scan [rule_format] isolated_ocr [rule_format])
  then have process: "?f (fst (snd (document_process (wh_scan (worker_of p c)) (wh_recognize (worker_of p c)) j d x))) = ?f d"
    by blast
  have others: "?f (fst (snd (wh_export (worker_of p c) j d x))) = ?f d" "?f (fst (snd (wh_delete (worker_of p c) j d x))) = ?f d"
    "?f (fst (snd (wh_report (worker_of p c) j d x))) = ?f d" "?f (fst (snd (wh_notify (worker_of p c) j d x))) = ?f d"
    using isolated_export [rule_format] isolated_removal [rule_format] isolated_report [rule_format] isolated_notification [rule_format]
    by (simp_all add: worker_of_def case_prod_beta)
  from process others show ?thesis by (simp add: run_job_def worker_handlers_of_def)
qed

end
