(* ===== verification/Web_Upload.thy ===== *)
theory Web_Upload
  imports Document_Worker Api_Request Stripe_Adapter
begin

text \<open>
  The upload route of the web server (\<open>apps/web/app/api/documents/upload/route.ts\<close>): it takes a
  document from a form, starts the upload at the API, seals the bytes under the data key the API
  returned, puts the sealed bytes into the object store and completes the upload.  An \<open>UpstreamProblem\<close>
  is a \<open>Problem\<close> without a title.  A member of an answer of the API that does not have the type the
  code declares for it is a \<open>TypeError\<close> here.
\<close>

section \<open>Calling the API\<close>

record web_call =
  wc_base :: string
  wc_path :: string
  wc_method :: string
  wc_headers :: "string \<rightharpoonup> string"
  wc_body :: "json option"

record web_put =
  wp_url :: string
  wp_headers :: "(string \<times> string) list"
  wp_body :: string

text \<open>The web server: its variables, its clock-free sources of identifiers, and its services.\<close>

record 'x web_server =
  wb_api_base :: "string option"
  wb_production :: bool
  wb_urls :: url_parser
  wb_fetch :: "web_call \<Rightarrow> ('x, http_response) world_op"
  wb_put :: "web_put \<Rightarrow> ('x, int) world_op"
  wb_uuid :: "nat \<Rightarrow> string"
  wb_iv :: string
  wb_aead :: aead
  wb_sha256 :: "string \<Rightarrow> string"

record web_file =
  wf_bytes :: string
  wf_type :: string

datatype form_value = FormFile web_file | FormText string

text \<open>A request: \<open>headers.get\<close>, the origin of its URL, and what \<open>formData()\<close> gives or throws.\<close>

record upload_request =
  wu_header :: "string \<Rightarrow> string option"
  wu_origin :: string
  wu_form :: "(string \<times> form_value) list result"

abbreviation upstream :: "int \<Rightarrow> string \<Rightarrow> api_error" where
  "upstream status message \<equiv> Problem status [] message"

definition apiBase :: "'x web_server \<Rightarrow> url_parts result" where
  "apiBase s = (case configured (wb_api_base s) of
       None \<Rightarrow> Inl (js_error ''API_BASE_URL is not configured'')
     | Some t \<Rightarrow> res_bind (parse_url (wb_urls s) t) (\<lambda>u.
         if wb_production s \<and> up_protocol u \<noteq> ''https:'' then Inl (js_error ''API_BASE_URL must use HTTPS in production'')
         else Inr u))"

definition forwarded :: "string list \<Rightarrow> (string \<Rightarrow> string option) \<Rightarrow> string \<rightharpoonup> string" where
  "forwarded names headers n = (if n \<in> set names then configured (headers n) else None)"

definition call_headers :: "(string \<Rightarrow> string option) \<Rightarrow> (string \<times> string) list \<Rightarrow> json option \<Rightarrow> string \<rightharpoonup> string" where
  "call_headers headers init body =
     (let hs = (map_of init ++ forwarded [''cookie'', ''x-household-id'', ''x-request-id''] headers)(''accept'' \<mapsto> ''application/json'') in
     if body = None then hs else hs(''content-type'' \<mapsto> ''application/json''))"

text \<open>\<open>String(value)\<close>, which the message of an error goes through.\<close>

fun js_string :: "json \<Rightarrow> string" where
  "js_string JNull = ''null''"
| "js_string (JBool b) = (if b then ''true'' else ''false'')"
| "js_string (JNum n) = dec_int n"
| "js_string (JStr s) = s"
| "js_string (JObj _) = ''[object Object]''"
| "js_string (JArr vs) = join '','' (map (\<lambda>v. if v = JNull then [] else js_string v) vs)"

definition rejection_detail :: "json \<Rightarrow> string" where
  "rejection_detail payload = (case jfield payload ''detail'' of
       None \<Rightarrow> ''The API rejected the upload request.''
     | Some v \<Rightarrow> if v = JNull then ''The API rejected the upload request.'' else js_string v)"

definition apiJson ::
  "'x web_server \<Rightarrow> upload_request \<Rightarrow> string \<Rightarrow> string \<Rightarrow> (string \<times> string) list \<Rightarrow> json option \<Rightarrow> ('x, json) api" where
  "apiJson s rq path http_method init body =
     api_bind (api_call (pure_result (apiBase s))) (\<lambda>base.
     api_bind (api_call (wb_fetch s \<lparr> wc_base = up_href base, wc_path = path, wc_method = http_method,
       wc_headers = call_headers (wu_header rq) init body, wc_body = body \<rparr>)) (\<lambda>response.
     api_bind (api_call (pure_result (hr_json response))) (\<lambda>payload.
     if 200 \<le> hr_status response \<and> hr_status response \<le> 299 then api_return payload
     else if payload = JNull then api_fail (Raised (Thrown ''TypeError'' ''detail of null''))
     else api_fail (upstream (hr_status response) (rejection_detail payload)))))"

section \<open>The request\<close>

definition origin_ok :: "upload_request \<Rightarrow> bool" where
  "origin_ok rq = (case configured (wu_header rq ''origin'') of None \<Rightarrow> True | Some origin \<Rightarrow> origin = wu_origin rq)"

text \<open>\<open>Number(null)\<close> is 0; a length that is not finite is not compared.\<close>

definition length_ok :: "upload_request \<Rightarrow> bool" where
  "length_ok rq = (case wu_header rq ''content-length'' of None \<Rightarrow> True
     | Some t \<Rightarrow> (case number_of_text t of None \<Rightarrow> True | Some n \<Rightarrow> n \<le> of_int (101 * 1024 * 1024)))"

definition upload_types :: "string list" where
  "upload_types = [''application/pdf'', ''image/jpeg'', ''image/png'', ''image/tiff'']"

definition form_document :: "(string \<times> form_value) list \<Rightarrow> api_error + web_file" where
  "form_document form = (case map_of form ''document'' of
       Some (FormFile f) \<Rightarrow>
         if wf_bytes f = [] then Inl (upstream 400 ''Choose a document to upload.'')
         else if length (wf_bytes f) > 100 * 1024 * 1024 then Inl (upstream 413 ''Documents must be 100 MB or smaller.'')
         else if wf_type f \<notin> set upload_types then Inl (upstream 415 ''Use a PDF, JPEG, PNG, or TIFF document.'')
         else if map_of form ''documentConsent'' = None then Inl (upstream 400 ''Document processing consent is required.'')
         else Inr f
     | _ \<Rightarrow> Inl (upstream 400 ''Choose a document to upload.''))"

definition form_retention :: "(string \<times> form_value) list \<Rightarrow> api_error + string" where
  "form_retention form = (case map_of form ''retention'' of
       Some (FormText t) \<Rightarrow> if t \<in> {''keep'', ''delete''} then Inr t
         else Inl (upstream 400 ''Choose an original retention option.'')
     | _ \<Rightarrow> Inl (upstream 400 ''Choose an original retention option.''))"

section \<open>Reading the answers\<close>

definition not_typed :: api_error where
  "not_typed = Raised (Thrown ''TypeError'' ''unexpected answer'')"

definition answer_text :: "json \<Rightarrow> string \<Rightarrow> api_error + string" where
  "answer_text v name = (case jfield v name of Some (JStr t) \<Rightarrow> Inr t | _ \<Rightarrow> Inl not_typed)"

definition answer_int :: "json \<Rightarrow> string \<Rightarrow> api_error + int" where
  "answer_int v name = (case jfield v name of Some (JNum n) \<Rightarrow> Inr n | _ \<Rightarrow> Inl not_typed)"

definition answer_object :: "json \<Rightarrow> string \<Rightarrow> api_error + json" where
  "answer_object v name = (case jfield v name of Some (JObj kvs) \<Rightarrow> Inr (JObj kvs) | _ \<Rightarrow> Inl not_typed)"

definition active_organization :: "string \<Rightarrow> json \<Rightarrow> api_error + string" where
  "active_organization household v = (case jfield v ''households'' of
       Some (JArr items) \<Rightarrow> (case find (\<lambda>item. item = JNull \<or> jfield item ''id'' = Some (JStr household)) items of
           None \<Rightarrow> Inl (upstream 403 ''The active household is unavailable.'')
         | Some item \<Rightarrow> answer_text item ''organizationId'')
     | _ \<Rightarrow> Inl not_typed)"

record started_upload =
  su_id :: string
  su_version :: int
  su_key :: string
  su_key_version :: int
  su_purpose :: string

definition sum_bind :: "'e + 'a \<Rightarrow> ('a \<Rightarrow> 'e + 'b) \<Rightarrow> 'e + 'b" where
  "sum_bind r f = (case r of Inl e \<Rightarrow> Inl e | Inr a \<Rightarrow> f a)"

definition read_started :: "json \<Rightarrow> api_error + started_upload" where
  "read_started v = sum_bind (answer_object v ''document'') (\<lambda>document.
     sum_bind (answer_object v ''encryption'') (\<lambda>encryption.
     sum_bind (answer_text document ''id'') (\<lambda>document_id.
     sum_bind (answer_int document ''version'') (\<lambda>version.
     sum_bind (answer_text encryption ''keyBase64'') (\<lambda>key.
     sum_bind (answer_int encryption ''keyVersion'') (\<lambda>key_version.
     sum_bind (answer_text encryption ''purpose'') (\<lambda>purpose.
     Inr \<lparr> su_id = document_id, su_version = version, su_key = base64_bytes key, su_key_version = key_version,
       su_purpose = purpose \<rparr>)))))))"

section \<open>The upload\<close>

definition start_body :: "'x web_server \<Rightarrow> web_file \<Rightarrow> string \<Rightarrow> json" where
  "start_body s f retention = JObj [(''originalSha256'', JStr (hex_text (wb_sha256 s (wf_bytes f)))),
     (''mediaType'', JStr (wf_type f)), (''maximumBytes'', JNum (int (length (wf_bytes f)))),
     (''documentConsentPolicyVersion'', JStr ''document-processing-v1''),
     (''deleteOriginalAfterProcessing'', JBool (retention = ''delete''))]"

definition start_headers :: "'x web_server \<Rightarrow> (string \<times> string) list" where
  "start_headers s = [(''idempotency-key'', ''web-document-start-'' @ wb_uuid s 1), (''if-match'', ''0'')]"

definition upload_context :: "string \<Rightarrow> string \<Rightarrow> started_upload \<Rightarrow> encryption_context" where
  "upload_context org hh u = \<lparr> ec_org = org, ec_hh = hh, ec_record = su_id u, ec_purpose = su_purpose u,
     ec_version = su_key_version u \<rparr>"

definition seal_upload :: "'x web_server \<Rightarrow> string \<Rightarrow> string \<Rightarrow> started_upload \<Rightarrow> string \<Rightarrow> string result" where
  "seal_upload s org hh u plaintext =
     res_bind (encryptEnvelope (wb_aead s) (wb_iv s) plaintext (su_key u) (upload_context org hh u)) (\<lambda>e.
       Inr (utf8_bytes (json_stringify (JObj (envelope_members e)))))"

definition document_call :: "'x web_server \<Rightarrow> upload_request \<Rightarrow> started_upload \<Rightarrow> string \<Rightarrow> string \<Rightarrow> string \<Rightarrow> ('x, json) api" where
  "document_call s rq u what key sealed = apiJson s rq (''/v1/documents/'' @ su_id u @ ''/'' @ what) ''POST''
     [(''idempotency-key'', key), (''if-match'', dec_int (su_version u))]
     (Some (JObj [(''ciphertextSha256'', JStr (hex_text (wb_sha256 s sealed)))]))"

definition object_put :: "'x web_server \<Rightarrow> string \<Rightarrow> string \<Rightarrow> web_put" where
  "object_put s url sealed = \<lparr> wp_url = url, wp_headers = [(''content-type'', ''application/vnd.legacy-vault.encrypted+json''),
     (''x-amz-checksum-sha256'', base64 (wb_sha256 s sealed))], wp_body = sealed \<rparr>"

text \<open>What follows the start of the upload: the sealed bytes go out, and nothing else of the document does.\<close>

definition store_document :: "'x web_server \<Rightarrow> upload_request \<Rightarrow> string \<Rightarrow> string \<Rightarrow> web_file \<Rightarrow> started_upload \<Rightarrow> ('x, json) api" where
  "store_document s rq org hh f u =
     api_bind (api_call (pure_result (seal_upload s org hh u (wf_bytes f)))) (\<lambda>sealed.
     api_bind (document_call s rq u ''upload-url'' (''web-document-url-'' @ wb_uuid s 2) sealed) (\<lambda>signed.
     api_bind (api_lift (answer_text signed ''uploadUrl'')) (\<lambda>url.
     api_bind (api_call (wb_put s (object_put s url sealed))) (\<lambda>status.
     api_bind (api_check (200 \<le> status \<and> status \<le> 299) (upstream 502 ''Encrypted object upload failed before processing.'')) (\<lambda>_.
     document_call s rq u ''complete'' (''web-document-complete-'' @ wb_uuid s 3) sealed)))))"

definition upload_document :: "'x web_server \<Rightarrow> upload_request \<Rightarrow> ('x, json) api" where
  "upload_document s rq =
     api_bind (api_check (origin_ok rq) (upstream 403 ''The upload origin is not allowed.'')) (\<lambda>_.
     api_bind (api_check (length_ok rq) (upstream 413 ''The upload request is too large.'')) (\<lambda>_.
     (case configured (wu_header rq ''x-household-id'') of
       None \<Rightarrow> api_fail (upstream 400 ''Select an active household before uploading.'')
     | Some hh \<Rightarrow>
     api_bind (api_call (pure_result (wu_form rq))) (\<lambda>form.
     api_bind (api_lift (form_document form)) (\<lambda>f.
     api_bind (api_lift (form_retention form)) (\<lambda>retention.
     api_bind (apiJson s rq ''/v1/households'' ''GET'' [] None) (\<lambda>households.
     api_bind (api_lift (active_organization hh households)) (\<lambda>org.
     api_bind (apiJson s rq ''/v1/documents'' ''POST'' (start_headers s) (Some (start_body s f retention))) (\<lambda>started.
     api_bind (api_lift (read_started started)) (\<lambda>u.
     store_document s rq org hh f u))))))))))"

definition upload_trace :: "'x web_server \<Rightarrow> upload_request \<Rightarrow> string" where
  "upload_trace s rq = (case wu_header rq ''x-request-id'' of Some t \<Rightarrow> t | None \<Rightarrow> wb_uuid s 0)"

definition upload_failure :: "'x web_server \<Rightarrow> upload_request \<Rightarrow> api_error \<Rightarrow> api_reply" where
  "upload_failure s rq e = (let (status, detail) = (case e of Problem n _ m \<Rightarrow> (n, m)
       | _ \<Rightarrow> (503, ''The encrypted upload could not be completed.'')) in
     \<lparr> rp_status = status, rp_headers = [(''cache-control'', ''no-store''), (''content-type'', ''application/problem+json'')],
       rp_payload = Json (JObj [(''type'', JStr ''about:blank''),
         (''title'', JStr (if status = 503 then ''Upload unavailable'' else ''Upload rejected'')), (''status'', JNum status),
         (''detail'', JStr detail), (''traceId'', JStr (upload_trace s rq))]) \<rparr>)"

definition post_upload :: "'x web_server \<Rightarrow> upload_request \<Rightarrow> 'x \<Rightarrow> api_reply \<times> 'x" where
  "post_upload s rq x = (case upload_document s rq x of
       (Inr v, x') \<Rightarrow> (\<lparr> rp_status = 202, rp_headers = [(''cache-control'', ''no-store'')], rp_payload = Json v \<rparr>, x')
     | (Inl e, x') \<Rightarrow> (upload_failure s rq e, x'))"

section \<open>What goes over the network\<close>

text \<open>The web server with the calls and the puts it makes on record.\<close>

datatype traffic = Asked web_call "http_response result" | Stored web_put "int result"

definition recording :: "'x web_server \<Rightarrow> ('x \<times> traffic list) web_server" where
  "recording s = \<lparr> wb_api_base = wb_api_base s, wb_production = wb_production s, wb_urls = wb_urls s,
     wb_fetch = (\<lambda>c (x, tr). case wb_fetch s c x of (r, x') \<Rightarrow> (r, (x', tr @ [Asked c r]))),
     wb_put = (\<lambda>p (x, tr). case wb_put s p x of (r, x') \<Rightarrow> (r, (x', tr @ [Stored p r]))),
     wb_uuid = wb_uuid s, wb_iv = wb_iv s, wb_aead = wb_aead s, wb_sha256 = wb_sha256 s \<rparr>"

lemma recording_simps [simp]:
  "wb_api_base (recording s) = wb_api_base s" "wb_iv (recording s) = wb_iv s" "wb_uuid (recording s) = wb_uuid s"
  "wb_aead (recording s) = wb_aead s" "wb_sha256 (recording s) = wb_sha256 s" "wb_production (recording s) = wb_production s"
  "wb_urls (recording s) = wb_urls s" "seal_upload (recording s) = seal_upload s" "object_put (recording s) = object_put s"
  "start_body (recording s) = start_body s" "start_headers (recording s) = start_headers s"
  "apiBase (recording s) = apiBase s"
  by (simp_all add: recording_def seal_upload_def object_put_def start_body_def start_headers_def apiBase_def fun_eq_iff
      cong: option.case_cong)

text \<open>
  The answers the API gave in a log: the answer to a GET of the households, and to the request that
  started the upload of a file.
\<close>

definition answered :: "traffic list \<Rightarrow> string \<Rightarrow> string \<Rightarrow> json option \<Rightarrow> json \<Rightarrow> bool" where
  "answered tr http_method path body v \<longleftrightarrow> (\<exists>c r. Asked c (Inr r) \<in> set tr \<and> wc_path c = path \<and> wc_method c = http_method
     \<and> wc_body c = body \<and> hr_json r = Inr v \<and> 200 \<le> hr_status r \<and> hr_status r \<le> 299)"

definition upload_started :: "'x web_server \<Rightarrow> upload_request \<Rightarrow> traffic list \<Rightarrow> web_file \<Rightarrow> string \<Rightarrow> string \<Rightarrow> started_upload \<Rightarrow> bool" where
  "upload_started s rq tr f org hh u \<longleftrightarrow> (\<exists>form households retention started.
     wu_form rq = Inr form \<and> form_document form = Inr f \<and> form_retention form = Inr retention
     \<and> wu_header rq ''x-household-id'' = Some hh
     \<and> answered tr ''GET'' ''/v1/households'' None households \<and> active_organization hh households = Inr org
     \<and> answered tr ''POST'' ''/v1/documents'' (Some (start_body s f retention)) started \<and> read_started started = Inr u)"

definition puts_justified :: "'x web_server \<Rightarrow> upload_request \<Rightarrow> traffic list \<Rightarrow> bool" where
  "puts_justified s rq tr \<longleftrightarrow> (\<forall>p r. Stored p r \<in> set tr \<longrightarrow> (\<exists>f org hh u url sealed. upload_started s rq tr f org hh u
     \<and> seal_upload s org hh u (wf_bytes f) = Inr sealed \<and> p = object_put s url sealed))"

text \<open>From a log with \<open>I\<close>, a step ends with a justified log, and a result with \<open>Q\<close>.\<close>

definition step_ok :: "'x web_server \<Rightarrow> upload_request \<Rightarrow> (traffic list \<Rightarrow> bool) \<Rightarrow> ('x \<times> traffic list, 'a) api
   \<Rightarrow> ('a \<Rightarrow> traffic list \<Rightarrow> bool) \<Rightarrow> bool" where
  "step_ok s rq I m Q \<longleftrightarrow> (\<forall>x tr r x' tr'. I tr \<longrightarrow> puts_justified s rq tr \<longrightarrow> m (x, tr) = (r, (x', tr')) \<longrightarrow>
     puts_justified s rq tr' \<and> (\<forall>a. r = Inr a \<longrightarrow> Q a tr'))"

lemma step_ok_bind:
  assumes "step_ok s rq I m Q" and "\<And>a. step_ok s rq (Q a) (f a) R"
  shows "step_ok s rq I (api_bind m f) R"
  unfolding step_ok_def
proof (intro allI impI)
  fix x tr r x' tr'
  assume I: "I tr" and J: "puts_justified s rq tr" and run: "api_bind m f (x, tr) = (r, (x', tr'))"
  obtain r1 x1 tr1 where m: "m (x, tr) = (r1, (x1, tr1))" by (metis prod.collapse)
  with assms(1) I J have 1: "puts_justified s rq tr1" "\<And>a. r1 = Inr a \<Longrightarrow> Q a tr1" unfolding step_ok_def by blast+
  show "puts_justified s rq tr' \<and> (\<forall>a. r = Inr a \<longrightarrow> R a tr')"
  proof (cases r1)
    case (Inl e)
    with run m 1 show ?thesis by (auto simp: api_bind_def)
  next
    case (Inr a)
    with run m have "f a (x1, tr1) = (r, (x', tr'))" by (simp add: api_bind_def)
    with assms(2) [of a] 1 Inr show ?thesis unfolding step_ok_def by blast
  qed
qed

lemma step_ok_lift [intro]: "(\<And>a tr. I tr \<Longrightarrow> v = Inr a \<Longrightarrow> Q a tr) \<Longrightarrow> step_ok s rq I (api_lift v) Q"
  by (auto simp: step_ok_def api_lift_def)

lemma step_ok_pure [intro]: "(\<And>a tr. I tr \<Longrightarrow> v = Inr a \<Longrightarrow> Q a tr) \<Longrightarrow> step_ok s rq I (api_call (pure_result v)) Q"
  by (cases v) (auto simp: step_ok_def api_call_def pure_result_def)

lemma step_ok_check [intro]: "(\<And>tr. I tr \<Longrightarrow> b \<Longrightarrow> Q () tr) \<Longrightarrow> step_ok s rq I (api_check b e) Q"
  by (auto simp: step_ok_def api_check_def api_return_def api_fail_def)

lemma step_ok_fail [intro]: "step_ok s rq I (api_fail e) Q"
  by (auto simp: step_ok_def api_fail_def)

lemma answered_append: "answered tr http_method path body v \<Longrightarrow> answered (tr @ es) http_method path body v"
  by (fastforce simp: answered_def)

lemma upload_started_append: "upload_started s rq tr f org hh u \<Longrightarrow> upload_started s rq (tr @ es) f org hh u"
  unfolding upload_started_def by (meson answered_append)

lemma puts_justified_asked: "puts_justified s rq tr \<Longrightarrow> puts_justified s rq (tr @ [Asked c r])"
  unfolding puts_justified_def using upload_started_append by fastforce

lemma puts_justified_stored:
  assumes "puts_justified s rq tr" "upload_started s rq tr f org hh u" "seal_upload s org hh u (wf_bytes f) = Inr sealed"
  shows "puts_justified s rq (tr @ [Stored (object_put s url sealed) r])"
  using assms upload_started_append unfolding puts_justified_def by fastforce

text \<open>A fact about the log that stays when the log grows.\<close>

definition lasting :: "(traffic list \<Rightarrow> bool) \<Rightarrow> bool" where
  "lasting I \<longleftrightarrow> (\<forall>tr es. I tr \<longrightarrow> I (tr @ es))"

lemma step_ok_apiJson:
  assumes "lasting I"
  shows "step_ok s rq I (apiJson (recording s) rq' path http_method init body)
    (\<lambda>v tr. I tr \<and> answered tr http_method path body v)"
proof -
  let ?c = "\<lambda>base. \<lparr> wc_base = up_href base, wc_path = path, wc_method = http_method,
       wc_headers = call_headers (wu_header rq') init body, wc_body = body \<rparr>"
  let ?asked = "\<lambda>c r tr. \<exists>tr0. tr = tr0 @ [Asked c (Inr r)] \<and> I tr0"
  show ?thesis unfolding apiJson_def recording_simps
  proof (rule step_ok_bind [where Q = "\<lambda>_. I"])
    show "step_ok s rq I (api_call (pure_result (apiBase s))) (\<lambda>_. I)" by blast
    fix base
    show "step_ok s rq I (api_bind (api_call (wb_fetch (recording s) (?c base))) (\<lambda>response.
        api_bind (api_call (pure_result (hr_json response))) (\<lambda>payload.
        if 200 \<le> hr_status response \<and> hr_status response \<le> 299 then api_return payload
        else if payload = JNull then api_fail (Raised (Thrown ''TypeError'' ''detail of null''))
        else api_fail (upstream (hr_status response) (rejection_detail payload)))))
        (\<lambda>v tr. I tr \<and> answered tr http_method path body v)"
    proof (rule step_ok_bind [where Q = "?asked (?c base)"])
      show "step_ok s rq I (api_call (wb_fetch (recording s) (?c base))) (?asked (?c base))"
        unfolding step_ok_def api_call_def recording_def
        by (auto simp: puts_justified_asked split: prod.splits sum.splits)
      fix response
      show "step_ok s rq (?asked (?c base) response) (api_bind (api_call (pure_result (hr_json response))) (\<lambda>payload.
        if 200 \<le> hr_status response \<and> hr_status response \<le> 299 then api_return payload
        else if payload = JNull then api_fail (Raised (Thrown ''TypeError'' ''detail of null''))
        else api_fail (upstream (hr_status response) (rejection_detail payload))))
        (\<lambda>v tr. I tr \<and> answered tr http_method path body v)"
      proof (rule step_ok_bind [where Q = "\<lambda>v tr. ?asked (?c base) response tr \<and> hr_json response = Inr v"])
        show "step_ok s rq (?asked (?c base) response) (api_call (pure_result (hr_json response)))
            (\<lambda>v tr. ?asked (?c base) response tr \<and> hr_json response = Inr v)" by blast
        fix payload
        show "step_ok s rq (\<lambda>tr. ?asked (?c base) response tr \<and> hr_json response = Inr payload)
          (if 200 \<le> hr_status response \<and> hr_status response \<le> 299 then api_return payload
            else if payload = JNull then api_fail (Raised (Thrown ''TypeError'' ''detail of null''))
            else api_fail (upstream (hr_status response) (rejection_detail payload)))
          (\<lambda>v tr. I tr \<and> answered tr http_method path body v)"
          using assms by (auto simp: step_ok_def api_return_def api_fail_def answered_def lasting_def
              intro!: exI [of _ "?c base"] exI [of _ response])
      qed
    qed
  qed
qed

lemma lasting_rules [intro]:
  "lasting (\<lambda>tr. P)" "lasting (\<lambda>tr. answered tr http_method path body v)" "lasting (\<lambda>tr. upload_started s rq tr f org hh u)"
  "lasting I \<Longrightarrow> lasting J \<Longrightarrow> lasting (\<lambda>tr. I tr \<and> J tr)"
  by (auto simp: lasting_def answered_append upload_started_append)

lemma step_ok_known:
  "step_ok s rq I (api_lift v) (\<lambda>a tr. I tr \<and> v = Inr a)" "step_ok s rq I (api_call (pure_result w)) (\<lambda>a tr. I tr \<and> w = Inr a)"
  "step_ok s rq I (api_check b e) (\<lambda>_ tr. I tr \<and> b)"
  by blast+

lemma step_ok_put:
  assumes "\<And>tr. I tr \<Longrightarrow> upload_started s rq tr f org hh u" "seal_upload s org hh u (wf_bytes f) = Inr sealed"
  shows "step_ok s rq I (api_call (wb_put (recording s) (object_put s url sealed))) (\<lambda>_ _. True)"
  unfolding step_ok_def api_call_def recording_def
  using assms by (auto intro!: puts_justified_stored split: prod.splits sum.splits)

lemma step_ok_weaken: "step_ok s rq I m Q \<Longrightarrow> (\<And>tr. I' tr \<Longrightarrow> I tr) \<Longrightarrow> step_ok s rq I' m Q"
  unfolding step_ok_def by blast

lemma step_ok_any: "step_ok s rq I m Q \<Longrightarrow> (\<And>a tr. Q a tr \<Longrightarrow> R a tr) \<Longrightarrow> step_ok s rq I m R"
  unfolding step_ok_def by blast

lemma step_ok_store_document:
  "step_ok s rq (\<lambda>tr. upload_started s rq tr f org hh u) (store_document (recording s) rq org hh f u) (\<lambda>_ _. True)"
  unfolding store_document_def document_call_def recording_simps
proof (rule step_ok_bind [OF step_ok_known(2)], rule step_ok_bind [OF step_ok_apiJson], intro lasting_rules,
    rule step_ok_bind [OF step_ok_known(1)])
  fix sealed signed url
  let ?call = "\<lambda>what key. apiJson (recording s) rq (''/v1/documents/'' @ su_id u @ ''/'' @ what) ''POST''
     [(''idempotency-key'', key), (''if-match'', dec_int (su_version u))]
     (Some (JObj [(''ciphertextSha256'', JStr (hex_text (wb_sha256 s sealed)))]))"
  let ?I = "\<lambda>tr. ((upload_started s rq tr f org hh u \<and> seal_upload s org hh u (wf_bytes f) = Inr sealed)
      \<and> answered tr ''POST'' (''/v1/documents/'' @ su_id u @ ''/'' @ ''upload-url'')
          (Some (JObj [(''ciphertextSha256'', JStr (hex_text (wb_sha256 s sealed)))])) signed)
      \<and> answer_text signed ''uploadUrl'' = Inr url"
  have rest: "step_ok s rq (\<lambda>_. True) (api_bind (api_check (200 \<le> status \<and> status \<le> 299)
        (upstream 502 ''Encrypted object upload failed before processing.''))
        (\<lambda>_. ?call ''complete'' (''web-document-complete-'' @ wb_uuid s 3))) (\<lambda>_ _. True)" for status
    by (rule step_ok_bind [where Q = "\<lambda>_ _. True"], blast, rule step_ok_any [OF step_ok_apiJson], intro lasting_rules, simp)
  show "step_ok s rq ?I (api_bind (api_call (wb_put (recording s) (object_put s url sealed))) (\<lambda>status.
      api_bind (api_check (200 \<le> status \<and> status \<le> 299) (upstream 502 ''Encrypted object upload failed before processing.''))
        (\<lambda>_. ?call ''complete'' (''web-document-complete-'' @ wb_uuid s 3)))) (\<lambda>_ _. True)"
  proof (cases "seal_upload s org hh u (wf_bytes f) = Inr sealed")
    case True
    then show ?thesis by (intro step_ok_bind [OF step_ok_put [OF _ True] rest]) blast
  next
    case False
    then show ?thesis by (simp add: step_ok_def)
  qed
qed

lemma step_ok_upload: "step_ok s rq (\<lambda>_. True) (upload_document (recording s) rq) (\<lambda>_ _. True)"
proof (cases "configured (wu_header rq ''x-household-id'')")
  case None
  show ?thesis unfolding upload_document_def None
    by (intro step_ok_bind [where Q = "\<lambda>_ _. True"] step_ok_check) auto
next
  case (Some hh)
  then have header: "wu_header rq ''x-household-id'' = Some hh" by (auto simp: configured_def split: option.splits if_splits)
  have store: "step_ok s rq I (store_document (recording s) rq org hh f u) (\<lambda>_ _. True)"
    if "\<And>tr. I tr \<Longrightarrow> upload_started s rq tr f org hh u" for I f org u
    by (rule step_ok_weaken [OF step_ok_store_document that])
  show ?thesis unfolding upload_document_def Some option.case recording_simps
    apply (rule step_ok_bind [OF step_ok_known(3)])
    apply (rule step_ok_bind [OF step_ok_known(3)])
    apply (rule step_ok_bind [OF step_ok_known(2)])
    apply (rule step_ok_bind [OF step_ok_known(1)])
    apply (rule step_ok_bind [OF step_ok_known(1)])
    apply (rule step_ok_bind [OF step_ok_apiJson], intro lasting_rules)
    apply (rule step_ok_bind [OF step_ok_known(1)])
    apply (rule step_ok_bind [OF step_ok_apiJson], intro lasting_rules)
    apply (rule step_ok_bind [OF step_ok_known(1)])
    apply (rule store)
    using header by (auto simp: upload_started_def)
qed

section \<open>A stored upload is opened by the worker\<close>

text \<open>
  The row the API keeps of a started upload, as the scan worker sees it: its identifier, key version and
  checksum are those of the start, and its wrapped key opens, under the household key, to the data key
  that the API returned for originals.
\<close>

definition started_row :: "'x web_server \<Rightarrow> tenant_context \<Rightarrow> string \<Rightarrow> document_row \<Rightarrow> web_file \<Rightarrow> started_upload \<Rightarrow> bool" where
  "started_row s ctx key q f u \<longleftrightarrow> row_id q = su_id u \<and> d_key_version q = su_key_version u
     \<and> d_sha256 q = hex_text (wb_sha256 s (wf_bytes f)) \<and> su_purpose u = ''document-original''
     \<and> document_data_key (wb_aead s) ctx (read_upload q) key = Inr (su_key u)"

lemma sealed_opens:
  assumes "aead_ok (wb_aead s)" "length (wb_iv s) = 12" "seal_upload s org hh u (wf_bytes f) = Inr sealed"
    "tc_org ctx = org" "tc_hh ctx = hh" "started_row s ctx key q f u"
  shows "opens_to (wb_aead s) (wb_sha256 s) ctx q key sealed (wf_bytes f)"
proof -
  from assms(3) obtain e where e: "encryptEnvelope (wb_aead s) (wb_iv s) (wf_bytes f) (su_key u) (upload_context org hh u) = Inr e"
    "sealed = utf8_bytes (json_stringify (JObj (envelope_members e)))" by (auto simp: seal_upload_def)
  have "document_context ctx (read_upload q) ''document-original'' = upload_context org hh u"
    using assms(4-6) by (simp add: document_context_def read_upload_def upload_context_def started_row_def)
  moreover have "ur_sha256 (read_upload q) = hex_text (wb_sha256 s (wf_bytes f))"
    using assms(6) by (simp add: started_row_def read_upload_def)
  moreover have "document_data_key (wb_aead s) ctx (read_upload q) key = Inr (su_key u)"
    using assms(6) by (simp add: started_row_def)
  ultimately show ?thesis
    using e envelope_read_back(1,3) [OF e(1)] decrypt_encrypt_plain [OF assms(1,2) e(1)]
    by (simp add: opens_to_def open_original_def del: json_stringify.simps)
qed


definition sample_answer_of :: "string \<Rightarrow> json" where
  "sample_answer_of path = (if path = ''/v1/households''
     then JObj [(''households'', JArr [JObj [(''id'', JStr ''h''), (''organizationId'', JStr ''o'')]])]
     else if path = ''/v1/documents''
     then JObj [(''document'', JObj [(''id'', JStr ''q''), (''version'', JNum 1)]),
       (''encryption'', JObj [(''keyBase64'', JStr (base64 sample_key)), (''keyVersion'', JNum 1),
         (''purpose'', JStr ''document-original'')])]
     else JObj [(''uploadUrl'', JStr ''https://objects.test/q'')])"

definition sample_web :: "unit web_server" where
  "sample_web = \<lparr> wb_api_base = Some ''https://api.test/'', wb_production = True,
     wb_urls = (\<lambda>t. Some \<lparr> up_href = t, up_protocol = ''https:'', up_hostname = ''api.test'' \<rparr>),
     wb_fetch = (\<lambda>c x. (Inr \<lparr> hr_status = 200, hr_json = Inr (sample_answer_of (wc_path c)) \<rparr>, x)),
     wb_put = (\<lambda>p x. (Inr 200, x)), wb_uuid = (\<lambda>n. ''1''), wb_iv = sample_iv, wb_aead = plain_aead,
     wb_sha256 = sample_digest \<rparr>"

definition sample_upload :: upload_request where
  "sample_upload = \<lparr> wu_header = [''x-household-id'' \<mapsto> ''h''], wu_origin = ''https://web.test'',
     wu_form = Inr [(''document'', FormFile \<lparr> wf_bytes = ''%PDF-1.7'', wf_type = ''application/pdf'' \<rparr>),
       (''documentConsent'', FormText ''on''), (''retention'', FormText ''keep'')] \<rparr>"

lemma sample_upload_sealed: "\<exists>sealed. seal_upload sample_web ''o'' ''h''
    \<lparr> su_id = ''q'', su_version = 1, su_key = sample_key, su_key_version = 1, su_purpose = ''document-original'' \<rparr> ''%PDF-1.7''
    = Inr sealed" (is "\<exists>sealed. seal_upload _ _ _ ?u _ = _")
  using assoc_ok [of "upload_context ''o'' ''h'' ?u"]
  by (auto simp: seal_upload_def upload_context_def sample_web_def encryptEnvelope_def assertAesKey_def
      case_prod_beta)

lemma sample_upload_stores:
  "\<exists>reply tr p r. post_upload (recording sample_web) sample_upload ((), []) = (reply, ((), tr)) \<and> Stored p r \<in> set tr
     \<and> (\<forall>c a. Asked c a \<in> set tr \<longrightarrow> a = Inr \<lparr> hr_status = 200, hr_json = Inr (sample_answer_of (wc_path c)) \<rparr>)"
proof -
  obtain sealed where seal: "seal_upload sample_web ''o'' ''h''
    \<lparr> su_id = ''q'', su_version = 1, su_key = sample_key, su_key_version = 1, su_purpose = ''document-original'' \<rparr> ''%PDF-1.7''
    = Inr sealed" using sample_upload_sealed by blast
  have base: "apiBase sample_web = Inr \<lparr> up_href = ''https://api.test/'', up_protocol = ''https:'', up_hostname = ''api.test'' \<rparr>"
    by (simp add: apiBase_def sample_web_def configured_def parse_url_def)
  have ask: "apiJson (recording sample_web) rq path verb init body ((), tr)
      = (Inr (sample_answer_of path), ((), tr @ [Asked \<lparr> wc_base = ''https://api.test/'', wc_path = path, wc_method = verb,
          wc_headers = call_headers (wu_header rq) init body, wc_body = body \<rparr>
          (Inr \<lparr> hr_status = 200, hr_json = Inr (sample_answer_of path) \<rparr>)]))" for rq path verb init body tr
    by (simp add: apiJson_def base api_bind_def api_call_def pure_result_def api_return_def)
      (simp add: recording_def sample_web_def api_bind_def api_call_def pure_result_def api_return_def)
  have put: "wb_put (recording sample_web) p ((), tr) = (Inr 200, ((), tr @ [Stored p (Inr 200)]))" for p tr
    by (simp add: recording_def sample_web_def)
  let ?form = "[(''document'', FormFile \<lparr> wf_bytes = ''%PDF-1.7'', wf_type = ''application/pdf'' \<rparr>),
       (''documentConsent'', FormText ''on''), (''retention'', FormText ''keep'')]"
  have form: "form_document ?form = Inr \<lparr> wf_bytes = ''%PDF-1.7'', wf_type = ''application/pdf'' \<rparr>"
    "form_retention ?form = Inr ''keep''"
    by (simp_all add: form_document_def form_retention_def upload_types_def)
  have reads: "active_organization ''h'' (sample_answer_of ''/v1/households'') = Inr ''o''"
    "read_started (sample_answer_of ''/v1/documents'') = Inr \<lparr> su_id = ''q'', su_version = 1, su_key = sample_key,
       su_key_version = 1, su_purpose = ''document-original'' \<rparr>"
    "answer_text (sample_answer_of (''/v1/documents/q/upload-url'')) ''uploadUrl'' = Inr ''https://objects.test/q''"
    by (simp_all add: sample_answer_of_def active_organization_def answer_text_def read_started_def sum_bind_def
        answer_object_def answer_int_def)
  have req: "configured (wu_header sample_upload ''x-household-id'') = Some ''h''" "origin_ok sample_upload" "length_ok sample_upload"
    "wu_form sample_upload = Inr ?form"
    by (simp_all add: sample_upload_def configured_def origin_ok_def length_ok_def)
  show ?thesis
    unfolding post_upload_def upload_document_def store_document_def document_call_def req(1)
    by (simp add: api_bind_def api_check_def api_return_def api_lift_def api_call_def pure_result_def req(2,3) form ask put reads seal
        req(4) case_prod_beta)
qed

lemma sample_row_started:
  "\<exists>wrapped. started_row sample_web report_ctx sample_key (sample_document wrapped) \<lparr> wf_bytes = ''%PDF-1.7'', wf_type = ''application/pdf'' \<rparr>
    \<lparr> su_id = ''q'', su_version = 1, su_key = sample_key, su_key_version = 1, su_purpose = ''document-original'' \<rparr>"
proof -
  let ?c = "\<lparr> ec_org = ''o'', ec_hh = ''h'', ec_record = ''q'', ec_purpose = ''document-data-key'', ec_version = 1 \<rparr>"
  obtain e where e: "encryptEnvelope plain_aead sample_iv sample_key sample_key ?c = Inr e"
    using assoc_ok [of ?c] by (auto simp: encryptEnvelope_Inr)
  have "document_data_key plain_aead report_ctx (read_upload (sample_document (JObj (envelope_members e)))) sample_key = Inr sample_key"
    using envelope_read_back(1) [OF e] decrypt_encrypt_plain [OF plain_aead_ok _ e]
    by (simp add: document_data_key_def document_context_def read_upload_def sample_document_def)
  then show ?thesis
    by (intro exI [of _ "JObj (envelope_members e)"]) (simp add: started_row_def sample_document_def sample_web_def sample_digest_def)
qed


end
