(* ===== verification/Web_Client.thy ===== *)
theory Web_Client
  imports Web_Upload
begin

text \<open>
  The web application's way to the API: the proxy of its server (\<open>apps/web/app/_lib/proxy.ts\<close> and
  the two catch-all routes over it) and the client that runs in the browser
  (\<open>apps/web/app/_lib/api-client.ts\<close>).
\<close>

section \<open>The proxy\<close>

definition proxied_request_headers :: "string list" where
  "proxied_request_headers = [''accept'', ''content-type'', ''cookie'', ''idempotency-key'', ''if-match'', ''origin'', ''user-agent'',
     ''x-household-id'', ''x-request-id'']"

definition proxied_response_headers :: "string list" where
  "proxied_response_headers = [''cache-control'', ''content-disposition'', ''content-type'', ''location'', ''set-cookie'',
     ''x-content-type-options'', ''x-request-id'']"

record browser_request =
  bq_header :: "string \<Rightarrow> string option"
  bq_method :: string
  bq_search :: string
  bq_body :: string

record upstream_call =
  uc_base :: string
  uc_path :: string
  uc_search :: string
  uc_method :: string
  uc_headers :: "string \<rightharpoonup> string"
  uc_body :: "string option"

record upstream_reply =
  uy_status :: int
  uy_header :: "string \<Rightarrow> string option"
  uy_cookies :: "string list"
  uy_body :: string

datatype proxied_body = Upstream string | Unavailable json

record proxied_reply =
  px_status :: int
  px_headers :: "string \<rightharpoonup> string"
  px_cookies :: "string list"
  px_body :: proxied_body

definition proxy_trace :: "'x web_server \<Rightarrow> browser_request \<Rightarrow> string" where
  "proxy_trace s rq = (case bq_header rq ''x-request-id'' of Some t \<Rightarrow> t | None \<Rightarrow> wb_uuid s 0)"

definition proxy_unavailable :: "string \<Rightarrow> proxied_reply" where
  "proxy_unavailable trace = \<lparr> px_status = 503,
     px_headers = [''cache-control'' \<mapsto> ''no-store'', ''content-type'' \<mapsto> ''application/problem+json''], px_cookies = [],
     px_body = Unavailable (JObj [(''type'', JStr ''about:blank''), (''title'', JStr ''Service unavailable''), (''status'', JNum 503),
       (''detail'', JStr ''Legacy Vault could not reach its API.''), (''traceId'', JStr trace)]) \<rparr>"

definition proxy_call :: "'x web_server \<Rightarrow> url_parts \<Rightarrow> browser_request \<Rightarrow> string \<Rightarrow> upstream_call" where
  "proxy_call s base rq path = \<lparr> uc_base = up_href base, uc_path = path, uc_search = bq_search rq, uc_method = bq_method rq,
     uc_headers = (forwarded proxied_request_headers (bq_header rq))(''x-request-id'' \<mapsto> proxy_trace s rq),
     uc_body = (if bq_method rq \<notin> {''GET'', ''HEAD''} then Some (bq_body rq) else None) \<rparr>"

definition proxy_answer :: "upstream_reply \<Rightarrow> proxied_reply" where
  "proxy_answer r = \<lparr> px_status = uy_status r,
     px_headers = (forwarded (filter (\<lambda>n. n \<noteq> ''set-cookie'') proxied_response_headers) (uy_header r))(''cache-control'' \<mapsto> ''no-store''),
     px_cookies = uy_cookies r, px_body = Upstream (uy_body r) \<rparr>"

definition proxyApiRequest ::
  "'x web_server \<Rightarrow> (upstream_call \<Rightarrow> ('x, upstream_reply) world_op) \<Rightarrow> browser_request \<Rightarrow> string \<Rightarrow> 'x \<Rightarrow> proxied_reply \<times> 'x" where
  "proxyApiRequest s fetch rq path x = (case apiBase s of
       Inl _ \<Rightarrow> (proxy_unavailable (proxy_trace s rq), x)
     | Inr base \<Rightarrow> (case fetch (proxy_call s base rq path) x of
         (Inl _, x') \<Rightarrow> (proxy_unavailable (proxy_trace s rq), x')
       | (Inr r, x') \<Rightarrow> (proxy_answer r, x')))"

text \<open>\<open>encodeURIComponent\<close>: every byte of a character outside the unreserved marks becomes \<open>%XX\<close>.\<close>

definition upper_hex :: "nat \<Rightarrow> char" where
  "upper_hex n = ''0123456789ABCDEF'' ! n"

definition unreserved :: "char \<Rightarrow> bool" where
  "unreserved = cor alnum (one_of (''-_.!~*()'' @ [CHR 39]))"

definition percent_byte :: "char \<Rightarrow> string" where
  "percent_byte b = [CHR ''%'', upper_hex (byte_val b div 16), upper_hex (byte_val b mod 16)]"

definition encodeURIComponent :: "string \<Rightarrow> string" where
  "encodeURIComponent t = concat (map (\<lambda>c. if unreserved c then [c] else concat (map percent_byte (utf8_bytes [c]))) t)"

definition api_route_path :: "string \<Rightarrow> string list \<Rightarrow> string" where
  "api_route_path prefix path = prefix @ join ''/'' (map encodeURIComponent path)"

definition v1_route :: "'x web_server \<Rightarrow> (upstream_call \<Rightarrow> ('x, upstream_reply) world_op) \<Rightarrow> browser_request \<Rightarrow> string list \<Rightarrow> 'x
   \<Rightarrow> proxied_reply \<times> 'x" where
  "v1_route s fetch rq path = proxyApiRequest s fetch rq (api_route_path ''/v1/'' path)"

definition auth_route :: "'x web_server \<Rightarrow> (upstream_call \<Rightarrow> ('x, upstream_reply) world_op) \<Rightarrow> browser_request \<Rightarrow> string list \<Rightarrow> 'x
   \<Rightarrow> proxied_reply \<times> 'x" where
  "auth_route s fetch rq path = proxyApiRequest s fetch rq (api_route_path ''/api/auth/'' path)"

text \<open>A segment of the path cannot start another segment, a query or a fragment.\<close>

lemma upper_hex_alnum: "n < 16 \<Longrightarrow> upper_hex n \<in> set ''0123456789ABCDEF''"
  unfolding upper_hex_def by (rule nth_mem) simp

definition separator :: "char \<Rightarrow> bool" where
  "separator = one_of ''/?#''"

lemma unreserved_plain: "unreserved c \<Longrightarrow> \<not> separator c"
  by (auto simp: separator_def unreserved_def cor_def one_of_def alnum_def crange_def)

lemma hex_plain: "n < 16 \<Longrightarrow> \<not> separator (upper_hex n)"
  using upper_hex_alnum [of n] by (auto simp: separator_def one_of_def)

lemma percent_byte_plain: "c \<in> set (percent_byte b) \<Longrightarrow> \<not> separator c"
proof -
  have "byte_val b div 16 < 16" using byte_val_less [of b] by (simp add: less_mult_imp_div_less)
  then have "\<not> separator (upper_hex (byte_val b div 16))" "\<not> separator (upper_hex (byte_val b mod 16))" "\<not> separator (CHR ''%'')"
    by (simp_all add: hex_plain) (simp add: separator_def one_of_def)
  then show "c \<in> set (percent_byte b) \<Longrightarrow> \<not> separator c" unfolding percent_byte_def by auto
qed

lemma encoded_segment_plain: "c \<in> set (encodeURIComponent t) \<Longrightarrow> \<not> separator c"
  unfolding encodeURIComponent_def using unreserved_plain percent_byte_plain by (auto split: if_splits)

section \<open>The browser's client\<close>

text \<open>The household kept in the local storage, and the services.\<close>

record 'x browser =
  bw_household :: "string option"
  bw_services :: 'x

record client_call =
  cc_path :: string
  cc_method :: string
  cc_headers :: "string \<rightharpoonup> string"
  cc_body :: "json option"

record client_reply =
  cy_status :: int
  cy_type :: "string option"
  cy_json :: "json result"
  cy_text :: "string result"

datatype client_error = ApiRequestError string int "json option" | ClientFailed err

type_synonym ('x, 'a) client = "'x browser \<Rightarrow> (client_error + 'a) \<times> 'x browser"

type_synonym 'x client_fetch = "client_call \<Rightarrow> ('x, client_reply) world_op"

definition client_bind :: "('x, 'a) client \<Rightarrow> ('a \<Rightarrow> ('x, 'b) client) \<Rightarrow> ('x, 'b) client" where
  "client_bind m f w = (case m w of (Inl e, w') \<Rightarrow> (Inl e, w') | (Inr a, w') \<Rightarrow> f a w')"

definition client_fetch :: "'x client_fetch \<Rightarrow> client_call \<Rightarrow> ('x, client_reply) client" where
  "client_fetch fetch c w = (case fetch c (bw_services w) of
       (Inl e, x) \<Rightarrow> (Inl (ClientFailed e), w \<lparr> bw_services := x \<rparr>)
     | (Inr r, x) \<Rightarrow> (Inr r, w \<lparr> bw_services := x \<rparr>))"

definition client_result :: "'a result \<Rightarrow> ('x, 'a) client" where
  "client_result r w = (case r of Inl e \<Rightarrow> (Inl (ClientFailed e), w) | Inr a \<Rightarrow> (Inr a, w))"

text \<open>The first of the named members that is neither undefined nor null, as a text.\<close>

fun first_text :: "string list \<Rightarrow> string \<Rightarrow> json \<Rightarrow> string" where
  "first_text [] otherwise v = otherwise"
| "first_text (n # ns) otherwise v = (case jfield v n of
     None \<Rightarrow> first_text ns otherwise v
   | Some u \<Rightarrow> if u = JNull then first_text ns otherwise v else js_string u)"

definition read_reply_payload :: "client_reply \<Rightarrow> json result" where
  "read_reply_payload r = (if includes_text ''json'' (case cy_type r of None \<Rightarrow> [] | Some t \<Rightarrow> t) then cy_json r
     else res_bind (cy_text r) (\<lambda>t. Inr (JStr t)))"

definition send_request :: "'x client_fetch \<Rightarrow> string option \<Rightarrow> client_call \<Rightarrow> ('x, json) client" where
  "send_request fetch household c =
     (let h1 = (cc_headers c)(''accept'' \<mapsto> ''application/json'');
          h2 = (case Option.bind household (\<lambda>h. configured (Some h)) of None \<Rightarrow> h1 | Some h \<Rightarrow> h1(''x-household-id'' \<mapsto> h));
          h3 = (if cc_body c \<noteq> None \<and> h2 ''content-type'' = None then h2(''content-type'' \<mapsto> ''application/json'') else h2) in
     client_bind (client_fetch fetch (c \<lparr> cc_headers := h3 \<rparr>)) (\<lambda>r.
     client_bind (client_result (read_reply_payload r)) (\<lambda>payload.
     if 200 \<le> cy_status r \<and> cy_status r \<le> 299 then (\<lambda>w. (Inr payload, w))
     else (\<lambda>w. (Inl (ApiRequestError (first_text [''detail'', ''title''] ''The request could not be completed.'' payload)
       (cy_status r) (jfield payload ''traceId'')), w)))))"

definition households_call :: client_call where
  "households_call = \<lparr> cc_path = ''/v1/households'', cc_method = ''GET'', cc_headers = Map.empty, cc_body = None \<rparr>"

definition typed_array :: "json \<Rightarrow> string \<Rightarrow> json list result" where
  "typed_array v name = (case jfield v name of Some (JArr items) \<Rightarrow> Inr items | _ \<Rightarrow> Inl (Thrown ''TypeError'' ''unexpected answer''))"

text \<open>
  \<open>ensureActiveHousehold\<close>: the household in the storage, or else the first one of the account, which is
  then stored.  The promise that concurrent calls share has one user here.
\<close>

definition ensureActiveHousehold :: "'x client_fetch \<Rightarrow> string \<Rightarrow> ('x, string option) client" where
  "ensureActiveHousehold fetch path w =
     (if configured (bw_household w) \<noteq> None \<or> path = ''/v1/households'' \<or> \<not> starts_with ''/v1/'' path then (Inr (bw_household w), w)
      else client_bind (send_request fetch (bw_household w) households_call) (\<lambda>v.
        client_bind (client_result (typed_array v ''households'')) (\<lambda>items.
        case items of [] \<Rightarrow> (\<lambda>w. (Inr None, w))
        | item # _ \<Rightarrow> (case jfield item ''id'' of
            Some (JStr t) \<Rightarrow> (\<lambda>w. (Inr (Some t), if t = [] then w else w \<lparr> bw_household := Some t \<rparr>))
          | Some v \<Rightarrow> client_result (if v = JNull then Inr None else Inl (Thrown ''TypeError'' ''unexpected answer''))
          | None \<Rightarrow> (\<lambda>w. (Inr None, w))))) w)"

definition apiRequest :: "'x client_fetch \<Rightarrow> client_call \<Rightarrow> ('x, json) client" where
  "apiRequest fetch c = client_bind (ensureActiveHousehold fetch (cc_path c)) (\<lambda>household. send_request fetch household c)"

definition mutationHeaders :: "string \<Rightarrow> int \<Rightarrow> string \<rightharpoonup> string" where
  "mutationHeaders fresh version = [''idempotency-key'' \<mapsto> ''web-'' @ fresh, ''if-match'' \<mapsto> dec_int version]"

definition currentPersonId :: "'x client_fetch \<Rightarrow> ('x, string) client" where
  "currentPersonId fetch = client_bind (apiRequest fetch households_call) (\<lambda>v.
     client_bind (client_result (typed_array v ''households'')) (\<lambda>items w.
     (let selected = bw_household w;
          chosen = (case find (\<lambda>item. item = JNull \<or> (selected \<noteq> None \<and> jfield item ''id'' = map_option JStr selected)) items of
            Some item \<Rightarrow> Some item | None \<Rightarrow> (case items of [] \<Rightarrow> None | item # _ \<Rightarrow> Some item)) in
      case chosen of
        None \<Rightarrow> (Inl (ApiRequestError ''Create or join a household before continuing.'' 409 None), w)
      | Some item \<Rightarrow> (case (jfield item ''id'', jfield item ''personId'') of
          (Some (JStr i), Some (JStr person)) \<Rightarrow> (Inr person, if selected = Some i then w else w \<lparr> bw_household := Some i \<rparr>)
        | _ \<Rightarrow> (Inl (ClientFailed (Thrown ''TypeError'' ''unexpected answer'')), w)))))"

definition errorMessage :: "client_error \<Rightarrow> string" where
  "errorMessage e = (case e of
       ApiRequestError m _ trace \<Rightarrow> (case trace of
         Some t \<Rightarrow> if js_truthy t then m @ '' Reference: '' @ js_string t else m | None \<Rightarrow> m)
     | ClientFailed _ \<Rightarrow> ''The request could not be completed. Please try again.'')"

definition totp_code :: re where
  "totp_code = whole (times 6 (crange CHR ''0'' CHR ''9''))"

definition verifyTotpStepUp :: "'x client_fetch \<Rightarrow> string \<Rightarrow> ('x, unit) client" where
  "verifyTotpStepUp fetch code =
     (if \<not> re_test totp_code code then (\<lambda>w. (Inl (ApiRequestError ''Enter the six-digit authenticator code.'' 400 None), w))
      else client_bind (client_fetch fetch \<lparr> cc_path = ''/api/auth/two-factor/verify-totp'', cc_method = ''POST'',
          cc_headers = [''accept'' \<mapsto> ''application/json'', ''content-type'' \<mapsto> ''application/json''],
          cc_body = Some (JObj [(''code'', JStr code), (''trustDevice'', JBool False)]) \<rparr>) (\<lambda>r.
        client_bind (client_result (cy_json r)) (\<lambda>payload w.
        if 200 \<le> cy_status r \<and> cy_status r \<le> 299 then (Inr (), w)
        else if payload = JNull then (Inl (ClientFailed (Thrown ''TypeError'' ''detail of null'')), w)
        else (Inl (ApiRequestError (first_text [''detail'', ''message''] ''Multi-factor verification failed.'' payload)
          (cy_status r) (jfield payload ''traceId'')), w))))"

section \<open>The household of a request\<close>

lemma client_bind_Inr:
  "client_bind m f w = (Inr b, w') \<longleftrightarrow> (\<exists>a w1. m w = (Inr a, w1) \<and> f a w1 = (Inr b, w'))"
  by (auto simp: client_bind_def split: prod.splits sum.splits)

text \<open>What a call of the client sends, of the household it settled on.\<close>

definition household_header :: "string option \<Rightarrow> string option" where
  "household_header household = Option.bind household (\<lambda>h. configured (Some h))"

lemma settled_household_stored:
  assumes "ensureActiveHousehold fetch path w = (Inr household, w')" "starts_with ''/v1/'' path" "path \<noteq> ''/v1/households''"
    "household_header household \<noteq> None"
  shows "bw_household w' = household"
  using assms unfolding ensureActiveHousehold_def
  by (auto simp: client_bind_Inr client_result_def household_header_def configured_def
      split: if_splits list.splits option.splits json.splits sum.splits)

end
